(* ===== verification/JS_Prelude.thy ===== *)
theory JS_Prelude
  imports Main "HOL-Library.AList"
begin

text \<open>
  What the components share: the part of JavaScript's data model that the sources rely on,
  and the arithmetic of timestamps.

  Numbers. Every number of the modelled code is a millisecond timestamp, a duration, a
  counter or a limit. \<open>Date.now()\<close> is an integer far below \<open>2 ^ 53\<close>, so the doubles of the
  program are exact and \<open>int\<close> models them without rounding. A property that may be
  \<open>undefined\<close> is an \<open>int option\<close>; a comparison with \<open>undefined\<close> or \<open>NaN\<close> is false in the
  source, and each model spells that branch out.

  Objects. An object used as a dictionary is the list of its own keys (or an association
  list); \<open>k in o\<close> and \<open>o[k]\<close> also see what every plain object inherits from
  \<open>Object.prototype\<close>, which is \<open>object_prototype_keys\<close> below.

  Strings are lists of 8-bit characters.
\<close>

section \<open>Values\<close>

type_synonym time = int

text \<open>What the cache hands back: the JSON data a stored object is made of.\<close>

datatype jsval =
    JNull
  | JBool bool
  | JNum int
  | JStr string
  | JArr "jsval list"
  | JObj "(string \<times> jsval) list"

text \<open>
  The own properties of a value after \<open>object = object || {}\<close>: a missing object, and any
  value that is not an object, has none of the properties that the parsers read.
\<close>

fun js_fields :: "jsval option \<Rightarrow> (string \<times> jsval) list" where
  "js_fields (Some (JObj fs)) = fs"
| "js_fields _ = []"

definition get_num :: "jsval option \<Rightarrow> string \<Rightarrow> int option" where
  "get_num v k =
     (case map_of (js_fields v) k of Some (JNum n) \<Rightarrow> Some n | _ \<Rightarrow> None)"

fun num_of :: "jsval \<Rightarrow> int option" where
  "num_of (JNum n) = Some n"
| "num_of _ = None"

definition get_nums :: "jsval option \<Rightarrow> string \<Rightarrow> int list" where
  "get_nums v k =
     (case map_of (js_fields v) k of Some (JArr xs) \<Rightarrow> List.map_filter num_of xs | _ \<Rightarrow> [])"

text \<open>
  The fields an object literal contributes when it is turned into JSON: a property whose
  value is \<open>undefined\<close> is dropped.
\<close>

definition opt_num :: "string \<Rightarrow> int option \<Rightarrow> (string \<times> jsval) list" where
  "opt_num k v = (case v of None \<Rightarrow> [] | Some n \<Rightarrow> [(k, JNum n)])"

definition nums :: "int list \<Rightarrow> jsval" where
  "nums xs = JArr (map JNum xs)"

section \<open>Plain objects as dictionaries\<close>

definition object_prototype_keys :: "string list" where
  "object_prototype_keys =
     [''constructor'', ''__defineGetter__'', ''__defineSetter__'', ''hasOwnProperty'',
      ''__lookupGetter__'', ''__lookupSetter__'', ''isPrototypeOf'',
      ''propertyIsEnumerable'', ''toString'', ''valueOf'', ''__proto__'',
      ''toLocaleString'']"

text \<open>\<open>k in o\<close> for an object \<open>o\<close> with the own keys \<open>ks\<close>. It is also the truth value of \<open>o[k]\<close>
  when every own value is \<open>true\<close>: whatever is inherited is a function or an object, hence
  truthy.\<close>

definition js_in :: "string \<Rightarrow> string list \<Rightarrow> bool" where
  "js_in k ks \<longleftrightarrow> k \<in> set ks \<or> k \<in> set object_prototype_keys"

text \<open>
  \<open>o = {}; for (k of ks) o[k] = true; Object.keys(o)\<close>, in insertion order. Assigning a
  boolean to \<open>__proto__\<close> creates no property.
\<close>

definition add_key :: "string \<Rightarrow> string list \<Rightarrow> string list" where
  "add_key k ks = (if k = ''__proto__'' \<or> k \<in> set ks then ks else ks @ [k])"

definition js_keys_of :: "string list \<Rightarrow> string list" where
  "js_keys_of ks = fold add_key ks []"

section \<open>Strings\<close>

text \<open>\<open>s.split(c)\<close>\<close>

fun split_on :: "char \<Rightarrow> string \<Rightarrow> string list" where
  "split_on c [] = [[]]"
| "split_on c (x # xs) =
     (if x = c then [] # split_on c xs
      else (case split_on c xs of [] \<Rightarrow> [[x]] | w # ws \<Rightarrow> (x # w) # ws))"

text \<open>\<open>s.toLowerCase()\<close> on ASCII characters.\<close>

definition lower_char :: "char \<Rightarrow> char" where
  "lower_char c =
     (if 65 \<le> (of_char c :: nat) \<and> of_char c \<le> (90 :: nat)
      then char_of (of_char c + 32 :: nat) else c)"

definition toLowerCase :: "string \<Rightarrow> string" where
  "toLowerCase s = map lower_char s"

text \<open>What \<open>.\<close> in a regular expression does not match.\<close>

definition line_terminator :: "char \<Rightarrow> bool" where
  "line_terminator c \<longleftrightarrow> c = char_of (10 :: nat) \<or> c = char_of (13 :: nat)"

definition is_digit :: "char \<Rightarrow> bool" where
  "is_digit c \<longleftrightarrow> c \<in> set ''0123456789''"

definition digits_value :: "string \<Rightarrow> nat" where
  "digits_value s = foldl (\<lambda>v c. 10 * v + (of_char c - 48)) 0 s"

text \<open>The decimal string of a number, as in \<open>String(n)\<close> or a numeric property name.\<close>

fun show_nat :: "nat \<Rightarrow> string" where
  "show_nat n =
     (if n < 10 then [char_of (48 + n)] else show_nat (n div 10) @ [char_of (48 + n mod 10)])"

declare show_nat.simps [simp del]

definition show_int :: "int \<Rightarrow> string" where
  "show_int n = (if n < 0 then CHR ''-'' # show_nat (nat (- n)) else show_nat (nat n))"

section \<open>Timestamps\<close>

text \<open>\<open>ts || 0\<close>\<close>

definition js_or0 :: "time option \<Rightarrow> time" where
  "js_or0 ts = (case ts of None \<Rightarrow> 0 | Some t \<Rightarrow> t)"

text \<open>\<open>x || null\<close> of a string and of a number\<close>

definition truthy_string :: "string option \<Rightarrow> string option" where
  "truthy_string s = (case s of Some (c # cs) \<Rightarrow> Some (c # cs) | _ \<Rightarrow> None)"

definition truthy_int :: "int option \<Rightarrow> int option" where
  "truthy_int n = (case n of Some m \<Rightarrow> if m = 0 then None else Some m | None \<Rightarrow> None)"

text \<open>\<open>!!(ts && now - ts < interval)\<close>\<close>

definition within :: "time \<Rightarrow> time option \<Rightarrow> int \<Rightarrow> bool" where
  "within now ts interval \<longleftrightarrow>
     (case ts of None \<Rightarrow> False | Some t \<Rightarrow> t \<noteq> 0 \<and> now - t < interval)"

text \<open>The same test when the interval itself may be \<open>undefined\<close>: the comparison is then false.\<close>

definition within_opt :: "time \<Rightarrow> time option \<Rightarrow> int option \<Rightarrow> bool" where
  "within_opt now ts interval \<longleftrightarrow>
     (case interval of None \<Rightarrow> False | Some i \<Rightarrow> within now ts i)"

text \<open>\<open>Math.ceil(x / 1000)\<close>\<close>

definition ceil_seconds :: "int \<Rightarrow> int" where
  "ceil_seconds x = - ((- x) div 1000)"

text \<open>\<open>Math.ceil(((ts || 0) + interval - now) / 1000)\<close>\<close>

definition seconds_left :: "time \<Rightarrow> time option \<Rightarrow> int \<Rightarrow> int" where
  "seconds_left now ts interval = ceil_seconds (js_or0 ts + interval - now)"

section \<open>Lemmas\<close>

named_theorems js_simps \<open>facts on JavaScript values and timestamps\<close>
named_theorems cust_defs \<open>definitions of the record operations\<close>
named_theorems codec \<open>reading back what was marshalled\<close>

lemma ceil_seconds_bounds: "x \<le> 1000 * ceil_seconds x" "1000 * ceil_seconds x < x + 1000"
  unfolding ceil_seconds_def by linarith+

lemma ceil_seconds_pos [simp]: "0 < ceil_seconds x \<longleftrightarrow> 0 < x"
  using ceil_seconds_bounds [of x] by linarith

lemma ceil_seconds_mono: "x \<le> y \<Longrightarrow> ceil_seconds x \<le> ceil_seconds y"
  unfolding ceil_seconds_def by (simp add: zdiv_mono1)

lemma ceil_seconds_exact [simp]: "ceil_seconds (1000 * k) = k"
  using ceil_seconds_bounds [of "1000 * k"] by linarith

lemma seconds_left_pos: "0 < seconds_left now ts i \<longleftrightarrow> now < js_or0 ts + i"
  unfolding seconds_left_def by simp

lemma within_deadline: "within now ts i \<Longrightarrow> now < js_or0 ts + i"
  by (auto simp: within_def js_or0_def split: option.splits)

lemma within_seconds_left: "within now ts i \<Longrightarrow> 0 < seconds_left now ts i"
  by (auto simp: within_def seconds_left_pos js_or0_def split: option.splits)

lemma within_expires:
  "seconds_left now ts i \<le> s \<Longrightarrow> now + 1000 * s \<le> later \<Longrightarrow> \<not> within later ts i"
  using ceil_seconds_bounds(1) [of "js_or0 ts + i - now"]
  by (auto simp: within_def seconds_left_def js_or0_def split: option.splits)

lemma max_0_pos [simp]: "0 < max 0 (x :: int) \<longleftrightarrow> 0 < x"
  by auto

lemma max_0_zero [simp]: "max 0 (x :: int) = 0 \<longleftrightarrow> x \<le> 0"
  by auto

lemma seconds_left_nonpos: "seconds_left now ts i \<le> 0 \<longleftrightarrow> js_or0 ts + i \<le> now"
  using seconds_left_pos [of now ts i] by linarith

lemma within_expires_wait:
  "seconds_left now ts i \<le> wait \<Longrightarrow> now + 1000 * wait \<le> later \<Longrightarrow> within later ts i \<Longrightarrow> False"
  using within_expires by blast

lemma seconds_left_antimono: "now \<le> later \<Longrightarrow> seconds_left later ts i \<le> seconds_left now ts i"
  unfolding seconds_left_def by (intro ceil_seconds_mono) simp

lemma within_Some [simp]: "within now (Some t) i \<longleftrightarrow> t \<noteq> 0 \<and> now - t < i"
  by (simp add: within_def)

lemma within_None [simp]: "\<not> within now None i"
  by (simp add: within_def)

lemma within_opt_None [simp]: "\<not> within_opt now ts None"
  by (simp add: within_opt_def)

lemma within_opt_Some [simp]: "within_opt now ts (Some i) \<longleftrightarrow> within now ts i"
  by (simp add: within_opt_def)

lemma within_earlier: "within later ts i \<Longrightarrow> now \<le> later \<Longrightarrow> within now ts i"
  by (auto simp: within_def split: option.splits)

lemma js_or0_simps [simp]: "js_or0 None = 0" "js_or0 (Some t) = t"
  by (simp_all add: js_or0_def)

lemma truthy_string_Some [simp]: "s \<noteq> [] \<Longrightarrow> truthy_string (Some s) = Some s"
  by (cases s) (simp_all add: truthy_string_def)

lemma truthy_string_eq: "truthy_string x = Some s \<longleftrightarrow> x = Some s \<and> s \<noteq> []"
  by (auto simp: truthy_string_def split: option.splits list.splits)

lemma truthy_string_None [simp]: "truthy_string None = None"
  by (simp add: truthy_string_def)

lemma truthy_string_nonempty: "truthy_string s = Some x \<Longrightarrow> x \<noteq> []"
  by (auto simp: truthy_string_def split: option.splits list.splits)

lemma truthy_int_simps [simp]: "truthy_int None = None" "m \<noteq> 0 \<Longrightarrow> truthy_int (Some m) = Some m"
  "truthy_int (Some 0) = None"
  by (simp_all add: truthy_int_def)

lemma js_in_own: "k \<in> set ks \<Longrightarrow> js_in k ks"
  by (simp add: js_in_def)

text \<open>No inherited property name contains the character \<open>@\<close>.\<close>

lemma at_not_inherited: "CHR ''@'' \<in> set k \<Longrightarrow> k \<notin> set object_prototype_keys"
  by (auto simp: object_prototype_keys_def)

lemma js_in_at: "CHR ''@'' \<in> set k \<Longrightarrow> js_in k ks \<longleftrightarrow> k \<in> set ks"
  by (simp add: js_in_def at_not_inherited)

lemma set_add_key: "set (add_key k ks) = set ks \<union> ({k} - {''__proto__''})"
  by (auto simp: add_key_def)

lemma set_fold_add_key: "set (fold add_key ks acc) = set acc \<union> (set ks - {''__proto__''})"
  by (induction ks arbitrary: acc) (auto simp: set_add_key)

lemma set_js_keys_of: "set (js_keys_of ks) = set ks - {''__proto__''}"
  by (simp add: js_keys_of_def set_fold_add_key)

lemma distinct_fold_add_key: "distinct acc \<Longrightarrow> distinct (fold add_key ks acc)"
  by (induction ks arbitrary: acc) (auto simp: add_key_def)

lemma js_in_keys_of: "js_in k (js_keys_of ks) \<longleftrightarrow> js_in k ks"
  by (auto simp: js_in_def set_js_keys_of object_prototype_keys_def)

lemma fold_add_key_fresh:
  "distinct (acc @ ks) \<Longrightarrow> ''__proto__'' \<notin> set ks \<Longrightarrow> fold add_key ks acc = acc @ ks"
  by (induction ks arbitrary: acc) (auto simp: add_key_def)

lemma js_keys_of_idem [simp]: "js_keys_of (js_keys_of ks) = js_keys_of ks"
proof -
  have "distinct (js_keys_of ks)" "''__proto__'' \<notin> set (js_keys_of ks)"
    by (simp_all add: distinct_fold_add_key js_keys_of_def set_fold_add_key)
  then show ?thesis
    using fold_add_key_fresh [of "[]" "js_keys_of ks"] by (simp add: js_keys_of_def)
qed

lemma lower_char_idem [simp]: "lower_char (lower_char c) = lower_char c"
proof (cases "65 \<le> (of_char c :: nat) \<and> of_char c \<le> (90 :: nat)")
  case True
  then have "lower_char c = char_of (of_char c + 32 :: nat)" by (simp add: lower_char_def)
  moreover have "of_char (char_of (of_char c + 32 :: nat)) = (of_char c + 32 :: nat)"
    using True by simp
  ultimately show ?thesis using True by (simp add: lower_char_def)
next
  case False
  then show ?thesis by (auto simp: lower_char_def)
qed

lemma toLowerCase_idem [simp]: "toLowerCase (toLowerCase s) = toLowerCase s"
  by (simp add: toLowerCase_def)

lemma split_on_not_Nil [simp]: "split_on c s \<noteq> []"
  by (cases s) (auto split: list.splits)

lemma split_on_none [simp]: "c \<notin> set s \<Longrightarrow> split_on c s = [s]"
  by (induction s) auto

lemma split_on_append [simp]: "c \<notin> set w \<Longrightarrow> split_on c (w @ c # s) = w # split_on c s"
  by (induction w) auto

lemma split_on_pieces: "w \<in> set (split_on c s) \<Longrightarrow> c \<notin> set w"
  by (induction s arbitrary: w) (auto split: if_splits list.splits)

lemma length_filter_mono:
  "(\<And>x. x \<in> set xs \<Longrightarrow> P x \<Longrightarrow> Q x) \<Longrightarrow> length (filter P xs) \<le> length (filter Q xs)"
proof (induction xs)
  case (Cons x xs)
  then have "length (filter P xs) \<le> length (filter Q xs)" by simp
  with Cons.prems [of x] show ?case by auto
qed simp

lemma find_append: "find P (xs @ ys) = (case find P xs of None \<Rightarrow> find P ys | Some x \<Rightarrow> Some x)"
  by (induction xs) auto

lemma map_filter_num_of [codec]: "List.map_filter num_of (map JNum xs) = xs"
  by (induction xs) (simp_all add: List.map_filter_def)

lemma map_of_opt_num_append [codec]:
  "map_of (opt_num k v @ xs) k' =
     (if k = k' then (case v of None \<Rightarrow> map_of xs k' | Some n \<Rightarrow> Some (JNum n))
      else map_of xs k')"
  by (simp add: opt_num_def split: option.splits)

lemma map_of_opt_num [codec]:
  "map_of (opt_num k v) k' = (if k = k' then map_option JNum v else None)"
  by (simp add: opt_num_def split: option.splits)

end
