(* ===== verification/Limits.thy ===== *)
theory Limits
  imports JS_Prelude "HOL-Library.Monad_Syntax"
begin

text \<open>
  \<open>lib/settings/limits.js\<close>: the limits every record class reads. \<open>Limits_setAll\<close> derives them
  from a settings object, \<open>Limits_validate\<close> type-checks a settings object that was read from
  the cache against the current limits, and \<open>Limits_toJSON\<close> is the object that is pushed to
  the cache (\<open>JSON.stringify(this)\<close>).

  A settings object is the function from property names to values. Where the source would
  compute a limit from something that is not a number, and go on with \<open>NaN\<close>,
  \<open>Limits_setAll\<close> stops with \<open>WrongType\<close>: validation excludes this for every property but
  the ones inside \<open>uidRateLimit\<close> and \<open>smsRateLimit\<close>. Only \<open>suspectIntervalMs\<close> and
  \<open>disableIntervalMs\<close> are kept as possibly \<open>undefined\<close>, because that is the state a refresh
  leaves them in.
\<close>

text \<open>
  The errors a settings object can raise while it is refreshed: the sentinel \<open>Missing\<close>, any
  other exception of the validation, and a rejected cache operation. \<open>WrongType\<close> marks where
  the model stops and the source goes on with an ill-typed value.
\<close>

datatype settings_error = Missing string | Thrown string | CacheError string | WrongType

datatype js_type = TUndefined | TObject | TBoolean | TNumber | TString

fun js_typeof :: "jsval option \<Rightarrow> js_type" where
  "js_typeof None = TUndefined"
| "js_typeof (Some JNull) = TObject"
| "js_typeof (Some (JBool _)) = TBoolean"
| "js_typeof (Some (JNum _)) = TNumber"
| "js_typeof (Some (JStr _)) = TString"
| "js_typeof (Some (JArr _)) = TObject"
| "js_typeof (Some (JObj _)) = TObject"

type_synonym js_object = "string \<Rightarrow> jsval option"

record uid_rate_limit =
  uid_maxChecks :: int
  uid_banDurationSeconds :: int
  uid_limitIntervalSeconds :: int

record sms_rate_limit =
  sms_maxSms :: int
  sms_limitIntervalSeconds :: int

record limits =
  blockIntervalSeconds :: int
  blockIntervalMs :: int
  suspectIntervalMs :: "int option"
  disableIntervalMs :: "int option"
  rateLimitIntervalSeconds :: int
  rateLimitIntervalMs :: int
  maxEmails :: int
  maxBadLogins :: int
  maxBadLoginsPerIp :: int
  maxBadLoginsPerEmail :: int
  maxUnblockAttempts :: int
  maxVerifyCodes :: int
  ipRateLimitIntervalSeconds :: int
  ipRateLimitIntervalMs :: int
  ipRateLimitBanDurationSeconds :: int
  ipRateLimitBanDurationMs :: int
  maxAccountStatusCheck :: int
  badLoginErrnoWeights :: "(string \<times> jsval) list"
  uidRateLimit :: uid_rate_limit
  maxChecksPerUid :: int
  uidRateLimitBanDurationMs :: int
  uidRateLimitIntervalMs :: int
  smsRateLimit :: sms_rate_limit
  maxSms :: int
  smsRateLimitIntervalSeconds :: int
  smsRateLimitIntervalMs :: int
  maxAccountAccess :: int

definition num_prop :: "js_object \<Rightarrow> string \<Rightarrow> int option" where
  "num_prop s k = Option.bind (s k) num_of"

text \<open>\<open>settings.k || {}\<close> as the own properties of the nested object.\<close>

definition obj_prop :: "js_object \<Rightarrow> string \<Rightarrow> (string \<times> jsval) list" where
  "obj_prop s k = js_fields (s k)"

definition Limits_read :: "js_object \<Rightarrow> limits option" where
  "Limits_read settings = do {
     blockS \<leftarrow> num_prop settings ''blockIntervalSeconds'';
     rateS \<leftarrow> num_prop settings ''rateLimitIntervalSeconds'';
     emails \<leftarrow> num_prop settings ''maxEmails'';
     logins \<leftarrow> num_prop settings ''maxBadLogins'';
     loginsIp \<leftarrow> num_prop settings ''maxBadLoginsPerIp'';
     loginsEmail \<leftarrow> num_prop settings ''maxBadLoginsPerEmail'';
     unblocks \<leftarrow> num_prop settings ''maxUnblockAttempts'';
     codes \<leftarrow> num_prop settings ''maxVerifyCodes'';
     ipS \<leftarrow> num_prop settings ''ipRateLimitIntervalSeconds'';
     ipBanS \<leftarrow> num_prop settings ''ipRateLimitBanDurationSeconds'';
     status \<leftarrow> num_prop settings ''maxAccountStatusCheck'';
     let uid = map_of (obj_prop settings ''uidRateLimit'');
     uidMax \<leftarrow> num_prop uid ''maxChecks'';
     uidBanS \<leftarrow> num_prop uid ''banDurationSeconds'';
     uidS \<leftarrow> num_prop uid ''limitIntervalSeconds'';
     let sms = map_of (obj_prop settings ''smsRateLimit'');
     sMax \<leftarrow> num_prop sms ''maxSms'';
     sS \<leftarrow> num_prop sms ''limitIntervalSeconds'';
     access \<leftarrow> num_prop settings ''maxAccountAccess'';
     Some \<lparr> blockIntervalSeconds = blockS, blockIntervalMs = blockS * 1000,
       suspectIntervalMs = num_prop settings ''suspectInterval'',
       disableIntervalMs = num_prop settings ''disableInterval'',
       rateLimitIntervalSeconds = rateS, rateLimitIntervalMs = rateS * 1000,
       maxEmails = emails, maxBadLogins = logins, maxBadLoginsPerIp = loginsIp,
       maxBadLoginsPerEmail = loginsEmail, maxUnblockAttempts = unblocks,
       maxVerifyCodes = codes, ipRateLimitIntervalSeconds = ipS,
       ipRateLimitIntervalMs = ipS * 1000, ipRateLimitBanDurationSeconds = ipBanS,
       ipRateLimitBanDurationMs = ipBanS * 1000, maxAccountStatusCheck = status,
       badLoginErrnoWeights = obj_prop settings ''badLoginErrnoWeights'',
       uidRateLimit = \<lparr> uid_maxChecks = uidMax, uid_banDurationSeconds = uidBanS,
         uid_limitIntervalSeconds = uidS \<rparr>,
       maxChecksPerUid = uidMax, uidRateLimitBanDurationMs = uidBanS * 1000,
       uidRateLimitIntervalMs = uidS * 1000,
       smsRateLimit = \<lparr> sms_maxSms = sMax, sms_limitIntervalSeconds = sS \<rparr>,
       maxSms = sMax, smsRateLimitIntervalSeconds = sS, smsRateLimitIntervalMs = sS * 1000,
       maxAccountAccess = access \<rparr>
   }"

definition Limits_setAll :: "js_object \<Rightarrow> settings_error + limits" where
  "Limits_setAll settings =
     (case Limits_read settings of None \<Rightarrow> Inl WrongType | Some L \<Rightarrow> Inr L)"

text \<open>The own enumerable properties of a \<open>Limits\<close> object, which is also what \<open>this[key]\<close> reads.\<close>

definition Limits_fields :: "limits \<Rightarrow> (string \<times> jsval) list" where
  "Limits_fields L =
     [(''blockIntervalSeconds'', JNum (blockIntervalSeconds L)),
      (''blockIntervalMs'', JNum (blockIntervalMs L))] @
     opt_num ''suspectIntervalMs'' (suspectIntervalMs L) @
     opt_num ''disableIntervalMs'' (disableIntervalMs L) @
     [(''rateLimitIntervalSeconds'', JNum (rateLimitIntervalSeconds L)),
      (''rateLimitIntervalMs'', JNum (rateLimitIntervalMs L)),
      (''maxEmails'', JNum (maxEmails L)),
      (''maxBadLogins'', JNum (maxBadLogins L)),
      (''maxBadLoginsPerIp'', JNum (maxBadLoginsPerIp L)),
      (''maxBadLoginsPerEmail'', JNum (maxBadLoginsPerEmail L)),
      (''maxUnblockAttempts'', JNum (maxUnblockAttempts L)),
      (''maxVerifyCodes'', JNum (maxVerifyCodes L)),
      (''ipRateLimitIntervalSeconds'', JNum (ipRateLimitIntervalSeconds L)),
      (''ipRateLimitIntervalMs'', JNum (ipRateLimitIntervalMs L)),
      (''ipRateLimitBanDurationSeconds'', JNum (ipRateLimitBanDurationSeconds L)),
      (''ipRateLimitBanDurationMs'', JNum (ipRateLimitBanDurationMs L)),
      (''maxAccountStatusCheck'', JNum (maxAccountStatusCheck L)),
      (''badLoginErrnoWeights'', JObj (badLoginErrnoWeights L)),
      (''uidRateLimit'', JObj
         [(''maxChecks'', JNum (uid_maxChecks (uidRateLimit L))),
          (''banDurationSeconds'', JNum (uid_banDurationSeconds (uidRateLimit L))),
          (''limitIntervalSeconds'', JNum (uid_limitIntervalSeconds (uidRateLimit L)))]),
      (''maxChecksPerUid'', JNum (maxChecksPerUid L)),
      (''uidRateLimitBanDurationMs'', JNum (uidRateLimitBanDurationMs L)),
      (''uidRateLimitIntervalMs'', JNum (uidRateLimitIntervalMs L)),
      (''smsRateLimit'', JObj
         [(''maxSms'', JNum (sms_maxSms (smsRateLimit L))),
          (''limitIntervalSeconds'', JNum (sms_limitIntervalSeconds (smsRateLimit L)))]),
      (''maxSms'', JNum (maxSms L)),
      (''smsRateLimitIntervalSeconds'', JNum (smsRateLimitIntervalSeconds L)),
      (''smsRateLimitIntervalMs'', JNum (smsRateLimitIntervalMs L)),
      (''maxAccountAccess'', JNum (maxAccountAccess L))]"

definition Limits_toJSON :: "limits \<Rightarrow> jsval" where
  "Limits_toJSON L = JObj (Limits_fields L)"

text \<open>The keys of \<open>config.limits\<close> (\<open>lib/config/config.js\<close>), over which \<open>validate\<close> loops.\<close>

definition config_limits_keys :: "string list" where
  "config_limits_keys =
     [''blockIntervalSeconds'', ''suspectInterval'', ''disableInterval'',
      ''rateLimitIntervalSeconds'', ''maxEmails'', ''maxBadLogins'', ''maxBadLoginsPerIp'',
      ''maxBadLoginsPerEmail'', ''maxUnblockAttempts'', ''maxVerifyCodes'',
      ''badLoginErrnoWeights'', ''ipRateLimitIntervalSeconds'',
      ''ipRateLimitBanDurationSeconds'', ''smsRateLimit'', ''uidRateLimit'',
      ''maxAccountStatusCheck'', ''maxAccountAccess'']"

definition Limits_validate :: "limits \<Rightarrow> jsval option \<Rightarrow> settings_error + js_object" where
  "Limits_validate L settings =
     (if js_typeof settings \<noteq> TObject then Inl (Missing ''invalid limits from memcache'')
      else if settings = Some JNull then Inl (Thrown ''TypeError'')
      else Inr (\<lambda>key.
        let current = map_of (Limits_fields L) key; future = map_of (js_fields settings) key
        in if key \<in> set config_limits_keys \<and> js_typeof current \<noteq> js_typeof future
           then current else future))"

section \<open>Facts\<close>

lemma js_typeof_simps [simp]:
  "js_typeof v = TUndefined \<longleftrightarrow> v = None" "js_typeof v = TNumber \<longleftrightarrow> (\<exists>n. v = Some (JNum n))"
  "TUndefined = js_typeof v \<longleftrightarrow> v = None" "TNumber = js_typeof v \<longleftrightarrow> (\<exists>n. v = Some (JNum n))"
  "js_typeof v = TBoolean \<longleftrightarrow> (\<exists>b. v = Some (JBool b))"
  "TBoolean = js_typeof v \<longleftrightarrow> (\<exists>b. v = Some (JBool b))"
  by (cases v rule: js_typeof.cases; auto)+

lemma num_prop_JNum [simp]: "s k = Some (JNum n) \<Longrightarrow> num_prop s k = Some n"
  by (simp add: num_prop_def)

text \<open>The object never has the two properties that the configuration calls
  \<open>suspectInterval\<close> and \<open>disableInterval\<close>: they are stored under other names.\<close>

lemma Limits_fields_suspect [simp]:
  "map_of (Limits_fields L) ''suspectInterval'' = None"
  "map_of (Limits_fields L) ''disableInterval'' = None"
  by (simp_all add: Limits_fields_def opt_num_def split: option.splits)

lemma Limits_validate_suspect:
  assumes "Limits_validate L v = Inr s"
  shows "s ''suspectInterval'' = None" "s ''disableInterval'' = None"
  using assms by (auto simp: Limits_validate_def config_limits_keys_def Let_def split: if_splits)

lemma Limits_read_some: "(case x of None \<Rightarrow> Inl e | Some y \<Rightarrow> Inr y) = Inr z \<longleftrightarrow> x = Some z"
  by (simp split: option.splits)

lemma Limits_setAll_fields:
  assumes "Limits_setAll s = Inr L"
  shows "suspectIntervalMs L = num_prop s ''suspectInterval'' \<and>
    disableIntervalMs L = num_prop s ''disableInterval'' \<and>
    rateLimitIntervalMs L = rateLimitIntervalSeconds L * 1000 \<and>
    blockIntervalMs L = blockIntervalSeconds L * 1000 \<and>
    ipRateLimitIntervalMs L = ipRateLimitIntervalSeconds L * 1000 \<and>
    ipRateLimitBanDurationMs L = ipRateLimitBanDurationSeconds L * 1000 \<and>
    smsRateLimitIntervalMs L = smsRateLimitIntervalSeconds L * 1000 \<and>
    uidRateLimitIntervalMs L = uid_limitIntervalSeconds (uidRateLimit L) * 1000 \<and>
    uidRateLimitBanDurationMs L = uid_banDurationSeconds (uidRateLimit L) * 1000 \<and>
    maxChecksPerUid L = uid_maxChecks (uidRateLimit L) \<and>
    maxSms L = sms_maxSms (smsRateLimit L) \<and>
    smsRateLimitIntervalSeconds L = sms_limitIntervalSeconds (smsRateLimit L)"
  using assms unfolding Limits_setAll_def Limits_read_some Limits_read_def Let_def bind_eq_Some_conv
  by (elim exE conjE) (simp only: option.inject, hypsubst, simp)

lemma Limits_setAll_suspect:
  assumes "Limits_setAll s = Inr L" "s ''suspectInterval'' = None" "s ''disableInterval'' = None"
  shows "suspectIntervalMs L = None \<and> disableIntervalMs L = None"
  using Limits_setAll_fields [OF assms(1)] assms(2,3) by (simp add: num_prop_def)

section \<open>The default configuration\<close>

text \<open>
  The section \<open>limits\<close> of \<open>lib/config/config.js\<close>. Durations such as \<open>1 day\<close> are written in
  milliseconds.
\<close>

definition config_limits :: "(string \<times> jsval) list" where
  "config_limits =
     [(''blockIntervalSeconds'', JNum 86400),
      (''suspectInterval'', JNum 86400000),
      (''disableInterval'', JNum 31536000000),
      (''rateLimitIntervalSeconds'', JNum 900),
      (''maxEmails'', JNum 3),
      (''maxBadLogins'', JNum 2),
      (''maxBadLoginsPerIp'', JNum 3),
      (''maxBadLoginsPerEmail'', JNum 3),
      (''maxUnblockAttempts'', JNum 5),
      (''maxVerifyCodes'', JNum 10),
      (''badLoginErrnoWeights'', JObj [(''102'', JNum 2), (''125'', JNum 4), (''126'', JNum 2)]),
      (''ipRateLimitIntervalSeconds'', JNum 900),
      (''ipRateLimitBanDurationSeconds'', JNum 900),
      (''smsRateLimit'', JObj [(''limitIntervalSeconds'', JNum 1800), (''maxSms'', JNum 3)]),
      (''uidRateLimit'', JObj [(''limitIntervalSeconds'', JNum 900),
         (''banDurationSeconds'', JNum 900), (''maxChecks'', JNum 100)]),
      (''maxAccountStatusCheck'', JNum 5),
      (''maxAccountAccess'', JNum 5)]"

text \<open>What \<open>setAll\<close> makes of them.\<close>

definition default_limits :: limits where
  "default_limits = \<lparr>
     blockIntervalSeconds = 86400, blockIntervalMs = 86400000,
     suspectIntervalMs = Some 86400000, disableIntervalMs = Some 31536000000,
     rateLimitIntervalSeconds = 900, rateLimitIntervalMs = 900000,
     maxEmails = 3, maxBadLogins = 2, maxBadLoginsPerIp = 3, maxBadLoginsPerEmail = 3,
     maxUnblockAttempts = 5, maxVerifyCodes = 10,
     ipRateLimitIntervalSeconds = 900, ipRateLimitIntervalMs = 900000,
     ipRateLimitBanDurationSeconds = 900, ipRateLimitBanDurationMs = 900000,
     maxAccountStatusCheck = 5,
     badLoginErrnoWeights = [(''102'', JNum 2), (''125'', JNum 4), (''126'', JNum 2)],
     uidRateLimit = \<lparr> uid_maxChecks = 100, uid_banDurationSeconds = 900, uid_limitIntervalSeconds = 900 \<rparr>,
     maxChecksPerUid = 100, uidRateLimitBanDurationMs = 900000, uidRateLimitIntervalMs = 900000,
     smsRateLimit = \<lparr> sms_maxSms = 3, sms_limitIntervalSeconds = 1800 \<rparr>,
     maxSms = 3, smsRateLimitIntervalSeconds = 1800, smsRateLimitIntervalMs = 1800000,
     maxAccountAccess = 5 \<rparr>"

lemma config_limits_keys: "map fst config_limits = config_limits_keys"
  by (simp add: config_limits_def config_limits_keys_def)

lemma default_limits_loaded: "Limits_setAll (map_of config_limits) = Inr default_limits"
  by (simp add: Limits_setAll_def Limits_read_def config_limits_def default_limits_def num_prop_def
      obj_prop_def)

end
