(* ===== verification/Cache.thy ===== *)
theory Cache
  imports JS_Prelude
begin

text \<open>
  The memcached server, which is not part of the repository: the two promisified client
  calls the sources use are a parameter of every definition that reaches it. \<open>'m\<close> is the
  state of the server. A call that is rejected returns the error; a lifetime is given in
  milliseconds (the source passes the same number divided by 1000), and 0 means that the
  entry does not expire.
\<close>

record 'm memcached =
  getAsync :: "'m \<Rightarrow> time \<Rightarrow> string \<Rightarrow> string + jsval option"
  setAsync :: "'m \<Rightarrow> time \<Rightarrow> string \<Rightarrow> jsval \<Rightarrow> int \<Rightarrow> 'm \<times> string option"

text \<open>
  What the documentation of memcached promises about a successful \<open>set\<close>, as long as the
  server does not run out of memory: the value is returned until it expires, and no other
  entry changes.
\<close>

definition memcached_ok :: "'m memcached \<Rightarrow> bool" where
  "memcached_ok mc \<longleftrightarrow>
     (\<forall>m now k v life m'. setAsync mc m now k v life = (m', None) \<longrightarrow>
        (\<forall>t. now \<le> t \<and> (life = 0 \<or> t < now + life) \<longrightarrow> getAsync mc m' t k = Inr (Some v)) \<and>
        (\<forall>t k'. k' \<noteq> k \<longrightarrow> getAsync mc m' t k' = getAsync mc m t k'))"

text \<open>The calls of a server that is up.\<close>

definition memcached_up :: "'m memcached \<Rightarrow> bool" where
  "memcached_up mc \<longleftrightarrow>
     (\<forall>m now k v life. snd (setAsync mc m now k v life) = None) \<and>
     (\<forall>m now k. \<exists>v. getAsync mc m now k = Inr v)"

text \<open>A server that satisfies both, for the concrete instances.\<close>

type_synonym table = "(string \<times> jsval \<times> time option) list"

definition table_get :: "table \<Rightarrow> time \<Rightarrow> string \<Rightarrow> string + jsval option" where
  "table_get m now k =
     Inr (case map_of m k of
            None \<Rightarrow> None
          | Some (v, None) \<Rightarrow> Some v
          | Some (v, Some e) \<Rightarrow> if now < e then Some v else None)"

definition table_set ::
    "table \<Rightarrow> time \<Rightarrow> string \<Rightarrow> jsval \<Rightarrow> int \<Rightarrow> table \<times> string option" where
  "table_set m now k v life =
     ((k, v, if life = 0 then None else Some (now + life)) # m, None)"

definition table_cache :: "table memcached" where
  "table_cache = \<lparr> getAsync = table_get, setAsync = table_set \<rparr>"

section \<open>Facts\<close>

lemma memcached_ok_get:
  "memcached_ok mc \<Longrightarrow> setAsync mc m now k v life = (m', None) \<Longrightarrow> now \<le> t \<Longrightarrow>
   life = 0 \<or> t < now + life \<Longrightarrow> getAsync mc m' t k = Inr (Some v)"
  unfolding memcached_ok_def by blast

lemma memcached_ok_other:
  "memcached_ok mc \<Longrightarrow> setAsync mc m now k v life = (m', None) \<Longrightarrow> k' \<noteq> k \<Longrightarrow>
   getAsync mc m' t k' = getAsync mc m t k'"
  unfolding memcached_ok_def by blast

lemma table_cache_ok: "memcached_ok table_cache"
  by (auto simp: memcached_ok_def table_cache_def table_get_def table_set_def)

lemma table_cache_up: "memcached_up table_cache"
  by (auto simp: memcached_up_def table_cache_def table_get_def table_set_def)

end
