(* ===== verification/Settings.thy ===== *)
theory Settings
  imports Limits Cache
begin

text \<open>
  \<open>lib/settings/\<close>: the settings that the customs server reloads from the cache while it runs.
  \<open>Settings_refresh\<close> and \<open>Settings_push\<close> are the methods of the abstract class (with
  \<open>validate\<close>, \<open>setAll\<close> and \<open>toJSON\<close> of the subclass as arguments), followed by the
  subclasses. The locale \<open>hot_settings\<close> is what the abstract class needs from a subclass for
  pushing and reloading to be lossless.
\<close>

section \<open>The abstract class\<close>

text \<open>
  The methods a subclass supplies. \<open>setAll\<close> also returns a value, which \<open>refresh\<close> may pass to
  \<open>setAll\<close> once more (after a push): that value is \<open>returned\<close>.
\<close>

record ('s, 'v) settings_class =
  settings_key :: string
  settings_validate :: "'s \<Rightarrow> jsval option \<Rightarrow> settings_error + 'v"
  settings_setAll :: "'v \<Rightarrow> settings_error + 's"
  settings_returned :: "'s \<Rightarrow> 'v"
  settings_toJSON :: "'s \<Rightarrow> jsval"

text \<open>\<open>refresh()\<close> without options. An error leaves the settings as they are.\<close>

definition Settings_refresh ::
    "'m memcached \<Rightarrow> ('s, 'v) settings_class \<Rightarrow> time \<Rightarrow> 'm \<Rightarrow> 's \<Rightarrow> settings_error + 's" where
  "Settings_refresh mc cls now m s =
     (case getAsync mc m now (settings_key cls) of
        Inl e \<Rightarrow> Inl (CacheError e)
      | Inr v \<Rightarrow>
          (case settings_validate cls s v of
             Inl e \<Rightarrow> Inl e
           | Inr v' \<Rightarrow> settings_setAll cls v'))"

text \<open>\<open>push()\<close>: write the settings to the cache, then reload them.\<close>

definition Settings_push ::
    "'m memcached \<Rightarrow> ('s, 'v) settings_class \<Rightarrow> time \<Rightarrow> 'm \<Rightarrow> 's \<Rightarrow> 'm \<times> (settings_error + 's)" where
  "Settings_push mc cls now m s =
     (case setAsync mc m now (settings_key cls) (settings_toJSON cls s) 0 of
        (m', Some e) \<Rightarrow> (m', Inl (CacheError e))
      | (m', None) \<Rightarrow> (m', Settings_refresh mc cls now m' s))"

text \<open>
  \<open>refresh({ pushOnMissing: true })\<close>. When the settings were pushed, \<open>setAll\<close> runs a second
  time on what the nested \<open>refresh\<close> returned.
\<close>

definition Settings_refresh_pushOnMissing ::
    "'m memcached \<Rightarrow> ('s, 'v) settings_class \<Rightarrow> time \<Rightarrow> 'm \<Rightarrow> 's \<Rightarrow> 'm \<times> (settings_error + 's)" where
  "Settings_refresh_pushOnMissing mc cls now m s =
     (case Settings_refresh mc cls now m s of
        Inl (Missing msg) \<Rightarrow>
          (case Settings_push mc cls now m s of
             (m', Inl e) \<Rightarrow> (m', Inl e)
           | (m', Inr s') \<Rightarrow> (m', settings_setAll cls (settings_returned cls s')))
      | r \<Rightarrow> (m, r))"

section \<open>Limits\<close>

definition Limits_class :: "(limits, js_object) settings_class" where
  "Limits_class = \<lparr> settings_key = ''limits'', settings_validate = Limits_validate,
     settings_setAll = Limits_setAll, settings_returned = (\<lambda>L. map_of (Limits_fields L)),
     settings_toJSON = Limits_toJSON \<rparr>"

section \<open>Allowed IP addresses\<close>

text \<open>\<open>this.ips\<close> is an object with the addresses as keys; it is modelled by its own keys.\<close>

definition AllowedIPs_isAllowed :: "string list \<Rightarrow> string \<Rightarrow> bool" where
  "AllowedIPs_isAllowed ips ip = js_in ip ips"

definition AllowedIPs_setAll :: "string list \<Rightarrow> string list" where
  "AllowedIPs_setAll ips = js_keys_of ips"

text \<open>\<open>net.isIPv4\<close> of Node: four decimal numbers up to 255 without leading zeros.\<close>

definition is_octet :: "string \<Rightarrow> bool" where
  "is_octet s \<longleftrightarrow>
     s \<noteq> [] \<and> length s \<le> 3 \<and> list_all is_digit s \<and> (s = ''0'' \<or> hd s \<noteq> CHR ''0'') \<and>
     digits_value s \<le> 255"

definition isIPv4 :: "string \<Rightarrow> bool" where
  "isIPv4 s \<longleftrightarrow> length (split_on CHR ''.'' s) = 4 \<and> list_all is_octet (split_on CHR ''.'' s)"

fun str_of :: "jsval \<Rightarrow> string option" where
  "str_of (JStr s) = Some s"
| "str_of _ = None"

fun AllowedIPs_validate :: "jsval option \<Rightarrow> settings_error + string list" where
  "AllowedIPs_validate (Some (JArr ips)) = Inr (filter isIPv4 (List.map_filter str_of ips))"
| "AllowedIPs_validate _ = Inl (Missing ''invalid allowedIPs from memcache'')"

definition AllowedIPs_toJSON :: "string list \<Rightarrow> jsval" where
  "AllowedIPs_toJSON ips = JArr (map JStr ips)"

definition AllowedIPs_class :: "(string list, string list) settings_class" where
  "AllowedIPs_class = \<lparr> settings_key = ''allowedIPs'',
     settings_validate = (\<lambda>_. AllowedIPs_validate), settings_setAll = Inr \<circ> AllowedIPs_setAll,
     settings_returned = (\<lambda>ips. ips), settings_toJSON = AllowedIPs_toJSON \<rparr>"

section \<open>Allowed email domains\<close>

text \<open>
  \<open>/^.+@(.+)$/.exec(email)\<close>: the greedy first group takes the last \<open>@\<close> that has a character
  on each side. The recursion looks for an \<open>@\<close> in the rest first.
\<close>

fun last_at :: "string \<Rightarrow> string option" where
  "last_at [] = None"
| "last_at (c # cs) =
     (case last_at cs of
        Some d \<Rightarrow> Some d
      | None \<Rightarrow> if c = CHR ''@'' \<and> cs \<noteq> [] then Some cs else None)"

definition email_domain :: "string \<Rightarrow> string option" where
  "email_domain email =
     (if list_ex line_terminator email then None
      else case email of [] \<Rightarrow> None | _ # cs \<Rightarrow> last_at cs)"

definition AllowedEmailDomains_isAllowed :: "string list \<Rightarrow> string \<Rightarrow> bool" where
  "AllowedEmailDomains_isAllowed domains email =
     (case email_domain email of Some d \<Rightarrow> js_in d domains | None \<Rightarrow> False)"

definition AllowedEmailDomains_setAll :: "string list \<Rightarrow> string list" where
  "AllowedEmailDomains_setAll domains = js_keys_of domains"

fun AllowedEmailDomains_validate :: "jsval option \<Rightarrow> settings_error + string list" where
  "AllowedEmailDomains_validate (Some (JArr ds)) = Inr (List.map_filter str_of ds)"
| "AllowedEmailDomains_validate _ = Inl (Missing ''invalid allowedEmailDomains from memcache'')"

definition AllowedEmailDomains_toJSON :: "string list \<Rightarrow> jsval" where
  "AllowedEmailDomains_toJSON domains = JArr (map JStr domains)"

definition AllowedEmailDomains_class :: "(string list, string list) settings_class" where
  "AllowedEmailDomains_class = \<lparr> settings_key = ''allowedEmailDomains'',
     settings_validate = (\<lambda>_. AllowedEmailDomains_validate),
     settings_setAll = Inr \<circ> AllowedEmailDomains_setAll, settings_returned = (\<lambda>ds. ds),
     settings_toJSON = AllowedEmailDomains_toJSON \<rparr>"

section \<open>Allowed phone numbers\<close>

text \<open>\<open>this.phoneNumbers\<close> is a \<open>Set\<close>: its elements in insertion order, each once.\<close>

definition AllowedPhoneNumbers_isAllowed :: "string list \<Rightarrow> string option \<Rightarrow> bool" where
  "AllowedPhoneNumbers_isAllowed phones p = (case p of None \<Rightarrow> False | Some n \<Rightarrow> n \<in> set phones)"

definition AllowedPhoneNumbers_setAll :: "string list \<Rightarrow> string list" where
  "AllowedPhoneNumbers_setAll phones = rev (remdups (rev phones))"

fun AllowedPhoneNumbers_validate :: "jsval option \<Rightarrow> settings_error + string list" where
  "AllowedPhoneNumbers_validate (Some (JArr ps)) = Inr (List.map_filter str_of ps)"
| "AllowedPhoneNumbers_validate _ = Inl (Missing ''invalid allowedPhoneNumbers from memcache'')"

definition AllowedPhoneNumbers_toJSON :: "string list \<Rightarrow> jsval" where
  "AllowedPhoneNumbers_toJSON phones = JArr (map JStr phones)"

definition AllowedPhoneNumbers_class :: "(string list, string list) settings_class" where
  "AllowedPhoneNumbers_class = \<lparr> settings_key = ''allowedPhoneNumbers'',
     settings_validate = (\<lambda>_. AllowedPhoneNumbers_validate),
     settings_setAll = Inr \<circ> AllowedPhoneNumbers_setAll, settings_returned = (\<lambda>ps. ps),
     settings_toJSON = AllowedPhoneNumbers_toJSON \<rparr>"

section \<open>Request checks\<close>

text \<open>
  The compiled expressions are the predicates \<open>re.test\<close>; \<open>compile\<close> stands for
  \<open>new RegExp(...)\<close>, which throws on a malformed pattern.
\<close>

record request_checks =
  treatEveryoneWithSuspicion :: bool
  flowIdRequiredOnLogin :: bool
  flowIdExemptUserAgentREs :: "string list option"
  flowIdExemptUserAgentCompiledREs :: "(string \<Rightarrow> bool) list"

definition bool_prop :: "js_object \<Rightarrow> string \<Rightarrow> bool option" where
  "bool_prop s k = (case s k of Some (JBool b) \<Rightarrow> Some b | _ \<Rightarrow> None)"

fun compile_all :: "(string \<Rightarrow> (string \<Rightarrow> bool) option) \<Rightarrow> string list \<Rightarrow> (string \<Rightarrow> bool) list option" where
  "compile_all compile [] = Some []"
| "compile_all compile (r # rs) =
     Option.bind (compile r) (\<lambda>p. map_option ((#) p) (compile_all compile rs))"

definition RequestChecks_setAll ::
    "(string \<Rightarrow> (string \<Rightarrow> bool) option) \<Rightarrow> js_object \<Rightarrow> settings_error + request_checks" where
  "RequestChecks_setAll compile settings =
     (case (bool_prop settings ''treatEveryoneWithSuspicion'',
            bool_prop settings ''flowIdRequiredOnLogin'') of
        (Some suspicion, Some flow) \<Rightarrow>
          (case settings ''flowIdExemptUserAgentREs'' of
             Some (JArr res) \<Rightarrow>
               (case compile_all compile (List.map_filter str_of res) of
                  None \<Rightarrow> Inl (Thrown ''SyntaxError'')
                | Some ps \<Rightarrow> Inr \<lparr> treatEveryoneWithSuspicion = suspicion,
                    flowIdRequiredOnLogin = flow,
                    flowIdExemptUserAgentREs = Some (List.map_filter str_of res),
                    flowIdExemptUserAgentCompiledREs = ps \<rparr>)
           | None \<Rightarrow> Inr \<lparr> treatEveryoneWithSuspicion = suspicion, flowIdRequiredOnLogin = flow,
                 flowIdExemptUserAgentREs = None, flowIdExemptUserAgentCompiledREs = [] \<rparr>
           | Some _ \<Rightarrow> Inl WrongType)
      | _ \<Rightarrow> Inl WrongType)"

definition RequestChecks_fields :: "request_checks \<Rightarrow> (string \<times> jsval) list" where
  "RequestChecks_fields rc =
     [(''treatEveryoneWithSuspicion'', JBool (treatEveryoneWithSuspicion rc)),
      (''flowIdRequiredOnLogin'', JBool (flowIdRequiredOnLogin rc))] @
     (case flowIdExemptUserAgentREs rc of
        None \<Rightarrow> [] | Some res \<Rightarrow> [(''flowIdExemptUserAgentREs'', JArr (map JStr res))]) @
     [(''flowIdExemptUserAgentCompiledREs'',
       JArr (map (\<lambda>_. JObj []) (flowIdExemptUserAgentCompiledREs rc)))]"

definition config_requestChecks_keys :: "string list" where
  "config_requestChecks_keys =
     [''treatEveryoneWithSuspicion'', ''flowIdRequiredOnLogin'', ''flowIdExemptUserAgentREs'']"

definition RequestChecks_validate ::
    "request_checks \<Rightarrow> jsval option \<Rightarrow> settings_error + js_object" where
  "RequestChecks_validate rc settings =
     (if js_typeof settings \<noteq> TObject then Inl (Missing ''invalid requestChecks from memcache'')
      else if settings = Some JNull then Inl (Thrown ''TypeError'')
      else Inr (\<lambda>key.
        let current = map_of (RequestChecks_fields rc) key;
            future = map_of (js_fields settings) key
        in if key \<in> set config_requestChecks_keys \<and> future = None then current
           else if key \<in> set config_requestChecks_keys \<and> js_typeof current \<noteq> js_typeof future
           then current else future))"

definition RequestChecks_class ::
    "(string \<Rightarrow> (string \<Rightarrow> bool) option) \<Rightarrow> (request_checks, js_object) settings_class" where
  "RequestChecks_class compile = \<lparr> settings_key = ''requestChecks'',
     settings_validate = RequestChecks_validate,
     settings_setAll = RequestChecks_setAll compile,
     settings_returned = (\<lambda>rc. map_of (RequestChecks_fields rc)),
     settings_toJSON = (\<lambda>rc. JObj (RequestChecks_fields rc)) \<rparr>"

text \<open>
  When reloading is lossless. Derived limits follow from the others, and the two intervals
  that \<open>validate\<close> looks for under a wrong name must already be \<open>undefined\<close>.
\<close>

definition Limits_derived :: "limits \<Rightarrow> bool" where
  "Limits_derived L \<longleftrightarrow> (\<exists>s. Limits_setAll s = Inr L)"

definition Limits_reloadable :: "limits \<Rightarrow> bool" where
  "Limits_reloadable L \<longleftrightarrow>
     Limits_derived L \<and> suspectIntervalMs L = None \<and> disableIntervalMs L = None"

definition key_list :: "string list \<Rightarrow> bool" where
  "key_list ks \<longleftrightarrow> js_keys_of ks = ks"

definition RequestChecks_derived ::
    "(string \<Rightarrow> (string \<Rightarrow> bool) option) \<Rightarrow> request_checks \<Rightarrow> bool" where
  "RequestChecks_derived compile rc \<longleftrightarrow> (\<exists>s. RequestChecks_setAll compile s = Inr rc)"

section \<open>The contract of a subclass\<close>

locale hot_settings =
  fixes cls :: "('s, 'v) settings_class"
    and valid :: "'s \<Rightarrow> bool"
  assumes reload: "valid s \<Longrightarrow>
      Option.bind (case settings_validate cls s (Some (settings_toJSON cls s)) of
        Inl _ \<Rightarrow> None | Inr v \<Rightarrow> Some v) (\<lambda>v. Some (settings_setAll cls v)) = Some (Inr s)"
    and again: "valid s \<Longrightarrow> settings_setAll cls (settings_returned cls s) = Inr s"
    and missing: "\<exists>msg. settings_validate cls s None = Inl (Missing msg)"
    and closed: "settings_validate cls s v = Inr v' \<Longrightarrow> settings_setAll cls v' = Inr s' \<Longrightarrow> valid s'"
begin

lemma reload_stored:
  assumes "valid s" "getAsync mc m now (settings_key cls) = Inr (Some (settings_toJSON cls s))"
  shows "Settings_refresh mc cls now m s = Inr s"
  using reload [OF assms(1)] assms(2)
  by (auto simp: Settings_refresh_def split: sum.splits)

lemma push_reloads:
  assumes "memcached_ok mc" "valid s"
    and "setAsync mc m now (settings_key cls) (settings_toJSON cls s) 0 = (m', None)"
  shows "Settings_push mc cls now m s = (m', Inr s)"
  using assms(3) reload_stored [OF assms(2) memcached_ok_get [OF assms(1,3)]]
  by (simp add: Settings_push_def)

text \<open>Starting on an empty cache publishes the settings and keeps them, also when they are
  polled later.\<close>

lemma startup:
  assumes "memcached_ok mc" "valid s"
    and "getAsync mc m now (settings_key cls) = Inr None"
    and set: "setAsync mc m now (settings_key cls) (settings_toJSON cls s) 0 = (m', None)"
    and "now \<le> later"
  shows "Settings_refresh_pushOnMissing mc cls now m s = (m', Inr s)"
    and "Settings_refresh mc cls later m' s = Inr s"
proof -
  obtain msg where "Settings_refresh mc cls now m s = Inl (Missing msg)"
    using missing [of s] assms(3) by (auto simp: Settings_refresh_def)
  then show "Settings_refresh_pushOnMissing mc cls now m s = (m', Inr s)"
    using push_reloads [OF assms(1,2) set] again [OF assms(2)]
    by (simp add: Settings_refresh_pushOnMissing_def)
  show "Settings_refresh mc cls later m' s = Inr s"
    using reload_stored [OF assms(2) memcached_ok_get [OF assms(1) set assms(5)]] by simp
qed

lemma refresh_valid: "Settings_refresh mc cls now m s = Inr s' \<Longrightarrow> valid s'"
  by (auto simp: Settings_refresh_def split: sum.splits intro: closed)

end

section \<open>The subclasses meet the contract\<close>

lemma map_filter_str_of [codec]: "List.map_filter str_of (map JStr xs) = xs"
  by (induction xs) (simp_all add: List.map_filter_def)

lemma Limits_validate_own:
  "Limits_validate L (Some (Limits_toJSON L)) = Inr (map_of (Limits_fields L))"
  by (auto simp: Limits_validate_def Limits_toJSON_def Let_def)

lemma Limits_field [simp]:
  "map_of (Limits_fields L) ''blockIntervalSeconds'' = Some (JNum (blockIntervalSeconds L))"
  "map_of (Limits_fields L) ''rateLimitIntervalSeconds'' = Some (JNum (rateLimitIntervalSeconds L))"
  "map_of (Limits_fields L) ''maxEmails'' = Some (JNum (maxEmails L))"
  "map_of (Limits_fields L) ''maxBadLogins'' = Some (JNum (maxBadLogins L))"
  "map_of (Limits_fields L) ''maxBadLoginsPerIp'' = Some (JNum (maxBadLoginsPerIp L))"
  "map_of (Limits_fields L) ''maxBadLoginsPerEmail'' = Some (JNum (maxBadLoginsPerEmail L))"
  "map_of (Limits_fields L) ''maxUnblockAttempts'' = Some (JNum (maxUnblockAttempts L))"
  "map_of (Limits_fields L) ''maxVerifyCodes'' = Some (JNum (maxVerifyCodes L))"
  "map_of (Limits_fields L) ''ipRateLimitIntervalSeconds'' = Some (JNum (ipRateLimitIntervalSeconds L))"
  "map_of (Limits_fields L) ''ipRateLimitBanDurationSeconds'' = Some (JNum (ipRateLimitBanDurationSeconds L))"
  "map_of (Limits_fields L) ''maxAccountStatusCheck'' = Some (JNum (maxAccountStatusCheck L))"
  "map_of (Limits_fields L) ''maxAccountAccess'' = Some (JNum (maxAccountAccess L))"
  "map_of (Limits_fields L) ''badLoginErrnoWeights'' = Some (JObj (badLoginErrnoWeights L))"
  "map_of (Limits_fields L) ''uidRateLimit'' = Some (JObj
     [(''maxChecks'', JNum (uid_maxChecks (uidRateLimit L))),
      (''banDurationSeconds'', JNum (uid_banDurationSeconds (uidRateLimit L))),
      (''limitIntervalSeconds'', JNum (uid_limitIntervalSeconds (uidRateLimit L)))])"
  "map_of (Limits_fields L) ''smsRateLimit'' = Some (JObj
     [(''maxSms'', JNum (sms_maxSms (smsRateLimit L))),
      (''limitIntervalSeconds'', JNum (sms_limitIntervalSeconds (smsRateLimit L)))])"
  by (simp_all add: Limits_fields_def codec del: map_of_append)

lemma Limits_setAll_own:
  assumes "Limits_derived L"
  shows "Limits_setAll (map_of (Limits_fields L)) =
    Inr (L\<lparr>suspectIntervalMs := None, disableIntervalMs := None\<rparr>)"
proof -
  obtain s where "Limits_setAll s = Inr L" using assms by (auto simp: Limits_derived_def)
  note eqs = Limits_setAll_fields [OF this]
  have "num_prop (map_of (Limits_fields L)) ''suspectInterval'' = None"
    "num_prop (map_of (Limits_fields L)) ''disableInterval'' = None"
    by (simp_all add: num_prop_def)
  then show ?thesis
    unfolding Limits_setAll_def Limits_read_def obj_prop_def Let_def
    using eqs by simp
qed

lemma Limits_refresh_reloadable:
  assumes "Limits_validate L v = Inr s" "Limits_setAll s = Inr L'"
  shows "Limits_reloadable L'"
  using Limits_setAll_suspect [OF assms(2) Limits_validate_suspect [OF assms(1)]] assms(2)
  by (auto simp: Limits_reloadable_def Limits_derived_def)

lemma Limits_setAll_reloadable:
  "Limits_reloadable L \<Longrightarrow> Limits_setAll (map_of (Limits_fields L)) = Inr L"
  by (simp add: Limits_reloadable_def Limits_setAll_own)

interpretation limits: hot_settings Limits_class Limits_reloadable
proof unfold_locales
  show "\<exists>msg. settings_validate Limits_class s None = Inl (Missing msg)" for s
    by (simp add: Limits_class_def Limits_validate_def)
qed (auto simp: Limits_class_def Limits_validate_own Limits_setAll_reloadable
      intro: Limits_refresh_reloadable)

lemma key_list_js_keys_of [simp]: "key_list (js_keys_of ks)"
  by (simp add: key_list_def)

lemma key_list_filter: "key_list ks \<Longrightarrow> list_all P ks \<Longrightarrow> filter P ks = ks"
  by (simp add: list_all_iff)

interpretation allowed_ips: hot_settings AllowedIPs_class "\<lambda>ips. key_list ips \<and> list_all isIPv4 ips"
  by unfold_locales
    (auto simp: AllowedIPs_class_def AllowedIPs_toJSON_def AllowedIPs_setAll_def codec
      key_list_filter key_list_def list_all_iff set_js_keys_of elim!: AllowedIPs_validate.elims)

interpretation allowed_domains: hot_settings AllowedEmailDomains_class key_list
  by unfold_locales
    (auto simp: AllowedEmailDomains_class_def AllowedEmailDomains_toJSON_def
      AllowedEmailDomains_setAll_def codec key_list_def)

lemma insertion_set_idem: "rev (remdups xs) = ys \<Longrightarrow> rev (remdups (rev ys)) = ys"
  by auto

interpretation allowed_phones: hot_settings AllowedPhoneNumbers_class distinct
  by unfold_locales
    (auto simp: AllowedPhoneNumbers_class_def AllowedPhoneNumbers_toJSON_def
      AllowedPhoneNumbers_setAll_def codec distinct_remdups_id)

lemma RequestChecks_validate_own:
  "RequestChecks_validate rc (Some (JObj (RequestChecks_fields rc))) =
     Inr (map_of (RequestChecks_fields rc))"
  by (auto simp: RequestChecks_validate_def Let_def)

lemma RequestChecks_fields_simps [simp]:
  "map_of (RequestChecks_fields rc) ''treatEveryoneWithSuspicion'' =
     Some (JBool (treatEveryoneWithSuspicion rc))"
  "map_of (RequestChecks_fields rc) ''flowIdRequiredOnLogin'' =
     Some (JBool (flowIdRequiredOnLogin rc))"
  "map_of (RequestChecks_fields rc) ''flowIdExemptUserAgentREs'' =
     map_option (\<lambda>res. JArr (map JStr res)) (flowIdExemptUserAgentREs rc)"
  by (simp_all add: RequestChecks_fields_def split: option.splits)

lemma RequestChecks_setAll_compiled:
  assumes "RequestChecks_setAll compile s = Inr rc"
  shows "compile_all compile (case flowIdExemptUserAgentREs rc of None \<Rightarrow> [] | Some res \<Rightarrow> res) =
    Some (flowIdExemptUserAgentCompiledREs rc)"
proof -
  obtain b c where "bool_prop s ''treatEveryoneWithSuspicion'' = Some b"
      "bool_prop s ''flowIdRequiredOnLogin'' = Some c"
    using assms by (auto simp: RequestChecks_setAll_def split: option.splits)
  with assms show ?thesis
    by (cases "s ''flowIdExemptUserAgentREs''")
      (auto simp: RequestChecks_setAll_def split: jsval.splits option.splits)
qed

lemma RequestChecks_setAll_own:
  assumes "RequestChecks_derived compile rc"
  shows "RequestChecks_setAll compile (map_of (RequestChecks_fields rc)) = Inr rc"
proof -
  obtain s where "RequestChecks_setAll compile s = Inr rc"
    using assms by (auto simp: RequestChecks_derived_def)
  from RequestChecks_setAll_compiled [OF this] show ?thesis
    by (cases "flowIdExemptUserAgentREs rc") (simp_all add: RequestChecks_setAll_def bool_prop_def codec)
qed

lemma RequestChecks_derivedI: "RequestChecks_setAll compile s = Inr rc \<Longrightarrow> RequestChecks_derived compile rc"
  by (auto simp: RequestChecks_derived_def)

interpretation request_checks: hot_settings "RequestChecks_class compile" "RequestChecks_derived compile"
  for compile
proof unfold_locales
  show "\<exists>msg. settings_validate (RequestChecks_class compile) s None = Inl (Missing msg)" for s
    by (simp add: RequestChecks_class_def RequestChecks_validate_def)
qed (simp_all add: RequestChecks_class_def RequestChecks_validate_own RequestChecks_setAll_own
      RequestChecks_derivedI)

section \<open>What the settings promise\<close>

text \<open>All servers agree on the types of the limits, so each accepts what another one stored.\<close>

lemma Limits_typeof_shared:
  assumes "key \<in> set config_limits_keys"
  shows "js_typeof (map_of (Limits_fields L') key) = js_typeof (map_of (Limits_fields L) key)"
proof -
  have "list_all (\<lambda>key. js_typeof (map_of (Limits_fields L') key) = js_typeof (map_of (Limits_fields L) key))
      config_limits_keys"
    by (simp add: config_limits_keys_def)
  then show ?thesis using assms by (simp add: list_all_iff)
qed

lemma Limits_validate_other:
  "Limits_validate L' (Some (Limits_toJSON L)) = Inr (map_of (Limits_fields L))"
  using Limits_typeof_shared [of _ L' L]
  by (auto simp: Limits_validate_def Limits_toJSON_def Let_def fun_eq_iff)

text \<open>
  Limits that one server pushes are adopted by every server that polls, whatever limits it had,
  except for the intervals of the \<open>suspect\<close> and \<open>disable\<close> flags: these are lost, because they are
  stored under names that are never read back.
\<close>

theorem limits_propagate:
  assumes "memcached_ok mc" "Limits_derived L"
    and "setAsync mc m now (settings_key Limits_class) (settings_toJSON Limits_class L) 0 = (m', None)"
    and "now \<le> later"
  shows "Settings_refresh mc Limits_class later m' L' =
    Inr (L\<lparr>suspectIntervalMs := None, disableIntervalMs := None\<rparr>)"
proof -
  have "getAsync mc m' later ''limits'' = Inr (Some (Limits_toJSON L))"
    using memcached_ok_get [OF assms(1,3,4)] by (simp add: Limits_class_def)
  then show ?thesis
    using Limits_setAll_own [OF assms(2)]
    by (simp add: Settings_refresh_def Limits_class_def Limits_validate_other)
qed

lemma default_limits_derived: "Limits_derived default_limits"
  unfolding Limits_derived_def using default_limits_loaded by blast

theorem limits_propagate_witness:
  "Settings_refresh table_cache Limits_class 20
     (fst (setAsync table_cache [] 10 (settings_key Limits_class) (settings_toJSON Limits_class default_limits) 0))
     (default_limits\<lparr>maxEmails := 7\<rparr>) =
   Inr (default_limits\<lparr>suspectIntervalMs := None, disableIntervalMs := None\<rparr>)"
  by (rule limits_propagate [OF table_cache_ok default_limits_derived, of "[]" 10])
    (simp_all add: table_cache_def table_set_def)

text \<open>
  A server that starts on an empty cache publishes its allowed IP addresses and keeps them,
  also when it polls the cache later.
\<close>

theorem allowed_ips_startup:
  assumes "memcached_ok mc" "key_list ips" "list_all isIPv4 ips"
    and "getAsync mc m now (settings_key AllowedIPs_class) = Inr None"
    and "setAsync mc m now (settings_key AllowedIPs_class) (settings_toJSON AllowedIPs_class ips) 0 = (m', None)"
    and "now \<le> later"
  shows "Settings_refresh_pushOnMissing mc AllowedIPs_class now m ips = (m', Inr ips) \<and>
    Settings_refresh mc AllowedIPs_class later m' ips = Inr ips"
  using allowed_ips.startup [OF assms(1) _ assms(4,5,6)] assms(2,3) by blast

theorem allowed_ips_startup_witness:
  "\<exists>m'. Settings_refresh_pushOnMissing table_cache AllowedIPs_class 10 [] [''10.0.0.1''] = (m', Inr [''10.0.0.1'']) \<and>
    Settings_refresh table_cache AllowedIPs_class 20 m' [''10.0.0.1''] = Inr [''10.0.0.1'']"
proof -
  have "key_list [''10.0.0.1'']" "list_all isIPv4 [''10.0.0.1'']" by code_simp+
  moreover obtain m' where "setAsync table_cache [] 10 (settings_key AllowedIPs_class)
      (settings_toJSON AllowedIPs_class [''10.0.0.1'']) 0 = (m', None)"
    by (simp add: table_cache_def table_set_def)
  moreover have "getAsync table_cache [] 10 (settings_key AllowedIPs_class) = Inr None"
    by (simp add: table_cache_def table_get_def)
  ultimately show ?thesis
    using allowed_ips_startup [OF table_cache_ok, of "[''10.0.0.1'']" "[]" 10 m' 20] by auto
qed

end
