(* ===== verification/Reputation.thy ===== *)
theory Reputation
  imports JS_Prelude
begin

text \<open>
  \<open>lib/reputationService.js\<close>: the optional IP reputation service. The HTTP client of the
  service is a parameter: what its \<open>get\<close> resolves to or is rejected with. A violation report
  is fire-and-forget (its rejections are caught), so its effect is the list of the reports
  handed to the client.
\<close>

record reputation_config =
  rep_enable :: bool
  rep_enableCheck :: bool
  rep_blockBelow :: int
  rep_suspectBelow :: int

text \<open>\<open>response.body\<close> is \<open>None\<close> when it is missing; its \<open>reputation\<close> is \<open>None\<close> when it is no number.\<close>

record reputation_response =
  rs_statusCode :: int
  rs_body :: "int option option"

type_synonym reputation_client = "string \<Rightarrow> string + reputation_response option"

definition reputation_isBlockBelow :: "reputation_config \<Rightarrow> int option \<Rightarrow> bool" where
  "reputation_isBlockBelow c reputation =
     (case reputation of None \<Rightarrow> False | Some n \<Rightarrow> 0 < n \<and> n < rep_blockBelow c)"

definition reputation_isSuspectBelow :: "reputation_config \<Rightarrow> int option \<Rightarrow> bool" where
  "reputation_isSuspectBelow c reputation =
     (case reputation of None \<Rightarrow> False | Some n \<Rightarrow> 0 < n \<and> n < rep_suspectBelow c)"

definition reputation_get :: "reputation_client \<Rightarrow> string \<Rightarrow> int option" where
  "reputation_get client ip =
     (case client ip of
        Inl err \<Rightarrow> None
      | Inr None \<Rightarrow> None
      | Inr (Some response) \<Rightarrow>
          (case rs_body response of
             Some reputation \<Rightarrow> if rs_statusCode response = 200 then reputation else None
           | None \<Rightarrow> None))"

text \<open>The module's exports for a configuration; \<open>alwaysFalse\<close> gives no number and no report.\<close>

definition rep_isBlockBelow :: "reputation_config \<Rightarrow> int option \<Rightarrow> bool" where
  "rep_isBlockBelow c = (if rep_enable c \<and> rep_enableCheck c then reputation_isBlockBelow c else (\<lambda>_. False))"

definition rep_isSuspectBelow :: "reputation_config \<Rightarrow> int option \<Rightarrow> bool" where
  "rep_isSuspectBelow c = (if rep_enable c \<and> rep_enableCheck c then reputation_isSuspectBelow c else (\<lambda>_. False))"

definition rep_get :: "reputation_config \<Rightarrow> reputation_client \<Rightarrow> string \<Rightarrow> int option" where
  "rep_get c client = (if rep_enable c \<and> rep_enableCheck c then reputation_get client else (\<lambda>_. None))"

type_synonym reports = "(string \<times> string) list"

definition rep_report :: "reputation_config \<Rightarrow> string \<Rightarrow> string \<Rightarrow> reports \<Rightarrow> reports" where
  "rep_report c ip action sent = (if rep_enable c then sent @ [(ip, action)] else sent)"

section \<open>Facts\<close>

text \<open>Without a score nobody is blocked or suspected: the service fails open.\<close>

lemma reputation_unknown [simp]: "\<not> rep_isBlockBelow c None" "\<not> rep_isSuspectBelow c None"
  by (simp_all add: rep_isBlockBelow_def rep_isSuspectBelow_def reputation_isBlockBelow_def
      reputation_isSuspectBelow_def)

lemma rep_get_down: "client ip = Inl err \<Longrightarrow> rep_get c client ip = None"
  by (simp add: rep_get_def reputation_get_def)

lemma rep_block_suspect:
  "rep_blockBelow c \<le> rep_suspectBelow c \<Longrightarrow> rep_isBlockBelow c s \<Longrightarrow> rep_isSuspectBelow c s"
  by (auto simp: rep_isBlockBelow_def rep_isSuspectBelow_def reputation_isBlockBelow_def
      reputation_isSuspectBelow_def split: option.splits if_splits)

end
