(* ===== verification/Sliding_Window.thy ===== *)
theory Sliding_Window
  imports JS_Prelude
begin

text \<open>
  The trimming loop that most record classes of the customs server repeat, its
  specification, and the two contracts the record classes share:
  \<^item> \<open>cooldown\<close>: how \<open>isRateLimited\<close>, \<open>rateLimit\<close> and \<open>retryAfter\<close> fit together;
  \<^item> \<open>throttle\<close>: a record that counts the hits of a sliding window and rate-limits itself
    once there are too many. The bound on what such a record lets through in any window
    is proved here once, and each record class that follows the scheme inherits it by
    interpretation.
\<close>

section \<open>The trimming loop\<close>

text \<open>
  \<^verbatim>\<open>
  var i = hits.length - 1; var n = 0; var hit = hits[i];
  while (hit > now - period && n <= max) { hit = hits[--i]; n++; }
  hits = hits.slice(i + 1);
  \<close>
  The loop variable \<open>hit\<close> is always \<open>hits[i]\<close>, and reading \<open>hits[-1]\<close> gives \<open>undefined\<close>,
  which fails the comparison. The result of the loop is the final \<open>i\<close>.
\<close>

function trim_loop :: "int list \<Rightarrow> int \<Rightarrow> int \<Rightarrow> int \<Rightarrow> int \<Rightarrow> int" where
  "trim_loop hits cutoff mx i n =
     (if 0 \<le> i \<and> i < int (length hits) \<and> cutoff < hits ! nat i \<and> n \<le> mx
      then trim_loop hits cutoff mx (i - 1) (n + 1) else i)"
  by pat_completeness auto
termination
  by (relation "measure (\<lambda>(hits, cutoff, mx, i, n). nat (i + 1))") auto

declare trim_loop.simps [simp del]

definition trim_hits :: "time \<Rightarrow> int \<Rightarrow> int \<Rightarrow> time list \<Rightarrow> time list" where
  "trim_hits now period mx hits =
     (if hits = [] then hits
      else drop (nat (trim_loop hits (now - period) mx (int (length hits) - 1) 0 + 1)) hits)"

text \<open>
  What the loop is for: going back from the newest hit, keep the hits that are younger than
  the period, and at most \<open>mx + 1\<close> of them.
\<close>

definition window_spec :: "time \<Rightarrow> int \<Rightarrow> int \<Rightarrow> time list \<Rightarrow> time list" where
  "window_spec now period mx hits =
     rev (take (nat (mx + 1)) (takeWhile (\<lambda>h. now - period < h) (rev hits)))"

text \<open>The requests a record lets through, when it is updated with a sequence of timed actions.\<close>

primrec allowed_times ::
    "(time \<Rightarrow> 'a \<Rightarrow> 'r \<Rightarrow> 'r \<times> int) \<Rightarrow> (time \<times> 'a) list \<Rightarrow> 'r \<Rightarrow> time list" where
  "allowed_times upd [] r = []"
| "allowed_times upd (e # es) r =
     (let (r', wait) = upd (fst e) (snd e) r
      in (if wait = 0 then [fst e] else []) @ allowed_times upd es r')"

definition in_window :: "time \<Rightarrow> int \<Rightarrow> time \<Rightarrow> bool" where
  "in_window t period s \<longleftrightarrow> t - period < s \<and> s \<le> t"

text \<open>
  \<open>tracks\<close> relates a record to the requests it has let through so far (\<open>past\<close>, all up to
  \<open>cur\<close>): whenever the record is not limited, its hits are exactly the requests still in
  the window.
\<close>

definition tracks ::
    "int \<Rightarrow> int \<Rightarrow> int \<Rightarrow> time option \<Rightarrow> time list \<Rightarrow> time \<Rightarrow> time list \<Rightarrow> bool" where
  "tracks interval period limit rl hits cur past \<longleftrightarrow>
     sorted hits \<and>
     (\<forall>h \<in> set hits. h \<le> cur) \<and> (\<forall>s \<in> set past. s \<le> cur) \<and>
     (\<forall>t \<ge> cur. \<not> within t rl interval \<longrightarrow>
        filter (\<lambda>s. t - period < s) past = filter (\<lambda>s. t - period < s) hits) \<and>
     (\<forall>t. int (length (filter (in_window t period) past)) \<le> limit)"

section \<open>The loop meets its specification\<close>

lemma trim_loop_counts:
  "k \<le> length hits \<Longrightarrow>
   trim_loop hits c mx (int k - 1) n =
     int k - 1 - int (length (take (nat (mx + 1 - n)) (takeWhile (\<lambda>h. c < h) (rev (take k hits)))))"
proof (induction k arbitrary: n)
  case 0
  then show ?case by (simp add: trim_loop.simps)
next
  case (Suc k)
  have tk: "take (Suc k) hits = take k hits @ [hits ! k]"
    using Suc.prems by (simp add: take_Suc_conv_app_nth)
  show ?case
  proof (cases "c < hits ! k \<and> n \<le> mx")
    case True
    then have "nat (mx + 1 - n) = Suc (nat (mx + 1 - (n + 1)))" by linarith
    with True Suc show ?thesis
      by (subst trim_loop.simps) (simp add: tk)
  next
    case False
    then show ?thesis
      using Suc.prems by (subst trim_loop.simps) (auto simp: tk)
  qed
qed

lemma trim_hits_spec: "trim_hits now period mx hits = window_spec now period mx hits"
proof (cases "hits = []")
  case True
  then show ?thesis by (simp add: trim_hits_def window_spec_def)
next
  case False
  define w where "w = take (nat (mx + 1)) (takeWhile (\<lambda>h. now - period < h) (rev hits))"
  have "w = take (length w) (rev hits)"
    unfolding w_def by (metis takeWhile_eq_take take_take length_take take_all_iff nle_le min_def)
  then have "rev w = drop (length hits - length w) hits"
    by (metis rev_take rev_rev_ident length_rev)
  moreover have "length w \<le> length hits"
    unfolding w_def by (metis length_rev length_take length_takeWhile_le min.cobounded1 min.commute order_trans)
  moreover have "trim_loop hits (now - period) mx (int (length hits) - 1) 0 =
      int (length hits) - 1 - int (length w)"
    using trim_loop_counts [of "length hits" hits "now - period" mx 0] by (simp add: w_def)
  ultimately show ?thesis
    using False by (simp add: trim_hits_def window_spec_def w_def [symmetric] nat_diff_distrib)
qed

lemma length_trim_hits: "int (length (trim_hits now period mx hits)) \<le> max 0 (mx + 1)"
  by (auto simp: trim_hits_spec window_spec_def)

lemma set_trim_hits: "set (trim_hits now period mx hits) \<subseteq> {h \<in> set hits. now - period < h}"
  unfolding trim_hits_spec window_spec_def
  by (auto dest!: in_set_takeD dest: set_takeWhileD)

lemma takeWhile_rev_sorted:
  "sorted (hits :: int list) \<Longrightarrow> takeWhile (\<lambda>h. c < h) (rev hits) = rev (filter (\<lambda>h. c < h) hits)"
proof (induction hits rule: rev_induct)
  case Nil
  then show ?case by simp
next
  case (snoc x xs)
  then show ?case
    by (cases "c < x") (fastforce simp: sorted_append filter_empty_conv)+
qed

lemma trim_hits_sorted:
  "sorted hits \<Longrightarrow>
   trim_hits now period mx hits =
     rev (take (nat (mx + 1)) (rev (filter (\<lambda>h. now - period < h) hits)))"
  by (simp add: trim_hits_spec window_spec_def takeWhile_rev_sorted)

lemma sorted_trim_hits: "sorted hits \<Longrightarrow> sorted (trim_hits now period mx hits)"
  by (simp add: trim_hits_sorted rev_take sorted_wrt_filter sorted_wrt_drop)

text \<open>For hits in order, the length test after trimming counts all the hits of the window.\<close>

lemma over_limit_sorted:
  "sorted hits \<Longrightarrow> 0 \<le> mx \<Longrightarrow>
   mx < int (length (trim_hits now period mx hits)) \<longleftrightarrow>
   mx < int (length (filter (\<lambda>h. now - period < h) hits))"
  by (auto simp: trim_hits_sorted)

lemma trim_hits_under:
  assumes "sorted hits" "int (length (trim_hits now period mx hits)) \<le> mx"
  shows "trim_hits now period mx hits = filter (\<lambda>h. now - period < h) hits"
  using assms by (auto simp: trim_hits_sorted min_def split: if_splits)

lemma trim_hits_idem:
  "trim_hits now period mx (trim_hits now period mx hits) = trim_hits now period mx hits"
proof -
  define ws where "ws = take (nat (mx + 1)) (takeWhile (\<lambda>h. now - period < h) (rev hits))"
  have "\<forall>h \<in> set ws. now - period < h"
    unfolding ws_def by (auto dest!: in_set_takeD dest: set_takeWhileD)
  then have tw: "takeWhile (\<lambda>h. now - period < h) ws = ws"
    by (simp add: takeWhile_eq_all_conv)
  have tk: "take (nat (mx + 1)) ws = ws"
    unfolding ws_def by simp
  show ?thesis
    by (simp only: trim_hits_spec window_spec_def ws_def [symmetric] rev_rev_ident tw tk)
qed

section \<open>Steps of a throttled record\<close>

lemma tracks_fresh:
  "0 \<le> limit \<Longrightarrow> tracks interval period limit rl [] cur []"
  by (simp add: tracks_def)

lemma tracks_later:
  "tracks interval period limit rl hits cur past \<Longrightarrow> cur \<le> now \<Longrightarrow>
   tracks interval period limit rl hits now past"
  unfolding tracks_def by (meson order_trans)

lemma tracks_over:
  assumes tr: "tracks interval period limit rl hits cur past"
    and "cur \<le> now" "0 < now" "period \<le> interval"
    and h: "h = [] \<or> h = trim_hits now period limit (hits @ [now])"
  shows "tracks interval period limit (Some now) h now past"
proof -
  have "sorted (hits @ [now])" "\<forall>s \<in> set (hits @ [now]). s \<le> now"
    using tr \<open>cur \<le> now\<close> by (fastforce simp: tracks_def sorted_append)+
  then have "sorted h" and le: "\<forall>s \<in> set h. s \<le> now"
    using h set_trim_hits [of now period limit "hits @ [now]"] by (auto simp: sorted_trim_hits)
  moreover have past: "\<forall>s \<in> set past. s \<le> now"
    using assms(1,2) by (auto simp: tracks_def)
  moreover have "filter (\<lambda>s. t - period < s) past = []" "filter (\<lambda>s. t - period < s) h = []"
    if "interval \<le> t - now" for t
    using le past that assms(4) by (force simp: filter_empty_conv)+
  ultimately show ?thesis
    using assms by (simp add: tracks_def not_less)
qed

lemma tracks_under:
  assumes tr: "tracks interval period limit rl hits cur past"
    and "cur \<le> now" "\<not> within now rl interval"
    and h: "h = trim_hits now period limit (hits @ [now])" and "int (length h) \<le> limit"
  shows "tracks interval period limit rl h now (past @ [now])"
proof -
  have sorted: "sorted (hits @ [now])"
    using tr \<open>cur \<le> now\<close> by (fastforce simp: tracks_def sorted_append)
  then have h_eq: "h = filter (\<lambda>s. now - period < s) (hits @ [now])"
    using assms(4,5) by (simp add: trim_hits_under)
  have agree: "filter (\<lambda>s. t - period < s) (past @ [now]) = filter (\<lambda>s. t - period < s) h"
    if "now \<le> t" "\<not> within t rl interval" for t
  proof -
    have "filter (\<lambda>s. t - period < s) past = filter (\<lambda>s. t - period < s) hits"
      using tr that \<open>cur \<le> now\<close> unfolding tracks_def by (meson order_trans)
    moreover have "filter (\<lambda>s. t - period < s) h = filter (\<lambda>s. t - period < s) (hits @ [now])"
      unfolding h_eq filter_filter using that(1) by (intro filter_cong) auto
    ultimately show ?thesis by simp
  qed
  have bound: "int (length (filter (in_window t period) (past @ [now]))) \<le> limit" for t
  proof (cases "now \<le> t")
    case True
    have "length (filter (in_window t period) (past @ [now])) \<le>
        length (filter (\<lambda>s. now - period < s) (past @ [now]))"
      unfolding in_window_def using True
      by (intro length_filter_mono) auto
    also have "\<dots> = length h"
      using agree [of now] assms(3) h_eq by simp
    finally show ?thesis using assms(5) by simp
  next
    case False
    then have "filter (in_window t period) (past @ [now]) = filter (in_window t period) past"
      by (simp add: in_window_def)
    then show ?thesis using tr by (simp add: tracks_def)
  qed
  have "sorted h" "\<forall>s \<in> set h. s \<le> now" "\<forall>s \<in> set (past @ [now]). s \<le> now"
    using sorted tr \<open>cur \<le> now\<close> by (auto simp: h_eq sorted_wrt_filter sorted_append tracks_def)
  then show ?thesis
    using agree bound assms(5) by (simp add: tracks_def)
qed

section \<open>Rate limiting as a cooldown\<close>

text \<open>
  A rate-limited record promises its client three things: limiting it at \<open>now\<close> lasts for
  the interval, a limited record asks for a positive wait, and a client that waits as long
  as it was told is not limited any more. Waits are in seconds, timestamps in milliseconds.
\<close>

locale cooldown =
  fixes isRateLimited :: "time \<Rightarrow> 'r \<Rightarrow> bool"
    and rateLimit :: "time \<Rightarrow> 'r \<Rightarrow> 'r"
    and retryAfter :: "time \<Rightarrow> 'r \<Rightarrow> int"
    and interval :: int
  assumes starts: "now \<noteq> 0 \<Longrightarrow> isRateLimited later (rateLimit now r) \<longleftrightarrow> later - now < interval"
    and limited_waits: "isRateLimited now r \<Longrightarrow> 0 < retryAfter now r"
    and wait_enough: "now + 1000 * retryAfter now r \<le> later \<Longrightarrow> \<not> isRateLimited later r"
    and wait_nonneg: "0 \<le> retryAfter now r"
begin

lemma limited_throughout:
  assumes "0 < now" "later < now + interval"
  shows "isRateLimited later (rateLimit now r) \<and> 0 < retryAfter later (rateLimit now r)"
  using assms starts [of now later r] limited_waits by auto

lemma limited_ends:
  assumes "0 < now" "now + interval \<le> later"
  shows "\<not> isRateLimited later (rateLimit now r)"
  using assms starts [of now later r] by auto

lemma wait_covers_interval:
  assumes "0 < now"
  shows "interval \<le> 1000 * retryAfter now (rateLimit now r)"
proof -
  have "\<not> isRateLimited (now + 1000 * retryAfter now (rateLimit now r)) (rateLimit now r)"
    by (rule wait_enough [of now]) simp
  then show ?thesis using assms starts [of now] by auto
qed

lemma wait_positive:
  assumes "0 < now" "0 < interval"
  shows "0 < retryAfter now (rateLimit now r)"
  using limited_throughout [of now now r] assms by simp

end

section \<open>Counting hits\<close>

text \<open>
  A throttled record remembers when it was limited and the hits of its window. An update
  with a counted action is refused while the record is limited; otherwise it is recorded,
  and when the window holds more than \<open>limit\<close> hits the record limits itself and refuses.
  \<open>ok\<close> is what the record class needs to behave like this (nothing else is blocking it).
\<close>

locale throttle =
  fixes ok :: "'r \<Rightarrow> bool"
    and counted :: "'a \<Rightarrow> bool"
    and rl :: "'r \<Rightarrow> time option"
    and hits :: "'r \<Rightarrow> time list"
    and update :: "time \<Rightarrow> 'a \<Rightarrow> 'r \<Rightarrow> 'r \<times> int"
    and interval period limit :: int
  assumes refused: "ok r \<Longrightarrow> counted a \<Longrightarrow> within now (rl r) interval \<Longrightarrow>
      ok (fst (update now a r)) \<and> rl (fst (update now a r)) = rl r \<and>
      hits (fst (update now a r)) = hits r \<and> 0 < snd (update now a r)"
    and over: "ok r \<Longrightarrow> counted a \<Longrightarrow> \<not> within now (rl r) interval \<Longrightarrow>
      limit < int (length (trim_hits now period limit (hits r @ [now]))) \<Longrightarrow>
      ok (fst (update now a r)) \<and> rl (fst (update now a r)) = Some now \<and>
      (hits (fst (update now a r)) = [] \<or>
       hits (fst (update now a r)) = trim_hits now period limit (hits r @ [now])) \<and>
      (0 < interval \<longrightarrow> 0 < snd (update now a r))"
    and under: "ok r \<Longrightarrow> counted a \<Longrightarrow> \<not> within now (rl r) interval \<Longrightarrow>
      int (length (trim_hits now period limit (hits r @ [now]))) \<le> limit \<Longrightarrow>
      ok (fst (update now a r)) \<and> rl (fst (update now a r)) = rl r \<and>
      hits (fst (update now a r)) = trim_hits now period limit (hits r @ [now]) \<and>
      snd (update now a r) = 0"
begin

lemma run_bounded:
  assumes "ok r" "tracks interval period limit (rl r) (hits r) cur past"
    and "sorted (map fst es)" "\<forall>e \<in> set es. counted (snd e) \<and> 0 < fst e \<and> cur \<le> fst e"
    and conf: "0 \<le> limit" "0 < interval" "period \<le> interval"
  shows "int (length (filter (in_window t period) (past @ allowed_times update es r))) \<le> limit"
  using assms(1-4)
proof (induction es arbitrary: r cur past)
  case Nil
  then show ?case by (simp add: tracks_def)
next
  case (Cons e es)
  obtain now a where e: "e = (now, a)" by (cases e)
  obtain r' wait where u: "update now a r = (r', wait)" by (cases "update now a r")
  have c: "counted a" "0 < now" "cur \<le> now"
    and es: "sorted (map fst es)" "\<forall>e \<in> set es. counted (snd e) \<and> 0 < fst e \<and> now \<le> fst e"
    using Cons.prems(3,4) by (auto simp: e)
  note tr = tracks_later [OF Cons.prems(2) c(3)]
  show ?case
  proof (cases "within now (rl r) interval")
    case True
    then have *: "ok r'" "rl r' = rl r" "hits r' = hits r" "wait \<noteq> 0"
      using refused [OF Cons.prems(1) c(1) True] u by auto
    then show ?thesis
      using Cons.IH [OF *(1) _ es, of past] tr by (simp add: e u)
  next
    case notlim: False
    show ?thesis
    proof (cases "limit < int (length (trim_hits now period limit (hits r @ [now])))")
      case True
      from over [OF Cons.prems(1) c(1) notlim True] conf(2) u
      have *: "ok r'" "rl r' = Some now" "wait \<noteq> 0"
        and h: "hits r' = [] \<or> hits r' = trim_hits now period limit (hits r @ [now])" by auto
      have "tracks interval period limit (rl r') (hits r') now past"
        using tracks_over [OF tr _ c(2) conf(3) h] by (simp add: *)
      then show ?thesis
        using Cons.IH [OF *(1) _ es] *(3) by (simp add: e u)
    next
      case False
      then have le: "int (length (trim_hits now period limit (hits r @ [now]))) \<le> limit" by simp
      from under [OF Cons.prems(1) c(1) notlim le] u
      have *: "ok r'" "rl r' = rl r" "hits r' = trim_hits now period limit (hits r @ [now])"
        "wait = 0" by auto
      have "tracks interval period limit (rl r') (hits r') now (past @ [now])"
        using tracks_under [OF Cons.prems(2) c(3) notlim refl le] by (simp add: *)
      from Cons.IH [OF *(1) this es] *(4) show ?thesis
        by (simp add: e u)
    qed
  qed
qed

text \<open>The bound for a record that starts with an empty window.\<close>

lemma window_bound:
  assumes "ok r" "hits r = []"
    and "sorted (map fst es)" "\<forall>e \<in> set es. counted (snd e) \<and> 0 < fst e"
    and conf: "0 \<le> limit" "0 < interval" "period \<le> interval"
  shows "int (length (filter (in_window t period) (allowed_times update es r))) \<le> limit"
proof (cases es)
  case Nil
  then show ?thesis using conf by simp
next
  case (Cons e es')
  then have "\<forall>x \<in> set es. fst e \<le> fst x"
    using assms(3) by auto
  then show ?thesis
    using run_bounded [of r "fst e" "[]" es t] assms tracks_fresh [OF conf(1)] by auto
qed

text \<open>Nothing is refused as long as the window has room.\<close>

lemma all_allowed:
  assumes "ok r" "rl r = None"
    and "\<forall>e \<in> set es. counted (snd e)" "int (length (hits r) + length es) \<le> limit"
  shows "allowed_times update es r = map fst es"
  using assms
proof (induction es arbitrary: r)
  case Nil
  then show ?case by simp
next
  case (Cons e es)
  obtain now a where e: "e = (now, a)" by (cases e)
  obtain r' wait where u: "update now a r = (r', wait)" by (cases "update now a r")
  have len: "length (trim_hits now period limit (hits r @ [now])) \<le> length (hits r) + 1"
    by (simp add: trim_hits_def)
  with Cons.prems(4) have le: "int (length (trim_hits now period limit (hits r @ [now]))) \<le> limit"
    by simp
  have nl: "\<not> within now (rl r) interval" and ca: "counted a"
    using Cons.prems(2,3) by (simp_all add: e)
  from under [OF Cons.prems(1) ca nl le] u Cons.prems(2)
  have *: "ok r'" "rl r' = None" "wait = 0"
      "hits r' = trim_hits now period limit (hits r @ [now])"
    by auto
  have "int (length (hits r') + length es) \<le> limit"
    using len Cons.prems(4) by (simp add: *(4))
  then show ?case
    using Cons.IH [OF *(1,2)] Cons.prems(3) *(3) by (simp add: e u)
qed

end

end
