(* ===== verification/Actions.thy ===== *)
theory Actions
  imports JS_Prelude
begin

text \<open>
  \<open>lib/actions.js\<close> and \<open>lib/block_reasons.js\<close> of the customs server: which security class an
  action of the auth server belongs to. The classes are plain objects whose values are all
  \<open>true\<close>, so \<open>CLASS[action]\<close> is truthy for the own keys and for the inherited names; the
  account-access class is a \<open>Set\<close>, which inherits nothing.
\<close>

definition PASSWORD_CHECKING_ACTION :: "string list" where
  "PASSWORD_CHECKING_ACTION = [''accountLogin'', ''accountDestroy'', ''passwordChange'']"

definition CODE_VERIFYING_ACTION :: "string list" where
  "CODE_VERIFYING_ACTION =
     [''recoveryEmailVerifyCode'', ''passwordForgotVerifyCode'', ''verifyRecoveryCode'',
      ''verifySessionCode'', ''verifyTotpCode'']"

definition ACCOUNT_STATUS_ACTION :: "string list" where
  "ACCOUNT_STATUS_ACTION =
     [''accountCreate'', ''accountLogin'', ''accountDestroy'', ''passwordChange'',
      ''passwordForgotSendCode'', ''accountStatusCheck'', ''sendUnblockCode'',
      ''recoveryKeyExists'']"

definition EMAIL_SENDING_ACTION :: "string list" where
  "EMAIL_SENDING_ACTION =
     [''accountCreate'', ''createEmail'', ''recoveryEmailResendCode'',
      ''recoveryEmailSecondaryResendCode'', ''passwordForgotSendCode'',
      ''passwordForgotResendCode'', ''sendUnblockCode'']"

definition SMS_SENDING_ACTION :: "string list" where
  "SMS_SENDING_ACTION = [''connectDeviceSms'']"

definition ACCOUNT_ACCESS_ACTION :: "string list" where
  "ACCOUNT_ACCESS_ACTION = [''consumeSigninCode'']"

definition isPasswordCheckingAction :: "string \<Rightarrow> bool" where
  "isPasswordCheckingAction action = js_in action PASSWORD_CHECKING_ACTION"

definition isCodeVerifyingAction :: "string \<Rightarrow> bool" where
  "isCodeVerifyingAction action = js_in action CODE_VERIFYING_ACTION"

definition isAccountStatusAction :: "string \<Rightarrow> bool" where
  "isAccountStatusAction action = js_in action ACCOUNT_STATUS_ACTION"

definition isEmailSendingAction :: "string \<Rightarrow> bool" where
  "isEmailSendingAction action = js_in action EMAIL_SENDING_ACTION"

definition isSmsSendingAction :: "string \<Rightarrow> bool" where
  "isSmsSendingAction action = js_in action SMS_SENDING_ACTION"

definition isAccountAccessAction :: "string \<Rightarrow> bool" where
  "isAccountAccessAction action \<longleftrightarrow> action \<in> set ACCOUNT_ACCESS_ACTION"

text \<open>The values of \<open>lib/block_reasons.js\<close>.\<close>

datatype block_reason = IP_IN_BLOCKLIST | IP_BAD_REPUTATION | OTHER

section \<open>Facts about the classes\<close>

named_theorems action_defs \<open>the action classes, for evaluation\<close>

declare PASSWORD_CHECKING_ACTION_def [action_defs] CODE_VERIFYING_ACTION_def [action_defs]
  ACCOUNT_STATUS_ACTION_def [action_defs] EMAIL_SENDING_ACTION_def [action_defs]
  SMS_SENDING_ACTION_def [action_defs] ACCOUNT_ACCESS_ACTION_def [action_defs]
  isPasswordCheckingAction_def [action_defs] isCodeVerifyingAction_def [action_defs]
  isAccountStatusAction_def [action_defs] isEmailSendingAction_def [action_defs]
  isSmsSendingAction_def [action_defs] isAccountAccessAction_def [action_defs]
  js_in_def [action_defs] object_prototype_keys_def [action_defs]

text \<open>An own key of one class is in no other class of the email record's three checks.\<close>

lemma email_action_only:
  "a \<in> set EMAIL_SENDING_ACTION \<Longrightarrow>
   isEmailSendingAction a \<and> \<not> isCodeVerifyingAction a \<and> \<not> isSmsSendingAction a"
  by (auto simp: action_defs)

lemma code_action_only:
  "a \<in> set CODE_VERIFYING_ACTION \<Longrightarrow>
   isCodeVerifyingAction a \<and> \<not> isEmailSendingAction a \<and> \<not> isSmsSendingAction a \<and>
   \<not> isPasswordCheckingAction a \<and> \<not> isAccountStatusAction a \<and> \<not> isAccountAccessAction a"
  by (auto simp: action_defs)

lemma sms_action_only:
  "a \<in> set SMS_SENDING_ACTION \<Longrightarrow>
   isSmsSendingAction a \<and> \<not> isEmailSendingAction a \<and> \<not> isCodeVerifyingAction a \<and>
   \<not> isPasswordCheckingAction a \<and> \<not> isAccountStatusAction a \<and> \<not> isAccountAccessAction a"
  by (auto simp: action_defs)

lemma password_action_status: "isPasswordCheckingAction a \<Longrightarrow> isAccountStatusAction a"
  by (auto simp: action_defs)

lemma password_action_only:
  "a \<in> set PASSWORD_CHECKING_ACTION \<Longrightarrow>
   isPasswordCheckingAction a \<and> \<not> isEmailSendingAction a \<and> \<not> isCodeVerifyingAction a \<and>
   \<not> isSmsSendingAction a \<and> \<not> isAccountAccessAction a"
  by (auto simp: action_defs)

lemma access_action_only:
  "isAccountAccessAction a \<Longrightarrow>
   \<not> isPasswordCheckingAction a \<and> \<not> isEmailSendingAction a \<and> \<not> isCodeVerifyingAction a \<and>
   \<not> isSmsSendingAction a \<and> \<not> isAccountStatusAction a"
  by (auto simp: action_defs)

end
