(* ===== verification/Ip_Record.thy ===== *)
theory Ip_Record
  imports Sliding_Window Actions Limits
begin

text \<open>
  \<open>lib/ip_record.js\<close>: everything that is counted for one IP address. Failed logins, code
  verifications and account-status checks are kept with the email address they were about,
  and limited by the number of distinct addresses (failed logins: by a weighted sum over
  distinct addresses).
\<close>

record login_info =
  li_t :: time
  li_e :: int
  li_u :: string

record check_info =
  ci_t :: time
  ci_u :: string

record ip_record =
  ip_bk :: "time option" \<comment> \<open>blocked\<close>
  ip_su :: "time option" \<comment> \<open>suspected\<close>
  ip_di :: "time option" \<comment> \<open>disabled\<close>
  ip_lf :: "login_info list" \<comment> \<open>failed logins\<close>
  ip_vc :: "check_info list" \<comment> \<open>code verifications\<close>
  ip_as :: "check_info list" \<comment> \<open>account status checks\<close>
  ip_sms :: "time list" \<comment> \<open>text messages\<close>
  ip_aa :: "time list" \<comment> \<open>account access attempts\<close>
  ip_rl :: "time option" \<comment> \<open>rate-limited\<close>

definition ERRNO_THROTTLED :: int where
  "ERRNO_THROTTLED = 114"

section \<open>Storage\<close>

fun str_field :: "(string \<times> jsval) list \<Rightarrow> string \<Rightarrow> string option" where
  "str_field fs k = (case map_of fs k of Some (JStr s) \<Rightarrow> Some s | _ \<Rightarrow> None)"

fun login_of :: "jsval \<Rightarrow> login_info option" where
  "login_of (JObj fs) =
     (case (get_num (Some (JObj fs)) ''t'', get_num (Some (JObj fs)) ''e'', str_field fs ''u'') of
        (Some t, Some e, Some u) \<Rightarrow> Some \<lparr> li_t = t, li_e = e, li_u = u \<rparr>
      | _ \<Rightarrow> None)"
| "login_of _ = None"

fun check_of :: "jsval \<Rightarrow> check_info option" where
  "check_of (JObj fs) =
     (case (get_num (Some (JObj fs)) ''t'', str_field fs ''u'') of
        (Some t, Some u) \<Rightarrow> Some \<lparr> ci_t = t, ci_u = u \<rparr>
      | _ \<Rightarrow> None)"
| "check_of _ = None"

definition get_list :: "(jsval \<Rightarrow> 'a option) \<Rightarrow> jsval option \<Rightarrow> string \<Rightarrow> 'a list" where
  "get_list dec v k =
     (case map_of (js_fields v) k of Some (JArr xs) \<Rightarrow> List.map_filter dec xs | _ \<Rightarrow> [])"

definition IpRecord_parse :: "jsval option \<Rightarrow> ip_record" where
  "IpRecord_parse object =
     \<lparr> ip_bk = get_num object ''bk'', ip_su = get_num object ''su'',
       ip_di = get_num object ''di'', ip_lf = get_list login_of object ''lf'',
       ip_vc = get_list check_of object ''vc'', ip_as = get_list check_of object ''as'',
       ip_sms = get_nums object ''sms'', ip_aa = get_nums object ''aa'',
       ip_rl = get_num object ''rl'' \<rparr>"

definition login_json :: "login_info \<Rightarrow> jsval" where
  "login_json i = JObj [(''t'', JNum (li_t i)), (''e'', JNum (li_e i)), (''u'', JStr (li_u i))]"

definition check_json :: "check_info \<Rightarrow> jsval" where
  "check_json i = JObj [(''t'', JNum (ci_t i)), (''u'', JStr (ci_u i))]"

definition IpRecord_marshall :: "ip_record \<Rightarrow> jsval" where
  "IpRecord_marshall r = JObj
     ([(''lf'', JArr (map login_json (ip_lf r))), (''vc'', JArr (map check_json (ip_vc r))),
       (''as'', JArr (map check_json (ip_as r)))] @
      opt_num ''bk'' (ip_bk r) @ opt_num ''su'' (ip_su r) @ opt_num ''di'' (ip_di r) @
      [(''sms'', nums (ip_sms r)), (''aa'', nums (ip_aa r))] @ opt_num ''rl'' (ip_rl r))"

definition IpRecord_getMinLifetimeMS :: "limits \<Rightarrow> int" where
  "IpRecord_getMinLifetimeMS L =
     max (blockIntervalMs L) (max (ipRateLimitIntervalMs L) (ipRateLimitBanDurationMs L))"

section \<open>Trimming by distinct addresses\<close>

text \<open>
  The loop of \<open>_trim\<close>, for items with a timestamp \<open>t\<close> and an address \<open>u\<close>; \<open>seen\<close> is an object
  used as a set. The result is the final \<open>i\<close>.
\<close>

function ip_trim_loop ::
    "('i \<Rightarrow> time) \<Rightarrow> ('i \<Rightarrow> string) \<Rightarrow> 'i list \<Rightarrow> int \<Rightarrow> int \<Rightarrow> int \<Rightarrow> int \<Rightarrow> string list \<Rightarrow> int" where
  "ip_trim_loop t u items cutoff mx i n seen =
     (if 0 \<le> i \<and> i < int (length items) \<and> cutoff < t (items ! nat i) \<and> n \<le> mx
      then
        if js_in (u (items ! nat i)) seen
        then ip_trim_loop t u items cutoff mx (i - 1) n seen
        else ip_trim_loop t u items cutoff mx (i - 1) (n + 1) (u (items ! nat i) # seen)
      else i)"
  by pat_completeness auto
termination
  by (relation "measure (\<lambda>(t, u, items, cutoff, mx, i, n, seen). nat (i + 1))") auto

declare ip_trim_loop.simps [simp del]

definition IpRecord_trim ::
    "limits \<Rightarrow> ('i \<Rightarrow> time) \<Rightarrow> ('i \<Rightarrow> string) \<Rightarrow> time \<Rightarrow> 'i list \<Rightarrow> int \<Rightarrow> 'i list" where
  "IpRecord_trim L t u now items maxUnique =
     (if items = [] then items
      else drop (nat (ip_trim_loop t u items (now - ipRateLimitIntervalMs L) maxUnique
             (int (length items) - 1) 0 [] + 1)) items)"

text \<open>
  \<^verbatim>\<open>forEach(info => { if (!(info.u in seen)) { count += 1; seen[info.u] = true; } })\<close>
\<close>

fun count_unseen :: "string list \<Rightarrow> string list \<Rightarrow> int" where
  "count_unseen seen [] = 0"
| "count_unseen seen (u # us) =
     (if js_in u seen then count_unseen seen us else 1 + count_unseen (u # seen) us)"

section \<open>Failed logins\<close>

text \<open>
  \<open>weights[user]\<close> for an own property is a number or \<open>NaN\<close> (\<open>None\<close>). For a name the object
  inherits, the first read gives a function, so \<open>Math.max\<close> is \<open>NaN\<close>; \<open>NaN || 0\<close> is 0 the next
  time. Assigning a number to \<open>__proto__\<close> creates no property.
\<close>

definition errno_weight :: "limits \<Rightarrow> int \<Rightarrow> int" where
  "errno_weight L errno =
     (case map_of (badLoginErrnoWeights L) (show_int errno) of
        Some (JNum w) \<Rightarrow> if w = 0 then 1 else w
      | _ \<Rightarrow> 1)"

definition prev_weight :: "(string \<times> int option) list \<Rightarrow> string \<Rightarrow> int option" where
  "prev_weight weights user =
     (case map_of weights user of
        Some (Some w) \<Rightarrow> Some w
      | Some None \<Rightarrow> Some 0
      | None \<Rightarrow> if user \<in> set object_prototype_keys then None else Some 0)"

definition add_weight ::
    "limits \<Rightarrow> login_info \<Rightarrow> (string \<times> int option) list \<Rightarrow> (string \<times> int option) list" where
  "add_weight L info weights =
     (if li_u info = ''__proto__'' then weights
      else AList.update (li_u info)
             (map_option (max (errno_weight L (li_e info))) (prev_weight weights (li_u info)))
             weights)"

fun sum_weights :: "(string \<times> int option) list \<Rightarrow> int option" where
  "sum_weights [] = Some 0"
| "sum_weights ((u, w) # ws) =
     Option.bind w (\<lambda>n. map_option ((+) n) (sum_weights ws))"

definition bad_login_score :: "limits \<Rightarrow> login_info list \<Rightarrow> int option" where
  "bad_login_score L lf = sum_weights (fold (add_weight L) lf [])"

definition IpRecord_trimBadLogins :: "limits \<Rightarrow> time \<Rightarrow> ip_record \<Rightarrow> ip_record" where
  "IpRecord_trimBadLogins L now r =
     r\<lparr>ip_lf := IpRecord_trim L li_t li_u now (ip_lf r) (maxBadLoginsPerIp L)\<rparr>"

definition IpRecord_isOverBadLogins :: "limits \<Rightarrow> time \<Rightarrow> ip_record \<Rightarrow> ip_record \<times> bool" where
  "IpRecord_isOverBadLogins L now r =
     (let r' = IpRecord_trimBadLogins L now r
      in (r', case bad_login_score L (ip_lf r') of
                None \<Rightarrow> False | Some score \<Rightarrow> maxBadLoginsPerIp L < score))"

text \<open>\<open>addBadLogin({ email, errno })\<close>, after \<open>errno || 999\<close>; an absent email is the empty string.\<close>

definition IpRecord_addBadLogin :: "limits \<Rightarrow> time \<Rightarrow> string \<Rightarrow> int \<Rightarrow> ip_record \<Rightarrow> ip_record" where
  "IpRecord_addBadLogin L now email errno r =
     (let r' = IpRecord_trimBadLogins L now r
      in r'\<lparr>ip_lf := ip_lf r' @
             [\<lparr> li_t = now, li_e = (if errno = 0 then 999 else errno), li_u = email \<rparr>]\<rparr>)"

section \<open>Code verifications and account status checks\<close>

definition IpRecord_trimVerifyCodes :: "limits \<Rightarrow> time \<Rightarrow> ip_record \<Rightarrow> ip_record" where
  "IpRecord_trimVerifyCodes L now r =
     r\<lparr>ip_vc := IpRecord_trim L ci_t ci_u now (ip_vc r) (maxVerifyCodes L)\<rparr>"

definition IpRecord_isOverVerifyCodes :: "limits \<Rightarrow> time \<Rightarrow> ip_record \<Rightarrow> ip_record \<times> bool" where
  "IpRecord_isOverVerifyCodes L now r =
     (let r' = IpRecord_trimVerifyCodes L now r
      in (r', maxVerifyCodes L < count_unseen [] (map ci_u (ip_vc r'))))"

definition IpRecord_addVerifyCode :: "limits \<Rightarrow> time \<Rightarrow> string \<Rightarrow> ip_record \<Rightarrow> ip_record" where
  "IpRecord_addVerifyCode L now email r =
     (let r' = IpRecord_trimVerifyCodes L now r
      in r'\<lparr>ip_vc := ip_vc r' @ [\<lparr> ci_t = now, ci_u = email \<rparr>]\<rparr>)"

definition IpRecord_trimAccountStatus :: "limits \<Rightarrow> time \<Rightarrow> ip_record \<Rightarrow> ip_record" where
  "IpRecord_trimAccountStatus L now r =
     r\<lparr>ip_as := IpRecord_trim L ci_t ci_u now (ip_as r) (maxAccountStatusCheck L)\<rparr>"

definition IpRecord_isOverAccountStatusCheck ::
    "limits \<Rightarrow> time \<Rightarrow> ip_record \<Rightarrow> ip_record \<times> bool" where
  "IpRecord_isOverAccountStatusCheck L now r =
     (let r' = IpRecord_trimAccountStatus L now r
      in (r', maxAccountStatusCheck L < count_unseen [] (map ci_u (ip_as r'))))"

definition IpRecord_addAccountStatusCheck ::
    "limits \<Rightarrow> time \<Rightarrow> string \<Rightarrow> ip_record \<Rightarrow> ip_record" where
  "IpRecord_addAccountStatusCheck L now email r =
     (let r' = IpRecord_trimAccountStatus L now r
      in r'\<lparr>ip_as := ip_as r' @ [\<lparr> ci_t = now, ci_u = email \<rparr>]\<rparr>)"

section \<open>Text messages and account access\<close>

definition IpRecord_trimSmsRequests :: "limits \<Rightarrow> time \<Rightarrow> ip_record \<Rightarrow> ip_record" where
  "IpRecord_trimSmsRequests L now r =
     r\<lparr>ip_sms := trim_hits now (ipRateLimitIntervalMs L) (maxSms L) (ip_sms r)\<rparr>"

definition IpRecord_isOverSmsLimit :: "limits \<Rightarrow> time \<Rightarrow> ip_record \<Rightarrow> ip_record \<times> bool" where
  "IpRecord_isOverSmsLimit L now r =
     (let r' = IpRecord_trimSmsRequests L now r in (r', maxSms L < int (length (ip_sms r'))))"

definition IpRecord_addSmsRequest :: "time \<Rightarrow> ip_record \<Rightarrow> ip_record" where
  "IpRecord_addSmsRequest now r = r\<lparr>ip_sms := ip_sms r @ [now]\<rparr>"

definition IpRecord_addAccountAccess :: "time \<Rightarrow> ip_record \<Rightarrow> ip_record" where
  "IpRecord_addAccountAccess now r = r\<lparr>ip_aa := ip_aa r @ [now]\<rparr>"

definition IpRecord_isOverAccountAccessLimit :: "limits \<Rightarrow> ip_record \<Rightarrow> bool" where
  "IpRecord_isOverAccountAccessLimit L r \<longleftrightarrow> maxAccountAccess L < int (length (ip_aa r))"

section \<open>Blocking\<close>

definition IpRecord_isBlocked :: "limits \<Rightarrow> time \<Rightarrow> ip_record \<Rightarrow> bool" where
  "IpRecord_isBlocked L now r = within now (ip_bk r) (blockIntervalMs L)"

definition IpRecord_isSuspected :: "limits \<Rightarrow> time \<Rightarrow> ip_record \<Rightarrow> bool" where
  "IpRecord_isSuspected L now r = within_opt now (ip_su r) (suspectIntervalMs L)"

definition IpRecord_isDisabled :: "limits \<Rightarrow> time \<Rightarrow> ip_record \<Rightarrow> bool" where
  "IpRecord_isDisabled L now r = within_opt now (ip_di r) (disableIntervalMs L)"

definition IpRecord_isRateLimited :: "limits \<Rightarrow> time \<Rightarrow> ip_record \<Rightarrow> bool" where
  "IpRecord_isRateLimited L now r = within now (ip_rl r) (ipRateLimitBanDurationMs L)"

definition IpRecord_shouldBlock :: "limits \<Rightarrow> time \<Rightarrow> ip_record \<Rightarrow> bool" where
  "IpRecord_shouldBlock L now r \<longleftrightarrow>
     IpRecord_isBlocked L now r \<or> IpRecord_isDisabled L now r \<or> IpRecord_isRateLimited L now r"

definition IpRecord_block :: "time \<Rightarrow> ip_record \<Rightarrow> ip_record" where
  "IpRecord_block now r = r\<lparr>ip_bk := Some now\<rparr>"

definition IpRecord_suspect :: "time \<Rightarrow> ip_record \<Rightarrow> ip_record" where
  "IpRecord_suspect now r = r\<lparr>ip_su := Some now\<rparr>"

definition IpRecord_disable :: "time \<Rightarrow> ip_record \<Rightarrow> ip_record" where
  "IpRecord_disable now r = r\<lparr>ip_di := Some now\<rparr>"

definition IpRecord_rateLimit :: "time \<Rightarrow> ip_record \<Rightarrow> ip_record" where
  "IpRecord_rateLimit now r = r\<lparr>ip_rl := Some now, ip_as := [], ip_sms := [], ip_aa := []\<rparr>"

definition IpRecord_retryAfter :: "limits \<Rightarrow> time \<Rightarrow> ip_record \<Rightarrow> int" where
  "IpRecord_retryAfter L now r =
     max 0 (max (seconds_left now (ip_rl r) (ipRateLimitBanDurationMs L))
                (seconds_left now (ip_bk r) (blockIntervalMs L)))"

section \<open>update\<close>

text \<open>A check that rate-limits the record when it is over, and keeps what it trimmed.\<close>

definition limit_if :: "time \<Rightarrow> ip_record \<times> bool \<Rightarrow> ip_record" where
  "limit_if now res = (if snd res then IpRecord_rateLimit now (fst res) else fst res)"

definition IpRecord_update ::
    "limits \<Rightarrow> time \<Rightarrow> string \<Rightarrow> string \<Rightarrow> ip_record \<Rightarrow> ip_record \<times> int" where
  "IpRecord_update L now action email r =
     (if IpRecord_isBlocked L now r then (r, IpRecord_retryAfter L now r)
      else
        let r1 = (if isAccountStatusAction action
                  then limit_if now (IpRecord_isOverAccountStatusCheck L now
                         (IpRecord_addAccountStatusCheck L now email r))
                  else r);
            r2 = (if isCodeVerifyingAction action
                  then limit_if now (IpRecord_isOverVerifyCodes L now
                         (IpRecord_addVerifyCode L now email r1))
                  else r1);
            r3 = (if isPasswordCheckingAction action
                  then
                    let (ra, limited) =
                          (if IpRecord_isRateLimited L now r2 then (r2, True)
                           else IpRecord_isOverBadLogins L now r2);
                        rb = (if limited
                              then IpRecord_addBadLogin L now email ERRNO_THROTTLED ra else ra)
                    in limit_if now (IpRecord_isOverBadLogins L now rb)
                  else r2);
            r4 = (if isSmsSendingAction action
                  then limit_if now (IpRecord_isOverSmsLimit L now (IpRecord_addSmsRequest now r3))
                  else r3)
        in if isAccountAccessAction action then
             let r5 = IpRecord_addAccountAccess now r4
             in if IpRecord_isOverAccountAccessLimit L r5
                then let r6 = IpRecord_rateLimit now r5 in (r6, IpRecord_retryAfter L now r6)
                else (r5, 0)
           else (r4, IpRecord_retryAfter L now r4))"

section \<open>Contracts\<close>

named_theorems ip_defs \<open>the operations of the IP record but for update\<close>

declare IpRecord_trimBadLogins_def [ip_defs] IpRecord_isOverBadLogins_def [ip_defs]
  IpRecord_addBadLogin_def [ip_defs] IpRecord_trimVerifyCodes_def [ip_defs]
  IpRecord_isOverVerifyCodes_def [ip_defs] IpRecord_addVerifyCode_def [ip_defs]
  IpRecord_trimAccountStatus_def [ip_defs] IpRecord_isOverAccountStatusCheck_def [ip_defs]
  IpRecord_addAccountStatusCheck_def [ip_defs] IpRecord_trimSmsRequests_def [ip_defs]
  IpRecord_isOverSmsLimit_def [ip_defs] IpRecord_addSmsRequest_def [ip_defs]
  IpRecord_addAccountAccess_def [ip_defs] IpRecord_isOverAccountAccessLimit_def [ip_defs]
  IpRecord_isBlocked_def [ip_defs] IpRecord_isSuspected_def [ip_defs]
  IpRecord_isDisabled_def [ip_defs] IpRecord_isRateLimited_def [ip_defs]
  IpRecord_shouldBlock_def [ip_defs] IpRecord_block_def [ip_defs] IpRecord_suspect_def [ip_defs]
  IpRecord_disable_def [ip_defs] IpRecord_rateLimit_def [ip_defs]
  IpRecord_retryAfter_def [ip_defs] limit_if_def [ip_defs]

interpretation ip: cooldown "IpRecord_isRateLimited L" IpRecord_rateLimit
    "IpRecord_retryAfter L" "ipRateLimitBanDurationMs L" for L
  by unfold_locales
    (auto simp: ip_defs less_max_iff_disj within_seconds_left elim: within_expires_wait [rotated])

interpretation ip_ban: cooldown "IpRecord_isBlocked L" IpRecord_block
    "IpRecord_retryAfter L" "blockIntervalMs L" for L
  by unfold_locales
    (auto simp: ip_defs less_max_iff_disj within_seconds_left elim: within_expires_wait [rotated])

lemma login_codec [codec]: "List.map_filter login_of (map login_json xs) = xs"
  by (induction xs) (simp_all add: List.map_filter_simps login_json_def get_num_def)

lemma check_codec [codec]: "List.map_filter check_of (map check_json xs) = xs"
  by (induction xs) (simp_all add: List.map_filter_simps check_json_def get_num_def)

lemma IpRecord_roundtrip: "IpRecord_parse (Some (IpRecord_marshall r)) = r"
  by (cases r) (simp add: IpRecord_parse_def IpRecord_marshall_def get_num_def get_nums_def
      get_list_def nums_def codec del: map_of_append split: option.splits)

section \<open>What trimming keeps\<close>

text \<open>The loop read from the newest item on: a structural reference for \<open>_trim\<close>.\<close>

fun ip_keep ::
    "('i \<Rightarrow> time) \<Rightarrow> ('i \<Rightarrow> string) \<Rightarrow> int \<Rightarrow> int \<Rightarrow> int \<Rightarrow> string list \<Rightarrow> 'i list \<Rightarrow> 'i list" where
  "ip_keep t u cutoff mx n seen [] = []"
| "ip_keep t u cutoff mx n seen (x # xs) =
     (if cutoff < t x \<and> n \<le> mx
      then x # (if js_in (u x) seen then ip_keep t u cutoff mx n seen xs
                else ip_keep t u cutoff mx (n + 1) (u x # seen) xs)
      else [])"

lemma ip_trim_loop_keep:
  "k \<le> length items \<Longrightarrow>
     drop (nat (ip_trim_loop t u items cutoff mx (int k - 1) n seen + 1)) (take k items)
       = rev (ip_keep t u cutoff mx n seen (rev (take k items))) \<and>
     nat (ip_trim_loop t u items cutoff mx (int k - 1) n seen + 1) \<le> k"
proof (induction k arbitrary: n seen)
  case 0
  show ?case by (simp add: ip_trim_loop.simps [of _ _ _ _ _ "-1"])
next
  case (Suc k)
  have rec: "ip_trim_loop t u items cutoff mx (int k) n seen =
      (if cutoff < t (items ! k) \<and> n \<le> mx
       then if js_in (u (items ! k)) seen
         then ip_trim_loop t u items cutoff mx (int k - 1) n seen
         else ip_trim_loop t u items cutoff mx (int k - 1) (n + 1) (u (items ! k) # seen)
       else int k)"
    using Suc.prems by (subst ip_trim_loop.simps) simp
  have snoc: "take (Suc k) items = take k items @ [items ! k]"
    using Suc.prems by (simp add: take_Suc_conv_app_nth)
  show ?case
    using Suc.IH [of n seen] Suc.IH [of "n + 1" "u (items ! k) # seen"] Suc.prems
    by (simp add: rec snoc nat_add_distrib)
qed

lemma IpRecord_trim_keep:
  "IpRecord_trim L t u now items mx =
     rev (ip_keep t u (now - ipRateLimitIntervalMs L) mx 0 [] (rev items))"
  using ip_trim_loop_keep [of "length items" items t u "now - ipRateLimitIntervalMs L" mx 0 "[]"]
  by (simp add: IpRecord_trim_def)

lemma ip_keep_prefix:
  "\<exists>ys. takeWhile (\<lambda>x. cutoff < t x) xs = ip_keep t u cutoff mx n seen xs @ ys"
  by (induction xs arbitrary: n seen) auto

lemma card_insert_diff:
  assumes "finite A" and "x \<notin> S"
  shows "card (insert x A - S) = card (A - insert x S) + 1"
proof -
  have "insert x A - S = insert x (A - insert x S)" using assms by blast
  then show ?thesis using assms by simp
qed

lemma ip_keep_complete:
  assumes "n \<le> mx + 1"
  shows "ip_keep t u cutoff mx n seen xs = takeWhile (\<lambda>x. cutoff < t x) xs \<or>
    n + int (card (u ` set (ip_keep t u cutoff mx n seen xs)
                   - (set seen \<union> set object_prototype_keys))) = mx + 1"
  using assms
proof (induction xs arbitrary: n seen)
  case Nil
  then show ?case by simp
next
  case (Cons x xs)
  consider "\<not> cutoff < t x" | "cutoff < t x" "n = mx + 1"
    | "cutoff < t x" "n \<le> mx" "js_in (u x) seen" | "cutoff < t x" "n \<le> mx" "\<not> js_in (u x) seen"
    using Cons.prems by linarith
  then show ?case
  proof cases
    case 3
    then show ?thesis
      using Cons.IH [of n seen] by (auto simp: js_in_def insert_Diff_if)
  next
    case 4
    then show ?thesis
      using Cons.IH [of "n + 1" "u x # seen"]
      by (auto simp: js_in_def card_insert_diff Un_insert_left)
  qed (auto)
qed

lemma takeWhile_rev_sorted_by:
  assumes "sorted (map t items)"
  shows "takeWhile (\<lambda>x. cutoff < (t x :: int)) (rev items) = rev (filter (\<lambda>x. cutoff < t x) items)"
  using assms
proof (induction items rule: rev_induct)
  case (snoc x xs)
  then show ?case
    by (force simp: sorted_append filter_empty_conv)
qed simp

text \<open>
  For items in chronological order: either everything still in the window is kept, or the
  newest items kept already exceed the limit.
\<close>

lemma IpRecord_trim_sorted:
  fixes items :: "'i list" and u :: "'i \<Rightarrow> string" and L :: limits and now :: time
  assumes "sorted (map t items)" and "0 \<le> mx + 1"
  defines "kept \<equiv> IpRecord_trim L t u now items mx"
    and "fresh \<equiv> filter (\<lambda>x. now - ipRateLimitIntervalMs L < t x) items"
  shows "set kept \<subseteq> set fresh"
    and "kept = fresh \<or> int (card (u ` set kept - set object_prototype_keys)) = mx + 1"
proof -
  let ?ks = "ip_keep t u (now - ipRateLimitIntervalMs L) mx 0 [] (rev items)"
  have kept: "kept = rev ?ks"
    by (simp add: kept_def IpRecord_trim_keep)
  have tw: "takeWhile (\<lambda>x. now - ipRateLimitIntervalMs L < t x) (rev items) = rev fresh"
    by (simp add: fresh_def takeWhile_rev_sorted_by [OF assms(1)])
  obtain ys where "rev fresh = ?ks @ ys"
    using ip_keep_prefix [of "now - ipRateLimitIntervalMs L" t "rev items" u mx 0 "[]"] tw by auto
  then have "set (rev fresh) = set ?ks \<union> set ys" by simp
  then show "set kept \<subseteq> set fresh" by (auto simp: kept)
  show "kept = fresh \<or> int (card (u ` set kept - set object_prototype_keys)) = mx + 1"
    using ip_keep_complete [of 0 mx t u "now - ipRateLimitIntervalMs L" "[]" "rev items"] assms(2) tw
    by (auto simp: kept)
qed

lemma IpRecord_trim_suffix: "\<exists>ys. items = ys @ IpRecord_trim L t u now items mx"
  by (metis IpRecord_trim_def append_Nil append_take_drop_id)

lemma count_unseen_card:
  "count_unseen seen us = int (card (set us - (set seen \<union> set object_prototype_keys)))"
proof (induction us arbitrary: seen)
  case (Cons x us)
  then show ?case
    using card_insert_diff [of "set us" x "set seen \<union> set object_prototype_keys"]
    by (cases "js_in x seen") (simp_all add: js_in_def insert_Diff_if)
qed simp

text \<open>The distinct addresses among the items of the last interval.\<close>

definition recent_users ::
    "limits \<Rightarrow> ('i \<Rightarrow> time) \<Rightarrow> ('i \<Rightarrow> string) \<Rightarrow> time \<Rightarrow> 'i list \<Rightarrow> string set" where
  "recent_users L t u now items =
     u ` {x \<in> set items. now - ipRateLimitIntervalMs L < t x} - set object_prototype_keys"

lemma IpRecord_trim_verdict:
  assumes "sorted (map t items)"
  shows "mx < count_unseen [] (map u (IpRecord_trim L t u now items mx)) \<longleftrightarrow>
         mx < int (card (recent_users L t u now items))"
proof (cases "0 \<le> mx + 1")
  case True
  note trim = IpRecord_trim_sorted [OF assms True, of L u now]
  have "card (u ` set (IpRecord_trim L t u now items mx) - set object_prototype_keys)
        \<le> card (recent_users L t u now items)"
    using trim(1) by (auto simp: recent_users_def intro!: card_mono)
  with trim(2) show ?thesis
    by (auto simp: count_unseen_card recent_users_def)
next
  case False
  then show ?thesis by (simp add: count_unseen_card)
qed

section \<open>The score of failed logins\<close>

text \<open>Each address counts with the weight of its worst failure.\<close>

definition worst_weight :: "limits \<Rightarrow> login_info set \<Rightarrow> string \<Rightarrow> int" where
  "worst_weight L X u =
     Max (insert 0 ((\<lambda>i. errno_weight L (li_e i)) ` {i \<in> X. li_u i = u}))"

definition login_score :: "limits \<Rightarrow> login_info set \<Rightarrow> int" where
  "login_score L X = (\<Sum>u\<in>li_u ` X. worst_weight L X u)"

definition weights_ok :: "limits \<Rightarrow> login_info list \<Rightarrow> (string \<times> int option) list \<Rightarrow> bool" where
  "weights_ok L lf ws \<longleftrightarrow> distinct (map fst ws) \<and> fst ` set ws = li_u ` set lf \<and>
     (\<forall>(u, w) \<in> set ws. w = Some (worst_weight L (set lf) u))"

lemma sum_weights_sum:
  "distinct (map fst ws) \<Longrightarrow> \<forall>(u, w) \<in> set ws. w = Some (f u) \<Longrightarrow>
   sum_weights ws = Some (\<Sum>u\<in>fst ` set ws. f u)"
  by (induction ws) auto

lemma weights_ok_score: "weights_ok L lf ws \<Longrightarrow> sum_weights ws = Some (login_score L (set lf))"
  using sum_weights_sum [of ws "worst_weight L (set lf)"]
  by (simp add: weights_ok_def login_score_def)

lemma worst_weight_insert:
  assumes "finite X"
  shows "worst_weight L (insert x X) u =
    (if li_u x = u then max (errno_weight L (li_e x)) (worst_weight L X u)
     else worst_weight L X u)"
proof (cases "li_u x = u")
  case True
  let ?w = "\<lambda>i. errno_weight L (li_e i)" and ?B = "{i \<in> X. li_u i = u}"
  have "{i \<in> insert x X. li_u i = u} = insert x ?B" using True by auto
  then have "worst_weight L (insert x X) u = Max (insert (?w x) (insert 0 (?w ` ?B)))"
    by (simp add: worst_weight_def insert_commute)
  also have "\<dots> = max (?w x) (Max (insert 0 (?w ` ?B)))"
    by (rule Max_insert) (use assms in simp_all)
  finally show ?thesis using True by (simp add: worst_weight_def)
next
  case False
  then have "{i \<in> insert x X. li_u i = u} = {i \<in> X. li_u i = u}" by auto
  then show ?thesis using False by (simp add: worst_weight_def)
qed

lemma worst_weight_none:
  assumes "u \<notin> li_u ` X"
  shows "worst_weight L X u = 0"
proof -
  have none: "{i \<in> X. li_u i = u} = {}" using assms by auto
  show ?thesis unfolding worst_weight_def none by simp
qed

lemma own_key_not_proto: "u \<notin> set object_prototype_keys \<Longrightarrow> u \<noteq> ''__proto__''"
  by (auto simp: object_prototype_keys_def)

lemma weights_ok_add:
  assumes "weights_ok L lf ws" and "li_u info \<notin> set object_prototype_keys"
  shows "weights_ok L (lf @ [info]) (add_weight L info ws)"
proof -
  let ?u = "li_u info" and ?w = "worst_weight L (set lf)" and ?w' = "worst_weight L (set (lf @ [info]))"
  have dist: "distinct (map fst ws)" and dom: "fst ` set ws = li_u ` set lf"
    and val: "\<And>u w. map_of ws u = Some w \<Longrightarrow> w = Some (?w u)"
    using assms(1) by (auto simp: weights_ok_def dest: map_of_SomeD)
  have prev: "prev_weight ws ?u = Some (?w ?u)"
  proof (cases "map_of ws ?u")
    case None
    then have "?u \<notin> li_u ` set lf" unfolding map_of_eq_None_iff dom by simp
    then show ?thesis using None assms(2) by (simp add: prev_weight_def worst_weight_none)
  qed (use val [of ?u] in \<open>simp add: prev_weight_def\<close>)
  have upd: "add_weight L info ws = AList.update ?u (Some (?w' ?u)) ws"
    using own_key_not_proto [OF assms(2)] by (simp add: add_weight_def prev worst_weight_insert)
  have dist': "distinct (map fst (add_weight L info ws))"
    unfolding upd by (rule distinct_update [OF dist])
  have "w = Some (?w' u)" if "(u, w) \<in> set (add_weight L info ws)" for u w
    using map_of_is_SomeI [OF dist' that] val [of u w]
    by (cases "u = ?u") (auto simp: upd update_conv worst_weight_insert)
  moreover have "fst ` set (add_weight L info ws) = li_u ` set (lf @ [info])"
    unfolding upd using dom by (simp add: dom_update)
  ultimately show ?thesis
    unfolding weights_ok_def using dist' by auto
qed

lemma weights_ok_fold:
  "\<forall>i \<in> set lf. li_u i \<notin> set object_prototype_keys \<Longrightarrow> weights_ok L lf (fold (add_weight L) lf [])"
  by (induction lf rule: rev_induct) (simp add: weights_ok_def, simp add: weights_ok_add)

lemma bad_login_score_sum:
  "\<forall>i \<in> set lf. li_u i \<notin> set object_prototype_keys \<Longrightarrow>
   bad_login_score L lf = Some (login_score L (set lf))"
  by (simp add: bad_login_score_def weights_ok_score [OF weights_ok_fold])

lemma login_score_users:
  assumes "\<And>e. 1 \<le> errno_weight L e"
  shows "int (card (li_u ` set lf)) \<le> login_score L (set lf)"
proof -
  have "1 \<le> worst_weight L (set lf) u" if "u \<in> li_u ` set lf" for u
    using that assms by (auto simp: worst_weight_def Max_ge_iff)
  then have "(\<Sum>u\<in>li_u ` set lf. 1) \<le> login_score L (set lf)"
    unfolding login_score_def by (rule sum_mono)
  then show ?thesis by simp
qed

text \<open>
  C5: the verdict on failed logins is exact. For a chronological record, \<open>isOverBadLogins\<close> holds
  iff the failures of the last interval exceed the limit, where each email address counts once,
  with the weight of its worst failure; what \<open>_trim\<close> forgets never changes the verdict.
\<close>

theorem IpRecord_badLogins_verdict:
  assumes "sorted (map li_t (ip_lf r))"
    and "\<forall>i \<in> set (ip_lf r). li_u i \<notin> set object_prototype_keys"
    and "\<And>e. 1 \<le> errno_weight L e" and "0 \<le> maxBadLoginsPerIp L"
  shows "snd (IpRecord_isOverBadLogins L now r) \<longleftrightarrow>
    maxBadLoginsPerIp L <
      login_score L {i \<in> set (ip_lf r). now - ipRateLimitIntervalMs L < li_t i}"
proof -
  let ?kept = "IpRecord_trim L li_t li_u now (ip_lf r) (maxBadLoginsPerIp L)"
  let ?fresh = "filter (\<lambda>i. now - ipRateLimitIntervalMs L < li_t i) (ip_lf r)"
  note trim = IpRecord_trim_sorted [OF assms(1), of "maxBadLoginsPerIp L" L li_u now]
  have sub: "set ?kept \<subseteq> set ?fresh" using trim assms(4) by simp
  then have own: "\<forall>i \<in> set ?kept. li_u i \<notin> set object_prototype_keys"
    using assms(2) by auto
  have "int (card (li_u ` set ?kept)) \<le> int (card (li_u ` set ?fresh))"
    using sub by (auto intro!: card_mono)
  moreover have "li_u ` set ?kept - set object_prototype_keys = li_u ` set ?kept"
    using own by auto
  ultimately have "maxBadLoginsPerIp L < login_score L (set ?kept) \<longleftrightarrow>
      maxBadLoginsPerIp L < login_score L (set ?fresh)"
    using trim(2) assms(4) login_score_users [OF assms(3), of ?kept]
      login_score_users [OF assms(3), of ?fresh]
    by auto
  then show ?thesis
    by (simp add: IpRecord_isOverBadLogins_def IpRecord_trimBadLogins_def Let_def
        bad_login_score_sum [OF own])
qed

lemma default_errno_weight: "1 \<le> errno_weight default_limits e"
  by (auto simp: errno_weight_def default_limits_def split: option.splits jsval.splits if_splits)

definition example_failures :: ip_record where
  "example_failures = (IpRecord_parse None)\<lparr>ip_lf :=
     [\<lparr> li_t = 10, li_e = 102, li_u = ''a@x.org'' \<rparr>, \<lparr> li_t = 20, li_e = 103, li_u = ''a@x.org'' \<rparr>,
      \<lparr> li_t = 30, li_e = 126, li_u = ''b@x.org'' \<rparr>]\<rparr>"

theorem IpRecord_badLogins_verdict_witness:
  "snd (IpRecord_isOverBadLogins default_limits 40 example_failures) \<longleftrightarrow>
   3 < login_score default_limits
     {i \<in> set (ip_lf example_failures). 40 - ipRateLimitIntervalMs default_limits < li_t i}"
proof -
  have "\<forall>i \<in> set (ip_lf example_failures). li_u i \<notin> set object_prototype_keys"
    by (simp add: example_failures_def object_prototype_keys_def)
  then show ?thesis
    using IpRecord_badLogins_verdict [of example_failures default_limits 40] default_errno_weight
    by (simp add: example_failures_def) (simp add: default_limits_def)
qed

section \<open>Every update keeps the lists chronological\<close>

definition ip_ordered :: "time \<Rightarrow> ip_record \<Rightarrow> bool" where
  "ip_ordered now r \<longleftrightarrow>
     sorted (map li_t (ip_lf r) @ [now]) \<and> sorted (map ci_t (ip_vc r) @ [now]) \<and>
     sorted (map ci_t (ip_as r) @ [now]) \<and> sorted (ip_sms r @ [now]) \<and> sorted (ip_aa r @ [now])"

lemma ip_ordered_later: "ip_ordered now r \<Longrightarrow> now \<le> later \<Longrightarrow> ip_ordered later r"
  by (fastforce simp: ip_ordered_def sorted_append)

lemma sorted_IpRecord_trim:
  "sorted (map t items @ [now]) \<Longrightarrow> sorted (map t (IpRecord_trim L t u now items mx) @ [now])"
proof -
  assume items: "sorted (map t items @ [now])"
  obtain ys where "items = ys @ IpRecord_trim L t u now items mx"
    using IpRecord_trim_suffix by blast
  then have "sorted (map t (ys @ IpRecord_trim L t u now items mx) @ [now])"
    using items by simp
  then show ?thesis by (simp add: sorted_append)
qed

lemma sorted_trim_hits_now:
  "sorted (hits @ [now]) \<Longrightarrow> sorted (trim_hits now period mx hits @ [now])"
  using set_trim_hits [of now period mx hits] by (fastforce simp: sorted_append sorted_trim_hits)

lemma sorted_snoc_now: "sorted (xs @ [now :: int]) \<Longrightarrow> sorted (xs @ [now, now])"
  by (auto simp: sorted_append)

lemmas ordered_intros = sorted_IpRecord_trim sorted_trim_hits_now sorted_snoc_now

lemma ip_ordered_ops:
  assumes "ip_ordered now r"
  shows "ip_ordered now (IpRecord_rateLimit now r)"
    and "ip_ordered now (fst (IpRecord_isOverBadLogins L now r))"
    and "ip_ordered now (IpRecord_addBadLogin L now email errno r)"
    and "ip_ordered now (fst (IpRecord_isOverVerifyCodes L now r))"
    and "ip_ordered now (IpRecord_addVerifyCode L now email r)"
    and "ip_ordered now (fst (IpRecord_isOverAccountStatusCheck L now r))"
    and "ip_ordered now (IpRecord_addAccountStatusCheck L now email r)"
    and "ip_ordered now (fst (IpRecord_isOverSmsLimit L now r))"
    and "ip_ordered now (IpRecord_addSmsRequest now r)"
    and "ip_ordered now (IpRecord_addAccountAccess now r)"
  using assms by (simp_all add: ip_ordered_def ip_defs Let_def ordered_intros)

lemma ip_ordered_limit_if: "ip_ordered now (fst res) \<Longrightarrow> ip_ordered now (limit_if now res)"
  by (simp add: limit_if_def ip_ordered_ops)

text \<open>
  Every update keeps all lists of a record in chronological order and not in the future,
  which is what the trimming loops rely on.
\<close>

theorem IpRecord_update_ordered:
  assumes "ip_ordered now r"
  shows "ip_ordered now (fst (IpRecord_update L now action email r))"
proof -
  have step: "ip_ordered now (fst (Let s f))"
    if "ip_ordered now s" "\<And>x. ip_ordered now x \<Longrightarrow> ip_ordered now (fst (f x))" for s and f :: "ip_record \<Rightarrow> ip_record \<times> int"
    using that by (simp add: Let_def)
  show ?thesis
  proof (cases "IpRecord_isBlocked L now r")
    case False
    show ?thesis
      unfolding IpRecord_update_def if_not_P [OF False]
      by (intro step) (simp_all add: assms ip_ordered_ops ip_ordered_limit_if Let_def case_prod_unfold)
  qed (simp add: IpRecord_update_def assms)
qed

theorem IpRecord_update_ordered_witness:
  "ip_ordered 40 (fst (IpRecord_update default_limits 40 ''accountLogin'' ''a@x.org'' example_failures))"
  by (rule IpRecord_update_ordered) (simp add: ip_ordered_def example_failures_def
      IpRecord_parse_def get_nums_def get_list_def)

section \<open>What update decides\<close>

text \<open>The request is counted, and the address is limited exactly when it is now over.\<close>

lemma IpRecord_rateLimit_limited:
  "0 < now \<Longrightarrow> 0 < ipRateLimitBanDurationMs L \<Longrightarrow> IpRecord_isRateLimited L now (IpRecord_rateLimit now r)"
  using ip.limited_throughout [of now now L r] by simp

lemma recent_users_trim:
  fixes items :: "'i list"
  assumes "sorted (map t items @ [now])"
  shows "mx < int (card (recent_users L t u now (IpRecord_trim L t u now items mx @ [x]))) \<longleftrightarrow>
         mx < int (card (recent_users L t u now (items @ [x])))"
proof (cases "0 \<le> mx + 1")
  case True
  have sorted: "sorted (map t items)" using assms by (simp add: sorted_append)
  let ?kept = "IpRecord_trim L t u now items mx" and ?users = "recent_users L t u now"
  note trim = IpRecord_trim_sorted [OF sorted True, of L u now]
  have fin: "finite (?users xs)" for xs :: "'i list" by (simp add: recent_users_def)
  have sub: "?users (?kept @ [x]) \<subseteq> ?users (items @ [x])"
    using trim(1) by (auto simp: recent_users_def)
  have "?users ?kept \<subseteq> ?users (?kept @ [x])" by (auto simp: recent_users_def)
  then have le: "card (?users ?kept) \<le> card (?users (?kept @ [x]))"
    "card (?users (?kept @ [x])) \<le> card (?users (items @ [x]))"
    using sub by (simp_all add: fin card_mono)
  have kept: "?users ?kept = u ` set ?kept - set object_prototype_keys"
    using trim(1) by (auto simp: recent_users_def)
  show ?thesis
  proof (cases "?kept = filter (\<lambda>x. now - ipRateLimitIntervalMs L < t x) items")
    case True
    then have "?users (?kept @ [x]) = ?users (items @ [x])" by (auto simp: recent_users_def)
    then show ?thesis by simp
  next
    case False
    then have "int (card (?users ?kept)) = mx + 1" using trim(2) kept by simp
    then show ?thesis using le by linarith
  qed
qed simp

lemma IpRecord_statusChecks_over:
  assumes "ip_ordered now r"
  shows "snd (IpRecord_isOverAccountStatusCheck L now (IpRecord_addAccountStatusCheck L now email r)) \<longleftrightarrow>
    maxAccountStatusCheck L <
      int (card (recent_users L ci_t ci_u now (ip_as r @ [\<lparr>ci_t = now, ci_u = email\<rparr>])))"
proof -
  have ord: "sorted (map ci_t (ip_as r) @ [now])" using assms by (simp add: ip_ordered_def)
  show ?thesis
    using sorted_IpRecord_trim [OF ord] recent_users_trim [OF ord]
    by (simp add: IpRecord_isOverAccountStatusCheck_def IpRecord_addAccountStatusCheck_def
        IpRecord_trimAccountStatus_def IpRecord_trim_verdict)
qed

lemma IpRecord_verifyCodes_over:
  assumes "ip_ordered now r"
  shows "snd (IpRecord_isOverVerifyCodes L now (IpRecord_addVerifyCode L now email r)) \<longleftrightarrow>
    maxVerifyCodes L <
      int (card (recent_users L ci_t ci_u now (ip_vc r @ [\<lparr>ci_t = now, ci_u = email\<rparr>])))"
proof -
  have ord: "sorted (map ci_t (ip_vc r) @ [now])" using assms by (simp add: ip_ordered_def)
  show ?thesis
    using sorted_IpRecord_trim [OF ord] recent_users_trim [OF ord]
    by (simp add: IpRecord_isOverVerifyCodes_def IpRecord_addVerifyCode_def
        IpRecord_trimVerifyCodes_def IpRecord_trim_verdict)
qed

lemma IpRecord_limit_if_rl:
  "0 < now \<Longrightarrow> 0 < ipRateLimitBanDurationMs L \<Longrightarrow> ip_rl (fst res) = ip_rl r \<Longrightarrow>
   IpRecord_isRateLimited L now (limit_if now res) \<longleftrightarrow> snd res \<or> IpRecord_isRateLimited L now r"
  by (auto simp: limit_if_def IpRecord_rateLimit_limited) (simp_all add: IpRecord_isRateLimited_def)

text \<open>
  After a code verification from an IP address that is not blocked, the address is limited iff
  it was before or codes of more than \<open>maxVerifyCodes\<close> email addresses were tried in the interval.
\<close>

theorem IpRecord_update_code:
  assumes "ip_ordered now r" "0 < now" "0 < ipRateLimitBanDurationMs L"
    and "a \<in> set CODE_VERIFYING_ACTION" "\<not> IpRecord_isBlocked L now r"
  shows "IpRecord_isRateLimited L now (fst (IpRecord_update L now a email r)) \<longleftrightarrow>
    IpRecord_isRateLimited L now r \<or>
    maxVerifyCodes L <
      int (card (recent_users L ci_t ci_u now (ip_vc r @ [\<lparr>ci_t = now, ci_u = email\<rparr>])))"
proof -
  have "fst (IpRecord_update L now a email r) =
      limit_if now (IpRecord_isOverVerifyCodes L now (IpRecord_addVerifyCode L now email r))"
    using code_action_only [OF assms(4)] assms(5) by (simp add: IpRecord_update_def Let_def)
  moreover have "ip_rl (fst (IpRecord_isOverVerifyCodes L now (IpRecord_addVerifyCode L now email r))) = ip_rl r"
    by (simp add: ip_defs Let_def)
  ultimately show ?thesis
    using assms(2,3) IpRecord_verifyCodes_over [OF assms(1), of L email]
    by (auto simp: IpRecord_limit_if_rl)
qed

theorem IpRecord_update_code_witness:
  "\<not> IpRecord_isRateLimited default_limits 40
     (fst (IpRecord_update default_limits 40 ''verifyTotpCode'' ''a@x.org'' example_failures))"
proof -
  have "recent_users default_limits ci_t ci_u 40 (ip_vc example_failures @ [\<lparr> ci_t = 40, ci_u = ''a@x.org'' \<rparr>])
      \<subseteq> {''a@x.org''}"
    by (auto simp: recent_users_def example_failures_def IpRecord_parse_def get_list_def)
  then have "card (recent_users default_limits ci_t ci_u 40
      (ip_vc example_failures @ [\<lparr> ci_t = 40, ci_u = ''a@x.org'' \<rparr>])) \<le> 1"
    using card_mono [of "{''a@x.org''}"] by fastforce
  moreover have "ip_ordered 40 example_failures" "\<not> IpRecord_isBlocked default_limits 40 example_failures"
    "\<not> IpRecord_isRateLimited default_limits 40 example_failures"
    by (simp_all add: ip_ordered_def example_failures_def IpRecord_parse_def get_nums_def get_list_def
        get_num_def IpRecord_isBlocked_def IpRecord_isRateLimited_def within_def)
  moreover have "0 < ipRateLimitBanDurationMs default_limits" "maxVerifyCodes default_limits = 10"
    by (simp_all add: default_limits_def)
  ultimately show ?thesis
    using IpRecord_update_code [of 40 example_failures default_limits "''verifyTotpCode''" "''a@x.org''"]
    by (simp add: CODE_VERIFYING_ACTION_def)
qed

text \<open>
  Account access: the list is never trimmed, so the limit counts the accesses since the last
  rate limit, however old they are.
\<close>

lemma IpRecord_update_access:
  assumes "isAccountAccessAction a" "\<not> IpRecord_isBlocked L now r"
  shows "IpRecord_update L now a email r =
    (if maxAccountAccess L < int (length (ip_aa r)) + 1
     then let r' = IpRecord_rateLimit now r in (r', IpRecord_retryAfter L now r')
     else (r\<lparr>ip_aa := ip_aa r @ [now]\<rparr>, 0))"
proof -
  have "IpRecord_rateLimit now (IpRecord_addAccountAccess now r) = IpRecord_rateLimit now r"
    by (simp add: IpRecord_rateLimit_def IpRecord_addAccountAccess_def)
  then show ?thesis
    using access_action_only [OF assms(1)] assms
    by (simp add: IpRecord_update_def IpRecord_isOverAccountAccessLimit_def)
       (simp add: IpRecord_addAccountAccess_def)
qed

lemma IpRecord_update_blocked:
  "IpRecord_isBlocked L now r \<Longrightarrow> IpRecord_update L now a email r = (r, IpRecord_retryAfter L now r)"
  by (simp add: IpRecord_update_def)

lemma IpRecord_retryAfter_nonneg: "0 \<le> IpRecord_retryAfter L now r"
  by (rule ip.wait_nonneg)

lemma IpRecord_update_nonneg: "0 \<le> snd (IpRecord_update L now a email r)"
proof -
  have step: "0 \<le> snd (Let s f)"
    if "\<And>x. 0 \<le> snd (f x)" for s and f :: "ip_record \<Rightarrow> ip_record \<times> int"
    using that by (simp add: Let_def)
  show ?thesis
  proof (cases "IpRecord_isBlocked L now r")
    case False
    show ?thesis
      unfolding IpRecord_update_def if_not_P [OF False]
      by (intro step) (simp add: IpRecord_retryAfter_nonneg Let_def)
  qed (simp add: IpRecord_update_def IpRecord_retryAfter_nonneg)
qed

lemma access_list:
  "isAccountAccessAction a \<Longrightarrow> ip_bk r = None \<Longrightarrow>
   int (length (ip_aa r) + length ts) \<le> maxAccountAccess L \<Longrightarrow>
   fold (\<lambda>t r. fst (IpRecord_update L t a e r)) ts r = r\<lparr>ip_aa := ip_aa r @ ts\<rparr>"
proof (induction ts arbitrary: r)
  case (Cons t ts)
  have "\<not> IpRecord_isBlocked L t r"
    using Cons.prems(2) by (simp add: IpRecord_isBlocked_def within_def)
  then have "fst (IpRecord_update L t a e r) = r\<lparr>ip_aa := ip_aa r @ [t]\<rparr>"
    using Cons.prems by (simp add: IpRecord_update_access)
  then show ?case using Cons.IH [of "r\<lparr>ip_aa := ip_aa r @ [t]\<rparr>"] Cons.prems by simp
qed simp

text \<open>
  Account accesses are counted without regard to their age. The access after \<open>maxAccountAccess\<close>
  others is refused, however long ago these were, although the limit is documented as one per
  \<open>ipRateLimitIntervalSeconds\<close>.
\<close>

theorem account_access_never_expires:
  assumes "isAccountAccessAction a" "ip_bk r = None" "ip_aa r = []"
    and "int (length ts) = maxAccountAccess L" "0 < now" "0 < ipRateLimitBanDurationMs L"
  shows "0 < snd (IpRecord_update L now a e (fold (\<lambda>t r. fst (IpRecord_update L t a e r)) ts r))"
proof -
  let ?r = "r\<lparr>ip_aa := ts\<rparr>"
  have "\<not> IpRecord_isBlocked L now ?r"
    using assms(2) by (simp add: IpRecord_isBlocked_def within_def)
  then have "snd (IpRecord_update L now a e ?r) = IpRecord_retryAfter L now (IpRecord_rateLimit now ?r)"
    using assms by (simp add: IpRecord_update_access Let_def)
  then show ?thesis
    using access_list [OF assms(1,2), of ts L e] assms(3,4) ip.wait_positive [OF assms(5,6)] by simp
qed

theorem account_access_never_expires_witness:
  "0 < snd (IpRecord_update default_limits 1600000000000 ''consumeSigninCode'' []
     (fold (\<lambda>t r. fst (IpRecord_update default_limits t ''consumeSigninCode'' [] r))
       [1000000000000, 1100000000000, 1200000000000, 1300000000000, 1400000000000] (IpRecord_parse None)))"
  using account_access_never_expires [of "''consumeSigninCode''" "IpRecord_parse None"
      "[1000000000000, 1100000000000, 1200000000000, 1300000000000, 1400000000000]"
      default_limits 1600000000000 "[]"]
  by (simp add: isAccountAccessAction_def ACCOUNT_ACCESS_ACTION_def IpRecord_parse_def get_num_def
      get_nums_def default_limits_def)

end
