(* ===== verification/Email_Record.thy ===== *)
theory Email_Record
  imports Sliding_Window Actions Limits
begin

text \<open>
  \<open>lib/email_record.js\<close>: everything that is counted for one email address. A method that
  mutates the record and returns a value is a function to the new record and the value.
\<close>

record email_record =
  er_bk :: "time option" \<comment> \<open>blocked\<close>
  er_su :: "time option" \<comment> \<open>suspected\<close>
  er_di :: "time option" \<comment> \<open>disabled\<close>
  er_rl :: "time option" \<comment> \<open>rate-limited\<close>
  er_vc :: "time list" \<comment> \<open>code verifications\<close>
  er_xs :: "time list" \<comment> \<open>emails sent\<close>
  er_sms :: "time list" \<comment> \<open>text messages sent\<close>
  er_lf :: "time list" \<comment> \<open>failed logins\<close>
  er_pr :: "time option" \<comment> \<open>last password reset\<close>
  er_ub :: "time list" \<comment> \<open>unblocks\<close>

definition EmailRecord_parse :: "jsval option \<Rightarrow> email_record" where
  "EmailRecord_parse object =
     \<lparr> er_bk = get_num object ''bk'', er_su = get_num object ''su'',
       er_di = get_num object ''di'', er_rl = get_num object ''rl'',
       er_vc = get_nums object ''vc'', er_xs = get_nums object ''xs'',
       er_sms = get_nums object ''sms'', er_lf = get_nums object ''lf'',
       er_pr = get_num object ''pr'', er_ub = get_nums object ''ub'' \<rparr>"

definition EmailRecord_getMinLifetimeMS :: "limits \<Rightarrow> int" where
  "EmailRecord_getMinLifetimeMS L = max (rateLimitIntervalMs L) (blockIntervalMs L)"

definition EmailRecord_trimHits :: "limits \<Rightarrow> time \<Rightarrow> email_record \<Rightarrow> email_record" where
  "EmailRecord_trimHits L now r =
     r\<lparr>er_xs := trim_hits now (rateLimitIntervalMs L) (maxEmails L) (er_xs r)\<rparr>"

definition EmailRecord_isOverEmailLimit ::
    "limits \<Rightarrow> time \<Rightarrow> email_record \<Rightarrow> email_record \<times> bool" where
  "EmailRecord_isOverEmailLimit L now r =
     (let r' = EmailRecord_trimHits L now r in (r', maxEmails L < int (length (er_xs r'))))"

definition EmailRecord_addHit :: "time \<Rightarrow> email_record \<Rightarrow> email_record" where
  "EmailRecord_addHit now r = r\<lparr>er_xs := er_xs r @ [now]\<rparr>"

definition EmailRecord_trimVerifyCodes :: "limits \<Rightarrow> time \<Rightarrow> email_record \<Rightarrow> email_record" where
  "EmailRecord_trimVerifyCodes L now r =
     r\<lparr>er_vc := trim_hits now (rateLimitIntervalMs L) (maxVerifyCodes L) (er_vc r)\<rparr>"

definition EmailRecord_isOverVerifyCodes ::
    "limits \<Rightarrow> time \<Rightarrow> email_record \<Rightarrow> email_record \<times> bool" where
  "EmailRecord_isOverVerifyCodes L now r =
     (let r' = EmailRecord_trimVerifyCodes L now r
      in (r', maxVerifyCodes L < int (length (er_vc r'))))"

definition EmailRecord_addVerifyCode :: "time \<Rightarrow> email_record \<Rightarrow> email_record" where
  "EmailRecord_addVerifyCode now r = r\<lparr>er_vc := er_vc r @ [now]\<rparr>"

definition EmailRecord_trimSmsRequests :: "limits \<Rightarrow> time \<Rightarrow> email_record \<Rightarrow> email_record" where
  "EmailRecord_trimSmsRequests L now r =
     r\<lparr>er_sms := trim_hits now (rateLimitIntervalMs L) (maxSms L) (er_sms r)\<rparr>"

definition EmailRecord_isOverSmsLimit ::
    "limits \<Rightarrow> time \<Rightarrow> email_record \<Rightarrow> email_record \<times> bool" where
  "EmailRecord_isOverSmsLimit L now r =
     (let r' = EmailRecord_trimSmsRequests L now r in (r', maxSms L < int (length (er_sms r'))))"

definition EmailRecord_addSmsRequest :: "time \<Rightarrow> email_record \<Rightarrow> email_record" where
  "EmailRecord_addSmsRequest now r = r\<lparr>er_sms := er_sms r @ [now]\<rparr>"

definition EmailRecord_addUnblock :: "time \<Rightarrow> email_record \<Rightarrow> email_record" where
  "EmailRecord_addUnblock now r = r\<lparr>er_ub := er_ub r @ [now]\<rparr>"

definition EmailRecord_trimUnblocks :: "limits \<Rightarrow> time \<Rightarrow> email_record \<Rightarrow> email_record" where
  "EmailRecord_trimUnblocks L now r =
     r\<lparr>er_ub := trim_hits now (rateLimitIntervalMs L) (maxUnblockAttempts L) (er_ub r)\<rparr>"

definition EmailRecord_canUnblock :: "limits \<Rightarrow> time \<Rightarrow> email_record \<Rightarrow> email_record \<times> bool" where
  "EmailRecord_canUnblock L now r =
     (let r' = EmailRecord_trimUnblocks L now r
      in (r', int (length (er_ub r')) \<le> maxUnblockAttempts L))"

definition EmailRecord_isRateLimited :: "limits \<Rightarrow> time \<Rightarrow> email_record \<Rightarrow> bool" where
  "EmailRecord_isRateLimited L now r = within now (er_rl r) (rateLimitIntervalMs L)"

definition EmailRecord_isBlocked :: "limits \<Rightarrow> time \<Rightarrow> email_record \<Rightarrow> bool" where
  "EmailRecord_isBlocked L now r = within now (er_bk r) (blockIntervalMs L)"

definition EmailRecord_isSuspected :: "limits \<Rightarrow> time \<Rightarrow> email_record \<Rightarrow> bool" where
  "EmailRecord_isSuspected L now r = within_opt now (er_su r) (suspectIntervalMs L)"

definition EmailRecord_isDisabled :: "limits \<Rightarrow> time \<Rightarrow> email_record \<Rightarrow> bool" where
  "EmailRecord_isDisabled L now r = within_opt now (er_di r) (disableIntervalMs L)"

definition EmailRecord_shouldBlock :: "limits \<Rightarrow> time \<Rightarrow> email_record \<Rightarrow> bool" where
  "EmailRecord_shouldBlock L now r \<longleftrightarrow>
     EmailRecord_isRateLimited L now r \<or> EmailRecord_isBlocked L now r \<or>
     EmailRecord_isDisabled L now r"

definition EmailRecord_block :: "time \<Rightarrow> email_record \<Rightarrow> email_record" where
  "EmailRecord_block now r = r\<lparr>er_bk := Some now\<rparr>"

definition EmailRecord_suspect :: "time \<Rightarrow> email_record \<Rightarrow> email_record" where
  "EmailRecord_suspect now r = r\<lparr>er_su := Some now\<rparr>"

definition EmailRecord_disable :: "time \<Rightarrow> email_record \<Rightarrow> email_record" where
  "EmailRecord_disable now r = r\<lparr>er_di := Some now\<rparr>"

definition EmailRecord_rateLimit :: "time \<Rightarrow> email_record \<Rightarrow> email_record" where
  "EmailRecord_rateLimit now r = r\<lparr>er_rl := Some now, er_xs := [], er_sms := []\<rparr>"

definition EmailRecord_passwordReset :: "time \<Rightarrow> email_record \<Rightarrow> email_record" where
  "EmailRecord_passwordReset now r = r\<lparr>er_pr := Some now\<rparr>"

definition EmailRecord_retryAfter :: "limits \<Rightarrow> time \<Rightarrow> email_record \<Rightarrow> int" where
  "EmailRecord_retryAfter L now r =
     max 0 (max (seconds_left now (er_rl r) (rateLimitIntervalMs L))
                (seconds_left now (er_bk r) (blockIntervalMs L)))"

definition EmailRecord_trimBadLogins :: "limits \<Rightarrow> time \<Rightarrow> email_record \<Rightarrow> email_record" where
  "EmailRecord_trimBadLogins L now r =
     r\<lparr>er_lf := trim_hits now (rateLimitIntervalMs L) (maxBadLoginsPerEmail L) (er_lf r)\<rparr>"

definition EmailRecord_isOverBadLogins ::
    "limits \<Rightarrow> time \<Rightarrow> email_record \<Rightarrow> email_record \<times> bool" where
  "EmailRecord_isOverBadLogins L now r =
     (let r' = EmailRecord_trimBadLogins L now r
      in (r', maxBadLoginsPerEmail L < int (length (er_lf r'))))"

definition EmailRecord_addBadLogin :: "limits \<Rightarrow> time \<Rightarrow> email_record \<Rightarrow> email_record" where
  "EmailRecord_addBadLogin L now r =
     (let r' = EmailRecord_trimBadLogins L now r in r'\<lparr>er_lf := er_lf r' @ [now]\<rparr>)"

text \<open>
  The three counted classes of \<open>update\<close> run the same statements with their own counter:
  refuse while blocked, count, refuse and rate-limit when over. \<open>Inl\<close> is an early return.
\<close>

definition EmailRecord_countAction ::
    "limits \<Rightarrow> time \<Rightarrow> (email_record \<Rightarrow> email_record) \<Rightarrow>
     (email_record \<Rightarrow> email_record \<times> bool) \<Rightarrow> email_record \<Rightarrow>
     (email_record \<times> int) + email_record" where
  "EmailRecord_countAction L now add isOver r =
     (if EmailRecord_shouldBlock L now r then Inl (r, EmailRecord_retryAfter L now r)
      else
        let (r', over) = isOver (add r)
        in if over then
             let r'' = EmailRecord_rateLimit now r' in Inl (r'', EmailRecord_retryAfter L now r'')
           else Inr r')"

definition EmailRecord_update ::
    "limits \<Rightarrow> time \<Rightarrow> string \<Rightarrow> bool \<Rightarrow> email_record \<Rightarrow> email_record \<times> int" where
  "EmailRecord_update L now action unblock r =
     (if EmailRecord_isBlocked L now r then (r, EmailRecord_retryAfter L now r)
      else
        let r1 = (if unblock then EmailRecord_addUnblock now r else r)
        in case (if isCodeVerifyingAction action
                 then EmailRecord_countAction L now (EmailRecord_addVerifyCode now)
                        (EmailRecord_isOverVerifyCodes L now) r1
                 else Inr r1) of
             Inl res \<Rightarrow> res
           | Inr r2 \<Rightarrow>
        (case (if isEmailSendingAction action
               then EmailRecord_countAction L now (EmailRecord_addHit now)
                      (EmailRecord_isOverEmailLimit L now) r2
               else Inr r2) of
           Inl res \<Rightarrow> res
         | Inr r3 \<Rightarrow>
        (case (if isSmsSendingAction action
               then EmailRecord_countAction L now (EmailRecord_addSmsRequest now)
                      (EmailRecord_isOverSmsLimit L now) r3
               else Inr r3) of
           Inl res \<Rightarrow> res
         | Inr r4 \<Rightarrow>
             (let (r5, over) = EmailRecord_isOverBadLogins L now r4
              in if over then
                   let r6 = EmailRecord_rateLimit now r5 in (r6, EmailRecord_retryAfter L now r6)
                 else (r5, 0)))))"

text \<open>\<open>marshallRecordForStorage\<close>: the constructor's properties first, then the parsed ones.\<close>

definition EmailRecord_marshall :: "email_record \<Rightarrow> jsval" where
  "EmailRecord_marshall r = JObj
     ([(''vc'', nums (er_vc r)), (''xs'', nums (er_xs r)), (''sms'', nums (er_sms r)),
       (''ub'', nums (er_ub r)), (''lf'', nums (er_lf r))] @
      opt_num ''bk'' (er_bk r) @ opt_num ''su'' (er_su r) @ opt_num ''di'' (er_di r) @
      opt_num ''rl'' (er_rl r) @ opt_num ''pr'' (er_pr r))"

section \<open>Contracts\<close>

named_theorems email_defs \<open>the operations of the email record but for update\<close>

declare EmailRecord_trimHits_def [email_defs] EmailRecord_isOverEmailLimit_def [email_defs]
  EmailRecord_addHit_def [email_defs] EmailRecord_trimVerifyCodes_def [email_defs]
  EmailRecord_isOverVerifyCodes_def [email_defs] EmailRecord_addVerifyCode_def [email_defs]
  EmailRecord_trimSmsRequests_def [email_defs] EmailRecord_isOverSmsLimit_def [email_defs]
  EmailRecord_addSmsRequest_def [email_defs] EmailRecord_addUnblock_def [email_defs]
  EmailRecord_trimUnblocks_def [email_defs] EmailRecord_canUnblock_def [email_defs]
  EmailRecord_isRateLimited_def [email_defs] EmailRecord_isBlocked_def [email_defs]
  EmailRecord_isSuspected_def [email_defs] EmailRecord_isDisabled_def [email_defs]
  EmailRecord_shouldBlock_def [email_defs] EmailRecord_block_def [email_defs]
  EmailRecord_suspect_def [email_defs] EmailRecord_disable_def [email_defs]
  EmailRecord_rateLimit_def [email_defs] EmailRecord_passwordReset_def [email_defs]
  EmailRecord_retryAfter_def [email_defs] EmailRecord_trimBadLogins_def [email_defs]
  EmailRecord_isOverBadLogins_def [email_defs] EmailRecord_addBadLogin_def [email_defs]

interpretation email: cooldown "EmailRecord_isRateLimited L" EmailRecord_rateLimit
    "EmailRecord_retryAfter L" "rateLimitIntervalMs L" for L
  by unfold_locales
    (auto simp: email_defs less_max_iff_disj within_seconds_left elim: within_expires_wait [rotated])

text \<open>A manual block is a cooldown too, with its own interval.\<close>

interpretation email_ban: cooldown "EmailRecord_isBlocked L" EmailRecord_block
    "EmailRecord_retryAfter L" "blockIntervalMs L" for L
  by unfold_locales
    (auto simp: email_defs less_max_iff_disj within_seconds_left elim: within_expires_wait [rotated])

text \<open>Nothing but the counters can stop the address.\<close>

definition email_unblocked :: "limits \<Rightarrow> email_record \<Rightarrow> bool" where
  "email_unblocked L r \<longleftrightarrow>
     er_bk r = None \<and> er_di r = None \<and> er_lf r = [] \<and> 0 \<le> maxBadLoginsPerEmail L"

lemma trim_hits_Nil [simp]: "trim_hits now period mx [] = []"
  by (simp add: trim_hits_def)

lemma EmailRecord_roundtrip: "EmailRecord_parse (Some (EmailRecord_marshall r)) = r"
  by (cases r) (simp add: EmailRecord_parse_def EmailRecord_marshall_def get_num_def get_nums_def
      nums_def codec del: map_of_append split: option.splits)

lemma within_opt_no_ts [simp]: "\<not> within_opt now None i"
  by (simp add: within_opt_def split: option.splits)

lemma EmailRecord_countAction_cases:
  "EmailRecord_countAction L now add isOver r =
     (if EmailRecord_shouldBlock L now r then Inl (r, EmailRecord_retryAfter L now r)
      else if snd (isOver (add r))
      then Inl (EmailRecord_rateLimit now (fst (isOver (add r))),
             EmailRecord_retryAfter L now (EmailRecord_rateLimit now (fst (isOver (add r)))))
      else Inr (fst (isOver (add r))))"
  by (simp add: EmailRecord_countAction_def Let_def split: prod.splits)

text \<open>Emails sent to the address, text messages asked for with it and security codes tried
  on it are throttled.\<close>

interpretation email_sends: throttle "email_unblocked L" "\<lambda>(a, u). a \<in> set EMAIL_SENDING_ACTION"
    er_rl er_xs "\<lambda>now (a, u). EmailRecord_update L now a u"
    "rateLimitIntervalMs L" "rateLimitIntervalMs L" "maxEmails L" for L
  by unfold_locales
    (auto simp: EmailRecord_update_def EmailRecord_countAction_cases email_action_only email_defs
      email_unblocked_def Let_def less_max_iff_disj within_deadline seconds_left_pos
      split: sum.splits)

interpretation email_sms: throttle "email_unblocked L" "\<lambda>(a, u). a \<in> set SMS_SENDING_ACTION"
    er_rl er_sms "\<lambda>now (a, u). EmailRecord_update L now a u"
    "rateLimitIntervalMs L" "rateLimitIntervalMs L" "maxSms L" for L
  by unfold_locales
    (auto simp: EmailRecord_update_def EmailRecord_countAction_cases sms_action_only email_defs
      email_unblocked_def Let_def less_max_iff_disj within_deadline seconds_left_pos
      split: sum.splits)

interpretation email_codes: throttle "email_unblocked L" "\<lambda>(a, u). a \<in> set CODE_VERIFYING_ACTION"
    er_rl er_vc "\<lambda>now (a, u). EmailRecord_update L now a u"
    "rateLimitIntervalMs L" "rateLimitIntervalMs L" "maxVerifyCodes L" for L
  by unfold_locales
    (auto simp: EmailRecord_update_def EmailRecord_countAction_cases code_action_only email_defs
      email_unblocked_def Let_def less_max_iff_disj within_deadline seconds_left_pos
      split: sum.splits if_splits)

section \<open>What the record promises\<close>

text \<open>
  C4: however requests are timed, an address that is not blocked gets at most \<open>maxEmails\<close> of the
  mails of the email-sending actions through in any window of \<open>rateLimitIntervalMs\<close>.
\<close>

theorem email_sends_bounded:
  assumes "email_unblocked L r" "er_xs r = []" "sorted (map fst es)"
    and "\<forall>e \<in> set es. fst (snd e) \<in> set EMAIL_SENDING_ACTION \<and> 0 < fst e"
    and "0 \<le> maxEmails L" "0 < rateLimitIntervalMs L"
  shows "int (length (filter (in_window t (rateLimitIntervalMs L))
      (allowed_times (\<lambda>now (a, u). EmailRecord_update L now a u) es r))) \<le> maxEmails L"
  using assms by (intro email_sends.window_bound) (auto simp: case_prod_unfold)

theorem email_sends_bounded_witness:
  "int (length (filter (in_window 900 900000)
     (allowed_times (\<lambda>now (a, u). EmailRecord_update default_limits now a u)
       [(100, ''accountCreate'', False), (200, ''createEmail'', False),
        (300, ''sendUnblockCode'', True), (400, ''createEmail'', False)] (EmailRecord_parse None)))) \<le> 3"
  using email_sends_bounded [of default_limits "EmailRecord_parse None"
      "[(100, ''accountCreate'', False), (200, ''createEmail'', False),
        (300, ''sendUnblockCode'', True), (400, ''createEmail'', False)]" 900]
  by (simp add: email_unblocked_def EmailRecord_parse_def get_num_def get_nums_def
      EMAIL_SENDING_ACTION_def default_limits_def)

text \<open>
  At most \<open>maxVerifyCodes\<close> codes can be tried against an address in any window, so guessing is
  bounded.
\<close>

theorem email_codes_bounded:
  assumes "email_unblocked L r" "er_vc r = []" "sorted (map fst es)"
    and "\<forall>e \<in> set es. fst (snd e) \<in> set CODE_VERIFYING_ACTION \<and> 0 < fst e"
    and "0 \<le> maxVerifyCodes L" "0 < rateLimitIntervalMs L"
  shows "int (length (filter (in_window t (rateLimitIntervalMs L))
      (allowed_times (\<lambda>now (a, u). EmailRecord_update L now a u) es r))) \<le> maxVerifyCodes L"
  using assms by (intro email_codes.window_bound) (auto simp: case_prod_unfold)

theorem email_codes_bounded_witness:
  "int (length (filter (in_window 900 900000)
     (allowed_times (\<lambda>now (a, u). EmailRecord_update default_limits now a u)
       [(100, ''verifyTotpCode'', False), (200, ''verifyRecoveryCode'', False)] (EmailRecord_parse None)))) \<le> 10"
  using email_codes_bounded [of default_limits "EmailRecord_parse None"
      "[(100, ''verifyTotpCode'', False), (200, ''verifyRecoveryCode'', False)]" 900]
  by (simp add: email_unblocked_def EmailRecord_parse_def get_num_def get_nums_def
      CODE_VERIFYING_ACTION_def default_limits_def)

text \<open>
  The number of seconds the record tells a client to wait is enough, for a rate limit and for
  a ban, and it is positive as long as one of them holds.
\<close>

theorem email_wait_sound:
  assumes "now + 1000 * EmailRecord_retryAfter L now r \<le> later"
  shows "\<not> EmailRecord_isRateLimited L later r \<and> \<not> EmailRecord_isBlocked L later r \<and>
    (EmailRecord_isRateLimited L now r \<or> EmailRecord_isBlocked L now r \<longrightarrow>
       0 < EmailRecord_retryAfter L now r)"
  using email.wait_enough [OF assms] email_ban.wait_enough [OF assms]
    email.limited_waits [of L now r] email_ban.limited_waits [of L now r] by blast

theorem email_wait_sound_witness:
  "\<not> EmailRecord_isRateLimited default_limits 1600000900000
     (EmailRecord_rateLimit 1600000000000 (EmailRecord_parse None)) \<and>
   0 < EmailRecord_retryAfter default_limits 1600000000000
     (EmailRecord_rateLimit 1600000000000 (EmailRecord_parse None))"
  using email_wait_sound [of 1600000000000 default_limits
      "EmailRecord_rateLimit 1600000000000 (EmailRecord_parse None)" 1600000900000]
  by (simp add: email_defs EmailRecord_parse_def get_num_def get_nums_def default_limits_def
      seconds_left_def js_or0_def ceil_seconds_def within_def)

end
