(* ===== verification/Ip_Email_Record.thy ===== *)
theory Ip_Email_Record
  imports Sliding_Window Actions Limits
begin

text \<open>
  \<open>lib/ip_email_record.js\<close>: the failed logins of one email address from one IP address. The
  record is rate-limited when a password is checked after too many failures, and freed by a
  password reset.
\<close>

record ip_email_record =
  ie_rl :: "time option"
  ie_lf :: "time list"

definition IpEmailRecord_parse :: "jsval option \<Rightarrow> ip_email_record" where
  "IpEmailRecord_parse object =
     \<lparr> ie_rl = get_num object ''rl'', ie_lf = get_nums object ''lf'' \<rparr>"

definition IpEmailRecord_getMinLifetimeMS :: "limits \<Rightarrow> int" where
  "IpEmailRecord_getMinLifetimeMS L = rateLimitIntervalMs L"

definition IpEmailRecord_trimBadLogins :: "limits \<Rightarrow> time \<Rightarrow> ip_email_record \<Rightarrow> ip_email_record" where
  "IpEmailRecord_trimBadLogins L now r =
     r\<lparr>ie_lf := trim_hits now (rateLimitIntervalMs L) (maxBadLogins L) (ie_lf r)\<rparr>"

definition IpEmailRecord_isOverBadLogins ::
    "limits \<Rightarrow> time \<Rightarrow> ip_email_record \<Rightarrow> ip_email_record \<times> bool" where
  "IpEmailRecord_isOverBadLogins L now r =
     (let r' = IpEmailRecord_trimBadLogins L now r
      in (r', maxBadLogins L < int (length (ie_lf r'))))"

definition IpEmailRecord_addBadLogin :: "limits \<Rightarrow> time \<Rightarrow> ip_email_record \<Rightarrow> ip_email_record" where
  "IpEmailRecord_addBadLogin L now r =
     (let r' = IpEmailRecord_trimBadLogins L now r in r'\<lparr>ie_lf := ie_lf r' @ [now]\<rparr>)"

definition IpEmailRecord_isRateLimited :: "limits \<Rightarrow> time \<Rightarrow> ip_email_record \<Rightarrow> bool" where
  "IpEmailRecord_isRateLimited L now r = within now (ie_rl r) (rateLimitIntervalMs L)"

definition IpEmailRecord_shouldBlock :: "limits \<Rightarrow> time \<Rightarrow> ip_email_record \<Rightarrow> bool" where
  "IpEmailRecord_shouldBlock L now r = IpEmailRecord_isRateLimited L now r"

definition IpEmailRecord_rateLimit :: "time \<Rightarrow> ip_email_record \<Rightarrow> ip_email_record" where
  "IpEmailRecord_rateLimit now r = r\<lparr>ie_rl := Some now, ie_lf := []\<rparr>"

text \<open>\<open>resetAt > this.rl\<close> is false when either side is \<open>undefined\<close>.\<close>

definition IpEmailRecord_unblockIfReset ::
    "time option \<Rightarrow> ip_email_record \<Rightarrow> ip_email_record \<times> bool" where
  "IpEmailRecord_unblockIfReset resetAt r =
     (case (resetAt, ie_rl r) of
        (Some pr, Some rl) \<Rightarrow>
          if rl < pr then (r\<lparr>ie_lf := [], ie_rl := None\<rparr>, True) else (r, False)
      | _ \<Rightarrow> (r, False))"

definition IpEmailRecord_retryAfter :: "limits \<Rightarrow> time \<Rightarrow> ip_email_record \<Rightarrow> int" where
  "IpEmailRecord_retryAfter L now r = max 0 (seconds_left now (ie_rl r) (rateLimitIntervalMs L))"

definition IpEmailRecord_update ::
    "limits \<Rightarrow> time \<Rightarrow> string \<Rightarrow> ip_email_record \<Rightarrow> ip_email_record \<times> int" where
  "IpEmailRecord_update L now action r =
     (if \<not> isPasswordCheckingAction action then (r, 0)
      else if IpEmailRecord_shouldBlock L now r then (r, IpEmailRecord_retryAfter L now r)
      else
        let (r', over) = IpEmailRecord_isOverBadLogins L now r
        in if over then
             let r'' = IpEmailRecord_rateLimit now r' in (r'', IpEmailRecord_retryAfter L now r'')
           else (r', 0))"

definition IpEmailRecord_marshall :: "ip_email_record \<Rightarrow> jsval" where
  "IpEmailRecord_marshall r = JObj ((''lf'', nums (ie_lf r)) # opt_num ''rl'' (ie_rl r))"

section \<open>Contracts\<close>

declare IpEmailRecord_isOverBadLogins_def [cust_defs] IpEmailRecord_trimBadLogins_def [cust_defs]
  IpEmailRecord_addBadLogin_def [cust_defs] IpEmailRecord_isRateLimited_def [cust_defs]
  IpEmailRecord_shouldBlock_def [cust_defs] IpEmailRecord_rateLimit_def [cust_defs]
  IpEmailRecord_retryAfter_def [cust_defs]

interpretation ip_email: cooldown "IpEmailRecord_isRateLimited L" IpEmailRecord_rateLimit
    "IpEmailRecord_retryAfter L" "rateLimitIntervalMs L" for L
  by unfold_locales
    (auto simp: cust_defs within_seconds_left elim: within_expires_wait [rotated])

lemma IpEmailRecord_roundtrip: "IpEmailRecord_parse (Some (IpEmailRecord_marshall r)) = r"
  by (cases r) (simp add: IpEmailRecord_parse_def IpEmailRecord_marshall_def get_num_def
      get_nums_def nums_def codec del: map_of_append split: option.splits)

text \<open>The failures of the window decide whether a password check is let through.\<close>

lemma IpEmailRecord_update_password:
  assumes "isPasswordCheckingAction action" "sorted (ie_lf r)" "0 \<le> maxBadLogins L"
    "0 < rateLimitIntervalMs L"
  shows "snd (IpEmailRecord_update L now action r) = 0 \<longleftrightarrow>
    \<not> IpEmailRecord_isRateLimited L now r \<and>
    int (length (filter (\<lambda>t. now - rateLimitIntervalMs L < t) (ie_lf r))) \<le> maxBadLogins L"
proof -
  have "snd (IpEmailRecord_update L now action r) = 0 \<longleftrightarrow>
      \<not> IpEmailRecord_isRateLimited L now r \<and>
      \<not> maxBadLogins L < int (length (trim_hits now (rateLimitIntervalMs L) (maxBadLogins L) (ie_lf r)))"
    using assms(1,4)
    by (auto simp: IpEmailRecord_update_def cust_defs Let_def seconds_left_nonpos
        dest: within_deadline)
  then show ?thesis
    using over_limit_sorted [OF assms(2,3)] by (simp add: not_less)
qed

lemma IpEmailRecord_unblock_frees:
  assumes "IpEmailRecord_unblockIfReset pr r = (r', True)"
  shows "r' = \<lparr> ie_rl = None, ie_lf = [] \<rparr>"
  using assms by (auto simp: IpEmailRecord_unblockIfReset_def split: option.splits if_splits)

end
