(* ===== verification/Sms_Record.thy ===== *)
theory Sms_Record
  imports Sliding_Window Actions Limits
begin

text \<open>\<open>lib/sms_record.js\<close>: the record of the text messages sent to one phone number.\<close>

record sms_record =
  sr_rl :: "time option"
  sr_sms :: "time list"

definition SMSRecord_parse :: "jsval option \<Rightarrow> sms_record" where
  "SMSRecord_parse object = \<lparr> sr_rl = get_num object ''rl'', sr_sms = get_nums object ''sms'' \<rparr>"

definition SMSRecord_getMinLifetimeMS :: "limits \<Rightarrow> int" where
  "SMSRecord_getMinLifetimeMS L = smsRateLimitIntervalMs L"

definition SMSRecord_trimHits :: "limits \<Rightarrow> time \<Rightarrow> sms_record \<Rightarrow> sms_record" where
  "SMSRecord_trimHits L now r =
     r\<lparr>sr_sms := trim_hits now (smsRateLimitIntervalMs L) (maxSms L) (sr_sms r)\<rparr>"

definition SMSRecord_isOverSmsLimit :: "limits \<Rightarrow> time \<Rightarrow> sms_record \<Rightarrow> sms_record \<times> bool" where
  "SMSRecord_isOverSmsLimit L now r =
     (let r' = SMSRecord_trimHits L now r in (r', maxSms L < int (length (sr_sms r'))))"

definition SMSRecord_addHit :: "time \<Rightarrow> sms_record \<Rightarrow> sms_record" where
  "SMSRecord_addHit now r = r\<lparr>sr_sms := sr_sms r @ [now]\<rparr>"

definition SMSRecord_isRateLimited :: "limits \<Rightarrow> time \<Rightarrow> sms_record \<Rightarrow> bool" where
  "SMSRecord_isRateLimited L now r = within now (sr_rl r) (smsRateLimitIntervalMs L)"

definition SMSRecord_rateLimit :: "time \<Rightarrow> sms_record \<Rightarrow> sms_record" where
  "SMSRecord_rateLimit now r = r\<lparr>sr_rl := Some now, sr_sms := []\<rparr>"

definition SMSRecord_retryAfter :: "limits \<Rightarrow> time \<Rightarrow> sms_record \<Rightarrow> int" where
  "SMSRecord_retryAfter L now r = max 0 (seconds_left now (sr_rl r) (smsRateLimitIntervalMs L))"

definition SMSRecord_update ::
    "limits \<Rightarrow> time \<Rightarrow> string \<Rightarrow> sms_record \<Rightarrow> sms_record \<times> int" where
  "SMSRecord_update L now action r =
     (if isSmsSendingAction action then
        if SMSRecord_isRateLimited L now r then (r, SMSRecord_retryAfter L now r)
        else
          let (r', over) = SMSRecord_isOverSmsLimit L now (SMSRecord_addHit now r)
          in if over then
               let r'' = SMSRecord_rateLimit now r' in (r'', SMSRecord_retryAfter L now r'')
             else (r', 0)
      else (r, 0))"

definition SMSRecord_marshall :: "sms_record \<Rightarrow> jsval" where
  "SMSRecord_marshall r = JObj (opt_num ''rl'' (sr_rl r) @ [(''sms'', nums (sr_sms r))])"

section \<open>Contracts\<close>

declare SMSRecord_isOverSmsLimit_def [cust_defs] SMSRecord_trimHits_def [cust_defs]
  SMSRecord_addHit_def [cust_defs] SMSRecord_isRateLimited_def [cust_defs]
  SMSRecord_rateLimit_def [cust_defs] SMSRecord_retryAfter_def [cust_defs]

interpretation sms: cooldown "SMSRecord_isRateLimited L" SMSRecord_rateLimit
    "SMSRecord_retryAfter L" "smsRateLimitIntervalMs L" for L
  by unfold_locales
    (auto simp: cust_defs within_seconds_left elim: within_expires_wait [rotated])

interpretation sms: throttle "\<lambda>_. True" isSmsSendingAction sr_rl sr_sms
    "SMSRecord_update L" "smsRateLimitIntervalMs L" "smsRateLimitIntervalMs L" "maxSms L" for L
  by unfold_locales
    (auto simp: SMSRecord_update_def cust_defs Let_def within_deadline seconds_left_pos)

lemma SMSRecord_roundtrip: "SMSRecord_parse (Some (SMSRecord_marshall r)) = r"
  by (cases r) (simp add: SMSRecord_parse_def SMSRecord_marshall_def get_num_def get_nums_def
      nums_def codec del: map_of_append split: option.splits)

section \<open>What the record promises\<close>

text \<open>A phone number gets at most \<open>maxSms\<close> messages in any window of \<open>smsRateLimitIntervalMs\<close>.\<close>

theorem sms_bounded:
  assumes "sr_sms r = []" "sorted (map fst es)"
    and "\<forall>e \<in> set es. isSmsSendingAction (snd e) \<and> 0 < fst e"
    and "0 \<le> maxSms L" "0 < smsRateLimitIntervalMs L"
  shows "int (length (filter (in_window t (smsRateLimitIntervalMs L))
      (allowed_times (SMSRecord_update L) es r))) \<le> maxSms L"
  using assms by (intro sms.window_bound) auto

theorem sms_bounded_witness:
  "int (length (filter (in_window 40 1800000)
     (allowed_times (SMSRecord_update default_limits)
       [(10, ''connectDeviceSms''), (20, ''connectDeviceSms'')] (SMSRecord_parse None)))) \<le> 3"
  using sms_bounded [of "SMSRecord_parse None" "[(10, ''connectDeviceSms''), (20, ''connectDeviceSms'')]"
      default_limits 40]
  by (simp add: SMSRecord_parse_def get_nums_def default_limits_def action_defs)

end
