(* ===== verification/Uid_Record.thy ===== *)
theory Uid_Record
  imports Sliding_Window Limits
begin

text \<open>
  \<open>lib/uid_record.js\<close>: the checks made for one user id, counted per action, with one
  rate-limit timestamp for all actions. Unlike the other records it returns its delay in
  milliseconds.

  The per-action lists are an association list (action names are ordinary property names).
  \<open>getRetryAfter\<close> of a record with no timestamp would be \<open>NaN\<close>, which is \<open>None\<close> here.
\<close>

record uid_record =
  ur_timestampsByAction :: "(string \<times> time list) list"
  ur_rateLimitedTimestamp :: "time option"

fun pair_nums :: "string \<times> jsval \<Rightarrow> (string \<times> time list) option" where
  "pair_nums (k, JArr xs) = Some (k, List.map_filter num_of xs)"
| "pair_nums _ = None"

definition UidRecord_parse :: "jsval option \<Rightarrow> uid_record" where
  "UidRecord_parse object =
     \<lparr> ur_timestampsByAction =
         List.map_filter pair_nums (js_fields (map_of (js_fields object) ''timestampsByAction'')),
       ur_rateLimitedTimestamp = get_num object ''rateLimitedTimestamp'' \<rparr>"

definition UidRecord_getMinLifetimeMS :: "limits \<Rightarrow> int" where
  "UidRecord_getMinLifetimeMS L = max (uidRateLimitIntervalMs L) (uidRateLimitBanDurationMs L)"

text \<open>
  The loop of \<open>_trim\<close> is the common one but for \<open>n < max\<close> in its guard, that is \<open>n \<le> max - 1\<close>;
  leaving it at \<open>i = -1\<close> with \<open>break\<close> is the same as failing the comparison with \<open>undefined\<close>.
\<close>

definition UidRecord_trim :: "limits \<Rightarrow> time \<Rightarrow> time list option \<Rightarrow> int \<Rightarrow> time list" where
  "UidRecord_trim L now items mx =
     (case items of
        None \<Rightarrow> []
      | Some xs \<Rightarrow>
          if xs = [] then []
          else drop (nat (trim_loop xs (now - uidRateLimitIntervalMs L) (mx - 1)
                 (int (length xs) - 1) 0 + 1)) xs)"

definition UidRecord_trimCounts :: "limits \<Rightarrow> string \<Rightarrow> time \<Rightarrow> uid_record \<Rightarrow> uid_record" where
  "UidRecord_trimCounts L action now r =
     r\<lparr>ur_timestampsByAction :=
         AList.update action
           (UidRecord_trim L now (map_of (ur_timestampsByAction r) action) (maxChecksPerUid L))
           (ur_timestampsByAction r)\<rparr>"

definition UidRecord_rateLimit :: "time \<Rightarrow> uid_record \<Rightarrow> uid_record" where
  "UidRecord_rateLimit now r = r\<lparr>ur_rateLimitedTimestamp := Some now\<rparr>"

definition UidRecord_getRetryAfter :: "limits \<Rightarrow> time \<Rightarrow> uid_record \<Rightarrow> int option" where
  "UidRecord_getRetryAfter L now r =
     map_option (\<lambda>t. t + uidRateLimitBanDurationMs L - now) (ur_rateLimitedTimestamp r)"

definition UidRecord_isRateLimited :: "limits \<Rightarrow> time \<Rightarrow> uid_record \<Rightarrow> bool" where
  "UidRecord_isRateLimited L now r \<longleftrightarrow>
     (case ur_rateLimitedTimestamp r of
        None \<Rightarrow> False | Some t \<Rightarrow> t \<noteq> 0 \<and> now < t + uidRateLimitBanDurationMs L)"

definition UidRecord_count :: "string \<Rightarrow> uid_record \<Rightarrow> time list" where
  "UidRecord_count action r =
     (case map_of (ur_timestampsByAction r) action of None \<Rightarrow> [] | Some ts \<Rightarrow> ts)"

definition UidRecord_getPossibleRetryDelay ::
    "limits \<Rightarrow> time \<Rightarrow> string \<Rightarrow> uid_record \<Rightarrow> uid_record \<times> int option" where
  "UidRecord_getPossibleRetryDelay L now action r =
     (if int (length (UidRecord_count action r)) < maxChecksPerUid L
      then (r\<lparr>ur_rateLimitedTimestamp := None\<rparr>, Some 0)
      else
        let r' = (if \<not> UidRecord_isRateLimited L now r then UidRecord_rateLimit now r else r)
        in (r', UidRecord_getRetryAfter L now r'))"

definition UidRecord_addCount ::
    "limits \<Rightarrow> time \<Rightarrow> string \<Rightarrow> uid_record \<Rightarrow> uid_record \<times> int option" where
  "UidRecord_addCount L now action r =
     (let r1 = UidRecord_trimCounts L action now r;
          r2 = (if \<not> UidRecord_isRateLimited L now r1
                then r1\<lparr>ur_timestampsByAction :=
                       AList.update action (UidRecord_count action r1 @ [now])
                         (ur_timestampsByAction r1)\<rparr>
                else r1)
      in UidRecord_getPossibleRetryDelay L now action r2)"

definition UidRecord_marshall :: "uid_record \<Rightarrow> jsval" where
  "UidRecord_marshall r = JObj
     ((''timestampsByAction'',
       JObj (map (\<lambda>(a, ts). (a, nums ts)) (ur_timestampsByAction r))) #
      opt_num ''rateLimitedTimestamp'' (ur_rateLimitedTimestamp r))"

section \<open>Facts\<close>

declare UidRecord_trimCounts_def [cust_defs] UidRecord_rateLimit_def [cust_defs]
  UidRecord_getRetryAfter_def [cust_defs] UidRecord_isRateLimited_def [cust_defs]
  UidRecord_count_def [cust_defs]

lemma UidRecord_trim_eq:
  "UidRecord_trim L now items mx =
     trim_hits now (uidRateLimitIntervalMs L) (mx - 1) (case items of None \<Rightarrow> [] | Some xs \<Rightarrow> xs)"
  by (simp add: UidRecord_trim_def trim_hits_def split: option.splits)

lemma UidRecord_roundtrip: "UidRecord_parse (Some (UidRecord_marshall r)) = r"
proof -
  have "List.map_filter pair_nums (map (\<lambda>(a, ts). (a, nums ts)) xs) = xs" for xs
    by (induction xs) (auto simp: List.map_filter_simps nums_def codec)
  then show ?thesis
    by (cases r) (simp add: UidRecord_parse_def UidRecord_marshall_def get_num_def codec
        del: map_of_append split: option.splits)
qed

text \<open>The window an action is judged by: what is left of its list after trimming.\<close>

definition UidRecord_window :: "limits \<Rightarrow> time \<Rightarrow> string \<Rightarrow> uid_record \<Rightarrow> time list" where
  "UidRecord_window L now action r =
     trim_hits now (uidRateLimitIntervalMs L) (maxChecksPerUid L - 1) (UidRecord_count action r)"

lemma UidRecord_addCount_cases:
  "UidRecord_addCount L now action r =
     (let w = UidRecord_window L now action r;
          limited = UidRecord_isRateLimited L now r;
          w' = (if limited then w else w @ [now]);
          ts = AList.update action w' (ur_timestampsByAction r)
      in if int (length w') < maxChecksPerUid L
         then (\<lparr> ur_timestampsByAction = ts, ur_rateLimitedTimestamp = None \<rparr>, Some 0)
         else if limited
         then (r\<lparr>ur_timestampsByAction := ts\<rparr>, UidRecord_getRetryAfter L now r)
         else (\<lparr> ur_timestampsByAction = ts, ur_rateLimitedTimestamp = Some now \<rparr>,
               Some (uidRateLimitBanDurationMs L)))"
  by (cases r) (auto simp: UidRecord_addCount_def UidRecord_getPossibleRetryDelay_def
      UidRecord_window_def cust_defs Let_def UidRecord_trim_eq update_conv split: option.splits)

end
