(* ===== verification/Rule_Record.thy ===== *)
theory Rule_Record
  imports Sliding_Window
begin

text \<open>
  \<open>lib/record.js\<close>: the record behind a user-defined rate-limit rule. The rule's configuration
  (\<open>config.userDefinedRateLimitRules\<close>) gives the limits and the actions it applies to.
\<close>

record rule_config =
  rule_max :: int
  rule_periodMs :: int
  rule_rateLimitIntervalMs :: int
  rule_actions :: "string list"

record rule_record =
  rr_rl :: "time option"
  rr_hits :: "time list"

text \<open>The constructor: what is read from the stored object, if there is one.\<close>

definition Record_new :: "jsval option \<Rightarrow> rule_record" where
  "Record_new object = \<lparr> rr_rl = get_num object ''rl'', rr_hits = get_nums object ''hits'' \<rparr>"

definition Record_getMinLifetimeMS :: "rule_config \<Rightarrow> int" where
  "Record_getMinLifetimeMS cfg = rule_rateLimitIntervalMs cfg"

definition Record_trimHits :: "rule_config \<Rightarrow> time \<Rightarrow> rule_record \<Rightarrow> rule_record" where
  "Record_trimHits cfg now r =
     r\<lparr>rr_hits := trim_hits now (rule_periodMs cfg) (rule_max cfg) (rr_hits r)\<rparr>"

definition Record_isOverLimit :: "rule_config \<Rightarrow> time \<Rightarrow> rule_record \<Rightarrow> rule_record \<times> bool" where
  "Record_isOverLimit cfg now r =
     (let r' = Record_trimHits cfg now r in (r', rule_max cfg < int (length (rr_hits r'))))"

definition Record_addHit :: "time \<Rightarrow> rule_record \<Rightarrow> rule_record" where
  "Record_addHit now r = r\<lparr>rr_hits := rr_hits r @ [now]\<rparr>"

definition Record_isRateLimited :: "rule_config \<Rightarrow> time \<Rightarrow> rule_record \<Rightarrow> bool" where
  "Record_isRateLimited cfg now r = within now (rr_rl r) (rule_rateLimitIntervalMs cfg)"

definition Record_rateLimit :: "time \<Rightarrow> rule_record \<Rightarrow> rule_record" where
  "Record_rateLimit now r = r\<lparr>rr_rl := Some now, rr_hits := []\<rparr>"

definition Record_retryAfter :: "rule_config \<Rightarrow> time \<Rightarrow> rule_record \<Rightarrow> int" where
  "Record_retryAfter cfg now r =
     max 0 (seconds_left now (rr_rl r) (rule_rateLimitIntervalMs cfg))"

definition Record_update ::
    "rule_config \<Rightarrow> time \<Rightarrow> string \<Rightarrow> rule_record \<Rightarrow> rule_record \<times> int" where
  "Record_update cfg now action r =
     (if action \<in> set (rule_actions cfg) then
        if Record_isRateLimited cfg now r then (r, Record_retryAfter cfg now r)
        else
          let (r', over) = Record_isOverLimit cfg now (Record_addHit now r)
          in if over then
               let r'' = Record_rateLimit now r' in (r'', Record_retryAfter cfg now r'')
             else (r', 0)
      else (r, 0))"

text \<open>\<open>marshallRecordForStorage\<close> for this class: the enumerable properties \<open>rl\<close> and \<open>hits\<close>
  (\<open>now\<close> is a function, \<open>limits\<close> and \<open>actions\<close> are not enumerable).\<close>

definition Record_marshall :: "rule_record \<Rightarrow> jsval" where
  "Record_marshall r = JObj (opt_num ''rl'' (rr_rl r) @ [(''hits'', nums (rr_hits r))])"

section \<open>Contracts\<close>

declare Record_isOverLimit_def [cust_defs] Record_trimHits_def [cust_defs]
  Record_addHit_def [cust_defs] Record_isRateLimited_def [cust_defs]
  Record_rateLimit_def [cust_defs] Record_retryAfter_def [cust_defs]

interpretation rule: cooldown "Record_isRateLimited cfg" Record_rateLimit
    "Record_retryAfter cfg" "rule_rateLimitIntervalMs cfg" for cfg
  by unfold_locales
    (auto simp: cust_defs within_seconds_left elim: within_expires_wait [rotated])

interpretation rule: throttle "\<lambda>_. True" "\<lambda>a. a \<in> set (rule_actions cfg)" rr_rl rr_hits
    "Record_update cfg" "rule_rateLimitIntervalMs cfg" "rule_periodMs cfg" "rule_max cfg" for cfg
  by unfold_locales
    (auto simp: Record_update_def cust_defs Let_def within_deadline seconds_left_pos)

lemma Record_roundtrip: "Record_new (Some (Record_marshall r)) = r"
  by (cases r) (simp add: Record_new_def Record_marshall_def get_num_def get_nums_def nums_def
      codec del: map_of_append split: option.splits)

section \<open>What the record promises\<close>

text \<open>
  A configured rule lets at most \<open>max\<close> of its actions through in any window of \<open>periodMs\<close>,
  provided that a limited record stays limited for at least a period.
\<close>

theorem rule_bounded:
  assumes "rr_hits r = []" "sorted (map fst es)"
    and "\<forall>e \<in> set es. snd e \<in> set (rule_actions cfg) \<and> 0 < fst e"
    and "0 \<le> rule_max cfg" "0 < rule_rateLimitIntervalMs cfg"
    and "rule_periodMs cfg \<le> rule_rateLimitIntervalMs cfg"
  shows "int (length (filter (in_window t (rule_periodMs cfg))
      (allowed_times (Record_update cfg) es r))) \<le> rule_max cfg"
  using assms by (intro rule.window_bound) auto

theorem rule_bounded_witness:
  "int (length (filter (in_window 40 30000)
     (allowed_times (Record_update \<lparr> rule_max = 2, rule_periodMs = 30000,
         rule_rateLimitIntervalMs = 30000, rule_actions = [''verifyTotpCode''] \<rparr>)
       [(10, ''verifyTotpCode''), (20, ''verifyTotpCode''), (30, ''verifyTotpCode'')]
       (Record_new None)))) \<le> 2"
  using rule_bounded [of "Record_new None"
      "[(10, ''verifyTotpCode''), (20, ''verifyTotpCode''), (30, ''verifyTotpCode'')]"
      "\<lparr> rule_max = 2, rule_periodMs = 30000, rule_rateLimitIntervalMs = 30000,
         rule_actions = [''verifyTotpCode''] \<rparr>" 40]
  by (simp add: Record_new_def get_nums_def)

end
