(* ===== verification/Records_Store.thy ===== *)
theory Records_Store
  imports Cache Reputation Ip_Record Email_Record Ip_Email_Record Sms_Record Uid_Record Rule_Record
begin

text \<open>
  \<open>lib/records.js\<close>: reading the records of a request from memcached and writing them back.
  A stored record is its own properties without \<open>key\<close>; the key it was fetched under is an
  argument here. A read that fails is handed to the parser like a result, and the error object
  has none of the properties that the parser reads.
\<close>

definition fetchRecord ::
    "'m memcached \<Rightarrow> 'm \<Rightarrow> time \<Rightarrow> string \<Rightarrow> (jsval option \<Rightarrow> 'r) \<Rightarrow> 'r" where
  "fetchRecord mc m t key parser =
     (case getAsync mc m t key of Inl err \<Rightarrow> parser None | Inr v \<Rightarrow> parser v)"

record records =
  rs_ipRecord :: "ip_record option"
  rs_reputation :: "int option"
  rs_emailRecord :: "email_record option"
  rs_ipEmailRecord :: "ip_email_record option"
  rs_smsRecord :: "sms_record option"
  rs_uidRecord :: "uid_record option"

definition fetchRecords ::
    "'m memcached \<Rightarrow> (string \<Rightarrow> int option) \<Rightarrow> 'm \<Rightarrow> time \<Rightarrow>
     string option \<Rightarrow> string option \<Rightarrow> string option \<Rightarrow> string option \<Rightarrow> records" where
  "fetchRecords mc reputation m t ip email phoneNumber uid =
     (let ip = truthy_string ip; email = truthy_string email;
          phoneNumber = truthy_string phoneNumber; uid = truthy_string uid
      in \<lparr> rs_ipRecord = map_option (\<lambda>i. fetchRecord mc m t i IpRecord_parse) ip,
           rs_reputation = Option.bind ip reputation,
           rs_emailRecord = map_option (\<lambda>e. fetchRecord mc m t e EmailRecord_parse) email,
           rs_ipEmailRecord =
             Option.bind ip (\<lambda>i. map_option (\<lambda>e. fetchRecord mc m t (i @ e) IpEmailRecord_parse) email),
           rs_smsRecord = map_option (\<lambda>p. fetchRecord mc m t p SMSRecord_parse) phoneNumber,
           rs_uidRecord = map_option (\<lambda>u. fetchRecord mc m t u UidRecord_parse) uid \<rparr>)"

text \<open>A record on its way to the cache: its key, its marshalled properties, its minimal lifetime.\<close>

record marshalled =
  ma_key :: string
  ma_value :: jsval
  ma_minLifetimeMS :: int

definition setRecord ::
    "'m memcached \<Rightarrow> int \<Rightarrow> 'm \<Rightarrow> time \<Rightarrow> marshalled \<Rightarrow> 'm \<times> string option" where
  "setRecord mc recordLifetimeSeconds m now r =
     setAsync mc m now (ma_key r) (ma_value r)
       (max (1000 * recordLifetimeSeconds) (ma_minLifetimeMS r))"

text \<open>\<open>Promise.all\<close>: every write is issued; the result is the first rejection, if there is one.\<close>

fun setRecords ::
    "'m memcached \<Rightarrow> int \<Rightarrow> 'm \<Rightarrow> time \<Rightarrow> marshalled list \<Rightarrow> 'm \<times> string option" where
  "setRecords mc life m now [] = (m, None)"
| "setRecords mc life m now (r # rs) =
     (let (m1, e1) = setRecord mc life m now r; (m2, e2) = setRecords mc life m1 now rs
      in (m2, case e1 of Some e \<Rightarrow> Some e | None \<Rightarrow> e2))"

definition marshall_ip :: "limits \<Rightarrow> string \<Rightarrow> ip_record \<Rightarrow> marshalled" where
  "marshall_ip L key r =
     \<lparr> ma_key = key, ma_value = IpRecord_marshall r, ma_minLifetimeMS = IpRecord_getMinLifetimeMS L \<rparr>"

definition marshall_email :: "limits \<Rightarrow> string \<Rightarrow> email_record \<Rightarrow> marshalled" where
  "marshall_email L key r =
     \<lparr> ma_key = key, ma_value = EmailRecord_marshall r, ma_minLifetimeMS = EmailRecord_getMinLifetimeMS L \<rparr>"

definition marshall_ip_email :: "limits \<Rightarrow> string \<Rightarrow> ip_email_record \<Rightarrow> marshalled" where
  "marshall_ip_email L key r =
     \<lparr> ma_key = key, ma_value = IpEmailRecord_marshall r, ma_minLifetimeMS = IpEmailRecord_getMinLifetimeMS L \<rparr>"

definition marshall_sms :: "limits \<Rightarrow> string \<Rightarrow> sms_record \<Rightarrow> marshalled" where
  "marshall_sms L key r =
     \<lparr> ma_key = key, ma_value = SMSRecord_marshall r, ma_minLifetimeMS = SMSRecord_getMinLifetimeMS L \<rparr>"

definition marshall_uid :: "limits \<Rightarrow> string \<Rightarrow> uid_record \<Rightarrow> marshalled" where
  "marshall_uid L key r =
     \<lparr> ma_key = key, ma_value = UidRecord_marshall r, ma_minLifetimeMS = UidRecord_getMinLifetimeMS L \<rparr>"

definition marshall_rule :: "rule_config \<Rightarrow> string \<Rightarrow> rule_record \<Rightarrow> marshalled" where
  "marshall_rule cfg key r =
     \<lparr> ma_key = key, ma_value = Record_marshall r, ma_minLifetimeMS = Record_getMinLifetimeMS cfg \<rparr>"

section \<open>The contract between a record class and the store\<close>

text \<open>
  A class of records that the store can keep: parsing what was marshalled gives the record
  back, and the marshalled form asks for a lifetime of at least \<open>minLifetime\<close>.
\<close>

locale stored_record =
  fixes parse :: "jsval option \<Rightarrow> 'r"
    and marshall :: "string \<Rightarrow> 'r \<Rightarrow> marshalled"
    and minLifetime :: int
  assumes parse_marshalled: "parse (Some (ma_value (marshall key r))) = r"
    and key_kept: "ma_key (marshall key r) = key"
    and lifetime_kept: "minLifetime \<le> ma_minLifetimeMS (marshall key r)"
begin

lemma fetch_error: "getAsync mc m t key = Inl err \<Longrightarrow> fetchRecord mc m t key parse = parse None"
  by (simp add: fetchRecord_def)

text \<open>A record that was written is read back until its lifetime ends.\<close>

lemma fetch_after_set:
  assumes "memcached_ok mc" "setRecord mc life m now (marshall key r) = (m', None)"
    and "now \<le> t" "t < now + max (1000 * life) minLifetime"
  shows "fetchRecord mc m' t key parse = r"
proof -
  have "setAsync mc m now key (ma_value (marshall key r))
      (max (1000 * life) (ma_minLifetimeMS (marshall key r))) = (m', None)"
    using assms(2) by (simp add: setRecord_def key_kept)
  then have "getAsync mc m' t key = Inr (Some (ma_value (marshall key r)))"
    using assms(1,3,4) lifetime_kept [of key r] by (auto elim: memcached_ok_get)
  then show ?thesis by (simp add: fetchRecord_def parse_marshalled)
qed

lemma fetch_other:
  "memcached_ok mc \<Longrightarrow> setRecord mc life m now (marshall key r) = (m', None) \<Longrightarrow> key' \<noteq> key \<Longrightarrow>
   fetchRecord mc m' t key' parser = fetchRecord mc m t key' parser"
  by (simp add: fetchRecord_def setRecord_def key_kept memcached_ok_other)

end

interpretation ip_store: stored_record IpRecord_parse "marshall_ip L" "IpRecord_getMinLifetimeMS L" for L
  by unfold_locales (simp_all add: marshall_ip_def IpRecord_roundtrip)

interpretation email_store: stored_record EmailRecord_parse "marshall_email L" "EmailRecord_getMinLifetimeMS L" for L
  by unfold_locales (simp_all add: marshall_email_def EmailRecord_roundtrip)

interpretation ip_email_store: stored_record IpEmailRecord_parse "marshall_ip_email L" "IpEmailRecord_getMinLifetimeMS L" for L
  by unfold_locales (simp_all add: marshall_ip_email_def IpEmailRecord_roundtrip)

interpretation sms_store: stored_record SMSRecord_parse "marshall_sms L" "SMSRecord_getMinLifetimeMS L" for L
  by unfold_locales (simp_all add: marshall_sms_def SMSRecord_roundtrip)

interpretation uid_store: stored_record UidRecord_parse "marshall_uid L" "UidRecord_getMinLifetimeMS L" for L
  by unfold_locales (simp_all add: marshall_uid_def UidRecord_roundtrip)

interpretation rule_store: stored_record Record_new "marshall_rule cfg" "Record_getMinLifetimeMS cfg" for cfg
  by unfold_locales (simp_all add: marshall_rule_def Record_roundtrip)

text \<open>A server that is up accepts every write.\<close>

lemma setRecords_up: "memcached_up mc \<Longrightarrow> snd (setRecords mc life m now rs) = None"
proof (induction rs arbitrary: m)
  case (Cons r rs)
  moreover have "snd (setRecord mc life m now r) = None"
    using Cons.prems by (simp add: setRecord_def memcached_up_def)
  ultimately show ?case by (simp add: case_prod_unfold Let_def)
qed simp

text \<open>With distinct keys, every record of a successful \<open>setRecords\<close> is found in the cache.\<close>

lemma setRecords_other:
  "memcached_ok mc \<Longrightarrow> setRecords mc life m now rs = (m', None) \<Longrightarrow> key \<notin> ma_key ` set rs \<Longrightarrow>
   getAsync mc m' t key = getAsync mc m t key"
proof (induction rs arbitrary: m)
  case (Cons r rs)
  obtain m1 e1 m2 e2 where set: "setRecord mc life m now r = (m1, e1)"
    "setRecords mc life m1 now rs = (m2, e2)"
    by fastforce
  then have none: "e1 = None" "e2 = None" "m2 = m'"
    using Cons.prems(2) by (auto split: option.splits)
  then have "getAsync mc m' t key = getAsync mc m1 t key"
    using Cons.IH [of m1] Cons.prems set by simp
  moreover have "getAsync mc m1 t key = getAsync mc m t key"
    using set(1) none Cons.prems unfolding setRecord_def by (auto intro: memcached_ok_other)
  ultimately show ?case by simp
qed simp

lemma setRecords_get:
  assumes "memcached_ok mc" "setRecords mc life m now rs = (m', None)"
    and "distinct (map ma_key rs)" "r \<in> set rs"
    and "now \<le> t" "t < now + max (1000 * life) (ma_minLifetimeMS r)"
  shows "getAsync mc m' t (ma_key r) = Inr (Some (ma_value r))"
  using assms(2-4)
proof (induction rs arbitrary: m)
  case (Cons s rs)
  obtain m1 e1 m2 e2 where set: "setRecord mc life m now s = (m1, e1)"
    "setRecords mc life m1 now rs = (m2, e2)"
    by fastforce
  then have none: "e1 = None" "e2 = None" "m2 = m'"
    using Cons.prems(1) by (auto split: option.splits)
  show ?case
  proof (cases "r = s")
    case True
    have "getAsync mc m' t (ma_key r) = getAsync mc m1 t (ma_key r)"
      using setRecords_other [OF assms(1), of life m1 now rs m'] set none Cons.prems(2) True by simp
    also have "\<dots> = Inr (Some (ma_value r))"
      using set(1) none True assms(1,5,6) by (auto simp: setRecord_def elim!: memcached_ok_get)
    finally show ?thesis .
  next
    case False
    then show ?thesis using Cons.IH [of m1] Cons.prems set none by simp
  qed
qed simp

section \<open>What the store promises\<close>

text \<open>
  The three records that a request writes are exactly what the next request for the same IP
  and email address reads, as long as the configured lifetime has not passed.
\<close>

theorem stored_records_fetched:
  assumes "memcached_ok mc" "ip \<noteq> []" "email \<noteq> []" "ip \<noteq> email"
    and set: "setRecords mc life m now [marshall_ip L ip a, marshall_email L email b,
        marshall_ip_email L (ip @ email) c] = (m', None)"
    and "now \<le> t" "t < now + 1000 * life"
  shows "fetchRecords mc rep m' t (Some ip) (Some email) None None =
    \<lparr> rs_ipRecord = Some a, rs_reputation = rep ip, rs_emailRecord = Some b,
      rs_ipEmailRecord = Some c, rs_smsRecord = None, rs_uidRecord = None \<rparr>"
proof -
  let ?rs = "[marshall_ip L ip a, marshall_email L email b, marshall_ip_email L (ip @ email) c]"
  have "distinct (map ma_key ?rs)"
    using assms(2-4) by (simp add: marshall_ip_def marshall_email_def marshall_ip_email_def)
  then have get: "getAsync mc m' t (ma_key r) = Inr (Some (ma_value r))" if "r \<in> set ?rs" for r
    using setRecords_get [OF assms(1) set _ that assms(6)] assms(7) by simp
  show ?thesis
    using get [of "marshall_ip L ip a"] get [of "marshall_email L email b"]
      get [of "marshall_ip_email L (ip @ email) c"] assms(2,3)
    by (simp add: fetchRecords_def fetchRecord_def marshall_ip_def marshall_email_def
        marshall_ip_email_def IpRecord_roundtrip EmailRecord_roundtrip IpEmailRecord_roundtrip)
qed

theorem stored_records_fetched_witness:
  "fetchRecords table_cache (\<lambda>_. None)
     (fst (setRecords table_cache 900 [] 10 [marshall_ip default_limits ''10.0.0.1'' (IpRecord_block 10 (IpRecord_parse None)),
        marshall_email default_limits ''a@x.org'' (EmailRecord_parse None),
        marshall_ip_email default_limits (''10.0.0.1'' @ ''a@x.org'') (IpEmailRecord_parse None)]))
     20 (Some ''10.0.0.1'') (Some ''a@x.org'') None None =
   \<lparr> rs_ipRecord = Some (IpRecord_block 10 (IpRecord_parse None)), rs_reputation = None,
     rs_emailRecord = Some (EmailRecord_parse None), rs_ipEmailRecord = Some (IpEmailRecord_parse None),
     rs_smsRecord = None, rs_uidRecord = None \<rparr>"
  by (rule stored_records_fetched [OF table_cache_ok, where now = 10 and life = 900 and m = "[]"])
    (simp_all add: setRecord_def table_cache_def table_set_def)

end
