(* ===== verification/User_Rules.thy ===== *)
theory User_Rules
  imports Records_Store
begin

text \<open>
  \<open>lib/user_defined_rules.js\<close>: rate limits that the operator configures per action, each with
  a record of its own, and \<open>createHashHex\<close> of \<open>lib/utils.js\<close>, which names these records. SHA-256
  is a parameter. A rejected promise is the error of the sum type.
\<close>

text \<open>What \<open>/check\<close> has decided so far; an absent property is \<open>None\<close>.\<close>

record check_result =
  cr_block :: bool
  cr_blockReason :: "block_reason option"
  cr_retryAfter :: int
  cr_unblock :: "bool option"
  cr_suspect :: "bool option"

datatype request_error = TypeError | AddressError | MemcachedError string | InvalidMessage

definition createHashHex :: "(string \<Rightarrow> string) \<Rightarrow> string list \<Rightarrow> string" where
  "createHashHex sha256 args = sha256 (concat (map (\<lambda>arg. arg @ [char_of (0 :: nat)]) args))"

section \<open>The rules per action\<close>

text \<open>
  \<open>items.push(key)\<close> returns the new length, so the value that \<open>computedRules\<close> holds for an
  action is an array of rule names or a number.
\<close>

datatype rule_entry = RuleList "string list" | RuleCount int

type_synonym rule_table = "(string \<times> rule_entry) list"
type_synonym rules = "(string \<times> rule_config) list"

definition addRule :: "string \<Rightarrow> string \<Rightarrow> rule_table \<Rightarrow> rule_table option" where
  "addRule action key tab =
     (case map_of tab action of
        None \<Rightarrow> Some (AList.update action (RuleList [key]) tab)
      | Some (RuleList items) \<Rightarrow>
          Some (AList.update action (RuleCount (int (length items) + 1)) tab)
      | Some (RuleCount n) \<Rightarrow>
          if n = 0 then Some (AList.update action (RuleList [key]) tab) else None)"

fun addRules :: "(string \<times> string) list \<Rightarrow> rule_table \<Rightarrow> rule_table option" where
  "addRules [] tab = Some tab"
| "addRules ((action, key) # ps) tab = Option.bind (addRule action key tab) (addRules ps)"

definition rule_pairs :: "rules \<Rightarrow> (string \<times> string) list" where
  "rule_pairs configuredRules =
     concat (map (\<lambda>(key, cfg). map (\<lambda>action. (action, key)) (rule_actions cfg)) configuredRules)"

definition computedRules :: "rules \<Rightarrow> rule_table option" where
  "computedRules configuredRules = addRules (rule_pairs configuredRules) []"

section \<open>Checking a request\<close>

text \<open>
  The callbacks that \<open>Promise.all\<close> waits for. Each reads its record at \<open>t\<close>, updates and writes
  it at \<open>t'\<close>. The result is the cache, \<open>retries\<close> and the first rejection.
\<close>

fun run_rules ::
    "'m memcached \<Rightarrow> int \<Rightarrow> (string \<Rightarrow> string) \<Rightarrow> rules \<Rightarrow> 'm \<Rightarrow> time \<Rightarrow> time \<Rightarrow>
     string \<Rightarrow> string \<Rightarrow> string \<Rightarrow> string list \<Rightarrow> 'm \<times> int list \<times> request_error option" where
  "run_rules mc life sha256 rules m t t' action email ip [] = (m, [], None)"
| "run_rules mc life sha256 rules m t t' action email ip (ruleName # names) =
     (case map_of rules ruleName of
        None \<Rightarrow> (m, [], Some TypeError)
      | Some cfg \<Rightarrow>
          let recordKey = ruleName @ '':'' @ createHashHex sha256 [email, ip];
              record = fetchRecord mc m t recordKey Record_new;
              (record', retry) = Record_update cfg t' action record;
              (m1, e1) = setRecords mc life m t' [marshall_rule cfg recordKey record'];
              (m2, retries, e2) = run_rules mc life sha256 rules m1 t t' action email ip names
          in (m2, retry # retries, case e1 of Some e \<Rightarrow> Some (MemcachedError e) | None \<Rightarrow> e2))"

text \<open>\<open>Math.max(retries)\<close> on an array: the array becomes a number, \<open>NaN\<close> for two or more elements.\<close>

fun math_max_of_array :: "int list \<Rightarrow> int option" where
  "math_max_of_array [] = Some 0"
| "math_max_of_array [n] = Some n"
| "math_max_of_array _ = None"

definition checkUserDefinedRateLimitRules ::
    "'m memcached \<Rightarrow> int \<Rightarrow> (string \<Rightarrow> string) \<Rightarrow> rules \<Rightarrow> rule_table \<Rightarrow> 'm \<Rightarrow> time \<Rightarrow> time \<Rightarrow>
     check_result \<Rightarrow> string \<Rightarrow> string \<Rightarrow> string \<Rightarrow> 'm \<times> (request_error + check_result)" where
  "checkUserDefinedRateLimitRules mc life sha256 rules computed m t t' result action email ip =
     (case map_of computed action of
        None \<Rightarrow> (m, Inr result)
      | Some (RuleCount n) \<Rightarrow> if n = 0 then (m, Inr result) else (m, Inl TypeError)
      | Some (RuleList checkRules) \<Rightarrow>
          if checkRules = [] then (m, Inr result)
          else
            let (m', retries, err) = run_rules mc life sha256 rules m t t' action email ip checkRules
            in case err of
                 Some e \<Rightarrow> (m', Inl e)
               | None \<Rightarrow>
                   let maxRetry = math_max_of_array retries;
                       block = (case maxRetry of None \<Rightarrow> False | Some n \<Rightarrow> 0 < n);
                       retryAfter = (case maxRetry of None \<Rightarrow> 0 | Some n \<Rightarrow> n)
                   in (m', Inr (if retryAfter \<noteq> 0 \<and> cr_retryAfter result < retryAfter
                                then result\<lparr>cr_retryAfter := retryAfter, cr_block := block\<rparr>
                                else result)))"

section \<open>What the table of rules holds\<close>

definition rules_for :: "string \<Rightarrow> (string \<times> string) list \<Rightarrow> string list" where
  "rules_for action ps = map snd (filter (\<lambda>p. fst p = action) ps)"

text \<open>The entry that the pairs seen so far leave for an action: only a single rule is a list.\<close>

definition entry_for :: "string list \<Rightarrow> rule_entry option" where
  "entry_for keys =
     (case keys of [] \<Rightarrow> None | [k] \<Rightarrow> Some (RuleList [k]) | _ \<Rightarrow> Some (RuleCount 2))"

lemma rules_for_snoc [simp]:
  "rules_for a (ps @ [(b, k)]) = (if a = b then rules_for a ps @ [k] else rules_for a ps)"
  by (auto simp: rules_for_def)

lemma addRules_snoc: "addRules (ps @ [(a, k)]) tab = Option.bind (addRules ps tab) (addRule a k)"
  by (induction ps tab rule: addRules.induct) (auto split: bind_splits)

lemma addRules_entries:
  "case addRules ps [] of
     None \<Rightarrow> \<exists>a. 3 \<le> length (rules_for a ps)
   | Some tab \<Rightarrow> \<forall>a. length (rules_for a ps) \<le> 2 \<and> map_of tab a = entry_for (rules_for a ps)"
proof (induction ps rule: rev_induct)
  case Nil
  then show ?case by (simp add: rules_for_def entry_for_def)
next
  case (snoc p ps)
  obtain a k where p: "p = (a, k)" by (cases p)
  show ?case
  proof (cases "addRules ps []")
    case None
    then obtain b where "3 \<le> length (rules_for b ps)" using snoc by auto
    then have "3 \<le> length (rules_for b (ps @ [p]))" by (auto simp: p)
    then show ?thesis using None unfolding p addRules_snoc by (simp del: rules_for_snoc) blast
  next
    case (Some tab)
    then have tab: "length (rules_for b ps) \<le> 2" "map_of tab b = entry_for (rules_for b ps)" for b
      using snoc by auto
    consider "rules_for a ps = []" | k1 where "rules_for a ps = [k1]"
      | k1 k2 where "rules_for a ps = [k1, k2]"
      using tab(1) [of a] by (cases "rules_for a ps" rule: remdups_adj.cases) auto
    then show ?thesis
    proof cases
      case 3
      then have "addRule a k tab = None" by (simp add: addRule_def tab entry_for_def)
      moreover have "3 \<le> length (rules_for a (ps @ [p]))" using 3 by (simp add: p)
      ultimately show ?thesis using Some by (auto simp: p addRules_snoc)
    qed (use Some tab in \<open>auto simp: p addRules_snoc addRule_def entry_for_def update_conv\<close>)
  qed
qed

text \<open>Building the table of rules throws exactly when some action has three or more rules.\<close>

theorem computedRules_fails:
  "computedRules rules = None \<longleftrightarrow> (\<exists>a. 3 \<le> length (rules_for a (rule_pairs rules)))"
proof (cases "computedRules rules")
  case None
  then show ?thesis using addRules_entries [of "rule_pairs rules"] by (simp add: computedRules_def)
next
  case (Some tab)
  then have le: "length (rules_for a (rule_pairs rules)) \<le> 2" for a
    using addRules_entries [of "rule_pairs rules"] by (simp add: computedRules_def)
  have "\<not> 3 \<le> length (rules_for a (rule_pairs rules))" for a
    using le [of a] by linarith
  then show ?thesis using Some by simp
qed

lemma computedRules_entry:
  "computedRules rules = Some tab \<Longrightarrow> map_of tab a = entry_for (rules_for a (rule_pairs rules))"
  using addRules_entries [of "rule_pairs rules"] by (simp add: computedRules_def)

lemma computedRules_at_most_two:
  "computedRules rules = Some tab \<Longrightarrow> length (rules_for a (rule_pairs rules)) \<le> 2"
  using addRules_entries [of "rule_pairs rules"] by (simp add: computedRules_def)

lemma rule_pairs_known: "k \<in> set (rules_for a (rule_pairs rules)) \<Longrightarrow> \<exists>cfg. map_of rules k = Some cfg"
  by (auto simp: rules_for_def rule_pairs_def dest: weak_map_of_SomeI)

text \<open>
  Two rules for one action do not add up. Every request with this action is rejected with a
  type error, since the table holds the result of \<open>push\<close> and not the list of the rules.
\<close>

theorem two_rules_reject:
  assumes "computedRules rules = Some tab" "length (rules_for action (rule_pairs rules)) = 2"
  shows "checkUserDefinedRateLimitRules mc life sha256 rules tab m t t' result action email ip
         = (m, Inl TypeError)"
proof -
  have "map_of tab action = Some (RuleCount 2)"
    using computedRules_entry [OF assms(1), of action] assms(2)
    by (auto simp: entry_for_def split: list.splits)
  then show ?thesis by (simp add: checkUserDefinedRateLimitRules_def)
qed

definition example_rule :: rule_config where
  "example_rule = \<lparr> rule_max = 2, rule_periodMs = 30000, rule_rateLimitIntervalMs = 30000,
     rule_actions = [''verifyTotpCode''] \<rparr>"

definition example_result :: check_result where
  "example_result = \<lparr> cr_block = False, cr_blockReason = None, cr_retryAfter = 0,
     cr_unblock = Some True, cr_suspect = Some False \<rparr>"

theorem two_rules_reject_witness:
  "checkUserDefinedRateLimitRules table_cache 900 (\<lambda>s. s) [(''a'', example_rule), (''b'', example_rule)]
     [(''verifyTotpCode'', RuleCount 2)] [] 10 10 example_result ''verifyTotpCode'' ''a@x.org'' ''10.0.0.1''
   = ([], Inl TypeError)"
  by (rule two_rules_reject)
    (simp_all add: computedRules_def rule_pairs_def example_rule_def addRule_def rules_for_def)

text \<open>
  With one rule for the action, its record is updated and stored, and the larger of the two
  waiting times decides.
\<close>

theorem single_rule_result:
  assumes "computedRules rules = Some tab" "rules_for action (rule_pairs rules) = [k]"
    and "map_of rules k = Some cfg"
    and "Record_update cfg t' action
           (fetchRecord mc m t (k @ '':'' @ createHashHex sha256 [email, ip]) Record_new) = (r, retry)"
    and "setRecord mc life m t' (marshall_rule cfg (k @ '':'' @ createHashHex sha256 [email, ip]) r)
           = (m', None)"
  shows "checkUserDefinedRateLimitRules mc life sha256 rules tab m t t' result action email ip =
    (m', Inr (if retry \<noteq> 0 \<and> cr_retryAfter result < retry
              then result\<lparr>cr_retryAfter := retry, cr_block := 0 < retry\<rparr> else result))"
proof -
  have "map_of tab action = Some (RuleList [k])"
    using computedRules_entry [OF assms(1), of action] assms(2) by (simp add: entry_for_def)
  then show ?thesis
    using assms(3-5) by (simp add: checkUserDefinedRateLimitRules_def)
qed

theorem single_rule_result_witness:
  "\<exists>m'. checkUserDefinedRateLimitRules table_cache 900 (\<lambda>s. ''h'') [(''a'', example_rule)]
     [(''verifyTotpCode'', RuleList [''a''])]
     [(''a:h'', JObj [(''hits'', JArr [JNum 10, JNum 20])], None)] 30 30 example_result
     ''verifyTotpCode'' ''a@x.org'' ''10.0.0.1''
   = (m', Inr (example_result\<lparr>cr_retryAfter := 30, cr_block := True\<rparr>))"
proof -
  let ?m = "[(''a:h'', JObj [(''hits'', JArr [JNum 10, JNum 20])], None)]"
  let ?r = "\<lparr> rr_rl = Some 30, rr_hits = [] \<rparr>"
  have rules: "computedRules [(''a'', example_rule)] = Some [(''verifyTotpCode'', RuleList [''a''])]"
    "rules_for ''verifyTotpCode'' (rule_pairs [(''a'', example_rule)]) = [''a'']"
    by (simp_all add: computedRules_def rule_pairs_def example_rule_def addRule_def rules_for_def)
  have upd: "Record_update example_rule 30 ''verifyTotpCode''
      (fetchRecord table_cache ?m 30 (''a'' @ '':'' @ createHashHex (\<lambda>s. ''h'') [''a@x.org'', ''10.0.0.1'']) Record_new)
      = (?r, 30)"
    by code_simp
  obtain m' where set: "setRecord table_cache 900 ?m 30 (marshall_rule example_rule
      (''a'' @ '':'' @ createHashHex (\<lambda>s. ''h'') [''a@x.org'', ''10.0.0.1'']) ?r) = (m', None)"
    by (simp add: setRecord_def table_cache_def table_set_def)
  have "checkUserDefinedRateLimitRules table_cache 900 (\<lambda>s. ''h'') [(''a'', example_rule)]
      [(''verifyTotpCode'', RuleList [''a''])] ?m 30 30 example_result ''verifyTotpCode'' ''a@x.org'' ''10.0.0.1''
      = (m', Inr (if 30 \<noteq> (0 :: int) \<and> cr_retryAfter example_result < 30
             then example_result\<lparr>cr_retryAfter := 30, cr_block := 0 < (30 :: int)\<rparr> else example_result))"
    by (rule single_rule_result [OF rules _ upd set]) simp
  then show ?thesis by (simp add: example_result_def)
qed

text \<open>No rule: the request is not touched.\<close>

lemma no_rule_result:
  assumes "computedRules rules = Some tab" "rules_for action (rule_pairs rules) = []"
  shows "checkUserDefinedRateLimitRules mc life sha256 rules tab m t t' result action email ip
         = (m, Inr result)"
  using computedRules_entry [OF assms(1), of action] assms(2)
  by (simp add: entry_for_def checkUserDefinedRateLimitRules_def)

end
