(* ===== verification/Ip_Blocklist.thy ===== *)
theory Ip_Blocklist
  imports JS_Prelude
begin

text \<open>
  \<open>lib/ip_blocklist.js\<close> and \<open>lib/ip_blocklist_manager.js\<close>: files of IP addresses and ranges that
  are refused. The package \<open>ip\<close> is a parameter (\<open>None\<close> is a thrown error), and so is what the file
  system answers: each operation that reads a file takes the outcome of \<open>stat\<close> and \<open>readFile\<close>.
\<close>

record ip_package =
  ip_mask :: "string \<Rightarrow> string \<Rightarrow> string option"
  ip_fromPrefixLen :: "int option \<Rightarrow> string option"

section \<open>Rows\<close>

definition js_space :: "char \<Rightarrow> bool" where
  "js_space c \<longleftrightarrow> of_char c \<in> {9 :: nat, 10, 11, 12, 13, 32, 160}"

definition js_trim :: "string \<Rightarrow> string" where
  "js_trim s = rev (dropWhile js_space (rev (dropWhile js_space s)))"

text \<open>\<open>parseInt(s, 10)\<close>; \<open>None\<close> is \<open>NaN\<close>.\<close>

definition parse_digits :: "string \<Rightarrow> int option" where
  "parse_digits s =
     (let ds = takeWhile is_digit s in if ds = [] then None else Some (int (digits_value ds)))"

definition parseInt10 :: "string \<Rightarrow> int option" where
  "parseInt10 s =
     (case dropWhile js_space s of
        [] \<Rightarrow> None
      | c # cs \<Rightarrow>
          if c = CHR ''-'' then map_option uminus (parse_digits cs)
          else if c = CHR ''+'' then parse_digits cs
          else parse_digits (c # cs))"

definition getBaseIp :: "ip_package \<Rightarrow> string \<Rightarrow> int option \<Rightarrow> string option" where
  "getBaseIp pkg addr prefixLength =
     Option.bind (ip_fromPrefixLen pkg prefixLength) (ip_mask pkg addr)"

text \<open>The outer option is a thrown error, the inner one the \<open>undefined\<close> of a comment.\<close>

definition parseRow :: "ip_package \<Rightarrow> string \<Rightarrow> (string \<times> int option) option option" where
  "parseRow pkg ipColumn =
     (if ipColumn \<noteq> [] \<and> hd ipColumn = CHR ''#'' then Some None
      else
        case split_on CHR ''/'' ipColumn of
          [addr, len] \<Rightarrow>
            map_option (\<lambda>base. Some (base, parseInt10 len)) (getBaseIp pkg addr (parseInt10 len))
        | tokens \<Rightarrow> Some (Some (hd tokens, Some 32)))"

definition rows_of :: "string \<Rightarrow> string list" where
  "rows_of data =
     filter (\<lambda>line. line \<noteq> [] \<and> hd line \<noteq> CHR ''#'')
       (map js_trim (split_on (char_of (10 :: nat)) data))"

section \<open>One list\<close>

text \<open>
  \<open>prefixLengths\<close>, and \<open>ipsByPrefixLength\<close> with the addresses of each prefix length; an entry is
  created together with the element of \<open>prefixLengths\<close>.
\<close>

record ip_blocklist =
  bl_prefixLengths :: "int option list"
  bl_ipsByPrefixLength :: "(int option \<times> string list) list"
  bl_fileLastModified :: time
  bl_listPath :: string
  bl_logOnly :: bool

definition IPBlocklist_new :: ip_blocklist where
  "IPBlocklist_new =
     \<lparr> bl_prefixLengths = [], bl_ipsByPrefixLength = [], bl_fileLastModified = 0,
       bl_listPath = [], bl_logOnly = False \<rparr>"

type_synonym ip_table = "int option list \<times> (int option \<times> string list) list"

definition add_row :: "string \<times> int option \<Rightarrow> ip_table \<Rightarrow> ip_table" where
  "add_row entry tab =
     (let (base, len) = entry; (lens, ips) = tab
      in case map_of ips len of
           None \<Rightarrow> (lens @ [len], AList.update len (add_key base []) ips)
         | Some bases \<Rightarrow> (lens, AList.update len (add_key base bases) ips))"

fun load_rows :: "ip_package \<Rightarrow> string list \<Rightarrow> ip_table \<Rightarrow> ip_table option" where
  "load_rows pkg [] tab = Some tab"
| "load_rows pkg (row # rows) tab =
     (case parseRow pkg row of
        None \<Rightarrow> None
      | Some None \<Rightarrow> load_rows pkg rows tab
      | Some (Some entry) \<Rightarrow> load_rows pkg rows (add_row entry tab))"

text \<open>\<open>load\<close>: the new state, and whether the promise is fulfilled.\<close>

definition IPBlocklist_load ::
    "ip_package \<Rightarrow> string \<Rightarrow> time option \<Rightarrow> string option \<Rightarrow> ip_blocklist \<Rightarrow> ip_blocklist \<times> bool" where
  "IPBlocklist_load pkg listPath mtime data b =
     (let b1 = b\<lparr>bl_listPath := listPath\<rparr>
      in case mtime of
           None \<Rightarrow> (b1, False)
         | Some t \<Rightarrow>
             let b2 = b1\<lparr>bl_fileLastModified := t\<rparr>
             in case Option.bind data (\<lambda>d. load_rows pkg (rows_of d) ([], [])) of
                  None \<Rightarrow> (b2, False)
                | Some (lens, ips) \<Rightarrow>
                    (b2\<lparr>bl_ipsByPrefixLength := ips, bl_prefixLengths := lens\<rparr>, True))"

definition IPBlocklist_clear :: "ip_blocklist \<Rightarrow> ip_blocklist" where
  "IPBlocklist_clear b = b\<lparr>bl_prefixLengths := [], bl_ipsByPrefixLength := []\<rparr>"

text \<open>\<open>some\<close> stops at the first hit; an address that cannot be masked throws.\<close>

fun contains_in ::
    "ip_package \<Rightarrow> (int option \<times> string list) list \<Rightarrow> string \<Rightarrow> int option list \<Rightarrow> bool option" where
  "contains_in pkg ips ip [] = Some False"
| "contains_in pkg ips ip (len # lens) =
     (case (getBaseIp pkg ip len, map_of ips len) of
        (Some base, Some bases) \<Rightarrow>
          if js_in base bases then Some True else contains_in pkg ips ip lens
      | _ \<Rightarrow> None)"

definition IPBlocklist_contains :: "ip_package \<Rightarrow> string \<Rightarrow> ip_blocklist \<Rightarrow> bool option" where
  "IPBlocklist_contains pkg ipAddress b =
     contains_in pkg (bl_ipsByPrefixLength b) ipAddress (bl_prefixLengths b)"

text \<open>\<open>refresh\<close>: \<open>stat\<close>, then \<open>load\<close> if the file is newer (which asks for \<open>stat\<close> again); errors are logged.\<close>

definition IPBlocklist_refresh ::
    "ip_package \<Rightarrow> string \<Rightarrow> time option \<Rightarrow> time option \<Rightarrow> string option \<Rightarrow> ip_blocklist \<Rightarrow> ip_blocklist" where
  "IPBlocklist_refresh pkg filePath mtime mtime' data b =
     (case mtime of
        None \<Rightarrow> b
      | Some t \<Rightarrow>
          if bl_fileLastModified b < t then fst (IPBlocklist_load pkg filePath mtime' data b) else b)"

section \<open>The manager\<close>

text \<open>\<open>file\<close> gives what the file system answers for a path. Every list is added before its load ends.\<close>

definition load_one ::
    "ip_package \<Rightarrow> (string \<Rightarrow> time option \<times> string option) \<Rightarrow> bool \<Rightarrow> string \<Rightarrow> ip_blocklist \<times> bool" where
  "load_one pkg file logOnly listPath =
     IPBlocklist_load pkg listPath (fst (file listPath)) (snd (file listPath))
       (IPBlocklist_new\<lparr>bl_logOnly := logOnly\<rparr>)"

definition IPBlocklistManager_load ::
    "ip_package \<Rightarrow> (string \<Rightarrow> time option \<times> string option) \<Rightarrow> string list \<Rightarrow> string list option \<Rightarrow>
     ip_blocklist list \<Rightarrow> ip_blocklist list \<times> bool" where
  "IPBlocklistManager_load pkg file blockLists logOnlyLists bs =
     (let loaded = map (load_one pkg file False) blockLists @
                   map (load_one pkg file True) (case logOnlyLists of None \<Rightarrow> [] | Some ls \<Rightarrow> ls)
      in (bs @ map fst loaded, list_all snd loaded))"

definition IPBlocklistManager_clear :: "ip_blocklist list \<Rightarrow> ip_blocklist list" where
  "IPBlocklistManager_clear bs = []"

fun IPBlocklistManager_contains :: "ip_package \<Rightarrow> string \<Rightarrow> ip_blocklist list \<Rightarrow> bool option" where
  "IPBlocklistManager_contains pkg ip [] = Some False"
| "IPBlocklistManager_contains pkg ip (b # bs) =
     Option.bind (IPBlocklist_contains pkg ip b) (\<lambda>hit.
       map_option (\<lambda>found. (hit \<and> \<not> bl_logOnly b) \<or> found) (IPBlocklistManager_contains pkg ip bs))"

section \<open>What a loaded list contains\<close>

text \<open>The entries that the rows stand for.\<close>

definition entries :: "ip_package \<Rightarrow> string list \<Rightarrow> (string \<times> int option) set" where
  "entries pkg rows = {e. \<exists>row \<in> set rows. parseRow pkg row = Some (Some e)}"

text \<open>The table holds exactly these entries, each prefix length once.\<close>

definition table_ok :: "(string \<times> int option) set \<Rightarrow> ip_table \<Rightarrow> bool" where
  "table_ok es tab \<longleftrightarrow>
     set (fst tab) = snd ` es \<and>
     (\<forall>len. len \<notin> snd ` es \<longrightarrow> map_of (snd tab) len = None) \<and>
     (\<forall>len \<in> snd ` es. \<exists>bases. map_of (snd tab) len = Some bases \<and>
        set bases = {base. (base, len) \<in> es} - {''__proto__''})"

lemma table_ok_bases:
  "table_ok es (lens, ips) \<Longrightarrow> map_of ips len = Some bases \<Longrightarrow>
   len \<in> snd ` es \<and> set bases = {base. (base, len) \<in> es} - {''__proto__''}"
proof (cases "len \<in> snd ` es")
  case True
  assume "table_ok es (lens, ips)" and Some: "map_of ips len = Some bases"
  then obtain bs where "map_of ips len = Some bs" "set bs = {base. (base, len) \<in> es} - {''__proto__''}"
    using True unfolding table_ok_def snd_conv by blast
  then show ?thesis using True Some by simp
qed (simp add: table_ok_def)

lemma table_ok_new:
  "table_ok es (lens, ips) \<Longrightarrow> map_of ips len = None \<Longrightarrow> len \<notin> snd ` es"
  unfolding table_ok_def snd_conv by (metis option.distinct(1))

lemma table_ok_add:
  assumes "table_ok es tab"
  shows "table_ok (insert e es) (add_row e tab)"
proof -
  obtain base len where e: "e = (base, len)" by (cases e)
  obtain lens ips where tab: "tab = (lens, ips)" by (cases tab)
  note ok = assms [unfolded tab]
  note parts = ok [unfolded table_ok_def fst_conv snd_conv]
  let ?old = "case map_of ips len of None \<Rightarrow> [] | Some bases \<Rightarrow> bases"
  let ?ips = "AList.update len (add_key base ?old) ips"
  have row: "add_row e tab = (if map_of ips len = None then lens @ [len] else lens, ?ips)"
    by (auto simp: e tab add_row_def split: option.splits)
  have old: "set ?old = {b. (b, len) \<in> es} - {''__proto__''}"
  proof (cases "map_of ips len")
    case None
    then have "len \<notin> snd ` es" by (rule table_ok_new [OF ok])
    then have "{b. (b, len) \<in> es} = {}" by force
    then show ?thesis by (simp add: None)
  next
    case (Some bases)
    then show ?thesis using table_ok_bases [OF ok Some] by simp
  qed
  have lens: "set lens = snd ` es" using parts by blast
  have "set (fst (add_row e tab)) = snd ` insert e es"
  proof (cases "map_of ips len")
    case None
    then show ?thesis unfolding row by (simp add: e lens)
  next
    case (Some bases)
    then have "len \<in> snd ` es" using table_ok_bases [OF ok Some] by simp
    then show ?thesis unfolding row by (simp add: e lens Some insert_absorb)
  qed
  moreover have "\<forall>l. l \<notin> snd ` insert e es \<longrightarrow> map_of ?ips l = None"
    using parts by (simp add: e update_conv)
  moreover have "\<exists>bases. map_of ?ips l = Some bases \<and> set bases = {b. (b, l) \<in> insert e es} - {''__proto__''}"
    if "l \<in> snd ` insert e es" for l
  proof (cases "l = len")
    case True
    then show ?thesis using old by (auto simp: e update_conv set_add_key)
  next
    case False
    then have "l \<in> snd ` es" using that by (simp add: e)
    then obtain bases where "map_of ips l = Some bases" "set bases = {b. (b, l) \<in> es} - {''__proto__''}"
      using parts by blast
    then show ?thesis using False by (simp add: e update_conv)
  qed
  ultimately show ?thesis
    unfolding table_ok_def by (simp add: row)
qed

lemma load_rows_ok:
  "load_rows pkg rows tab = Some tab' \<Longrightarrow> table_ok es tab \<Longrightarrow> table_ok (es \<union> entries pkg rows) tab'"
proof (induction rows arbitrary: tab es)
  case Nil
  then show ?case by (simp add: entries_def)
next
  case (Cons row rows)
  show ?case
  proof (cases "parseRow pkg row")
    case None
    then show ?thesis using Cons.prems by simp
  next
    case (Some p)
    show ?thesis
    proof (cases p)
      case None
      then have "entries pkg (row # rows) = entries pkg rows" using Some by (auto simp: entries_def)
      then show ?thesis using Cons Some None by simp
    next
      case (Some e)
      then have "entries pkg (row # rows) = insert e (entries pkg rows)"
        using \<open>parseRow pkg row = Some p\<close> by (auto simp: entries_def)
      then show ?thesis
        using Cons.IH [OF _ table_ok_add [OF Cons.prems(2)], of e] Cons.prems(1) Some
          \<open>parseRow pkg row = Some p\<close> by simp
    qed
  qed
qed

lemma contains_in_iff:
  assumes "\<And>len. len \<in> set lens \<Longrightarrow> \<exists>base. getBaseIp pkg ip len = Some base"
    and "\<And>len. len \<in> set lens \<Longrightarrow> \<exists>bases. map_of ips len = Some bases"
  shows "contains_in pkg ips ip lens =
    Some (\<exists>len \<in> set lens. js_in (the (getBaseIp pkg ip len)) (the (map_of ips len)))"
  using assms
proof (induction lens)
  case (Cons len lens)
  obtain base bases where "getBaseIp pkg ip len = Some base" "map_of ips len = Some bases"
    using Cons.prems by (meson list.set_intros(1))
  then show ?case using Cons by auto
qed simp

section \<open>A concrete package\<close>

text \<open>IPv4 masks on whole bytes, for the concrete instances.\<close>

definition byte_mask :: "string \<Rightarrow> string \<Rightarrow> string option" where
  "byte_mask addr msk =
     (case split_on CHR ''.'' addr of
        [a, b, c, d] \<Rightarrow>
          Some (a @ ''.'' @ (if 2 \<le> length msk then b else ''0'') @ ''.'' @
                (if 3 \<le> length msk then c else ''0'') @ ''.'' @
                (if 4 \<le> length msk then d else ''0''))
      | _ \<Rightarrow> None)"

definition byte_prefix :: "int option \<Rightarrow> string option" where
  "byte_prefix len =
     (case len of None \<Rightarrow> None | Some n \<Rightarrow> Some (replicate (nat n div 8) CHR ''1''))"

definition byte_package :: ip_package where
  "byte_package = \<lparr> ip_mask = byte_mask, ip_fromPrefixLen = byte_prefix \<rparr>"

section \<open>What the lists promise\<close>

text \<open>
  A successfully loaded list contains exactly the addresses that some row covers: the address
  and the row agree on the bits of the row's prefix. The package has to give the address a base
  for each prefix length of the file, which is no name that every object has.
\<close>

theorem IPBlocklist_contains_loaded:
  assumes load: "IPBlocklist_load pkg path mtime (Some data) b = (b', True)"
    and valid: "\<And>len. len \<in> snd ` entries pkg (rows_of data) \<Longrightarrow>
      \<exists>base. getBaseIp pkg ip len = Some base \<and> base \<notin> set object_prototype_keys"
  shows "IPBlocklist_contains pkg ip b' =
    Some (\<exists>(base, len) \<in> entries pkg (rows_of data). getBaseIp pkg ip len = Some base)"
proof -
  let ?es = "entries pkg (rows_of data)"
  obtain lens ips where rows: "load_rows pkg (rows_of data) ([], []) = Some (lens, ips)"
    and b': "bl_prefixLengths b' = lens" "bl_ipsByPrefixLength b' = ips"
    using load by (auto simp: IPBlocklist_load_def Let_def split: option.splits prod.splits)
  have "table_ok {} ([], [])" by (simp add: table_ok_def)
  then have "table_ok ?es (lens, ips)" using load_rows_ok [OF rows, of "{}"] by simp
  then have lens: "set lens = snd ` ?es"
    and ips: "\<And>len. len \<in> snd ` ?es \<Longrightarrow> \<exists>bases. map_of ips len = Some bases \<and>
        set bases = {base. (base, len) \<in> ?es} - {''__proto__''}"
    unfolding table_ok_def fst_conv snd_conv by blast+
  have "js_in (the (getBaseIp pkg ip len)) (the (map_of ips len)) \<longleftrightarrow>
      (the (getBaseIp pkg ip len), len) \<in> ?es" if len: "len \<in> snd ` ?es" for len
  proof -
    obtain base where base: "getBaseIp pkg ip len = Some base" "base \<notin> set object_prototype_keys"
      using valid [OF len] by blast
    moreover have "base \<noteq> ''__proto__''" using base(2) by (auto simp: object_prototype_keys_def)
    moreover obtain bases where "map_of ips len = Some bases"
      "set bases = {base. (base, len) \<in> ?es} - {''__proto__''}"
      using ips [OF len] by blast
    ultimately show ?thesis by (simp add: js_in_def)
  qed
  moreover have "contains_in pkg ips ip lens =
      Some (\<exists>len \<in> set lens. js_in (the (getBaseIp pkg ip len)) (the (map_of ips len)))"
    using valid ips by (intro contains_in_iff) (simp_all only: lens, blast+)
  ultimately have "contains_in pkg ips ip lens =
      Some (\<exists>len \<in> snd ` ?es. (the (getBaseIp pkg ip len), len) \<in> ?es)"
    by (simp add: lens)
  also have "(\<exists>len \<in> snd ` ?es. (the (getBaseIp pkg ip len), len) \<in> ?es) \<longleftrightarrow>
      (\<exists>(base, len) \<in> ?es. getBaseIp pkg ip len = Some base)"
  proof
    assume "\<exists>len \<in> snd ` ?es. (the (getBaseIp pkg ip len), len) \<in> ?es"
    then obtain len where len: "len \<in> snd ` ?es" "(the (getBaseIp pkg ip len), len) \<in> ?es" by blast
    then show "\<exists>(base, len) \<in> ?es. getBaseIp pkg ip len = Some base"
      using valid [OF len(1)] by (intro bexI [OF _ len(2)]) auto
  next
    assume "\<exists>(base, len) \<in> ?es. getBaseIp pkg ip len = Some base"
    then obtain base len where e: "(base, len) \<in> ?es" "getBaseIp pkg ip len = Some base" by blast
    then have "len \<in> snd ` ?es" by (metis imageI snd_conv)
    then show "\<exists>len \<in> snd ` ?es. (the (getBaseIp pkg ip len), len) \<in> ?es"
      by (rule bexI [rotated]) (simp add: e)
  qed
  finally show ?thesis by (simp add: IPBlocklist_contains_def b')
qed

definition example_rows :: string where
  "example_rows = ''10.1.0.0/16'' @ [char_of (10 :: nat)] @ ''#x'' @ [char_of (10 :: nat)] @ ''10.2.3.4''"

theorem IPBlocklist_contains_loaded_witness:
  "\<exists>b'. IPBlocklist_contains byte_package ''10.1.7.8'' b' =
     Some (\<exists>(base, len) \<in> entries byte_package (rows_of example_rows).
             getBaseIp byte_package ''10.1.7.8'' len = Some base)"
proof -
  have rows: "rows_of example_rows = [''10.1.0.0/16'', ''10.2.3.4'']" by code_simp
  have entries: "entries byte_package (rows_of example_rows) =
      {(''10.1.0.0'', Some 16), (''10.2.3.4'', Some 32)}"
  proof -
    have "parseRow byte_package ''10.1.0.0/16'' = Some (Some (''10.1.0.0'', Some 16))"
      "parseRow byte_package ''10.2.3.4'' = Some (Some (''10.2.3.4'', Some 32))" by code_simp+
    then show ?thesis unfolding entries_def rows by auto
  qed
  have "getBaseIp byte_package ''10.1.7.8'' (Some 16) = Some ''10.1.0.0''"
    "getBaseIp byte_package ''10.1.7.8'' (Some 32) = Some ''10.1.7.8''" by code_simp+
  moreover have "snd (IPBlocklist_load byte_package ''f'' (Some 5) (Some example_rows) IPBlocklist_new)"
    by code_simp
  then obtain b' where "IPBlocklist_load byte_package ''f'' (Some 5) (Some example_rows) IPBlocklist_new = (b', True)"
    by (metis prod.collapse)
  ultimately have "IPBlocklist_contains byte_package ''10.1.7.8'' b' =
      Some (\<exists>(base, len) \<in> entries byte_package (rows_of example_rows).
              getBaseIp byte_package ''10.1.7.8'' len = Some base)"
    by (intro IPBlocklist_contains_loaded) (auto simp: entries object_prototype_keys_def)
  then show ?thesis by blast
qed

text \<open>A reload that fails keeps the addresses of the last successful one.\<close>

lemma IPBlocklist_load_failed:
  "IPBlocklist_load pkg path mtime data b = (b', False) \<Longrightarrow>
   IPBlocklist_contains pkg ip b' = IPBlocklist_contains pkg ip b"
  by (auto simp: IPBlocklist_load_def IPBlocklist_contains_def Let_def
      split: option.splits prod.splits)

text \<open>
  A load that fails has already recorded the file's modification time, so \<open>refresh\<close> never
  tries that version of the file again.
\<close>

theorem IPBlocklist_failed_not_retried:
  assumes "IPBlocklist_load pkg path (Some t) data b = (b', False)" "t' \<le> t"
  shows "IPBlocklist_refresh pkg path (Some t') mtime' data' b' = b'"
  using assms by (auto simp: IPBlocklist_load_def IPBlocklist_refresh_def Let_def
      split: option.splits prod.splits)

theorem IPBlocklist_failed_not_retried_witness:
  "IPBlocklist_refresh byte_package ''f'' (Some 5) (Some 5) (Some ''10.0.0.1'')
     (fst (IPBlocklist_load byte_package ''f'' (Some 5) None IPBlocklist_new)) =
   fst (IPBlocklist_load byte_package ''f'' (Some 5) None IPBlocklist_new)"
  by (rule IPBlocklist_failed_not_retried [of byte_package "''f''" 5 None IPBlocklist_new])
    (simp_all add: IPBlocklist_load_def)

text \<open>
  When no list throws, the manager finds an address iff some list that is not log-only
  contains it; hits on log-only lists do not block.
\<close>

theorem IPBlocklistManager_contains_iff:
  assumes "\<And>b. b \<in> set bs \<Longrightarrow> IPBlocklist_contains pkg ip b \<noteq> None"
  shows "IPBlocklistManager_contains pkg ip bs =
    Some (\<exists>b \<in> set bs. \<not> bl_logOnly b \<and> IPBlocklist_contains pkg ip b = Some True)"
  using assms
proof (induction bs)
  case (Cons b bs)
  obtain hit where "IPBlocklist_contains pkg ip b = Some hit" using Cons.prems by fastforce
  then show ?case using Cons by auto
qed simp

theorem IPBlocklistManager_contains_iff_witness:
  "IPBlocklistManager_contains byte_package ''10.0.0.1'' [IPBlocklist_new] = Some False"
  using IPBlocklistManager_contains_iff [of "[IPBlocklist_new]" byte_package "''10.0.0.1''"]
  by (simp add: IPBlocklist_contains_def IPBlocklist_new_def)

lemma IPBlocklistManager_contains_throws:
  "b \<in> set bs \<Longrightarrow> IPBlocklist_contains pkg ip b = None \<Longrightarrow> IPBlocklistManager_contains pkg ip bs = None"
  by (induction bs) (auto split: bind_splits)

end
