(* ===== verification/Customs_Server.thy ===== *)
theory Customs_Server
  imports Settings User_Rules Ip_Blocklist
begin

text \<open>
  \<open>lib/server.js\<close> and \<open>lib/bans/handler.js\<close> of the customs server: the HTTP handlers. Each one
  maps the state of the world (the cache and the violation reports sent so far) and a request
  to the new state and a reply. The settings are those in force when the request is handled.
  The clock gives the times at which the stages of a request run.
\<close>

section \<open>Requests, replies and the environment\<close>

text \<open>The settings, the collaborators and the configuration that the handlers close over.\<close>

record 'm server =
  sv_mc :: "'m memcached"
  sv_recordLifetimeSeconds :: int
  sv_limits :: limits
  sv_allowedIPs :: "string list"
  sv_allowedEmailDomains :: "string list"
  sv_allowedPhoneNumbers :: "string list"
  sv_requestChecks :: request_checks
  sv_reputation :: reputation_config
  sv_client :: reputation_client
  sv_blocklists :: "ip_blocklist list option" \<comment> \<open>\<open>None\<close>: \<open>config.ipBlocklist.enable\<close> is off\<close>
  sv_ip :: ip_package
  sv_rules :: rules
  sv_computedRules :: rule_table
  sv_sha256 :: "string \<Rightarrow> string"

record 'm world =
  w_cache :: 'm
  w_reports :: reports

text \<open>When the records are fetched, when they are checked, and the same for the rule records.\<close>

record clock =
  ck_fetch :: time
  ck_check :: time
  ck_ruleFetch :: time
  ck_ruleCheck :: time

record check_request =
  cq_email :: "string option"
  cq_ip :: "string option"
  cq_action :: "string option"
  cq_userAgent :: "string option"
  cq_phoneNumber :: "string option"
  cq_unblockCode :: "string option"
  cq_flowId :: "string option"
  cq_reason :: "string option"

datatype 'a reply = Reply 'a | MissingParameters | ServerError request_error

section \<open>Helpers\<close>

definition isAllowed :: "'m server \<Rightarrow> string \<Rightarrow> string option \<Rightarrow> string option \<Rightarrow> bool" where
  "isAllowed sv ip email phoneNumber \<longleftrightarrow>
     AllowedIPs_isAllowed (sv_allowedIPs sv) ip \<or>
     (case email of None \<Rightarrow> False
      | Some e \<Rightarrow> AllowedEmailDomains_isAllowed (sv_allowedEmailDomains sv) e) \<or>
     AllowedPhoneNumbers_isAllowed (sv_allowedPhoneNumbers sv) phoneNumber"

definition checkAllowlist ::
    "'m server \<Rightarrow> check_result \<Rightarrow> string \<Rightarrow> string option \<Rightarrow> string option \<Rightarrow> check_result" where
  "checkAllowlist sv result ip email phoneNumber =
     (if (cr_block result \<or> cr_suspect result = Some True) \<and> isAllowed sv ip email phoneNumber
      then result\<lparr>cr_block := False, cr_suspect := Some False\<rparr>
      else result)"

definition sv_report :: "'m server \<Rightarrow> string \<Rightarrow> string \<Rightarrow> 'm world \<Rightarrow> 'm world" where
  "sv_report sv ip violation w = w\<lparr>w_reports := rep_report (sv_reputation sv) ip violation (w_reports w)\<rparr>"

definition optionallyReportIp ::
    "'m server \<Rightarrow> check_result \<Rightarrow> string \<Rightarrow> string \<Rightarrow> 'm world \<Rightarrow> 'm world" where
  "optionallyReportIp sv result ip action w =
     (if cr_block result \<and> cr_blockReason result \<noteq> Some IP_BAD_REPUTATION
      then sv_report sv ip (''fxa:request.check.block.'' @ action) w else w)"

text \<open>
  \<open>local.replace(/\+.*$/, '')\<close>: from the first \<open>+\<close> after which there is no line terminator.
\<close>

fun strip_plus :: "string \<Rightarrow> string" where
  "strip_plus [] = []"
| "strip_plus (c # cs) =
     (if c = CHR ''+'' \<and> \<not> list_ex line_terminator cs then [] else c # strip_plus cs)"

definition at_gmail :: string where
  "at_gmail = ''@gmail.com''"

definition ends_with :: "string \<Rightarrow> string \<Rightarrow> bool" where
  "ends_with suff s \<longleftrightarrow> length suff \<le> length s \<and> drop (length s - length suff) s = suff"

definition normalizedEmail :: "string \<Rightarrow> string" where
  "normalizedEmail rawEmail =
     (let lowercaseEmail = toLowerCase rawEmail
      in if ends_with at_gmail lowercaseEmail then
           case split_on CHR ''@'' lowercaseEmail of
             local # domain # _ \<Rightarrow>
               filter (\<lambda>c. c \<noteq> CHR ''.'') (strip_plus local) @ ''@'' @ domain
           | _ \<Rightarrow> lowercaseEmail
         else lowercaseEmail)"

section \<open>POST /check\<close>

text \<open>\<open>blockListManager.contains(ip)\<close> when the block lists are enabled; \<open>None\<close> is a thrown error.\<close>

definition in_blocklist :: "'m server \<Rightarrow> string \<Rightarrow> bool option" where
  "in_blocklist sv ip =
     (case sv_blocklists sv of
        None \<Rightarrow> Some False | Some bs \<Rightarrow> IPBlocklistManager_contains (sv_ip sv) ip bs)"

text \<open>A login without a flow id is suspicious unless the user agent or the reason is exempt.\<close>

definition lacks_flowId :: "'m server \<Rightarrow> check_request \<Rightarrow> bool" where
  "lacks_flowId sv q \<longleftrightarrow>
     truthy_string (cq_flowId q) = None \<and>
     \<not> list_ex (\<lambda>re. re (case cq_userAgent q of None \<Rightarrow> ''undefined'' | Some ua \<Rightarrow> ua))
        (flowIdExemptUserAgentCompiledREs (sv_requestChecks sv)) \<and>
     \<not> (case truthy_string (cq_reason q) of None \<Rightarrow> False | Some reason \<Rightarrow> reason \<noteq> ''signin'')"

text \<open>The updates of all records: the new records and \<open>retryAfter\<close>.\<close>

definition updateRecords ::
    "limits \<Rightarrow> time \<Rightarrow> string \<Rightarrow> string \<Rightarrow> bool \<Rightarrow>
     ip_record \<Rightarrow> email_record \<Rightarrow> ip_email_record \<Rightarrow> sms_record option \<Rightarrow>
     ip_record \<times> email_record \<times> ip_email_record \<times> sms_record option \<times> int" where
  "updateRecords L now action email wantsUnblock ipRecord emailRecord ipEmailRecord smsRecord =
     (let (emailRecord', blockEmail) = EmailRecord_update L now action wantsUnblock emailRecord;
          (ipEmailRecord', blockIpEmail) = IpEmailRecord_update L now action ipEmailRecord;
          (ipRecord', blockIp) = IpRecord_update L now action email ipRecord;
          (smsRecord', blockSMS) =
            (case smsRecord of
               None \<Rightarrow> (None, 0)
             | Some r \<Rightarrow> (let (r', n) = SMSRecord_update L now action r in (Some r', n)));
          (ipEmailRecord'', blockIpEmail') =
            (if blockIpEmail \<noteq> 0 then
               let (r, unblocked) = IpEmailRecord_unblockIfReset (er_pr emailRecord') ipEmailRecord'
               in (r, if unblocked then 0 else blockIpEmail)
             else (ipEmailRecord', blockIpEmail))
      in (ipRecord', emailRecord', ipEmailRecord'', smsRecord',
          max (max (max blockEmail blockIpEmail') blockIp) blockSMS))"

definition checkRecords ::
    "'m server \<Rightarrow> time \<Rightarrow> check_request \<Rightarrow> string \<Rightarrow> string \<Rightarrow> string \<Rightarrow> 'm \<Rightarrow>
     ip_record \<Rightarrow> int option \<Rightarrow> email_record \<Rightarrow> ip_email_record \<Rightarrow> sms_record option \<Rightarrow>
     'm \<times> (request_error + check_result)" where
  "checkRecords sv now q ip email action m ipRecord reputation emailRecord ipEmailRecord smsRecord =
     (let L = sv_limits sv
      in if IpRecord_isBlocked L now ipRecord \<or> IpRecord_isDisabled L now ipRecord then
           (m, Inr \<lparr> cr_block = True, cr_blockReason = None,
                     cr_retryAfter = IpRecord_retryAfter L now ipRecord,
                     cr_unblock = None, cr_suspect = None \<rparr>)
         else
           let wantsUnblock = truthy_string (cq_unblockCode q) \<noteq> None;
               (ipR, emailR, ipEmailR, smsR, retryAfter) =
                 updateRecords L now action email wantsUnblock
                   ipRecord emailRecord ipEmailRecord smsRecord;
               block = 0 < retryAfter;
               blockReason = (if block then Some OTHER else None);
               suspect = (treatEveryoneWithSuspicion (sv_requestChecks sv) \<or>
                          rep_isSuspectBelow (sv_reputation sv) reputation \<or>
                          IpRecord_isSuspected L now ipR \<or> EmailRecord_isSuspected L now emailR);
               noFlow = (\<not> block \<and> action = ''accountLogin'' \<and> lacks_flowId sv q);
               suspect = (suspect \<or> noFlow);
               block = (block \<or> noFlow \<and> flowIdRequiredOnLogin (sv_requestChecks sv));
               (emailR, canUnblock) = EmailRecord_canUnblock L now emailR
           in case in_blocklist sv ip of
                None \<Rightarrow> (m, Inl AddressError)
              | Some listed \<Rightarrow>
                  let (block, blockReason, retryAfter) =
                        (if listed then (True, Some IP_IN_BLOCKLIST, 0)
                         else (block, blockReason, retryAfter));
                      (block, retryAfter, blockReason) =
                        (if rep_isBlockBelow (sv_reputation sv) reputation
                         then (True, IpRecord_retryAfter L now ipR, Some IP_BAD_REPUTATION)
                         else (block, retryAfter, blockReason));
                      recordsToSave =
                        [marshall_ip L ip ipR, marshall_email L email emailR,
                         marshall_ip_email L (ip @ email) ipEmailR] @
                        (case (truthy_string (cq_phoneNumber q), smsR) of
                           (Some phone, Some r) \<Rightarrow> [marshall_sms L phone r] | _ \<Rightarrow> []);
                      (m', err) = setRecords (sv_mc sv) (sv_recordLifetimeSeconds sv) m now recordsToSave
                  in (m', case err of
                            Some e \<Rightarrow> Inl (MemcachedError e)
                          | None \<Rightarrow> Inr \<lparr> cr_block = block, cr_blockReason = blockReason,
                              cr_retryAfter = retryAfter, cr_unblock = Some canUnblock,
                              cr_suspect = Some suspect \<rparr>))"

definition createResponse ::
    "'m server \<Rightarrow> string \<Rightarrow> string \<Rightarrow> string \<Rightarrow> string option \<Rightarrow> check_result \<Rightarrow> 'm world \<Rightarrow>
     'm world \<times> check_result" where
  "createResponse sv ip email action phoneNumber result w =
     (let result' = checkAllowlist sv result ip (Some email) phoneNumber
      in (optionallyReportIp sv result' ip action w, result'))"

definition check_handleError :: "'m server \<Rightarrow> check_result" where
  "check_handleError sv =
     \<lparr> cr_block = True, cr_blockReason = None,
       cr_retryAfter = rateLimitIntervalSeconds (sv_limits sv),
       cr_unblock = Some False, cr_suspect = None \<rparr>"

definition check_stages ::
    "'m server \<Rightarrow> clock \<Rightarrow> check_request \<Rightarrow> string \<Rightarrow> string \<Rightarrow> string \<Rightarrow> 'm \<Rightarrow>
     'm \<times> (request_error + check_result)" where
  "check_stages sv ck q ip email action m =
     (let rs = fetchRecords (sv_mc sv) (rep_get (sv_reputation sv) (sv_client sv)) m (ck_fetch ck)
                 (Some ip) (Some email) (cq_phoneNumber q) None
      in case (rs_ipRecord rs, rs_emailRecord rs, rs_ipEmailRecord rs) of
           (Some ipRecord, Some emailRecord, Some ipEmailRecord) \<Rightarrow>
             (case checkRecords sv (ck_check ck) q ip email action m ipRecord (rs_reputation rs)
                     emailRecord ipEmailRecord (rs_smsRecord rs) of
                (m', Inl err) \<Rightarrow> (m', Inl err)
              | (m', Inr result) \<Rightarrow>
                  checkUserDefinedRateLimitRules (sv_mc sv) (sv_recordLifetimeSeconds sv)
                    (sv_sha256 sv) (sv_rules sv) (sv_computedRules sv) m'
                    (ck_ruleFetch ck) (ck_ruleCheck ck) result action email ip)
         | _ \<Rightarrow> (m, Inl TypeError))"

definition check ::
    "'m server \<Rightarrow> clock \<Rightarrow> check_request \<Rightarrow> 'm world \<Rightarrow> 'm world \<times> check_result reply" where
  "check sv ck q w =
     (case (truthy_string (cq_email q), truthy_string (cq_ip q), truthy_string (cq_action q)) of
        (Some rawEmail, Some ip, Some action) \<Rightarrow>
          let email = normalizedEmail rawEmail;
              (m', res) = check_stages sv ck q ip email action (w_cache w);
              w' = w\<lparr>w_cache := m'\<rparr>
          in (case res of
                Inl err \<Rightarrow> (w', Reply (check_handleError sv))
              | Inr result \<Rightarrow>
                  (let (w'', response) =
                         createResponse sv ip email action (truthy_string (cq_phoneNumber q)) result w'
                   in (w'', Reply response)))
      | _ \<Rightarrow> (w, MissingParameters))"

section \<open>POST /checkAuthenticated\<close>

text \<open>\<open>retryAfter\<close> is \<open>None\<close> when it is \<open>NaN\<close>.\<close>

record auth_result =
  ar_block :: bool
  ar_retryAfter :: "int option"

definition checkAuthenticated ::
    "'m server \<Rightarrow> clock \<Rightarrow> string option \<Rightarrow> string option \<Rightarrow> string option \<Rightarrow> 'm world \<Rightarrow>
     'm world \<times> auth_result reply" where
  "checkAuthenticated sv ck actionParam ipParam uidParam w =
     (case (truthy_string actionParam, truthy_string ipParam, truthy_string uidParam) of
        (Some action, Some ip, Some uid) \<Rightarrow>
          let L = sv_limits sv;
              violation = ''fxa:request.checkAuthenticated.block.'' @ action;
              uidRecord = fetchRecord (sv_mc sv) (w_cache w) (ck_fetch ck) uid UidRecord_parse;
              (uidRecord', retryAfter) = UidRecord_addCount L (ck_check ck) action uidRecord;
              (m', err) = setRecords (sv_mc sv) (sv_recordLifetimeSeconds sv) (w_cache w) (ck_check ck)
                            [marshall_uid L uid uidRecord'];
              w' = w\<lparr>w_cache := m'\<rparr>;
              block = (case retryAfter of None \<Rightarrow> False | Some n \<Rightarrow> 0 < n)
          in (case err of
                None \<Rightarrow> (if block then sv_report sv ip violation w' else w',
                         Reply \<lparr> ar_block = block, ar_retryAfter = retryAfter \<rparr>)
              | Some e \<Rightarrow> (sv_report sv ip violation w',
                           Reply \<lparr> ar_block = True, ar_retryAfter = Some (blockIntervalSeconds L) \<rparr>))
      | _ \<Rightarrow> (w, MissingParameters))"

section \<open>POST /checkIpOnly\<close>

definition checkIpOnly_records ::
    "'m server \<Rightarrow> time \<Rightarrow> string \<Rightarrow> string \<Rightarrow> 'm \<Rightarrow> ip_record \<Rightarrow> int option \<Rightarrow>
     'm \<times> (request_error + check_result)" where
  "checkIpOnly_records sv now ip action m ipRecord reputation =
     (let L = sv_limits sv
      in if IpRecord_isBlocked L now ipRecord \<or> IpRecord_isDisabled L now ipRecord then
           (m, Inr \<lparr> cr_block = True, cr_blockReason = None,
                     cr_retryAfter = IpRecord_retryAfter L now ipRecord,
                     cr_unblock = None, cr_suspect = None \<rparr>)
         else
           let suspect = (treatEveryoneWithSuspicion (sv_requestChecks sv) \<or>
                          rep_isSuspectBelow (sv_reputation sv) reputation);
               (ipR, retryAfter) = IpRecord_update L now action [] ipRecord;
               block = 0 < retryAfter;
               blockReason = (if block then Some OTHER else None)
           in case in_blocklist sv ip of
                None \<Rightarrow> (m, Inl AddressError)
              | Some listed \<Rightarrow>
                  let (block, blockReason, retryAfter) =
                        (if listed then (True, Some IP_IN_BLOCKLIST, 0)
                         else (block, blockReason, retryAfter));
                      (block, retryAfter, blockReason) =
                        (if rep_isBlockBelow (sv_reputation sv) reputation
                         then (True, IpRecord_retryAfter L now ipR, Some IP_BAD_REPUTATION)
                         else (block, retryAfter, blockReason));
                      (m', err) = setRecords (sv_mc sv) (sv_recordLifetimeSeconds sv) m now
                                    [marshall_ip L ip ipR]
                  in (m', case err of
                            Some e \<Rightarrow> Inl (MemcachedError e)
                          | None \<Rightarrow> Inr \<lparr> cr_block = block, cr_blockReason = blockReason,
                              cr_retryAfter = retryAfter, cr_unblock = None,
                              cr_suspect = Some suspect \<rparr>))"

definition checkIpOnly ::
    "'m server \<Rightarrow> clock \<Rightarrow> string option \<Rightarrow> string option \<Rightarrow> 'm world \<Rightarrow> 'm world \<times> check_result reply" where
  "checkIpOnly sv ck actionParam ipParam w =
     (case (truthy_string actionParam, truthy_string ipParam) of
        (Some action, Some ip) \<Rightarrow>
          let ipRecord = fetchRecord (sv_mc sv) (w_cache w) (ck_fetch ck) ip IpRecord_parse;
              reputation = rep_get (sv_reputation sv) (sv_client sv) ip;
              (m', res) = checkIpOnly_records sv (ck_check ck) ip action (w_cache w) ipRecord reputation;
              w' = w\<lparr>w_cache := m'\<rparr>
          in (case res of
                Inl err \<Rightarrow>
                  (w', Reply \<lparr> cr_block = True, cr_blockReason = None,
                         cr_retryAfter = ipRateLimitIntervalSeconds (sv_limits sv),
                         cr_unblock = None, cr_suspect = None \<rparr>)
              | Inr result \<Rightarrow>
                  let result' = checkAllowlist sv result ip None None
                  in (optionallyReportIp sv result' ip action w', Reply result'))
      | _ \<Rightarrow> (w, MissingParameters))"

section \<open>POST /failedLoginAttempt, /passwordReset\<close>

definition failedLoginAttempt ::
    "'m server \<Rightarrow> clock \<Rightarrow> string option \<Rightarrow> string option \<Rightarrow> int option \<Rightarrow> 'm world \<Rightarrow>
     'm world \<times> unit reply" where
  "failedLoginAttempt sv ck emailParam ipParam errnoParam w =
     (case (truthy_string emailParam, truthy_string ipParam) of
        (Some rawEmail, Some ip) \<Rightarrow>
          let L = sv_limits sv; mc = sv_mc sv; m = w_cache w; t = ck_fetch ck; now = ck_check ck;
              errno = (case errnoParam of None \<Rightarrow> 999 | Some n \<Rightarrow> if n = 0 then 999 else n);
              email = normalizedEmail rawEmail;
              ipRecord = IpRecord_addBadLogin L now email errno (fetchRecord mc m t ip IpRecord_parse);
              ipEmailRecord =
                IpEmailRecord_addBadLogin L now (fetchRecord mc m t (ip @ email) IpEmailRecord_parse);
              emailRecord = EmailRecord_addBadLogin L now (fetchRecord mc m t email EmailRecord_parse);
              (ipRecord', over) = IpRecord_isOverBadLogins L now ipRecord;
              w1 = (if over then sv_report sv ip ''fxa:request.failedLoginAttempt.isOverBadLogins'' w else w);
              (m', err) = setRecords mc (sv_recordLifetimeSeconds sv) m now
                            [marshall_ip L ip ipRecord', marshall_email L email emailRecord,
                             marshall_ip_email L (ip @ email) ipEmailRecord]
          in (w1\<lparr>w_cache := m'\<rparr>,
              case err of None \<Rightarrow> Reply () | Some e \<Rightarrow> ServerError (MemcachedError e))
      | _ \<Rightarrow> (w, MissingParameters))"

definition passwordReset ::
    "'m server \<Rightarrow> clock \<Rightarrow> string option \<Rightarrow> 'm world \<Rightarrow> 'm world \<times> unit reply" where
  "passwordReset sv ck emailParam w =
     (case truthy_string emailParam of
        None \<Rightarrow> (w, MissingParameters)
      | Some rawEmail \<Rightarrow>
          let L = sv_limits sv; email = normalizedEmail rawEmail;
              emailRecord = EmailRecord_passwordReset (ck_check ck)
                (fetchRecord (sv_mc sv) (w_cache w) (ck_fetch ck) email EmailRecord_parse);
              (m', err) = setRecords (sv_mc sv) (sv_recordLifetimeSeconds sv) (w_cache w) (ck_check ck)
                            [marshall_email L email emailRecord]
          in (w\<lparr>w_cache := m'\<rparr>,
              case err of None \<Rightarrow> Reply () | Some e \<Rightarrow> ServerError (MemcachedError e)))"

section \<open>Bans\<close>

record ban_message =
  ban_ip :: "string option"
  ban_email :: "string option"

definition bans_blockIp ::
    "'m server \<Rightarrow> clock \<Rightarrow> string \<Rightarrow> 'm \<Rightarrow> 'm \<times> request_error option" where
  "bans_blockIp sv ck ip m =
     (let L = sv_limits sv;
          ipRecord = IpRecord_block (ck_check ck) (fetchRecord (sv_mc sv) m (ck_fetch ck) ip IpRecord_parse);
          (m', err) = setRecords (sv_mc sv) (sv_recordLifetimeSeconds sv) m (ck_check ck)
                        [marshall_ip L ip ipRecord]
      in (m', map_option MemcachedError err))"

definition bans_blockEmail ::
    "'m server \<Rightarrow> clock \<Rightarrow> string \<Rightarrow> 'm \<Rightarrow> 'm \<times> request_error option" where
  "bans_blockEmail sv ck email m =
     (let L = sv_limits sv;
          emailRecord =
            EmailRecord_block (ck_check ck) (fetchRecord (sv_mc sv) m (ck_fetch ck) email EmailRecord_parse);
          (m', err) = setRecords (sv_mc sv) (sv_recordLifetimeSeconds sv) m (ck_check ck)
                        [marshall_email L email emailRecord]
      in (m', map_option MemcachedError err))"

definition handleBan ::
    "'m server \<Rightarrow> clock \<Rightarrow> ban_message option \<Rightarrow> 'm \<Rightarrow> 'm \<times> request_error option" where
  "handleBan sv ck ban m =
     (case ban of
        None \<Rightarrow> (m, Some InvalidMessage)
      | Some b \<Rightarrow>
          (case (truthy_string (ban_ip b), truthy_string (ban_email b)) of
             (Some ip, _) \<Rightarrow> bans_blockIp sv ck ip m
           | (None, Some email) \<Rightarrow> bans_blockEmail sv ck email m
           | (None, None) \<Rightarrow> (m, Some InvalidMessage)))"

definition blockEmail ::
    "'m server \<Rightarrow> clock \<Rightarrow> string option \<Rightarrow> 'm world \<Rightarrow> 'm world \<times> unit reply" where
  "blockEmail sv ck emailParam w =
     (case truthy_string emailParam of
        None \<Rightarrow> (w, MissingParameters)
      | Some rawEmail \<Rightarrow>
          let email = normalizedEmail rawEmail;
              (m', err) = handleBan sv ck (Some \<lparr> ban_ip = None, ban_email = Some email \<rparr>) (w_cache w)
          in (w\<lparr>w_cache := m'\<rparr>, case err of None \<Rightarrow> Reply () | Some e \<Rightarrow> ServerError e))"

definition blockIp ::
    "'m server \<Rightarrow> clock \<Rightarrow> string option \<Rightarrow> 'm world \<Rightarrow> 'm world \<times> unit reply" where
  "blockIp sv ck ipParam w =
     (case truthy_string ipParam of
        None \<Rightarrow> (w, MissingParameters)
      | Some ip \<Rightarrow>
          let (m', err) = handleBan sv ck (Some \<lparr> ban_ip = Some ip, ban_email = None \<rparr>) (w_cache w);
              w' = w\<lparr>w_cache := m'\<rparr>
          in (case err of
                None \<Rightarrow> (sv_report sv ip ''fxa:request.blockIp'' w', Reply ())
              | Some e \<Rightarrow> (w', ServerError e)))"

section \<open>GET handlers\<close>

definition get_limits :: "'m server \<Rightarrow> jsval" where
  "get_limits sv = Limits_toJSON (sv_limits sv)"

definition get_allowedIPs :: "'m server \<Rightarrow> string list" where
  "get_allowedIPs sv = sv_allowedIPs sv"

definition get_allowedEmailDomains :: "'m server \<Rightarrow> string list" where
  "get_allowedEmailDomains sv = sv_allowedEmailDomains sv"

definition get_allowedPhoneNumbers :: "'m server \<Rightarrow> string list" where
  "get_allowedPhoneNumbers sv = sv_allowedPhoneNumbers sv"

end
