(* ===== verification/Default_Config.thy ===== *)
theory Default_Config
  imports Customs_Server
begin

text \<open>
  The defaults of \<open>lib/config/config.js\<close> of the customs server but for its limits, and the server they configure,
  with \<open>table_cache\<close> for memcached. Durations such as \<open>1 day\<close> are written in milliseconds.
\<close>

definition config_userDefinedRateLimitRules :: rules where
  "config_userDefinedRateLimitRules =
     [(''totpCodeRules'',
       \<lparr> rule_max = 2, rule_periodMs = 30000, rule_rateLimitIntervalMs = 30000,
         rule_actions = [''verifyTotpCode''] \<rparr>),
      (''tokenCodeRules'',
       \<lparr> rule_max = 5, rule_periodMs = 900000, rule_rateLimitIntervalMs = 900000,
         rule_actions = [''verifyTokenCode''] \<rparr>)]"

definition default_checks :: request_checks where
  "default_checks = \<lparr> treatEveryoneWithSuspicion = False, flowIdRequiredOnLogin = False,
     flowIdExemptUserAgentREs = Some [], flowIdExemptUserAgentCompiledREs = [] \<rparr>"

definition default_reputation :: reputation_config where
  "default_reputation = \<lparr> rep_enable = False, rep_enableCheck = False, rep_blockBelow = 0,
     rep_suspectBelow = 0 \<rparr>"

definition default_computedRules :: rule_table where
  "default_computedRules =
     [(''verifyTotpCode'', RuleList [''totpCodeRules'']), (''verifyTokenCode'', RuleList [''tokenCodeRules''])]"

definition default_server :: "table server" where
  "default_server = \<lparr>
     sv_mc = table_cache, sv_recordLifetimeSeconds = 900, sv_limits = default_limits,
     sv_allowedIPs = [], sv_allowedEmailDomains = [''restmail.net'', ''restmail.dev.lcip.org''],
     sv_allowedPhoneNumbers = [], sv_requestChecks = default_checks,
     sv_reputation = default_reputation, sv_client = (\<lambda>ip. Inr None), sv_blocklists = None,
     sv_ip = byte_package, sv_rules = config_userDefinedRateLimitRules,
     sv_computedRules = default_computedRules, sv_sha256 = (\<lambda>s. s) \<rparr>"

definition empty_world :: "table world" where
  "empty_world = \<lparr> w_cache = [], w_reports = [] \<rparr>"

text \<open>A request at one moment.\<close>

definition at_time :: "time \<Rightarrow> clock" where
  "at_time t = \<lparr> ck_fetch = t, ck_check = t, ck_ruleFetch = t, ck_ruleCheck = t \<rparr>"

definition login_request :: "string \<Rightarrow> string \<Rightarrow> check_request" where
  "login_request email ip = \<lparr> cq_email = Some email, cq_ip = Some ip, cq_action = Some ''accountLogin'',
     cq_userAgent = None, cq_phoneNumber = None, cq_unblockCode = None, cq_flowId = None, cq_reason = None \<rparr>"

section \<open>The defaults are consistent\<close>

named_theorems default_defs \<open>the default server and its parts\<close>

declare default_limits_def [default_defs] default_checks_def [default_defs]
  default_reputation_def [default_defs] default_server_def [default_defs]
  empty_world_def [default_defs] at_time_def [default_defs] login_request_def [default_defs]

lemma default_rules_computed: "computedRules config_userDefinedRateLimitRules = Some default_computedRules"
  by (simp add: computedRules_def rule_pairs_def config_userDefinedRateLimitRules_def
      default_computedRules_def addRule_def)

lemma default_cache [simp]: "sv_mc default_server = table_cache" "sv_limits default_server = default_limits"
  by (simp_all add: default_server_def)

lemma at_time_simps [simp]:
  "ck_fetch (at_time t) = t" "ck_check (at_time t) = t" "ck_ruleFetch (at_time t) = t" "ck_ruleCheck (at_time t) = t"
  by (simp_all add: at_time_def)

lemma login_request_simps [simp]:
  "cq_email (login_request e ip) = Some e" "cq_ip (login_request e ip) = Some ip"
  "cq_action (login_request e ip) = Some ''accountLogin''" "cq_phoneNumber (login_request e ip) = None"
  by (simp_all add: login_request_def)

lemma default_limits_simps [simp]:
  "blockIntervalMs default_limits = 86400000" "rateLimitIntervalMs default_limits = 900000"
  "maxBadLogins default_limits = 2" "uidRateLimitBanDurationMs default_limits = 900000"
  "maxChecksPerUid default_limits = 100"
  by (simp_all add: default_limits_def)

lemma default_nobody_allowed:
  "\<not> isAllowed default_server ''10.0.0.1'' (Some (normalizedEmail ''a@x.org'')) None"
  by code_simp

end
