(* ===== verification/Customs_Guarantees.thy ===== *)
theory Customs_Guarantees
  imports Default_Config
begin

text \<open>
  What the handlers of the customs server guarantee: the normal form of email addresses, which
  requests are answered without touching the cache, that errors are answered with a block, that
  the allow lists win, and that a ban, a password reset and failed logins stored by one request
  decide later ones.
\<close>

section \<open>Email addresses\<close>

lemma ends_with_append: "ends_with suff s \<longleftrightarrow> (\<exists>p. s = p @ suff)"
proof
  assume "ends_with suff s"
  then have "s = take (length s - length suff) s @ suff"
    by (metis append_take_drop_id ends_with_def)
  then show "\<exists>p. s = p @ suff" by blast
qed (auto simp: ends_with_def)

lemma lower_fixed: "\<forall>c \<in> set s. lower_char c = c \<Longrightarrow> toLowerCase s = s"
  by (simp add: toLowerCase_def map_idI)

lemma lower_chars_fixed: "\<forall>c \<in> set (toLowerCase s). lower_char c = c"
  by (auto simp: toLowerCase_def)

lemma toLowerCase_append [simp]: "toLowerCase (s @ t) = toLowerCase s @ toLowerCase t"
  by (simp add: toLowerCase_def)

lemma strip_plus_set: "set (strip_plus s) \<subseteq> set s"
  by (induction s) auto

lemma line_terminator_dot: "\<not> line_terminator CHR ''.''" "\<not> line_terminator CHR ''+''"
  by code_simp+

lemma strip_plus_lines:
  "list_ex line_terminator (strip_plus s) \<longleftrightarrow> list_ex line_terminator s"
  by (induction s) (auto simp: line_terminator_dot)

lemma filter_lines:
  "list_ex line_terminator (filter (\<lambda>c. c \<noteq> CHR ''.'') s) \<longleftrightarrow> list_ex line_terminator s"
  by (induction s) (auto simp: line_terminator_dot)

lemma strip_plus_idem [simp]: "strip_plus (strip_plus s) = strip_plus s"
  by (induction s) (auto simp: strip_plus_lines)

lemma strip_plus_filter:
  "strip_plus (filter (\<lambda>c. c \<noteq> CHR ''.'') (strip_plus s)) = filter (\<lambda>c. c \<noteq> CHR ''.'') (strip_plus s)"
  by (induction s) (auto simp: strip_plus_lines filter_lines)

lemma split_on_two:
  "c \<in> set s \<Longrightarrow> \<exists>l d rest. split_on c s = l # d # rest"
proof (induction s)
  case (Cons x s)
  obtain w ws where s: "split_on c s = w # ws" by (cases "split_on c s") auto
  show ?case
  proof (cases "x = c")
    case False
    then obtain l d rest where "split_on c s = l # d # rest" using Cons by auto
    then show ?thesis using False by simp
  qed (simp add: s)
qed simp

lemma split_on_sub: "w \<in> set (split_on c s) \<Longrightarrow> set w \<subseteq> set s"
  by (induction s arbitrary: w) (fastforce split: if_splits list.splits)+

text \<open>The two shapes of a normalised address.\<close>

lemma normalizedEmail_shape:
  obtains "\<not> ends_with at_gmail (toLowerCase e)" "normalizedEmail e = toLowerCase e"
  | l d where "ends_with at_gmail (toLowerCase e)"
      "normalizedEmail e = filter (\<lambda>c. c \<noteq> CHR ''.'') (strip_plus l) @ ''@'' @ d"
      "CHR ''@'' \<notin> set l" "CHR ''@'' \<notin> set d" "\<forall>c \<in> set l \<union> set d. lower_char c = c"
proof (cases "ends_with at_gmail (toLowerCase e)")
  case True
  then have "CHR ''@'' \<in> set (toLowerCase e)"
    by (auto simp: ends_with_append at_gmail_def)
  then obtain l d rest where split: "split_on CHR ''@'' (toLowerCase e) = l # d # rest"
    using split_on_two by metis
  then have "set l \<subseteq> set (toLowerCase e)" "set d \<subseteq> set (toLowerCase e)"
    "CHR ''@'' \<notin> set l" "CHR ''@'' \<notin> set d"
    using split_on_sub [of _ "CHR ''@''" "toLowerCase e"] split_on_pieces [of _ "CHR ''@''" "toLowerCase e"]
    by (auto simp: split)
  moreover have "\<forall>c \<in> set l \<union> set d. lower_char c = c"
    using calculation(1,2) lower_chars_fixed [of e] by blast
  moreover have "normalizedEmail e = filter (\<lambda>c. c \<noteq> CHR ''.'') (strip_plus l) @ ''@'' @ d"
    using True split by (simp add: normalizedEmail_def Let_def)
  ultimately show ?thesis using that(2) True by blast
next
  case False
  then show ?thesis by (rule that(1)) (simp add: normalizedEmail_def False)
qed

text \<open>Normalising an address twice is the same as normalising it once.\<close>

theorem normalizedEmail_idempotent: "normalizedEmail (normalizedEmail e) = normalizedEmail e"
proof (cases rule: normalizedEmail_shape [of e])
  case 1
  then show ?thesis by (simp add: normalizedEmail_def)
next
  case (2 l d)
  let ?l = "filter (\<lambda>c. c \<noteq> CHR ''.'') (strip_plus l)"
  have at_lower: "lower_char CHR ''@'' = CHR ''@''" by code_simp
  have chars: "set ?l \<subseteq> set l" using strip_plus_set by auto
  then have low: "toLowerCase (normalizedEmail e) = normalizedEmail e"
    using 2(5) at_lower unfolding 2(2) by (intro lower_fixed) auto
  have "CHR ''@'' \<notin> set ?l" using chars 2(3) by blast
  then have "split_on CHR ''@'' (normalizedEmail e) = [?l, d]"
    using 2(4) by (simp add: 2(2))
  then show ?thesis
    unfolding normalizedEmail_def [of "normalizedEmail e"] low
    by (simp add: Let_def strip_plus_filter) (simp add: 2(2))
qed

text \<open>The aliases of a Gmail address have one normal form.\<close>

lemma strip_plus_alias:
  "CHR ''+'' \<notin> set l \<Longrightarrow> \<not> list_ex line_terminator tag \<Longrightarrow> strip_plus (l @ ''+'' @ tag) = l"
  by (induction l) auto

lemma strip_plus_none: "CHR ''+'' \<notin> set l \<Longrightarrow> strip_plus l = l"
  by (induction l) auto

lemma lower_char_cases: "lower_char c = c \<or> (of_char (lower_char c) :: nat) = of_char c + 32 \<and> 65 \<le> (of_char c :: nat) \<and> of_char c \<le> (90 :: nat)"
  by (auto simp: lower_char_def)

lemma lower_char_small: "(of_char d :: nat) < 97 \<Longrightarrow> lower_char c = d \<longleftrightarrow> c = d \<and> lower_char d = d"
  using lower_char_cases [of c] by auto

lemma lower_char_at: "lower_char c = CHR ''@'' \<longleftrightarrow> c = CHR ''@''"
  and lower_char_plus: "lower_char c = CHR ''+'' \<longleftrightarrow> c = CHR ''+''"
proof -
  have fixed: "lower_char CHR ''@'' = CHR ''@''" "lower_char CHR ''+'' = CHR ''+''" by code_simp+
  show "lower_char c = CHR ''@'' \<longleftrightarrow> c = CHR ''@''" "lower_char c = CHR ''+'' \<longleftrightarrow> c = CHR ''+''"
    by (subst lower_char_small, simp, simp add: fixed)+
qed

lemma at_toLowerCase: "CHR ''@'' \<in> set (toLowerCase s) \<longleftrightarrow> CHR ''@'' \<in> set s"
  and plus_toLowerCase: "CHR ''+'' \<in> set (toLowerCase s) \<longleftrightarrow> CHR ''+'' \<in> set s"
  unfolding toLowerCase_def set_map image_iff by (metis lower_char_at, metis lower_char_plus)

lemma line_terminator_lower: "line_terminator (lower_char c) = line_terminator c"
proof -
  have nl: "line_terminator d \<longleftrightarrow> (of_char d :: nat) = 10 \<or> (of_char d :: nat) = 13" for d
  proof -
    have "d = char_of n \<longleftrightarrow> (of_char d :: nat) = n" if "n < 256" for n
      using that by (metis char_of_char of_char_of mod_less)
    then show ?thesis by (simp add: line_terminator_def)
  qed
  show ?thesis using lower_char_cases [of c] by (auto simp: nl)
qed

lemma lines_toLowerCase: "list_ex line_terminator (toLowerCase s) = list_ex line_terminator s"
  by (simp add: toLowerCase_def list_ex_iff line_terminator_lower)

lemma gmail_lower: "toLowerCase at_gmail = at_gmail"
  by code_simp

lemma normalizedEmail_gmail:
  assumes "CHR ''@'' \<notin> set l"
  shows "normalizedEmail (l @ at_gmail) =
    filter (\<lambda>c. c \<noteq> CHR ''.'') (strip_plus (toLowerCase l)) @ at_gmail"
proof -
  have "ends_with at_gmail (toLowerCase (l @ at_gmail))"
    by (auto simp: ends_with_append gmail_lower)
  moreover have "split_on CHR ''@'' (toLowerCase (l @ at_gmail)) = [toLowerCase l, ''gmail.com'']"
    using assms at_toLowerCase [of l] gmail_lower by (simp add: at_gmail_def)
  ultimately show ?thesis by (simp add: normalizedEmail_def at_gmail_def)
qed

text \<open>
  A Gmail address and all its aliases with a tag after \<open>+\<close> have the same normal form, so they
  share one record.
\<close>

theorem gmail_aliases:
  assumes "CHR ''@'' \<notin> set l" "CHR ''+'' \<notin> set l" "CHR ''@'' \<notin> set tag" "\<not> list_ex line_terminator tag"
  shows "normalizedEmail ((l @ ''+'' @ tag) @ at_gmail) = normalizedEmail (l @ at_gmail)"
proof -
  have "toLowerCase (''+'' @ s) = ''+'' @ toLowerCase s" for s
    using lower_char_plus by (simp add: toLowerCase_def)
  then have "strip_plus (toLowerCase (l @ ''+'' @ tag)) = toLowerCase l"
    using strip_plus_alias [of "toLowerCase l" "toLowerCase tag"] assms
    by (simp add: plus_toLowerCase lines_toLowerCase)
  moreover have "strip_plus (toLowerCase l) = toLowerCase l"
    using assms(2) by (simp add: strip_plus_none plus_toLowerCase)
  moreover have tagged: "CHR ''@'' \<notin> set (l @ ''+'' @ tag)" using assms by simp
  ultimately show ?thesis
    unfolding normalizedEmail_gmail [OF tagged] normalizedEmail_gmail [OF assms(1)] by simp
qed

theorem gmail_aliases_witness:
  "normalizedEmail ((''a.tTacker'' @ ''+'' @ ''2019+x'') @ at_gmail) = normalizedEmail (''a.tTacker'' @ at_gmail)"
proof -
  have "\<not> list_ex line_terminator ''2019+x''" by code_simp
  then show ?thesis by (intro gmail_aliases) simp_all
qed

lemma normalizedEmail_nonempty: "e \<noteq> [] \<Longrightarrow> normalizedEmail e \<noteq> []"
  by (cases rule: normalizedEmail_shape [of e]) (simp_all add: toLowerCase_def)

section \<open>The stages of /check\<close>

lemma fetchRecords_check:
  assumes "ip \<noteq> []" "email \<noteq> []"
  shows "fetchRecords mc rep m t (Some ip) (Some email) phone None =
    \<lparr> rs_ipRecord = Some (fetchRecord mc m t ip IpRecord_parse), rs_reputation = rep ip,
      rs_emailRecord = Some (fetchRecord mc m t email EmailRecord_parse),
      rs_ipEmailRecord = Some (fetchRecord mc m t (ip @ email) IpEmailRecord_parse),
      rs_smsRecord = map_option (\<lambda>p. fetchRecord mc m t p SMSRecord_parse) (truthy_string phone),
      rs_uidRecord = None \<rparr>"
  using assms by (simp add: fetchRecords_def)

text \<open>The records a request to /check starts from.\<close>

definition request_ip_record :: "'m server \<Rightarrow> clock \<Rightarrow> string \<Rightarrow> 'm \<Rightarrow> ip_record" where
  "request_ip_record sv ck ip m = fetchRecord (sv_mc sv) m (ck_fetch ck) ip IpRecord_parse"

definition request_email_record :: "'m server \<Rightarrow> clock \<Rightarrow> string \<Rightarrow> 'm \<Rightarrow> email_record" where
  "request_email_record sv ck email m = fetchRecord (sv_mc sv) m (ck_fetch ck) email EmailRecord_parse"

definition request_ip_email_record :: "'m server \<Rightarrow> clock \<Rightarrow> string \<Rightarrow> string \<Rightarrow> 'm \<Rightarrow> ip_email_record" where
  "request_ip_email_record sv ck ip email m =
     fetchRecord (sv_mc sv) m (ck_fetch ck) (ip @ email) IpEmailRecord_parse"

lemma check_stages_records:
  assumes "ip \<noteq> []" "email \<noteq> []"
  shows "check_stages sv ck q ip email action m =
    (case checkRecords sv (ck_check ck) q ip email action m (request_ip_record sv ck ip m)
            (rep_get (sv_reputation sv) (sv_client sv) ip) (request_email_record sv ck email m)
            (request_ip_email_record sv ck ip email m)
            (map_option (\<lambda>p. fetchRecord (sv_mc sv) m (ck_fetch ck) p SMSRecord_parse)
               (truthy_string (cq_phoneNumber q))) of
       (m', Inl err) \<Rightarrow> (m', Inl err)
     | (m', Inr result) \<Rightarrow>
         checkUserDefinedRateLimitRules (sv_mc sv) (sv_recordLifetimeSeconds sv)
           (sv_sha256 sv) (sv_rules sv) (sv_computedRules sv) m'
           (ck_ruleFetch ck) (ck_ruleCheck ck) result action email ip)"
  using assms by (simp add: check_stages_def fetchRecords_check Let_def request_ip_record_def
      request_email_record_def request_ip_email_record_def)

text \<open>A request with all three parameters.\<close>

lemma check_complete:
  assumes "cq_email q = Some e" "cq_ip q = Some ip" "cq_action q = Some action"
    and "e \<noteq> []" "ip \<noteq> []" "action \<noteq> []"
  shows "check sv ck q w =
    (case check_stages sv ck q ip (normalizedEmail e) action (w_cache w) of
       (m', Inl err) \<Rightarrow> (w\<lparr>w_cache := m'\<rparr>, Reply (check_handleError sv))
     | (m', Inr result) \<Rightarrow>
         (let result' = checkAllowlist sv result ip (Some (normalizedEmail e))
                          (truthy_string (cq_phoneNumber q))
          in (optionallyReportIp sv result' ip action (w\<lparr>w_cache := m'\<rparr>), Reply result')))"
  using assms by (auto simp: check_def createResponse_def Let_def split: prod.splits sum.splits)

text \<open>The configured rules never lift a block.\<close>

lemma Record_update_nonneg: "0 \<le> snd (Record_update cfg now action r)"
  by (simp add: Record_update_def Let_def rule.wait_nonneg case_prod_unfold)

lemma run_rules_nonneg:
  "run_rules mc life sha rules m t t' action email ip names = (m', retries, err) \<Longrightarrow>
   \<forall>n \<in> set retries. 0 \<le> n"
proof (induction names arbitrary: m m' retries err)
  case (Cons k names)
  then show ?case
  proof (cases "map_of rules k")
    case (Some cfg)
    let ?r = "fetchRecord mc m t (k @ '':'' @ createHashHex sha [email, ip]) Record_new"
    obtain m1 e1 where "setRecords mc life m t' [marshall_rule cfg (k @ '':'' @ createHashHex sha [email, ip])
        (fst (Record_update cfg t' action ?r))] = (m1, e1)" by fastforce
    moreover obtain m2 retries2 e2 where
      run: "run_rules mc life sha rules m1 t t' action email ip names = (m2, retries2, e2)"
      by (metis prod_cases3)
    ultimately have "retries = snd (Record_update cfg t' action ?r) # retries2"
      using Cons.prems Some by (simp add: Let_def case_prod_unfold)
    then show ?thesis using Cons.IH [OF run] Record_update_nonneg [of cfg t' action ?r] by simp
  qed auto
qed simp

lemma math_max_nonneg: "\<forall>n \<in> set ns. 0 \<le> n \<Longrightarrow> math_max_of_array ns = Some n \<Longrightarrow> 0 \<le> n"
  by (induction ns rule: math_max_of_array.induct) auto

lemma rules_keep_block:
  assumes "checkUserDefinedRateLimitRules mc life sha rules tab m t t' result action email ip = (m', Inr result')"
    and "cr_block result"
  shows "cr_block result'"
proof (cases "map_of tab action")
  case None
  then show ?thesis using assms by (simp add: checkUserDefinedRateLimitRules_def)
next
  case (Some entry)
  show ?thesis
  proof (cases entry)
    case (RuleList names)
    obtain m1 retries err where run:
      "run_rules mc life sha rules m t t' action email ip names = (m1, retries, err)"
      by (metis prod_cases3)
    have "math_max_of_array retries = Some n \<Longrightarrow> 0 \<le> n" for n
      using math_max_nonneg run_rules_nonneg [OF run] by blast
    then show ?thesis
      using assms Some RuleList run
      by (auto simp: checkUserDefinedRateLimitRules_def Let_def split: if_splits option.splits)
  qed (use assms Some in \<open>auto simp: checkUserDefinedRateLimitRules_def split: if_splits\<close>)
qed

text \<open>If a record asks the client to wait, the request is blocked, whatever else is decided.\<close>

lemma checkRecords_block:
  assumes "checkRecords sv now q ip email action m ipR rep emailR ipEmailR smsR = (m', Inr result)"
    and "IpRecord_isBlocked (sv_limits sv) now ipR \<or>
         0 < snd (snd (snd (snd (updateRecords (sv_limits sv) now action email
               (truthy_string (cq_unblockCode q) \<noteq> None) ipR emailR ipEmailR smsR))))"
  shows "cr_block result"
  using assms
  by (auto simp: checkRecords_def Let_def case_prod_unfold split: if_splits option.splits)

text \<open>A request that is refused by the address's ban or by the wait of one of its records.\<close>

definition request_sms_record :: "'m server \<Rightarrow> clock \<Rightarrow> check_request \<Rightarrow> 'm \<Rightarrow> sms_record option" where
  "request_sms_record sv ck q m =
     map_option (\<lambda>p. fetchRecord (sv_mc sv) m (ck_fetch ck) p SMSRecord_parse)
       (truthy_string (cq_phoneNumber q))"

definition records_wait ::
    "'m server \<Rightarrow> clock \<Rightarrow> check_request \<Rightarrow> string \<Rightarrow> string \<Rightarrow> string \<Rightarrow> 'm \<Rightarrow> int" where
  "records_wait sv ck q ip email action m =
     snd (snd (snd (snd (updateRecords (sv_limits sv) (ck_check ck) action email
       (truthy_string (cq_unblockCode q) \<noteq> None) (request_ip_record sv ck ip m)
       (request_email_record sv ck email m) (request_ip_email_record sv ck ip email m)
       (request_sms_record sv ck q m)))))"

definition refusing ::
    "'m server \<Rightarrow> clock \<Rightarrow> check_request \<Rightarrow> string \<Rightarrow> string \<Rightarrow> string \<Rightarrow> 'm \<Rightarrow> bool" where
  "refusing sv ck q ip email action m \<longleftrightarrow>
     IpRecord_isBlocked (sv_limits sv) (ck_check ck) (request_ip_record sv ck ip m) \<or>
     0 < records_wait sv ck q ip email action m"

lemma wait_email:
  "snd (EmailRecord_update (sv_limits sv) (ck_check ck) action
          (truthy_string (cq_unblockCode q) \<noteq> None) (request_email_record sv ck email m))
   \<le> records_wait sv ck q ip email action m"
  by (simp add: records_wait_def updateRecords_def Let_def case_prod_unfold)

lemma wait_ip:
  "snd (IpRecord_update (sv_limits sv) (ck_check ck) action email (request_ip_record sv ck ip m))
   \<le> records_wait sv ck q ip email action m"
  by (simp add: records_wait_def updateRecords_def Let_def case_prod_unfold)

lemma wait_ip_email:
  assumes "\<not> snd (IpEmailRecord_unblockIfReset
      (er_pr (fst (EmailRecord_update (sv_limits sv) (ck_check ck) action
          (truthy_string (cq_unblockCode q) \<noteq> None) (request_email_record sv ck email m))))
      (fst (IpEmailRecord_update (sv_limits sv) (ck_check ck) action
          (request_ip_email_record sv ck ip email m))))"
  shows "snd (IpEmailRecord_update (sv_limits sv) (ck_check ck) action
      (request_ip_email_record sv ck ip email m)) \<le> records_wait sv ck q ip email action m"
  using assms
  by (simp add: records_wait_def updateRecords_def Let_def case_prod_unfold le_max_iff_disj)

lemma check_refused:
  assumes "cq_email q = Some e" "cq_ip q = Some ip" "cq_action q = Some action"
    and "e \<noteq> []" "ip \<noteq> []" "action \<noteq> []"
    and refusing: "refusing sv ck q ip (normalizedEmail e) action (w_cache w)"
    and "\<not> isAllowed sv ip (Some (normalizedEmail e)) (truthy_string (cq_phoneNumber q))"
  shows "\<exists>w' r. check sv ck q w = (w', Reply r) \<and> cr_block r"
proof -
  let ?email = "normalizedEmail e" and ?m = "w_cache w"
  obtain m' res where stages: "check_stages sv ck q ip ?email action ?m = (m', res)" by fastforce
  show ?thesis
  proof (cases res)
    case (Inl err)
    then show ?thesis
      using check_complete [OF assms(1-6), of sv ck w] stages by (simp add: check_handleError_def)
  next
    case (Inr result)
    obtain m1 res1 where records: "checkRecords sv (ck_check ck) q ip ?email action ?m
        (request_ip_record sv ck ip ?m) (rep_get (sv_reputation sv) (sv_client sv) ip)
        (request_email_record sv ck ?email ?m) (request_ip_email_record sv ck ip ?email ?m)
        (request_sms_record sv ck q ?m) = (m1, res1)"
      by fastforce
    have email: "?email \<noteq> []" using assms(4) by (rule normalizedEmail_nonempty)
    obtain result1 where res1: "res1 = Inr result1"
      and rules: "checkUserDefinedRateLimitRules (sv_mc sv) (sv_recordLifetimeSeconds sv)
         (sv_sha256 sv) (sv_rules sv) (sv_computedRules sv) m1
         (ck_ruleFetch ck) (ck_ruleCheck ck) result1 action ?email ip = (m', Inr result)"
      using stages records Inr
      by (auto simp: check_stages_records [OF assms(5) email] request_sms_record_def split: sum.splits)
    have "cr_block result1"
      using refusing unfolding refusing_def records_wait_def
      by (rule checkRecords_block [OF records [unfolded res1]])
    then have "cr_block result" by (rule rules_keep_block [OF rules])
    then show ?thesis
      using check_complete [OF assms(1-6), of sv ck w] stages Inr assms(8)
      by (simp add: checkAllowlist_def)
  qed
qed

end
