(* ===== verification/Customs_Scenarios.thy ===== *)
theory Customs_Scenarios
  imports Customs_Guarantees
begin

text \<open>
  Requests that follow one another: a ban stored by /blockEmail or /blockIp is found by the next
  request, a blocked address does not write to the cache, errors of the cache are answered with a
  block, and failed logins add up until logins are refused.
\<close>

section \<open>Bans\<close>

lemma setRecords_single:
  "setRecords mc life m now [r] = (m', e) \<longleftrightarrow> setRecord mc life m now r = (m', e)"
  by (cases "setRecord mc life m now r") (auto simp: Let_def split: option.splits)

lemma blockEmail_stored:
  assumes "memcached_ok (sv_mc sv)" "blockEmail sv ck0 (Some e) w = (w1, Reply ())" "e \<noteq> []"
    and "ck_check ck0 \<le> ck_fetch ck" "ck_fetch ck < ck_check ck0 + blockIntervalMs (sv_limits sv)"
  shows "request_email_record sv ck (normalizedEmail e) (w_cache w1) =
    EmailRecord_block (ck_check ck0) (request_email_record sv ck0 (normalizedEmail e) (w_cache w))"
proof -
  let ?email = "normalizedEmail e"
  let ?r = "EmailRecord_block (ck_check ck0) (request_email_record sv ck0 ?email (w_cache w))"
  have "?email \<noteq> []" using assms(3) by (rule normalizedEmail_nonempty)
  then have "setRecord (sv_mc sv) (sv_recordLifetimeSeconds sv) (w_cache w) (ck_check ck0)
      (marshall_email (sv_limits sv) ?email ?r) = (w_cache w1, None)"
    using assms(2,3)
    by (auto simp: blockEmail_def handleBan_def bans_blockEmail_def request_email_record_def
        setRecords_single Let_def split: prod.splits option.splits)
  then show ?thesis
    unfolding request_email_record_def [of sv ck]
    by (rule email_store.fetch_after_set [OF assms(1)])
      (use assms(4,5) in \<open>auto simp: EmailRecord_getMinLifetimeMS_def\<close>)
qed

lemma blockIp_stored:
  assumes "memcached_ok (sv_mc sv)" "blockIp sv ck0 (Some ip) w = (w1, Reply ())" "ip \<noteq> []"
    and "ck_check ck0 \<le> ck_fetch ck" "ck_fetch ck < ck_check ck0 + blockIntervalMs (sv_limits sv)"
  shows "request_ip_record sv ck ip (w_cache w1) =
    IpRecord_block (ck_check ck0) (request_ip_record sv ck0 ip (w_cache w))"
proof -
  let ?r = "IpRecord_block (ck_check ck0) (request_ip_record sv ck0 ip (w_cache w))"
  have "setRecord (sv_mc sv) (sv_recordLifetimeSeconds sv) (w_cache w) (ck_check ck0)
      (marshall_ip (sv_limits sv) ip ?r) = (w_cache w1, None)"
    using assms(2,3)
    by (auto simp: blockIp_def handleBan_def bans_blockIp_def request_ip_record_def sv_report_def
        setRecords_single Let_def split: prod.splits option.splits)
  then show ?thesis
    unfolding request_ip_record_def [of sv ck]
    by (rule ip_store.fetch_after_set [OF assms(1)])
      (use assms(4,5) in \<open>auto simp: IpRecord_getMinLifetimeMS_def\<close>)
qed

lemma EmailRecord_update_blocked:
  "EmailRecord_isBlocked L now r \<Longrightarrow> EmailRecord_update L now action u r = (r, EmailRecord_retryAfter L now r)"
  by (simp add: EmailRecord_update_def)

text \<open>
  /checkIpOnly refuses a banned IP address as well, with a positive time to wait and without
  touching the cache.
\<close>

theorem banned_ip_only_refused:
  assumes "memcached_ok (sv_mc sv)" "blockIp sv ck0 (Some ip) w = (w1, Reply ())" "ip \<noteq> []"
    and "0 < ck_check ck0" "ck_check ck0 \<le> ck_fetch ck"
    and "ck_fetch ck \<le> ck_check ck" "ck_check ck < ck_check ck0 + blockIntervalMs (sv_limits sv)"
    and "action \<noteq> []" "\<not> AllowedIPs_isAllowed (sv_allowedIPs sv) ip"
  shows "\<exists>w' r. checkIpOnly sv ck (Some action) (Some ip) w1 = (w', Reply r) \<and>
    cr_block r \<and> 0 < cr_retryAfter r \<and> w_cache w' = w_cache w1"
proof -
  have stored: "fetchRecord (sv_mc sv) (w_cache w1) (ck_fetch ck) ip IpRecord_parse =
      IpRecord_block (ck_check ck0) (request_ip_record sv ck0 ip (w_cache w))"
    using blockIp_stored [OF assms(1-3,5)] assms(6,7) by (simp add: request_ip_record_def)
  show ?thesis
    using ip_ban.limited_throughout [OF assms(4,7)] assms(3,8,9)
    by (simp add: checkIpOnly_def checkIpOnly_records_def stored Let_def checkAllowlist_def
        isAllowed_def AllowedPhoneNumbers_isAllowed_def optionallyReportIp_def sv_report_def)
qed

section \<open>Requests that leave the cache alone\<close>

theorem banned_ip_only_refused_witness:
  "\<exists>w' r. checkIpOnly default_server (at_time 1600000050000) (Some ''consumeSigninCode'') (Some ''10.0.0.1'')
     (fst (blockIp default_server (at_time 1600000000000) (Some ''10.0.0.1'') empty_world)) = (w', Reply r) \<and>
     cr_block r \<and> 0 < cr_retryAfter r"
proof -
  obtain w1 where ban: "blockIp default_server (at_time 1600000000000) (Some ''10.0.0.1'') empty_world = (w1, Reply ())"
    by (auto simp: blockIp_def handleBan_def bans_blockIp_def default_defs table_cache_def table_set_def
        setRecord_def truthy_string_def Let_def)
  have "\<not> AllowedIPs_isAllowed (sv_allowedIPs default_server) ''10.0.0.1''" by code_simp
  then show ?thesis
    using banned_ip_only_refused [where sv = default_server and ck = "at_time 1600000050000"
        and action = "''consumeSigninCode''", OF _ ban]
    unfolding ban fst_conv by (simp add: table_cache_ok) blast
qed

text \<open>
  A request from a blocked IP address leaves the cache as it is, as long as no configured rule
  applies to its action: a blocked address cannot penalise the email addresses it names.
\<close>

theorem blocked_ip_ignored:
  assumes "cq_email q = Some e" "cq_ip q = Some ip" "cq_action q = Some action"
    and "e \<noteq> []" "ip \<noteq> []" "action \<noteq> []"
    and "IpRecord_isBlocked (sv_limits sv) (ck_check ck) (request_ip_record sv ck ip (w_cache w))"
    and "map_of (sv_computedRules sv) action = None"
  shows "w_cache (fst (check sv ck q w)) = w_cache w"
proof -
  have email: "normalizedEmail e \<noteq> []" using assms(4) by (rule normalizedEmail_nonempty)
  show ?thesis
    using assms(7,8) unfolding check_complete [OF assms(1-6)] check_stages_records [OF assms(5) email]
    by (simp add: checkRecords_def checkUserDefinedRateLimitRules_def Let_def optionallyReportIp_def
        sv_report_def)
qed

theorem blocked_ip_ignored_witness:
  "w_cache (fst (check default_server (at_time 1600000050000) (login_request ''a@x.org'' ''10.0.0.1'')
     \<lparr> w_cache = [(''10.0.0.1'', JObj [(''bk'', JNum 1600000000000)], None)], w_reports = [] \<rparr>)) =
   [(''10.0.0.1'', JObj [(''bk'', JNum 1600000000000)], None)]"
proof -
  let ?w = "\<lparr> w_cache = [(''10.0.0.1'', JObj [(''bk'', JNum 1600000000000)], None :: time option)],
      w_reports = [] \<rparr>"
  have "IpRecord_isBlocked (sv_limits default_server) (ck_check (at_time 1600000050000))
      (request_ip_record default_server (at_time 1600000050000) ''10.0.0.1'' (w_cache ?w))"
    by code_simp
  moreover have "map_of (sv_computedRules default_server) ''accountLogin'' = None" by code_simp
  ultimately have "w_cache (fst (check default_server (at_time 1600000050000)
      (login_request ''a@x.org'' ''10.0.0.1'') ?w)) = w_cache ?w"
    by (intro blocked_ip_ignored [of _ "''a@x.org''"]) simp_all
  then show ?thesis by simp
qed

section \<open>Errors are answered with a block\<close>

definition cache_rejects :: "'m memcached \<Rightarrow> bool" where
  "cache_rejects mc \<longleftrightarrow> (\<forall>m now k v life. snd (setAsync mc m now k v life) \<noteq> None)"

text \<open>
  When the cache accepts no writes, every request from an IP address that is not already
  blocked or disabled is answered with a block of \<open>rateLimitIntervalSeconds\<close>, allow lists or not:
  the server fails closed.
\<close>

theorem failing_cache_blocks:
  assumes "cq_email q = Some e" "cq_ip q = Some ip" "cq_action q = Some action"
    and "e \<noteq> []" "ip \<noteq> []" "action \<noteq> []"
    and "\<not> IpRecord_isBlocked (sv_limits sv) (ck_check ck) (request_ip_record sv ck ip (w_cache w))"
    and "\<not> IpRecord_isDisabled (sv_limits sv) (ck_check ck) (request_ip_record sv ck ip (w_cache w))"
    and "cache_rejects (sv_mc sv)"
  shows "snd (check sv ck q w) = Reply (check_handleError sv)"
proof -
  have email: "normalizedEmail e \<noteq> []" using assms(4) by (rule normalizedEmail_nonempty)
  have rejects: "(snd (setRecord (sv_mc sv) life m now r) = None) = False" for life m now r
    using assms(9) by (simp add: cache_rejects_def setRecord_def)
  have "isl (snd (checkRecords sv (ck_check ck) q ip (normalizedEmail e) action (w_cache w)
      (request_ip_record sv ck ip (w_cache w)) rep emailR ipEmailR smsR))"
    for rep emailR ipEmailR smsR
    using assms(7,8)
    by (simp add: checkRecords_def Let_def case_prod_unfold rejects split: option.split)
  then obtain m' err where "checkRecords sv (ck_check ck) q ip (normalizedEmail e) action (w_cache w)
      (request_ip_record sv ck ip (w_cache w)) (rep_get (sv_reputation sv) (sv_client sv) ip)
      (request_email_record sv ck (normalizedEmail e) (w_cache w))
      (request_ip_email_record sv ck ip (normalizedEmail e) (w_cache w))
      (map_option (\<lambda>p. fetchRecord (sv_mc sv) (w_cache w) (ck_fetch ck) p SMSRecord_parse)
         (truthy_string (cq_phoneNumber q))) = (m', Inl err)"
    by (metis isl_def prod.collapse)
  then show ?thesis
    unfolding check_complete [OF assms(1-6)] check_stages_records [OF assms(5) email] by simp
qed

definition broken_cache :: "table memcached" where
  "broken_cache = \<lparr> getAsync = (\<lambda>m t k. Inr None), setAsync = (\<lambda>m t k v life. (m, Some ''down'')) \<rparr>"

theorem failing_cache_blocks_witness:
  "snd (check (default_server\<lparr>sv_mc := broken_cache\<rparr>) (at_time 1600000000000)
      (login_request ''a@restmail.net'' ''10.0.0.1'') empty_world) =
   Reply (check_handleError (default_server\<lparr>sv_mc := broken_cache\<rparr>))"
  by (rule failing_cache_blocks [where e = "''a@restmail.net''" and ip = "''10.0.0.1''" and action = "''accountLogin''"])
    (simp_all add: default_defs request_ip_record_def broken_cache_def fetchRecord_def IpRecord_parse_def
      get_num_def IpRecord_isBlocked_def IpRecord_isDisabled_def within_def within_opt_def cache_rejects_def)

section \<open>The allow lists\<close>

text \<open>
  A request whose IP address, email domain or phone number is on an allow list is never blocked
  nor suspected, and not reported, unless an error is being handled.
\<close>

theorem allowed_not_blocked:
  assumes "cq_email q = Some e" "cq_ip q = Some ip" "cq_action q = Some action"
    and "e \<noteq> []" "ip \<noteq> []" "action \<noteq> []"
    and "isAllowed sv ip (Some (normalizedEmail e)) (truthy_string (cq_phoneNumber q))"
    and "check_stages sv ck q ip (normalizedEmail e) action (w_cache w) = (m', Inr result)"
  shows "\<exists>r. check sv ck q w = (w\<lparr>w_cache := m'\<rparr>, Reply r) \<and> \<not> cr_block r \<and> cr_suspect r \<noteq> Some True"
  using assms(7) unfolding check_complete [OF assms(1-6)] assms(8)
  by (auto simp: checkAllowlist_def optionallyReportIp_def)

theorem allowed_not_blocked_witness:
  "\<exists>w' r. check default_server (at_time 1600000050000) (login_request ''a@restmail.net'' ''10.0.0.1'')
     \<lparr> w_cache = [(''10.0.0.1'', JObj [(''bk'', JNum 1600000000000)], None)], w_reports = [] \<rparr> = (w', Reply r) \<and>
     \<not> cr_block r"
proof -
  let ?w = "\<lparr> w_cache = [(''10.0.0.1'', JObj [(''bk'', JNum 1600000000000)], None :: time option)],
      w_reports = [] \<rparr>"
  have allowed: "isAllowed default_server ''10.0.0.1'' (Some (normalizedEmail ''a@restmail.net''))
      (truthy_string (cq_phoneNumber (login_request ''a@restmail.net'' ''10.0.0.1'')))"
    by code_simp
  obtain m' result where stages: "check_stages default_server (at_time 1600000050000)
      (login_request ''a@restmail.net'' ''10.0.0.1'') ''10.0.0.1'' (normalizedEmail ''a@restmail.net'')
      ''accountLogin'' (w_cache ?w) = (m', Inr result)"
  proof -
    have "\<not> isl (snd (check_stages default_server (at_time 1600000050000)
      (login_request ''a@restmail.net'' ''10.0.0.1'') ''10.0.0.1'' (normalizedEmail ''a@restmail.net'')
      ''accountLogin'' (w_cache ?w)))"
      by code_simp
    then show ?thesis using that by (metis isl_def prod.collapse sum.exhaust)
  qed
  show ?thesis
    using allowed_not_blocked [OF _ _ _ _ _ _ allowed stages] by (auto simp: login_request_def)
qed

section \<open>Failed logins\<close>

text \<open>Failed logins for one address and email, reported at the times of the clocks.\<close>

primrec failed_logins ::
    "'m server \<Rightarrow> string \<Rightarrow> string \<Rightarrow> clock list \<Rightarrow> 'm world \<Rightarrow> 'm world" where
  "failed_logins sv e ip [] w = w"
| "failed_logins sv e ip (ck # cks) w =
     failed_logins sv e ip cks (fst (failedLoginAttempt sv ck (Some e) (Some ip) None w))"

text \<open>The clocks follow one another, all of them inside one window that ends at \<open>T\<close>.\<close>

primrec clocks_within :: "time \<Rightarrow> time \<Rightarrow> int \<Rightarrow> clock list \<Rightarrow> bool" where
  "clocks_within start T period [] \<longleftrightarrow> start \<le> T"
| "clocks_within start T period (ck # cks) \<longleftrightarrow>
     start \<le> ck_fetch ck \<and> ck_fetch ck \<le> ck_check ck \<and> T - period < ck_check ck \<and>
     clocks_within (ck_check ck) T period cks"

lemma clocks_within_end: "clocks_within start T period cks \<Longrightarrow> start \<le> T"
  by (induction cks arbitrary: start) force+

lemma trim_hits_fresh_length:
  assumes "\<forall>h \<in> set hits. now - period < h"
  shows "length (trim_hits now period mx hits) = min (nat (mx + 1)) (length hits)"
  using assms by (simp add: trim_hits_spec window_spec_def takeWhile_eq_all_conv [THEN iffD2])

text \<open>What the cache holds for the pair after some of them: at least \<open>min k (max + 1)\<close> recent failures.\<close>

definition failures_stored ::
    "'m server \<Rightarrow> string \<Rightarrow> time \<Rightarrow> time \<Rightarrow> nat \<Rightarrow> 'm \<Rightarrow> bool" where
  "failures_stored sv key start T k m \<longleftrightarrow>
     (\<exists>r. (\<forall>t. start \<le> t \<and> t \<le> T \<longrightarrow> fetchRecord (sv_mc sv) m t key IpEmailRecord_parse = r) \<and>
        ie_rl r = None \<and> sorted (ie_lf r) \<and>
        (\<forall>h \<in> set (ie_lf r). T - rateLimitIntervalMs (sv_limits sv) < h \<and> h \<le> start) \<and>
        min k (nat (maxBadLogins (sv_limits sv) + 1)) \<le> length (ie_lf r))"

lemma failures_stored_step:
  assumes "memcached_ok (sv_mc sv)" "memcached_up (sv_mc sv)" "e \<noteq> []" "ip \<noteq> []" "ip \<noteq> normalizedEmail e"
    and stored: "failures_stored sv (ip @ normalizedEmail e) start T k (w_cache w)"
    and "start \<le> ck_fetch ck" "ck_fetch ck \<le> ck_check ck" "ck_check ck \<le> T"
    and "T - rateLimitIntervalMs (sv_limits sv) < ck_check ck"
  shows "failures_stored sv (ip @ normalizedEmail e) (ck_check ck) T (Suc k)
    (w_cache (fst (failedLoginAttempt sv ck (Some e) (Some ip) None w)))"
proof -
  let ?L = "sv_limits sv" and ?email = "normalizedEmail e"
  let ?key = "ip @ ?email" and ?now = "ck_check ck" and ?period = "rateLimitIntervalMs ?L"
  obtain r where r: "\<And>t. start \<le> t \<Longrightarrow> t \<le> T \<Longrightarrow> fetchRecord (sv_mc sv) (w_cache w) t ?key IpEmailRecord_parse = r"
    and rl: "ie_rl r = None" and ord: "sorted (ie_lf r)"
    and fresh: "\<forall>h \<in> set (ie_lf r). T - ?period < h \<and> h \<le> start"
    and len: "min k (nat (maxBadLogins ?L + 1)) \<le> length (ie_lf r)"
    using stored unfolding failures_stored_def by blast
  let ?hits = "trim_hits ?now ?period (maxBadLogins ?L) (ie_lf r)"
  let ?r = "IpEmailRecord_addBadLogin ?L ?now r"
  have r': "ie_lf ?r = ?hits @ [?now]" "ie_rl ?r = None"
    by (simp_all add: IpEmailRecord_addBadLogin_def IpEmailRecord_trimBadLogins_def Let_def rl)
  have email: "?email \<noteq> []" using assms(3) by (rule normalizedEmail_nonempty)
  obtain ipR emailR where set: "setRecords (sv_mc sv) (sv_recordLifetimeSeconds sv) (w_cache w) ?now
      [marshall_ip ?L ip ipR, marshall_email ?L ?email emailR, marshall_ip_email ?L ?key ?r]
      = (w_cache (fst (failedLoginAttempt sv ck (Some e) (Some ip) None w)), None)"
    using setRecords_up [OF assms(2)] assms(3,4,7,8,9) r [of "ck_fetch ck"]
    by (simp add: failedLoginAttempt_def Let_def case_prod_unfold del: setRecords.simps) (metis prod.collapse)
  have get: "fetchRecord (sv_mc sv) (w_cache (fst (failedLoginAttempt sv ck (Some e) (Some ip) None w)))
      t ?key IpEmailRecord_parse = ?r" if "?now \<le> t" "t \<le> T" for t
    using setRecords_get [OF assms(1) set, of "marshall_ip_email ?L ?key ?r" t] assms(4,5,10) email that
    by (simp add: marshall_ip_def marshall_email_def marshall_ip_email_def fetchRecord_def
        IpEmailRecord_getMinLifetimeMS_def IpEmailRecord_roundtrip less_max_iff_disj)
  have "set ?hits \<subseteq> set (ie_lf r)" using set_trim_hits by fastforce
  then have "sorted (ie_lf ?r)" "\<forall>h \<in> set (ie_lf ?r). T - ?period < h \<and> h \<le> ?now"
    using fresh sorted_trim_hits [OF ord] assms(7,8,10) by (fastforce simp: r' sorted_append)+
  moreover have "\<forall>h \<in> set (ie_lf r). ?now - ?period < h"
    using fresh assms(9) by force
  then have "min (Suc k) (nat (maxBadLogins ?L + 1)) \<le> length (ie_lf ?r)"
    using len by (simp add: r' trim_hits_fresh_length)
  ultimately show ?thesis
    unfolding failures_stored_def using get r'(2) by blast
qed

lemma failures_stored_all:
  assumes "memcached_ok (sv_mc sv)" "memcached_up (sv_mc sv)" "e \<noteq> []" "ip \<noteq> []" "ip \<noteq> normalizedEmail e"
  shows "failures_stored sv (ip @ normalizedEmail e) start T k (w_cache w) \<Longrightarrow>
    clocks_within start T (rateLimitIntervalMs (sv_limits sv)) cks \<Longrightarrow>
    \<exists>s \<le> T. failures_stored sv (ip @ normalizedEmail e) s T (k + length cks)
      (w_cache (failed_logins sv e ip cks w))"
proof (induction cks arbitrary: start k w)
  case Nil
  then show ?case by auto
next
  case (Cons ck cks)
  let ?w = "fst (failedLoginAttempt sv ck (Some e) (Some ip) None w)"
  have "failures_stored sv (ip @ normalizedEmail e) (ck_check ck) T (Suc k) (w_cache ?w)"
    using Cons.prems clocks_within_end [of "ck_check ck" T _ cks]
    by (intro failures_stored_step [OF assms]) auto
  then show ?case
    using Cons.IH [of "ck_check ck" "Suc k" ?w] Cons.prems by simp
qed

lemma EmailRecord_update_pr: "er_pr (fst (EmailRecord_update L now action u r)) = er_pr r"
  by (simp add: EmailRecord_update_def EmailRecord_countAction_def email_defs Let_def case_prod_unfold
      split: sum.split)

text \<open>
  C1: failed logins are remembered, while memcached is up. For a pair of an IP and an email address without
  a record so far, after more than \<open>maxBadLogins\<close> failed logins within \<open>rateLimitIntervalMs\<close>,
  reported in succession through /failedLoginAttempt, the next request of the pair that would
  check a password is blocked, unless a later password reset is on record or the request is on an
  allow list.
\<close>

theorem failed_logins_refuse:
  assumes "memcached_ok (sv_mc sv)" "memcached_up (sv_mc sv)" "e \<noteq> []" "ip \<noteq> []" "ip \<noteq> normalizedEmail e"
    and new: "\<And>t. getAsync (sv_mc sv) (w_cache w) t (ip @ normalizedEmail e) = Inr None"
    and cks: "clocks_within start T (rateLimitIntervalMs (sv_limits sv)) cks"
    and many: "maxBadLogins (sv_limits sv) < int (length cks)" "0 \<le> maxBadLogins (sv_limits sv)"
    and q: "cq_email q = Some e" "cq_ip q = Some ip" "cq_action q = Some action"
    and pw: "action \<in> set PASSWORD_CHECKING_ACTION"
    and T: "ck_fetch ck = T" "ck_check ck = T" "0 < T" "0 < rateLimitIntervalMs (sv_limits sv)"
    and pr: "case er_pr (request_email_record sv ck (normalizedEmail e)
        (w_cache (failed_logins sv e ip cks w))) of None \<Rightarrow> True | Some pr \<Rightarrow> pr \<le> T"
    and not_allowed: "\<not> isAllowed sv ip (Some (normalizedEmail e)) (truthy_string (cq_phoneNumber q))"
  shows "\<exists>w' r. check sv ck q (failed_logins sv e ip cks w) = (w', Reply r) \<and> cr_block r"
proof -
  let ?w = "failed_logins sv e ip cks w" and ?L = "sv_limits sv" and ?email = "normalizedEmail e"
  have "failures_stored sv (ip @ ?email) start T 0 (w_cache w)"
    unfolding failures_stored_def
    by (rule exI [of _ "\<lparr> ie_rl = None, ie_lf = [] \<rparr>"])
      (simp add: new fetchRecord_def IpEmailRecord_parse_def get_num_def get_nums_def)
  then obtain s where "s \<le> T" "failures_stored sv (ip @ ?email) s T (length cks) (w_cache ?w)"
    using failures_stored_all [OF assms(1-5) _ cks, of 0 w] by auto
  then obtain r where r: "request_ip_email_record sv ck ip ?email (w_cache ?w) = r"
    and rl: "ie_rl r = None" and ord: "sorted (ie_lf r)"
    and fresh: "\<forall>h \<in> set (ie_lf r). T - rateLimitIntervalMs ?L < h"
    and len: "maxBadLogins ?L < int (length (ie_lf r))"
    using many unfolding failures_stored_def request_ip_email_record_def T(1) by fastforce
  let ?over = "trim_hits T (rateLimitIntervalMs ?L) (maxBadLogins ?L) (ie_lf r)"
  have "maxBadLogins ?L < int (length ?over)"
    using trim_hits_fresh_length [of "ie_lf r" T "rateLimitIntervalMs ?L" "maxBadLogins ?L"] fresh len many(2)
    by auto
  moreover have "isPasswordCheckingAction action" using password_action_only [OF pw] by simp
  ultimately have upd: "IpEmailRecord_update ?L T action r =
      (IpEmailRecord_rateLimit T (r\<lparr>ie_lf := ?over\<rparr>),
       IpEmailRecord_retryAfter ?L T (IpEmailRecord_rateLimit T (r\<lparr>ie_lf := ?over\<rparr>)))"
    by (simp add: IpEmailRecord_update_def IpEmailRecord_shouldBlock_def
        IpEmailRecord_isRateLimited_def IpEmailRecord_isOverBadLogins_def
        IpEmailRecord_trimBadLogins_def rl within_def Let_def)
  have "0 < snd (IpEmailRecord_update ?L T action r)"
    unfolding upd using ip_email.wait_positive [OF T(3,4)] by simp
  moreover have "snd (IpEmailRecord_update ?L T action r) \<le>
      records_wait sv ck q ip ?email action (w_cache ?w)"
    using wait_ip_email [of sv ck action q ?email "w_cache ?w" ip] pr
    by (auto simp: r T(2) upd EmailRecord_update_pr IpEmailRecord_unblockIfReset_def
        IpEmailRecord_rateLimit_def split: option.splits)
  ultimately have "refusing sv ck q ip ?email action (w_cache ?w)"
    unfolding refusing_def by linarith
  then show ?thesis
    using assms(3,4) q pw not_allowed by (intro check_refused) (auto simp: PASSWORD_CHECKING_ACTION_def)
qed

theorem failed_logins_refuse_witness:
  "\<exists>w' r. check default_server (at_time 1600000040000) (login_request ''a@x.org'' ''10.0.0.1'')
     (failed_logins default_server ''a@x.org'' ''10.0.0.1''
       [at_time 1600000010000, at_time 1600000020000, at_time 1600000030000] empty_world) = (w', Reply r) \<and>
     cr_block r"
proof -
  let ?cks = "[at_time 1600000010000, at_time 1600000020000, at_time 1600000030000]"
  have pr: "case er_pr (request_email_record default_server (at_time 1600000040000) (normalizedEmail ''a@x.org'')
        (w_cache (failed_logins default_server ''a@x.org'' ''10.0.0.1'' ?cks empty_world))) of
      None \<Rightarrow> True | Some pr \<Rightarrow> pr \<le> 1600000040000"
    by code_simp
  have new: "\<And>t. getAsync (sv_mc default_server) (w_cache empty_world) t (''10.0.0.1'' @ normalizedEmail ''a@x.org'') = Inr None"
    by (simp add: table_cache_def table_get_def empty_world_def)
  have other: "''10.0.0.1'' \<noteq> normalizedEmail ''a@x.org''" by code_simp
  show ?thesis
    by (rule failed_logins_refuse [OF _ _ _ _ other new, where T = 1600000040000 and start = 0
          and action = "''accountLogin''"])
      (use pr in \<open>simp_all add: table_cache_ok table_cache_up default_nobody_allowed PASSWORD_CHECKING_ACTION_def\<close>)
qed

text \<open>
  Once a server has refreshed its limits from the cache, the \<open>disable\<close> and \<open>suspect\<close> flags
  that the fraud pipeline sets have no effect any more.
\<close>

theorem refreshed_limits_disarm:
  assumes "Settings_refresh mc Limits_class t m L = Inr L'"
  shows "\<not> IpRecord_isDisabled L' now ipR \<and> \<not> IpRecord_isSuspected L' now ipR \<and>
    \<not> EmailRecord_isDisabled L' now emailR \<and> \<not> EmailRecord_isSuspected L' now emailR"
  using limits.refresh_valid [OF assms]
  by (simp add: Limits_reloadable_def IpRecord_isDisabled_def IpRecord_isSuspected_def
      EmailRecord_isDisabled_def EmailRecord_isSuspected_def within_opt_def split: option.splits)

theorem refreshed_limits_disarm_witness:
  "\<exists>L'. Settings_refresh table_cache Limits_class 20 [(''limits'', Limits_toJSON default_limits, None)] default_limits = Inr L' \<and>
    IpRecord_isDisabled default_limits 1600000050000 (IpRecord_disable 1600000000000 (IpRecord_parse None)) \<and>
    \<not> IpRecord_isDisabled L' 1600000050000 (IpRecord_disable 1600000000000 (IpRecord_parse None))"
proof -
  have refresh: "Settings_refresh table_cache Limits_class 20
      [(''limits'', Limits_toJSON default_limits, None)] default_limits =
      Inr (default_limits\<lparr>suspectIntervalMs := None, disableIntervalMs := None\<rparr>)"
    using Limits_setAll_own [OF default_limits_derived]
    by (simp add: Settings_refresh_def Limits_class_def Limits_validate_other table_cache_def table_get_def)
  moreover have "IpRecord_isDisabled default_limits 1600000050000 (IpRecord_disable 1600000000000 (IpRecord_parse None))"
    by (simp add: ip_defs within_opt_def within_def default_limits_def)
  ultimately show ?thesis
    using refreshed_limits_disarm [OF refresh] by blast
qed

end
