(* ===== verification/Dataflow.thy ===== *)
theory Dataflow
  imports Customs_Scenarios
begin

text \<open>
  \<open>lib/dataflow.js\<close>: messages of the fraud detection pipeline that suspect, block or disable an
  email or IP record. The text of a message is turned into a JSON value by the argument
  \<open>parse\<close>, and a timestamp into milliseconds by the argument \<open>date\<close> (\<open>None\<close> is \<open>NaN\<close>).
\<close>

definition VALID_ACTIONS :: "string list" where
  "VALID_ACTIONS = [''report'', ''suspect'', ''block'', ''disable'']"

datatype record_type = EmailType | IpType

text \<open>The keys of \<open>TYPES\<close> and \<open>RECORD_TYPES\<close> are the same.\<close>

definition indicator_types :: "(string \<times> record_type) list" where
  "indicator_types = [(''email'', EmailType), (''sourceaddress'', IpType)]"

record dataflow_config =
  df_enabled :: bool
  df_projectId :: "string option"
  df_subscriptionName :: "string option"
  df_ignoreOlderThan :: int
  df_reportOnly :: bool

datatype dataflow_start = Disabled | MissingOption string | Subscribed string string

definition dataflow_init :: "dataflow_config \<Rightarrow> dataflow_start" where
  "dataflow_init cfg =
     (if \<not> df_enabled cfg then Disabled
      else case truthy_string (df_projectId cfg) of
             None \<Rightarrow> MissingOption ''dataflow.gcpPubSub.projectId''
           | Some project \<Rightarrow>
               (case truthy_string (df_subscriptionName cfg) of
                  None \<Rightarrow> MissingOption ''dataflow.gcpPubSub.subscriptionName''
                | Some subscription \<Rightarrow> Subscribed project subscription))"

record dataflow_message =
  dm_data :: "string option" \<comment> \<open>\<open>None\<close>: not a buffer\<close>
  dm_publishTime :: "jsval option"

record dataflow_action =
  da_suggested_action :: string
  da_type :: record_type
  da_indicator :: string
  da_timestamp :: "jsval option"

definition assertAction :: "jsval \<Rightarrow> dataflow_action option" where
  "assertAction action =
     (case action of
        JNull \<Rightarrow> None
      | _ \<Rightarrow>
          (let get = map_of (js_fields (Some action))
           in case (get ''suggested_action'', get ''indicator_type'', get ''indicator'') of
                (Some (JStr suggested), Some (JStr type), Some (JStr indicator)) \<Rightarrow>
                  if suggested \<in> set VALID_ACTIONS \<and> indicator \<noteq> [] then
                    map_option (\<lambda>ty. \<lparr> da_suggested_action = suggested, da_type = ty,
                        da_indicator = indicator, da_timestamp = get ''timestamp'' \<rparr>)
                      (map_of indicator_types type)
                  else None
              | _ \<Rightarrow> None))"

definition parseMessage :: "(string \<Rightarrow> jsval option) \<Rightarrow> dataflow_message \<Rightarrow> dataflow_action option" where
  "parseMessage parse message =
     Option.bind (dm_data message) (\<lambda>text. Option.bind (parse text) assertAction)"

definition isFresh :: "dataflow_config \<Rightarrow> (jsval option \<Rightarrow> time option) \<Rightarrow> time \<Rightarrow> jsval option \<Rightarrow> bool" where
  "isFresh cfg date now timestamp =
     (if 0 < df_ignoreOlderThan cfg
      then (case date timestamp of None \<Rightarrow> False | Some t \<Rightarrow> now - df_ignoreOlderThan cfg < t)
      else True)"

text \<open>\<open>records[recordType][suggested_action]()\<close>; any other method name is not one of the valid actions.\<close>

definition act_on_email :: "string \<Rightarrow> time \<Rightarrow> email_record \<Rightarrow> email_record" where
  "act_on_email suggested now r =
     (if suggested = ''suspect'' then EmailRecord_suspect now r
      else if suggested = ''block'' then EmailRecord_block now r
      else if suggested = ''disable'' then EmailRecord_disable now r else r)"

definition act_on_ip :: "string \<Rightarrow> time \<Rightarrow> ip_record \<Rightarrow> ip_record" where
  "act_on_ip suggested now r =
     (if suggested = ''suspect'' then IpRecord_suspect now r
      else if suggested = ''block'' then IpRecord_block now r
      else if suggested = ''disable'' then IpRecord_disable now r else r)"

text \<open>What is logged for a message; all but \<open>MessageError\<close> acknowledge it.\<close>

datatype dataflow_op = MessageReport | MessageSuccess | MessageIgnore | MessageError | MessageErrorOld

definition acked :: "dataflow_op \<Rightarrow> bool" where
  "acked op \<longleftrightarrow> op \<noteq> MessageError"

definition message_error ::
    "dataflow_config \<Rightarrow> (jsval option \<Rightarrow> time option) \<Rightarrow> time \<Rightarrow> dataflow_message \<Rightarrow> dataflow_op" where
  "message_error cfg date now message =
     (if isFresh cfg date now (dm_publishTime message) then MessageError else MessageErrorOld)"

definition store_action ::
    "'m server \<Rightarrow> clock \<Rightarrow> dataflow_action \<Rightarrow> 'm \<Rightarrow> 'm \<times> string option" where
  "store_action sv ck action m =
     (let L = sv_limits sv; key = da_indicator action; now = ck_check ck;
          set = setRecord (sv_mc sv) (sv_recordLifetimeSeconds sv) m now
      in case da_type action of
           EmailType \<Rightarrow>
             set (marshall_email L key (act_on_email (da_suggested_action action) now
                    (fetchRecord (sv_mc sv) m (ck_fetch ck) key EmailRecord_parse)))
         | IpType \<Rightarrow>
             set (marshall_ip L key (act_on_ip (da_suggested_action action) now
                    (fetchRecord (sv_mc sv) m (ck_fetch ck) key IpRecord_parse))))"

definition handleMessage ::
    "'m server \<Rightarrow> dataflow_config \<Rightarrow> (string \<Rightarrow> jsval option) \<Rightarrow> (jsval option \<Rightarrow> time option) \<Rightarrow>
     clock \<Rightarrow> dataflow_message \<Rightarrow> 'm \<Rightarrow> 'm \<times> dataflow_op" where
  "handleMessage sv cfg parse date ck message m =
     (case parseMessage parse message of
        None \<Rightarrow> (m, message_error cfg date (ck_check ck) message)
      | Some action \<Rightarrow>
          if df_reportOnly cfg \<or> da_suggested_action action = ''report'' then (m, MessageReport)
          else if isFresh cfg date (ck_fetch ck) (da_timestamp action) then
            (case store_action sv ck action m of
               (m', None) \<Rightarrow> (m', MessageSuccess)
             | (m', Some err) \<Rightarrow> (m', message_error cfg date (ck_check ck) message))
          else (m, MessageIgnore))"

section \<open>Guarantees\<close>

text \<open>
  The queue drains. A message that has become older than \<open>ignoreOlderThan\<close> is acknowledged,
  whatever it contains and whatever the cache does.
\<close>

theorem old_message_acked:
  assumes "0 < df_ignoreOlderThan cfg" "date (dm_publishTime message) = Some t"
    and "t \<le> ck_check ck - df_ignoreOlderThan cfg"
  shows "acked (snd (handleMessage sv cfg parse date ck message m))"
  using assms by (auto simp: handleMessage_def acked_def message_error_def isFresh_def
      split: option.splits prod.splits)

theorem old_message_acked_witness:
  "acked (snd (handleMessage default_server
     \<lparr> df_enabled = True, df_projectId = None, df_subscriptionName = None, df_ignoreOlderThan = 1000,
       df_reportOnly = False \<rparr> (\<lambda>_. None) (\<lambda>v. Option.bind v num_of) (at_time 5000)
     \<lparr> dm_data = None, dm_publishTime = Some (JNum 3000) \<rparr> []))"
  by (rule old_message_acked [where t = 3000]) simp_all

lemma report_only_harmless:
  assumes "df_reportOnly cfg"
  shows "fst (handleMessage sv cfg parse date ck message m) = m"
  using assms by (simp add: handleMessage_def split: option.split)

lemma dataflow_block_stored:
  assumes "memcached_ok (sv_mc sv)"
    and "handleMessage sv cfg parse date ck0 message m = (m', MessageSuccess)"
    and "parseMessage parse message = Some action" "da_suggested_action action = ''block''"
    and "da_type action = EmailType"
    and "ck_check ck0 \<le> ck_fetch ck" "ck_fetch ck < ck_check ck0 + blockIntervalMs (sv_limits sv)"
  shows "request_email_record sv ck (da_indicator action) m' =
    EmailRecord_block (ck_check ck0) (request_email_record sv ck0 (da_indicator action) m)"
proof -
  have "store_action sv ck0 action m = (m', None)"
    using assms(2-4) by (auto simp: handleMessage_def message_error_def split: if_splits option.splits prod.splits)
  then have "setRecord (sv_mc sv) (sv_recordLifetimeSeconds sv) m (ck_check ck0)
      (marshall_email (sv_limits sv) (da_indicator action)
        (EmailRecord_block (ck_check ck0) (request_email_record sv ck0 (da_indicator action) m)))
      = (m', None)"
    by (simp add: store_action_def assms(4,5) act_on_email_def request_email_record_def Let_def)
  then show ?thesis
    unfolding request_email_record_def [of sv ck]
    by (rule email_store.fetch_after_set [OF assms(1)])
      (use assms(6,7) in \<open>auto simp: EmailRecord_getMinLifetimeMS_def\<close>)
qed

text \<open>
  An email address in normal form that the fraud pipeline blocks is refused by every /check of
  the ban interval, unless the request is on an allow list.
\<close>

theorem dataflow_block_refused:
  assumes "memcached_ok (sv_mc sv)"
    and "handleMessage sv cfg parse date ck0 message (w_cache w) = (m', MessageSuccess)"
    and "parseMessage parse message = Some action" "da_suggested_action action = ''block''"
    and "da_type action = EmailType" "da_indicator action = normalizedEmail e"
    and "0 < ck_check ck0" "ck_check ck0 \<le> ck_fetch ck"
    and "ck_fetch ck \<le> ck_check ck" "ck_check ck < ck_check ck0 + blockIntervalMs (sv_limits sv)"
    and "cq_email q = Some e" "e \<noteq> []" "cq_ip q = Some ip" "ip \<noteq> []"
    and "cq_action q = Some a" "a \<noteq> []"
    and "\<not> isAllowed sv ip (Some (normalizedEmail e)) (truthy_string (cq_phoneNumber q))"
  shows "\<exists>w' r. check sv ck q (w\<lparr>w_cache := m'\<rparr>) = (w', Reply r) \<and> cr_block r"
proof -
  have "request_email_record sv ck (normalizedEmail e) m' =
      EmailRecord_block (ck_check ck0) (request_email_record sv ck0 (normalizedEmail e) (w_cache w))"
    using dataflow_block_stored [OF assms(1-5), of ck] assms(6-10) by simp
  then have "refusing sv ck q ip (normalizedEmail e) a (w_cache (w\<lparr>w_cache := m'\<rparr>))"
    using email_ban.limited_throughout [OF assms(7,10)] wait_email [of sv ck a q "normalizedEmail e" m' ip]
    by (simp add: refusing_def EmailRecord_update_blocked) (meson less_le_trans)
  then show ?thesis
    using assms by (intro check_refused) auto
qed

definition example_message :: dataflow_message where
  "example_message = \<lparr> dm_data = Some [], dm_publishTime = None \<rparr>"

definition example_parse :: "string \<Rightarrow> string \<Rightarrow> jsval option" where
  "example_parse email text = Some (JObj [(''suggested_action'', JStr ''block''),
     (''indicator_type'', JStr ''email''), (''indicator'', JStr email)])"

definition example_dataflow :: dataflow_config where
  "example_dataflow = \<lparr> df_enabled = True, df_projectId = Some ''p'', df_subscriptionName = Some ''s'',
     df_ignoreOlderThan = 0, df_reportOnly = False \<rparr>"

lemma example_action:
  "email \<noteq> [] \<Longrightarrow> parseMessage (example_parse email) example_message =
     Some \<lparr> da_suggested_action = ''block'', da_type = EmailType, da_indicator = email, da_timestamp = None \<rparr>"
  by (simp add: parseMessage_def example_message_def example_parse_def assertAction_def VALID_ACTIONS_def
      indicator_types_def)

lemma example_handled:
  assumes "email \<noteq> []"
  obtains m' where "handleMessage default_server example_dataflow (example_parse email) (\<lambda>_. None)
      (at_time 1600000000000) example_message (w_cache empty_world) = (m', MessageSuccess)"
  using assms by (simp add: handleMessage_def example_action isFresh_def example_dataflow_def
      store_action_def setRecord_def table_cache_def table_set_def Let_def)

theorem dataflow_block_refused_witness:
  "\<exists>m' w' r. check default_server (at_time 1600000050000) (login_request ''a@x.org'' ''10.0.0.1'')
     (empty_world\<lparr>w_cache := m'\<rparr>) = (w', Reply r) \<and> cr_block r"
proof -
  obtain m' where handled: "handleMessage default_server example_dataflow (example_parse ''a@x.org'') (\<lambda>_. None)
      (at_time 1600000000000) example_message (w_cache empty_world) = (m', MessageSuccess)"
    by (rule example_handled [of "''a@x.org''"]) simp
  have "normalizedEmail ''a@x.org'' = ''a@x.org''" by code_simp
  then have "\<exists>w' r. check default_server (at_time 1600000050000) (login_request ''a@x.org'' ''10.0.0.1'')
      (empty_world\<lparr>w_cache := m'\<rparr>) = (w', Reply r) \<and> cr_block r"
    using default_nobody_allowed
    by (intro dataflow_block_refused [where e = "''a@x.org''" and a = "''accountLogin''",
          OF _ handled example_action])
      (simp_all add: table_cache_ok)
  then show ?thesis by blast
qed

text \<open>
  The pipeline does not normalise addresses. Acting on an address that is not in normal form
  leaves the record that /check reads for it as it was.
\<close>

theorem dataflow_not_normalised:
  assumes "memcached_ok (sv_mc sv)"
    and "handleMessage sv cfg parse date ck0 message m = (m', op)" "op = MessageSuccess"
    and "parseMessage parse message = Some action" "da_suggested_action action \<noteq> ''report''"
    and "da_type action = EmailType" "da_indicator action \<noteq> normalizedEmail e"
  shows "request_email_record sv ck (normalizedEmail e) m' = request_email_record sv ck (normalizedEmail e) m"
proof -
  have store: "m' = m \<or> store_action sv ck0 action m = (m', None)"
    using assms(2-5) by (auto simp: handleMessage_def message_error_def split: if_splits option.splits prod.splits)
  show ?thesis
  proof (cases "m' = m")
    case False
    then have "setRecord (sv_mc sv) (sv_recordLifetimeSeconds sv) m (ck_check ck0)
        (marshall_email (sv_limits sv) (da_indicator action)
          (act_on_email (da_suggested_action action) (ck_check ck0)
            (fetchRecord (sv_mc sv) m (ck_fetch ck0) (da_indicator action) EmailRecord_parse)))
        = (m', None)"
      using store by (simp add: store_action_def assms(6) Let_def)
    then show ?thesis
      unfolding request_email_record_def
      by (rule email_store.fetch_other [OF assms(1)]) (use assms(7) in auto)
  qed simp
qed

theorem dataflow_not_normalised_witness:
  "\<exists>m'. handleMessage default_server example_dataflow (example_parse ''A@x.org'') (\<lambda>_. None)
      (at_time 1600000000000) example_message (w_cache empty_world) = (m', MessageSuccess) \<and>
     request_email_record default_server (at_time 1600000050000) (normalizedEmail ''A@x.org'') m' =
     request_email_record default_server (at_time 1600000050000) (normalizedEmail ''A@x.org'') (w_cache empty_world)"
proof -
  obtain m' where handled: "handleMessage default_server example_dataflow (example_parse ''A@x.org'') (\<lambda>_. None)
      (at_time 1600000000000) example_message (w_cache empty_world) = (m', MessageSuccess)"
    by (rule example_handled [of "''A@x.org''"]) simp
  have "''A@x.org'' \<noteq> normalizedEmail ''A@x.org''" by code_simp
  then have "request_email_record default_server (at_time 1600000050000) (normalizedEmail ''A@x.org'') m' =
     request_email_record default_server (at_time 1600000050000) (normalizedEmail ''A@x.org'') (w_cache empty_world)"
    by (intro dataflow_not_normalised [OF _ handled _ example_action]) (simp_all add: table_cache_ok)
  then show ?thesis using handled by blast
qed

end
