(* ===== verification/Customs_Sequences.thy ===== *)
theory Customs_Sequences
  imports Customs_Scenarios
begin

text \<open>
  Sequences of requests to the customs server: the handlers run one after the other, each with a clock of
  its own, and a ban that was stored at some moment is found by every later request until it ends. No
  request lifts it.
\<close>

section \<open>Requests one after the other\<close>

text \<open>The requests that reach the records, with the parameters that their handlers read.\<close>

datatype customs_call =
    CallCheck check_request
  | CallCheckAuthenticated "string option" "string option" "string option"
  | CallCheckIpOnly "string option" "string option"
  | CallFailedLoginAttempt "string option" "string option" "int option"
  | CallPasswordReset "string option"
  | CallBlockEmail "string option"
  | CallBlockIp "string option"

fun serve :: "'m server \<Rightarrow> clock \<Rightarrow> customs_call \<Rightarrow> 'm world \<Rightarrow> 'm world" where
  "serve sv ck (CallCheck q) w = fst (check sv ck q w)"
| "serve sv ck (CallCheckAuthenticated action ip uid) w = fst (checkAuthenticated sv ck action ip uid w)"
| "serve sv ck (CallCheckIpOnly action ip) w = fst (checkIpOnly sv ck action ip w)"
| "serve sv ck (CallFailedLoginAttempt email ip errno) w = fst (failedLoginAttempt sv ck email ip errno w)"
| "serve sv ck (CallPasswordReset email) w = fst (passwordReset sv ck email w)"
| "serve sv ck (CallBlockEmail email) w = fst (blockEmail sv ck email w)"
| "serve sv ck (CallBlockIp ip) w = fst (blockIp sv ck ip w)"

fun serve_all :: "'m server \<Rightarrow> (clock \<times> customs_call) list \<Rightarrow> 'm world \<Rightarrow> 'm world" where
  "serve_all sv [] w = w"
| "serve_all sv ((ck, c) # cs) w = serve_all sv cs (serve sv ck c w)"

text \<open>The clocks follow one another between two moments.\<close>

fun in_order :: "time \<Rightarrow> (clock \<times> customs_call) list \<Rightarrow> time \<Rightarrow> bool" where
  "in_order start [] stop \<longleftrightarrow> start \<le> stop"
| "in_order start ((ck, c) # cs) stop \<longleftrightarrow>
     start \<le> ck_fetch ck \<and> ck_fetch ck \<le> ck_check ck \<and> in_order (ck_check ck) cs stop"

lemma in_order_end: "in_order start cs stop \<Longrightarrow> start \<le> stop"
  by (induction start cs stop rule: in_order.induct) auto

section \<open>The keys of the records that a request writes\<close>

definition rule_keys :: "'m server \<Rightarrow> string \<Rightarrow> string \<Rightarrow> string list" where
  "rule_keys sv email ip = map (\<lambda>(name, _). name @ '':'' @ createHashHex (sv_sha256 sv) [email, ip]) (sv_rules sv)"

definition opt_list :: "'a option \<Rightarrow> 'a list" where
  "opt_list x = (case x of None \<Rightarrow> [] | Some y \<Rightarrow> [y])"

lemma set_opt_list [simp]: "set (opt_list x) = set_option x"
  by (cases x) (simp_all add: opt_list_def)

fun ip_keys :: "customs_call \<Rightarrow> string list" where
  "ip_keys (CallCheck q) = opt_list (truthy_string (cq_ip q))"
| "ip_keys (CallCheckIpOnly action ip) = opt_list (truthy_string ip)"
| "ip_keys (CallFailedLoginAttempt email ip errno) = opt_list (truthy_string ip)"
| "ip_keys (CallBlockIp ip) = opt_list (truthy_string ip)"
| "ip_keys _ = []"

fun email_keys :: "customs_call \<Rightarrow> string list" where
  "email_keys (CallCheck q) = opt_list (map_option normalizedEmail (truthy_string (cq_email q)))"
| "email_keys (CallFailedLoginAttempt email ip errno) = opt_list (map_option normalizedEmail (truthy_string email))"
| "email_keys (CallPasswordReset email) = opt_list (map_option normalizedEmail (truthy_string email))"
| "email_keys (CallBlockEmail email) = opt_list (map_option normalizedEmail (truthy_string email))"
| "email_keys _ = []"

text \<open>The records of pairs, phone numbers, accounts and rules.\<close>

fun further_keys :: "'m server \<Rightarrow> customs_call \<Rightarrow> string list" where
  "further_keys sv (CallCheck q) =
     concat (map (\<lambda>ip. concat (map (\<lambda>email. (ip @ email) # rule_keys sv email ip) (email_keys (CallCheck q))))
       (ip_keys (CallCheck q))) @ opt_list (truthy_string (cq_phoneNumber q))"
| "further_keys sv (CallCheckAuthenticated action ip uid) = opt_list (truthy_string uid)"
| "further_keys sv (CallFailedLoginAttempt email ip errno) =
     concat (map (\<lambda>i. map (\<lambda>e. i @ e) (email_keys (CallFailedLoginAttempt email ip errno)))
       (ip_keys (CallFailedLoginAttempt email ip errno)))"
| "further_keys sv _ = []"

section \<open>What a request writes\<close>

text \<open>An update keeps a ban that is in force, or starts a new one.\<close>

definition keeps_ban :: "bool \<Rightarrow> time \<Rightarrow> time option \<Rightarrow> time option \<Rightarrow> bool" where
  "keeps_ban banned now old new \<longleftrightarrow> (banned \<longrightarrow> new = old \<or> new = Some now)"

definition written :: "'m server \<Rightarrow> clock \<Rightarrow> customs_call \<Rightarrow> 'm \<Rightarrow> marshalled \<Rightarrow> bool" where
  "written sv ck c m r \<longleftrightarrow>
     (\<exists>ip x. ip \<in> set (ip_keys c) \<and> r = marshall_ip (sv_limits sv) ip x \<and>
        keeps_ban (IpRecord_isBlocked (sv_limits sv) (ck_check ck) (request_ip_record sv ck ip m)) (ck_check ck)
          (ip_bk (request_ip_record sv ck ip m)) (ip_bk x)) \<or>
     (\<exists>email x. email \<in> set (email_keys c) \<and> r = marshall_email (sv_limits sv) email x \<and>
        keeps_ban (EmailRecord_isBlocked (sv_limits sv) (ck_check ck) (request_email_record sv ck email m)) (ck_check ck)
          (er_bk (request_email_record sv ck email m)) (er_bk x)) \<or>
     ma_key r \<in> set (further_keys sv c)"

lemma setRecords_up_other:
  assumes "memcached_ok mc" "memcached_up mc" "key \<notin> ma_key ` set rs"
  shows "getAsync mc (fst (setRecords mc life m now rs)) t key = getAsync mc m t key"
  using setRecords_other [OF assms(1) _ assms(3), of life m now "fst (setRecords mc life m now rs)"]
    setRecords_up [OF assms(2)] by (simp add: prod_eq_iff del: setRecords.simps)

text \<open>The rules write to their own records.\<close>

lemma run_rules_other:
  assumes "memcached_ok (sv_mc sv)" "memcached_up (sv_mc sv)" "key \<notin> set (rule_keys sv email ip)"
  shows "getAsync (sv_mc sv) (fst (run_rules (sv_mc sv) life (sv_sha256 sv) (sv_rules sv) m t t' action email ip names)) s key =
    getAsync (sv_mc sv) m s key"
proof (induction names arbitrary: m)
  case (Cons name names)
  show ?case
  proof (cases "map_of (sv_rules sv) name")
    case (Some cfg)
    let ?key = "name @ '':'' @ createHashHex (sv_sha256 sv) [email, ip]"
    let ?r = "marshall_rule cfg ?key (fst (Record_update cfg t' action (fetchRecord (sv_mc sv) m t ?key Record_new)))"
    have "key \<notin> ma_key ` set [?r]" using assms(3) map_of_SomeD [OF Some] by (force simp: rule_keys_def marshall_rule_def)
    from setRecords_up_other [OF assms(1,2) this, of life m t' s] show ?thesis
      using Cons.IH [of "fst (setRecords (sv_mc sv) life m t' [?r])"] Some
      by (simp add: Let_def case_prod_unfold del: setRecords.simps)
  qed simp
qed simp

lemma rules_other:
  assumes "memcached_ok (sv_mc sv)" "memcached_up (sv_mc sv)" "key \<notin> set (rule_keys sv email ip)"
  shows "getAsync (sv_mc sv) (fst (checkUserDefinedRateLimitRules (sv_mc sv) life (sv_sha256 sv) (sv_rules sv) tab m
      t t' result action email ip)) s key = getAsync (sv_mc sv) m s key"
  using run_rules_other [OF assms, of life m t t' action _ s]
  by (simp add: checkUserDefinedRateLimitRules_def Let_def case_prod_unfold split: option.split rule_entry.split)

text \<open>No update of a record lifts a ban.\<close>

lemma IpRecord_addBadLogin_bk [simp]: "ip_bk (IpRecord_addBadLogin L now email errno r) = ip_bk r"
  by (simp add: ip_defs Let_def)

lemma IpRecord_isOverBadLogins_bk [simp]: "ip_bk (fst (IpRecord_isOverBadLogins L now r)) = ip_bk r"
  by (simp add: ip_defs Let_def)

lemma EmailRecord_canUnblock_bk [simp]: "er_bk (fst (EmailRecord_canUnblock L now r)) = er_bk r"
  by (simp add: email_defs Let_def)

lemma EmailRecord_addBadLogin_bk [simp]: "er_bk (EmailRecord_addBadLogin L now r) = er_bk r"
  by (simp add: email_defs Let_def)

lemma bans_bk [simp]: "ip_bk (IpRecord_block now r) = Some now" "er_bk (EmailRecord_block now e) = Some now"
  "er_bk (EmailRecord_passwordReset now e) = er_bk e"
  by (simp_all add: IpRecord_block_def EmailRecord_block_def EmailRecord_passwordReset_def)

lemma marshall_keys [simp]:
  "ma_key (marshall_ip L key a) = key" "ma_key (marshall_email L key b) = key" "ma_key (marshall_ip_email L key c) = key"
  "ma_key (marshall_sms L key d) = key" "ma_key (marshall_uid L key e) = key"
  by (simp_all add: marshall_ip_def marshall_email_def marshall_ip_email_def marshall_sms_def marshall_uid_def)

lemma checkRecords_writes:
  assumes "ip \<in> set (ip_keys (CallCheck q))" "email \<in> set (email_keys (CallCheck q))"
    and "ipR = request_ip_record sv ck ip m" "emailR = request_email_record sv ck email m"
  shows "\<exists>rs. fst (checkRecords sv (ck_check ck) q ip email action m ipR rep emailR ipEmailR smsR) =
      fst (setRecords (sv_mc sv) (sv_recordLifetimeSeconds sv) m (ck_check ck) rs) \<and>
    (\<forall>r \<in> set rs. written sv ck (CallCheck q) m r)"
proof -
  let ?L = "sv_limits sv" and ?now = "ck_check ck" and ?u = "truthy_string (cq_unblockCode q) \<noteq> None"
  let ?none = "fst (setRecords (sv_mc sv) (sv_recordLifetimeSeconds sv) m ?now [])"
  show ?thesis
  proof (cases "IpRecord_isBlocked ?L ?now ipR \<or> IpRecord_isDisabled ?L ?now ipR \<or> in_blocklist sv ip = None")
    case True
    then have "fst (checkRecords sv ?now q ip email action m ipR rep emailR ipEmailR smsR) = ?none"
      by (auto simp: checkRecords_def Let_def case_prod_unfold)
    then show ?thesis by (intro exI [of _ "[]"]) simp
  next
    case False
    then obtain listed where listed: "in_blocklist sv ip = Some listed" by auto
    define up where "up = updateRecords ?L ?now action email ?u ipR emailR ipEmailR smsR"
    let ?rs = "[marshall_ip ?L ip (fst up), marshall_email ?L email (fst (EmailRecord_canUnblock ?L ?now (fst (snd up)))),
        marshall_ip_email ?L (ip @ email) (fst (snd (snd up)))] @
        (case (truthy_string (cq_phoneNumber q), fst (snd (snd (snd up)))) of
           (Some phone, Some r) \<Rightarrow> [marshall_sms ?L phone r] | _ \<Rightarrow> [])"
    have e: "fst (snd up) = fst (EmailRecord_update ?L ?now action ?u emailR)"
      by (simp add: up_def updateRecords_def Let_def case_prod_unfold)
    have "fst (checkRecords sv ?now q ip email action m ipR rep emailR ipEmailR smsR) =
        fst (setRecords (sv_mc sv) (sv_recordLifetimeSeconds sv) m ?now ?rs)"
      using False listed by (simp add: checkRecords_def Let_def case_prod_unfold up_def del: setRecords.simps)
    moreover have "written sv ck (CallCheck q) m (marshall_ip ?L ip (fst up))"
      using assms(1,3) False by (auto simp: written_def keeps_ban_def)
    moreover have "written sv ck (CallCheck q) m
        (marshall_email ?L email (fst (EmailRecord_canUnblock ?L ?now (fst (snd up)))))"
      using assms(2,4) unfolding written_def e
      by (intro disjI2 disjI1 exI conjI) (auto simp: keeps_ban_def EmailRecord_update_blocked)
    moreover have "written sv ck (CallCheck q) m (marshall_ip_email ?L (ip @ email) (fst (snd (snd up))))"
      using assms(1,2) by (force simp: written_def)
    moreover have "\<forall>r \<in> set (case (truthy_string (cq_phoneNumber q), fst (snd (snd (snd up)))) of
           (Some phone, Some r) \<Rightarrow> [marshall_sms ?L phone r] | _ \<Rightarrow> []). written sv ck (CallCheck q) m r"
      by (auto simp: written_def split: option.splits)
    ultimately show ?thesis by (intro exI [of _ ?rs]) (auto simp del: setRecords.simps)
  qed
qed

text \<open>
  What a request leaves in the cache: a list of records, each of which keeps a ban, apart from the
  records of rules.
\<close>

definition leaves :: "'m server \<Rightarrow> clock \<Rightarrow> customs_call \<Rightarrow> 'm world \<Rightarrow> 'm world \<Rightarrow> bool" where
  "leaves sv ck c w w' \<longleftrightarrow>
     (\<exists>rs. (\<forall>r \<in> set rs. written sv ck c (w_cache w) r) \<and>
        (\<forall>t key. key \<notin> set (further_keys sv c) \<longrightarrow> getAsync (sv_mc sv) (w_cache w') t key =
           getAsync (sv_mc sv) (fst (setRecords (sv_mc sv) (sv_recordLifetimeSeconds sv) (w_cache w) (ck_check ck) rs)) t key))"

lemma leaves_nothing: "w_cache w' = w_cache w \<Longrightarrow> leaves sv ck c w w'"
  unfolding leaves_def by (intro exI [of _ "[]"]) simp

lemma leaves_records:
  assumes "w_cache w' = fst (setRecords (sv_mc sv) (sv_recordLifetimeSeconds sv) (w_cache w) (ck_check ck) rs)"
    and "\<forall>r \<in> set rs. written sv ck c (w_cache w) r"
  shows "leaves sv ck c w w'"
  unfolding leaves_def using assms by (intro exI [of _ rs]) simp

lemma report_cache [simp]: "w_cache (sv_report sv ip v w) = w_cache w" "w_cache (optionallyReportIp sv res ip a w) = w_cache w"
  by (simp_all add: sv_report_def optionallyReportIp_def)

lemma check_leaves:
  assumes "memcached_ok (sv_mc sv)" "memcached_up (sv_mc sv)"
  shows "leaves sv ck (CallCheck q) w (fst (check sv ck q w))"
proof (cases "truthy_string (cq_email q) \<noteq> None \<and> truthy_string (cq_ip q) \<noteq> None \<and> truthy_string (cq_action q) \<noteq> None")
  case True
  then obtain e ip action where q: "cq_email q = Some e" "cq_ip q = Some ip" "cq_action q = Some action"
    "e \<noteq> []" "ip \<noteq> []" "action \<noteq> []"
    by (auto simp: truthy_string_eq)
  let ?email = "normalizedEmail e" and ?m = "w_cache w"
  have email: "?email \<noteq> []" using q(4) by (rule normalizedEmail_nonempty)
  have keys: "ip \<in> set (ip_keys (CallCheck q))" "?email \<in> set (email_keys (CallCheck q))"
    "set (rule_keys sv ?email ip) \<subseteq> set (further_keys sv (CallCheck q))"
    using q by auto
  define res where "res = checkRecords sv (ck_check ck) q ip ?email action ?m (request_ip_record sv ck ip ?m)
      (rep_get (sv_reputation sv) (sv_client sv) ip) (request_email_record sv ck ?email ?m)
      (request_ip_email_record sv ck ip ?email ?m)
      (map_option (\<lambda>p. fetchRecord (sv_mc sv) ?m (ck_fetch ck) p SMSRecord_parse) (truthy_string (cq_phoneNumber q)))"
  have "\<exists>rs. fst res = fst (setRecords (sv_mc sv) (sv_recordLifetimeSeconds sv) ?m (ck_check ck) rs) \<and>
      (\<forall>r \<in> set rs. written sv ck (CallCheck q) ?m r)"
    unfolding res_def by (rule checkRecords_writes [OF keys(1,2) refl refl])
  then obtain rs where rs: "fst res = fst (setRecords (sv_mc sv) (sv_recordLifetimeSeconds sv) ?m (ck_check ck) rs)"
    "\<forall>r \<in> set rs. written sv ck (CallCheck q) ?m r"
    by blast
  have "w_cache (fst (check sv ck q w)) = fst (check_stages sv ck q ip ?email action ?m)"
    unfolding check_complete [OF q] by (simp add: Let_def split: prod.split sum.split)
  moreover have "getAsync (sv_mc sv) (fst (check_stages sv ck q ip ?email action ?m)) t key = getAsync (sv_mc sv) (fst res) t key"
    if "key \<notin> set (further_keys sv (CallCheck q))" for t key
  proof -
    have "key \<notin> set (rule_keys sv ?email ip)" using that keys(3) by blast
    from rules_other [OF assms this] show ?thesis
      unfolding check_stages_records [OF q(5) email] res_def [symmetric] by (simp split: prod.split sum.split)
  qed
  ultimately show ?thesis unfolding leaves_def using rs by metis
next
  case False
  then show ?thesis by (intro leaves_nothing) (auto simp: check_def split: option.split)
qed

lemma checkIpOnly_leaves: "leaves sv ck (CallCheckIpOnly action ip) w (fst (checkIpOnly sv ck action ip w))"
proof (cases "truthy_string action \<noteq> None \<and> truthy_string ip \<noteq> None")
  case True
  then obtain a i where p: "truthy_string action = Some a" "truthy_string ip = Some i" by auto
  let ?L = "sv_limits sv" and ?now = "ck_check ck" and ?r = "request_ip_record sv ck i (w_cache w)"
  define res where "res = checkIpOnly_records sv ?now i a (w_cache w) ?r (rep_get (sv_reputation sv) (sv_client sv) i)"
  have c: "w_cache (fst (checkIpOnly sv ck action ip w)) = fst res"
    by (simp add: checkIpOnly_def p res_def request_ip_record_def Let_def split: prod.split sum.split)
  show ?thesis
  proof (cases "IpRecord_isBlocked ?L ?now ?r \<or> IpRecord_isDisabled ?L ?now ?r \<or> in_blocklist sv i = None")
    case True
    then have "fst res = w_cache w" by (auto simp: res_def checkIpOnly_records_def Let_def case_prod_unfold)
    then show ?thesis using c by (intro leaves_nothing) simp
  next
    case False
    then obtain listed where "in_blocklist sv i = Some listed" by auto
    with False have "fst res = fst (setRecords (sv_mc sv) (sv_recordLifetimeSeconds sv) (w_cache w) ?now
        [marshall_ip ?L i (fst (IpRecord_update ?L ?now a [] ?r))])"
      by (simp add: res_def checkIpOnly_records_def Let_def case_prod_unfold del: setRecords.simps)
    moreover have "written sv ck (CallCheckIpOnly action ip) (w_cache w) (marshall_ip ?L i (fst (IpRecord_update ?L ?now a [] ?r)))"
      using False p(2) by (auto simp: written_def keeps_ban_def)
    ultimately show ?thesis using c by (intro leaves_records) (auto simp del: setRecords.simps)
  qed
next
  case False
  then show ?thesis by (intro leaves_nothing) (auto simp: checkIpOnly_def split: option.split)
qed

lemma failedLoginAttempt_leaves:
  "leaves sv ck (CallFailedLoginAttempt email ip errno) w (fst (failedLoginAttempt sv ck email ip errno w))"
proof (cases "truthy_string email \<noteq> None \<and> truthy_string ip \<noteq> None")
  case True
  then obtain e i where p: "truthy_string email = Some e" "truthy_string ip = Some i" by auto
  let ?L = "sv_limits sv" and ?now = "ck_check ck" and ?email = "normalizedEmail e" and ?c = "CallFailedLoginAttempt email ip errno"
  let ?errno = "case errno of None \<Rightarrow> 999 | Some n \<Rightarrow> if n = 0 then 999 else n"
  let ?ipR = "fst (IpRecord_isOverBadLogins ?L ?now (IpRecord_addBadLogin ?L ?now ?email ?errno (request_ip_record sv ck i (w_cache w))))"
  let ?emailR = "EmailRecord_addBadLogin ?L ?now (request_email_record sv ck ?email (w_cache w))"
  let ?bothR = "IpEmailRecord_addBadLogin ?L ?now (request_ip_email_record sv ck i ?email (w_cache w))"
  have "written sv ck ?c (w_cache w) (marshall_ip ?L i ?ipR)"
    unfolding written_def by (intro disjI1 exI conjI) (auto simp: p keeps_ban_def)
  moreover have "written sv ck ?c (w_cache w) (marshall_email ?L ?email ?emailR)"
    unfolding written_def by (intro disjI2 disjI1 exI conjI) (auto simp: p keeps_ban_def)
  moreover have "written sv ck ?c (w_cache w) (marshall_ip_email ?L (i @ ?email) ?bothR)"
    by (simp add: written_def p opt_list_def)
  ultimately show ?thesis
    by (intro leaves_records [of _ _ _ _ "[marshall_ip ?L i ?ipR, marshall_email ?L ?email ?emailR, marshall_ip_email ?L (i @ ?email) ?bothR]"])
      (auto simp: failedLoginAttempt_def p Let_def case_prod_unfold request_ip_record_def request_email_record_def
        request_ip_email_record_def simp del: setRecords.simps)
next
  case False
  then show ?thesis by (intro leaves_nothing) (auto simp: failedLoginAttempt_def split: option.split)
qed

lemma checkAuthenticated_leaves:
  "leaves sv ck (CallCheckAuthenticated action ip uid) w (fst (checkAuthenticated sv ck action ip uid w))"
proof (cases "truthy_string action \<noteq> None \<and> truthy_string ip \<noteq> None \<and> truthy_string uid \<noteq> None")
  case True
  then obtain a i u where p: "truthy_string action = Some a" "truthy_string ip = Some i" "truthy_string uid = Some u" by auto
  let ?r = "fst (UidRecord_addCount (sv_limits sv) (ck_check ck) a (fetchRecord (sv_mc sv) (w_cache w) (ck_fetch ck) u UidRecord_parse))"
  have "written sv ck (CallCheckAuthenticated action ip uid) (w_cache w) (marshall_uid (sv_limits sv) u ?r)"
    by (simp add: written_def p opt_list_def)
  then show ?thesis
    by (intro leaves_records [of _ _ _ _ "[marshall_uid (sv_limits sv) u ?r]"])
      (auto simp: checkAuthenticated_def p Let_def case_prod_unfold simp del: setRecords.simps split: option.split)
next
  case False
  then show ?thesis by (intro leaves_nothing) (auto simp: checkAuthenticated_def split: option.split)
qed

lemma passwordReset_leaves: "leaves sv ck (CallPasswordReset email) w (fst (passwordReset sv ck email w))"
proof (cases "truthy_string email")
  case (Some e)
  let ?r = "EmailRecord_passwordReset (ck_check ck) (request_email_record sv ck (normalizedEmail e) (w_cache w))"
  have "written sv ck (CallPasswordReset email) (w_cache w) (marshall_email (sv_limits sv) (normalizedEmail e) ?r)"
    unfolding written_def by (intro disjI2 disjI1 exI conjI) (auto simp: Some keeps_ban_def)
  then show ?thesis
    by (intro leaves_records [of _ _ _ _ "[marshall_email (sv_limits sv) (normalizedEmail e) ?r]"])
      (auto simp: passwordReset_def Some Let_def case_prod_unfold request_email_record_def simp del: setRecords.simps)
qed (simp add: leaves_nothing passwordReset_def)

lemma blockEmail_leaves: "leaves sv ck (CallBlockEmail email) w (fst (blockEmail sv ck email w))"
proof (cases "truthy_string email")
  case (Some e)
  then have "normalizedEmail e \<noteq> []"
    by (intro normalizedEmail_nonempty) (simp add: truthy_string_eq)
  let ?r = "EmailRecord_block (ck_check ck) (request_email_record sv ck (normalizedEmail e) (w_cache w))"
  have "written sv ck (CallBlockEmail email) (w_cache w) (marshall_email (sv_limits sv) (normalizedEmail e) ?r)"
    unfolding written_def by (intro disjI2 disjI1 exI conjI) (auto simp: Some keeps_ban_def)
  then show ?thesis using \<open>normalizedEmail e \<noteq> []\<close>
    by (intro leaves_records [of _ _ _ _ "[marshall_email (sv_limits sv) (normalizedEmail e) ?r]"])
      (auto simp: blockEmail_def handleBan_def bans_blockEmail_def Some Let_def case_prod_unfold request_email_record_def
        simp del: setRecords.simps)
qed (simp add: leaves_nothing blockEmail_def)

lemma blockIp_leaves: "leaves sv ck (CallBlockIp ip) w (fst (blockIp sv ck ip w))"
proof (cases "truthy_string ip")
  case (Some i)
  then have i: "i \<noteq> []" by (simp add: truthy_string_eq)
  let ?r = "IpRecord_block (ck_check ck) (request_ip_record sv ck i (w_cache w))"
  have "written sv ck (CallBlockIp ip) (w_cache w) (marshall_ip (sv_limits sv) i ?r)"
    unfolding written_def by (intro disjI1 exI conjI) (auto simp: Some keeps_ban_def)
  then show ?thesis using i
    by (intro leaves_records [of _ _ _ _ "[marshall_ip (sv_limits sv) i ?r]"])
      (auto simp: blockIp_def handleBan_def bans_blockIp_def Some Let_def case_prod_unfold request_ip_record_def
        simp del: setRecords.simps split: option.split)
qed (simp add: leaves_nothing blockIp_def)

lemma serve_leaves:
  assumes "memcached_ok (sv_mc sv)" "memcached_up (sv_mc sv)"
  shows "leaves sv ck c w (serve sv ck c w)"
  by (cases c) (simp_all add: check_leaves [OF assms] checkIpOnly_leaves failedLoginAttempt_leaves
      checkAuthenticated_leaves passwordReset_leaves blockEmail_leaves blockIp_leaves)

section \<open>Bans\<close>

text \<open>A record under \<open>key\<close> that says, at every moment from \<open>now\<close> on, that it was banned at \<open>since\<close> or later.\<close>

definition ban_stored ::
    "(jsval option \<Rightarrow> 'r) \<Rightarrow> ('r \<Rightarrow> time option) \<Rightarrow> 'm memcached \<Rightarrow> time \<Rightarrow> time \<Rightarrow> string \<Rightarrow> time \<Rightarrow> 'm \<Rightarrow> bool" where
  "ban_stored parse bk mc since until key now m \<longleftrightarrow>
     (\<forall>t. now \<le> t \<and> t < until \<longrightarrow> (\<exists>b. bk (fetchRecord mc m t key parse) = Some b \<and> since \<le> b))"

lemma ban_stored_same:
  assumes "ban_stored parse bk mc since until key now m" "\<And>t. getAsync mc m' t key = getAsync mc m t key"
  shows "ban_stored parse bk mc since until key now m'"
  using assms(1) by (simp add: ban_stored_def fetchRecord_def assms(2))

lemma ban_stored_later: "ban_stored parse bk mc since until key now m \<Longrightarrow> now \<le> later \<Longrightarrow>
    ban_stored parse bk mc since until key later m"
  by (force simp: ban_stored_def)

text \<open>
  The contract of a record class with bans: the store keeps its records for at least the time of a ban.
  Writing records that keep the ban keeps it in the store.
\<close>

locale bannable = stored_record parse marshall minLifetime
  for parse :: "jsval option \<Rightarrow> 'r" and marshall :: "string \<Rightarrow> 'r \<Rightarrow> marshalled" and minLifetime :: int +
  fixes bk :: "'r \<Rightarrow> time option" and interval :: int
  assumes kept_long_enough: "interval \<le> minLifetime"
begin

lemma ban_after_set:
  assumes "memcached_ok mc" "setRecord mc life m now (marshall key x) = (m', None)"
    and "bk x = Some b" "since \<le> b" "until \<le> now + interval"
  shows "ban_stored parse bk mc since until key now m'"
  unfolding ban_stored_def
  using fetch_after_set [OF assms(1,2)] kept_long_enough assms(3-5) by auto

lemma ban_after_writes:
  assumes "memcached_ok mc" "memcached_up mc" "until \<le> now + interval"
  shows "ban_stored parse bk mc since until key now m \<Longrightarrow>
    \<forall>r \<in> set rs. ma_key r = key \<longrightarrow> (\<exists>x b. r = marshall key x \<and> bk x = Some b \<and> since \<le> b) \<Longrightarrow>
    ban_stored parse bk mc since until key now (fst (setRecords mc life m now rs))"
proof (induction rs arbitrary: m)
  case (Cons r rs)
  have "snd (setRecord mc life m now r) = None" using assms(2) by (simp add: setRecord_def memcached_up_def)
  then obtain m1 where m1: "setRecord mc life m now r = (m1, None)" by (cases "setRecord mc life m now r") simp
  have "ban_stored parse bk mc since until key now m1"
  proof (cases "ma_key r = key")
    case True
    then obtain x b where "r = marshall key x" "bk x = Some b" "since \<le> b" using Cons.prems(2) by auto
    then show ?thesis using ban_after_set [OF assms(1) _ _ _ assms(3)] m1 by blast
  next
    case False
    with m1 show ?thesis
      by (intro ban_stored_same [OF Cons.prems(1)] memcached_ok_other [OF assms(1)]) (auto simp: setRecord_def)
  qed
  then show ?case using Cons m1 by (simp add: case_prod_unfold Let_def)
qed simp

end

interpretation ip_bans: bannable IpRecord_parse "marshall_ip L" "IpRecord_getMinLifetimeMS L" ip_bk "blockIntervalMs L" for L
  by unfold_locales (simp add: IpRecord_getMinLifetimeMS_def)

interpretation email_bans: bannable EmailRecord_parse "marshall_email L" "EmailRecord_getMinLifetimeMS L" er_bk "blockIntervalMs L" for L
  by unfold_locales (simp add: EmailRecord_getMinLifetimeMS_def)

definition ip_banned :: "'m server \<Rightarrow> time \<Rightarrow> string \<Rightarrow> time \<Rightarrow> 'm \<Rightarrow> bool" where
  "ip_banned sv since ip =
     ban_stored IpRecord_parse ip_bk (sv_mc sv) since (since + blockIntervalMs (sv_limits sv)) ip"

definition email_banned :: "'m server \<Rightarrow> time \<Rightarrow> string \<Rightarrow> time \<Rightarrow> 'm \<Rightarrow> bool" where
  "email_banned sv since email =
     ban_stored EmailRecord_parse er_bk (sv_mc sv) since (since + blockIntervalMs (sv_limits sv)) email"

lemma ip_banned_blocked:
  assumes "ip_banned sv since ip now m" "0 < since" "now \<le> ck_fetch ck" "ck_fetch ck \<le> ck_check ck"
    and "ck_check ck < since + blockIntervalMs (sv_limits sv)"
  shows "IpRecord_isBlocked (sv_limits sv) (ck_check ck) (request_ip_record sv ck ip m)"
    and "\<exists>b. ip_bk (request_ip_record sv ck ip m) = Some b \<and> since \<le> b"
proof -
  show b: "\<exists>b. ip_bk (request_ip_record sv ck ip m) = Some b \<and> since \<le> b"
    using assms unfolding ip_banned_def ban_stored_def request_ip_record_def by force
  then show "IpRecord_isBlocked (sv_limits sv) (ck_check ck) (request_ip_record sv ck ip m)"
    using assms(2,5) by (auto simp: IpRecord_isBlocked_def within_def)
qed

lemma email_banned_blocked:
  assumes "email_banned sv since email now m" "0 < since" "now \<le> ck_fetch ck" "ck_fetch ck \<le> ck_check ck"
    and "ck_check ck < since + blockIntervalMs (sv_limits sv)"
  shows "EmailRecord_isBlocked (sv_limits sv) (ck_check ck) (request_email_record sv ck email m)"
    and "\<exists>b. er_bk (request_email_record sv ck email m) = Some b \<and> since \<le> b"
proof -
  show b: "\<exists>b. er_bk (request_email_record sv ck email m) = Some b \<and> since \<le> b"
    using assms unfolding email_banned_def ban_stored_def request_email_record_def by force
  then show "EmailRecord_isBlocked (sv_limits sv) (ck_check ck) (request_email_record sv ck email m)"
    using assms(2,5) by (auto simp: EmailRecord_isBlocked_def within_def)
qed

text \<open>One request keeps the ban.\<close>

lemma ip_ban_step:
  assumes "memcached_ok (sv_mc sv)" "memcached_up (sv_mc sv)" "ip_banned sv since ip now (w_cache w)" "0 < since"
    and "now \<le> ck_fetch ck" "ck_fetch ck \<le> ck_check ck" "since \<le> ck_check ck"
    and "ck_check ck < since + blockIntervalMs (sv_limits sv)"
    and "ip \<notin> set (email_keys c @ further_keys sv c)"
  shows "ip_banned sv since ip (ck_check ck) (w_cache (serve sv ck c w))"
proof -
  let ?m = "w_cache w"
  obtain rs where rs: "\<forall>r \<in> set rs. written sv ck c ?m r"
    "\<And>t key. key \<notin> set (further_keys sv c) \<Longrightarrow> getAsync (sv_mc sv) (w_cache (serve sv ck c w)) t key =
       getAsync (sv_mc sv) (fst (setRecords (sv_mc sv) (sv_recordLifetimeSeconds sv) ?m (ck_check ck) rs)) t key"
    using serve_leaves [OF assms(1,2), of ck c w] unfolding leaves_def by blast
  note blocked = ip_banned_blocked [OF assms(3,4,5,6,8)]
  have "\<exists>x b. r = marshall_ip (sv_limits sv) ip x \<and> ip_bk x = Some b \<and> since \<le> b"
    if "r \<in> set rs" "ma_key r = ip" for r
  proof -
    have "written sv ck c ?m r" using rs(1) that(1) by blast
    then show ?thesis using that(2) assms(7,9) blocked by (auto simp: written_def keeps_ban_def)
  qed
  then have "ip_banned sv since ip (ck_check ck) (fst (setRecords (sv_mc sv) (sv_recordLifetimeSeconds sv) ?m (ck_check ck) rs))"
    using ban_stored_later assms(3,5-7) unfolding ip_banned_def
    by (intro ip_bans.ban_after_writes [OF assms(1,2)]) (auto elim!: ban_stored_later)
  then show ?thesis
    unfolding ip_banned_def by (rule ban_stored_same) (use rs(2) [of ip] assms(9) in simp)
qed

lemma email_ban_step:
  assumes "memcached_ok (sv_mc sv)" "memcached_up (sv_mc sv)" "email_banned sv since email now (w_cache w)" "0 < since"
    and "now \<le> ck_fetch ck" "ck_fetch ck \<le> ck_check ck" "since \<le> ck_check ck"
    and "ck_check ck < since + blockIntervalMs (sv_limits sv)"
    and "email \<notin> set (ip_keys c @ further_keys sv c)"
  shows "email_banned sv since email (ck_check ck) (w_cache (serve sv ck c w))"
proof -
  let ?m = "w_cache w"
  obtain rs where rs: "\<forall>r \<in> set rs. written sv ck c ?m r"
    "\<And>t key. key \<notin> set (further_keys sv c) \<Longrightarrow> getAsync (sv_mc sv) (w_cache (serve sv ck c w)) t key =
       getAsync (sv_mc sv) (fst (setRecords (sv_mc sv) (sv_recordLifetimeSeconds sv) ?m (ck_check ck) rs)) t key"
    using serve_leaves [OF assms(1,2), of ck c w] unfolding leaves_def by blast
  note blocked = email_banned_blocked [OF assms(3,4,5,6,8)]
  have "\<exists>x b. r = marshall_email (sv_limits sv) email x \<and> er_bk x = Some b \<and> since \<le> b"
    if "r \<in> set rs" "ma_key r = email" for r
  proof -
    have "written sv ck c ?m r" using rs(1) that(1) by blast
    then show ?thesis using that(2) assms(7,9) blocked by (auto simp: written_def keeps_ban_def)
  qed
  then have "email_banned sv since email (ck_check ck) (fst (setRecords (sv_mc sv) (sv_recordLifetimeSeconds sv) ?m (ck_check ck) rs))"
    using ban_stored_later assms(3,5-7) unfolding email_banned_def
    by (intro email_bans.ban_after_writes [OF assms(1,2)]) (auto elim!: ban_stored_later)
  then show ?thesis
    unfolding email_banned_def by (rule ban_stored_same) (use rs(2) [of email] assms(9) in simp)
qed

text \<open>So does a sequence of requests.\<close>

lemma ip_ban_all:
  assumes "memcached_ok (sv_mc sv)" "memcached_up (sv_mc sv)" "0 < since" "stop < since + blockIntervalMs (sv_limits sv)"
  shows "ip_banned sv since ip now (w_cache w) \<Longrightarrow> since \<le> now \<Longrightarrow> in_order now cs stop \<Longrightarrow>
    \<forall>(ck, c) \<in> set cs. ip \<notin> set (email_keys c @ further_keys sv c) \<Longrightarrow>
    ip_banned sv since ip stop (w_cache (serve_all sv cs w))"
proof (induction cs arbitrary: now w)
  case Nil
  then show ?case unfolding ip_banned_def by (auto elim: ban_stored_later)
next
  case (Cons x cs)
  obtain ck c where x: "x = (ck, c)" by (cases x)
  have "ck_check ck \<le> stop" using in_order_end [of "ck_check ck" cs stop] Cons.prems(3) x by simp
  then have "ip_banned sv since ip (ck_check ck) (w_cache (serve sv ck c w))"
    using Cons.prems x assms(3,4) by (intro ip_ban_step [OF assms(1,2), of since ip now]) auto
  then show ?case using Cons x by auto
qed

lemma email_ban_all:
  assumes "memcached_ok (sv_mc sv)" "memcached_up (sv_mc sv)" "0 < since" "stop < since + blockIntervalMs (sv_limits sv)"
  shows "email_banned sv since email now (w_cache w) \<Longrightarrow> since \<le> now \<Longrightarrow> in_order now cs stop \<Longrightarrow>
    \<forall>(ck, c) \<in> set cs. email \<notin> set (ip_keys c @ further_keys sv c) \<Longrightarrow>
    email_banned sv since email stop (w_cache (serve_all sv cs w))"
proof (induction cs arbitrary: now w)
  case Nil
  then show ?case unfolding email_banned_def by (auto elim: ban_stored_later)
next
  case (Cons x cs)
  obtain ck c where x: "x = (ck, c)" by (cases x)
  have "ck_check ck \<le> stop" using in_order_end [of "ck_check ck" cs stop] Cons.prems(3) x by simp
  then have "email_banned sv since email (ck_check ck) (w_cache (serve sv ck c w))"
    using Cons.prems x assms(3,4) by (intro email_ban_step [OF assms(1,2), of since email now]) auto
  then show ?case using Cons x by auto
qed

section \<open>Requests during a ban\<close>

lemma blockIp_banned:
  assumes "memcached_ok (sv_mc sv)" "blockIp sv ck0 (Some ip) w = (w1, Reply ())" "ip \<noteq> []"
  shows "ip_banned sv (ck_check ck0) ip (ck_check ck0) (w_cache w1)"
  unfolding ip_banned_def ban_stored_def
proof (intro allI impI)
  fix t assume t: "ck_check ck0 \<le> t \<and> t < ck_check ck0 + blockIntervalMs (sv_limits sv)"
  have "fetchRecord (sv_mc sv) (w_cache w1) t ip IpRecord_parse = request_ip_record sv (at_time t) ip (w_cache w1)"
    by (simp add: request_ip_record_def)
  also have "\<dots> = IpRecord_block (ck_check ck0) (request_ip_record sv ck0 ip (w_cache w))"
    using t by (intro blockIp_stored [OF assms]) auto
  finally show "\<exists>b. ip_bk (fetchRecord (sv_mc sv) (w_cache w1) t ip IpRecord_parse) = Some b \<and> ck_check ck0 \<le> b" by simp
qed

lemma blockEmail_banned:
  assumes "memcached_ok (sv_mc sv)" "blockEmail sv ck0 (Some e) w = (w1, Reply ())" "e \<noteq> []"
  shows "email_banned sv (ck_check ck0) (normalizedEmail e) (ck_check ck0) (w_cache w1)"
  unfolding email_banned_def ban_stored_def
proof (intro allI impI)
  fix t assume t: "ck_check ck0 \<le> t \<and> t < ck_check ck0 + blockIntervalMs (sv_limits sv)"
  have "fetchRecord (sv_mc sv) (w_cache w1) t (normalizedEmail e) EmailRecord_parse =
      request_email_record sv (at_time t) (normalizedEmail e) (w_cache w1)"
    by (simp add: request_email_record_def)
  also have "\<dots> = EmailRecord_block (ck_check ck0) (request_email_record sv ck0 (normalizedEmail e) (w_cache w))"
    using t by (intro blockEmail_stored [OF assms]) auto
  finally show "\<exists>b. er_bk (fetchRecord (sv_mc sv) (w_cache w1) t (normalizedEmail e) EmailRecord_parse) = Some b \<and>
      ck_check ck0 \<le> b" by simp
qed

text \<open>
  C3: while memcached is up, an IP address that was banned by /blockIp is blocked by every /check of the ban
  interval that is not on an allow list. Any requests to the customs server may have come in
  between, of this address and of others, as long as none of them has a record of another kind
  under the address as its key.
\<close>

theorem banned_ip_refused:
  assumes "memcached_ok (sv_mc sv)" "memcached_up (sv_mc sv)" "blockIp sv ck0 (Some ip) w = (w1, Reply ())" "ip \<noteq> []"
    and "0 < ck_check ck0" "in_order (ck_check ck0) calls (ck_fetch ck)" "ck_fetch ck \<le> ck_check ck"
    and "ck_check ck < ck_check ck0 + blockIntervalMs (sv_limits sv)"
    and "\<forall>(_, c) \<in> set calls. ip \<notin> set (email_keys c @ further_keys sv c)"
    and "cq_email q = Some e" "e \<noteq> []" "cq_ip q = Some ip" "cq_action q = Some action" "action \<noteq> []"
    and "\<not> isAllowed sv ip (Some (normalizedEmail e)) (truthy_string (cq_phoneNumber q))"
  shows "\<exists>w' r. check sv ck q (serve_all sv calls w1) = (w', Reply r) \<and> cr_block r"
proof -
  have "ip_banned sv (ck_check ck0) ip (ck_fetch ck) (w_cache (serve_all sv calls w1))"
    using blockIp_banned [OF assms(1,3,4)] assms(5-9) by (intro ip_ban_all [OF assms(1,2)]) auto
  then have "IpRecord_isBlocked (sv_limits sv) (ck_check ck) (request_ip_record sv ck ip (w_cache (serve_all sv calls w1)))"
    using assms(5,7,8) by (intro ip_banned_blocked(1)) auto
  then show ?thesis using assms by (intro check_refused [of q e ip action]) (auto simp: refusing_def)
qed

theorem banned_ip_refused_witness:
  "\<exists>w' r. check default_server (at_time 1600000050000) (login_request ''a@x.org'' ''10.0.0.1'')
     (serve_all default_server
       [(at_time 1600000010000, CallCheck (login_request ''b@x.org'' ''10.0.0.1'')),
        (at_time 1600000020000, CallFailedLoginAttempt (Some ''a@x.org'') (Some ''10.0.0.1'') None)]
       (fst (blockIp default_server (at_time 1600000000000) (Some ''10.0.0.1'') empty_world))) = (w', Reply r) \<and> cr_block r"
proof -
  let ?calls = "[(at_time 1600000010000, CallCheck (login_request ''b@x.org'' ''10.0.0.1'')),
        (at_time 1600000020000, CallFailedLoginAttempt (Some ''a@x.org'') (Some ''10.0.0.1'') None)]"
  obtain w1 where ban: "blockIp default_server (at_time 1600000000000) (Some ''10.0.0.1'') empty_world = (w1, Reply ())"
    by (auto simp: blockIp_def handleBan_def bans_blockIp_def default_defs table_cache_def table_set_def
        setRecord_def truthy_string_def Let_def)
  have keys: "\<forall>(_, c) \<in> set ?calls. ''10.0.0.1'' \<notin> set (email_keys c @ further_keys default_server c)" by code_simp
  show ?thesis
    unfolding ban fst_conv
    by (rule banned_ip_refused [where sv = default_server and e = "''a@x.org''" and action = "''accountLogin''",
          OF _ _ ban _ _ _ _ _ keys])
      (simp_all add: table_cache_ok table_cache_up default_nobody_allowed)
qed

text \<open>The same for the email address of a request, under any spelling.\<close>

lemma banned_email_refused:
  assumes "memcached_ok (sv_mc sv)" "memcached_up (sv_mc sv)" "blockEmail sv ck0 (Some e) w = (w1, Reply ())" "e \<noteq> []"
    and "0 < ck_check ck0" "in_order (ck_check ck0) calls (ck_fetch ck)" "ck_fetch ck \<le> ck_check ck"
    and "ck_check ck < ck_check ck0 + blockIntervalMs (sv_limits sv)"
    and "\<forall>(_, c) \<in> set calls. normalizedEmail e \<notin> set (ip_keys c @ further_keys sv c)"
    and "cq_email q = Some e'" "normalizedEmail e' = normalizedEmail e" "e' \<noteq> []"
    and "cq_ip q = Some ip" "ip \<noteq> []" "cq_action q = Some action" "action \<noteq> []"
    and "\<not> isAllowed sv ip (Some (normalizedEmail e)) (truthy_string (cq_phoneNumber q))"
  shows "\<exists>w' r. check sv ck q (serve_all sv calls w1) = (w', Reply r) \<and> cr_block r"
proof -
  let ?w = "serve_all sv calls w1" and ?email = "normalizedEmail e"
  have "email_banned sv (ck_check ck0) ?email (ck_fetch ck) (w_cache ?w)"
    using blockEmail_banned [OF assms(1,3,4)] assms(5-9) by (intro email_ban_all [OF assms(1,2)]) auto
  then have b: "EmailRecord_isBlocked (sv_limits sv) (ck_check ck) (request_email_record sv ck ?email (w_cache ?w))"
    using assms(5,7,8) by (intro email_banned_blocked(1)) auto
  have "0 < EmailRecord_retryAfter (sv_limits sv) (ck_check ck) (request_email_record sv ck ?email (w_cache ?w))"
    by (rule email_ban.limited_waits [OF b])
  then have "refusing sv ck q ip ?email action (w_cache ?w)"
    using wait_email [of sv ck action q ?email "w_cache ?w" ip]
    by (simp add: refusing_def EmailRecord_update_blocked [OF b])
  then show ?thesis using assms by (intro check_refused [of q e']) auto
qed

end
