(* ===== verification/Customs_Client.thy ===== *)
theory Customs_Client
  imports Customs_Sequences
begin

text \<open>
  The auth server's side: \<open>lib/customs.js\<close> of fxa-auth-server over the method that
  \<open>lib/backendService.js\<close> builds from a declaration, with the two errors of \<open>lib/error.js\<close> that a
  blocked request ends in. The schemas of the package Joi are the two predicates of a service
  method (request and response are passed on unchanged when they are valid), and the HTTP pool
  is the argument \<open>send\<close>: the response, or an error with the properties that are looked at.
\<close>

section \<open>Backend service methods\<close>

record http_error =
  he_errno :: "int option"
  he_statusCode :: "int option"

datatype service_error = InternalValidationError | BackendServiceFailure | Rethrown http_error

text \<open>\<open>err.errno || (err.statusCode && err.statusCode < 500)\<close>\<close>

definition is_client_error :: "http_error \<Rightarrow> bool" where
  "is_client_error err \<longleftrightarrow>
     (case he_errno err of None \<Rightarrow> False | Some n \<Rightarrow> n \<noteq> 0) \<or>
     (case he_statusCode err of None \<Rightarrow> False | Some n \<Rightarrow> n \<noteq> 0 \<and> n < 500)"

definition sendRequest :: "('p \<Rightarrow> http_error + 'r) \<Rightarrow> 'p \<Rightarrow> service_error + 'r" where
  "sendRequest send payload =
     (case send payload of
        Inr response \<Rightarrow> Inr response
      | Inl err \<Rightarrow> Inl (if is_client_error err then Rethrown err else BackendServiceFailure))"

definition theServiceMethod ::
    "('p \<Rightarrow> bool) \<Rightarrow> ('r \<Rightarrow> bool) \<Rightarrow> ('p \<Rightarrow> http_error + 'r) \<Rightarrow> 'p \<Rightarrow> service_error + 'r" where
  "theServiceMethod payloadSchema responseSchema send payload =
     (if \<not> payloadSchema payload then Inl InternalValidationError
      else
        case sendRequest send payload of
          Inl err \<Rightarrow> Inl err
        | Inr response \<Rightarrow>
            if responseSchema response then Inr response else Inl InternalValidationError)"

section \<open>Errors\<close>

text \<open>\<open>AppError\<close>, as far as these errors use it.\<close>

record app_error =
  ae_code :: int
  ae_errno :: int
  ae_retryAfter :: "int option"
  ae_retryAt :: "time option" \<comment> \<open>the moment that \<open>retryAfterLocalized\<close> describes\<close>
  ae_verificationMethod :: "string option"
  ae_verificationReason :: "string option"

definition tooManyRequests :: "int \<Rightarrow> time option \<Rightarrow> bool \<Rightarrow> app_error" where
  "tooManyRequests retryAfter retryAt canUnblock =
     \<lparr> ae_code = 429, ae_errno = 114,
       ae_retryAfter = Some (if retryAfter = 0 then 30 else retryAfter), ae_retryAt = retryAt,
       ae_verificationMethod = (if canUnblock then Some ''email-captcha'' else None),
       ae_verificationReason = (if canUnblock then Some ''login'' else None) \<rparr>"

definition requestBlocked :: "bool \<Rightarrow> app_error" where
  "requestBlocked canUnblock =
     \<lparr> ae_code = 400, ae_errno = 125, ae_retryAfter = None, ae_retryAt = None,
       ae_verificationMethod = (if canUnblock then Some ''email-captcha'' else None),
       ae_verificationReason = (if canUnblock then Some ''login'' else None) \<rparr>"

section \<open>The client\<close>

text \<open>\<open>sanitizePayload\<close>; a value is falsy when it is \<open>null\<close>, \<open>false\<close>, 0 or the empty string.\<close>

fun js_truthy :: "jsval \<Rightarrow> bool" where
  "js_truthy JNull = False"
| "js_truthy (JBool b) = b"
| "js_truthy (JNum n) = (n \<noteq> 0)"
| "js_truthy (JStr s) = (s \<noteq> [])"
| "js_truthy (JArr xs) = True"
| "js_truthy (JObj fs) = True"

definition fieldsToOmit :: "string list" where
  "fieldsToOmit = [''authPW'', ''oldAuthPW'', ''paymentToken'']"

definition sanitizePayload :: "(string \<times> jsval) list option \<Rightarrow> (string \<times> jsval) list option" where
  "sanitizePayload payload =
     map_option (\<lambda>fs. fold (\<lambda>name clone.
         case map_of clone name of
           None \<Rightarrow> clone
         | Some v \<Rightarrow> if js_truthy v then AList.delete name clone else clone) fieldsToOmit fs)
       payload"

record client_request =
  rq_clientAddress :: string
  rq_userAgent :: "string option"
  rq_payload :: "(string \<times> jsval) list option"

text \<open>
  What the customs server makes of the posted object. The headers of the original request are
  in the property \<open>headers\<close> of the payload; the handler of /check reads those of the HTTP
  request between the servers, which has no user agent.
\<close>

definition string_prop :: "(string \<times> jsval) list \<Rightarrow> string \<Rightarrow> string option" where
  "string_prop fs k = (case map_of fs k of Some (JStr s) \<Rightarrow> Some s | _ \<Rightarrow> None)"

definition posted_check :: "client_request \<Rightarrow> string \<Rightarrow> string \<Rightarrow> check_request" where
  "posted_check request email action =
     (let fs = (case sanitizePayload (rq_payload request) of None \<Rightarrow> [] | Some fs \<Rightarrow> fs)
      in \<lparr> cq_email = Some email, cq_ip = Some (rq_clientAddress request),
           cq_action = Some action, cq_userAgent = None,
           cq_phoneNumber = string_prop fs ''phoneNumber'',
           cq_unblockCode = string_prop fs ''unblockCode'',
           cq_flowId = string_prop (js_fields (map_of fs ''metricsContext'')) ''flowId'',
           cq_reason = string_prop fs ''reason'' \<rparr>)"

text \<open>
  The verdict that all three checks hand to \<open>handleCustomsResult\<close>; \<open>NaN\<close> and an absent
  \<open>retryAfter\<close> are \<open>None\<close>.
\<close>

record customs_result =
  cu_block :: bool
  cu_suspect :: bool
  cu_unblock :: bool
  cu_retryAfter :: "int option"

text \<open>The outcome: whether the request is marked as suspicious, and the error that is thrown.\<close>

definition handleCustomsResult :: "time \<Rightarrow> customs_result \<Rightarrow> bool \<times> app_error option" where
  "handleCustomsResult now result =
     (cu_suspect result,
      if cu_block result then
        (case cu_retryAfter result of
           Some n \<Rightarrow>
             if n \<noteq> 0 then Some (tooManyRequests n (Some (now + 1000 * n)) (cu_unblock result))
             else Some (requestBlocked (cu_unblock result))
         | None \<Rightarrow> Some (requestBlocked (cu_unblock result)))
      else None)"

text \<open>The configured service: \<open>None\<close> is the URL \<open>none\<close>, with which nothing is ever blocked.\<close>

datatype customs_outcome = Passed bool | Refused bool app_error | Failed service_error

definition Customs_result ::
    "time \<Rightarrow> (service_error + customs_result) \<Rightarrow> customs_outcome" where
  "Customs_result now res =
     (case res of
        Inl err \<Rightarrow> Failed err
      | Inr result \<Rightarrow>
          (case handleCustomsResult now result of
             (suspicious, None) \<Rightarrow> Passed suspicious
           | (suspicious, Some err) \<Rightarrow> Refused suspicious err))"

definition noblock :: customs_result where
  "noblock = \<lparr> cu_block = False, cu_suspect = False, cu_unblock = False, cu_retryAfter = None \<rparr>"

definition Customs_check ::
    "(check_request \<Rightarrow> service_error + customs_result) option \<Rightarrow> time \<Rightarrow>
     client_request \<Rightarrow> string \<Rightarrow> string \<Rightarrow> customs_outcome" where
  "Customs_check api now request email action =
     Customs_result now (case api of None \<Rightarrow> Inr noblock | Some f \<Rightarrow> f (posted_check request email action))"

definition Customs_checkAuthenticated ::
    "(string \<times> string \<times> string \<Rightarrow> service_error + customs_result) option \<Rightarrow> time \<Rightarrow>
     client_request \<Rightarrow> string \<Rightarrow> string \<Rightarrow> customs_outcome" where
  "Customs_checkAuthenticated api now request uid action =
     Customs_result now
       (case api of None \<Rightarrow> Inr noblock | Some f \<Rightarrow> f (action, rq_clientAddress request, uid))"

definition Customs_checkIpOnly ::
    "(string \<times> string \<Rightarrow> service_error + customs_result) option \<Rightarrow> time \<Rightarrow>
     client_request \<Rightarrow> string \<Rightarrow> customs_outcome" where
  "Customs_checkIpOnly api now request action =
     Customs_result now
       (case api of None \<Rightarrow> Inr noblock | Some f \<Rightarrow> f (rq_clientAddress request, action))"

text \<open>\<open>flag\<close>: \<open>UNEXPECTED_ERROR\<close> is 999.\<close>

definition Customs_flag ::
    "(string \<times> string option \<times> int \<Rightarrow> service_error + unit) option \<Rightarrow> string \<Rightarrow>
     string option \<Rightarrow> int option \<Rightarrow> service_error + unit" where
  "Customs_flag api ip email errno =
     (case api of
        None \<Rightarrow> Inr ()
      | Some f \<Rightarrow> f (ip, email, case errno of None \<Rightarrow> 999 | Some n \<Rightarrow> if n = 0 then 999 else n))"

definition Customs_reset ::
    "(string \<Rightarrow> service_error + unit) option \<Rightarrow> string \<Rightarrow> service_error + unit" where
  "Customs_reset api email = (case api of None \<Rightarrow> Inr () | Some f \<Rightarrow> f email)"

section \<open>The two servers together\<close>

text \<open>
  The HTTP exchange with the customs server: status 200, 400 and 500. It may also fail on the way,
  with the error \<open>lost\<close> of the HTTP client.
\<close>

definition reply_result :: "('a \<Rightarrow> customs_result) \<Rightarrow> 'a reply \<Rightarrow> http_error + customs_result" where
  "reply_result conv rep =
     (case rep of
        Reply r \<Rightarrow> Inr (conv r)
      | MissingParameters \<Rightarrow> Inl \<lparr> he_errno = None, he_statusCode = Some 400 \<rparr>
      | ServerError e \<Rightarrow> Inl \<lparr> he_errno = None, he_statusCode = Some 500 \<rparr>)"

definition of_check_result :: "check_result \<Rightarrow> customs_result" where
  "of_check_result r =
     \<lparr> cu_block = cr_block r, cu_suspect = (cr_suspect r = Some True),
       cu_unblock = (cr_unblock r = Some True), cu_retryAfter = Some (cr_retryAfter r) \<rparr>"

definition of_auth_result :: "auth_result \<Rightarrow> customs_result" where
  "of_auth_result r =
     \<lparr> cu_block = ar_block r, cu_suspect = False, cu_unblock = False, cu_retryAfter = ar_retryAfter r \<rparr>"

definition check_api ::
    "(check_request \<Rightarrow> bool) \<Rightarrow> (customs_result \<Rightarrow> bool) \<Rightarrow> http_error option \<Rightarrow> 'm server \<Rightarrow> clock \<Rightarrow>
     'm world \<Rightarrow> check_request \<Rightarrow> service_error + customs_result" where
  "check_api payloadSchema responseSchema lost sv ck w =
     theServiceMethod payloadSchema responseSchema
       (\<lambda>q. case lost of Some err \<Rightarrow> Inl err | None \<Rightarrow> reply_result of_check_result (snd (check sv ck q w)))"

definition checkAuthenticated_api ::
    "(string \<times> string \<times> string \<Rightarrow> bool) \<Rightarrow> (customs_result \<Rightarrow> bool) \<Rightarrow> 'm server \<Rightarrow> clock \<Rightarrow>
     'm world \<Rightarrow> string \<times> string \<times> string \<Rightarrow> service_error + customs_result" where
  "checkAuthenticated_api payloadSchema responseSchema sv ck w =
     theServiceMethod payloadSchema responseSchema
       (\<lambda>(action, ip, uid). reply_result of_auth_result
          (snd (checkAuthenticated sv ck (Some action) (Some ip) (Some uid) w)))"

section \<open>Guarantees\<close>

text \<open>The client lets a request pass only on an explicit verdict not to block it.\<close>

lemma Customs_check_passed:
  "Customs_check (Some api) now request email action = Passed s \<longleftrightarrow>
   (\<exists>r. api (posted_check request email action) = Inr r \<and> \<not> cu_block r \<and> s = cu_suspect r)"
  by (auto simp: Customs_check_def Customs_result_def handleCustomsResult_def
      split: sum.splits if_splits option.splits prod.splits)

lemma theServiceMethod_ok:
  "theServiceMethod P R send p = Inr r \<Longrightarrow> P p \<and> R r \<and> send p = Inr r"
  by (auto simp: theServiceMethod_def sendRequest_def split: if_splits sum.splits)

text \<open>
  C2: an email address that was banned by /blockEmail does not get past the auth server during the ban
  interval, while memcached is up and unless the request is on an allow list: whatever requests
  the customs server has handled in between, whether or not the schemas accept request and
  response and whether or not the exchange between the servers fails, the check ends in an error. No request in
  between may have a record of another kind under the address as its key.
\<close>

theorem banned_email_not_passed:
  assumes "memcached_ok (sv_mc sv)" "memcached_up (sv_mc sv)" "blockEmail sv ck0 (Some e) w = (w1, Reply ())" "e \<noteq> []"
    and "0 < ck_check ck0" "in_order (ck_check ck0) calls (ck_fetch ck)" "ck_fetch ck \<le> ck_check ck"
    and "ck_check ck < ck_check ck0 + blockIntervalMs (sv_limits sv)"
    and "\<forall>(_, c) \<in> set calls. normalizedEmail e \<notin> set (ip_keys c @ further_keys sv c)"
    and "normalizedEmail e' = normalizedEmail e" "e' \<noteq> []"
    and "rq_clientAddress request \<noteq> []" "action \<noteq> []"
    and "\<not> isAllowed sv (rq_clientAddress request) (Some (normalizedEmail e))
           (truthy_string (cq_phoneNumber (posted_check request e' action)))"
  shows "Customs_check (Some (check_api payloadSchema responseSchema lost sv ck (serve_all sv calls w1)))
    now request e' action \<noteq> Passed s"
proof -
  let ?q = "posted_check request e' action"
  have q: "cq_email ?q = Some e'" "cq_ip ?q = Some (rq_clientAddress request)" "cq_action ?q = Some action"
    by (simp_all add: posted_check_def Let_def)
  obtain w' r where "check sv ck ?q (serve_all sv calls w1) = (w', Reply r)" "cr_block r"
    using banned_email_refused [OF assms(1-9) q(1) assms(10,11) q(2) assms(12) q(3) assms(13,14)] by blast
  then have "\<not> (\<exists>res. check_api payloadSchema responseSchema lost sv ck (serve_all sv calls w1) ?q = Inr res \<and> \<not> cu_block res)"
    unfolding check_api_def
    by (auto dest!: theServiceMethod_ok simp: reply_result_def of_check_result_def split: option.splits)
  then show ?thesis unfolding Customs_check_passed by blast
qed

theorem banned_email_not_passed_witness:
  "Customs_check (Some (check_api (\<lambda>_. True) (\<lambda>_. True) None default_server (at_time 1600000050000)
     (serve_all default_server
       [(at_time 1600000010000, CallCheck (login_request ''a@x.org'' ''10.0.0.2'')),
        (at_time 1600000020000, CallPasswordReset (Some ''a@x.org''))]
       (fst (blockEmail default_server (at_time 1600000000000) (Some ''a@x.org'') empty_world))))) 1600000050000
     \<lparr> rq_clientAddress = ''10.0.0.1'', rq_userAgent = None, rq_payload = None \<rparr> ''A@x.org'' ''accountLogin''
   \<noteq> Passed False"
proof -
  let ?rq = "\<lparr> rq_clientAddress = ''10.0.0.1'', rq_userAgent = None, rq_payload = None \<rparr>"
  let ?calls = "[(at_time 1600000010000, CallCheck (login_request ''a@x.org'' ''10.0.0.2'')),
        (at_time 1600000020000, CallPasswordReset (Some ''a@x.org''))]"
  have norm: "normalizedEmail ''a@x.org'' = ''a@x.org''" "normalizedEmail ''A@x.org'' = ''a@x.org''" by code_simp+
  obtain w1 where ban: "blockEmail default_server (at_time 1600000000000) (Some ''a@x.org'') empty_world = (w1, Reply ())"
    by (auto simp: blockEmail_def handleBan_def bans_blockEmail_def table_cache_def table_set_def
        norm setRecord_def truthy_string_def Let_def)
  have keys: "\<forall>(_, c) \<in> set ?calls. normalizedEmail ''a@x.org'' \<notin> set (ip_keys c @ further_keys default_server c)"
    by code_simp
  have "truthy_string (cq_phoneNumber (posted_check ?rq ''A@x.org'' ''accountLogin'')) = None"
    by (simp add: posted_check_def sanitizePayload_def string_prop_def)
  then show ?thesis
    unfolding ban fst_conv using default_nobody_allowed
    by (intro banned_email_not_passed [OF _ _ ban _ _ _ _ _ keys]) (simp_all add: table_cache_ok table_cache_up norm)
qed

text \<open>
  The payload that the auth server forwards is the original one without the passwords and the
  payment token, and nothing else is dropped.
\<close>

theorem sanitizePayload_fields:
  assumes "sanitizePayload (Some fs) = Some gs"
  shows "map_of gs k = (case map_of fs k of
      Some v \<Rightarrow> if k \<in> set fieldsToOmit \<and> js_truthy v then None else Some v | None \<Rightarrow> None)"
proof -
  let ?drop = "\<lambda>name clone. case map_of clone name of
         None \<Rightarrow> clone | Some v \<Rightarrow> if js_truthy v then AList.delete name clone else clone"
  have step: "map_of (?drop name clone) k = (case map_of clone k of
      Some v \<Rightarrow> if k = name \<and> js_truthy v then None else Some v | None \<Rightarrow> None)" for name clone
    by (auto simp: delete_conv split: option.splits)
  have "map_of (fold ?drop names clone) k = (case map_of clone k of
      Some v \<Rightarrow> if k \<in> set names \<and> js_truthy v then None else Some v | None \<Rightarrow> None)" for names clone
    by (induction names arbitrary: clone) (auto simp: step split: option.splits)
  from this [of fieldsToOmit fs] show ?thesis
    using assms unfolding sanitizePayload_def by simp
qed

theorem sanitizePayload_fields_witness:
  "map_of (the (sanitizePayload (Some [(''authPW'', JStr ''s''), (''reason'', JStr ''signin'')]))) ''authPW'' = None"
  using sanitizePayload_fields [of "[(''authPW'', JStr ''s''), (''reason'', JStr ''signin'')]"
      "the (sanitizePayload (Some [(''authPW'', JStr ''s''), (''reason'', JStr ''signin'')]))" "''authPW''"]
  by (simp add: sanitizePayload_def fieldsToOmit_def)

text \<open>
  The user agent of the original request has no influence on the verdict, because the customs
  server looks at the headers of the request between the servers.
\<close>

theorem userAgent_ignored:
  "Customs_check api now (request\<lparr>rq_userAgent := ua\<rparr>) email action = Customs_check api now request email action"
  by (simp add: Customs_check_def posted_check_def split: option.split)

text \<open>
  /checkAuthenticated answers in milliseconds. When an account reaches its limit, the error of
  the auth server has the ban duration in milliseconds where the protocol has seconds, so the
  client is told to wait a thousand times too long.
\<close>

theorem uid_limit_wait_in_ms:
  assumes "action \<noteq> []" "ip \<noteq> []" "uid \<noteq> []" "memcached_up (sv_mc sv)"
    and r: "fetchRecord (sv_mc sv) (w_cache w) (ck_fetch ck) uid UidRecord_parse = r"
    and "\<not> UidRecord_isRateLimited (sv_limits sv) (ck_check ck) r"
    and "maxChecksPerUid (sv_limits sv) \<le>
      int (length (UidRecord_window (sv_limits sv) (ck_check ck) action r)) + 1"
    and "0 < uidRateLimitBanDurationMs (sv_limits sv)"
    and "payloadSchema (action, ip, uid)" "\<And>res. responseSchema res"
  shows "Customs_checkAuthenticated (Some (checkAuthenticated_api payloadSchema responseSchema sv ck w))
      now \<lparr> rq_clientAddress = ip, rq_userAgent = ua, rq_payload = p \<rparr> uid action =
    Refused False (tooManyRequests (uidRateLimitBanDurationMs (sv_limits sv))
      (Some (now + 1000 * uidRateLimitBanDurationMs (sv_limits sv))) False)"
proof -
  let ?L = "sv_limits sv" and ?now = "ck_check ck"
  obtain r' where add: "UidRecord_addCount ?L ?now action r = (r', Some (uidRateLimitBanDurationMs ?L))"
    using assms(6,7) by (auto simp: UidRecord_addCount_cases Let_def UidRecord_getRetryAfter_def)
  have "snd (setRecords (sv_mc sv) life m t rs) = None" for life m t rs
    by (rule setRecords_up [OF assms(4)])
  then have "snd (checkAuthenticated sv ck (Some action) (Some ip) (Some uid) w) =
      Reply \<lparr> ar_block = True, ar_retryAfter = Some (uidRateLimitBanDurationMs ?L) \<rparr>"
    using assms(1-3,8) by (simp add: checkAuthenticated_def r add Let_def case_prod_unfold del: setRecords.simps)
  then have "checkAuthenticated_api payloadSchema responseSchema sv ck w (action, ip, uid) =
      Inr \<lparr> cu_block = True, cu_suspect = False, cu_unblock = False,
            cu_retryAfter = Some (uidRateLimitBanDurationMs ?L) \<rparr>"
    using assms(9,10) by (simp add: checkAuthenticated_api_def theServiceMethod_def sendRequest_def
        reply_result_def of_auth_result_def)
  then show ?thesis
    using assms(8) by (simp add: Customs_checkAuthenticated_def Customs_result_def handleCustomsResult_def)
qed

definition strict_server :: "table server" where
  "strict_server = default_server\<lparr>sv_limits := default_limits\<lparr>maxChecksPerUid := 1\<rparr>\<rparr>"

theorem uid_limit_wait_in_ms_witness:
  "Customs_checkAuthenticated (Some (checkAuthenticated_api (\<lambda>_. True) (\<lambda>_. True) strict_server
      (at_time 1600000000000) empty_world)) 1600000000000
      \<lparr> rq_clientAddress = ''10.0.0.1'', rq_userAgent = None, rq_payload = None \<rparr> ''u1'' ''devicesNotify'' =
   Refused False (tooManyRequests 900000 (Some 1600900000000) False)"
proof -
  have limits: "sv_limits strict_server = default_limits\<lparr>maxChecksPerUid := 1\<rparr>" "sv_mc strict_server = table_cache"
    by (simp_all add: strict_server_def)
  have r: "fetchRecord table_cache [] 1600000000000 ''u1'' UidRecord_parse = UidRecord_parse None"
    by (simp add: fetchRecord_def table_cache_def table_get_def)
  show ?thesis
    using uid_limit_wait_in_ms [of "''devicesNotify''" "''10.0.0.1''" "''u1''" strict_server empty_world
        "at_time 1600000000000" "UidRecord_parse None" "\<lambda>_. True" "\<lambda>_. True" 1600000000000 None None]
    by (simp add: limits table_cache_up r empty_world_def UidRecord_isRateLimited_def UidRecord_parse_def get_num_def)
qed

end
