(* ===== verification/Bounces.thy ===== *)
theory Bounces
  imports JS_Prelude
begin

text \<open>
  The auth server's protection of its reputation as a sender of email: \<open>lib/bounces.js\<close> of
  fxa-auth-server, its rules in \<open>config/index.ts\<close> and its three errors in \<open>lib/error.js\<close>. Before an
  email is sent, the bounces and complaints of the address are compared with the tiers of the
  configuration. The database's answer, a list of bounces, is an argument.
\<close>

section \<open>Rules\<close>

record bounce =
  bounceType :: int
  bo_createdAt :: time

type_synonym rule_set = "(nat \<times> int) list"

record bounces_config =
  bc_enabled :: bool
  bc_hard :: rule_set
  bc_soft :: rule_set
  bc_complaint :: rule_set
  bc_ignoreTemplates :: "string list"

definition BOUNCE_TYPE_HARD :: int where "BOUNCE_TYPE_HARD = 1"
definition BOUNCE_TYPE_SOFT :: int where "BOUNCE_TYPE_SOFT = 2"
definition BOUNCE_TYPE_COMPLAINT :: int where "BOUNCE_TYPE_COMPLAINT = 3"

definition BOUNCE_RULES :: "bounces_config \<Rightarrow> int \<Rightarrow> rule_set option" where
  "BOUNCE_RULES cfg ty =
     (if ty = BOUNCE_TYPE_HARD then Some (bc_hard cfg)
      else if ty = BOUNCE_TYPE_SOFT then Some (bc_soft cfg)
      else if ty = BOUNCE_TYPE_COMPLAINT then Some (bc_complaint cfg)
      else None)"

text \<open>The errors, with the date of the latest bounce.\<close>

datatype bounce_error = emailBouncedHard time | emailBouncedSoft time | emailComplaint time

definition bounce_errors :: "int \<Rightarrow> time \<Rightarrow> bounce_error" where
  "bounce_errors ty =
     (if ty = BOUNCE_TYPE_HARD then emailBouncedHard
      else if ty = BOUNCE_TYPE_SOFT then emailBouncedSoft else emailComplaint)"

section \<open>Applying them\<close>

record tally =
  ta_count :: nat
  ta_latest :: time

definition no_tally :: tally where
  "no_tally = \<lparr> ta_count = 0, ta_latest = 0 \<rparr>"

text \<open>\<open>tier && bounce.createdAt > now - tier\<close>\<close>

definition in_tier :: "time \<Rightarrow> rule_set \<Rightarrow> nat \<Rightarrow> time \<Rightarrow> bool" where
  "in_tier now rs count created \<longleftrightarrow>
     (case map_of rs count of None \<Rightarrow> False | Some tier \<Rightarrow> tier \<noteq> 0 \<and> created > now - tier)"

text \<open>The body of \<open>bounces.forEach\<close>; the first error ends the loop.\<close>

fun apply_rules_loop ::
    "bounces_config \<Rightarrow> time \<Rightarrow> (int \<Rightarrow> tally) \<Rightarrow> bounce list \<Rightarrow> bounce_error option" where
  "apply_rules_loop cfg now tallies [] = None"
| "apply_rules_loop cfg now tallies (b # bs) =
     (case BOUNCE_RULES cfg (bounceType b) of
        None \<Rightarrow> apply_rules_loop cfg now tallies bs
      | Some ruleSet \<Rightarrow>
          let tally = tallies (bounceType b);
              latest = (if ta_latest tally = 0 then bo_createdAt b else ta_latest tally)
          in if in_tier now ruleSet (ta_count tally) (bo_createdAt b)
             then Some (bounce_errors (bounceType b) latest)
             else apply_rules_loop cfg now
                    (tallies(bounceType b := \<lparr> ta_count = Suc (ta_count tally), ta_latest = latest \<rparr>)) bs)"

definition applyRules :: "bounces_config \<Rightarrow> time \<Rightarrow> bounce list \<Rightarrow> bounce_error option" where
  "applyRules cfg now bounces = apply_rules_loop cfg now (\<lambda>_. no_tally) bounces"

definition checkBounces ::
    "bounces_config \<Rightarrow> (string \<Rightarrow> bounce list) \<Rightarrow> time \<Rightarrow> string \<Rightarrow> string \<Rightarrow> bounce_error option" where
  "checkBounces cfg emailBounces now email template =
     (if template \<in> set (bc_ignoreTemplates cfg) then None
      else applyRules cfg now (emailBounces email))"

definition bounces_check ::
    "bounces_config \<Rightarrow> (string \<Rightarrow> bounce list) \<Rightarrow> time \<Rightarrow> string \<Rightarrow> string \<Rightarrow> bounce_error option" where
  "bounces_check cfg emailBounces now email template =
     (if bc_enabled cfg then checkBounces cfg emailBounces now email template else None)"

text \<open>The defaults of the configuration, in milliseconds.\<close>

definition default_bounces :: bounces_config where
  "default_bounces =
     \<lparr> bc_enabled = True,
       bc_hard = [(0, 3 * 300000), (1, 86400000)],
       bc_soft = [(0, 300000)],
       bc_complaint = [(0, 3 * 300000), (1, 86400000)],
       bc_ignoreTemplates =
         [''verifyLoginCode'', ''verifyLogin'', ''recovery'', ''unblockCode'',
          ''subscriptionAccountFinishSetup''] \<rparr>"

section \<open>What the loop computes\<close>

definition of_type :: "int \<Rightarrow> bounce list \<Rightarrow> bounce list" where
  "of_type ty bs = filter (\<lambda>b. bounceType b = ty) bs"

lemma of_type_simps [simp]:
  "of_type ty [] = []"
  "of_type ty (xs @ ys) = of_type ty xs @ of_type ty ys"
  "of_type ty (b # bs) = (if bounceType b = ty then b # of_type ty bs else of_type ty bs)"
  by (simp_all add: of_type_def)

text \<open>
  The specification: the \<open>i\<close>-th newest bounce of a type is too recent for the tier \<open>i\<close> of its
  rules. The first such bounce in the list decides about the error.
\<close>

definition offends :: "bounces_config \<Rightarrow> time \<Rightarrow> bounce list \<Rightarrow> bounce \<Rightarrow> bool" where
  "offends cfg now earlier b \<longleftrightarrow>
     (case BOUNCE_RULES cfg (bounceType b) of
        None \<Rightarrow> False
      | Some rs \<Rightarrow> in_tier now rs (length (of_type (bounceType b) earlier)) (bo_createdAt b))"

definition tallies_of :: "bounce list \<Rightarrow> int \<Rightarrow> tally" where
  "tallies_of earlier ty =
     \<lparr> ta_count = length (of_type ty earlier),
       ta_latest = (case of_type ty earlier of [] \<Rightarrow> 0 | b # _ \<Rightarrow> bo_createdAt b) \<rparr>"

fun first_offence :: "bounces_config \<Rightarrow> time \<Rightarrow> bounce list \<Rightarrow> bounce list \<Rightarrow> bounce_error option" where
  "first_offence cfg now earlier [] = None"
| "first_offence cfg now earlier (b # bs) =
     (if offends cfg now earlier b
      then Some (bounce_errors (bounceType b) (bo_createdAt (hd (of_type (bounceType b) (earlier @ [b])))))
      else first_offence cfg now (earlier @ [b]) bs)"

lemma apply_rules_loop_first_offence:
  assumes "\<And>b. b \<in> set (earlier @ bs) \<Longrightarrow> bo_createdAt b \<noteq> 0"
    and "\<And>ty. BOUNCE_RULES cfg ty \<noteq> None \<Longrightarrow> tallies ty = tallies_of earlier ty"
  shows "apply_rules_loop cfg now tallies bs = first_offence cfg now earlier bs"
  using assms
proof (induction bs arbitrary: earlier tallies)
  case (Cons b bs)
  show ?case
  proof (cases "BOUNCE_RULES cfg (bounceType b)")
    case None
    then have "tallies ty = tallies_of (earlier @ [b]) ty" if "BOUNCE_RULES cfg ty \<noteq> None" for ty
      using that Cons.prems(2) [of ty] by (auto simp: tallies_of_def)
    with Cons.IH [of "earlier @ [b]" tallies] Cons.prems(1) None show ?thesis
      by (simp add: offends_def)
  next
    case (Some rs)
    let ?ty = "bounceType b"
    have t: "tallies ?ty = tallies_of earlier ?ty" using Cons.prems(2) [of ?ty] Some by simp
    have hd_ne: "bo_createdAt (hd (of_type ?ty earlier)) \<noteq> 0" if "of_type ?ty earlier \<noteq> []"
      using Cons.prems(1) [of "hd (of_type ?ty earlier)"] hd_in_set [OF that] by (auto simp: of_type_def)
    have latest: "(if ta_latest (tallies ?ty) = 0 then bo_createdAt b else ta_latest (tallies ?ty)) =
        bo_createdAt (hd (of_type ?ty (earlier @ [b])))"
      using hd_ne unfolding t by (cases "of_type ?ty earlier") (simp_all add: tallies_of_def)
    have next_tallies: "(tallies(?ty := \<lparr> ta_count = Suc (ta_count (tallies ?ty)),
        ta_latest = bo_createdAt (hd (of_type ?ty (earlier @ [b]))) \<rparr>)) ty = tallies_of (earlier @ [b]) ty"
      if "BOUNCE_RULES cfg ty \<noteq> None" for ty
      using Cons.prems(2) [OF that] t
      by (cases "of_type ?ty earlier") (auto simp: tallies_of_def)
    have cnt: "ta_count (tallies ?ty) = length (of_type ?ty earlier)" by (simp add: t tallies_of_def)
    show ?thesis
      using Cons.IH [OF _ next_tallies] Cons.prems(1)
      by (simp add: Some offends_def cnt latest [unfolded cnt] latest Let_def fun_upd_def)
  qed
qed simp

definition violated :: "bounces_config \<Rightarrow> time \<Rightarrow> bounce list \<Rightarrow> bounce list \<Rightarrow> int \<Rightarrow> nat \<Rightarrow> bool" where
  "violated cfg now earlier bs ty i \<longleftrightarrow>
     length (of_type ty earlier) \<le> i \<and> i < length (of_type ty (earlier @ bs)) \<and>
     (case BOUNCE_RULES cfg ty of
        None \<Rightarrow> False
      | Some rs \<Rightarrow> in_tier now rs i (bo_createdAt (of_type ty (earlier @ bs) ! i)))"

lemma violated_Cons:
  "violated cfg now earlier (b # bs) ty i \<longleftrightarrow>
     violated cfg now (earlier @ [b]) bs ty i \<or>
     (ty = bounceType b \<and> i = length (of_type ty earlier) \<and> offends cfg now earlier b)"
proof (cases "ty = bounceType b \<and> i = length (of_type ty earlier)")
  case True
  then show ?thesis by (auto simp: violated_def offends_def nth_append split: option.splits)
next
  case False
  then show ?thesis by (auto simp: violated_def split: option.splits)
qed

lemma first_offence_violated:
  "first_offence cfg now earlier bs \<noteq> None \<longleftrightarrow> (\<exists>ty i. violated cfg now earlier bs ty i)"
proof (induction bs arbitrary: earlier)
  case Nil
  then show ?case by (simp add: violated_def)
next
  case (Cons b bs)
  then show ?case by (auto simp: violated_Cons)
qed

text \<open>The position of the bounce that decides: the first one in the list that offends.\<close>

definition decides :: "bounces_config \<Rightarrow> time \<Rightarrow> bounce list \<Rightarrow> nat \<Rightarrow> bool" where
  "decides cfg now bs k \<longleftrightarrow> k < length bs \<and> offends cfg now (take k bs) (bs ! k) \<and>
     (\<forall>j<k. \<not> offends cfg now (take j bs) (bs ! j))"

lemma first_offence_Some:
  "first_offence cfg now earlier bs = Some e \<longleftrightarrow>
    (\<exists>k<length bs. offends cfg now (earlier @ take k bs) (bs ! k) \<and>
      (\<forall>j<k. \<not> offends cfg now (earlier @ take j bs) (bs ! j)) \<and>
      e = bounce_errors (bounceType (bs ! k)) (bo_createdAt (hd (of_type (bounceType (bs ! k)) (earlier @ bs)))))"
proof (induction bs arbitrary: earlier)
  case (Cons b bs)
  have hd: "hd (of_type (bounceType b) (earlier @ [b])) = hd (of_type (bounceType b) (earlier @ b # bs))"
    by (cases "of_type (bounceType b) earlier") simp_all
  show ?case
    by (cases "offends cfg now earlier b")
      (auto simp: Cons.IH hd Ex_less_Suc2 All_less_Suc2 simp del: of_type_simps)
qed simp

lemma applyRules_first_offence:
  "(\<And>b. b \<in> set bs \<Longrightarrow> bo_createdAt b \<noteq> 0) \<Longrightarrow> applyRules cfg now bs = first_offence cfg now [] bs"
  unfolding applyRules_def
  by (rule apply_rules_loop_first_offence) (simp_all add: tallies_of_def no_tally_def)

lemma first_offence_iff:
  "first_offence cfg now [] bs \<noteq> None \<longleftrightarrow>
     (\<exists>ty rs i. BOUNCE_RULES cfg ty = Some rs \<and> i < length (of_type ty bs) \<and>
        in_tier now rs i (bo_createdAt (of_type ty bs ! i)))"
proof -
  have "violated cfg now [] bs ty i \<longleftrightarrow> (\<exists>rs. BOUNCE_RULES cfg ty = Some rs \<and>
      i < length (of_type ty bs) \<and> in_tier now rs i (bo_createdAt (of_type ty bs ! i)))" for ty i
    by (simp add: violated_def split: option.splits)
  then show ?thesis unfolding first_offence_violated by blast
qed

text \<open>
  C40: with the checks enabled and a template that is not ignored, an email is refused exactly when some
  tier is violated: the bounce of a type that is preceded by \<open>i\<close> newer ones of the same type
  happened within the time of the tier \<open>i\<close>. The error is that of the type of the first such bounce
  in the list, with the date of the latest bounce of this type. Otherwise no email is refused.
\<close>

theorem bounces_refused_iff:
  assumes "\<And>b. b \<in> set (emailBounces email) \<Longrightarrow> bo_createdAt b \<noteq> 0"
  shows "(bounces_check cfg emailBounces now email template \<noteq> None \<longleftrightarrow>
      bc_enabled cfg \<and> template \<notin> set (bc_ignoreTemplates cfg) \<and>
      (\<exists>ty rs i. BOUNCE_RULES cfg ty = Some rs \<and> i < length (of_type ty (emailBounces email)) \<and>
         in_tier now rs i (bo_createdAt (of_type ty (emailBounces email) ! i)))) \<and>
    (\<forall>e. bounces_check cfg emailBounces now email template = Some e \<longleftrightarrow>
      bc_enabled cfg \<and> template \<notin> set (bc_ignoreTemplates cfg) \<and>
      (\<exists>k. decides cfg now (emailBounces email) k \<and>
         e = bounce_errors (bounceType (emailBounces email ! k))
           (bo_createdAt (hd (of_type (bounceType (emailBounces email ! k)) (emailBounces email))))))"
proof -
  have loop: "applyRules cfg now (emailBounces email) = first_offence cfg now [] (emailBounces email)"
    by (rule applyRules_first_offence) (rule assms)
  have "applyRules cfg now (emailBounces email) = Some e \<longleftrightarrow>
      (\<exists>k. decides cfg now (emailBounces email) k \<and>
         e = bounce_errors (bounceType (emailBounces email ! k))
           (bo_createdAt (hd (of_type (bounceType (emailBounces email ! k)) (emailBounces email)))))" for e
    unfolding loop first_offence_Some decides_def by auto
  moreover have "applyRules cfg now (emailBounces email) \<noteq> None \<longleftrightarrow>
      (\<exists>ty rs i. BOUNCE_RULES cfg ty = Some rs \<and> i < length (of_type ty (emailBounces email)) \<and>
         in_tier now rs i (bo_createdAt (of_type ty (emailBounces email) ! i)))"
    unfolding loop by (rule first_offence_iff)
  ultimately show ?thesis by (simp add: bounces_check_def checkBounces_def del: not_None_eq)
qed

theorem bounces_refused_iff_witness:
  "bounces_check default_bounces
     (\<lambda>_. [\<lparr> bounceType = 2, bo_createdAt = 1600000000000 \<rparr>, \<lparr> bounceType = 1, bo_createdAt = 1599999000000 \<rparr>,
           \<lparr> bounceType = 1, bo_createdAt = 1599990000000 \<rparr>])
     1600000400000 ''a@x.org'' ''verify'' = Some (emailBouncedHard 1599999000000) \<and>
   (\<exists>k. decides default_bounces 1600000400000
      [\<lparr> bounceType = 2, bo_createdAt = 1600000000000 \<rparr>, \<lparr> bounceType = 1, bo_createdAt = 1599999000000 \<rparr>,
       \<lparr> bounceType = 1, bo_createdAt = 1599990000000 \<rparr>] k)"
proof -
  let ?db = "\<lambda>_ :: string. [\<lparr> bounceType = 2, bo_createdAt = 1600000000000 \<rparr>,
    \<lparr> bounceType = 1, bo_createdAt = 1599999000000 \<rparr>, \<lparr> bounceType = 1, bo_createdAt = 1599990000000 \<rparr>]"
  have r: "bounces_check default_bounces ?db 1600000400000 ''a@x.org'' ''verify'' =
      Some (emailBouncedHard 1599999000000)"
    by code_simp
  have "bo_createdAt b \<noteq> 0" if "b \<in> set (?db ''a@x.org'')" for b
    using that by auto
  from bounces_refused_iff [of ?db "''a@x.org''" default_bounces 1600000400000 "''verify''", OF this]
  show ?thesis unfolding r by blast
qed

end
