(* ===== verification/Scope_Url.thy ===== *)
theory Scope_Url
  imports JS_Prelude
begin

text \<open>
  The part of Node's class \<open>URL\<close> that \<open>fxa-shared/oauth/scopes.js\<close> uses: parsing a string that
  starts with \<open>https:\<close>, resolving a string that starts with \<open>/\<close> against a parsed URL, the
  getters, and \<open>href\<close>. It follows the states of the basic parser of the WHATWG URL standard on
  visible ASCII characters other than the backslash, which is all that \<open>VALID_SCOPE_VALUE\<close> lets
  through. The host parser (domain names with IDNA, IPv4 and IPv6 addresses) is the argument
  \<open>hp\<close>: the serialised host, or \<open>None\<close> for a failure.
\<close>

section \<open>Joining and splitting\<close>

fun join_with :: "char \<Rightarrow> string list \<Rightarrow> string" where
  "join_with c [] = []"
| "join_with c [w] = w"
| "join_with c (w # v # ws) = w @ c # join_with c (v # ws)"

section \<open>Percent encoding\<close>

definition hex_digit :: "nat \<Rightarrow> char" where
  "hex_digit n = ''0123456789ABCDEF'' ! n"

definition percent_encode :: "string \<Rightarrow> string \<Rightarrow> string" where
  "percent_encode unsafe s =
     concat (map (\<lambda>c. if c \<in> set unsafe
                      then [CHR ''%'', hex_digit (of_char c div 16), hex_digit (of_char c mod 16)]
                      else [c]) s)"

text \<open>The visible ASCII characters of the percent-encode sets of the standard.\<close>

definition fragment_unsafe :: string where
  "fragment_unsafe = [CHR 0x22] @ ''<>`''"

definition query_unsafe :: string where
  "query_unsafe = [CHR 0x22, CHR 0x27] @ ''#<>''"

definition path_unsafe :: string where
  "path_unsafe = [CHR 0x22] @ ''#<>?`{}''"

definition userinfo_unsafe :: string where
  "userinfo_unsafe = path_unsafe @ ''/:;=@[]^|''"

section \<open>Paths\<close>

definition single_dot :: "string \<Rightarrow> bool" where
  "single_dot s \<longleftrightarrow> toLowerCase s \<in> {''.'', ''%2e''}"

definition double_dot :: "string \<Rightarrow> bool" where
  "double_dot s \<longleftrightarrow> toLowerCase s \<in> {''..'', ''.%2e'', ''%2e.'', ''%2e%2e''}"

text \<open>The path state, one segment at a time; only the last segment is not followed by a slash.\<close>

fun path_state :: "string list \<Rightarrow> string list \<Rightarrow> string list" where
  "path_state path [] = path"
| "path_state path [seg] =
     (let s = percent_encode path_unsafe seg
      in if double_dot s then butlast path @ [[]]
         else if single_dot s then path @ [[]] else path @ [s])"
| "path_state path (seg # seg' # segs) =
     (let s = percent_encode path_unsafe seg
      in path_state (if double_dot s then butlast path else if single_dot s then path else path @ [s])
           (seg' # segs))"

section \<open>URLs\<close>

record url =
  u_username :: string
  u_password :: string
  u_host :: string
  u_port :: "nat option"
  u_path :: "string list"
  u_query :: "string option"
  u_fragment :: "string option"

definition cut :: "(char \<Rightarrow> bool) \<Rightarrow> string \<Rightarrow> string \<times> string" where
  "cut stop s = (takeWhile (\<lambda>c. \<not> stop c) s, dropWhile (\<lambda>c. \<not> stop c) s)"

text \<open>Path, query and fragment.\<close>

definition parse_tail :: "string \<Rightarrow> string list \<times> string option \<times> string option" where
  "parse_tail s =
     (let (before, hash) = cut (\<lambda>c. c = CHR ''#'') s;
          (path, search) = cut (\<lambda>c. c = CHR ''?'') before
      in (path_state [] (split_on (CHR ''/'') (case path of c # cs \<Rightarrow> (if c = CHR ''/'' then cs else path) | [] \<Rightarrow> [])),
          (case search of [] \<Rightarrow> None | _ # q \<Rightarrow> Some (percent_encode query_unsafe q)),
          (case hash of [] \<Rightarrow> None | _ # f \<Rightarrow> Some (percent_encode fragment_unsafe f))))"

text \<open>The colon that starts the port, outside of square brackets.\<close>

fun cut_port :: "bool \<Rightarrow> string \<Rightarrow> string \<times> string option" where
  "cut_port inside [] = ([], None)"
| "cut_port inside (c # cs) =
     (if c = CHR '':'' \<and> \<not> inside then ([], Some cs)
      else
        let (host, port) =
          cut_port (if c = CHR ''['' then True else if c = CHR '']'' then False else inside) cs
        in (c # host, port))"

definition parse_port :: "string option \<Rightarrow> nat option option" where
  "parse_port port =
     (case port of
        None \<Rightarrow> Some None
      | Some [] \<Rightarrow> Some None
      | Some ds \<Rightarrow>
          if list_all is_digit ds \<and> digits_value ds \<le> 65535
          then Some (if digits_value ds = 443 then None else Some (digits_value ds))
          else None)"

text \<open>User name, password, host and port.\<close>

definition parse_authority ::
    "(string \<Rightarrow> string option) \<Rightarrow> string \<Rightarrow> (string \<times> string \<times> string \<times> nat option) option" where
  "parse_authority hp a =
     (let parts = split_on (CHR ''@'') a;
          creds = join_with (CHR ''@'') (butlast parts);
          (user, pass) = cut (\<lambda>c. c = CHR '':'') creds;
          (host, port) = cut_port False (last parts)
      in if host = [] then None
         else
           case (hp host, parse_port port) of
             (Some h, Some p) \<Rightarrow>
               Some (percent_encode userinfo_unsafe user, percent_encode userinfo_unsafe (drop 1 pass), h, p)
           | _ \<Rightarrow> None)"

definition authority_end :: "char \<Rightarrow> bool" where
  "authority_end c \<longleftrightarrow> c = CHR ''/'' \<or> c = CHR ''?'' \<or> c = CHR ''#''"

text \<open>What follows the scheme: any number of slashes, the authority, the rest.\<close>

definition parse_after_scheme :: "(string \<Rightarrow> string option) \<Rightarrow> string \<Rightarrow> url option" where
  "parse_after_scheme hp s =
     (let (authority, tail) = cut authority_end (dropWhile (\<lambda>c. c = CHR ''/'') s)
      in case parse_authority hp authority of
           None \<Rightarrow> None
         | Some (user, pass, host, port) \<Rightarrow>
             let (path, query, fragment) = parse_tail tail
             in Some \<lparr> u_username = user, u_password = pass, u_host = host, u_port = port,
                       u_path = path, u_query = query, u_fragment = fragment \<rparr>)"

text \<open>\<open>new URL(value)\<close> for a value that starts with \<open>https:\<close>\<close>

definition url_parse :: "(string \<Rightarrow> string option) \<Rightarrow> string \<Rightarrow> url option" where
  "url_parse hp value = parse_after_scheme hp (drop 6 value)"

text \<open>\<open>new URL(input, base)\<close> for an input that starts with a slash; two of them start an authority.\<close>

definition url_resolve :: "(string \<Rightarrow> string option) \<Rightarrow> string \<Rightarrow> url \<Rightarrow> url option" where
  "url_resolve hp input base =
     (if take 2 input = ''//'' then parse_after_scheme hp input
      else
        let (path, query, fragment) = parse_tail input
        in Some (base\<lparr> u_path := path, u_query := query, u_fragment := fragment \<rparr>))"

definition url_pathname :: "url \<Rightarrow> string" where
  "url_pathname u = concat (map (\<lambda>seg. CHR ''/'' # seg) (u_path u))"

definition url_hash :: "url \<Rightarrow> string" where
  "url_hash u =
     (case u_fragment u of None \<Rightarrow> [] | Some f \<Rightarrow> if f = [] then [] else CHR ''#'' # f)"

definition url_authority :: "url \<Rightarrow> string" where
  "url_authority u =
     (if u_username u = [] \<and> u_password u = [] then []
      else u_username u @ (if u_password u = [] then [] else CHR '':'' # u_password u) @ ''@'') @
     u_host u @ (case u_port u of None \<Rightarrow> [] | Some p \<Rightarrow> CHR '':'' # show_nat p)"

definition url_href :: "url \<Rightarrow> string" where
  "url_href u =
     ''https://'' @ url_authority u @ url_pathname u @
     (case u_query u of None \<Rightarrow> [] | Some q \<Rightarrow> CHR ''?'' # q) @
     (case u_fragment u of None \<Rightarrow> [] | Some f \<Rightarrow> CHR ''#'' # f)"

section \<open>Joining and splitting are inverse\<close>

lemma split_on_join:
  "ws \<noteq> [] \<Longrightarrow> (\<And>w. w \<in> set ws \<Longrightarrow> c \<notin> set w) \<Longrightarrow> split_on c (join_with c ws) = ws"
  by (induction c ws rule: join_with.induct) simp_all

lemma join_split_on: "join_with c (split_on c s) = s"
proof (induction s)
  case (Cons x s)
  obtain w ws where ws: "split_on c s = w # ws" by (cases "split_on c s") simp_all
  with Cons show ?case by (cases ws) auto
qed simp

lemma join_with_snoc: "ws \<noteq> [] \<Longrightarrow> join_with c (ws @ [w]) = join_with c ws @ c # w"
  by (induction c ws rule: join_with.induct) auto

lemma join_with_inj:
  assumes "join_with c ws = join_with c vs" and "ws \<noteq> []" and "vs \<noteq> []"
    and "\<And>w. w \<in> set ws \<Longrightarrow> c \<notin> set w" and "\<And>w. w \<in> set vs \<Longrightarrow> c \<notin> set w"
  shows "ws = vs"
proof -
  have "ws = split_on c (join_with c ws)" using split_on_join [OF assms(2,4)] by simp
  also have "\<dots> = split_on c (join_with c vs)" by (simp only: assms(1))
  also have "\<dots> = vs" by (rule split_on_join [OF assms(3,5)])
  finally show ?thesis .
qed

lemma join_with_Nil_Cons: "ws \<noteq> [] \<Longrightarrow> join_with c ([] # ws) = c # join_with c ws"
  by (cases ws) simp_all

lemma url_pathname_join: "u_path u \<noteq> [] \<Longrightarrow> url_pathname u = CHR ''/'' # join_with (CHR ''/'') (u_path u)"
proof -
  have "ws \<noteq> [] \<Longrightarrow> concat (map (\<lambda>seg. c # seg) ws) = c # join_with c ws" for c :: char and ws
    by (induction c ws rule: join_with.induct) auto
  then show "u_path u \<noteq> [] \<Longrightarrow> ?thesis" by (simp add: url_pathname_def)
qed

section \<open>Canonical paths\<close>

definition escape_chars :: string where
  "escape_chars = ''%0123456789ABCDEF''"

lemma hex_digit_escape: "n < 16 \<Longrightarrow> hex_digit n \<in> set escape_chars"
proof -
  assume "n < 16"
  then have "''0123456789ABCDEF'' ! n \<in> set ''0123456789ABCDEF''" by (intro nth_mem) simp
  then show ?thesis unfolding hex_digit_def escape_chars_def by auto
qed

lemma set_percent_encode: "set (percent_encode U s) \<subseteq> set s - set U \<union> set escape_chars"
proof -
  have "CHR ''%'' \<in> set escape_chars" by (simp add: escape_chars_def)
  moreover have "hex_digit (of_char c div 16) \<in> set escape_chars"
      "hex_digit (of_char c mod 16) \<in> set escape_chars" for c :: char
    by (intro hex_digit_escape; use nat_of_char_less_256 [of c] in linarith)
      (intro hex_digit_escape; simp)
  ultimately show ?thesis by (auto simp: percent_encode_def split: if_splits)
qed

lemma percent_encode_id: "set s \<inter> set U = {} \<Longrightarrow> percent_encode U s = s"
  by (induction s) (auto simp: percent_encode_def)

definition canonical_seg :: "string \<Rightarrow> bool" where
  "canonical_seg s \<longleftrightarrow> set s \<inter> set path_unsafe = {} \<and> CHR ''/'' \<notin> set s \<and> \<not> single_dot s \<and> \<not> double_dot s"

lemma canonical_Nil [simp]: "canonical_seg []"
  by (simp add: canonical_seg_def single_dot_def double_dot_def toLowerCase_def)

lemma path_unsafe_escape: "set path_unsafe \<inter> set escape_chars = {}" "CHR ''/'' \<notin> set escape_chars"
  by code_simp+

lemma canonical_encoded:
  "CHR ''/'' \<notin> set seg \<Longrightarrow> \<not> single_dot (percent_encode path_unsafe seg) \<Longrightarrow>
   \<not> double_dot (percent_encode path_unsafe seg) \<Longrightarrow> canonical_seg (percent_encode path_unsafe seg)"
  using set_percent_encode [of path_unsafe seg] path_unsafe_escape
  unfolding canonical_seg_def by blast

lemma path_state_canonical:
  "list_all canonical_seg acc \<Longrightarrow> (\<And>seg. seg \<in> set segs \<Longrightarrow> CHR ''/'' \<notin> set seg) \<Longrightarrow>
   list_all canonical_seg (path_state acc segs)"
proof (induction acc segs rule: path_state.induct)
  case (2 path seg)
  then show ?case
    using canonical_encoded [of seg] by (auto simp: Let_def list_all_iff dest: in_set_butlastD)
next
  case (3 path seg seg' segs)
  let ?s = "percent_encode path_unsafe seg"
  let ?acc = "if double_dot ?s then butlast path else if single_dot ?s then path else path @ [?s]"
  have "list_all canonical_seg ?acc"
    using 3(2,3) canonical_encoded [of seg] by (auto simp: list_all_iff dest: in_set_butlastD)
  from 3(1) [OF refl this] 3(3) show ?case by (simp add: Let_def)
qed simp

lemma path_state_not_Nil: "segs \<noteq> [] \<Longrightarrow> path_state acc segs \<noteq> []"
  by (induction acc segs rule: path_state.induct) (simp_all add: Let_def)

lemma path_state_id: "list_all canonical_seg segs \<Longrightarrow> path_state acc segs = acc @ segs"
proof (induction acc segs rule: path_state.induct)
  case (2 path seg)
  then show ?case by (simp add: canonical_seg_def percent_encode_id)
next
  case (3 path seg seg' segs)
  then show ?case by (simp add: canonical_seg_def percent_encode_id)
qed simp

lemma set_join_with: "set (join_with c ws) \<subseteq> insert c (\<Union> (set ` set ws))"
  by (induction c ws rule: join_with.induct) auto

section \<open>Reading back a printed URL\<close>

definition print_fragment :: "string option \<Rightarrow> string" where
  "print_fragment f = (case f of None \<Rightarrow> [] | Some g \<Rightarrow> CHR ''#'' # g)"

definition safe_fragment :: "string option \<Rightarrow> bool" where
  "safe_fragment f \<longleftrightarrow> (case f of None \<Rightarrow> True | Some g \<Rightarrow> set g \<inter> set fragment_unsafe = {})"

lemma cut_append_stop:
  "\<forall>c \<in> set w. \<not> stop c \<Longrightarrow> (case s of [] \<Rightarrow> True | c # _ \<Rightarrow> stop c) \<Longrightarrow> cut stop (w @ s) = (w, s)"
  by (cases s) (simp_all add: cut_def takeWhile_append dropWhile_append)

lemma parse_tail_print:
  assumes "p \<noteq> []" and "list_all canonical_seg p" and "safe_fragment f"
  shows "parse_tail (CHR ''/'' # join_with (CHR ''/'') p @ print_fragment f) = (p, None, f)"
proof -
  let ?path = "CHR ''/'' # join_with (CHR ''/'') p"
  have "CHR ''#'' \<in> set path_unsafe" "CHR ''?'' \<in> set path_unsafe" by (simp_all add: path_unsafe_def)
  then have no: "CHR ''#'' \<notin> set seg \<and> CHR ''?'' \<notin> set seg" if "seg \<in> set p" for seg
    using assms(2) that by (auto simp: list_all_iff canonical_seg_def)
  then have chars: "CHR ''#'' \<notin> set ?path" "CHR ''?'' \<notin> set ?path"
    using set_join_with [of "CHR ''/''" p] by auto
  have c1: "cut (\<lambda>c. c = CHR ''#'') (?path @ print_fragment f) = (?path, print_fragment f)"
    using chars(1) by (intro cut_append_stop) (auto simp: print_fragment_def split: option.split)
  have c2: "cut (\<lambda>c. c = CHR ''?'') ?path = (?path, [])"
    using chars(2) cut_append_stop [of ?path "\<lambda>c. c = CHR ''?''" "[]"] by auto
  have "split_on (CHR ''/'') (join_with (CHR ''/'') p) = p"
    using assms by (intro split_on_join) (auto simp: list_all_iff canonical_seg_def)
  then have "path_state [] (split_on (CHR ''/'') (join_with (CHR ''/'') p)) = p"
    using path_state_id [OF assms(2), of "[]"] by simp
  moreover have "(case print_fragment f of [] \<Rightarrow> None | _ # g \<Rightarrow> Some (percent_encode fragment_unsafe g)) = f"
    using assms(3) by (auto simp: print_fragment_def safe_fragment_def percent_encode_id split: option.split)
  ultimately show ?thesis
    using c1 c2 by (simp add: parse_tail_def Let_def)
qed

lemma fragment_unsafe_escape: "set fragment_unsafe \<inter> set escape_chars = {}"
  by code_simp

lemma parse_tail_canonical:
  assumes "parse_tail s = (p, q, f)"
  shows "p \<noteq> []" "list_all canonical_seg p" "safe_fragment f"
proof -
  obtain t where p: "p = path_state [] (split_on (CHR ''/'') t)"
    using assms by (auto simp: parse_tail_def Let_def split: prod.splits)
  show "p \<noteq> []" unfolding p by (rule path_state_not_Nil) simp
  show "list_all canonical_seg p"
    unfolding p by (rule path_state_canonical) (auto dest: split_on_pieces)
  obtain h where "f = (case h of [] \<Rightarrow> None | _ # g \<Rightarrow> Some (percent_encode fragment_unsafe g))"
    using assms by (auto simp: parse_tail_def Let_def split: prod.splits)
  then show "safe_fragment f"
    using set_percent_encode [of fragment_unsafe "tl h"] fragment_unsafe_escape
    by (cases h) (auto simp: safe_fragment_def)
qed

text \<open>The URL of a parent path, with or without a fragment.\<close>

definition url_at :: "url \<Rightarrow> string list \<Rightarrow> string option \<Rightarrow> url" where
  "url_at u p f = u\<lparr> u_path := p, u_query := None, u_fragment := f \<rparr>"

lemma url_at_simps [simp]:
  "u_path (url_at u p f) = p" "u_query (url_at u p f) = None" "u_fragment (url_at u p f) = f"
  "url_authority (url_at u p f) = url_authority u" "url_at (url_at u p f) q g = url_at u q g"
  "u_username (url_at u p f) = u_username u" "u_password (url_at u p f) = u_password u"
  "u_host (url_at u p f) = u_host u" "u_port (url_at u p f) = u_port u"
  by (simp_all add: url_at_def url_authority_def)

lemma url_href_at:
  "p \<noteq> [] \<Longrightarrow> url_href (url_at u p f) =
     ''https://'' @ url_authority u @ CHR ''/'' # join_with (CHR ''/'') p @ print_fragment f"
  by (simp add: url_href_def url_pathname_join print_fragment_def)

definition clean_authority :: "url \<Rightarrow> bool" where
  "clean_authority u \<longleftrightarrow> url_authority u \<noteq> [] \<and> list_all (\<lambda>c. \<not> authority_end c) (url_authority u)"

lemma parse_after_slashes:
  assumes "a \<noteq> []" and "list_all (\<lambda>c. \<not> authority_end c) a" and "t \<noteq> []" and "hd t = CHR ''/''"
  shows "parse_after_scheme hp (''//'' @ a @ t) =
    (case parse_authority hp a of
       None \<Rightarrow> None
     | Some (user, pass, host, port) \<Rightarrow>
         (case parse_tail t of (path, query, fragment) \<Rightarrow>
            Some \<lparr> u_username = user, u_password = pass, u_host = host, u_port = port,
                   u_path = path, u_query = query, u_fragment = fragment \<rparr>))"
proof -
  obtain c cs where a: "a = c # cs" using assms(1) by (cases a) simp_all
  then have "c \<noteq> CHR ''/''" using assms(2) by (simp add: authority_end_def)
  then have d: "dropWhile (\<lambda>c. c = CHR ''/'') (''//'' @ a @ t) = a @ t" using a by simp
  have "(case t of [] \<Rightarrow> True | c # _ \<Rightarrow> authority_end c)"
    using assms(3,4) by (cases t) (simp_all add: authority_end_def)
  then have "cut authority_end (a @ t) = (a, t)"
    using assms(2) by (intro cut_append_stop) (simp_all add: list_all_iff)
  with d show ?thesis
    by (cases "parse_authority hp a") (simp_all add: parse_after_scheme_def Let_def split: prod.split)
qed

lemma url_parse_authority:
  assumes u: "url_parse hp x = Some u" "url_href u = x" and clean: "clean_authority u"
  shows "parse_authority hp (url_authority u) = Some (u_username u, u_password u, u_host u, u_port u)"
    and "u_path u \<noteq> []" and "list_all canonical_seg (u_path u)" and "safe_fragment (u_fragment u)"
proof -
  obtain s p q f where t: "parse_tail s = (p, q, f)" "u_path u = p" "u_fragment u = f"
    using u(1) by (auto simp: url_parse_def parse_after_scheme_def Let_def split: prod.splits option.splits)
  from parse_tail_canonical [OF t(1)] t(2,3)
  show path: "u_path u \<noteq> []" and "list_all canonical_seg (u_path u)" and "safe_fragment (u_fragment u)"
    by simp_all
  obtain t' where t': "drop 6 x = ''//'' @ url_authority u @ CHR ''/'' # t'"
    using u(2) path by (auto simp: url_href_def url_pathname_join)
  have "parse_after_scheme hp (''//'' @ url_authority u @ CHR ''/'' # t') = Some u"
    using u(1) t' by (simp add: url_parse_def)
  with parse_after_slashes [of "url_authority u" "CHR ''/'' # t'" hp] clean
  show "parse_authority hp (url_authority u) = Some (u_username u, u_password u, u_host u, u_port u)"
    by (auto simp: clean_authority_def split: option.splits prod.splits)
qed

lemma url_parse_at:
  assumes "parse_authority hp (url_authority u) = Some (u_username u, u_password u, u_host u, u_port u)"
    and "clean_authority u" and "p \<noteq> []" and "list_all canonical_seg p" and "safe_fragment f"
  shows "url_parse hp (url_href (url_at u p f)) = Some (url_at u p f)"
proof -
  have "drop 6 (url_href (url_at u p f)) =
      ''//'' @ url_authority u @ CHR ''/'' # join_with (CHR ''/'') p @ print_fragment f"
    using assms(3) by (simp add: url_href_at)
  with parse_after_slashes [of "url_authority u" "CHR ''/'' # join_with (CHR ''/'') p @ print_fragment f" hp]
    assms(1,2) parse_tail_print [OF assms(3-5)]
  show ?thesis by (simp add: url_parse_def clean_authority_def url_at_def)
qed

text \<open>Resolving a path that does not start with two slashes.\<close>

lemma url_resolve_at:
  assumes "p \<noteq> []" and "hd p \<noteq> []" and "list_all canonical_seg p" and "safe_fragment f"
  shows "url_resolve hp (CHR ''/'' # join_with (CHR ''/'') p @ print_fragment f) u = Some (url_at u p f)"
proof -
  obtain c cs ws where p: "p = (c # cs) # ws" using assms(1,2) by (cases p; cases "hd p") auto
  then have "c \<noteq> CHR ''/''" using assms(3) by (auto simp: canonical_seg_def)
  then have "take 2 (CHR ''/'' # join_with (CHR ''/'') p @ print_fragment f) \<noteq> ''//''"
    using p by (cases ws) (auto simp: numeral_2_eq_2)
  with parse_tail_print [OF assms(1,3,4)] show ?thesis
    by (simp add: url_resolve_def url_at_def)
qed

end
