(* ===== verification/Scope_Set.thy ===== *)
theory Scope_Set
  imports Scope_Url
begin

text \<open>
  Sets of OAuth scopes: \<open>oauth/scopes.js\<close> of fxa-shared. A scope implies another if it is more
  general; \<open>getImplicantValues\<close> lists everything that implies a given scope. A \<open>ScopeSet\<close> keeps the
  most general scopes only, with a mapping to their implicants and the inverse mapping.

  The two mappings are plain objects, so \<open>in\<close> and \<open>[]\<close> also see inherited properties. JavaScript
  \<open>Set\<close>s are lists without duplicates in insertion order. The sets in \<open>_scopesToImplicants\<close> are
  shared between objects but never modified; those in \<open>_implicantsToScopes\<close> belong to one object.
\<close>

section \<open>Implicants of a scope\<close>

datatype scope_error = InvalidScope string | InvalidURL | NotIterable

definition VALID_SCOPE_VALUE :: "string \<Rightarrow> bool" where
  "VALID_SCOPE_VALUE s \<longleftrightarrow> s \<noteq> [] \<and>
     list_all (\<lambda>c. let n = (of_char c :: nat)
                   in n = 0x21 \<or> 0x23 \<le> n \<and> n \<le> 0x5B \<or> 0x5D \<le> n \<and> n \<le> 0x7E) s"

definition word_char :: "char \<Rightarrow> bool" where
  "word_char c \<longleftrightarrow>
     (let n = (of_char c :: nat)
      in 97 \<le> n \<and> n \<le> 122 \<or> 65 \<le> n \<and> n \<le> 90 \<or> 48 \<le> n \<and> n \<le> 57 \<or> n = 95)"

definition VALID_SHORT_NAME_VALUE :: "string \<Rightarrow> bool" where
  "VALID_SHORT_NAME_VALUE s \<longleftrightarrow> s \<noteq> [] \<and> list_all word_char s"

definition VALID_FRAGMENT_VALUE :: "string \<Rightarrow> bool" where
  "VALID_FRAGMENT_VALUE s \<longleftrightarrow>
     (case s of [] \<Rightarrow> False | c # cs \<Rightarrow> c = CHR ''#'' \<and> cs \<noteq> [] \<and> list_all word_char cs)"

text \<open>The loop over the shrinking list \<open>names\<close>.\<close>

function short_implicants :: "bool \<Rightarrow> string list \<Rightarrow> string list" where
  "short_implicants hasWrite names =
     (if names = [] then []
      else (join_with (CHR '':'') names @ '':write'') #
           (if hasWrite then [] else [join_with (CHR '':'') names]) @
           short_implicants hasWrite (butlast names))"
  by pat_completeness auto

termination short_implicants
  by (relation "measure (\<lambda>(w, names). length names)") auto

definition getImplicantValuesForShortScope :: "string \<Rightarrow> scope_error + string list" where
  "getImplicantValuesForShortScope value =
     (let names = split_on (CHR '':'') value
      in if \<not> VALID_SCOPE_VALUE value then Inl (InvalidScope value)
         else if \<not> list_all VALID_SHORT_NAME_VALUE names then Inl (InvalidScope value)
         else if last names = ''write'' then
           if butlast names = [] then Inl (InvalidScope value)
           else Inr (short_implicants True (butlast names))
         else Inr (short_implicants False names))"

text \<open>The loop over the shrinking list \<open>pathParts\<close>.\<close>

function url_implicants ::
    "(string \<Rightarrow> string option) \<Rightarrow> url \<Rightarrow> string list \<Rightarrow> scope_error + string list" where
  "url_implicants hp u pathParts =
     (if length pathParts \<le> 1 then Inr []
      else
        case (url_resolve hp (join_with (CHR ''/'') pathParts) u,
              url_resolve hp (join_with (CHR ''/'') pathParts @ url_hash u) u,
              url_implicants hp u (butlast pathParts)) of
          (Some v, Some v', Inr rest) \<Rightarrow>
            Inr (url_href v # (if url_hash u = [] then [] else [url_href v']) @ rest)
        | (None, _, _) \<Rightarrow> Inl InvalidURL
        | (_, None, _) \<Rightarrow> Inl InvalidURL
        | (_, _, Inl e) \<Rightarrow> Inl e)"
  by pat_completeness auto

termination url_implicants
  by (relation "measure (\<lambda>(hp, u, parts). length parts)") auto

declare short_implicants.simps [simp del] url_implicants.simps [simp del]

text \<open>
  \<open>url.protocol\<close> is \<open>https:\<close> for every value that gets here, and a \<open>URL\<close> has no property \<open>query\<close>.
\<close>

definition getImplicantValuesForURLScope ::
    "(string \<Rightarrow> string option) \<Rightarrow> string \<Rightarrow> scope_error + string list" where
  "getImplicantValuesForURLScope hp value =
     (if \<not> VALID_SCOPE_VALUE value then Inl (InvalidScope value)
      else
        case url_parse hp value of
          None \<Rightarrow> Inl InvalidURL
        | Some u \<Rightarrow>
            if u_username u \<noteq> [] \<or> u_password u \<noteq> [] then Inl (InvalidScope value)
            else if url_pathname u = [] \<or> last (url_pathname u) = CHR ''/'' then Inl (InvalidScope value)
            else if url_hash u \<noteq> [] \<and> \<not> VALID_FRAGMENT_VALUE (url_hash u) then Inl (InvalidScope value)
            else if url_href u \<noteq> value then Inl (InvalidScope value)
            else url_implicants hp u (split_on (CHR ''/'') (url_pathname u)))"

definition getImplicantValues :: "(string \<Rightarrow> string option) \<Rightarrow> string \<Rightarrow> scope_error + string list" where
  "getImplicantValues hp value =
     (if take 6 value = ''https:'' then getImplicantValuesForURLScope hp value
      else getImplicantValuesForShortScope value)"

section \<open>Scope sets\<close>

record scope_set =
  scopesToImplicants :: "(string \<times> string list) list"
  implicantsToScopes :: "(string \<times> string list) list"

definition empty_set :: scope_set where
  "empty_set = \<lparr> scopesToImplicants = [], implicantsToScopes = [] \<rparr>"

text \<open>\<open>new Set(xs)\<close> and \<open>xs.add(x)\<close>\<close>

definition set_add :: "'a \<Rightarrow> 'a list \<Rightarrow> 'a list" where
  "set_add x xs = (if x \<in> set xs then xs else xs @ [x])"

definition new_set :: "'a list \<Rightarrow> 'a list" where
  "new_set xs = fold set_add xs []"

text \<open>A loop whose body may throw.\<close>

fun fold_sum :: "('a \<Rightarrow> 's \<Rightarrow> 'e + 's) \<Rightarrow> 'a list \<Rightarrow> 's \<Rightarrow> 'e + 's" where
  "fold_sum f [] s = Inr s"
| "fold_sum f (x # xs) s = (case f x s of Inl e \<Rightarrow> Inl e | Inr s' \<Rightarrow> fold_sum f xs s')"

definition hasScope :: "scope_set \<Rightarrow> string \<Rightarrow> bool" where
  "hasScope S scope = js_in scope (map fst (scopesToImplicants S))"

definition hasSomeScope :: "scope_set \<Rightarrow> string list \<Rightarrow> bool" where
  "hasSomeScope S scopes = list_ex (hasScope S) scopes"

definition hasImplicant :: "scope_set \<Rightarrow> string \<Rightarrow> bool" where
  "hasImplicant S scope = js_in scope (map fst (implicantsToScopes S))"

definition hasSomeImplicant :: "scope_set \<Rightarrow> string list \<Rightarrow> bool" where
  "hasSomeImplicant S scopes = list_ex (hasImplicant S) scopes"

text \<open>
  The order in which the own keys of an object are enumerated: array indices in numeric order,
  then the other keys in the order of their creation.
\<close>

definition array_index :: "string \<Rightarrow> bool" where
  "array_index s \<longleftrightarrow> s \<noteq> [] \<and> list_all is_digit s \<and> (s = ''0'' \<or> hd s \<noteq> CHR ''0'') \<and>
     digits_value s < 2 ^ 32 - 1"

definition object_entries :: "(string \<times> 'v) list \<Rightarrow> (string \<times> 'v) list" where
  "object_entries es =
     sort_key (\<lambda>e. digits_value (fst e)) (filter (\<lambda>e. array_index (fst e)) es) @
     filter (\<lambda>e. \<not> array_index (fst e)) es"

definition iterImpliedScopes :: "scope_set \<Rightarrow> string \<Rightarrow> scope_error + string list" where
  "iterImpliedScopes S implicant =
     (case map_of (implicantsToScopes S) implicant of
        Some scopes \<Rightarrow> Inr scopes
      | None \<Rightarrow> if implicant \<in> set object_prototype_keys then Inl NotIterable else Inr [])"

definition searchScopes :: "(string \<Rightarrow> string list \<Rightarrow> bool) \<Rightarrow> scope_set \<Rightarrow> bool" where
  "searchScopes cb S = list_ex (\<lambda>(s, X). cb s X) (object_entries (scopesToImplicants S))"

definition searchImplicants :: "(string \<Rightarrow> string list \<Rightarrow> bool) \<Rightarrow> scope_set \<Rightarrow> bool" where
  "searchImplicants cb S = list_ex (\<lambda>(s, X). cb s X) (object_entries (implicantsToScopes S))"

definition unlink_scope ::
    "string \<Rightarrow> string \<Rightarrow> (string \<times> string list) list \<Rightarrow> scope_error + (string \<times> string list) list" where
  "unlink_scope scope implicant es =
     (case map_of es implicant of
        None \<Rightarrow> Inl NotIterable
      | Some impliedScopes \<Rightarrow>
          let left = filter (\<lambda>s. s \<noteq> scope) impliedScopes
          in Inr (if left = [] then AList.delete implicant es else AList.update implicant left es))"

definition removeScope :: "string \<Rightarrow> scope_set \<Rightarrow> scope_error + scope_set" where
  "removeScope scope S =
     (case map_of (scopesToImplicants S) scope of
        None \<Rightarrow> Inl NotIterable
      | Some implicants \<Rightarrow>
          (case fold_sum (unlink_scope scope) implicants (implicantsToScopes S) of
             Inl e \<Rightarrow> Inl e
           | Inr es \<Rightarrow>
               Inr \<lparr> scopesToImplicants = AList.delete scope (scopesToImplicants S),
                     implicantsToScopes = es \<rparr>))"

definition link_scope ::
    "string \<Rightarrow> string \<Rightarrow> (string \<times> string list) list \<Rightarrow> scope_error + (string \<times> string list) list" where
  "link_scope scope implicant es =
     (if js_in implicant (map fst es) then
        case map_of es implicant of
          None \<Rightarrow> Inl NotIterable
        | Some scopes \<Rightarrow> Inr (AList.update implicant (set_add scope scopes) es)
      else Inr (AList.update implicant [scope] es))"

text \<open>
  The loop over the implied scopes deletes the element it is at from the set it iterates over,
  which a \<open>Set\<close> allows; it visits what the set held at the start.
\<close>

definition addScope :: "string \<Rightarrow> string list \<Rightarrow> scope_set \<Rightarrow> scope_error + scope_set" where
  "addScope scope implicants S =
     (if hasSomeScope S implicants then Inr S
      else
        case iterImpliedScopes S scope of
          Inl e \<Rightarrow> Inl e
        | Inr implied \<Rightarrow>
            (case fold_sum removeScope implied S of
               Inl e \<Rightarrow> Inl e
             | Inr S1 \<Rightarrow>
                 (case fold_sum (link_scope scope) implicants (implicantsToScopes S1) of
                    Inl e \<Rightarrow> Inl e
                  | Inr es \<Rightarrow>
                      Inr \<lparr> scopesToImplicants = AList.update scope implicants (scopesToImplicants S1),
                            implicantsToScopes = es \<rparr>)))"

definition new_ScopeSet :: "(string \<Rightarrow> string option) \<Rightarrow> string list \<Rightarrow> scope_error + scope_set" where
  "new_ScopeSet hp scopes =
     fold_sum (\<lambda>s S. case getImplicantValues hp s of
                       Inl e \<Rightarrow> Inl e
                     | Inr implicants \<Rightarrow> addScope s (new_set implicants) S) scopes empty_set"

definition getScopeValues :: "scope_set \<Rightarrow> string list" where
  "getScopeValues S = map fst (object_entries (scopesToImplicants S))"

definition getImplicantValues_of :: "scope_set \<Rightarrow> string list" where
  "getImplicantValues_of S = map fst (object_entries (implicantsToScopes S))"

definition toString :: "scope_set \<Rightarrow> string" where
  "toString S = join_with (CHR '' '') (getScopeValues S)"

definition isEmpty :: "scope_set \<Rightarrow> bool" where
  "isEmpty S \<longleftrightarrow> scopesToImplicants S = []"

text \<open>The argument of the operations: another set, a string with one scope, or an array.\<close>

datatype scope_arg = ScopeSetArg scope_set | StringArg string | ArrayArg "string list"

fun coerce :: "(string \<Rightarrow> string option) \<Rightarrow> scope_arg \<Rightarrow> scope_error + scope_set" where
  "coerce hp (ScopeSetArg S) = Inr S"
| "coerce hp (StringArg s) = new_ScopeSet hp [s]"
| "coerce hp (ArrayArg ss) = new_ScopeSet hp ss"

text \<open>\<open>_iterScopes\<close> with a callback that adds what it is given, if it passes a test.\<close>

definition add_scopes ::
    "(string \<Rightarrow> string list \<Rightarrow> bool) \<Rightarrow> scope_set \<Rightarrow> scope_set \<Rightarrow> scope_error + scope_set" where
  "add_scopes test from result =
     fold_sum (\<lambda>(s, X) R. if test s X then addScope s X R else Inr R)
       (object_entries (scopesToImplicants from)) result"

definition ScopeSet_add ::
    "(string \<Rightarrow> string option) \<Rightarrow> scope_arg \<Rightarrow> scope_set \<Rightarrow> scope_error + scope_set" where
  "ScopeSet_add hp other S =
     (case coerce hp other of Inl e \<Rightarrow> Inl e | Inr O' \<Rightarrow> add_scopes (\<lambda>_ _. True) O' S)"

definition ScopeSet_contains ::
    "(string \<Rightarrow> string option) \<Rightarrow> scope_arg \<Rightarrow> scope_set \<Rightarrow> scope_error + bool" where
  "ScopeSet_contains hp other S =
     (case coerce hp other of
        Inl e \<Rightarrow> Inl e
      | Inr O' \<Rightarrow> Inr (\<not> searchScopes (\<lambda>_ implicants. \<not> hasSomeScope S implicants) O'))"

definition ScopeSet_intersects ::
    "(string \<Rightarrow> string option) \<Rightarrow> scope_arg \<Rightarrow> scope_set \<Rightarrow> scope_error + bool" where
  "ScopeSet_intersects hp other S =
     (case coerce hp other of
        Inl e \<Rightarrow> Inl e
      | Inr O' \<Rightarrow>
          Inr (searchImplicants (\<lambda>implicant _. hasScope S implicant) O' \<or>
               searchImplicants (\<lambda>implicant _. hasScope O' implicant) S))"

definition ScopeSet_filtered ::
    "(string \<Rightarrow> string option) \<Rightarrow> scope_arg \<Rightarrow> scope_set \<Rightarrow> scope_error + scope_set" where
  "ScopeSet_filtered hp other S =
     (case coerce hp other of
        Inl e \<Rightarrow> Inl e
      | Inr O' \<Rightarrow> add_scopes (\<lambda>_ implicants. hasSomeScope O' implicants) S empty_set)"

definition ScopeSet_difference ::
    "(string \<Rightarrow> string option) \<Rightarrow> scope_arg \<Rightarrow> scope_set \<Rightarrow> scope_error + scope_set" where
  "ScopeSet_difference hp other S =
     (case coerce hp other of
        Inl e \<Rightarrow> Inl e
      | Inr O' \<Rightarrow> add_scopes (\<lambda>_ implicants. \<not> hasSomeScope O' implicants) S empty_set)"

definition ScopeSet_union ::
    "(string \<Rightarrow> string option) \<Rightarrow> scope_arg \<Rightarrow> scope_set \<Rightarrow> scope_error + scope_set" where
  "ScopeSet_union hp other S =
     (case coerce hp other of
        Inl e \<Rightarrow> Inl e
      | Inr O' \<Rightarrow>
          (case add_scopes (\<lambda>_ _. True) S empty_set of
             Inl e \<Rightarrow> Inl e
           | Inr R \<Rightarrow> add_scopes (\<lambda>_ _. True) O' R))"

section \<open>Parsing\<close>

definition fromArray :: "(string \<Rightarrow> string option) \<Rightarrow> string list \<Rightarrow> scope_error + scope_set" where
  "fromArray hp scopesArray = new_ScopeSet hp scopesArray"

text \<open>\<open>split(/ +/)\<close> without the empty strings is \<open>split(' ')\<close> without them.\<close>

definition fromString :: "(string \<Rightarrow> string option) \<Rightarrow> string \<Rightarrow> scope_error + scope_set" where
  "fromString hp scopesString =
     new_ScopeSet hp (filter (\<lambda>s. s \<noteq> []) (split_on (CHR '' '') scopesString))"

text \<open>
  \<open>decodeURIComponent\<close>, with \<open>None\<close> for the \<open>URIError\<close> on a malformed escape. The bytes of an
  escape beyond ASCII stay bytes here: no scope contains such a character, so the scope is
  refused as it is in the source.
\<close>

definition hex_value :: "char \<Rightarrow> nat option" where
  "hex_value c =
     (let n = (of_char c :: nat)
      in if 48 \<le> n \<and> n \<le> 57 then Some (n - 48)
         else if 65 \<le> n \<and> n \<le> 70 then Some (n - 55)
         else if 97 \<le> n \<and> n \<le> 102 then Some (n - 87) else None)"

fun decodeURIComponent :: "string \<Rightarrow> string option" where
  "decodeURIComponent [] = Some []"
| "decodeURIComponent (c # cs) =
     (if c \<noteq> CHR ''%'' then map_option ((#) c) (decodeURIComponent cs)
      else
        (case cs of
           a # b # ds \<Rightarrow>
             (case (hex_value a, hex_value b) of
                (Some x, Some y) \<Rightarrow> map_option ((#) (char_of (16 * x + y))) (decodeURIComponent ds)
              | _ \<Rightarrow> None)
         | _ \<Rightarrow> None))"

fun decode_all :: "string list \<Rightarrow> string list option" where
  "decode_all [] = Some []"
| "decode_all (s # ss) =
     (case (decodeURIComponent s, decode_all ss) of (Some d, Some ds) \<Rightarrow> Some (d # ds) | _ \<Rightarrow> None)"

definition fromURLEncodedString ::
    "(string \<Rightarrow> string option) \<Rightarrow> string \<Rightarrow> scope_error + scope_set" where
  "fromURLEncodedString hp encodedScopesString =
     (case decode_all (filter (\<lambda>s. s \<noteq> []) (split_on (CHR ''+'') encodedScopesString)) of
        None \<Rightarrow> Inl InvalidURL
      | Some scopes \<Rightarrow> new_ScopeSet hp scopes)"

end
