(* ===== verification/Scope_Laws.thy ===== *)
theory Scope_Laws
  imports Scope_Set
begin

text \<open>
  What a \<open>ScopeSet\<close> promises, for any notion of implicants: the invariant of its two mappings, and
  that every operation keeps it and never runs into a missing entry; and, where implication is
  transitive, which scopes the results of the operations allow.
\<close>

section \<open>Sets and mappings\<close>

lemma set_set_add [simp]: "set (set_add x xs) = insert x (set xs)"
  by (auto simp: set_add_def)

lemma distinct_set_add [simp]: "distinct (set_add x xs) \<longleftrightarrow> distinct xs"
  by (auto simp: set_add_def)

lemma set_fold_set_add: "set (fold set_add xs acc) = set xs \<union> set acc"
  by (induction xs arbitrary: acc) auto

lemma distinct_fold_set_add: "distinct (fold set_add xs acc) \<longleftrightarrow> distinct acc"
  by (induction xs arbitrary: acc) auto

lemma set_new_set [simp]: "set (new_set xs) = set xs"
  by (simp add: new_set_def set_fold_set_add)

lemma distinct_new_set [simp]: "distinct (new_set xs)"
  by (simp add: new_set_def distinct_fold_set_add)

lemma set_object_entries [simp]: "set (object_entries es) = set es"
  by (auto simp: object_entries_def)

lemma distinct_object_entries: "distinct (map fst es) \<Longrightarrow> distinct (map fst (object_entries es))"
  by (auto simp: object_entries_def distinct_map inj_on_def)

text \<open>A mapping from strings to non-empty sets, and the sets it holds.\<close>

definition wf_entries :: "(string \<times> string list) list \<Rightarrow> bool" where
  "wf_entries es \<longleftrightarrow> distinct (map fst es) \<and> (\<forall>i sc. map_of es i = Some sc \<longrightarrow> sc \<noteq> [] \<and> distinct sc)"

definition members :: "(string \<times> string list) list \<Rightarrow> string \<Rightarrow> string set" where
  "members es i = (case map_of es i of None \<Rightarrow> {} | Some sc \<Rightarrow> set sc)"

lemma members_update: "members (AList.update i sc es) = (members es)(i := set sc)"
  by (auto simp: members_def AList.update_conv' fun_eq_iff)

lemma members_delete: "members (AList.delete i es) = (members es)(i := {})"
  by (auto simp: members_def AList.delete_conv' fun_eq_iff)

lemma wf_entries_update: "wf_entries es \<Longrightarrow> sc \<noteq> [] \<Longrightarrow> distinct sc \<Longrightarrow> wf_entries (AList.update i sc es)"
  by (auto simp: wf_entries_def AList.update_conv' AList.distinct_update)

lemma wf_entries_delete: "wf_entries es \<Longrightarrow> wf_entries (AList.delete i es)"
  by (auto simp: wf_entries_def AList.delete_conv' AList.distinct_delete split: if_splits)

lemma members_key: "wf_entries es \<Longrightarrow> members es i \<noteq> {} \<longleftrightarrow> i \<in> set (map fst es)"
proof -
  assume wf: "wf_entries es"
  have "i \<in> set (map fst es) \<longleftrightarrow> map_of es i \<noteq> None"
    by (simp add: map_of_eq_None_iff)
  with wf show ?thesis
    by (cases "map_of es i") (auto simp: members_def wf_entries_def)
qed

lemma unlink_scope_Inr:
  assumes "wf_entries es" and "scope \<in> members es i"
  shows "\<exists>es'. unlink_scope scope i es = Inr es' \<and> wf_entries es' \<and>
    members es' = (members es)(i := members es i - {scope})"
proof -
  obtain sc where sc: "map_of es i = Some sc" "scope \<in> set sc"
    using assms(2) by (auto simp: members_def split: option.splits)
  let ?left = "filter (\<lambda>s. s \<noteq> scope) sc"
  have left: "set ?left = members es i - {scope}" using sc by (auto simp: members_def)
  have d: "distinct ?left" using assms(1) sc by (auto simp: wf_entries_def)
  show ?thesis
  proof (cases "?left = []")
    case True
    then have none: "members es i - {scope} = {}" using left by simp
    show ?thesis
      unfolding none
      using sc True assms(1) by (simp add: unlink_scope_def members_delete wf_entries_delete)
  next
    case False
    then show ?thesis
      using sc left d assms(1) by (simp add: unlink_scope_def members_update wf_entries_update)
  qed
qed

lemma fold_unlink_Inr:
  assumes "wf_entries es" and "distinct X" and "\<And>i. i \<in> set X \<Longrightarrow> scope \<in> members es i"
  shows "\<exists>es'. fold_sum (unlink_scope scope) X es = Inr es' \<and> wf_entries es' \<and>
    members es' = (\<lambda>i. if i \<in> set X then members es i - {scope} else members es i)"
  using assms
proof (induction X arbitrary: es)
  case (Cons i X)
  obtain es1 where es1: "unlink_scope scope i es = Inr es1" "wf_entries es1"
      "members es1 = (members es)(i := members es i - {scope})"
    using unlink_scope_Inr [OF Cons.prems(1), of scope i] Cons.prems(3) by auto
  have "scope \<in> members es1 j" if "j \<in> set X" for j
    using that Cons.prems(2,3) es1(3) by auto
  from Cons.IH [OF es1(2) _ this] Cons.prems(2) es1 show ?case
    by (auto simp: fun_eq_iff)
qed simp

lemma link_scope_Inr:
  assumes "wf_entries es" and "i \<notin> set object_prototype_keys"
  shows "\<exists>es'. link_scope scope i es = Inr es' \<and> wf_entries es' \<and>
    members es' = (members es)(i := insert scope (members es i))"
proof (cases "map_of es i")
  case None
  then have "\<not> js_in i (map fst es)" using assms(2) by (simp add: js_in_def map_of_eq_None_iff)
  with None assms(1) show ?thesis
    by (simp add: link_scope_def members_update wf_entries_update members_def)
next
  case (Some sc)
  then have "js_in i (map fst es)"
    by (metis js_in_own map_of_eq_None_iff option.distinct(1) set_map)
  moreover have "distinct (set_add scope sc)" "set_add scope sc \<noteq> []"
    using assms(1) Some by (auto simp: wf_entries_def set_add_def)
  ultimately show ?thesis
    using Some assms(1) by (simp add: link_scope_def members_update wf_entries_update members_def)
qed

lemma fold_link_Inr:
  assumes "wf_entries es" and "\<And>i. i \<in> set X \<Longrightarrow> i \<notin> set object_prototype_keys"
  shows "\<exists>es'. fold_sum (link_scope scope) X es = Inr es' \<and> wf_entries es' \<and>
    members es' = (\<lambda>i. if i \<in> set X then insert scope (members es i) else members es i)"
  using assms
proof (induction X arbitrary: es)
  case (Cons i X)
  obtain es1 where es1: "link_scope scope i es = Inr es1" "wf_entries es1"
      "members es1 = (members es)(i := insert scope (members es i))"
    using link_scope_Inr [OF Cons.prems(1), of i scope] Cons.prems(2) by auto
  from Cons.IH [OF es1(2)] Cons.prems(2) es1 show ?case
    by (auto simp: fun_eq_iff)
qed simp

section \<open>The invariant\<close>

text \<open>
  The keys of the first mapping are the scopes of the set, each with its implicants; the second
  mapping is the inverse; no scope of the set implies another one.
\<close>

definition scope_set_ok :: "(string \<Rightarrow> 'e + string list) \<Rightarrow> scope_set \<Rightarrow> bool" where
  "scope_set_ok imp S \<longleftrightarrow>
     distinct (map fst (scopesToImplicants S)) \<and> wf_entries (implicantsToScopes S) \<and>
     (\<forall>s X. map_of (scopesToImplicants S) s = Some X \<longrightarrow>
        distinct X \<and> set X \<inter> set object_prototype_keys = {} \<and>
        (\<exists>Y. imp s = Inr Y \<and> set Y = set X)) \<and>
     (\<forall>i. members (implicantsToScopes S) i =
        {s. \<exists>X. map_of (scopesToImplicants S) s = Some X \<and> i \<in> set X}) \<and>
     (\<forall>s X t. map_of (scopesToImplicants S) s = Some X \<longrightarrow> t \<in> set X \<longrightarrow>
        t \<in> dom (map_of (scopesToImplicants S)) \<longrightarrow> t = s)"

definition scopes_of :: "scope_set \<Rightarrow> string set" where
  "scopes_of S = set (map fst (scopesToImplicants S))"

lemma scopes_of_dom: "scopes_of S = dom (map_of (scopesToImplicants S))"
  by (simp add: scopes_of_def dom_map_of_conv_image_fst)

lemma scope_set_okD:
  assumes "scope_set_ok imp S"
  shows "distinct (map fst (scopesToImplicants S))" "wf_entries (implicantsToScopes S)"
    "map_of (scopesToImplicants S) s = Some X \<Longrightarrow> distinct X"
    "map_of (scopesToImplicants S) s = Some X \<Longrightarrow> set X \<inter> set object_prototype_keys = {}"
    "map_of (scopesToImplicants S) s = Some X \<Longrightarrow> \<exists>Y. imp s = Inr Y \<and> set Y = set X"
    "members (implicantsToScopes S) i = {s. \<exists>X. map_of (scopesToImplicants S) s = Some X \<and> i \<in> set X}"
    "map_of (scopesToImplicants S) s = Some X \<Longrightarrow> t \<in> set X \<Longrightarrow> t \<in> scopes_of S \<Longrightarrow> t = s"
  using assms by (auto simp: scope_set_ok_def scopes_of_dom)

lemma scope_set_okI:
  assumes "distinct (map fst (scopesToImplicants S))" and "wf_entries (implicantsToScopes S)"
    and "\<And>s X. map_of (scopesToImplicants S) s = Some X \<Longrightarrow> distinct X"
    and "\<And>s X. map_of (scopesToImplicants S) s = Some X \<Longrightarrow> set X \<inter> set object_prototype_keys = {}"
    and "\<And>s X. map_of (scopesToImplicants S) s = Some X \<Longrightarrow> \<exists>Y. imp s = Inr Y \<and> set Y = set X"
    and "\<And>i. members (implicantsToScopes S) i =
      {s. \<exists>X. map_of (scopesToImplicants S) s = Some X \<and> i \<in> set X}"
    and "\<And>s X t. map_of (scopesToImplicants S) s = Some X \<Longrightarrow> t \<in> set X \<Longrightarrow>
      t \<in> dom (map_of (scopesToImplicants S)) \<Longrightarrow> t = s"
  shows "scope_set_ok imp S"
  unfolding scope_set_ok_def
  by (intro conjI allI impI) (fact assms | erule (2) assms(7) | erule assms(3-5))+

lemma empty_set_ok [simp]: "scope_set_ok imp empty_set"
  by (auto simp: scope_set_ok_def empty_set_def wf_entries_def members_def)

lemma scopes_of_empty [simp]: "scopes_of empty_set = {}"
  by (simp add: scopes_of_def empty_set_def)

lemma removeScope_Inr:
  assumes ok: "scope_set_ok imp S" and s: "s \<in> scopes_of S"
  shows "\<exists>S'. removeScope s S = Inr S' \<and> scope_set_ok imp S' \<and>
    map_of (scopesToImplicants S') = (map_of (scopesToImplicants S))(s := None)"
proof -
  obtain X where X: "map_of (scopesToImplicants S) s = Some X" using s by (auto simp: scopes_of_dom)
  have mem: "s \<in> members (implicantsToScopes S) i" if "i \<in> set X" for i
    using that X by (simp add: scope_set_okD(6) [OF ok])
  from fold_unlink_Inr [OF scope_set_okD(2) [OF ok] scope_set_okD(3) [OF ok X] mem]
  obtain es where es: "fold_sum (unlink_scope s) X (implicantsToScopes S) = Inr es" "wf_entries es"
      "members es = (\<lambda>i. if i \<in> set X then members (implicantsToScopes S) i - {s}
         else members (implicantsToScopes S) i)"
    by blast
  let ?S = "\<lparr> scopesToImplicants = AList.delete s (scopesToImplicants S), implicantsToScopes = es \<rparr>"
  have d: "map_of (AList.delete s (scopesToImplicants S)) = (map_of (scopesToImplicants S))(s := None)"
    by (rule AList.delete_conv')
  have m: "members es i = {t. \<exists>Y. ((map_of (scopesToImplicants S))(s := None)) t = Some Y \<and> i \<in> set Y}" for i
    unfolding es(3) scope_set_okD(6) [OF ok] using X by auto
  have old: "map_of (scopesToImplicants S) t = Some Y" if "map_of (scopesToImplicants ?S) t = Some Y" for t Y
    using that by (simp add: d split: if_splits)
  have "scope_set_ok imp ?S"
  proof (rule scope_set_okI)
    show "distinct (map fst (scopesToImplicants ?S))"
      using scope_set_okD(1) [OF ok] by (simp add: AList.distinct_delete)
    show "wf_entries (implicantsToScopes ?S)" using es(2) by simp
    show "members (implicantsToScopes ?S) i = {t. \<exists>Y. map_of (scopesToImplicants ?S) t = Some Y \<and> i \<in> set Y}" for i
      using m by (simp add: d)
    show "t = r" if "map_of (scopesToImplicants ?S) r = Some Y" "t \<in> set Y"
        "t \<in> dom (map_of (scopesToImplicants ?S))" for t r Y
      using scope_set_okD(7) [OF ok old [OF that(1)] that(2)] that(3) by (simp add: d scopes_of_dom)
  qed (use old scope_set_okD(3-5) [OF ok] in blast)+
  with X es(1) d show ?thesis by (simp add: removeScope_def)
qed

lemma fold_removeScope_Inr:
  assumes "scope_set_ok imp S" and "distinct rs" and "set rs \<subseteq> scopes_of S"
  shows "\<exists>S'. fold_sum removeScope rs S = Inr S' \<and> scope_set_ok imp S' \<and>
    map_of (scopesToImplicants S') = (\<lambda>t. if t \<in> set rs then None else map_of (scopesToImplicants S) t)"
  using assms
proof (induction rs arbitrary: S)
  case (Cons r rs)
  obtain S1 where S1: "removeScope r S = Inr S1" "scope_set_ok imp S1"
      "map_of (scopesToImplicants S1) = (map_of (scopesToImplicants S))(r := None)"
    using removeScope_Inr [OF Cons.prems(1), of r] Cons.prems(3) by auto
  have "scopes_of S1 = scopes_of S - {r}"
    unfolding scopes_of_dom S1(3) by auto
  with Cons.prems(2,3) have sub: "set rs \<subseteq> scopes_of S1" by auto
  have "distinct rs" using Cons.prems(2) by simp
  from Cons.IH [OF S1(2) this sub] obtain S' where S': "fold_sum removeScope rs S1 = Inr S'"
      "scope_set_ok imp S'"
      "map_of (scopesToImplicants S') = (\<lambda>t. if t \<in> set rs then None else map_of (scopesToImplicants S1) t)"
    by blast
  have "map_of (scopesToImplicants S') =
      (\<lambda>t. if t \<in> set (r # rs) then None else map_of (scopesToImplicants S) t)"
    unfolding S'(3) S1(3) by (rule ext) simp
  moreover have "fold_sum removeScope (r # rs) S = Inr S'" using S'(1) S1(1) by simp
  ultimately show ?case using S'(2) by blast
qed simp

lemma hasSomeScope_iff:
  "hasSomeScope S X \<longleftrightarrow> (\<exists>s \<in> set X. s \<in> scopes_of S \<or> s \<in> set object_prototype_keys)"
  unfolding hasSomeScope_def list_ex_iff Bex_def hasScope_def js_in_def scopes_of_def by blast

lemma iterImpliedScopes_Inr:
  assumes ok: "scope_set_ok imp S" and "s \<notin> set object_prototype_keys"
  shows "\<exists>rs. iterImpliedScopes S s = Inr rs \<and> distinct rs \<and>
    set rs = {t. \<exists>Z. map_of (scopesToImplicants S) t = Some Z \<and> s \<in> set Z}"
proof (cases "map_of (implicantsToScopes S) s")
  case None
  then have "members (implicantsToScopes S) s = {}" by (simp add: members_def)
  with None assms(2) show ?thesis
    by (simp add: iterImpliedScopes_def scope_set_okD(6) [OF ok])
next
  case (Some rs)
  then have "members (implicantsToScopes S) s = set rs" by (simp add: members_def)
  moreover have "distinct rs"
    using Some scope_set_okD(2) [OF ok] by (simp add: wf_entries_def)
  ultimately show ?thesis
    using Some by (simp add: iterImpliedScopes_def scope_set_okD(6) [OF ok])
qed

text \<open>The scopes of a set after adding one that nothing in it implies.\<close>

definition after_add :: "string \<Rightarrow> string list \<Rightarrow> (string \<rightharpoonup> string list) \<Rightarrow> string \<rightharpoonup> string list" where
  "after_add s X m = (\<lambda>t. if t = s then Some X else
     (case m t of None \<Rightarrow> None | Some Z \<Rightarrow> if s \<in> set Z then None else Some Z))"

lemma addScope_Inr:
  assumes ok: "scope_set_ok imp S" and Y: "imp s = Inr Y" "set X = set Y" and dX: "distinct X"
    and inh: "s \<in> set object_prototype_keys \<Longrightarrow> s \<in> set X"
  shows "\<exists>S'. addScope s X S = Inr S' \<and> scope_set_ok imp S' \<and>
    map_of (scopesToImplicants S') =
      (if hasSomeScope S X then map_of (scopesToImplicants S)
       else after_add s X (map_of (scopesToImplicants S)))"
proof (cases "hasSomeScope S X")
  case True
  with ok show ?thesis by (simp add: addScope_def)
next
  case False
  let ?m = "map_of (scopesToImplicants S)"
  have fresh: "t \<notin> scopes_of S" "t \<notin> set object_prototype_keys" if "t \<in> set X" for t
    using False that by (auto simp: hasSomeScope_iff)
  have s: "s \<notin> set object_prototype_keys" using inh fresh by blast
  obtain rs where rs: "iterImpliedScopes S s = Inr rs" "distinct rs"
      "set rs = {t. \<exists>Z. ?m t = Some Z \<and> s \<in> set Z}"
    using iterImpliedScopes_Inr [OF ok s] by blast
  have "set rs \<subseteq> scopes_of S" unfolding rs(3) scopes_of_dom by blast
  from fold_removeScope_Inr [OF ok rs(2) this]
  obtain S1 where S1: "fold_sum removeScope rs S = Inr S1" "scope_set_ok imp S1"
      "map_of (scopesToImplicants S1) = (\<lambda>t. if t \<in> set rs then None else ?m t)"
    by blast
  from fold_link_Inr [OF scope_set_okD(2) [OF S1(2)] fresh(2)]
  obtain es where es: "fold_sum (link_scope s) X (implicantsToScopes S1) = Inr es" "wf_entries es"
      "members es = (\<lambda>i. if i \<in> set X then insert s (members (implicantsToScopes S1) i)
         else members (implicantsToScopes S1) i)"
    by blast
  define S2 where
    "S2 = \<lparr> scopesToImplicants = AList.update s X (scopesToImplicants S1), implicantsToScopes = es \<rparr>"
  let ?m1 = "map_of (scopesToImplicants S1)" and ?m' = "map_of (scopesToImplicants S2)"
  have m': "?m' = ?m1(s \<mapsto> X)" by (simp add: S2_def AList.update_conv')
  have es2: "implicantsToScopes S2 = es" by (simp add: S2_def)
  have m1: "?m1 t = Some Z \<longleftrightarrow> ?m t = Some Z \<and> s \<notin> set Z" for t Z
    unfolding S1(3) rs(3) by auto
  have same: "set Z = set X" if "?m1 s = Some Z" for Z
    using scope_set_okD(5) [OF S1(2) that] Y by auto
  have step: "?m1 t = Some Z \<or> t = s \<and> Z = X" if "?m' t = Some Z" for t Z
    using that by (simp add: m' split: if_splits)
  have "scope_set_ok imp S2"
  proof (rule scope_set_okI)
    show "distinct (map fst (scopesToImplicants S2))"
      using scope_set_okD(1) [OF S1(2)] by (simp add: S2_def AList.distinct_update)
    show "wf_entries (implicantsToScopes S2)" using es(2) by (simp add: es2)
    show "distinct Z" if "?m' t = Some Z" for t Z
      using step [OF that] scope_set_okD(3) [OF S1(2)] dX by blast
    show "set Z \<inter> set object_prototype_keys = {}" if "?m' t = Some Z" for t Z
      using step [OF that] scope_set_okD(4) [OF S1(2)] fresh(2) by blast
    show "\<exists>Y. imp t = Inr Y \<and> set Y = set Z" if "?m' t = Some Z" for t Z
      using step [OF that] scope_set_okD(5) [OF S1(2)] Y by auto
    show "members (implicantsToScopes S2) i = {t. \<exists>Z. ?m' t = Some Z \<and> i \<in> set Z}" for i
    proof (rule set_eqI)
      fix t
      have old: "t \<in> members (implicantsToScopes S1) i \<longleftrightarrow> (\<exists>Z. ?m1 t = Some Z \<and> i \<in> set Z)"
        by (simp add: scope_set_okD(6) [OF S1(2)])
      show "t \<in> members (implicantsToScopes S2) i \<longleftrightarrow> t \<in> {t. \<exists>Z. ?m' t = Some Z \<and> i \<in> set Z}"
      proof (cases "t = s")
        case True
        then have "t \<in> members (implicantsToScopes S1) i \<Longrightarrow> i \<in> set X" using old same by auto
        with True show ?thesis by (auto simp: es2 es(3) m')
      next
        case False
        with old show ?thesis by (simp add: es2 es(3) m')
      qed
    qed
    show "t = r" if "?m' r = Some Z" "t \<in> set Z" "t \<in> dom ?m'" for t r Z
    proof (cases "r = s")
      case True
      then have "t \<in> set X" using that m' by simp
      with fresh(1) have "t \<notin> dom ?m1" unfolding scopes_of_dom using m1 by blast
      with that(3) True show ?thesis by (simp add: m' split: if_splits)
    next
      case False
      then have r: "?m1 r = Some Z" using that(1) by (simp add: m')
      then have "t \<noteq> s" using that(2) m1 by blast
      then have "t \<in> scopes_of S1" using that(3) by (simp add: m' scopes_of_dom)
      with scope_set_okD(7) [OF S1(2) r that(2)] show ?thesis by blast
    qed
  qed
  moreover have "?m' = after_add s X ?m"
  proof
    fix t
    have "?m1 t = (case ?m t of None \<Rightarrow> None | Some Z \<Rightarrow> if s \<in> set Z then None else Some Z)"
      unfolding S1(3) rs(3) by (simp split: option.split)
    then show "?m' t = after_add s X ?m t" by (simp add: m' after_add_def)
  qed
  moreover have "addScope s X S = Inr S2"
    using False rs(1) S1(1) es(1) by (simp add: addScope_def S2_def)
  ultimately show ?thesis using False by (simp only: if_False) blast
qed

section \<open>What a set allows\<close>

definition implies :: "(string \<Rightarrow> 'e + string list) \<Rightarrow> string \<Rightarrow> string \<Rightarrow> bool" where
  "implies imp s x \<longleftrightarrow> (case imp x of Inl _ \<Rightarrow> False | Inr X \<Rightarrow> s \<in> set X)"

definition allows :: "(string \<Rightarrow> 'e + string list) \<Rightarrow> scope_set \<Rightarrow> string \<Rightarrow> bool" where
  "allows imp S x \<longleftrightarrow> (case imp x of Inl _ \<Rightarrow> False | Inr X \<Rightarrow> hasSomeScope S X)"

lemma impliesD: "implies imp s x \<Longrightarrow> \<exists>X. imp x = Inr X \<and> s \<in> set X"
  by (simp add: implies_def split: sum.splits)

lemma dom_after_add:
  "dom (after_add s X m) = insert s {r \<in> dom m. \<not> (\<exists>Z. m r = Some Z \<and> s \<in> set Z)}"
proof (rule set_eqI)
  fix t show "t \<in> dom (after_add s X m) \<longleftrightarrow> t \<in> insert s {r \<in> dom m. \<not> (\<exists>Z. m r = Some Z \<and> s \<in> set Z)}"
    by (cases "m t") (simp_all add: after_add_def dom_def)
qed

lemma hasSomeScope_cong: "set X = set Y \<Longrightarrow> hasSomeScope S X = hasSomeScope S Y"
  by (simp add: hasSomeScope_iff)

lemma scope_set_ok_scopes:
  assumes "scope_set_ok imp S" and "s \<in> scopes_of S"
  shows "\<exists>X Y. map_of (scopesToImplicants S) s = Some X \<and> imp s = Inr Y \<and> set Y = set X \<and> distinct X"
proof -
  obtain X where X: "map_of (scopesToImplicants S) s = Some X"
    using assms(2) unfolding scopes_of_dom by blast
  from scope_set_okD(3,5) [OF assms(1) X] X show ?thesis by blast
qed

lemma entries_iff:
  "distinct (map fst es) \<Longrightarrow> (s, X) \<in> set es \<longleftrightarrow> map_of es s = Some X"
  by (simp add: map_of_eq_Some_iff)

definition valid_entry :: "(string \<Rightarrow> 'e + string list) \<Rightarrow> string \<times> string list \<Rightarrow> bool" where
  "valid_entry imp e \<longleftrightarrow> distinct (snd e) \<and> (\<exists>Y. imp (fst e) = Inr Y \<and> set (snd e) = set Y)"

lemma scope_set_ok_entries:
  assumes "scope_set_ok imp S"
  shows "\<forall>e \<in> set (object_entries (scopesToImplicants S)). valid_entry imp e"
proof
  fix e assume "e \<in> set (object_entries (scopesToImplicants S))"
  then have "map_of (scopesToImplicants S) (fst e) = Some (snd e)"
    using scope_set_okD(1) [OF assms] by (simp add: entries_iff [symmetric])
  then show "valid_entry imp e"
    using scope_set_okD(3,5) [OF assms, of "fst e" "snd e"] by (auto simp: valid_entry_def)
qed

text \<open>The loop of the constructor.\<close>

definition build ::
    "(string \<Rightarrow> scope_error + string list) \<Rightarrow> string list \<Rightarrow> scope_set \<Rightarrow> scope_error + scope_set" where
  "build imp = fold_sum (\<lambda>s S. case imp s of Inl e \<Rightarrow> Inl e | Inr X \<Rightarrow> addScope s (new_set X) S)"

lemma new_ScopeSet_build: "new_ScopeSet hp ss = build (getImplicantValues hp) ss empty_set"
  by (simp add: new_ScopeSet_def build_def)

lemma build_valid: "build imp ss S = Inr S' \<Longrightarrow> s \<in> set ss \<Longrightarrow> \<exists>X. imp s = Inr X"
  unfolding build_def
proof (induction ss arbitrary: S)
  case (Cons t ss)
  then show ?case by (cases "imp t") (auto split: sum.splits)
qed simp

lemma build_entries:
  "(\<And>s. s \<in> set ss \<Longrightarrow> imp s = Inr (f s)) \<Longrightarrow>
   build imp ss S = fold_sum (\<lambda>(s, X) R. if True then addScope s X R else Inr R)
     (map (\<lambda>s. (s, new_set (f s))) ss) S"
  unfolding build_def
proof (induction ss arbitrary: S)
  case (Cons t ss)
  then show ?case by (cases "addScope t (new_set (f t)) S") auto
qed simp

text \<open>
  The contract between a notion of implicants and the sets: implication is transitive below a
  plain scope, no implicant of a plain scope is the name of an inherited property, and a scope
  with such a name is its own implicant.
\<close>

locale implication =
  fixes imp :: "string \<Rightarrow> scope_error + string list" and plain :: "string \<Rightarrow> bool"
  assumes implicants_trans:
      "plain x \<Longrightarrow> imp x = Inr X \<Longrightarrow> s \<in> set X \<Longrightarrow> imp s = Inr Y \<Longrightarrow> set Y \<subseteq> set X"
    and plain_own: "plain x \<Longrightarrow> imp x = Inr X \<Longrightarrow> s \<in> set X \<Longrightarrow> s \<notin> set object_prototype_keys"
    and inherited_refl: "s \<in> set object_prototype_keys \<Longrightarrow> imp s = Inr X \<Longrightarrow> s \<in> set X"
begin

lemma allows_plain:
  "plain x \<Longrightarrow> allows imp S x \<longleftrightarrow> (\<exists>s \<in> scopes_of S. implies imp s x)"
proof (cases "imp x")
  case (Inr X)
  moreover assume "plain x"
  ultimately have "s \<notin> set object_prototype_keys" if "s \<in> set X" for s using plain_own that by blast
  with Inr show ?thesis by (auto simp: allows_def implies_def hasSomeScope_iff)
qed (simp add: allows_def implies_def)

lemma add_one:
  assumes ok: "scope_set_ok imp S" and Y: "imp s = Inr Y" "set X = set Y" and dX: "distinct X"
  shows "\<exists>S'. addScope s X S = Inr S' \<and> scope_set_ok imp S' \<and>
    scopes_of S' \<subseteq> insert s (scopes_of S) \<and>
    (\<forall>x. plain x \<longrightarrow> (allows imp S' x \<longleftrightarrow> allows imp S x \<or> implies imp s x))"
proof -
  have "s \<in> set object_prototype_keys \<Longrightarrow> s \<in> set X" using inherited_refl Y by blast
  from addScope_Inr [of imp S s Y X, OF ok Y dX this] obtain S' where S': "addScope s X S = Inr S'"
      "scope_set_ok imp S'"
      "map_of (scopesToImplicants S') = (if hasSomeScope S X then map_of (scopesToImplicants S)
         else after_add s X (map_of (scopesToImplicants S)))"
    by blast
  have sub: "scopes_of S' \<subseteq> insert s (scopes_of S)"
    unfolding scopes_of_dom S'(3) by (cases "hasSomeScope S X") (auto simp: dom_after_add)
  have "allows imp S' x \<longleftrightarrow> allows imp S x \<or> implies imp s x" if x: "plain x" for x
  proof (cases "hasSomeScope S X")
    case True
    then have same: "scopes_of S' = scopes_of S" unfolding scopes_of_dom S'(3) by simp
    have "allows imp S x" if i: "implies imp s x"
    proof -
      obtain Z where Z: "imp x = Inr Z" "s \<in> set Z" using impliesD [OF i] by blast
      have "set X \<subseteq> set Z" using implicants_trans [OF x Z Y(1)] Y(2) by simp
      with True have "hasSomeScope S Z" by (auto simp: hasSomeScope_iff)
      with Z show ?thesis by (simp add: allows_def)
    qed
    then show ?thesis unfolding allows_plain [OF x] same by blast
  next
    case False
    then have keys: "scopes_of S' = insert s {r \<in> scopes_of S. \<not> (\<exists>Z. map_of (scopesToImplicants S) r = Some Z \<and> s \<in> set Z)}"
      unfolding scopes_of_dom S'(3) by (simp add: dom_after_add)
    have "implies imp s x" if r: "map_of (scopesToImplicants S) r = Some Z" "s \<in> set Z" "implies imp r x" for r Z
    proof -
      obtain W where W: "imp x = Inr W" "r \<in> set W" using impliesD [OF r(3)] by blast
      obtain V where V: "imp r = Inr V" "set V = set Z" using scope_set_okD(5) [OF ok r(1)] by blast
      have "s \<in> set W" using implicants_trans [OF x W V(1)] V(2) r(2) by blast
      with W show ?thesis by (simp add: implies_def)
    qed
    then show ?thesis unfolding allows_plain [OF x] keys by blast
  qed
  with S' sub show ?thesis by blast
qed

text \<open>Adding one scope after the other, if they pass a test.\<close>

lemma add_step:
  assumes "scope_set_ok imp S" and "valid_entry imp (s, X)"
  shows "\<exists>S'. (if test s X then addScope s X S else Inr S) = Inr S' \<and> scope_set_ok imp S' \<and>
    scopes_of S' \<subseteq> {t. t = s \<and> test s X} \<union> scopes_of S \<and>
    (\<forall>x. plain x \<longrightarrow> (allows imp S' x \<longleftrightarrow> allows imp S x \<or> test s X \<and> implies imp s x))"
proof (cases "test s X")
  case True
  obtain Y where Y: "imp s = Inr Y" "set X = set Y" "distinct X"
    using assms(2) by (auto simp: valid_entry_def)
  from add_one [OF assms(1) Y] True show ?thesis by auto
next
  case False
  with assms(1) show ?thesis by simp
qed

lemma add_many:
  assumes "scope_set_ok imp S" and "\<forall>e \<in> set es. valid_entry imp e"
  shows "\<exists>S'. fold_sum (\<lambda>(s, X) R. if test s X then addScope s X R else Inr R) es S = Inr S' \<and>
    scope_set_ok imp S' \<and> scopes_of S' \<subseteq> {s. \<exists>X. (s, X) \<in> set es \<and> test s X} \<union> scopes_of S \<and>
    (\<forall>x. plain x \<longrightarrow> (allows imp S' x \<longleftrightarrow>
       allows imp S x \<or> (\<exists>s X. (s, X) \<in> set es \<and> test s X \<and> implies imp s x)))"
  using assms
proof (induction es arbitrary: S)
  case (Cons e es)
  obtain s X where e: "e = (s, X)" by (cases e)
  have v: "valid_entry imp (s, X)" "\<forall>e \<in> set es. valid_entry imp e" using Cons.prems(2) e by simp_all
  obtain S1 where S1: "(if test s X then addScope s X S else Inr S) = Inr S1" "scope_set_ok imp S1"
      "scopes_of S1 \<subseteq> {t. t = s \<and> test s X} \<union> scopes_of S"
      "\<And>x. plain x \<Longrightarrow> (allows imp S1 x \<longleftrightarrow> allows imp S x \<or> test s X \<and> implies imp s x)"
    using add_step [OF Cons.prems(1) v(1), of test] by blast
  from Cons.IH [OF S1(2) v(2)] obtain S' where S':
      "fold_sum (\<lambda>(s, X) R. if test s X then addScope s X R else Inr R) es S1 = Inr S'"
      "scope_set_ok imp S'" "scopes_of S' \<subseteq> {s. \<exists>X. (s, X) \<in> set es \<and> test s X} \<union> scopes_of S1"
      "\<And>x. plain x \<Longrightarrow> (allows imp S' x \<longleftrightarrow>
         allows imp S1 x \<or> (\<exists>s X. (s, X) \<in> set es \<and> test s X \<and> implies imp s x))"
    by blast
  have "fold_sum (\<lambda>(s, X) R. if test s X then addScope s X R else Inr R) (e # es) S = Inr S'"
    using S1(1) S'(1) e by simp
  moreover have "scopes_of S' \<subseteq> {s. \<exists>X. (s, X) \<in> set (e # es) \<and> test s X} \<union> scopes_of S"
    using S'(3) S1(3) e by auto
  moreover have "\<forall>x. plain x \<longrightarrow> (allows imp S' x \<longleftrightarrow>
      allows imp S x \<or> (\<exists>s X. (s, X) \<in> set (e # es) \<and> test s X \<and> implies imp s x))"
    using S'(4) S1(4) e by auto
  ultimately show ?case using S'(2) by blast
qed simp

text \<open>Picking scopes from a set keeps exactly those.\<close>

lemma pick_exact:
  assumes A: "scope_set_ok imp A" and R: "scope_set_ok imp R" and d: "distinct (map fst es)"
    and es: "\<And>s X. (s, X) \<in> set es \<Longrightarrow> map_of (scopesToImplicants A) s = Some X"
    and sub: "\<And>s X. map_of (scopesToImplicants R) s = Some X \<Longrightarrow>
      map_of (scopesToImplicants A) s = Some X \<and> s \<notin> fst ` set es"
  shows "\<exists>R'. fold_sum (\<lambda>(s, X) R. if test s X then addScope s X R else Inr R) es R = Inr R' \<and>
    scope_set_ok imp R' \<and> (\<forall>s X. map_of (scopesToImplicants R') s = Some X \<longleftrightarrow>
      map_of (scopesToImplicants R) s = Some X \<or> (s, X) \<in> set es \<and> test s X)"
  using R d es sub
proof (induction es arbitrary: R)
  case (Cons e es)
  obtain s X where e: "e = (s, X)" by (cases e)
  have s: "map_of (scopesToImplicants A) s = Some X" using Cons.prems(3) e by simp
  have sR: "map_of (scopesToImplicants R) s = None"
    using Cons.prems(4) [of s] e by (cases "map_of (scopesToImplicants R) s") auto
  have key: "s \<in> scopes_of A" using s by (auto simp: scopes_of_dom)
  have "t \<notin> scopes_of R \<and> t \<notin> set object_prototype_keys" if t: "t \<in> set X" for t
  proof -
    have "t \<notin> scopes_of R"
    proof
      assume "t \<in> scopes_of R"
      then obtain Z where Z: "map_of (scopesToImplicants R) t = Some Z" by (auto simp: scopes_of_dom)
      then have "t \<in> scopes_of A" using Cons.prems(4) by (auto simp: scopes_of_dom)
      with scope_set_okD(7) [OF A s t] Z sR show False by simp
    qed
    with scope_set_okD(4) [OF A s] t show ?thesis by blast
  qed
  then have free: "\<not> hasSomeScope R X" by (auto simp: hasSomeScope_iff)
  have "s \<notin> set Z" if "map_of (scopesToImplicants R) r = Some Z" for r Z
    using scope_set_okD(7) [OF A, of r Z s] Cons.prems(4) [OF that] key that sR by auto
  then have after: "after_add s X (map_of (scopesToImplicants R)) = (map_of (scopesToImplicants R))(s \<mapsto> X)"
    by (auto simp: after_add_def fun_eq_iff split: option.split)
  obtain Y where Y: "imp s = Inr Y" "set X = set Y" "distinct X"
    using scope_set_okD(3,5) [OF A s] by auto
  have "s \<in> set object_prototype_keys \<Longrightarrow> s \<in> set X" using inherited_refl Y by blast
  from addScope_Inr [of imp R s Y X, OF Cons.prems(1) Y this]
  obtain R1 where R1: "(if test s X then addScope s X R else Inr R) = Inr R1" "scope_set_ok imp R1"
      "map_of (scopesToImplicants R1) =
        (if test s X then (map_of (scopesToImplicants R))(s \<mapsto> X) else map_of (scopesToImplicants R))"
    using free after Cons.prems(1) by (cases "test s X") auto
  have es': "map_of (scopesToImplicants A) t = Some Z" if "(t, Z) \<in> set es" for t Z
    using Cons.prems(3) that by simp
  have sub': "map_of (scopesToImplicants A) t = Some Z \<and> t \<notin> fst ` set es"
    if "map_of (scopesToImplicants R1) t = Some Z" for t Z
    using that Cons.prems(2) Cons.prems(4) [of t Z] s unfolding R1(3) e by (auto split: if_splits)
  have "distinct (map fst es)" using Cons.prems(2) by simp
  from Cons.IH [OF R1(2) this es' sub'] obtain R' where
    R': "fold_sum (\<lambda>(s, X) R. if test s X then addScope s X R else Inr R) es R1 = Inr R'"
      "scope_set_ok imp R'"
      "\<And>t Z. map_of (scopesToImplicants R') t = Some Z \<longleftrightarrow>
        map_of (scopesToImplicants R1) t = Some Z \<or> (t, Z) \<in> set es \<and> test t Z"
    by blast
  have "map_of (scopesToImplicants R') t = Some Z \<longleftrightarrow>
      map_of (scopesToImplicants R) t = Some Z \<or> (t, Z) \<in> set (e # es) \<and> test t Z" for t Z
    unfolding R'(3) R1(3) e using sR by auto
  moreover have "fold_sum (\<lambda>(s, X) R. if test s X then addScope s X R else Inr R) (e # es) R = Inr R'"
    using R1(1) R'(1) e by simp
  ultimately show ?case using R'(2) by blast
qed simp

lemma build_ok:
  assumes "scope_set_ok imp S" and "\<forall>s \<in> set ss. \<exists>X. imp s = Inr X"
  shows "\<exists>S'. build imp ss S = Inr S' \<and> scope_set_ok imp S' \<and> scopes_of S' \<subseteq> set ss \<union> scopes_of S \<and>
    (\<forall>x. plain x \<longrightarrow> (allows imp S' x \<longleftrightarrow> allows imp S x \<or> (\<exists>s \<in> set ss. implies imp s x)))"
proof -
  define f where "f s = (case imp s of Inl _ \<Rightarrow> [] | Inr X \<Rightarrow> X)" for s
  have f: "imp s = Inr (f s)" if "s \<in> set ss" for s using assms(2) that by (auto simp: f_def)
  let ?es = "map (\<lambda>s. (s, new_set (f s))) ss"
  have "\<forall>e \<in> set ?es. valid_entry imp e" using f by (auto simp: valid_entry_def)
  from add_many [OF assms(1) this, of "\<lambda>_ _. True"] build_entries [of ss imp f S, OF f]
  obtain S' where S': "build imp ss S = Inr S'" "scope_set_ok imp S'"
      "scopes_of S' \<subseteq> {s. \<exists>X. (s, X) \<in> set ?es \<and> True} \<union> scopes_of S"
      "\<forall>x. plain x \<longrightarrow> (allows imp S' x \<longleftrightarrow>
         allows imp S x \<or> (\<exists>s X. (s, X) \<in> set ?es \<and> True \<and> implies imp s x))"
    by auto
  have "scopes_of S' \<subseteq> set ss \<union> scopes_of S" using S'(3) by auto
  moreover have "\<forall>x. plain x \<longrightarrow> (allows imp S' x \<longleftrightarrow> allows imp S x \<or> (\<exists>s \<in> set ss. implies imp s x))"
    using S'(4) by auto
  ultimately show ?thesis using S'(1,2) by blast
qed

lemma add_scopes_ok:
  assumes "scope_set_ok imp A" and "scope_set_ok imp R"
  shows "\<exists>R'. add_scopes (\<lambda>_ _. True) A R = Inr R' \<and> scope_set_ok imp R' \<and>
    scopes_of R' \<subseteq> scopes_of A \<union> scopes_of R \<and>
    (\<forall>x. plain x \<longrightarrow> (allows imp R' x \<longleftrightarrow> allows imp R x \<or> allows imp A x))"
proof -
  let ?es = "object_entries (scopesToImplicants A)"
  obtain R' where R': "add_scopes (\<lambda>_ _. True) A R = Inr R'" "scope_set_ok imp R'"
      "scopes_of R' \<subseteq> {s. \<exists>X. (s, X) \<in> set ?es \<and> True} \<union> scopes_of R"
      "\<forall>x. plain x \<longrightarrow> (allows imp R' x \<longleftrightarrow>
         allows imp R x \<or> (\<exists>s X. (s, X) \<in> set ?es \<and> True \<and> implies imp s x))"
    using add_many [OF assms(2) scope_set_ok_entries [OF assms(1)], of "\<lambda>_ _. True"]
    unfolding add_scopes_def by blast
  have keys: "{s. \<exists>X. (s, X) \<in> set ?es \<and> True} = scopes_of A" by (force simp: scopes_of_def)
  have "(\<exists>s X. (s, X) \<in> set ?es \<and> True \<and> implies imp s x) \<longleftrightarrow> allows imp A x" if "plain x" for x
    unfolding allows_plain [OF that] keys [symmetric] by blast
  with R' keys show ?thesis by auto
qed

lemma pick_ok:
  assumes A: "scope_set_ok imp A"
  shows "\<exists>R. add_scopes test A empty_set = Inr R \<and> scope_set_ok imp R \<and>
    (\<forall>s X. map_of (scopesToImplicants R) s = Some X \<longleftrightarrow>
       map_of (scopesToImplicants A) s = Some X \<and> test s X)"
proof -
  let ?es = "object_entries (scopesToImplicants A)"
  have d: "distinct (map fst (scopesToImplicants A))" by (rule scope_set_okD(1) [OF A])
  have e: "(s, X) \<in> set ?es \<longleftrightarrow> map_of (scopesToImplicants A) s = Some X" for s X
    by (simp add: entries_iff [OF d])
  have none: "map_of (scopesToImplicants empty_set) s = Some X \<longleftrightarrow> False" for s X
    by (simp add: empty_set_def)
  have "\<exists>R'. fold_sum (\<lambda>(s, X) R. if test s X then addScope s X R else Inr R) ?es empty_set = Inr R' \<and>
      scope_set_ok imp R' \<and> (\<forall>s X. map_of (scopesToImplicants R') s = Some X \<longleftrightarrow>
        map_of (scopesToImplicants empty_set) s = Some X \<or> (s, X) \<in> set ?es \<and> test s X)"
    by (rule pick_exact [OF A]) (use e none distinct_object_entries [OF d] in auto)
  then show ?thesis unfolding add_scopes_def none e by simp
qed

text \<open>Building a set from scopes that do not imply each other keeps all of them.\<close>

lemma build_antichain:
  assumes "scope_set_ok imp R" and "distinct ss" and "set ss \<inter> scopes_of R = {}"
    and "\<forall>s \<in> set ss. \<exists>X. imp s = Inr X \<and> set X \<inter> set object_prototype_keys = {}"
    and "\<forall>s \<in> set ss \<union> scopes_of R. \<forall>t \<in> set ss \<union> scopes_of R. implies imp t s \<longrightarrow> t = s"
  shows "\<exists>R'. build imp ss R = Inr R' \<and> scope_set_ok imp R' \<and> scopes_of R' = set ss \<union> scopes_of R"
  using assms
proof (induction ss arbitrary: R)
  case Nil
  then show ?case by (simp add: build_def)
next
  case (Cons s ss)
  obtain X where X: "imp s = Inr X" "set X \<inter> set object_prototype_keys = {}" using Cons.prems(4) by auto
  have sR: "s \<notin> scopes_of R" using Cons.prems(3) by simp
  have anti: "t = r" if "implies imp t r" "r \<in> insert s (scopes_of R)" "t \<in> insert s (scopes_of R)" for t r
    using Cons.prems(5) that by auto
  have "t \<notin> scopes_of R" if "t \<in> set X" for t
    using anti [of t s] that X(1) sR by (auto simp: implies_def)
  with X(2) have free: "\<not> hasSomeScope R (new_set X)" by (auto simp: hasSomeScope_iff)
  have keep: "\<not> (\<exists>Z. map_of (scopesToImplicants R) r = Some Z \<and> s \<in> set Z)" if "r \<in> scopes_of R" for r
  proof
    assume "\<exists>Z. map_of (scopesToImplicants R) r = Some Z \<and> s \<in> set Z"
    then obtain Z where Z: "map_of (scopesToImplicants R) r = Some Z" "s \<in> set Z" by blast
    from scope_set_okD(5) [OF Cons.prems(1) Z(1)] Z(2) have "implies imp s r" by (auto simp: implies_def)
    from anti [OF this] that sR show False by auto
  qed
  have "s \<in> set object_prototype_keys \<Longrightarrow> s \<in> set (new_set X)" using inherited_refl X(1) by simp
  from addScope_Inr [of imp R s X "new_set X", OF Cons.prems(1) X(1) _ _ this] free obtain R1 where
    R1: "addScope s (new_set X) R = Inr R1" "scope_set_ok imp R1"
      "map_of (scopesToImplicants R1) = after_add s (new_set X) (map_of (scopesToImplicants R))"
    by auto
  have sc: "scopes_of R1 = insert s (scopes_of R)"
    unfolding scopes_of_dom R1(3) dom_after_add using keep unfolding scopes_of_dom by blast
  have "distinct ss" "set ss \<inter> scopes_of R1 = {}"
    using Cons.prems(2,3) by (auto simp: sc)
  moreover have "\<forall>s \<in> set ss. \<exists>X. imp s = Inr X \<and> set X \<inter> set object_prototype_keys = {}"
    using Cons.prems(4) by simp
  moreover have "\<forall>s \<in> set ss \<union> scopes_of R1. \<forall>t \<in> set ss \<union> scopes_of R1. implies imp t s \<longrightarrow> t = s"
    using Cons.prems(5) by (simp add: sc)
  ultimately obtain R' where "build imp ss R1 = Inr R'" "scope_set_ok imp R'" "scopes_of R' = set ss \<union> scopes_of R1"
    using Cons.IH [OF R1(2)] by blast
  moreover have "build imp (s # ss) R = build imp ss R1" using X(1) R1(1) by (simp add: build_def)
  ultimately show ?case by (simp add: sc)
qed

end

end
