(* ===== verification/Scope_Order.thy ===== *)
theory Scope_Order
  imports Scope_Laws "HOL-Library.Sublist"
begin

text \<open>
  Which scopes imply which: the implicants of a short scope are the prefixes of its names, those
  of a URL scope the parents of its path. Implication is transitive on both, so the model's
  \<open>getImplicantValues\<close> meets the contract \<open>implication\<close>.
\<close>

section \<open>Short scopes\<close>

text \<open>The names of a short scope and whether it ends in \<open>:write\<close>.\<close>

definition parse_short :: "string \<Rightarrow> (string list \<times> bool) option" where
  "parse_short v =
     (let names = split_on (CHR '':'') v
      in if \<not> VALID_SCOPE_VALUE v \<or> \<not> list_all VALID_SHORT_NAME_VALUE names then None
         else if last names \<noteq> ''write'' then Some (names, False)
         else if butlast names = [] then None else Some (butlast names, True))"

definition print_short :: "string list \<times> bool \<Rightarrow> string" where
  "print_short p = join_with (CHR '':'') (fst p) @ (if snd p then '':write'' else [])"

lemma short_implicants_parse:
  "getImplicantValuesForShortScope v = Inr X \<longleftrightarrow>
     (\<exists>ns w. parse_short v = Some (ns, w) \<and> X = short_implicants w ns)"
  by (auto simp: getImplicantValuesForShortScope_def parse_short_def Let_def)

lemma set_short_implicants:
  "set (short_implicants w ns) =
     {print_short (q, b) | q b. q \<noteq> [] \<and> prefix q ns \<and> (w \<longrightarrow> b)}"
proof (induction w ns rule: short_implicants.induct)
  case (1 w ns)
  show ?case
  proof (cases ns rule: rev_cases)
    case Nil
    then show ?thesis by (simp add: short_implicants.simps)
  next
    case (snoc ms m)
    have "set (short_implicants w ns) = insert (print_short (ns, True))
        ((if w then {} else {print_short (ns, False)}) \<union> set (short_implicants w ms))"
      using snoc by (subst short_implicants.simps) (auto simp: print_short_def)
    also have "set (short_implicants w ms) = {print_short (q, b) | q b. q \<noteq> [] \<and> prefix q ms \<and> (w \<longrightarrow> b)}"
      using 1 snoc by simp
    finally show ?thesis
      unfolding snoc prefix_snoc ex_bool_eq by (cases w) (simp_all, blast+)
  qed
qed

lemma valid_name_no_colon: "VALID_SHORT_NAME_VALUE n \<Longrightarrow> CHR '':'' \<notin> set n"
  by (auto simp: VALID_SHORT_NAME_VALUE_def list_all_iff word_char_def)

lemma valid_scope_join:
  assumes "ns \<noteq> []" and "list_all VALID_SHORT_NAME_VALUE ns"
  shows "VALID_SCOPE_VALUE (join_with (CHR '':'') ns)"
proof -
  have word: "word_char c \<Longrightarrow> (let n = (of_char c :: nat)
      in n = 0x21 \<or> 0x23 \<le> n \<and> n \<le> 0x5B \<or> 0x5D \<le> n \<and> n \<le> 0x7E)" for c
    by (auto simp: word_char_def Let_def)
  have name: "VALID_SHORT_NAME_VALUE n \<Longrightarrow> VALID_SCOPE_VALUE n" for n
    using word by (auto simp: VALID_SHORT_NAME_VALUE_def VALID_SCOPE_VALUE_def list_all_iff)
  from assms show ?thesis
  proof (induction ns rule: induct_list012)
    case (3 n m ns)
    then have "VALID_SCOPE_VALUE n" "VALID_SCOPE_VALUE (join_with (CHR '':'') (m # ns))"
      using name by simp_all
    then show ?case by (simp add: VALID_SCOPE_VALUE_def)
  qed (simp_all add: name)
qed

lemma write_valid: "VALID_SHORT_NAME_VALUE ''write''"
  by code_simp

lemma parse_short_join:
  assumes "ns \<noteq> []" and "list_all VALID_SHORT_NAME_VALUE ns"
  shows "parse_short (join_with (CHR '':'') ns) =
    (if last ns \<noteq> ''write'' then Some (ns, False)
     else if butlast ns = [] then None else Some (butlast ns, True))"
proof -
  have "split_on (CHR '':'') (join_with (CHR '':'') ns) = ns"
    using assms valid_name_no_colon by (intro split_on_join) (auto simp: list_all_iff)
  with assms valid_scope_join [OF assms] show ?thesis
    by (simp add: parse_short_def Let_def)
qed

lemma parse_short_write:
  assumes "ns \<noteq> []" and "list_all VALID_SHORT_NAME_VALUE ns"
  shows "parse_short (join_with (CHR '':'') ns @ '':write'') = Some (ns, True)"
  using parse_short_join [of "ns @ [''write'']"] assms write_valid
  by (simp add: join_with_snoc)

lemma parse_short_SomeD:
  assumes "parse_short v = Some (ns, w)"
  shows "ns \<noteq> []" "list_all VALID_SHORT_NAME_VALUE ns" "v = print_short (ns, w)"
    "\<not> w \<Longrightarrow> last ns \<noteq> ''write''"
proof -
  let ?names = "split_on (CHR '':'') v"
  have v: "join_with (CHR '':'') ?names = v" by (rule join_split_on)
  have names: "list_all VALID_SHORT_NAME_VALUE ?names"
    and c: "if last ?names \<noteq> ''write'' then ns = ?names \<and> \<not> w
      else ns = butlast ?names \<and> ns \<noteq> [] \<and> w"
    using assms by (auto simp: parse_short_def Let_def split: if_splits)
  from c show "ns \<noteq> []" by (auto split: if_splits)
  from c names show "list_all VALID_SHORT_NAME_VALUE ns"
    by (auto simp: list_all_iff dest: in_set_butlastD split: if_splits)
  from c show "\<not> w \<Longrightarrow> last ns \<noteq> ''write''" by (auto split: if_splits)
  show "v = print_short (ns, w)"
  proof (cases "last ?names = ''write''")
    case True
    then have "?names = ns @ [''write'']" "ns \<noteq> []" "w"
      using c append_butlast_last_id [of ?names] by (auto split: if_splits)
    then show ?thesis using v by (simp add: print_short_def join_with_snoc)
  next
    case False
    then show ?thesis using c v by (simp add: print_short_def)
  qed
qed

text \<open>Printing and parsing agree, also for the implicants that end in \<open>write\<close> by accident.\<close>

lemma print_short_eq:
  assumes "parse_short (print_short (q, b)) = Some (ms, v)" and "q \<noteq> []" and "list_all VALID_SHORT_NAME_VALUE q"
  shows "(ms, v) = (q, b) \<or> \<not> b \<and> v \<and> q = ms @ [''write'']"
proof (cases b)
  case True
  with assms show ?thesis by (simp add: print_short_def parse_short_write)
next
  case False
  then have "if last q \<noteq> ''write'' then (ms, v) = (q, False) else ms = butlast q \<and> v"
    using assms(1) parse_short_join [OF assms(2,3)] by (auto simp: print_short_def split: if_splits)
  moreover have "last q = ''write'' \<Longrightarrow> q = butlast q @ [''write'']"
    using append_butlast_last_id [OF assms(2)] by simp
  ultimately show ?thesis using False by (auto split: if_splits)
qed

lemma short_implies_prefix:
  assumes x: "parse_short x = Some (ns, w)" and s: "parse_short s = Some (ms, v)"
  shows "s \<in> set (short_implicants w ns) \<longleftrightarrow> prefix ms ns \<and> (w \<longrightarrow> v)"
proof
  assume "prefix ms ns \<and> (w \<longrightarrow> v)"
  then show "s \<in> set (short_implicants w ns)"
    unfolding set_short_implicants using parse_short_SomeD [OF s] by blast
next
  assume "s \<in> set (short_implicants w ns)"
  then obtain q b where q: "s = print_short (q, b)" "q \<noteq> []" "prefix q ns" "w \<longrightarrow> b"
    unfolding set_short_implicants by blast
  have "list_all VALID_SHORT_NAME_VALUE q"
    using q(3) parse_short_SomeD(2) [OF x] by (auto simp: list_all_iff dest: set_mono_prefix)
  from print_short_eq [OF s [unfolded q(1)] q(2) this]
  show "prefix ms ns \<and> (w \<longrightarrow> v)"
  proof
    assume "(ms, v) = (q, b)"
    with q show ?thesis by simp
  next
    assume "\<not> b \<and> v \<and> q = ms @ [''write'']"
    with q(3) show ?thesis using append_prefixD by blast
  qed
qed

lemma short_refl: "getImplicantValuesForShortScope x = Inr X \<Longrightarrow> x \<in> set X"
  using short_implies_prefix by (auto simp: short_implicants_parse)

lemma short_trans:
  assumes "getImplicantValuesForShortScope x = Inr X" and "s \<in> set X"
    and "getImplicantValuesForShortScope s = Inr Y"
  shows "set Y \<subseteq> set X"
proof -
  obtain ns w ms v where p: "parse_short x = Some (ns, w)" "X = short_implicants w ns"
      "parse_short s = Some (ms, v)" "Y = short_implicants v ms"
    using assms by (auto simp: short_implicants_parse)
  have "prefix ms ns \<and> (w \<longrightarrow> v)" using short_implies_prefix [OF p(1,3)] assms(2) p(2) by simp
  then show ?thesis unfolding p set_short_implicants using prefix_order.trans by blast
qed

section \<open>URL scopes\<close>

text \<open>A URL whose path does not start with an empty segment and whose authority is a plain one.\<close>

definition plain_url :: "url \<Rightarrow> bool" where
  "plain_url u \<longleftrightarrow> hd (u_path u) \<noteq> [] \<and> clean_authority u"

text \<open>The fragments of the implicants: none, and that of the scope unless it is empty.\<close>

definition fragments :: "url \<Rightarrow> string option set" where
  "fragments u = {None} \<union> (if url_hash u = [] then {} else {u_fragment u})"

lemma print_fragment_hash: "url_hash u \<noteq> [] \<Longrightarrow> url_hash u = print_fragment (u_fragment u)"
  by (auto simp: url_hash_def print_fragment_def split: option.splits if_splits)

lemma url_implicants_parts:
  assumes "hd q \<noteq> []" and "q \<noteq> []" and "list_all canonical_seg q" and "safe_fragment (u_fragment u)"
  shows "\<exists>X. url_implicants hp u ([] # q) = Inr X \<and>
    set X = {url_href (url_at u p f) | p f. p \<noteq> [] \<and> prefix p q \<and> f \<in> fragments u}"
  using assms(1-3)
proof (induction q rule: rev_induct)
  case (snoc w ws)
  let ?q = "ws @ [w]"
  have j: "join_with (CHR ''/'') ([] # ?q) = CHR ''/'' # join_with (CHR ''/'') ?q @ print_fragment None"
    by (simp add: join_with_Nil_Cons print_fragment_def)
  have r1: "url_resolve hp (join_with (CHR ''/'') ([] # ?q)) u = Some (url_at u ?q None)"
    unfolding j using snoc.prems by (intro url_resolve_at) (simp_all add: safe_fragment_def)
  have r2: "url_resolve hp (join_with (CHR ''/'') ([] # ?q) @ url_hash u) u = Some (url_at u ?q (u_fragment u))"
    if "url_hash u \<noteq> []"
    using url_resolve_at [of ?q "u_fragment u" hp u] snoc.prems assms(4)
    by (simp add: join_with_Nil_Cons print_fragment_hash [OF that])
  have rest: "\<exists>X. url_implicants hp u ([] # ws) = Inr X \<and>
      set X = {url_href (url_at u p f) | p f. p \<noteq> [] \<and> prefix p ws \<and> f \<in> fragments u}"
  proof (cases "ws = []")
    case True
    then show ?thesis by (simp add: url_implicants.simps)
  next
    case False
    then show ?thesis using snoc.IH snoc.prems by simp
  qed
  then obtain X where X: "url_implicants hp u ([] # ws) = Inr X"
      "set X = {url_href (url_at u p f) | p f. p \<noteq> [] \<and> prefix p ws \<and> f \<in> fragments u}"
    by blast
  have "url_implicants hp u ([] # ?q) = Inr (url_href (url_at u ?q None) #
      (if url_hash u = [] then [] else [url_href (url_at u ?q (u_fragment u))]) @ X)"
    using r1 r2 X(1) by (subst url_implicants.simps) (auto simp: butlast_append)
  moreover have "set (url_href (url_at u ?q None) #
      (if url_hash u = [] then [] else [url_href (url_at u ?q (u_fragment u))]) @ X) =
      {url_href (url_at u p f) | p f. p \<noteq> [] \<and> prefix p ?q \<and> f \<in> fragments u}"
    unfolding prefix_snoc by (cases "url_hash u = []") (auto simp: X(2) fragments_def)
  ultimately show ?case by blast
qed simp

lemma url_scope_Inr:
  assumes "getImplicantValuesForURLScope hp x = Inr X" and "url_parse hp x = Some u" and "plain_url u"
  shows "set X = {url_href (url_at u p f) | p f. p \<noteq> [] \<and> prefix p (u_path u) \<and> f \<in> fragments u}"
    and "url_href u = x" and "VALID_SCOPE_VALUE x" and "last (url_pathname u) \<noteq> CHR ''/''"
proof -
  from assms(1,2) have v: "url_href u = x" "VALID_SCOPE_VALUE x" "last (url_pathname u) \<noteq> CHR ''/''"
      "X = X \<and> url_implicants hp u (split_on (CHR ''/'') (url_pathname u)) = Inr X"
    by (auto simp: getImplicantValuesForURLScope_def split: if_splits)
  then show "url_href u = x" and "VALID_SCOPE_VALUE x" and "last (url_pathname u) \<noteq> CHR ''/''" by simp_all
  note c = url_parse_authority [OF assms(2) v(1)]
  have p: "u_path u \<noteq> []" "list_all canonical_seg (u_path u)" "safe_fragment (u_fragment u)" "hd (u_path u) \<noteq> []"
    using c assms(3) by (simp_all add: plain_url_def)
  have "split_on (CHR ''/'') (url_pathname u) = [] # u_path u"
    using p(1,2) split_on_join [of "u_path u" "CHR ''/''"]
    by (auto simp: url_pathname_join list_all_iff canonical_seg_def)
  with url_implicants_parts [OF p(4,1,2,3), of hp] v(4)
  show "set X = {url_href (url_at u p f) | p f. p \<noteq> [] \<and> prefix p (u_path u) \<and> f \<in> fragments u}"
    by auto
qed

lemma prefix_canonical:
  "p \<noteq> [] \<Longrightarrow> prefix p q \<Longrightarrow> list_all canonical_seg q \<Longrightarrow> hd q \<noteq> [] \<Longrightarrow>
   list_all canonical_seg p \<and> hd p \<noteq> []"
  by (cases p; cases q) (auto simp: list_all_iff dest: set_mono_prefix)

lemma fragments_safe: "safe_fragment (u_fragment u) \<Longrightarrow> f \<in> fragments u \<Longrightarrow> safe_fragment f"
  by (auto simp: fragments_def safe_fragment_def split: if_splits)

lemma fragments_at: "f \<in> fragments u \<Longrightarrow> fragments (url_at u p f) \<subseteq> fragments u"
  by (auto simp: fragments_def url_hash_def split: if_splits)

lemma url_scope_parent:
  assumes x: "getImplicantValuesForURLScope hp x = Inr X" "url_parse hp x = Some u" "plain_url u"
    and p: "p \<noteq> []" "prefix p (u_path u)" "f \<in> fragments u"
  shows "url_parse hp (url_href (url_at u p f)) = Some (url_at u p f)" and "plain_url (url_at u p f)"
proof -
  have clean: "clean_authority u" "hd (u_path u) \<noteq> []" using x(3) by (simp_all add: plain_url_def)
  note u = url_parse_authority [OF x(2) url_scope_Inr(2) [OF x] clean(1)]
  have c: "list_all canonical_seg p" "hd p \<noteq> []" using prefix_canonical [OF p(1,2) u(3) clean(2)] by simp_all
  show "url_parse hp (url_href (url_at u p f)) = Some (url_at u p f)"
    by (rule url_parse_at [OF u(1) clean(1) p(1) c(1) fragments_safe [OF u(4) p(3)]])
  show "plain_url (url_at u p f)"
    using c clean by (simp add: plain_url_def clean_authority_def)
qed

lemma url_trans:
  assumes x: "getImplicantValuesForURLScope hp x = Inr X" "url_parse hp x = Some u" "plain_url u"
    and s: "s \<in> set X" "getImplicantValuesForURLScope hp s = Inr Y"
  shows "set Y \<subseteq> set X"
proof -
  obtain p f where p: "s = url_href (url_at u p f)" "p \<noteq> []" "prefix p (u_path u)" "f \<in> fragments u"
    using s(1) unfolding url_scope_Inr(1) [OF x] by blast
  note v = url_scope_parent [OF x p(2-4)]
  have Y: "set Y = {url_href (url_at u q g) | q g. q \<noteq> [] \<and> prefix q p \<and> g \<in> fragments (url_at u p f)}"
    using url_scope_Inr(1) [OF s(2) v(1) [folded p(1)] v(2)] by simp
  show ?thesis
    unfolding Y url_scope_Inr(1) [OF x] using fragments_at [OF p(4)] p(3) prefix_order.trans by blast
qed

text \<open>Implication between URLs: a parent of the path with no fragment or the same one.\<close>

lemma url_implies_iff:
  assumes x: "getImplicantValuesForURLScope hp x = Inr X" "url_parse hp x = Some u" "plain_url u"
    and s: "url_parse hp s = Some v" "url_href v = s" "u_path v \<noteq> []"
  shows "s \<in> set X \<longleftrightarrow> v = url_at u (u_path v) (u_fragment v) \<and> prefix (u_path v) (u_path u) \<and>
    u_fragment v \<in> fragments u"
proof
  assume "s \<in> set X"
  then obtain p f where p: "s = url_href (url_at u p f)" "p \<noteq> []" "prefix p (u_path u)" "f \<in> fragments u"
    unfolding url_scope_Inr(1) [OF x] by blast
  from url_scope_parent(1) [OF x p(2-4)] s(1) p(1) have "v = url_at u p f" by simp
  with p(3,4) show "v = url_at u (u_path v) (u_fragment v) \<and> prefix (u_path v) (u_path u) \<and> u_fragment v \<in> fragments u"
    by simp
next
  assume v: "v = url_at u (u_path v) (u_fragment v) \<and> prefix (u_path v) (u_path u) \<and> u_fragment v \<in> fragments u"
  then have "s = url_href (url_at u (u_path v) (u_fragment v))" using s(2) by argo
  with v s(3) show "s \<in> set X" unfolding url_scope_Inr(1) [OF x] by blast
qed

section \<open>All scopes\<close>

text \<open>
  A scope is plain if it is a URL scope with a plain URL, or a short scope none of whose
  implicants has the name of an inherited property or looks like a URL.
\<close>

definition plain_scope :: "(string \<Rightarrow> string option) \<Rightarrow> string \<Rightarrow> bool" where
  "plain_scope hp x \<longleftrightarrow>
     (if take 6 x = ''https:''
      then (case url_parse hp x of None \<Rightarrow> True | Some u \<Rightarrow> plain_url u)
      else (case getImplicantValuesForShortScope x of
              Inl _ \<Rightarrow> True
            | Inr X \<Rightarrow> list_all (\<lambda>s. s \<notin> set object_prototype_keys \<and> take 6 s \<noteq> ''https:'') X))"

lemma url_scope_parsed:
  "getImplicantValuesForURLScope hp x = Inr X \<Longrightarrow> \<exists>u. url_parse hp x = Some u"
  by (auto simp: getImplicantValuesForURLScope_def split: if_splits option.splits)

lemma take_url_href [simp]: "take 6 (url_href u) = ''https:''"
  by (simp add: url_href_def)

lemma url_href_own: "url_href u \<notin> set object_prototype_keys"
  by (simp add: url_href_def object_prototype_keys_def)

lemma prototype_keys_short: "s \<in> set object_prototype_keys \<Longrightarrow> take 6 s \<noteq> ''https:''"
  by (auto simp: object_prototype_keys_def)

lemma plain_url_scope:
  assumes "plain_scope hp x" and "take 6 x = ''https:''" and "getImplicantValues hp x = Inr X"
  shows "\<exists>u. url_parse hp x = Some u \<and> plain_url u \<and> getImplicantValuesForURLScope hp x = Inr X"
  using assms url_scope_parsed [of hp x X] by (auto simp: plain_scope_def getImplicantValues_def)

interpretation scopes: implication "getImplicantValues hp" "plain_scope hp" for hp
proof
  fix x X s Y assume x: "plain_scope hp x" "getImplicantValues hp x = Inr X" and s: "s \<in> set X"
  show own: "s \<notin> set object_prototype_keys"
  proof (cases "take 6 x = ''https:''")
    case True
    then obtain u where u: "url_parse hp x = Some u" "plain_url u" "getImplicantValuesForURLScope hp x = Inr X"
      using plain_url_scope [OF x(1) _ x(2)] by blast
    show ?thesis using s url_href_own unfolding url_scope_Inr(1) [OF u(3,1,2)] by blast
  next
    case False
    with x s show ?thesis by (auto simp: plain_scope_def getImplicantValues_def list_all_iff)
  qed
  assume Y: "getImplicantValues hp s = Inr Y"
  show "set Y \<subseteq> set X"
  proof (cases "take 6 x = ''https:''")
    case True
    then obtain u where u: "url_parse hp x = Some u" "plain_url u" "getImplicantValuesForURLScope hp x = Inr X"
      using plain_url_scope [OF x(1) _ x(2)] by blast
    have "take 6 s = ''https:''" using s unfolding url_scope_Inr(1) [OF u(3,1,2)] by auto
    with Y have "getImplicantValuesForURLScope hp s = Inr Y" by (simp add: getImplicantValues_def)
    from url_trans [OF u(3,1,2) s this] show ?thesis .
  next
    case False
    with x s have "getImplicantValuesForShortScope x = Inr X" "take 6 s \<noteq> ''https:''"
      by (auto simp: plain_scope_def getImplicantValues_def list_all_iff)
    with Y short_trans [of x X s Y] s show ?thesis by (simp add: getImplicantValues_def)
  qed
next
  fix s X assume "s \<in> set object_prototype_keys" "getImplicantValues hp s = Inr X"
  with prototype_keys_short short_refl show "s \<in> set X" by (simp add: getImplicantValues_def)
qed

end
