(* ===== verification/Scope_Guarantees.thy ===== *)
theory Scope_Guarantees
  imports Scope_Order
begin

text \<open>
  The promises of \<open>oauth/scopes.js\<close>: what a \<open>ScopeSet\<close> stands for is the set of scopes it allows,
  and the operations are the set operations on it.
\<close>

section \<open>Capabilities\<close>

abbreviation ok_set :: "(string \<Rightarrow> string option) \<Rightarrow> scope_set \<Rightarrow> bool" where
  "ok_set hp \<equiv> scope_set_ok (getImplicantValues hp)"

definition capabilities :: "(string \<Rightarrow> string option) \<Rightarrow> scope_set \<Rightarrow> string set" where
  "capabilities hp S = {x. plain_scope hp x \<and> allows (getImplicantValues hp) S x}"

lemma capabilities_implied:
  "capabilities hp S = {x. plain_scope hp x \<and> (\<exists>s \<in> scopes_of S. implies (getImplicantValues hp) s x)}"
  using scopes.allows_plain by (auto simp: capabilities_def)

lemma implies_trans:
  "plain_scope hp x \<Longrightarrow> implies (getImplicantValues hp) s x \<Longrightarrow> implies (getImplicantValues hp) t s \<Longrightarrow>
   implies (getImplicantValues hp) t x"
proof -
  assume x: "plain_scope hp x" and "implies (getImplicantValues hp) s x" "implies (getImplicantValues hp) t s"
  then obtain X Y where "getImplicantValues hp x = Inr X" "s \<in> set X" "getImplicantValues hp s = Inr Y" "t \<in> set Y"
    using impliesD by meson
  with scopes.implicants_trans [OF x] show ?thesis by (auto simp: implies_def)
qed

lemma hasSomeScope_allows:
  assumes "ok_set hp B" and "map_of (scopesToImplicants B) s = Some X"
  shows "hasSomeScope A X = allows (getImplicantValues hp) A s"
proof -
  obtain Y where "getImplicantValues hp s = Inr Y" "set Y = set X" using scope_set_okD(5) [OF assms] by blast
  with hasSomeScope_cong [of X Y A] show ?thesis by (simp add: allows_def)
qed

lemma contains_allows:
  assumes "ok_set hp B"
  shows "ScopeSet_contains hp (ScopeSetArg B) A = Inr (\<forall>s \<in> scopes_of B. allows (getImplicantValues hp) A s)"
proof -
  have d: "distinct (map fst (scopesToImplicants B))" by (rule scope_set_okD(1) [OF assms])
  have "searchScopes (\<lambda>_ X. \<not> hasSomeScope A X) B \<longleftrightarrow>
      (\<exists>s X. map_of (scopesToImplicants B) s = Some X \<and> \<not> hasSomeScope A X)"
    using entries_iff [OF d] by (auto simp: searchScopes_def list_ex_iff)
  also have "\<dots> \<longleftrightarrow> (\<exists>s \<in> scopes_of B. \<not> allows (getImplicantValues hp) A s)"
    unfolding scopes_of_dom dom_def Bex_def mem_Collect_eq not_None_eq
    using hasSomeScope_allows [OF assms] by blast
  finally show ?thesis by (simp add: ScopeSet_contains_def)
qed

definition valid_scope :: "(string \<Rightarrow> string option) \<Rightarrow> string \<Rightarrow> bool" where
  "valid_scope hp s \<longleftrightarrow> \<not> isl (getImplicantValues hp s)"

lemma valid_scope_Inr: "valid_scope hp s \<longleftrightarrow> (\<exists>X. getImplicantValues hp s = Inr X)"
  by (cases "getImplicantValues hp s") (simp_all add: valid_scope_def)

lemma new_ScopeSet_ok:
  assumes "\<forall>s \<in> set ss. valid_scope hp s"
  shows "\<exists>S. new_ScopeSet hp ss = Inr S \<and> ok_set hp S \<and> scopes_of S \<subseteq> set ss \<and>
    capabilities hp S = {x. plain_scope hp x \<and> (\<exists>s \<in> set ss. implies (getImplicantValues hp) s x)}"
proof -
  let ?imp = "getImplicantValues hp"
  have "\<forall>s \<in> set ss. \<exists>X. ?imp s = Inr X" using assms by (simp add: valid_scope_Inr)
  from scopes.build_ok [OF empty_set_ok this] obtain S where
    S: "new_ScopeSet hp ss = Inr S" "ok_set hp S" "scopes_of S \<subseteq> set ss \<union> scopes_of empty_set"
      "\<And>x. plain_scope hp x \<Longrightarrow> allows ?imp S x \<longleftrightarrow>
        allows ?imp empty_set x \<or> (\<exists>s \<in> set ss. implies ?imp s x)"
    unfolding new_ScopeSet_build by blast
  have "allows ?imp S x \<longleftrightarrow> (\<exists>s \<in> set ss. implies ?imp s x)" if "plain_scope hp x" for x
    using S(4) [OF that] scopes.allows_plain [OF that, of empty_set] by simp
  then have "capabilities hp S = {x. plain_scope hp x \<and> (\<exists>s \<in> set ss. implies ?imp s x)}"
    unfolding capabilities_def by blast
  with S(1-3) show ?thesis by simp
qed

lemma new_ScopeSet_valid: "new_ScopeSet hp ss = Inr S \<Longrightarrow> \<forall>s \<in> set ss. valid_scope hp s"
  using build_valid unfolding new_ScopeSet_build valid_scope_Inr by blast



section \<open>The operations\<close>

lemma add_capabilities:
  assumes "ok_set hp A" and "ok_set hp R"
  shows "\<exists>R'. add_scopes (\<lambda>_ _. True) A R = Inr R' \<and> ok_set hp R' \<and>
    capabilities hp R' = capabilities hp A \<union> capabilities hp R"
proof -
  obtain R' where R': "add_scopes (\<lambda>_ _. True) A R = Inr R'" "ok_set hp R'"
      "\<And>x. plain_scope hp x \<Longrightarrow> allows (getImplicantValues hp) R' x \<longleftrightarrow>
        allows (getImplicantValues hp) R x \<or> allows (getImplicantValues hp) A x"
    using scopes.add_scopes_ok [OF assms] by blast
  have "capabilities hp R' = capabilities hp A \<union> capabilities hp R"
    unfolding capabilities_def using R'(3) by auto
  with R'(1,2) show ?thesis by blast
qed

lemma union_ok:
  assumes "ok_set hp A" and "ok_set hp B"
  shows "\<exists>R. ScopeSet_union hp (ScopeSetArg B) A = Inr R \<and> ok_set hp R \<and>
    capabilities hp R = capabilities hp A \<union> capabilities hp B"
proof -
  obtain R0 where R0: "add_scopes (\<lambda>_ _. True) A empty_set = Inr R0" "ok_set hp R0"
      "capabilities hp R0 = capabilities hp A \<union> capabilities hp empty_set"
    using add_capabilities [OF assms(1) empty_set_ok] by blast
  obtain R where R: "add_scopes (\<lambda>_ _. True) B R0 = Inr R" "ok_set hp R"
      "capabilities hp R = capabilities hp B \<union> capabilities hp R0"
    using add_capabilities [OF assms(2) R0(2)] by blast
  have "capabilities hp empty_set = {}" by (simp add: capabilities_implied)
  then have "capabilities hp R = capabilities hp A \<union> capabilities hp B"
    using R(3) R0(3) by auto
  with R0(1) R(1,2) show ?thesis by (simp add: ScopeSet_union_def)
qed

text \<open>
  C18: on well-formed sets \<open>union\<close> never fails, the result is well-formed again, and what it
  allows is the union of what the two sets allow, although redundant scopes are dropped. The
  same holds for \<open>add\<close>, whose result replaces the first set.
\<close>

theorem union_capabilities:
  assumes "ok_set hp A" and "ok_set hp B"
  shows "\<exists>R R'. ScopeSet_union hp (ScopeSetArg B) A = Inr R \<and> ok_set hp R \<and>
    capabilities hp R = capabilities hp A \<union> capabilities hp B \<and>
    ScopeSet_add hp (ScopeSetArg B) A = Inr R' \<and> ok_set hp R' \<and>
    capabilities hp R' = capabilities hp A \<union> capabilities hp B"
proof -
  obtain R' where "add_scopes (\<lambda>_ _. True) B A = Inr R'" "ok_set hp R'"
      "capabilities hp R' = capabilities hp B \<union> capabilities hp A"
    using add_capabilities [OF assms(2,1)] by blast
  with union_ok [OF assms] show ?thesis by (simp add: ScopeSet_add_def Un_commute)
qed

theorem union_capabilities_witness:
  "\<exists>A B R. fromArray (\<lambda>_. None) [''profile:email''] = Inr A \<and> fromArray (\<lambda>_. None) [''profile''] = Inr B \<and>
     ScopeSet_union (\<lambda>_. None) (ScopeSetArg B) A = Inr R \<and>
     capabilities (\<lambda>_. None) R = capabilities (\<lambda>_. None) A \<union> capabilities (\<lambda>_. None) B"
proof -
  let ?hp = "\<lambda>_ :: string. None"
  have "list_all (valid_scope ?hp) [''profile:email'']" "list_all (valid_scope ?hp) [''profile'']" by code_simp+
  then obtain A B where A: "fromArray ?hp [''profile:email''] = Inr A" "ok_set ?hp A"
      and B: "fromArray ?hp [''profile''] = Inr B" "ok_set ?hp B"
    using new_ScopeSet_ok [of "[''profile:email'']" ?hp] new_ScopeSet_ok [of "[''profile'']" ?hp]
    by (auto simp: list_all_iff fromArray_def)
  from union_capabilities [OF A(2) B(2)] A(1) B(1) show ?thesis by blast
qed

text \<open>
  C19: \<open>contains\<close> decides inclusion: a set contains another one whose scopes are plain and imply
  themselves exactly when it allows everything that the other one allows.
\<close>

theorem contains_iff_subset:
  assumes "ok_set hp B"
    and "\<forall>s \<in> scopes_of B. plain_scope hp s \<and> implies (getImplicantValues hp) s s"
  shows "ScopeSet_contains hp (ScopeSetArg B) A = Inr (capabilities hp B \<subseteq> capabilities hp A)"
proof -
  have "(\<forall>s \<in> scopes_of B. allows (getImplicantValues hp) A s) \<longleftrightarrow> capabilities hp B \<subseteq> capabilities hp A"
  proof
    assume all: "\<forall>s \<in> scopes_of B. allows (getImplicantValues hp) A s"
    show "capabilities hp B \<subseteq> capabilities hp A"
    proof
      fix x assume "x \<in> capabilities hp B"
      then obtain s where s: "plain_scope hp x" "s \<in> scopes_of B" "implies (getImplicantValues hp) s x"
        unfolding capabilities_implied by blast
      have "allows (getImplicantValues hp) A s" using all s(2) by blast
      then obtain t where t: "t \<in> scopes_of A" "implies (getImplicantValues hp) t s"
        using scopes.allows_plain [of hp s A] assms(2) s(2) by blast
      from implies_trans [OF s(1,3) t(2)] s(1) t(1) show "x \<in> capabilities hp A"
        unfolding capabilities_implied by blast
    qed
  next
    assume sub: "capabilities hp B \<subseteq> capabilities hp A"
    show "\<forall>s \<in> scopes_of B. allows (getImplicantValues hp) A s"
    proof
      fix s assume "s \<in> scopes_of B"
      with assms(2) have "s \<in> capabilities hp B" unfolding capabilities_implied by blast
      with sub show "allows (getImplicantValues hp) A s" unfolding capabilities_def by blast
    qed
  qed
  with contains_allows [OF assms(1)] show ?thesis by simp
qed

theorem contains_iff_subset_witness:
  "\<exists>A B. fromArray (\<lambda>_. None) [''profile''] = Inr A \<and> fromArray (\<lambda>_. None) [''profile:email''] = Inr B \<and>
     ScopeSet_contains (\<lambda>_. None) (ScopeSetArg B) A = Inr True \<and>
     capabilities (\<lambda>_. None) B \<subseteq> capabilities (\<lambda>_. None) A"
proof -
  let ?hp = "\<lambda>_ :: string. None"
  have "list_all (valid_scope ?hp) [''profile'']" "list_all (valid_scope ?hp) [''profile:email'']" by code_simp+
  then obtain A B where A: "fromArray ?hp [''profile''] = Inr A"
      and B: "fromArray ?hp [''profile:email''] = Inr B" "ok_set ?hp B" "scopes_of B \<subseteq> {''profile:email''}"
    using new_ScopeSet_ok [of "[''profile'']" ?hp] new_ScopeSet_ok [of "[''profile:email'']" ?hp]
    by (auto simp: list_all_iff fromArray_def)
  have "plain_scope ?hp ''profile:email'' \<and> implies (getImplicantValues ?hp) ''profile:email'' ''profile:email''"
    by code_simp
  with B(3) have "\<forall>s \<in> scopes_of B. plain_scope ?hp s \<and> implies (getImplicantValues ?hp) s s" by blast
  note c = contains_iff_subset [OF B(2) this, of A]
  have "(case (fromArray ?hp [''profile''], fromArray ?hp [''profile:email'']) of
      (Inr A, Inr B) \<Rightarrow> ScopeSet_contains ?hp (ScopeSetArg B) A = Inr True | _ \<Rightarrow> False)" by code_simp
  then have "ScopeSet_contains ?hp (ScopeSetArg B) A = Inr True" using A B(1) by simp
  with c A B(1) show ?thesis by auto
qed

lemma filtered_scopes:
  assumes "ok_set hp A"
  shows "\<exists>F. ScopeSet_filtered hp (ScopeSetArg B) A = Inr F \<and> ok_set hp F \<and>
    scopes_of F = {s \<in> scopes_of A. allows (getImplicantValues hp) B s}"
proof -
  obtain F where F: "ScopeSet_filtered hp (ScopeSetArg B) A = Inr F" "ok_set hp F"
      "\<And>s X. map_of (scopesToImplicants F) s = Some X \<longleftrightarrow>
        map_of (scopesToImplicants A) s = Some X \<and> hasSomeScope B X"
    using scopes.pick_ok [OF assms(1), of "\<lambda>_. hasSomeScope B"] by (auto simp: ScopeSet_filtered_def)
  have "scopes_of F = {s \<in> scopes_of A. allows (getImplicantValues hp) B s}"
    unfolding scopes_of_dom dom_def not_None_eq F(3) using hasSomeScope_allows [OF assms(1)] by blast
  with F(1,2) show ?thesis by blast
qed

lemma difference_scopes:
  assumes "ok_set hp A"
  shows "\<exists>D. ScopeSet_difference hp (ScopeSetArg B) A = Inr D \<and> ok_set hp D \<and>
    scopes_of D = {s \<in> scopes_of A. \<not> allows (getImplicantValues hp) B s}"
proof -
  obtain D where D: "ScopeSet_difference hp (ScopeSetArg B) A = Inr D" "ok_set hp D"
      "\<And>s X. map_of (scopesToImplicants D) s = Some X \<longleftrightarrow>
        map_of (scopesToImplicants A) s = Some X \<and> \<not> hasSomeScope B X"
    using scopes.pick_ok [OF assms(1), of "\<lambda>_ X. \<not> hasSomeScope B X"] by (auto simp: ScopeSet_difference_def)
  have "scopes_of D = {s \<in> scopes_of A. \<not> allows (getImplicantValues hp) B s}"
    unfolding scopes_of_dom dom_def not_None_eq D(3) using hasSomeScope_allows [OF assms(1)] by blast
  with D(1,2) show ?thesis by blast
qed

text \<open>
  \<open>filtered\<close> and \<open>difference\<close> never fail on well-formed sets and split a set: the former keeps
  exactly the scopes that the other set allows, the latter exactly the rest.
\<close>

theorem filtered_difference_split:
  assumes "ok_set hp A" and "ok_set hp B"
  shows "\<exists>F D. ScopeSet_filtered hp (ScopeSetArg B) A = Inr F \<and> ScopeSet_difference hp (ScopeSetArg B) A = Inr D \<and>
    ok_set hp F \<and> ok_set hp D \<and> scopes_of F = {s \<in> scopes_of A. allows (getImplicantValues hp) B s} \<and>
    scopes_of D = scopes_of A - scopes_of F"
  using filtered_scopes [OF assms(1), of B] difference_scopes [OF assms(1), of B] by blast

theorem filtered_difference_split_witness:
  "\<exists>A B F D. fromArray (\<lambda>_. None) [''profile:email'', ''basket''] = Inr A \<and> fromArray (\<lambda>_. None) [''profile''] = Inr B \<and>
     ScopeSet_filtered (\<lambda>_. None) (ScopeSetArg B) A = Inr F \<and>
     ScopeSet_difference (\<lambda>_. None) (ScopeSetArg B) A = Inr D \<and> scopes_of D = scopes_of A - scopes_of F"
proof -
  let ?hp = "\<lambda>_ :: string. None"
  have "list_all (valid_scope ?hp) [''profile:email'', ''basket'']" "list_all (valid_scope ?hp) [''profile'']"
    by code_simp+
  then obtain A B where A: "fromArray ?hp [''profile:email'', ''basket''] = Inr A" "ok_set ?hp A"
      and B: "fromArray ?hp [''profile''] = Inr B" "ok_set ?hp B"
    using new_ScopeSet_ok [of "[''profile:email'', ''basket'']" ?hp] new_ScopeSet_ok [of "[''profile'']" ?hp]
    by (auto simp: list_all_iff fromArray_def)
  from filtered_difference_split [OF A(2) B(2)] A(1) B(1) show ?thesis by blast
qed

section \<open>Implication\<close>

text \<open>
  C21: a short scope implies another one exactly when its names are a prefix of the other's and,
  if the other one gives write access, it does so too.
\<close>

theorem short_implication:
  assumes "parse_short x = Some (ns, w)" and "parse_short s = Some (ms, v)" and "take 6 x \<noteq> ''https:''"
  shows "implies (getImplicantValues hp) s x \<longleftrightarrow> prefix ms ns \<and> (w \<longrightarrow> v)"
proof -
  have "getImplicantValues hp x = Inr (short_implicants w ns)"
    using assms(1,3) short_implicants_parse [of x] by (simp add: getImplicantValues_def)
  with short_implies_prefix [OF assms(1,2)] show ?thesis by (simp add: implies_def)
qed

theorem short_implication_witness:
  "implies (getImplicantValues (\<lambda>_. None)) ''profile:write'' ''profile:email'' \<and>
   \<not> implies (getImplicantValues (\<lambda>_. None)) ''profile'' ''profile:email:write''"
proof -
  have p: "parse_short ''profile:email'' = Some ([''profile'', ''email''], False)"
      "parse_short ''profile:write'' = Some ([''profile''], True)"
      "parse_short ''profile:email:write'' = Some ([''profile'', ''email''], True)"
      "parse_short ''profile'' = Some ([''profile''], False)"
    by code_simp+
  show ?thesis
    using short_implication [OF p(1,2), of "\<lambda>_. None"] short_implication [OF p(3,4), of "\<lambda>_. None"] by simp
qed


text \<open>A host parser for the concrete instances.\<close>

definition mozilla_host :: "string \<Rightarrow> string option" where
  "mozilla_host h = (if h = ''identity.mozilla.com'' then Some h else None)"


section \<open>Printing and parsing\<close>

lemma valid_scope_value: "valid_scope hp s \<Longrightarrow> VALID_SCOPE_VALUE s"
  by (auto simp: valid_scope_Inr getImplicantValues_def getImplicantValuesForURLScope_def
      getImplicantValuesForShortScope_def Let_def split: if_splits)

lemma valid_scope_no_space: "valid_scope hp s \<Longrightarrow> s \<noteq> [] \<and> CHR '' '' \<notin> set s"
  using valid_scope_value [of hp s] by (auto simp: VALID_SCOPE_VALUE_def list_all_iff)

lemma fromString_join:
  assumes "\<forall>s \<in> set ss. valid_scope hp s"
  shows "fromString hp (join_with (CHR '' '') ss) = new_ScopeSet hp ss"
proof (cases "ss = []")
  case True
  then show ?thesis by (simp add: fromString_def)
next
  case False
  have v: "s \<noteq> []" "CHR '' '' \<notin> set s" if "s \<in> set ss" for s
    using valid_scope_no_space [of hp s] assms that by simp_all
  have "split_on (CHR '' '') (join_with (CHR '' '') ss) = ss" by (rule split_on_join [OF False v(2)])
  moreover have "filter (\<lambda>s. s \<noteq> []) ss = ss" using v(1) by (simp add: filter_id_conv)
  ultimately show ?thesis by (simp add: fromString_def)
qed

lemma print_parse:
  assumes "ok_set hp S"
  shows "\<exists>S'. fromString hp (toString S) = Inr S' \<and> ok_set hp S' \<and> scopes_of S' = scopes_of S"
proof -
  let ?imp = "getImplicantValues hp" and ?ss = "getScopeValues S"
  have keys: "set ?ss = scopes_of S" "distinct ?ss"
    using distinct_object_entries [OF scope_set_okD(1) [OF assms]]
    by (simp_all add: getScopeValues_def scopes_of_def)
  have each: "\<exists>X. ?imp s = Inr X \<and> set X \<inter> set object_prototype_keys = {}" if "s \<in> set ?ss" for s
    using scope_set_ok_scopes [OF assms, of s] scope_set_okD(4) [OF assms, of s] that keys(1) by auto
  have anti: "t = s" if "s \<in> set ?ss" "t \<in> set ?ss" "implies ?imp t s" for s t
    using scope_set_ok_scopes [OF assms, of s] scope_set_okD(7) [OF assms, of s _ t] that keys(1)
    by (auto simp: implies_def)
  have "\<exists>S'. build ?imp ?ss empty_set = Inr S' \<and> ok_set hp S' \<and> scopes_of S' = set ?ss \<union> scopes_of empty_set"
    by (rule scopes.build_antichain) (use keys(2) each anti in auto)
  then obtain S' where S': "new_ScopeSet hp ?ss = Inr S'" "ok_set hp S'" "scopes_of S' = scopes_of S"
    using keys(1) by (auto simp: new_ScopeSet_build)
  have "fromString hp (toString S) = Inr S'"
    using fromString_join [of ?ss hp] each S'(1) by (auto simp: toString_def valid_scope_Inr)
  with S' show ?thesis by simp
qed

text \<open>
  C23: parsing what \<open>toString\<close> prints for a well-formed set gives back its scopes.
\<close>

theorem fromString_toString:
  assumes "ok_set hp S"
  shows "\<exists>S'. fromString hp (toString S) = Inr S' \<and> ok_set hp S' \<and> scopes_of S' = scopes_of S \<and>
    capabilities hp S' = capabilities hp S"
  using print_parse [OF assms] by (auto simp: capabilities_implied)

theorem fromString_toString_witness:
  "\<exists>S S'. fromArray (\<lambda>_. None) [''profile:email'', ''basket'', ''profile''] = Inr S \<and>
     fromString (\<lambda>_. None) (toString S) = Inr S' \<and> scopes_of S' = scopes_of S"
proof -
  let ?hp = "\<lambda>_ :: string. None" and ?ss = "[''profile:email'', ''basket'', ''profile'']"
  have "list_all (valid_scope ?hp) ?ss" by code_simp
  then obtain S where S: "fromArray ?hp ?ss = Inr S" "ok_set ?hp S"
    using new_ScopeSet_ok [of ?ss ?hp] by (auto simp: list_all_iff fromArray_def)
  from fromString_toString [OF S(2)] S(1) show ?thesis by blast
qed

section \<open>Query parameters\<close>

text \<open>
  A URL with a query is accepted as a scope, against the comment in the code (a \<open>URL\<close> has no
  property \<open>query\<close>), and the set that consists of it does not contain it.
\<close>

theorem query_scope_not_contained:
  assumes "hp ''x.org'' = Some ''x.org''"
  shows "\<exists>S. fromArray hp [''https://x.org/a?b''] = Inr S \<and> scopes_of S = {''https://x.org/a?b''} \<and>
    ScopeSet_contains hp (StringArg ''https://x.org/a?b'') S = Inr False"
proof -
  let ?x = "''https://x.org/a?b''"
  have "split_on (CHR ''@'') ''x.org'' = [''x.org'']" "cut_port False ''x.org'' = (''x.org'', None)"
    by code_simp+
  then have a: "parse_authority hp ''x.org'' = Some ([], [], ''x.org'', None)"
    using assms by (simp add: parse_authority_def parse_port_def cut_def percent_encode_def)
  define u where "u = \<lparr> u_username = [], u_password = [], u_host = ''x.org'', u_port = None,
    u_path = [''a''], u_query = Some ''b'', u_fragment = None \<rparr>"
  have t: "parse_tail ''/a?b'' = ([''a''], Some ''b'', None)" by code_simp
  have "url_parse hp ?x = Some u"
    using parse_after_slashes [of "''x.org''" "''/a?b''" hp] a t
    by (simp add: url_parse_def u_def authority_end_def)
  moreover have "VALID_SCOPE_VALUE ?x" "url_pathname u = ''/a''" "url_hash u = []" "url_href u = ?x"
    unfolding u_def by code_simp+
  moreover have "url_implicants hp u [[], ''a''] = Inr [''https://x.org/a'']"
    by (simp add: url_implicants.simps u_def url_resolve_def url_hash_def url_href_def url_authority_def
        url_pathname_def parse_tail_def cut_def path_state.simps percent_encode_def path_unsafe_def
        single_dot_def double_dot_def toLowerCase_def lower_char_def)
  ultimately have i: "getImplicantValues hp ?x = Inr [''https://x.org/a'']"
    by (simp add: getImplicantValues_def getImplicantValuesForURLScope_def u_def)
  define S where "S = \<lparr> scopesToImplicants = [(?x, [''https://x.org/a''])],
    implicantsToScopes = [(''https://x.org/a'', [?x])] \<rparr>"
  have "addScope ?x [''https://x.org/a''] empty_set = Inr S" unfolding S_def by code_simp
  then have S: "new_ScopeSet hp [?x] = Inr S"
    using i by (simp add: new_ScopeSet_def new_set_def set_add_def)
  moreover have "\<not> searchScopes (\<lambda>_ implicants. \<not> hasSomeScope S implicants) S = False" "scopes_of S = {?x}"
    unfolding S_def scopes_of_def by code_simp+
  ultimately show ?thesis
    by (simp add: fromArray_def ScopeSet_contains_def)
qed

theorem query_scope_not_contained_witness:
  "\<exists>S. fromArray (\<lambda>h. Some h) [''https://x.org/a?b''] = Inr S \<and>
     ScopeSet_contains (\<lambda>h. Some h) (StringArg ''https://x.org/a?b'') S = Inr False"
  using query_scope_not_contained [of "\<lambda>h. Some h"] by auto

end
