(* ===== verification/Access_Token.thy ===== *)
theory Access_Token
  imports Scope_Guarantees
begin

text \<open>
  Access tokens of the OAuth server: \<open>AccessToken\<close> of fxa-shared
  (\<open>db/models/auth/access-token.ts\<close>), its generator in \<open>lib/oauth/db/accessToken.js\<close> of the auth
  server, and the contract of a place that keeps access tokens. Buffers are hexadecimal strings,
  dates are milliseconds. The random bytes of a new token and SHA-256 are arguments.
\<close>

section \<open>Access tokens\<close>

record access_token =
  at_tokenId :: string
  at_clientId :: string
  at_name :: "string option"
  at_canGrant :: bool
  at_publicClient :: bool
  at_userId :: string
  at_scope :: scope_set
  at_createdAt :: int
  at_profileChangedAt :: int
  at_expiresAt :: int
  at_token :: "string option"
  at_type :: string

text \<open>What \<open>JSON.stringify\<close> keeps of a token: the object of \<open>toJSON\<close>.\<close>

record access_json =
  aj_tokenId :: string
  aj_clientId :: string
  aj_name :: "string option"
  aj_canGrant :: bool
  aj_publicClient :: bool
  aj_userId :: string
  aj_scope :: string
  aj_createdAt :: int
  aj_profileChangedAt :: int
  aj_expiresAt :: int

definition AccessToken_ttl :: "int \<Rightarrow> access_token \<Rightarrow> int" where
  "AccessToken_ttl now t = at_expiresAt t - now"

definition AccessToken_toJSON :: "access_token \<Rightarrow> access_json" where
  "AccessToken_toJSON t =
     \<lparr> aj_tokenId = at_tokenId t, aj_clientId = at_clientId t, aj_name = at_name t,
       aj_canGrant = at_canGrant t, aj_publicClient = at_publicClient t, aj_userId = at_userId t,
       aj_scope = toString (at_scope t), aj_createdAt = at_createdAt t,
       aj_profileChangedAt = at_profileChangedAt t, aj_expiresAt = at_expiresAt t \<rparr>"

text \<open>Every value that this version writes has a \<open>tokenId\<close>.\<close>

definition AccessToken_parse ::
    "(string \<Rightarrow> string option) \<Rightarrow> access_json \<Rightarrow> scope_error + access_token" where
  "AccessToken_parse hp json =
     (case fromString hp (aj_scope json) of
        Inl e \<Rightarrow> Inl e
      | Inr scope \<Rightarrow>
          Inr \<lparr> at_tokenId = aj_tokenId json, at_clientId = aj_clientId json, at_name = aj_name json,
                at_canGrant = aj_canGrant json, at_publicClient = aj_publicClient json,
                at_userId = aj_userId json, at_scope = scope, at_createdAt = aj_createdAt json,
                at_profileChangedAt = aj_profileChangedAt json, at_expiresAt = aj_expiresAt json,
                at_token = None, at_type = ''bearer'' \<rparr>)"

text \<open>
  What a new token is for. A missing \<open>profileChangedAt\<close>, \<open>expiresAt\<close> or \<open>ttl\<close> is 0: the code
  tests the three for truth (\<open>ttl * 1000\<close> is \<open>NaN\<close> if \<open>ttl\<close> is missing).
\<close>

definition AccessToken_generate ::
    "(string \<Rightarrow> string) \<Rightarrow> int \<Rightarrow> int \<Rightarrow> string \<Rightarrow> string \<Rightarrow> string option \<Rightarrow> bool \<Rightarrow> bool \<Rightarrow> string \<Rightarrow> scope_set \<Rightarrow>
     int \<Rightarrow> int \<Rightarrow> int \<Rightarrow> access_token" where
  "AccessToken_generate hash MAX_TTL now token clientId name canGrant publicClient userId scope
     profileChangedAt expiresAt ttl =
     \<lparr> at_tokenId = hash token, at_clientId = clientId, at_name = name, at_canGrant = canGrant,
       at_publicClient = publicClient, at_userId = userId, at_scope = scope,
       at_createdAt = now - now mod 1000, at_profileChangedAt = profileChangedAt,
       at_expiresAt =
         (if expiresAt \<noteq> 0 then expiresAt
          else now + (if ttl * 1000 \<noteq> 0 then ttl * 1000 else MAX_TTL)),
       at_token = Some token, at_type = ''bearer'' \<rparr>"

lemma generate_ttl:
  assumes "0 < MAX_TTL" and "ttl \<le> MAX_TTL div 1000"
  shows "AccessToken_ttl now (AccessToken_generate hash MAX_TTL now token c n g p u S pc 0 ttl) \<le> MAX_TTL"
proof -
  have "ttl * 1000 \<le> MAX_TTL" using assms(2) by presburger
  with assms(1) show ?thesis by (simp add: AccessToken_ttl_def AccessToken_generate_def)
qed

text \<open>A stored token reads back with the same scopes, without its secret.\<close>

lemma parse_toJSON:
  assumes "fromString hp (toString (at_scope t)) = Inr S'" and "at_type t = ''bearer''"
  shows "AccessToken_parse hp (AccessToken_toJSON t) = Inr (t\<lparr>at_scope := S', at_token := None\<rparr>)"
  using assms by (simp add: AccessToken_parse_def AccessToken_toJSON_def)

section \<open>The contract of a token store\<close>

text \<open>
  Both places that keep access tokens, Redis and MySQL, promise the same: a partial map from ids
  to tokens, from which tokens are removed by id, by user, by user and client, and by user for
  public clients and those that may grant. \<open>userOf\<close>, \<open>clientOf\<close> and \<open>exposed\<close> read a stored token.
\<close>

locale token_store =
  fixes ok :: "'s \<Rightarrow> bool"
    and get :: "'s \<Rightarrow> string \<Rightarrow> 't option"
    and listed :: "'s \<Rightarrow> string \<Rightarrow> 't list"
    and remove :: "string \<Rightarrow> 's \<Rightarrow> 's"
    and removeUser :: "string \<Rightarrow> 's \<Rightarrow> 's"
    and removeClient :: "string \<Rightarrow> string \<Rightarrow> 's \<Rightarrow> 's"
    and removePublic :: "string \<Rightarrow> 's \<Rightarrow> 's"
    and idOf :: "'t \<Rightarrow> string"
    and userOf :: "'t \<Rightarrow> string"
    and clientOf :: "'t \<Rightarrow> string"
    and exposed :: "'t \<Rightarrow> bool"
  assumes get_remove: "ok s \<Longrightarrow> get (remove i s) j = (if j = i then None else get s j)"
    and get_removeUser: "ok s \<Longrightarrow> get (removeUser u s) j =
        (case get s j of Some t \<Rightarrow> if userOf t = u then None else Some t | None \<Rightarrow> None)"
    and get_removeClient: "ok s \<Longrightarrow> get (removeClient u c s) j =
        (case get s j of Some t \<Rightarrow> if userOf t = u \<and> clientOf t = c then None else Some t | None \<Rightarrow> None)"
    and get_removePublic: "ok s \<Longrightarrow> get (removePublic u s) j =
        (case get s j of Some t \<Rightarrow> if userOf t = u \<and> exposed t then None else Some t | None \<Rightarrow> None)"
    and ok_remove: "ok s \<Longrightarrow> ok (remove i s)"
    and ok_removeUser: "ok s \<Longrightarrow> ok (removeUser u s)"
    and ok_removeClient: "ok s \<Longrightarrow> ok (removeClient u c s)"
    and ok_removePublic: "ok s \<Longrightarrow> ok (removePublic u s)"
    and get_id: "ok s \<Longrightarrow> get s i = Some t \<Longrightarrow> idOf t = i"
    and set_listed: "ok s \<Longrightarrow> set (listed s u) = {t. userOf t = u \<and> (\<exists>i. get s i = Some t)}"
    and distinct_listed: "ok s \<Longrightarrow> distinct (map idOf (listed s u))"
begin

lemma removeUser_none: "ok s \<Longrightarrow> listed (removeUser u s) u = []"
proof -
  assume "ok s"
  then have "set (listed (removeUser u s) u) = {}"
    by (auto simp: set_listed ok_removeUser get_removeUser split: option.splits if_splits)
  then show ?thesis by simp
qed

lemma removeUser_other:
  assumes "ok s" and "v \<noteq> u"
  shows "set (listed (removeUser u s) v) = set (listed s v)"
proof -
  have "get (removeUser u s) i = Some t \<longleftrightarrow> get s i = Some t" if "userOf t = v" for i t
    using assms that by (auto simp: get_removeUser split: option.splits if_splits)
  then show ?thesis using assms by (auto simp: set_listed ok_removeUser)
qed

lemma removeClient_listed:
  assumes "ok s"
  shows "set (listed (removeClient u c s) v) = {t \<in> set (listed s v). \<not> (v = u \<and> clientOf t = c)}"
proof -
  have "get (removeClient u c s) i = Some t \<longleftrightarrow> get s i = Some t \<and> \<not> (userOf t = u \<and> clientOf t = c)" for i t
    using assms by (auto simp: get_removeClient split: option.splits if_splits)
  then show ?thesis using assms by (auto simp: set_listed ok_removeClient)
qed

lemma removePublic_listed:
  assumes "ok s"
  shows "set (listed (removePublic u s) v) = {t \<in> set (listed s v). \<not> (v = u \<and> exposed t)}"
proof -
  have "get (removePublic u s) i = Some t \<longleftrightarrow> get s i = Some t \<and> \<not> (userOf t = u \<and> exposed t)" for i t
    using assms by (auto simp: get_removePublic split: option.splits if_splits)
  then show ?thesis using assms by (auto simp: set_listed ok_removePublic)
qed

lemma remove_listed:
  assumes "ok s"
  shows "set (listed (remove i s) v) = {t \<in> set (listed s v). idOf t \<noteq> i}"
proof -
  have "get (remove i s) j = Some t \<longleftrightarrow> get s j = Some t \<and> j \<noteq> i" for j t
    using assms by (auto simp: get_remove)
  then show ?thesis using assms get_id by (auto simp: set_listed ok_remove)
qed

end

end
