(* ===== verification/OAuth_Mysql.thy ===== *)
theory OAuth_Mysql
  imports Access_Token
begin

text \<open>
  The tables of the OAuth server and the statements on them: \<open>MysqlStore\<close> in
  \<open>lib/oauth/db/mysql/index.js\<close> of the auth server. A table is a list of rows in the order of their
  insertion; each has a primary key, and inserting a key twice is an error. Binary columns are
  hexadecimal strings, so \<open>buf\<close> and \<open>hex\<close> leave them alone. Timestamps are milliseconds with the
  precision of a second; the clock of the database is that of the server. Limits on the length of
  a column, and failing connections, are left out.
\<close>

section \<open>Rows\<close>

record oauth_client =
  oc_id :: string
  oc_name :: string
  oc_imageUri :: string
  oc_hashedSecret :: string
  oc_hashedSecretPrevious :: "string option"
  oc_redirectUri :: string
  oc_trusted :: bool
  oc_allowedScopes :: "string option"
  oc_canGrant :: bool
  oc_publicClient :: bool

record code_row =
  cr_code :: string
  cr_clientId :: string
  cr_userId :: string
  cr_scope :: string
  cr_createdAt :: int
  cr_authAt :: int
  cr_amr :: "string option"
  cr_aal :: "int option"
  cr_offline :: bool
  cr_codeChallengeMethod :: "string option"
  cr_codeChallenge :: "string option"
  cr_keysJwe :: "string option"
  cr_profileChangedAt :: int
  cr_sessionTokenId :: "string option"

record token_row =
  tr_token :: string
  tr_clientId :: string
  tr_userId :: string
  tr_scope :: string
  tr_type :: string
  tr_createdAt :: int
  tr_expiresAt :: int
  tr_profileChangedAt :: int

record refresh_row =
  rr_token :: string
  rr_clientId :: string
  rr_userId :: string
  rr_scope :: string
  rr_createdAt :: int
  rr_lastUsedAt :: int
  rr_profileChangedAt :: int

record scope_row =
  sr_scope :: string
  sr_hasScopedKeys :: bool

record mysql_store =
  my_clients :: "oauth_client list"
  my_codes :: "code_row list"
  my_tokens :: "token_row list"
  my_refreshTokens :: "refresh_row list"
  my_scopes :: "scope_row list"

text \<open>
  A grant: what a client may do for a user. Objects of this kind come from the database and from
  the checks of a request; a missing number is 0, as every reader tests it for truth.
\<close>

record grant =
  g_clientId :: string
  g_name :: string
  g_canGrant :: bool
  g_publicClient :: bool
  g_userId :: string
  g_email :: "string option"
  g_scope :: scope_set
  g_scopeConfig :: "(string \<times> scope_row option) list"
  g_sessionTokenId :: "string option"
  g_offline :: bool
  g_authAt :: int
  g_amr :: "string list option"
  g_aal :: int
  g_profileChangedAt :: int
  g_keysJwe :: "string option"
  g_generation :: int
  g_ppidSeed :: int
  g_resource :: "string option"
  g_ttl :: int

definition second :: "int \<Rightarrow> int" where
  "second now = now - now mod 1000"

text \<open>The column rounds a time that it is given.\<close>

definition timestamp :: "int \<Rightarrow> int" where
  "timestamp ms = second (ms + 500)"

datatype mysql_error = DupEntry

definition insert_row :: "('r \<Rightarrow> string) \<Rightarrow> 'r \<Rightarrow> 'r list \<Rightarrow> mysql_error + 'r list" where
  "insert_row key r rows = (if key r \<in> key ` set rows then Inl DupEntry else Inr (rows @ [r]))"

definition firstRow :: "'r list \<Rightarrow> 'r option" where
  "firstRow rows = (case rows of [] \<Rightarrow> None | r # _ \<Rightarrow> Some r)"

section \<open>Clients and scopes\<close>

definition getClient :: "string \<Rightarrow> mysql_store \<Rightarrow> oauth_client option" where
  "getClient i m = firstRow (filter (\<lambda>c. oc_id c = i) (my_clients m))"

text \<open>The client has an id already, as the configured ones do.\<close>

definition registerClient :: "oauth_client \<Rightarrow> mysql_store \<Rightarrow> mysql_error + mysql_store" where
  "registerClient client m =
     (let allowed = (case oc_allowedScopes client of Some s \<Rightarrow> if s = [] then None else Some s | None \<Rightarrow> None);
          previous = (case oc_hashedSecretPrevious client of Some s \<Rightarrow> if s = [] then None else Some s | None \<Rightarrow> None)
      in case insert_row oc_id (client\<lparr> oc_allowedScopes := allowed, oc_hashedSecretPrevious := previous \<rparr>)
              (my_clients m) of
           Inl e \<Rightarrow> Inl e
         | Inr cs \<Rightarrow> Inr (m\<lparr> my_clients := cs \<rparr>))"

text \<open>The statement joins everything that belongs to the client.\<close>

definition removeClient :: "string \<Rightarrow> mysql_store \<Rightarrow> mysql_store" where
  "removeClient i m =
     (if getClient i m = None then m
      else m\<lparr> my_clients := filter (\<lambda>c. oc_id c \<noteq> i) (my_clients m),
              my_codes := filter (\<lambda>c. cr_clientId c \<noteq> i) (my_codes m),
              my_tokens := filter (\<lambda>t. tr_clientId t \<noteq> i) (my_tokens m),
              my_refreshTokens := filter (\<lambda>t. rr_clientId t \<noteq> i) (my_refreshTokens m) \<rparr>)"

definition getScope :: "string \<Rightarrow> mysql_store \<Rightarrow> scope_row option" where
  "getScope scope m =
     (if take 8 scope \<noteq> ''https://'' then None
      else firstRow (filter (\<lambda>s. sr_scope s = scope) (my_scopes m)))"

definition registerScope :: "scope_row \<Rightarrow> mysql_store \<Rightarrow> mysql_error + mysql_store" where
  "registerScope s m =
     (case insert_row sr_scope s (my_scopes m) of Inl e \<Rightarrow> Inl e | Inr ss \<Rightarrow> Inr (m\<lparr> my_scopes := ss \<rparr>))"

section \<open>Authorization codes\<close>

text \<open>The code is random; only its hash is stored.\<close>

definition generateCode ::
    "(string \<Rightarrow> string) \<Rightarrow> int \<Rightarrow> string \<Rightarrow> string option \<Rightarrow> string option \<Rightarrow> grant \<Rightarrow> mysql_store \<Rightarrow>
     mysql_error + string \<times> mysql_store" where
  "generateCode hash now code codeChallengeMethod codeChallenge codeObj m =
     (case insert_row cr_code
        \<lparr> cr_code = hash code, cr_clientId = g_clientId codeObj, cr_userId = g_userId codeObj,
          cr_scope = toString (g_scope codeObj), cr_createdAt = second now, cr_authAt = g_authAt codeObj,
          cr_amr = map_option (join_with (CHR '','')) (g_amr codeObj),
          cr_aal = (if g_aal codeObj \<noteq> 0 then Some (g_aal codeObj) else None),
          cr_offline = g_offline codeObj, cr_codeChallengeMethod = codeChallengeMethod,
          cr_codeChallenge = codeChallenge, cr_keysJwe = g_keysJwe codeObj,
          cr_profileChangedAt = g_profileChangedAt codeObj,
          cr_sessionTokenId = g_sessionTokenId codeObj \<rparr> (my_codes m) of
        Inl e \<Rightarrow> Inl e
      | Inr cs \<Rightarrow> Inr (code, m\<lparr> my_codes := cs \<rparr>))"

text \<open>The row, with its scope parsed and its \<open>amr\<close> split.\<close>

record code_obj =
  co_row :: code_row
  co_scope :: scope_set
  co_amr :: "string list option"

definition getCode ::
    "(string \<Rightarrow> string option) \<Rightarrow> (string \<Rightarrow> string) \<Rightarrow> string \<Rightarrow> mysql_store \<Rightarrow> scope_error + code_obj option" where
  "getCode hp hash code m =
     (case firstRow (filter (\<lambda>c. cr_code c = hash code) (my_codes m)) of
        None \<Rightarrow> Inr None
      | Some c \<Rightarrow>
          (case fromString hp (cr_scope c) of
             Inl e \<Rightarrow> Inl e
           | Inr S \<Rightarrow>
               Inr (Some \<lparr> co_row = c, co_scope = S, co_amr = map_option (split_on (CHR '','')) (cr_amr c) \<rparr>)))"

definition removeCode :: "(string \<Rightarrow> string) \<Rightarrow> string \<Rightarrow> mysql_store \<Rightarrow> mysql_store" where
  "removeCode hash code m = m\<lparr> my_codes := filter (\<lambda>c. cr_code c \<noteq> hash code) (my_codes m) \<rparr>"

definition pruneAuthorizationCodes :: "int \<Rightarrow> int \<Rightarrow> mysql_store \<Rightarrow> mysql_store" where
  "pruneAuthorizationCodes now ttl m =
     (let old = (\<lambda>c. (second now - cr_createdAt c) > ttl)
      in m\<lparr> my_codes :=
              filter (\<lambda>c. c \<notin> set (take 10000 (filter old (my_codes m)))) (my_codes m) \<rparr>)"

section \<open>Access tokens\<close>

definition generateAccessToken_mysql :: "int \<Rightarrow> access_token \<Rightarrow> mysql_store \<Rightarrow> mysql_error + mysql_store" where
  "generateAccessToken_mysql now accessToken m =
     (case insert_row tr_token
        \<lparr> tr_token = at_tokenId accessToken, tr_clientId = at_clientId accessToken,
          tr_userId = at_userId accessToken, tr_scope = toString (at_scope accessToken),
          tr_type = at_type accessToken, tr_createdAt = second now,
          tr_expiresAt = timestamp (at_expiresAt accessToken),
          tr_profileChangedAt = at_profileChangedAt accessToken \<rparr> (my_tokens m) of
        Inl e \<Rightarrow> Inl e
      | Inr ts \<Rightarrow> Inr (m\<lparr> my_tokens := ts \<rparr>))"

text \<open>A row with the client it is joined with. For a missing client the columns are null, read as false.\<close>

type_synonym joined_row = "token_row \<times> oauth_client option"

definition joined :: "mysql_store \<Rightarrow> joined_row list" where
  "joined m = map (\<lambda>t. (t, getClient (tr_clientId t) m)) (my_tokens m)"

fun AccessToken_fromMySQL :: "(string \<Rightarrow> string option) \<Rightarrow> joined_row \<Rightarrow> scope_error + access_token" where
  "AccessToken_fromMySQL hp (t, c) =
     (case fromString hp (tr_scope t) of
        Inl e \<Rightarrow> Inl e
      | Inr S \<Rightarrow>
          Inr \<lparr> at_tokenId = tr_token t, at_clientId = tr_clientId t, at_name = map_option oc_name c,
                at_canGrant = (case c of Some c \<Rightarrow> oc_canGrant c | None \<Rightarrow> False),
                at_publicClient = (case c of Some c \<Rightarrow> oc_publicClient c | None \<Rightarrow> False),
                at_userId = tr_userId t, at_scope = S, at_createdAt = tr_createdAt t,
                at_profileChangedAt = tr_profileChangedAt t, at_expiresAt = tr_expiresAt t,
                at_token = None, at_type = ''bearer'' \<rparr>)"

definition find_joined :: "mysql_store \<Rightarrow> string \<Rightarrow> joined_row option" where
  "find_joined m i = firstRow (filter (\<lambda>(t, c). tr_token t = i) (joined m))"

definition getAccessToken_mysql ::
    "(string \<Rightarrow> string option) \<Rightarrow> string \<Rightarrow> mysql_store \<Rightarrow> scope_error + access_token option" where
  "getAccessToken_mysql hp i m =
     (case find_joined m i of
        None \<Rightarrow> Inr None
      | Some r \<Rightarrow> (case AccessToken_fromMySQL hp r of Inl e \<Rightarrow> Inl e | Inr t \<Rightarrow> Inr (Some t)))"

definition removeAccessToken_mysql :: "string \<Rightarrow> mysql_store \<Rightarrow> mysql_store" where
  "removeAccessToken_mysql i m = m\<lparr> my_tokens := filter (\<lambda>t. tr_token t \<noteq> i) (my_tokens m) \<rparr>"

definition rows_by_uid :: "mysql_store \<Rightarrow> string \<Rightarrow> joined_row list" where
  "rows_by_uid m uid = filter (\<lambda>(t, c). tr_userId t = uid) (joined m)"

fun map_sum_list :: "('a \<Rightarrow> 'e + 'b) \<Rightarrow> 'a list \<Rightarrow> 'e + 'b list" where
  "map_sum_list f [] = Inr []"
| "map_sum_list f (x # xs) =
     (case f x of
        Inl e \<Rightarrow> Inl e
      | Inr y \<Rightarrow> (case map_sum_list f xs of Inl e \<Rightarrow> Inl e | Inr ys \<Rightarrow> Inr (y # ys)))"

definition getAccessTokensByUid_mysql ::
    "(string \<Rightarrow> string option) \<Rightarrow> string \<Rightarrow> mysql_store \<Rightarrow> scope_error + access_token list" where
  "getAccessTokensByUid_mysql hp uid m = map_sum_list (AccessToken_fromMySQL hp) (rows_by_uid m uid)"

section \<open>Refresh tokens\<close>

record refresh_token =
  rt_tokenId :: string
  rt_clientId :: string
  rt_userId :: string
  rt_scope :: scope_set
  rt_createdAt :: int
  rt_lastUsedAt :: int
  rt_profileChangedAt :: int

definition generateRefreshToken ::
    "(string \<Rightarrow> string) \<Rightarrow> int \<Rightarrow> string \<Rightarrow> grant \<Rightarrow> mysql_store \<Rightarrow> mysql_error + string \<times> mysql_store" where
  "generateRefreshToken hash now token vals m =
     (case insert_row rr_token
        \<lparr> rr_token = hash token, rr_clientId = g_clientId vals, rr_userId = g_userId vals,
          rr_scope = toString (g_scope vals), rr_createdAt = second now, rr_lastUsedAt = second now,
          rr_profileChangedAt = g_profileChangedAt vals \<rparr> (my_refreshTokens m) of
        Inl e \<Rightarrow> Inl e
      | Inr ts \<Rightarrow> Inr (token, m\<lparr> my_refreshTokens := ts \<rparr>))"

definition parse_refresh :: "(string \<Rightarrow> string option) \<Rightarrow> refresh_row \<Rightarrow> scope_error + refresh_token" where
  "parse_refresh hp t =
     (case fromString hp (rr_scope t) of
        Inl e \<Rightarrow> Inl e
      | Inr S \<Rightarrow>
          Inr \<lparr> rt_tokenId = rr_token t, rt_clientId = rr_clientId t, rt_userId = rr_userId t, rt_scope = S,
                rt_createdAt = rr_createdAt t, rt_lastUsedAt = rr_lastUsedAt t,
                rt_profileChangedAt = rr_profileChangedAt t \<rparr>)"

definition getRefreshToken_mysql ::
    "(string \<Rightarrow> string option) \<Rightarrow> string \<Rightarrow> mysql_store \<Rightarrow> scope_error + refresh_token option" where
  "getRefreshToken_mysql hp i m =
     (case firstRow (filter (\<lambda>t. rr_token t = i) (my_refreshTokens m)) of
        None \<Rightarrow> Inr None
      | Some t \<Rightarrow> (case parse_refresh hp t of Inl e \<Rightarrow> Inl e | Inr t \<Rightarrow> Inr (Some t)))"

definition getRefreshTokensByUid_mysql ::
    "(string \<Rightarrow> string option) \<Rightarrow> string \<Rightarrow> mysql_store \<Rightarrow> scope_error + refresh_token list" where
  "getRefreshTokensByUid_mysql hp uid m =
     map_sum_list (parse_refresh hp) (filter (\<lambda>t. rr_userId t = uid) (my_refreshTokens m))"

definition touchRefreshToken_mysql :: "string \<Rightarrow> int \<Rightarrow> mysql_store \<Rightarrow> mysql_store" where
  "touchRefreshToken_mysql i now m =
     m\<lparr> my_refreshTokens :=
          map (\<lambda>t. if rr_token t = i then t\<lparr> rr_lastUsedAt := timestamp now \<rparr> else t) (my_refreshTokens m) \<rparr>"

definition removeRefreshToken_mysql :: "string \<Rightarrow> mysql_store \<Rightarrow> mysql_store" where
  "removeRefreshToken_mysql i m =
     m\<lparr> my_refreshTokens := filter (\<lambda>t. rr_token t \<noteq> i) (my_refreshTokens m) \<rparr>"

section \<open>Bulk removal\<close>

definition deleteClientAuthorization_mysql :: "string \<Rightarrow> string \<Rightarrow> mysql_store \<Rightarrow> mysql_store" where
  "deleteClientAuthorization_mysql clientId uid m =
     m\<lparr> my_codes := filter (\<lambda>c. \<not> (cr_clientId c = clientId \<and> cr_userId c = uid)) (my_codes m),
        my_tokens := filter (\<lambda>t. \<not> (tr_clientId t = clientId \<and> tr_userId t = uid)) (my_tokens m),
        my_refreshTokens :=
          filter (\<lambda>t. \<not> (rr_clientId t = clientId \<and> rr_userId t = uid)) (my_refreshTokens m) \<rparr>"

definition deleteClientRefreshToken_mysql ::
    "string \<Rightarrow> string \<Rightarrow> string \<Rightarrow> mysql_store \<Rightarrow> bool \<times> mysql_store" where
  "deleteClientRefreshToken_mysql tokenId clientId uid m =
     (let hit = (\<lambda>t. rr_token t = tokenId \<and> rr_clientId t = clientId \<and> rr_userId t = uid)
      in if list_ex hit (my_refreshTokens m) then
           (True, m\<lparr> my_refreshTokens := filter (\<lambda>t. \<not> hit t) (my_refreshTokens m),
                     my_tokens := filter (\<lambda>t. \<not> (tr_clientId t = clientId \<and> tr_userId t = uid)) (my_tokens m) \<rparr>)
         else (False, m))"

definition removeUser_mysql :: "string \<Rightarrow> mysql_store \<Rightarrow> mysql_store" where
  "removeUser_mysql uid m =
     m\<lparr> my_tokens := filter (\<lambda>t. tr_userId t \<noteq> uid) (my_tokens m),
        my_refreshTokens := filter (\<lambda>t. rr_userId t \<noteq> uid) (my_refreshTokens m),
        my_codes := filter (\<lambda>c. cr_userId c \<noteq> uid) (my_codes m) \<rparr>"

text \<open>The inner join keeps the tokens of missing clients.\<close>

definition client_exposed :: "mysql_store \<Rightarrow> string \<Rightarrow> bool" where
  "client_exposed m clientId =
     (case getClient clientId m of Some c \<Rightarrow> oc_publicClient c \<or> oc_canGrant c | None \<Rightarrow> False)"

definition removePublicAndCanGrantTokens_mysql :: "string \<Rightarrow> mysql_store \<Rightarrow> mysql_store" where
  "removePublicAndCanGrantTokens_mysql uid m =
     m\<lparr> my_tokens := filter (\<lambda>t. \<not> (tr_userId t = uid \<and> client_exposed m (tr_clientId t))) (my_tokens m),
        my_refreshTokens :=
          filter (\<lambda>t. \<not> (rr_userId t = uid \<and> client_exposed m (rr_clientId t))) (my_refreshTokens m) \<rparr>"

section \<open>The contract\<close>

lemma getClient_cong [simp]: "getClient i (m\<lparr> my_tokens := x \<rparr>) = getClient i m"
  "getClient i (m\<lparr> my_refreshTokens := y \<rparr>) = getClient i m" "getClient i (m\<lparr> my_codes := z \<rparr>) = getClient i m"
  by (simp_all add: getClient_def)

lemma firstRow_filter_map:
  "firstRow (filter (\<lambda>(t, c). p t) (map (\<lambda>t. (t, f t)) ts)) = map_option (\<lambda>t. (t, f t)) (firstRow (filter p ts))"
  by (induction ts) (auto simp: firstRow_def)

lemma find_joined_row:
  "find_joined m i =
     map_option (\<lambda>t. (t, getClient (tr_clientId t) m)) (firstRow (filter (\<lambda>t. tr_token t = i) (my_tokens m)))"
  by (simp add: find_joined_def joined_def firstRow_filter_map)

lemma firstRow_key:
  assumes "distinct (map key rows)"
  shows "firstRow (filter (\<lambda>r. key r = k) rows) = Some r \<longleftrightarrow> r \<in> set rows \<and> key r = k"
  using assms by (induction rows) (auto simp: firstRow_def image_iff)

lemma distinct_map_filter_key: "distinct (map key rows) \<Longrightarrow> distinct (map key (filter p rows))"
  by (induction rows) auto

lemma option_eqI: "(\<And>r. a = Some r \<longleftrightarrow> b = Some r) \<Longrightarrow> a = b"
  by (cases a; cases b) auto

lemma firstRow_filter_filter:
  assumes "distinct (map key rows)"
  shows "firstRow (filter (\<lambda>r. key r = k) (filter p rows)) =
     (case firstRow (filter (\<lambda>r. key r = k) rows) of Some r \<Rightarrow> if p r then Some r else None | None \<Rightarrow> None)"
    (is "?l = ?r")
proof -
  have "?l = Some r \<longleftrightarrow> firstRow (filter (\<lambda>r. key r = k) rows) = Some r \<and> p r" for r
    unfolding firstRow_key [OF assms] firstRow_key [OF distinct_map_filter_key [OF assms]] by auto
  moreover have "?r = Some r \<longleftrightarrow> firstRow (filter (\<lambda>r. key r = k) rows) = Some r \<and> p r" for r
    by (auto split: option.split)
  ultimately show ?thesis by (intro option_eqI) simp
qed

abbreviation tokens_ok :: "mysql_store \<Rightarrow> bool" where
  "tokens_ok m \<equiv> distinct (map tr_token (my_tokens m))"

lemma find_joined_filtered:
  assumes "tokens_ok m" and "my_tokens m' = filter p (my_tokens m)" and "my_clients m' = my_clients m"
  shows "find_joined m' i = (case find_joined m i of Some (t, c) \<Rightarrow> if p t then Some (t, c) else None | None \<Rightarrow> None)"
proof -
  have "getClient j m' = getClient j m" for j using assms(3) by (simp add: getClient_def)
  then show ?thesis using firstRow_filter_filter [OF assms(1), of i p] assms(2)
    by (simp add: find_joined_row split: option.split)
qed

lemma find_joined_client: "find_joined m i = Some (t, c) \<Longrightarrow> c = getClient (tr_clientId t) m"
  by (auto simp: find_joined_row)

interpretation mysql: token_store tokens_ok find_joined rows_by_uid removeAccessToken_mysql removeUser_mysql
    "\<lambda>u c. deleteClientAuthorization_mysql c u" removePublicAndCanGrantTokens_mysql
    "\<lambda>r. tr_token (fst r)" "\<lambda>r. tr_userId (fst r)" "\<lambda>r. tr_clientId (fst r)"
    "\<lambda>(t, c). case c of Some c \<Rightarrow> oc_publicClient c \<or> oc_canGrant c | None \<Rightarrow> False"
proof (unfold_locales, goal_cases)
  case (1 m i j)
  have "find_joined (removeAccessToken_mysql i m) j =
      (case find_joined m j of Some (t, c) \<Rightarrow> if tr_token t \<noteq> i then Some (t, c) else None | None \<Rightarrow> None)"
    by (rule find_joined_filtered [OF 1]) (simp_all add: removeAccessToken_mysql_def)
  moreover have "find_joined m j = Some (t, c) \<Longrightarrow> tr_token t = j" for t c
    using firstRow_key [OF 1] by (auto simp: find_joined_row)
  ultimately show ?case by (auto split: option.split)
next
  case (2 m u j)
  have "find_joined (removeUser_mysql u m) j =
      (case find_joined m j of Some (t, c) \<Rightarrow> if tr_userId t \<noteq> u then Some (t, c) else None | None \<Rightarrow> None)"
    by (rule find_joined_filtered [OF 2]) (simp_all add: removeUser_mysql_def)
  then show ?case by (auto split: option.split)
next
  case (3 m u c j)
  have "find_joined (deleteClientAuthorization_mysql c u m) j =
      (case find_joined m j of Some (t, k) \<Rightarrow> if \<not> (tr_clientId t = c \<and> tr_userId t = u) then Some (t, k) else None
       | None \<Rightarrow> None)"
    by (rule find_joined_filtered [OF 3]) (simp_all add: deleteClientAuthorization_mysql_def)
  then show ?case by (auto split: option.split)
next
  case (4 m u j)
  have "find_joined (removePublicAndCanGrantTokens_mysql u m) j =
      (case find_joined m j of Some (t, k) \<Rightarrow>
         if \<not> (tr_userId t = u \<and> client_exposed m (tr_clientId t)) then Some (t, k) else None
       | None \<Rightarrow> None)"
    by (rule find_joined_filtered [OF 4]) (simp_all add: removePublicAndCanGrantTokens_mysql_def)
  then show ?case using find_joined_client [of m j] by (auto simp: client_exposed_def split: option.split)
next
  case (9 m i t)
  then show ?case using firstRow_key [OF 9(1)] by (auto simp: find_joined_row)
next
  case (10 m u)
  have "(\<exists>i. find_joined m i = Some (t, c)) \<longleftrightarrow> t \<in> set (my_tokens m) \<and> c = getClient (tr_clientId t) m" for t c
    using firstRow_key [OF 10] by (auto simp: find_joined_row)
  then show ?case by (auto simp: rows_by_uid_def joined_def)
next
  case (11 m u)
  have "map (\<lambda>r. tr_token (fst r)) (rows_by_uid m u) = map tr_token (filter (\<lambda>t. tr_userId t = u) (my_tokens m))"
    by (simp add: rows_by_uid_def joined_def filter_map o_def)
  then show ?case using 11 by (simp add: distinct_map_filter_key)
qed (simp_all add: distinct_map_filter_key removeAccessToken_mysql_def removeUser_mysql_def
    deleteClientAuthorization_mysql_def removePublicAndCanGrantTokens_mysql_def)

end
