(* ===== verification/Token_Cache.thy ===== *)
theory Token_Cache
  imports Access_Token
begin

text \<open>
  Access tokens and refresh-token metadata in Redis: the Lua scripts of the auth server
  (\<open>lib/luaScripts\<close>) and of fxa-shared (\<open>db/luaScripts\<close>), and their callers in \<open>lib/redis.js\<close> and
  \<open>db/redis.ts\<close>. Redis runs a script as a whole, so a script is a function on the state.

  An access token is kept under its id, with a time to live; the ids of a user's tokens are in a
  set under the user's id. Token ids and user ids have different lengths, so the two kinds of keys
  are two maps. A set is a list without duplicates. A key is there until its expiry has passed.
  Which elements \<open>SPOP\<close> takes is random: \<open>spop\<close> is an argument.
\<close>

section \<open>Redis\<close>

record token_cache =
  tc_tokens :: "string \<rightharpoonup> access_json \<times> int"
  tc_index :: "string \<rightharpoonup> string list \<times> int"
  tc_refresh :: "string \<rightharpoonup> (string \<times> int) list \<times> int"

definition redis_get :: "int \<Rightarrow> ('k \<rightharpoonup> 'v \<times> int) \<Rightarrow> 'k \<Rightarrow> 'v option" where
  "redis_get now m k = (case m k of Some (v, e) \<Rightarrow> if now \<le> e then Some v else None | None \<Rightarrow> None)"

definition smembers :: "int \<Rightarrow> (string \<rightharpoonup> string list \<times> int) \<Rightarrow> string \<Rightarrow> string list" where
  "smembers now m k = (case redis_get now m k of Some xs \<Rightarrow> xs | None \<Rightarrow> [])"

definition srem ::
    "int \<Rightarrow> string \<Rightarrow> string list \<Rightarrow> (string \<rightharpoonup> string list \<times> int) \<Rightarrow> string \<rightharpoonup> string list \<times> int" where
  "srem now k ids m =
     (case m k of
        None \<Rightarrow> m
      | Some (xs, e) \<Rightarrow>
          if now \<le> e then
            let left = filter (\<lambda>x. x \<notin> set ids) xs
            in m(k := if left = [] then None else Some (left, e))
          else m(k := None))"

definition unlink :: "'k list \<Rightarrow> ('k \<rightharpoonup> 'v) \<Rightarrow> 'k \<rightharpoonup> 'v" where
  "unlink ks m = (\<lambda>k. if k \<in> set ks then None else m k)"

text \<open>What \<open>SPOP\<close> does: it takes \<open>n\<close> different elements, or all if there are no more.\<close>

definition spop_ok :: "(string list \<Rightarrow> nat \<Rightarrow> string list) \<Rightarrow> bool" where
  "spop_ok spop \<longleftrightarrow>
     (\<forall>xs n. distinct xs \<longrightarrow>
        distinct (spop xs n) \<and> set (spop xs n) \<subseteq> set xs \<and> length (spop xs n) = min n (length xs))"

section \<open>Access tokens\<close>

text \<open>
  The result is \<open>None\<close> if the script fails: \<open>UNLINK\<close> without a key is an error. This happens only
  for a limit below 2, and then nothing was changed before.
\<close>

definition setAccessToken_script ::
    "(string list \<Rightarrow> nat \<Rightarrow> string list) \<Rightarrow> int \<Rightarrow> string \<Rightarrow> string \<Rightarrow> access_json \<Rightarrow> nat \<Rightarrow> int \<Rightarrow> int \<Rightarrow>
     token_cache \<Rightarrow> token_cache option" where
  "setAccessToken_script spop now userId tokenId token limit ttl maxttl st =
     (let ids = smembers now (tc_index st) userId;
          count = length ids
      in if count > limit then
           let toDel = spop ids (limit div 2)
           in if toDel = [] then None
              else Some (st\<lparr> tc_tokens := (unlink toDel (tc_tokens st))(tokenId := Some (token, now + ttl)),
                            tc_index := (tc_index st)
                              (userId := Some (set_add tokenId (filter (\<lambda>x. x \<notin> set toDel) ids),
                                               now + maxttl)) \<rparr>)
         else if count > 0 \<and> count mod 5 = 0 then
           let popped = spop ids limit;
               toAdd = tokenId # filter (\<lambda>i. redis_get now (tc_tokens st) i \<noteq> None) popped
           in Some (st\<lparr> tc_tokens := (tc_tokens st)(tokenId := Some (token, now + ttl)),
                        tc_index := (tc_index st)
                          (userId := Some (fold set_add toAdd (filter (\<lambda>x. x \<notin> set popped) ids),
                                           now + maxttl)) \<rparr>)
         else
           Some (st\<lparr> tc_tokens := (tc_tokens st)(tokenId := Some (token, now + ttl)),
                     tc_index := (tc_index st)(userId := Some (set_add tokenId ids, now + maxttl)) \<rparr>))"

definition FxaRedis_setAccessToken ::
    "(string list \<Rightarrow> nat \<Rightarrow> string list) \<Rightarrow> nat \<Rightarrow> int \<Rightarrow> int \<Rightarrow> access_token \<Rightarrow> token_cache \<Rightarrow>
     token_cache option" where
  "FxaRedis_setAccessToken spop recordLimit maxttl now token st =
     (if AccessToken_ttl now token < 1 then Some st
      else setAccessToken_script spop now (at_userId token) (at_tokenId token) (AccessToken_toJSON token)
             recordLimit (AccessToken_ttl now token) maxttl st)"

definition getAccessToken_script :: "int \<Rightarrow> string \<Rightarrow> token_cache \<Rightarrow> access_json option" where
  "getAccessToken_script now tokenId st = redis_get now (tc_tokens st) tokenId"

text \<open>An error while parsing is logged, and the token counts as missing.\<close>

definition RedisShared_getAccessToken ::
    "(string \<Rightarrow> string option) \<Rightarrow> int \<Rightarrow> string \<Rightarrow> token_cache \<Rightarrow> access_token option" where
  "RedisShared_getAccessToken hp now tokenId st =
     (case getAccessToken_script now tokenId st of
        None \<Rightarrow> None
      | Some v \<Rightarrow> (case AccessToken_parse hp v of Inl _ \<Rightarrow> None | Inr t \<Rightarrow> Some t))"

definition getAccessTokens_script ::
    "int \<Rightarrow> string \<Rightarrow> token_cache \<Rightarrow> access_json list \<times> token_cache" where
  "getAccessTokens_script now userId st =
     (let ids = smembers now (tc_index st) userId;
          toDel = filter (\<lambda>i. redis_get now (tc_tokens st) i = None) ids
      in (List.map_filter (redis_get now (tc_tokens st)) ids,
          if toDel = [] then st else st\<lparr> tc_index := srem now userId toDel (tc_index st) \<rparr>))"

text \<open>One value that does not parse, and the whole list is dropped.\<close>

fun parse_all :: "(string \<Rightarrow> string option) \<Rightarrow> access_json list \<Rightarrow> access_token list option" where
  "parse_all hp [] = Some []"
| "parse_all hp (v # vs) =
     (case (AccessToken_parse hp v, parse_all hp vs) of (Inr t, Some ts) \<Rightarrow> Some (t # ts) | _ \<Rightarrow> None)"

definition RedisShared_getAccessTokens ::
    "(string \<Rightarrow> string option) \<Rightarrow> int \<Rightarrow> string \<Rightarrow> token_cache \<Rightarrow> access_token list \<times> token_cache" where
  "RedisShared_getAccessTokens hp now uid st =
     (case getAccessTokens_script now uid st of
        (values, st') \<Rightarrow> (case parse_all hp values of Some ts \<Rightarrow> (ts, st') | None \<Rightarrow> ([], st')))"

text \<open>The number 0 is true in Lua, so the key is deleted in any case.\<close>

definition removeAccessToken_script :: "int \<Rightarrow> string \<Rightarrow> token_cache \<Rightarrow> nat \<times> token_cache" where
  "removeAccessToken_script now tokenId st =
     (if redis_get now (tc_tokens st) tokenId = None then 0 else 1,
      st\<lparr> tc_tokens := unlink [tokenId] (tc_tokens st) \<rparr>)"

definition FxaRedis_removeAccessToken :: "int \<Rightarrow> string \<Rightarrow> token_cache \<Rightarrow> bool \<times> token_cache" where
  "FxaRedis_removeAccessToken now tokenId st =
     (case removeAccessToken_script now tokenId st of (done', st') \<Rightarrow> (done' \<noteq> 0, st'))"

definition removeAccessTokensForPublicClients_script :: "int \<Rightarrow> string \<Rightarrow> token_cache \<Rightarrow> token_cache" where
  "removeAccessTokensForPublicClients_script now uid st =
     (let ids = smembers now (tc_index st) uid;
          toDel = filter (\<lambda>i. case redis_get now (tc_tokens st) i of
                                Some token \<Rightarrow> aj_canGrant token \<or> aj_publicClient token
                              | None \<Rightarrow> True) ids
      in if toDel = [] then st
         else st\<lparr> tc_tokens := unlink toDel (tc_tokens st),
                  tc_index := srem now uid toDel (tc_index st) \<rparr>)"

definition removeAccessTokensForUserAndClient_script ::
    "int \<Rightarrow> string \<Rightarrow> string \<Rightarrow> token_cache \<Rightarrow> token_cache" where
  "removeAccessTokensForUserAndClient_script now uid clientId st =
     (let ids = smembers now (tc_index st) uid;
          toDel = filter (\<lambda>i. case redis_get now (tc_tokens st) i of
                                Some token \<Rightarrow> aj_clientId token = clientId
                              | None \<Rightarrow> True) ids
      in if toDel = [] then st
         else st\<lparr> tc_tokens := unlink toDel (tc_tokens st),
                  tc_index := srem now uid toDel (tc_index st) \<rparr>)"

definition removeAccessTokensForUser_script :: "int \<Rightarrow> string \<Rightarrow> token_cache \<Rightarrow> token_cache" where
  "removeAccessTokensForUser_script now uid st =
     (let ids = smembers now (tc_index st) uid
      in if ids = [] then st
         else st\<lparr> tc_tokens := unlink ids (tc_tokens st), tc_index := unlink [uid] (tc_index st) \<rparr>)"

section \<open>Metadata of refresh tokens\<close>

text \<open>
  A hash per user, from token ids to the time of the last use. The entries are a list with
  different keys. Several operations race against a timeout, after which the caller goes on; the
  command still runs.
\<close>

definition hgetall :: "int \<Rightarrow> string \<Rightarrow> token_cache \<Rightarrow> (string \<times> int) list" where
  "hgetall now uid st = (case redis_get now (tc_refresh st) uid of Some h \<Rightarrow> h | None \<Rightarrow> [])"

definition setRefreshToken_script ::
    "int \<Rightarrow> string \<Rightarrow> string \<Rightarrow> int \<Rightarrow> nat \<Rightarrow> int \<Rightarrow> token_cache \<Rightarrow> token_cache" where
  "setRefreshToken_script now uid tokenId lastUsedAt recordLimit expireTimespan st =
     (let tokens = hgetall now uid st;
          fresh = filter (\<lambda>(i, t). \<not> lastUsedAt - t > expireTimespan) tokens;
          left = (if length tokens \<ge> 2 then if length fresh \<ge> recordLimit then [] else fresh else tokens)
      in st\<lparr> tc_refresh := (tc_refresh st)
               (uid := Some (AList.update tokenId lastUsedAt left, now + expireTimespan)) \<rparr>)"

definition hdel :: "int \<Rightarrow> string \<Rightarrow> string list \<Rightarrow> token_cache \<Rightarrow> token_cache" where
  "hdel now uid ids st =
     (case tc_refresh st uid of
        None \<Rightarrow> st
      | Some (h, e) \<Rightarrow>
          let left = filter (\<lambda>(i, t). i \<notin> set ids) h
          in st\<lparr> tc_refresh := (tc_refresh st)(uid := if now \<le> e \<and> left \<noteq> [] then Some (left, e) else None) \<rparr>)"

definition FxaRedis_removeRefreshToken :: "int \<Rightarrow> string \<Rightarrow> string \<Rightarrow> token_cache \<Rightarrow> token_cache" where
  "FxaRedis_removeRefreshToken now uid tokenId st = hdel now uid [tokenId] st"

definition FxaRedis_removeRefreshTokensForUser :: "string \<Rightarrow> token_cache \<Rightarrow> token_cache" where
  "FxaRedis_removeRefreshTokensForUser uid st = st\<lparr> tc_refresh := unlink [uid] (tc_refresh st) \<rparr>"

definition RedisShared_pruneRefreshTokens :: "int \<Rightarrow> string \<Rightarrow> string list \<Rightarrow> token_cache \<Rightarrow> token_cache" where
  "RedisShared_pruneRefreshTokens now uid tokenIdsToPrune st = hdel now uid tokenIdsToPrune st"

end
