(* ===== verification/Token_Cache_Laws.thy ===== *)
theory Token_Cache_Laws
  imports Token_Cache
begin

text \<open>
  The promises of the Redis scripts. The set under a user's id lists every live token of the user,
  so removal by user, by client and for public clients reaches all of them; and it is bounded.
\<close>

named_theorems cache_simps

lemmas cache_defs = Let_def getAccessTokens_script_def removeAccessToken_script_def
  removeAccessTokensForPublicClients_script_def removeAccessTokensForUserAndClient_script_def
  removeAccessTokensForUser_script_def

section \<open>The invariant\<close>

text \<open>
  A token is under its own id and lives no longer than the maximum, a live token is in the set of
  its user and does not outlive the set, and a set has only tokens of its user, no more than the limit and one.
\<close>

definition cache_ok :: "nat \<Rightarrow> int \<Rightarrow> int \<Rightarrow> token_cache \<Rightarrow> bool" where
  "cache_ok limit maxttl now st \<longleftrightarrow>
     (\<forall>i v e. tc_tokens st i = Some (v, e) \<longrightarrow> aj_tokenId v = i \<and> e \<le> now + maxttl) \<and>
     (\<forall>i v e. tc_tokens st i = Some (v, e) \<longrightarrow> now \<le> e \<longrightarrow>
        (\<exists>xs ex. tc_index st (aj_userId v) = Some (xs, ex) \<and> i \<in> set xs \<and> e \<le> ex)) \<and>
     (\<forall>u xs ex. tc_index st u = Some (xs, ex) \<longrightarrow>
        distinct xs \<and> length xs \<le> limit + 1 \<and>
        (\<forall>i v e. i \<in> set xs \<longrightarrow> tc_tokens st i = Some (v, e) \<longrightarrow> aj_userId v = u))"

definition cache_empty :: token_cache where
  "cache_empty = \<lparr> tc_tokens = Map.empty, tc_index = Map.empty, tc_refresh = Map.empty \<rparr>"

lemma cache_ok_empty [simp]: "cache_ok limit maxttl now cache_empty"
  by (simp add: cache_ok_def cache_empty_def)

lemma cache_okD:
  assumes "cache_ok limit maxttl now st"
  shows "tc_tokens st i = Some (v, e) \<Longrightarrow> aj_tokenId v = i \<and> e \<le> now + maxttl"
    and "tc_tokens st i = Some (v, e) \<Longrightarrow> now \<le> e \<Longrightarrow>
      \<exists>xs ex. tc_index st (aj_userId v) = Some (xs, ex) \<and> i \<in> set xs \<and> e \<le> ex"
    and "tc_index st u = Some (xs, ex) \<Longrightarrow> distinct xs \<and> length xs \<le> limit + 1"
    and "tc_index st u = Some (xs, ex) \<Longrightarrow> i \<in> set xs \<Longrightarrow> tc_tokens st i = Some (v, e) \<Longrightarrow> aj_userId v = u"
  using assms unfolding cache_ok_def by blast+

lemma cache_okI:
  assumes "\<And>i v e. tc_tokens st i = Some (v, e) \<Longrightarrow> aj_tokenId v = i \<and> e \<le> now + maxttl"
    and "\<And>i v e. tc_tokens st i = Some (v, e) \<Longrightarrow> now \<le> e \<Longrightarrow>
      \<exists>xs ex. tc_index st (aj_userId v) = Some (xs, ex) \<and> i \<in> set xs \<and> e \<le> ex"
    and "\<And>u xs ex. tc_index st u = Some (xs, ex) \<Longrightarrow> distinct xs \<and> length xs \<le> limit + 1"
    and "\<And>u xs ex i v e. tc_index st u = Some (xs, ex) \<Longrightarrow> i \<in> set xs \<Longrightarrow> tc_tokens st i = Some (v, e) \<Longrightarrow>
      aj_userId v = u"
  shows "cache_ok limit maxttl now st"
  using assms unfolding cache_ok_def by blast

lemma cache_ok_later:
  assumes ok: "cache_ok limit maxttl now st" and later: "now \<le> now'"
  shows "cache_ok limit maxttl now' st"
proof (rule cache_okI)
  fix i v e assume t: "tc_tokens st i = Some (v, e)"
  then show "aj_tokenId v = i \<and> e \<le> now' + maxttl" using cache_okD(1) [OF ok t] later by linarith
  assume "now' \<le> e"
  then have "now \<le> e" using later by linarith
  then show "\<exists>xs ex. tc_index st (aj_userId v) = Some (xs, ex) \<and> i \<in> set xs \<and> e \<le> ex"
    by (rule cache_okD(2) [OF ok t])
qed (use cache_okD(3) [OF ok] cache_okD(4) [OF ok] in blast)+

lemma redis_get_Some: "redis_get now m k = Some v \<longleftrightarrow> (\<exists>e. m k = Some (v, e) \<and> now \<le> e)"
  by (auto simp: redis_get_def split: option.splits if_splits)

lemma smembers_live:
  assumes "cache_ok limit maxttl now st" and "redis_get now (tc_tokens st) i = Some v"
  shows "i \<in> set (smembers now (tc_index st) (aj_userId v))"
proof -
  obtain e where e: "tc_tokens st i = Some (v, e)" "now \<le> e" using assms(2) redis_get_Some by meson
  then obtain xs ex where "tc_index st (aj_userId v) = Some (xs, ex)" "i \<in> set xs" "e \<le> ex"
    using cache_okD(2) [OF assms(1)] by blast
  with e show ?thesis by (simp add: smembers_def redis_get_def)
qed

lemma smembers_Some:
  assumes "i \<in> set (smembers now m u)"
  obtains xs ex where "m u = Some (xs, ex)" "i \<in> set xs" "now \<le> ex" "smembers now m u = xs"
  using assms by (auto simp: smembers_def redis_get_def split: option.splits if_splits)

lemma smembers_owner:
  assumes "cache_ok limit maxttl now st" and "i \<in> set (smembers now (tc_index st) u)"
    and "tc_tokens st i = Some (v, e)"
  shows "aj_userId v = u"
  using assms(2) cache_okD(4) [OF assms(1)] assms(3) by (elim smembers_Some) blast

lemma smembers_iff:
  assumes ok: "cache_ok limit maxttl now st" and t: "redis_get now (tc_tokens st) j = Some t"
  shows "j \<in> set (smembers now (tc_index st) u) \<longleftrightarrow> aj_userId t = u"
proof
  obtain e where "tc_tokens st j = Some (t, e)" using t redis_get_Some by meson
  then show "j \<in> set (smembers now (tc_index st) u) \<Longrightarrow> aj_userId t = u" using smembers_owner [OF ok] by blast
  show "aj_userId t = u \<Longrightarrow> j \<in> set (smembers now (tc_index st) u)" using smembers_live [OF ok t] by blast
qed

lemma get_tokenId: "cache_ok limit maxttl now st \<Longrightarrow> redis_get now (tc_tokens st) i = Some t \<Longrightarrow> aj_tokenId t = i"
  using redis_get_Some cache_okD(1) by metis

lemma smembers_wf:
  assumes "cache_ok limit maxttl now st"
  shows "distinct (smembers now (tc_index st) u)" and "length (smembers now (tc_index st) u) \<le> limit + 1"
  using cache_okD(3) [OF assms] by (auto simp: smembers_def redis_get_def split: option.splits)

section \<open>Removal\<close>

lemma redis_get_unlink [simp]:
  "redis_get now (unlink ks m) k = (if k \<in> set ks then None else redis_get now m k)"
  by (simp add: redis_get_def unlink_def)

lemma srem_Some:
  assumes "srem now u ids m w = Some (xs, ex)"
  shows "\<exists>ys. m w = Some (ys, ex) \<and> xs = (if w = u then filter (\<lambda>x. x \<notin> set ids) ys else ys)"
  using assms by (auto simp: srem_def Let_def split: option.splits if_splits)

text \<open>
  Tokens are removed together with their entries in the set of their user, or stay in it and are
  skipped. Both keep the invariant.
\<close>

lemma cache_ok_srem:
  assumes ok: "cache_ok limit maxttl now st" and gone: "\<And>i. i \<in> set ids \<Longrightarrow> redis_get now m i = None"
    and sub: "\<And>i x. m i = Some x \<Longrightarrow> tc_tokens st i = Some x"
  shows "cache_ok limit maxttl now (st\<lparr> tc_tokens := m, tc_index := srem now u ids (tc_index st) \<rparr>)"
proof (rule cache_okI, simp_all)
  fix i v e assume m: "m i = Some (v, e)"
  then show "aj_tokenId v = i \<and> e \<le> now + maxttl" using sub cache_okD(1) [OF ok] by blast
  assume now: "now \<le> e"
  then obtain xs ex where x: "tc_index st (aj_userId v) = Some (xs, ex)" "i \<in> set xs" "e \<le> ex"
    using sub m cache_okD(2) [OF ok] by blast
  have i: "i \<notin> set ids" using gone [of i] m now by (auto simp: redis_get_def)
  then have "filter (\<lambda>x. x \<notin> set ids) xs \<noteq> []" using x(2) by (auto simp: filter_empty_conv)
  with x i now show "\<exists>xs ex. srem now u ids (tc_index st) (aj_userId v) = Some (xs, ex) \<and> i \<in> set xs \<and> e \<le> ex"
    by (cases "aj_userId v = u") (auto simp: srem_def Let_def split: option.split)
next
  fix w xs ex assume "srem now u ids (tc_index st) w = Some (xs, ex)"
  then obtain ys where ys: "tc_index st w = Some (ys, ex)" "xs = (if w = u then filter (\<lambda>x. x \<notin> set ids) ys else ys)"
    using srem_Some by blast
  then show "distinct xs \<and> length xs \<le> Suc limit"
    using cache_okD(3) [OF ok ys(1)] le_trans [OF length_filter_le] by auto
  fix i v e assume "i \<in> set xs" "m i = Some (v, e)"
  then show "aj_userId v = w" using ys sub cache_okD(4) [OF ok ys(1)] by (auto split: if_splits)
qed

lemma cache_ok_unlink:
  assumes "cache_ok limit maxttl now st"
  shows "cache_ok limit maxttl now (st\<lparr> tc_tokens := unlink ids (tc_tokens st) \<rparr>)"
proof (rule cache_okI, simp_all)
  fix i v e assume "unlink ids (tc_tokens st) i = Some (v, e)"
  then have t: "tc_tokens st i = Some (v, e)" by (auto simp: unlink_def split: if_splits)
  then show "aj_tokenId v = i \<and> e \<le> now + maxttl" by (rule cache_okD(1) [OF assms])
  show "now \<le> e \<Longrightarrow> \<exists>xs ex. tc_index st (aj_userId v) = Some (xs, ex) \<and> i \<in> set xs \<and> e \<le> ex"
    using t by (rule cache_okD(2) [OF assms])
next
  fix u xs ex assume u: "tc_index st u = Some (xs, ex)"
  then show "distinct xs \<and> length xs \<le> Suc limit" using cache_okD(3) [OF assms] by auto
  fix i v e assume "i \<in> set xs" "unlink ids (tc_tokens st) i = Some (v, e)"
  then show "aj_userId v = u" using cache_okD(4) [OF assms u] by (auto simp: unlink_def split: if_splits)
qed

lemma cache_ok_remove:
  assumes "cache_ok limit maxttl now st"
  shows "cache_ok limit maxttl now (st\<lparr> tc_tokens := unlink ids (tc_tokens st), tc_index := srem now u ids (tc_index st) \<rparr>)"
  by (rule cache_ok_srem [OF assms], simp) (simp add: unlink_def split: if_splits)

lemma cache_ok_removeUser:
  assumes ok: "cache_ok limit maxttl now st"
  shows "cache_ok limit maxttl now (removeAccessTokensForUser_script now u st)"
proof (cases "smembers now (tc_index st) u = []")
  case False
  let ?ids = "smembers now (tc_index st) u"
  have "cache_ok limit maxttl now (st\<lparr> tc_tokens := unlink ?ids (tc_tokens st), tc_index := unlink [u] (tc_index st) \<rparr>)"
  proof (rule cache_okI, simp_all)
    fix i v e assume "unlink ?ids (tc_tokens st) i = Some (v, e)"
    then have t: "tc_tokens st i = Some (v, e)" "i \<notin> set ?ids" by (auto simp: unlink_def split: if_splits)
    then show "aj_tokenId v = i \<and> e \<le> now + maxttl" by (simp add: cache_okD(1) [OF ok])
    assume now: "now \<le> e"
    have "redis_get now (tc_tokens st) i = Some v" using t(1) now by (simp add: redis_get_Some)
    then have "aj_userId v \<noteq> u" using smembers_live [OF ok] t(2) by blast
    with cache_okD(2) [OF ok t(1) now]
    show "\<exists>xs ex. unlink [u] (tc_index st) (aj_userId v) = Some (xs, ex) \<and> i \<in> set xs \<and> e \<le> ex"
      by (simp add: unlink_def)
  next
    fix w xs ex assume "unlink [u] (tc_index st) w = Some (xs, ex)"
    then have w: "tc_index st w = Some (xs, ex)" by (auto simp: unlink_def split: if_splits)
    then show "distinct xs \<and> length xs \<le> Suc limit" using cache_okD(3) [OF ok] by auto
    fix i v e assume "i \<in> set xs" "unlink ?ids (tc_tokens st) i = Some (v, e)"
    then show "aj_userId v = w" using cache_okD(4) [OF ok w] by (auto simp: unlink_def split: if_splits)
  qed
  with False show ?thesis by (simp add: removeAccessTokensForUser_script_def Let_def)
qed (simp add: removeAccessTokensForUser_script_def ok)

section \<open>The contract\<close>

text \<open>What removing the elements of a user's set that pass a test does to a live token.\<close>

lemma get_swept:
  assumes ok: "cache_ok limit maxttl now st"
    and toDel: "toDel = filter (\<lambda>i. case redis_get now (tc_tokens st) i of Some t \<Rightarrow> p t | None \<Rightarrow> True)
      (smembers now (tc_index st) u)"
  shows "redis_get now (unlink toDel (tc_tokens st)) j =
     (case redis_get now (tc_tokens st) j of
        Some t \<Rightarrow> if aj_userId t = u \<and> p t then None else Some t | None \<Rightarrow> None)"
proof (cases "redis_get now (tc_tokens st) j")
  case (Some t)
  then have "j \<in> set toDel \<longleftrightarrow> aj_userId t = u \<and> p t" using smembers_iff [OF ok Some, of u] by (simp add: toDel)
  then show ?thesis using Some by simp
qed simp

lemma get_swept_Nil:
  assumes "cache_ok limit maxttl now st"
    and "filter (\<lambda>i. case redis_get now (tc_tokens st) i of Some t \<Rightarrow> p t | None \<Rightarrow> True)
      (smembers now (tc_index st) u) = []"
  shows "(case redis_get now (tc_tokens st) j of
        Some t \<Rightarrow> if aj_userId t = u \<and> p t then None else Some t | None \<Rightarrow> None) = redis_get now (tc_tokens st) j"
  using get_swept [OF assms(1) assms(2) [symmetric], of j] unfolding redis_get_unlink by simp

lemma get_user_swept:
  assumes ok: "cache_ok limit maxttl now st"
  shows "redis_get now (unlink (smembers now (tc_index st) u) (tc_tokens st)) j =
     (case redis_get now (tc_tokens st) j of Some t \<Rightarrow> if aj_userId t = u then None else Some t | None \<Rightarrow> None)"
proof (cases "redis_get now (tc_tokens st) j")
  case (Some t)
  then show ?thesis using smembers_iff [OF ok Some, of u] Some by simp
qed simp

definition listed_tokens :: "int \<Rightarrow> token_cache \<Rightarrow> string \<Rightarrow> access_json list" where
  "listed_tokens now st u = fst (getAccessTokens_script now u st)"

lemma set_map_filter: "set (List.map_filter f xs) = {y. \<exists>x \<in> set xs. f x = Some y}"
  by (induction xs) (auto simp: List.map_filter_def split: option.splits)

lemma map_filter_simps:
  "List.map_filter f [] = []"
  "List.map_filter f (x # xs) = (case f x of None \<Rightarrow> List.map_filter f xs | Some y \<Rightarrow> y # List.map_filter f xs)"
  by (simp_all add: List.map_filter_def split: option.split)

lemma set_listed_tokens:
  assumes ok: "cache_ok limit maxttl now st"
  shows "set (listed_tokens now st u) = {t. aj_userId t = u \<and> (\<exists>i. redis_get now (tc_tokens st) i = Some t)}"
proof -
  have "set (listed_tokens now st u) =
    {t. \<exists>i \<in> set (smembers now (tc_index st) u). redis_get now (tc_tokens st) i = Some t}"
    by (simp add: listed_tokens_def getAccessTokens_script_def Let_def set_map_filter)
  also have "\<dots> = {t. aj_userId t = u \<and> (\<exists>i. redis_get now (tc_tokens st) i = Some t)}"
    using smembers_iff [OF ok] by blast
  finally show ?thesis .
qed

lemma distinct_map_filter_ids:
  assumes "distinct ids" and "\<And>i t. f i = Some t \<Longrightarrow> idf t = i"
  shows "distinct (map idf (List.map_filter f ids)) \<and> idf ` set (List.map_filter f ids) \<subseteq> set ids"
  using assms by (induction ids) (auto simp: map_filter_simps split: option.split)

interpretation cache: token_store "cache_ok limit maxttl now" "\<lambda>st. redis_get now (tc_tokens st)" "listed_tokens now"
    "\<lambda>i st. snd (FxaRedis_removeAccessToken now i st)" "removeAccessTokensForUser_script now"
    "removeAccessTokensForUserAndClient_script now" "removeAccessTokensForPublicClients_script now"
    aj_tokenId aj_userId aj_clientId "\<lambda>t. aj_canGrant t \<or> aj_publicClient t" for limit maxttl now
proof (unfold_locales, goal_cases)
  case (1 st i j)
  then show ?case by (simp add: FxaRedis_removeAccessToken_def removeAccessToken_script_def)
next
  case (2 st u j)
  have "tc_tokens (removeAccessTokensForUser_script now u st) = unlink (smembers now (tc_index st) u) (tc_tokens st)"
    by (simp add: removeAccessTokensForUser_script_def Let_def unlink_def)
  then show ?case using get_user_swept [OF 2, of u j] by (simp only:)
next
  case (3 st u c j)
  then show ?case
    by (simp add: removeAccessTokensForUserAndClient_script_def Let_def get_swept [OF _ refl] get_swept_Nil
        del: redis_get_unlink)
next
  case (4 st u j)
  then show ?case
    by (simp add: removeAccessTokensForPublicClients_script_def Let_def get_swept [OF _ refl] get_swept_Nil
        del: redis_get_unlink)
next
  case (5 st i) then show ?case
    by (simp add: FxaRedis_removeAccessToken_def removeAccessToken_script_def cache_ok_unlink)
next
  case (6 st u) then show ?case by (rule cache_ok_removeUser)
next
  case (7 st u c) then show ?case
    by (simp add: removeAccessTokensForUserAndClient_script_def Let_def cache_ok_remove)
next
  case (8 st u) then show ?case
    by (simp add: removeAccessTokensForPublicClients_script_def Let_def cache_ok_remove)
next
  case (9 st i t) then show ?case by (rule get_tokenId)
next
  case (10 st u) then show ?case by (rule set_listed_tokens)
next
  case (11 st u) show ?case unfolding listed_tokens_def getAccessTokens_script_def Let_def fst_conv
    using distinct_map_filter_ids [where f = "redis_get now (tc_tokens st)" and idf = aj_tokenId]
      smembers_wf(1) [OF 11] get_tokenId [OF 11] by blast
qed

end
