(* ===== verification/Token_Cache_Steps.thy ===== *)
theory Token_Cache_Steps
  imports Token_Cache_Laws
begin

text \<open>
  The Redis cache as a state machine: tokens are stored, listed and removed in any order, time
  passes, and every state that can be reached satisfies the invariant.
\<close>

section \<open>Storing a token\<close>

text \<open>The id of a new token is a hash of fresh random bytes: it is not in use.\<close>

definition fresh_id :: "string \<Rightarrow> token_cache \<Rightarrow> bool" where
  "fresh_id i st \<longleftrightarrow> tc_tokens st i = None \<and> (\<forall>u xs ex. tc_index st u = Some (xs, ex) \<longrightarrow> i \<notin> set xs)"

lemma fresh_smembers: "fresh_id i st \<Longrightarrow> i \<notin> set (smembers now (tc_index st) u)"
  unfolding fresh_id_def by (metis smembers_Some)

lemma cache_ok_set:
  assumes ok: "cache_ok limit maxttl now st" and fresh: "fresh_id i st"
    and tok: "aj_tokenId t = i" "aj_userId t = u" "ttl \<le> maxttl"
    and m: "\<And>j x. m j = Some x \<Longrightarrow> tc_tokens st j = Some x"
    and ys: "distinct ys" "length ys \<le> limit + 1" "i \<in> set ys"
      "set ys \<subseteq> insert i (set (smembers now (tc_index st) u))"
      "\<And>j. j \<in> set (smembers now (tc_index st) u) \<Longrightarrow> redis_get now m j \<noteq> None \<Longrightarrow> j \<in> set ys"
  shows "cache_ok limit maxttl now
    (st\<lparr> tc_tokens := m(i := Some (t, now + ttl)), tc_index := (tc_index st)(u := Some (ys, now + maxttl)) \<rparr>)"
proof -
  define st' where "st' = st\<lparr> tc_tokens := m(i := Some (t, now + ttl)),
    tc_index := (tc_index st)(u := Some (ys, now + maxttl)) \<rparr>"
  have tokens: "tc_tokens st' = m(i := Some (t, now + ttl))"
    and index: "tc_index st' = (tc_index st)(u := Some (ys, now + maxttl))" by (simp_all add: st'_def)
  have "cache_ok limit maxttl now st'"
  proof (rule cache_okI)
    fix j v e assume a: "tc_tokens st' j = Some (v, e)"
    show b: "aj_tokenId v = j \<and> e \<le> now + maxttl"
    proof (cases "j = i")
      case False
      then have "tc_tokens st j = Some (v, e)" using a m by (simp add: tokens)
      then show ?thesis by (rule cache_okD(1) [OF ok])
    qed (use a tok in \<open>simp add: tokens\<close>)
    assume now: "now \<le> e"
    show "\<exists>xs ex. tc_index st' (aj_userId v) = Some (xs, ex) \<and> j \<in> set xs \<and> e \<le> ex"
    proof (cases "j = i")
      case True
      then show ?thesis using a tok ys(3) by (auto simp: tokens index)
    next
      case False
      then have mj: "m j = Some (v, e)" using a by (simp add: tokens)
      then have old: "tc_tokens st j = Some (v, e)" by (rule m)
      show ?thesis
      proof (cases "aj_userId v = u")
        case True
        have "redis_get now (tc_tokens st) j = Some v" using old now by (simp add: redis_get_Some)
        then have "j \<in> set (smembers now (tc_index st) u)" using smembers_live [OF ok] True by blast
        moreover have "redis_get now m j \<noteq> None" using mj now by (simp add: redis_get_def)
        ultimately have "j \<in> set ys" by (rule ys(5))
        then show ?thesis using True b by (simp add: index)
      qed (use cache_okD(2) [OF ok old now] in \<open>simp add: index\<close>)
    qed
  next
    fix w xs ex assume a: "tc_index st' w = Some (xs, ex)"
    then show "distinct xs \<and> length xs \<le> limit + 1"
      using ys(1,2) cache_okD(3) [OF ok] by (cases "w = u") (auto simp: index)
    fix j v e assume j: "j \<in> set xs" and v: "tc_tokens st' j = Some (v, e)"
    show "aj_userId v = w"
    proof (cases "j = i")
      case True
      have "w = u"
      proof (rule ccontr)
        assume "w \<noteq> u"
        then have "tc_index st w = Some (xs, ex)" using a by (simp add: index)
        then show False using fresh j True unfolding fresh_id_def by blast
      qed
      then show ?thesis using v True tok by (simp add: tokens)
    next
      case False
      then have old: "tc_tokens st j = Some (v, e)" using v m by (simp add: tokens)
      show ?thesis
      proof (cases "w = u")
        case True
        then have "j \<in> set (smembers now (tc_index st) u)" using a j ys(4) False by (auto simp: index)
        then show ?thesis using smembers_owner [OF ok _ old] True by blast
      next
        case False
        then have "tc_index st w = Some (xs, ex)" using a by (simp add: index)
        then show ?thesis using j old by (rule cache_okD(4) [OF ok])
      qed
    qed
  qed
  then show ?thesis by (simp add: st'_def)
qed

lemma length_set_add: "length (set_add x xs) \<le> length xs + 1"
  by (simp add: set_add_def)

lemma length_filter_minus:
  assumes "distinct xs" "distinct ys" "set ys \<subseteq> set xs"
  shows "length (filter (\<lambda>x. x \<notin> set ys) xs) + length ys = length xs"
proof -
  have "length (filter (\<lambda>x. x \<notin> set ys) xs) = card (set xs - set ys)"
    using assms(1) distinct_card [of "filter (\<lambda>x. x \<notin> set ys) xs"] by (simp add: set_diff_eq)
  also have "\<dots> = card (set xs) - card (set ys)" using assms(3) by (simp add: card_Diff_subset)
  finally show ?thesis using assms card_mono [OF _ assms(3)] by (simp add: distinct_card)
qed

text \<open>Taking all elements out and putting back those that pass a test, with a new one.\<close>

lemma refreshed_ids:
  assumes spop: "spop_ok spop" and ids: "distinct ids" "length ids \<le> limit"
    and ys: "ys = fold set_add (i # filter P (spop ids limit)) (filter (\<lambda>x. x \<notin> set (spop ids limit)) ids)"
  shows "distinct ys" and "set ys = insert i {j \<in> set ids. P j}" and "length ys \<le> limit + 1"
proof -
  have "distinct (spop ids limit) \<and> set (spop ids limit) \<subseteq> set ids \<and> length (spop ids limit) = length ids"
    using spop ids unfolding spop_ok_def by (metis min_absorb2)
  then have all: "set (spop ids limit) = set ids"
    using card_subset_eq [of "set ids" "set (spop ids limit)"] ids(1) by (auto simp: distinct_card)
  then have rest: "filter (\<lambda>x. x \<notin> set (spop ids limit)) ids = []" by simp
  show y: "distinct ys" "set ys = insert i {j \<in> set ids. P j}"
    unfolding ys rest using all by (auto simp: set_fold_set_add distinct_fold_set_add)
  have "length ys = card (insert i {j \<in> set ids. P j})" using y distinct_card by metis
  also have "\<dots> \<le> Suc (card {j \<in> set ids. P j})" by (simp add: card_insert_if)
  also have "card {j \<in> set ids. P j} \<le> card (set ids)" by (rule card_mono) auto
  finally show "length ys \<le> limit + 1" using ids by (simp add: distinct_card)
qed

text \<open>
  Storing keeps the invariant, makes the token live, and drops other tokens only of the same user
  and only if the user had more than the limit.
\<close>

lemma setAccessToken_script_ok:
  assumes ok: "cache_ok limit maxttl now st" and fresh: "fresh_id i st" and spop: "spop_ok spop"
    and tok: "aj_tokenId t = i" "aj_userId t = u" "ttl \<le> maxttl" "0 \<le> ttl"
    and st': "setAccessToken_script spop now u i t limit ttl maxttl st = Some st'"
  shows "cache_ok limit maxttl now st'"
    and "\<exists>D. set D \<subseteq> set (smembers now (tc_index st) u) \<and>
      (D \<noteq> [] \<longrightarrow> limit < length (smembers now (tc_index st) u)) \<and>
      (\<forall>j. redis_get now (tc_tokens st') j =
         (if j = i then Some t else redis_get now (unlink D (tc_tokens st)) j))"
proof -
  define ids where "ids = smembers now (tc_index st) u"
  have ids: "distinct ids" "length ids \<le> limit + 1" using smembers_wf [OF ok] by (simp_all add: ids_def)
  have new: "i \<notin> set ids" using fresh_smembers [OF fresh] by (simp add: ids_def)
  have popped: "distinct (spop ids n) \<and> set (spop ids n) \<subseteq> set ids \<and> length (spop ids n) = min n (length ids)" for n
    using spop ids(1) unfolding spop_ok_def by blast
  define toDel where "toDel = spop ids (limit div 2)"
  define all where "all = spop ids limit"
  define live where "live = filter (\<lambda>i. redis_get now (tc_tokens st) i \<noteq> None) all"
  consider (full) "limit < length ids" "toDel \<noteq> []"
      "st' = st\<lparr> tc_tokens := (unlink toDel (tc_tokens st))(i := Some (t, now + ttl)),
         tc_index := (tc_index st)(u := Some (set_add i (filter (\<lambda>x. x \<notin> set toDel) ids), now + maxttl)) \<rparr>"
    | (clean) "length ids \<le> limit"
      "st' = st\<lparr> tc_tokens := (tc_tokens st)(i := Some (t, now + ttl)),
         tc_index := (tc_index st)(u := Some (fold set_add (i # live) (filter (\<lambda>x. x \<notin> set all) ids), now + maxttl)) \<rparr>"
    | (plain) "length ids \<le> limit"
      "st' = st\<lparr> tc_tokens := (tc_tokens st)(i := Some (t, now + ttl)),
         tc_index := (tc_index st)(u := Some (set_add i ids, now + maxttl)) \<rparr>"
    using st' by (auto simp: setAccessToken_script_def Let_def ids_def [symmetric] toDel_def [symmetric]
        all_def [symmetric] live_def [symmetric] simp del: not_None_eq split: if_splits)
  note cases = this
  have self: "redis_get now (m(i := Some (t, now + ttl))) j = (if j = i then Some t else redis_get now m j)" for m j
    using tok(4) by (simp add: redis_get_def)
  show "cache_ok limit maxttl now st'"
  proof (cases rule: cases)
    case full
    have "length (filter (\<lambda>x. x \<notin> set toDel) ids) + length toDel = length ids"
      using length_filter_minus [OF ids(1)] popped toDel_def by blast
    then have len: "length (set_add i (filter (\<lambda>x. x \<notin> set toDel) ids)) \<le> limit + 1"
      using ids(2) full(2) length_set_add [of i "filter (\<lambda>x. x \<notin> set toDel) ids"] by (cases toDel) auto
    show ?thesis unfolding full(3)
      by (rule cache_ok_set [OF ok fresh tok(1,2,3)])
        (use ids len in \<open>auto simp: unlink_def redis_get_def ids_def [symmetric] split: if_splits\<close>)
  next
    case clean
    define ys where "ys = fold set_add (i # live) (filter (\<lambda>x. x \<notin> set all) ids)"
    have y: "distinct ys" "set ys = insert i {j \<in> set ids. redis_get now (tc_tokens st) j \<noteq> None}" "length ys \<le> limit + 1"
      using refreshed_ids [OF spop ids(1) clean(1), of ys i "\<lambda>j. redis_get now (tc_tokens st) j \<noteq> None"]
      by (simp_all only: ys_def live_def all_def)
    show ?thesis unfolding clean(2) ys_def [symmetric]
      by (rule cache_ok_set [OF ok fresh tok(1,2,3)]) (use y in \<open>auto simp: ids_def [symmetric]\<close>)
  next
    case plain
    have len: "length (set_add i ids) \<le> limit + 1" using plain(1) length_set_add [of i ids] by linarith
    show ?thesis unfolding plain(2)
      by (rule cache_ok_set [OF ok fresh tok(1,2,3)]) (use ids len in \<open>auto simp: ids_def [symmetric]\<close>)
  qed
  show "\<exists>D. set D \<subseteq> set (smembers now (tc_index st) u) \<and>
      (D \<noteq> [] \<longrightarrow> limit < length (smembers now (tc_index st) u)) \<and>
      (\<forall>j. redis_get now (tc_tokens st') j =
         (if j = i then Some t else redis_get now (unlink D (tc_tokens st)) j))"
  proof (cases rule: cases)
    case full
    then show ?thesis using popped [of "limit div 2"]
      by (intro exI [of _ toDel]) (simp add: self ids_def [symmetric] toDel_def [symmetric])
  next
    case clean
    then show ?thesis by (intro exI [of _ "[]"]) (simp add: self)
  next
    case plain
    then show ?thesis by (intro exI [of _ "[]"]) (simp add: self)
  qed
qed

section \<open>Metadata of refresh tokens\<close>

definition meta_ok :: "nat \<Rightarrow> token_cache \<Rightarrow> bool" where
  "meta_ok limit st \<longleftrightarrow>
     (\<forall>u h e. tc_refresh st u = Some (h, e) \<longrightarrow> distinct (map fst h) \<and> length h \<le> max 2 limit)"

lemma hgetall_ok: "meta_ok limit st \<Longrightarrow> distinct (map fst (hgetall now u st)) \<and> length (hgetall now u st) \<le> max 2 limit"
  by (auto simp: meta_ok_def hgetall_def redis_get_def split: option.split)

lemma distinct_filter_keys: "distinct (map fst h) \<Longrightarrow> distinct (map fst (filter p h))"
  by (induction h) auto

lemma length_update: "length (AList.update k v h) \<le> length h + 1"
  by (induction h) auto

lemma meta_ok_set:
  assumes ok: "meta_ok limit st"
  shows "meta_ok limit (setRefreshToken_script now u i used limit span st)"
proof -
  define tokens where "tokens = hgetall now u st"
  define fresh where "fresh = filter (\<lambda>(i, t). \<not> used - t > span) tokens"
  define left where "left = (if 2 \<le> length tokens then if limit \<le> length fresh then [] else fresh else tokens)"
  have "distinct (map fst tokens)" using hgetall_ok [OF ok] by (simp add: tokens_def)
  then have "distinct (map fst left)" by (simp add: left_def fresh_def distinct_filter_keys)
  then have "distinct (map fst (AList.update i used left))" by (rule distinct_update)
  moreover have "length left + 1 \<le> max 2 limit" by (auto simp: left_def)
  then have "length (AList.update i used left) \<le> max 2 limit" using length_update [of i used left] by linarith
  ultimately have u: "distinct (map fst (AList.update i used left)) \<and> length (AList.update i used left) \<le> max 2 limit"
    by blast
  have st': "tc_refresh (setRefreshToken_script now u i used limit span st) =
    (tc_refresh st)(u := Some (AList.update i used left, now + span))"
    by (simp add: setRefreshToken_script_def Let_def tokens_def fresh_def left_def)
  show ?thesis unfolding meta_ok_def st'
  proof (intro allI impI)
    fix w h e assume "((tc_refresh st)(u := Some (AList.update i used left, now + span))) w = Some (h, e)"
    then show "distinct (map fst h) \<and> length h \<le> max 2 limit"
      using u ok unfolding meta_ok_def by (cases "w = u") auto
  qed
qed

lemma meta_ok_hdel:
  assumes ok: "meta_ok limit st"
  shows "meta_ok limit (hdel now u ids st)"
  unfolding meta_ok_def
proof (intro allI impI)
  fix w h e assume h: "tc_refresh (hdel now u ids st) w = Some (h, e)"
  define p where "p = (if w = u then (\<lambda>(i, t :: int). i \<notin> set ids) else (\<lambda>_. True))"
  obtain g where "tc_refresh st w = Some (g, e)" and hg: "h = filter p g"
    using h by (cases "w = u") (auto simp: hdel_def Let_def p_def split: option.splits if_splits)
  then have "distinct (map fst g)" "length g \<le> max 2 limit" using ok unfolding meta_ok_def by blast+
  then show "distinct (map fst h) \<and> length h \<le> max 2 limit"
    unfolding hg by (simp add: distinct_filter_keys le_trans [OF length_filter_le])
qed

lemma meta_ok_empty [simp]: "meta_ok limit cache_empty"
  by (simp add: meta_ok_def cache_empty_def)

lemma meta_ok_forgetUser:
  assumes "meta_ok limit st"
  shows "meta_ok limit (FxaRedis_removeRefreshTokensForUser u st)"
proof -
  have "tc_refresh (FxaRedis_removeRefreshTokensForUser u st) w = Some x \<Longrightarrow> tc_refresh st w = Some x" for w x
    by (simp add: FxaRedis_removeRefreshTokensForUser_def unlink_def split: if_splits)
  with assms show ?thesis unfolding meta_ok_def by blast
qed

section \<open>Reachable states\<close>

inductive cache_reached :: "nat \<Rightarrow> int \<Rightarrow> nat \<Rightarrow> int \<Rightarrow> int \<Rightarrow> token_cache \<Rightarrow> bool"
  for limit maxttl rlimit rttl where
  start: "cache_reached limit maxttl rlimit rttl now cache_empty"
| wait: "cache_reached limit maxttl rlimit rttl now st \<Longrightarrow> now \<le> now' \<Longrightarrow> cache_reached limit maxttl rlimit rttl now' st"
| store: "cache_reached limit maxttl rlimit rttl now st \<Longrightarrow> spop_ok spop \<Longrightarrow> AccessToken_ttl now t \<le> maxttl \<Longrightarrow>
    fresh_id (at_tokenId t) st \<Longrightarrow> FxaRedis_setAccessToken spop limit maxttl now t st = Some st' \<Longrightarrow>
    cache_reached limit maxttl rlimit rttl now st'"
| list: "cache_reached limit maxttl rlimit rttl now st \<Longrightarrow>
    cache_reached limit maxttl rlimit rttl now (snd (getAccessTokens_script now u st))"
| remove: "cache_reached limit maxttl rlimit rttl now st \<Longrightarrow>
    cache_reached limit maxttl rlimit rttl now (snd (FxaRedis_removeAccessToken now i st))"
| removeUser: "cache_reached limit maxttl rlimit rttl now st \<Longrightarrow>
    cache_reached limit maxttl rlimit rttl now (removeAccessTokensForUser_script now u st)"
| removeClient: "cache_reached limit maxttl rlimit rttl now st \<Longrightarrow>
    cache_reached limit maxttl rlimit rttl now (removeAccessTokensForUserAndClient_script now u c st)"
| removePublic: "cache_reached limit maxttl rlimit rttl now st \<Longrightarrow>
    cache_reached limit maxttl rlimit rttl now (removeAccessTokensForPublicClients_script now u st)"
| touch: "cache_reached limit maxttl rlimit rttl now st \<Longrightarrow>
    cache_reached limit maxttl rlimit rttl now (setRefreshToken_script now u i now rlimit rttl st)"
| forget: "cache_reached limit maxttl rlimit rttl now st \<Longrightarrow>
    cache_reached limit maxttl rlimit rttl now (hdel now u ids st)"
| forgetUser: "cache_reached limit maxttl rlimit rttl now st \<Longrightarrow>
    cache_reached limit maxttl rlimit rttl now (FxaRedis_removeRefreshTokensForUser u st)"

lemma cache_ok_cong:
  "tc_tokens st' = tc_tokens st \<Longrightarrow> tc_index st' = tc_index st \<Longrightarrow>
   cache_ok limit maxttl now st' = cache_ok limit maxttl now st"
  by (simp add: cache_ok_def)

lemma meta_ok_cong: "tc_refresh st' = tc_refresh st \<Longrightarrow> meta_ok limit st' = meta_ok limit st"
  by (simp add: meta_ok_def)

lemma scripts_tokens [simp]:
  "tc_tokens (setRefreshToken_script now u i used rlimit rttl st) = tc_tokens st"
  "tc_index (setRefreshToken_script now u i used rlimit rttl st) = tc_index st"
  "tc_tokens (hdel now u ids st) = tc_tokens st" "tc_index (hdel now u ids st) = tc_index st"
  "tc_tokens (FxaRedis_removeRefreshTokensForUser u st) = tc_tokens st"
  "tc_index (FxaRedis_removeRefreshTokensForUser u st) = tc_index st"
  by (simp_all add: setRefreshToken_script_def hdel_def FxaRedis_removeRefreshTokensForUser_def Let_def
      split: option.split)

lemma scripts_refresh [simp]:
  "tc_refresh (snd (getAccessTokens_script now u st)) = tc_refresh st"
  "tc_refresh (snd (FxaRedis_removeAccessToken now i st)) = tc_refresh st"
  "tc_refresh (removeAccessTokensForUser_script now u st) = tc_refresh st"
  "tc_refresh (removeAccessTokensForUserAndClient_script now u c st) = tc_refresh st"
  "tc_refresh (removeAccessTokensForPublicClients_script now u st) = tc_refresh st"
  by (simp_all add: cache_defs FxaRedis_removeAccessToken_def)

lemma setAccessToken_refresh:
  "setAccessToken_script spop now u i t limit ttl maxttl st = Some st' \<Longrightarrow> tc_refresh st' = tc_refresh st"
  by (auto simp: setAccessToken_script_def Let_def split: if_splits)

lemma cache_ok_list:
  assumes "cache_ok limit maxttl now st"
  shows "cache_ok limit maxttl now (snd (getAccessTokens_script now u st))"
proof -
  let ?D = "filter (\<lambda>i. redis_get now (tc_tokens st) i = None) (smembers now (tc_index st) u)"
  have "cache_ok limit maxttl now (st\<lparr> tc_tokens := tc_tokens st, tc_index := srem now u ?D (tc_index st) \<rparr>)"
    by (rule cache_ok_srem [OF assms]) auto
  with assms show ?thesis by (simp add: getAccessTokens_script_def Let_def)
qed

lemma FxaRedis_setAccessToken_ok:
  assumes "cache_ok limit maxttl now st" "spop_ok spop" "AccessToken_ttl now t \<le> maxttl"
    "fresh_id (at_tokenId t) st" "FxaRedis_setAccessToken spop limit maxttl now t st = Some st'"
  shows "cache_ok limit maxttl now st' \<and> tc_refresh st' = tc_refresh st"
proof (cases "AccessToken_ttl now t < 1")
  case False
  then have s: "setAccessToken_script spop now (at_userId t) (at_tokenId t) (AccessToken_toJSON t) limit
      (AccessToken_ttl now t) maxttl st = Some st'"
    using assms(5) by (simp add: FxaRedis_setAccessToken_def)
  have j: "aj_tokenId (AccessToken_toJSON t) = at_tokenId t" "aj_userId (AccessToken_toJSON t) = at_userId t"
    by (simp_all add: AccessToken_toJSON_def)
  show ?thesis using setAccessToken_script_ok(1) [OF assms(1,4,2) j assms(3) _ s] setAccessToken_refresh [OF s] False
    by simp
qed (use assms in \<open>simp add: FxaRedis_setAccessToken_def\<close>)

lemma cache_reached_ok:
  "cache_reached limit maxttl rlimit rttl now st \<Longrightarrow> cache_ok limit maxttl now st \<and> meta_ok rlimit st"
proof (induction rule: cache_reached.induct)
  case (start now)
  then show ?case by simp
next
  case (store now st spop t st')
  then have "cache_ok limit maxttl now st' \<and> tc_refresh st' = tc_refresh st" using FxaRedis_setAccessToken_ok by blast
  with store.IH meta_ok_cong show ?case by blast
next
  case (touch now st u i)
  then show ?case by (simp add: meta_ok_set cache_ok_cong [OF scripts_tokens(1,2)])
next
  case (forget now st u ids)
  then show ?case by (simp add: meta_ok_hdel cache_ok_cong [OF scripts_tokens(3,4)])
next
  case (forgetUser now st u)
  then show ?case by (simp add: meta_ok_forgetUser cache_ok_cong [OF scripts_tokens(5,6)])
next
  case (wait now st now') then show ?case using cache_ok_later by blast
next
  case (list now st u) then show ?case by (simp add: cache_ok_list meta_ok_cong [OF scripts_refresh(1)])
next
  case (remove now st i) then show ?case by (simp add: cache.ok_remove meta_ok_cong [OF scripts_refresh(2)])
next
  case (removeUser now st u) then show ?case by (simp add: cache.ok_removeUser meta_ok_cong [OF scripts_refresh(3)])
next
  case (removeClient now st u c) then show ?case by (simp add: cache.ok_removeClient meta_ok_cong [OF scripts_refresh(4)])
next
  case (removePublic now st u) then show ?case by (simp add: cache.ok_removePublic meta_ok_cong [OF scripts_refresh(5)])
qed

text \<open>
  C13: however tokens are stored, listed and removed, the scripts list exactly the live access
  tokens of a user, each once and at most one more than the limit; and the hash with the metadata
  of refresh tokens stays within its limit (or 2).
\<close>

theorem live_tokens_listed:
  assumes "cache_reached limit maxttl rlimit rttl now st"
  shows "set (fst (getAccessTokens_script now u st)) =
      {t. aj_userId t = u \<and> (\<exists>i. getAccessToken_script now i st = Some t)} \<and>
    distinct (map aj_tokenId (fst (getAccessTokens_script now u st))) \<and>
    length (fst (getAccessTokens_script now u st)) \<le> limit + 1 \<and>
    length (hgetall now u st) \<le> max 2 rlimit"
proof -
  have ok: "cache_ok limit maxttl now st" "meta_ok rlimit st" using cache_reached_ok [OF assms] by simp_all
  have "length (fst (getAccessTokens_script now u st)) \<le> length (smembers now (tc_index st) u)"
    by (simp add: getAccessTokens_script_def Let_def List.map_filter_def)
  then show ?thesis
    using cache.set_listed [OF ok(1), of u] cache.distinct_listed [OF ok(1), of u] smembers_wf(2) [OF ok(1), of u]
      hgetall_ok [OF ok(2), of now u]
    by (simp add: listed_tokens_def getAccessToken_script_def)
qed

definition example_token :: access_token where
  "example_token =
     \<lparr> at_tokenId = ''a1'', at_clientId = ''c1'', at_name = Some ''RP'', at_canGrant = False, at_publicClient = False,
       at_userId = ''u1'', at_scope = empty_set, at_createdAt = 0, at_profileChangedAt = 0,
       at_expiresAt = 1000, at_token = None, at_type = ''bearer'' \<rparr>"

definition example_cache :: token_cache where
  "example_cache =
     cache_empty\<lparr> tc_tokens := [''a1'' \<mapsto> (AccessToken_toJSON example_token, 1000)],
                  tc_index := [''u1'' \<mapsto> ([''a1''], 5000)] \<rparr>"

lemma spop_ok_take: "spop_ok (\<lambda>xs n. take n xs)"
  by (auto simp: spop_ok_def min.commute dest: in_set_takeD)

lemma example_cache_reached: "cache_reached 100 5000 20 300 0 example_cache"
proof (rule cache_reached.store)
  show "cache_reached 100 5000 20 300 0 cache_empty" by (rule cache_reached.start)
  show "spop_ok (\<lambda>xs n. take n xs)" by (rule spop_ok_take)
  show "AccessToken_ttl 0 example_token \<le> 5000" by (simp add: AccessToken_ttl_def example_token_def)
  show "fresh_id (at_tokenId example_token) cache_empty" by (simp add: fresh_id_def cache_empty_def)
  show "FxaRedis_setAccessToken (\<lambda>xs n. take n xs) 100 5000 0 example_token cache_empty = Some example_cache"
    by (simp add: FxaRedis_setAccessToken_def setAccessToken_script_def AccessToken_ttl_def example_token_def
        example_cache_def cache_empty_def smembers_def redis_get_def set_add_def)
qed

theorem live_tokens_listed_witness:
  "set (fst (getAccessTokens_script 0 ''u1'' example_cache)) =
      {t. aj_userId t = ''u1'' \<and> (\<exists>i. getAccessToken_script 0 i example_cache = Some t)} \<and>
   length (fst (getAccessTokens_script 0 ''u1'' example_cache)) \<le> 101 \<and>
   fst (getAccessTokens_script 0 ''u1'' example_cache) = [AccessToken_toJSON example_token]"
  using live_tokens_listed [OF example_cache_reached, of "''u1''"]
  by (simp add: getAccessTokens_script_def example_cache_def cache_empty_def smembers_def redis_get_def
      List.map_filter_def)

end
