(* ===== verification/OAuth_DB.thy ===== *)
theory OAuth_DB
  imports OAuth_Mysql Token_Cache_Steps
begin

text \<open>
  The database of the OAuth server: \<open>OauthDB\<close> in \<open>lib/oauth/db/index.js\<close> of the auth server, which
  keeps access tokens in Redis, those of Pocket in MySQL, and the rest in MySQL with metadata of
  refresh tokens in Redis. The configuration and the functions from outside (SHA-256 of a decoded
  hexadecimal string and of a text, the host parser of URLs, \<open>SPOP\<close>) are in a record. Operations
  run one after another.
\<close>

section \<open>State and configuration\<close>

record oauth_env =
  hostParser :: "string \<Rightarrow> string option"
  sha256 :: "string \<Rightarrow> string"
  sha256_text :: "string \<Rightarrow> string"
  spop_choice :: "string list \<Rightarrow> nat \<Rightarrow> string list"
  jwtAccessTokens_enabled :: bool
  jwtAccessTokens_enabledClientIds :: "string list"
  refreshToken_updateAfter :: int
  clientIdToServiceNames :: "(string \<times> string) list"
  expiration_accessToken :: int
  expiration_code :: int
  accessTokenExpiryEpoch :: int
  accessTokens_recordLimit :: nat
  refreshTokens_recordLimit :: nat
  refreshTokens_maxttl :: int
  disabledClients :: "string list"
  unique_id :: nat
  unique_clientSecret :: nat

record oauth_db =
  db_mysql :: mysql_store
  db_redis :: token_cache

datatype oauth_error =
    UnknownClient string
  | IncorrectSecret string
  | IncorrectRedirect string
  | InvalidAssertion
  | UnknownCode string
  | MismatchCode string string
  | ExpiredCode string int
  | InvalidToken
  | InvalidRequestParameter
  | InvalidResponseType
  | InvalidScopes "string list"
  | ExpiredToken int
  | NotPublicClient string
  | MismatchCodeChallenge "string option"
  | MissingPkceParameters
  | StaleAuthAt int
  | MismatchAcr int
  | InvalidGrantType
  | DisabledClient string
  | ScopeFailure scope_error
  | MysqlFailure mysql_error
  | RedisFailure
  | CryptoFailure

definition SHORT_ACCESS_TOKEN_TTL_IN_MS :: int where
  "SHORT_ACCESS_TOKEN_TTL_IN_MS = 1000 * 60 * 60 * 6"

definition getPocketIds :: "(string \<times> string) list \<Rightarrow> string list" where
  "getPocketIds idNameMap = map fst (filter (\<lambda>(_, name). take 6 name = ''pocket'') idNameMap)"

abbreviation POCKET_IDS :: "oauth_env \<Rightarrow> string list" where
  "POCKET_IDS E \<equiv> getPocketIds (clientIdToServiceNames E)"

definition scope_result :: "scope_error + 'a \<Rightarrow> oauth_error + 'a" where
  "scope_result r = (case r of Inl e \<Rightarrow> Inl (ScopeFailure e) | Inr x \<Rightarrow> Inr x)"

section \<open>Access tokens\<close>

text \<open>
  The members of a \<open>Set\<close>: strings, and objects with their identity. \<open>Set.has\<close> compares strings by their
  characters and objects by their identity.
\<close>

datatype set_member = StringMember string | ObjectMember nat

fun sameValueZero :: "set_member \<Rightarrow> set_member \<Rightarrow> bool" where
  "sameValueZero (StringMember s) (StringMember t) = (s = t)"
| "sameValueZero (ObjectMember i) (ObjectMember j) = (i = j)"
| "sameValueZero _ _ = False"

definition set_has :: "set_member list \<Rightarrow> set_member \<Rightarrow> bool" where
  "set_has ms x = list_ex (sameValueZero x) ms"

text \<open>
  \<open>JWT_ACCESS_TOKENS_CLIENT_IDS\<close> is a \<open>Set\<close> of strings, and \<open>vals.clientId\<close> a \<open>Buffer\<close>, which is an object.
  Which object it is makes no difference to a set of strings.
\<close>

definition set_has_buffer :: "string list \<Rightarrow> string \<Rightarrow> bool" where
  "set_has_buffer strings buffer = set_has (map StringMember strings) (ObjectMember 0)"

definition generateAccessToken ::
    "oauth_env \<Rightarrow> int \<Rightarrow> string \<Rightarrow> grant \<Rightarrow> oauth_db \<Rightarrow> oauth_error + access_token \<times> oauth_db" where
  "generateAccessToken E now random vals db =
     (let token = AccessToken_generate (sha256 E) (expiration_accessToken E) now random (g_clientId vals)
                    (Some (g_name vals)) (g_canGrant vals) (g_publicClient vals) (g_userId vals) (g_scope vals)
                    (g_profileChangedAt vals) 0 (g_ttl vals)
      in if jwtAccessTokens_enabled E \<and>
            set_has_buffer (jwtAccessTokens_enabledClientIds E) (g_clientId vals) \<and>
            AccessToken_ttl now token \<le> SHORT_ACCESS_TOKEN_TTL_IN_MS then Inr (token, db)
         else if g_clientId vals \<in> set (POCKET_IDS E) then
           (case generateAccessToken_mysql now token (db_mysql db) of
              Inl e \<Rightarrow> Inl (MysqlFailure e)
            | Inr m \<Rightarrow> Inr (token, db\<lparr> db_mysql := m \<rparr>))
         else
           (case FxaRedis_setAccessToken (spop_choice E) (accessTokens_recordLimit E)
                   (expiration_accessToken E) now token (db_redis db) of
              None \<Rightarrow> Inl RedisFailure
            | Some r \<Rightarrow> Inr (token, db\<lparr> db_redis := r \<rparr>)))"

definition getAccessToken :: "oauth_env \<Rightarrow> int \<Rightarrow> string \<Rightarrow> oauth_db \<Rightarrow> oauth_error + access_token option" where
  "getAccessToken E now tokenId db =
     (case RedisShared_getAccessToken (hostParser E) now tokenId (db_redis db) of
        Some t \<Rightarrow> Inr (Some t)
      | None \<Rightarrow> scope_result (getAccessToken_mysql (hostParser E) tokenId (db_mysql db)))"

definition removeAccessToken :: "int \<Rightarrow> access_token \<Rightarrow> oauth_db \<Rightarrow> oauth_db" where
  "removeAccessToken now token db =
     (case FxaRedis_removeAccessToken now (at_tokenId token) (db_redis db) of
        (done', r) \<Rightarrow>
          if done' then db\<lparr> db_redis := r \<rparr>
          else db\<lparr> db_redis := r, db_mysql := removeAccessToken_mysql (at_tokenId token) (db_mysql db) \<rparr>)"

definition getAccessTokensByUid ::
    "oauth_env \<Rightarrow> int \<Rightarrow> string \<Rightarrow> oauth_db \<Rightarrow> oauth_error + access_token list \<times> oauth_db" where
  "getAccessTokensByUid E now uid db =
     (case RedisShared_getAccessTokens (hostParser E) now uid (db_redis db) of
        (tokens, r) \<Rightarrow>
          (case getAccessTokensByUid_mysql (hostParser E) uid (db_mysql db) of
             Inl e \<Rightarrow> Inl (ScopeFailure e)
           | Inr otherTokens \<Rightarrow> Inr (tokens @ otherTokens, db\<lparr> db_redis := r \<rparr>)))"

section \<open>Refresh tokens\<close>

definition getRefreshToken ::
    "oauth_env \<Rightarrow> int \<Rightarrow> string \<Rightarrow> oauth_db \<Rightarrow> oauth_error + refresh_token option \<times> oauth_db" where
  "getRefreshToken E now tokenId db =
     (case getRefreshToken_mysql (hostParser E) tokenId (db_mysql db) of
        Inl e \<Rightarrow> Inl (ScopeFailure e)
      | Inr None \<Rightarrow> Inr (None, db)
      | Inr (Some t) \<Rightarrow>
          let r = setRefreshToken_script now (rt_userId t) tokenId now (refreshTokens_recordLimit E)
                    (refreshTokens_maxttl E) (db_redis db);
              m = (if now - rt_lastUsedAt t > refreshToken_updateAfter E
                   then touchRefreshToken_mysql (rt_tokenId t) now (db_mysql db) else db_mysql db)
          in Inr (Some (t\<lparr> rt_lastUsedAt := now \<rparr>), db\<lparr> db_mysql := m, db_redis := r \<rparr>))"

text \<open>The ids left in the metadata belong to tokens that are gone: they are pruned.\<close>

definition getRefreshTokensByUid ::
    "oauth_env \<Rightarrow> int \<Rightarrow> string \<Rightarrow> oauth_db \<Rightarrow> oauth_error + refresh_token list \<times> oauth_db" where
  "getRefreshTokensByUid E now uid db =
     (case getRefreshTokensByUid_mysql (hostParser E) uid (db_mysql db) of
        Inl e \<Rightarrow> Inl (ScopeFailure e)
      | Inr tokens \<Rightarrow>
          let extraMetadata = hgetall now uid (db_redis db);
              merged = map (\<lambda>t. case map_of extraMetadata (rt_tokenId t) of
                                  Some used \<Rightarrow> t\<lparr> rt_lastUsedAt := used \<rparr> | None \<Rightarrow> t) tokens;
              toDel = filter (\<lambda>i. i \<notin> rt_tokenId ` set tokens) (map fst extraMetadata)
          in Inr (merged,
                  if toDel = [] then db
                  else db\<lparr> db_redis := RedisShared_pruneRefreshTokens now uid toDel (db_redis db) \<rparr>))"

definition removeRefreshToken :: "int \<Rightarrow> refresh_token \<Rightarrow> oauth_db \<Rightarrow> oauth_db" where
  "removeRefreshToken now token db =
     db\<lparr> db_redis := FxaRedis_removeRefreshToken now (rt_userId token) (rt_tokenId token) (db_redis db),
         db_mysql := removeRefreshToken_mysql (rt_tokenId token) (db_mysql db) \<rparr>"

section \<open>Bulk removal\<close>

definition removePublicAndCanGrantTokens :: "int \<Rightarrow> string \<Rightarrow> oauth_db \<Rightarrow> oauth_db" where
  "removePublicAndCanGrantTokens now userId db =
     db\<lparr> db_redis := removeAccessTokensForPublicClients_script now userId (db_redis db),
         db_mysql := removePublicAndCanGrantTokens_mysql userId (db_mysql db) \<rparr>"

definition deleteClientAuthorization :: "int \<Rightarrow> string \<Rightarrow> string \<Rightarrow> oauth_db \<Rightarrow> oauth_db" where
  "deleteClientAuthorization now clientId uid db =
     db\<lparr> db_redis := removeAccessTokensForUserAndClient_script now uid clientId (db_redis db),
         db_mysql := deleteClientAuthorization_mysql clientId uid (db_mysql db) \<rparr>"

definition deleteClientRefreshToken ::
    "int \<Rightarrow> string \<Rightarrow> string \<Rightarrow> string \<Rightarrow> oauth_db \<Rightarrow> bool \<times> oauth_db" where
  "deleteClientRefreshToken now refreshTokenId clientId uid db =
     (case deleteClientRefreshToken_mysql refreshTokenId clientId uid (db_mysql db) of
        (ok, m) \<Rightarrow>
          if ok then
            (True, db\<lparr> db_mysql := m,
                       db_redis := removeAccessTokensForUserAndClient_script now uid clientId
                         (FxaRedis_removeRefreshToken now uid refreshTokenId (db_redis db)) \<rparr>)
          else (False, db\<lparr> db_mysql := m \<rparr>))"

definition removeUser :: "int \<Rightarrow> string \<Rightarrow> oauth_db \<Rightarrow> oauth_db" where
  "removeUser now uid db =
     db\<lparr> db_redis := FxaRedis_removeRefreshTokensForUser uid
                      (removeAccessTokensForUser_script now uid (db_redis db)),
         db_mysql := removeUser_mysql uid (db_mysql db) \<rparr>"

section \<open>The invariant\<close>

definition db_ok :: "oauth_env \<Rightarrow> int \<Rightarrow> oauth_db \<Rightarrow> bool" where
  "db_ok E now db \<longleftrightarrow>
     cache_ok (accessTokens_recordLimit E) (expiration_accessToken E) now (db_redis db) \<and>
     meta_ok (refreshTokens_recordLimit E) (db_redis db) \<and>
     tokens_ok (db_mysql db) \<and> distinct (map rr_token (my_refreshTokens (db_mysql db))) \<and>
     distinct (map cr_code (my_codes (db_mysql db)))"

definition empty_db :: oauth_db where
  "empty_db =
     \<lparr> db_mysql = \<lparr> my_clients = [], my_codes = [], my_tokens = [], my_refreshTokens = [], my_scopes = [] \<rparr>,
       db_redis = cache_empty \<rparr>"

lemma db_ok_empty [simp]: "db_ok E now empty_db"
  by (simp add: db_ok_def empty_db_def)

lemma db_ok_later: "db_ok E now db \<Longrightarrow> now \<le> now' \<Longrightarrow> db_ok E now' db"
  unfolding db_ok_def using cache_ok_later by blast

lemma db_okD:
  assumes "db_ok E now db"
  shows "cache_ok (accessTokens_recordLimit E) (expiration_accessToken E) now (db_redis db)"
    and "tokens_ok (db_mysql db)"
  using assms by (simp_all add: db_ok_def)

lemmas bulk_mysql_defs = removePublicAndCanGrantTokens_mysql_def deleteClientAuthorization_mysql_def
  removeUser_mysql_def removeAccessToken_mysql_def removeRefreshToken_mysql_def

lemma db_ok_removePublic: "db_ok E now db \<Longrightarrow> db_ok E now (removePublicAndCanGrantTokens now u db)"
  by (simp add: db_ok_def removePublicAndCanGrantTokens_def cache.ok_removePublic meta_ok_cong [OF scripts_refresh(5)]
      bulk_mysql_defs distinct_map_filter_key)

lemma db_ok_deleteClient: "db_ok E now db \<Longrightarrow> db_ok E now (deleteClientAuthorization now c u db)"
  by (simp add: db_ok_def deleteClientAuthorization_def cache.ok_removeClient meta_ok_cong [OF scripts_refresh(4)]
      bulk_mysql_defs distinct_map_filter_key)

lemma db_ok_removeUser: "db_ok E now db \<Longrightarrow> db_ok E now (removeUser now u db)"
  by (simp add: db_ok_def removeUser_def cache_ok_cong [OF scripts_tokens(5,6)] cache.ok_removeUser
      meta_ok_forgetUser meta_ok_cong [OF scripts_refresh(3)] bulk_mysql_defs distinct_map_filter_key)

lemma db_ok_removeAccessToken:
  assumes ok: "db_ok E now db"
  shows "db_ok E now (removeAccessToken now t db)"
proof -
  obtain d r where r: "FxaRedis_removeAccessToken now (at_tokenId t) (db_redis db) = (d, r)" by force
  have "cache_ok (accessTokens_recordLimit E) (expiration_accessToken E) now r"
    using cache.ok_remove [OF db_okD(1) [OF ok], of "at_tokenId t"] r by simp
  moreover have "tc_refresh r = tc_refresh (db_redis db)"
    using scripts_refresh(2) [of now "at_tokenId t" "db_redis db"] r by simp
  then have "meta_ok (refreshTokens_recordLimit E) r" using meta_ok_cong ok unfolding db_ok_def by blast
  ultimately show ?thesis using ok
    by (simp add: r db_ok_def removeAccessToken_def bulk_mysql_defs distinct_map_filter_key)
qed

lemma db_ok_removeRefreshToken: "db_ok E now db \<Longrightarrow> db_ok E now (removeRefreshToken now t db)"
  by (simp add: db_ok_def removeRefreshToken_def FxaRedis_removeRefreshToken_def meta_ok_hdel
      cache_ok_cong [OF scripts_tokens(3,4)] bulk_mysql_defs distinct_map_filter_key)

end
