(* ===== verification/OAuth_DB_Laws.thy ===== *)
theory OAuth_DB_Laws
  imports OAuth_DB
begin

text \<open>
  The promises of the OAuth database: what is removed for a user or a client is gone from both
  stores, and everything else stays.
\<close>

section \<open>Operations that add\<close>

lemma insert_row_Inr:
  assumes "insert_row key r rows = Inr rows'" "distinct (map key rows)"
  shows "rows' = rows @ [r] \<and> distinct (map key rows')"
  using assms by (auto simp: insert_row_def split: if_splits)

lemma generateCode_Inr:
  assumes "generateCode h now c cm cc g m = Inr (c', m')"
  shows "\<exists>row. c' = c \<and> m' = m\<lparr> my_codes := my_codes m @ [row] \<rparr> \<and> cr_code row = h c \<and> h c \<notin> cr_code ` set (my_codes m) \<and>
    cr_clientId row = g_clientId g \<and> cr_userId row = g_userId g \<and> cr_codeChallenge row = cc \<and>
    cr_codeChallengeMethod row = cm \<and> cr_scope row = toString (g_scope g) \<and> cr_createdAt row = second now \<and>
    cr_offline row = g_offline g"
  using assms by (auto simp: generateCode_def insert_row_def split: sum.splits if_splits)

lemma db_ok_generateCode:
  assumes ok: "db_ok E now db" and g: "generateCode h now c cm cc g (db_mysql db) = Inr (c', m')"
  shows "db_ok E now (db\<lparr> db_mysql := m' \<rparr>)"
proof -
  obtain row where "m' = (db_mysql db)\<lparr> my_codes := my_codes (db_mysql db) @ [row] \<rparr>"
    "cr_code row = h c" "h c \<notin> cr_code ` set (my_codes (db_mysql db))"
    using generateCode_Inr [OF g] by blast
  with ok show ?thesis by (simp add: db_ok_def)
qed

lemma generateRefreshToken_Inr:
  assumes "generateRefreshToken h now t g m = Inr (t', m')"
  shows "\<exists>row. t' = t \<and> m' = m\<lparr> my_refreshTokens := my_refreshTokens m @ [row] \<rparr> \<and> rr_token row = h t \<and>
    h t \<notin> rr_token ` set (my_refreshTokens m) \<and> rr_clientId row = g_clientId g \<and> rr_userId row = g_userId g \<and>
    rr_scope row = toString (g_scope g)"
  using assms by (auto simp: generateRefreshToken_def insert_row_def split: sum.splits if_splits)

lemma db_ok_generateRefreshToken:
  assumes ok: "db_ok E now db" and g: "generateRefreshToken h now t g (db_mysql db) = Inr (t', m')"
  shows "db_ok E now (db\<lparr> db_mysql := m' \<rparr>)"
proof -
  obtain row where "m' = (db_mysql db)\<lparr> my_refreshTokens := my_refreshTokens (db_mysql db) @ [row] \<rparr>"
    "rr_token row = h t" "h t \<notin> rr_token ` set (my_refreshTokens (db_mysql db))"
    using generateRefreshToken_Inr [OF g] by blast
  with ok show ?thesis by (simp add: db_ok_def)
qed

lemma db_ok_mysql_token:
  assumes ok: "db_ok E now db" and g: "generateAccessToken_mysql now t (db_mysql db) = Inr m'"
  shows "db_ok E now (db\<lparr> db_mysql := m' \<rparr>)"
proof -
  obtain row where "m' = (db_mysql db)\<lparr> my_tokens := my_tokens (db_mysql db) @ [row] \<rparr>"
    "tr_token row \<notin> tr_token ` set (my_tokens (db_mysql db))"
    using g by (auto simp: generateAccessToken_mysql_def insert_row_def split: sum.splits if_splits)
  with ok show ?thesis by (simp add: db_ok_def)
qed

text \<open>What the configuration and a request guarantee: the lifetime is at most the maximum.\<close>

definition env_ok :: "oauth_env \<Rightarrow> bool" where
  "env_ok E \<longleftrightarrow> spop_ok (spop_choice E) \<and> 0 < expiration_accessToken E"

definition new_token :: "oauth_env \<Rightarrow> int \<Rightarrow> string \<Rightarrow> grant \<Rightarrow> access_token" where
  "new_token E now random g =
     AccessToken_generate (sha256 E) (expiration_accessToken E) now random (g_clientId g)
       (Some (g_name g)) (g_canGrant g) (g_publicClient g) (g_userId g) (g_scope g) (g_profileChangedAt g) 0 (g_ttl g)"

text \<open>A set of strings has no \<open>Buffer\<close>.\<close>

lemma no_buffer_in_strings: "\<not> set_has_buffer strings buffer"
  by (simp add: set_has_buffer_def set_has_def list_ex_iff)

lemma generateAccessToken_Inr:
  assumes "generateAccessToken E now random g db = Inr (t, db')"
  shows "t = new_token E now random g \<and>
    (g_clientId g \<in> set (POCKET_IDS E) \<longrightarrow>
      (\<exists>m. generateAccessToken_mysql now t (db_mysql db) = Inr m \<and> db' = db\<lparr> db_mysql := m \<rparr>)) \<and>
    (g_clientId g \<notin> set (POCKET_IDS E) \<longrightarrow>
      (\<exists>r. FxaRedis_setAccessToken (spop_choice E) (accessTokens_recordLimit E) (expiration_accessToken E) now t
         (db_redis db) = Some r \<and> db' = db\<lparr> db_redis := r \<rparr>))"
  using assms
  by (auto simp: generateAccessToken_def Let_def no_buffer_in_strings new_token_def [symmetric]
      split: if_splits sum.splits option.splits)

lemma db_ok_generateAccessToken:
  assumes ok: "db_ok E now db" and E: "env_ok E" and ttl: "g_ttl g \<le> expiration_accessToken E div 1000"
    and fresh: "fresh_id (sha256 E random) (db_redis db)"
    and g: "generateAccessToken E now random g db = Inr (t, db')"
  shows "db_ok E now db'"
proof (cases "g_clientId g \<in> set (POCKET_IDS E)")
  case True
  then show ?thesis using generateAccessToken_Inr [OF g] db_ok_mysql_token [OF ok] by blast
next
  case False
  have t: "t = new_token E now random g" using generateAccessToken_Inr [OF g] by blast
  obtain r where r: "FxaRedis_setAccessToken (spop_choice E) (accessTokens_recordLimit E) (expiration_accessToken E)
      now t (db_redis db) = Some r" "db' = db\<lparr> db_redis := r \<rparr>"
    using generateAccessToken_Inr [OF g] False by blast
  have "AccessToken_ttl now t \<le> expiration_accessToken E"
    using generate_ttl ttl E by (simp add: t new_token_def env_ok_def)
  moreover have "fresh_id (at_tokenId t) (db_redis db)"
    using fresh by (simp add: t new_token_def AccessToken_generate_def)
  ultimately have "cache_ok (accessTokens_recordLimit E) (expiration_accessToken E) now r \<and>
      tc_refresh r = tc_refresh (db_redis db)"
    using FxaRedis_setAccessToken_ok [OF db_okD(1) [OF ok] _ _ _ r(1)] E by (simp add: env_ok_def)
  then show ?thesis using ok meta_ok_cong [of r "db_redis db"] by (simp add: r(2) db_ok_def)
qed

section \<open>Operations that read\<close>

lemma db_ok_getAccessTokensByUid:
  assumes ok: "db_ok E now db" and g: "getAccessTokensByUid E now u db = Inr (ts, db')"
  shows "db_ok E now db'"
proof -
  define r where "r = snd (getAccessTokens_script now u (db_redis db))"
  have "db' = db\<lparr> db_redis := r \<rparr>" using g
    by (auto simp: getAccessTokensByUid_def RedisShared_getAccessTokens_def r_def
        split: prod.splits sum.splits option.splits)
  moreover have "cache_ok (accessTokens_recordLimit E) (expiration_accessToken E) now r"
    unfolding r_def by (rule cache_ok_list [OF db_okD(1) [OF ok]])
  moreover have "meta_ok (refreshTokens_recordLimit E) r"
    unfolding r_def using meta_ok_cong [OF scripts_refresh(1)] ok by (simp add: db_ok_def)
  ultimately show ?thesis using ok by (simp add: db_ok_def)
qed

lemma touch_keys:
  "map rr_token (my_refreshTokens (touchRefreshToken_mysql i now m)) = map rr_token (my_refreshTokens m) \<and>
   my_tokens (touchRefreshToken_mysql i now m) = my_tokens m \<and> my_codes (touchRefreshToken_mysql i now m) = my_codes m \<and>
   my_clients (touchRefreshToken_mysql i now m) = my_clients m"
  by (simp add: touchRefreshToken_mysql_def)

lemma getRefreshToken_Inr:
  assumes "getRefreshToken E now i db = Inr (t, db')"
  shows "tc_tokens (db_redis db') = tc_tokens (db_redis db) \<and> my_tokens (db_mysql db') = my_tokens (db_mysql db) \<and>
    my_codes (db_mysql db') = my_codes (db_mysql db) \<and> my_clients (db_mysql db') = my_clients (db_mysql db) \<and>
    map rr_token (my_refreshTokens (db_mysql db')) = map rr_token (my_refreshTokens (db_mysql db)) \<and>
    (\<exists>r. db_redis db' = r \<and> (r = db_redis db \<or> (\<exists>u. r = setRefreshToken_script now u i now (refreshTokens_recordLimit E)
       (refreshTokens_maxttl E) (db_redis db))))"
  using assms touch_keys [of _ now "db_mysql db"]
  by (auto simp: getRefreshToken_def Let_def split: sum.splits option.splits)

lemma db_ok_getRefreshToken:
  assumes ok: "db_ok E now db" and g: "getRefreshToken E now i db = Inr (t, db')"
  shows "db_ok E now db'"
proof -
  have "cache_ok (accessTokens_recordLimit E) (expiration_accessToken E) now (db_redis db') \<and>
      meta_ok (refreshTokens_recordLimit E) (db_redis db')"
  proof -
    consider "db_redis db' = db_redis db" | u where "db_redis db' = setRefreshToken_script now u i now
        (refreshTokens_recordLimit E) (refreshTokens_maxttl E) (db_redis db)"
      using getRefreshToken_Inr [OF g] by blast
    then show ?thesis
      using ok by cases (simp_all add: db_ok_def meta_ok_set cache_ok_cong [OF scripts_tokens(1,2)])
  qed
  with getRefreshToken_Inr [OF g] ok show ?thesis by (simp add: db_ok_def)
qed

lemma db_ok_getRefreshTokensByUid:
  assumes ok: "db_ok E now db" and g: "getRefreshTokensByUid E now u db = Inr (ts, db')"
  shows "db_ok E now db'"
proof -
  obtain ids where "db' = db \<or> db' = db\<lparr> db_redis := hdel now u ids (db_redis db) \<rparr>"
    using g by (auto simp: getRefreshTokensByUid_def RedisShared_pruneRefreshTokens_def Let_def
        split: sum.splits if_splits)
  then show ?thesis using ok
    by (elim disjE) (simp_all add: db_ok_def meta_ok_hdel cache_ok_cong [OF scripts_tokens(3,4)])
qed

lemma db_ok_deleteClientRefreshToken:
  assumes ok: "db_ok E now db" and g: "deleteClientRefreshToken now i c u db = (b, db')"
  shows "db_ok E now db'"
proof -
  have "db_ok E now (snd (deleteClientRefreshToken now i c u db))"
    using ok
    by (simp add: db_ok_def deleteClientRefreshToken_def deleteClientRefreshToken_mysql_def Let_def
        FxaRedis_removeRefreshToken_def distinct_map_filter_key cache.ok_removeClient
        cache_ok_cong [OF scripts_tokens(3,4)] meta_ok_hdel meta_ok_cong [OF scripts_refresh(4)])
  with g show ?thesis by simp
qed

lemma db_ok_removeCode: "db_ok E now db \<Longrightarrow> db_ok E now (db\<lparr> db_mysql := removeCode h c (db_mysql db) \<rparr>)"
  by (simp add: db_ok_def removeCode_def distinct_map_filter_key)

lemma db_ok_prune: "db_ok E now db \<Longrightarrow> db_ok E now (db\<lparr> db_mysql := pruneAuthorizationCodes now ttl (db_mysql db) \<rparr>)"
  by (simp add: db_ok_def pruneAuthorizationCodes_def Let_def distinct_map_filter_key)

lemma db_ok_clients:
  "my_tokens m = my_tokens (db_mysql db) \<Longrightarrow> my_codes m = my_codes (db_mysql db) \<Longrightarrow>
   my_refreshTokens m = my_refreshTokens (db_mysql db) \<Longrightarrow> db_ok E now db \<Longrightarrow> db_ok E now (db\<lparr> db_mysql := m \<rparr>)"
  by (simp add: db_ok_def)

end
