(* ===== verification/OAuth_DB_Guarantees.thy ===== *)
theory OAuth_DB_Guarantees
  imports OAuth_DB_Laws
begin

text \<open>
  The OAuth database as a state machine, and what its operations promise in every state that can
  be reached.
\<close>

section \<open>Reachable states\<close>

inductive db_reached :: "oauth_env \<Rightarrow> int \<Rightarrow> oauth_db \<Rightarrow> bool" for E where
  start: "db_reached E now empty_db"
| wait: "db_reached E now db \<Longrightarrow> now \<le> now' \<Longrightarrow> db_reached E now' db"
| new_client: "db_reached E now db \<Longrightarrow> registerClient c (db_mysql db) = Inr m \<Longrightarrow>
    db_reached E now (db\<lparr> db_mysql := m \<rparr>)"
| drop_client: "db_reached E now db \<Longrightarrow> db_reached E now (db\<lparr> db_mysql := removeClient c (db_mysql db) \<rparr>)"
| new_scope: "db_reached E now db \<Longrightarrow> registerScope s (db_mysql db) = Inr m \<Longrightarrow>
    db_reached E now (db\<lparr> db_mysql := m \<rparr>)"
| new_code: "db_reached E now db \<Longrightarrow> generateCode (sha256 E) now c cm cc g (db_mysql db) = Inr (c', m) \<Longrightarrow>
    db_reached E now (db\<lparr> db_mysql := m \<rparr>)"
| drop_code: "db_reached E now db \<Longrightarrow> db_reached E now (db\<lparr> db_mysql := removeCode (sha256 E) c (db_mysql db) \<rparr>)"
| prune: "db_reached E now db \<Longrightarrow> db_reached E now (db\<lparr> db_mysql := pruneAuthorizationCodes now ttl (db_mysql db) \<rparr>)"
| new_access: "db_reached E now db \<Longrightarrow> g_ttl g \<le> expiration_accessToken E div 1000 \<Longrightarrow>
    fresh_id (sha256 E random) (db_redis db) \<Longrightarrow> generateAccessToken E now random g db = Inr (t, db') \<Longrightarrow>
    db_reached E now db'"
| new_refresh: "db_reached E now db \<Longrightarrow> generateRefreshToken (sha256 E) now random g (db_mysql db) = Inr (t, m) \<Longrightarrow>
    db_reached E now (db\<lparr> db_mysql := m \<rparr>)"
| list_access: "db_reached E now db \<Longrightarrow> getAccessTokensByUid E now u db = Inr (ts, db') \<Longrightarrow> db_reached E now db'"
| use_refresh: "db_reached E now db \<Longrightarrow> getRefreshToken E now i db = Inr (r, db') \<Longrightarrow> db_reached E now db'"
| list_refresh: "db_reached E now db \<Longrightarrow> getRefreshTokensByUid E now u db = Inr (rs, db') \<Longrightarrow> db_reached E now db'"
| drop_access: "db_reached E now db \<Longrightarrow> db_reached E now (removeAccessToken now t db)"
| drop_refresh: "db_reached E now db \<Longrightarrow> db_reached E now (removeRefreshToken now r db)"
| drop_user: "db_reached E now db \<Longrightarrow> db_reached E now (removeUser now u db)"
| drop_grants: "db_reached E now db \<Longrightarrow> db_reached E now (deleteClientAuthorization now c u db)"
| drop_grant: "db_reached E now db \<Longrightarrow> deleteClientRefreshToken now i c u db = (b, db') \<Longrightarrow> db_reached E now db'"
| drop_public: "db_reached E now db \<Longrightarrow> db_reached E now (removePublicAndCanGrantTokens now u db)"

lemma registerClient_Inr:
  "registerClient c m = Inr m' \<Longrightarrow> my_tokens m' = my_tokens m \<and> my_codes m' = my_codes m \<and> my_refreshTokens m' = my_refreshTokens m"
  by (auto simp: registerClient_def Let_def split: sum.splits)

lemma registerScope_Inr:
  "registerScope s m = Inr m' \<Longrightarrow> my_tokens m' = my_tokens m \<and> my_codes m' = my_codes m \<and> my_refreshTokens m' = my_refreshTokens m"
  by (auto simp: registerScope_def split: sum.splits)

lemma db_ok_removeClient: "db_ok E now db \<Longrightarrow> db_ok E now (db\<lparr> db_mysql := removeClient c (db_mysql db) \<rparr>)"
  by (simp add: db_ok_def removeClient_def distinct_map_filter_key)

lemmas db_ok_intros = db_ok_later db_ok_generateCode db_ok_generateRefreshToken db_ok_generateAccessToken
  db_ok_getAccessTokensByUid db_ok_getRefreshToken db_ok_getRefreshTokensByUid db_ok_removeAccessToken
  db_ok_removeRefreshToken db_ok_removeUser db_ok_deleteClient db_ok_deleteClientRefreshToken db_ok_removePublic
  db_ok_removeCode db_ok_prune db_ok_removeClient

lemma db_reached_ok: "db_reached E now db \<Longrightarrow> env_ok E \<Longrightarrow> db_ok E now db"
proof (induction rule: db_reached.induct)
  case (new_client now db c m)
  then show ?case using db_ok_clients registerClient_Inr by blast
next
  case (new_scope now db s m)
  then show ?case using db_ok_clients registerScope_Inr by blast
qed (auto intro: db_ok_intros)

section \<open>An example\<close>

definition example_env :: oauth_env where
  "example_env =
     \<lparr> hostParser = (\<lambda>_. None), sha256 = (\<lambda>s. CHR ''h'' # s), sha256_text = (\<lambda>s. if s = ''verifier'' then ''ff00'' else ''00ff''),
       spop_choice = (\<lambda>xs n. take n xs), jwtAccessTokens_enabled = True,
       jwtAccessTokens_enabledClientIds = [''c1''], refreshToken_updateAfter = 86400000,
       clientIdToServiceNames = [(''c2'', ''pocket-web'')], expiration_accessToken = 21900000,
       expiration_code = 900000, accessTokenExpiryEpoch = 1483228800000, accessTokens_recordLimit = 100,
       refreshTokens_recordLimit = 20, refreshTokens_maxttl = 86400000, disabledClients = [], unique_id = 8,
       unique_clientSecret = 32 \<rparr>"

definition example_grant :: grant where
  "example_grant =
     \<lparr> g_clientId = ''c1'', g_name = ''RP'', g_canGrant = False, g_publicClient = True, g_userId = ''u1'',
       g_email = None, g_scope = empty_set, g_scopeConfig = [], g_sessionTokenId = None, g_offline = True,
       g_authAt = 0, g_amr = None, g_aal = 0, g_profileChangedAt = 0, g_keysJwe = None, g_generation = 0,
       g_ppidSeed = 0, g_resource = None, g_ttl = 3600 \<rparr>"

text \<open>A database in which the grant has just given an access token.\<close>

definition example_db :: oauth_db where
  "example_db =
     (case generateAccessToken example_env 0 ''a1'' example_grant empty_db of Inr (t, db) \<Rightarrow> db | Inl _ \<Rightarrow> empty_db)"

lemma example_env_ok: "env_ok example_env"
  by (simp add: env_ok_def example_env_def spop_ok_take)

lemma example_generate: "\<exists>t. generateAccessToken example_env 0 ''a1'' example_grant empty_db = Inr (t, example_db)"
proof -
  have "\<not> isl (generateAccessToken example_env 0 ''a1'' example_grant empty_db)" by code_simp
  then show ?thesis by (auto simp: example_db_def isl_def split: sum.split)
qed

lemma example_db_reached: "db_reached example_env 0 example_db"
proof -
  obtain t where "generateAccessToken example_env 0 ''a1'' example_grant empty_db = Inr (t, example_db)"
    using example_generate by blast
  moreover have "g_ttl example_grant \<le> expiration_accessToken example_env div 1000" by code_simp
  moreover have "fresh_id (sha256 example_env ''a1'') (db_redis empty_db)"
    by (simp add: fresh_id_def empty_db_def cache_empty_def)
  ultimately show ?thesis using db_reached.new_access [OF db_reached.start] by blast
qed

text \<open>The user of the token with this id, if there is one.\<close>

definition user_of :: "oauth_env \<Rightarrow> int \<Rightarrow> string \<Rightarrow> oauth_db \<Rightarrow> string option" where
  "user_of E now i db =
     (case getAccessToken E now i db of Inr (Some t) \<Rightarrow> Some (at_userId t) | _ \<Rightarrow> None)"

lemma user_of_Some: "user_of E now i db = Some u \<longleftrightarrow> (\<exists>t. getAccessToken E now i db = Inr (Some t) \<and> at_userId t = u)"
  by (auto simp: user_of_def split: sum.split option.split)

section \<open>Revocation\<close>

lemma parse_fields:
  "AccessToken_parse hp v = Inr t \<Longrightarrow> at_userId t = aj_userId v \<and> at_clientId t = aj_clientId v \<and>
     at_canGrant t = aj_canGrant v \<and> at_publicClient t = aj_publicClient v \<and> at_tokenId t = aj_tokenId v"
  by (auto simp: AccessToken_parse_def split: sum.splits)

lemma fromMySQL_fields:
  "AccessToken_fromMySQL hp (r, c) = Inr t \<Longrightarrow> at_userId t = tr_userId r \<and> at_clientId t = tr_clientId r \<and>
     at_canGrant t = (case c of Some c \<Rightarrow> oc_canGrant c | None \<Rightarrow> False) \<and>
     at_publicClient t = (case c of Some c \<Rightarrow> oc_publicClient c | None \<Rightarrow> False) \<and> at_tokenId t = tr_token r"
  by (auto split: sum.splits)

lemma getAccessToken_cases:
  "getAccessToken E now i db = Inr (Some t) \<longleftrightarrow>
     (\<exists>v. redis_get now (tc_tokens (db_redis db)) i = Some v \<and> AccessToken_parse (hostParser E) v = Inr t) \<or>
     (\<forall>v. redis_get now (tc_tokens (db_redis db)) i = Some v \<longrightarrow> isl (AccessToken_parse (hostParser E) v)) \<and>
     (\<exists>r. find_joined (db_mysql db) i = Some r \<and> AccessToken_fromMySQL (hostParser E) r = Inr t)"
  by (auto simp: getAccessToken_def RedisShared_getAccessToken_def getAccessToken_script_def scope_result_def
      getAccessToken_mysql_def isl_def split: option.split sum.split)

text \<open>
  If both stores drop what satisfies a predicate and keep the rest, so does the database.
\<close>

lemma getAccessToken_filtered:
  assumes redis: "\<And>j. redis_get now (tc_tokens (db_redis db')) j =
      (case redis_get now (tc_tokens (db_redis db)) j of Some v \<Rightarrow> if p v then None else Some v | None \<Rightarrow> None)"
    and mysql: "\<And>j. find_joined (db_mysql db') j =
      (case find_joined (db_mysql db) j of Some r \<Rightarrow> if q r then None else Some r | None \<Rightarrow> None)"
    and p: "\<And>v t. AccessToken_parse (hostParser E) v = Inr t \<Longrightarrow> p v \<longleftrightarrow> P t"
    and q: "\<And>r t. AccessToken_fromMySQL (hostParser E) r = Inr t \<Longrightarrow> q r \<longleftrightarrow> P t"
  shows "getAccessToken E now i db' = Inr (Some t) \<Longrightarrow> \<not> P t"
    and "getAccessToken E now i db = Inr (Some t) \<Longrightarrow> \<not> P t \<Longrightarrow> getAccessToken E now i db' = Inr (Some t)"
proof -
  have r: "redis_get now (tc_tokens (db_redis db')) i = Some v \<longleftrightarrow>
      redis_get now (tc_tokens (db_redis db)) i = Some v \<and> \<not> p v" for v
    using redis [of i] by (auto split: option.splits)
  have m: "find_joined (db_mysql db') i = Some x \<longleftrightarrow> find_joined (db_mysql db) i = Some x \<and> \<not> q x" for x
    using mysql [of i] by (auto split: option.splits)
  show "getAccessToken E now i db' = Inr (Some t) \<Longrightarrow> \<not> P t"
    unfolding getAccessToken_cases r m using p q by blast
  show "getAccessToken E now i db = Inr (Some t) \<Longrightarrow> \<not> P t \<Longrightarrow> getAccessToken E now i db' = Inr (Some t)"
    unfolding getAccessToken_cases r m using p q by blast
qed

lemma parse_all_Nil [simp]: "RedisShared_getAccessTokens hp now u st = ([], snd (getAccessTokens_script now u st))"
  if "listed_tokens now st u = []"
  using that
  by (cases "getAccessTokens_script now u st") (simp add: RedisShared_getAccessTokens_def listed_tokens_def)

text \<open>
  Once a user is removed, no access token of the user is left, in Redis or in MySQL: none is
  found, none is listed, and there is no code and no refresh token. Every access token of another
  user is still found.
\<close>

theorem removeUser_revokes:
  assumes "db_reached E now db" and "env_ok E" and db': "db' = removeUser now uid db"
  shows "(\<forall>i t. getAccessToken E now i db' = Inr (Some t) \<longrightarrow> at_userId t \<noteq> uid) \<and>
    (\<forall>i t. getAccessToken E now i db = Inr (Some t) \<longrightarrow> at_userId t \<noteq> uid \<longrightarrow> getAccessToken E now i db' = Inr (Some t)) \<and>
    (\<exists>db''. getAccessTokensByUid E now uid db' = Inr ([], db'')) \<and>
    getRefreshTokensByUid E now uid db' = Inr ([], db') \<and>
    (\<forall>c \<in> set (my_codes (db_mysql db')). cr_userId c \<noteq> uid)"
proof -
  have ok: "db_ok E now db" using db_reached_ok assms by blast
  note c = db_okD(1) [OF ok] and m = db_okD(2) [OF ok]
  have redis: "tc_tokens (db_redis db') = tc_tokens (removeAccessTokensForUser_script now uid (db_redis db))"
    and mysql: "db_mysql db' = removeUser_mysql uid (db_mysql db)"
    by (simp_all add: db' removeUser_def)
  note f = getAccessToken_filtered [where P = "\<lambda>t. at_userId t = uid" and p = "\<lambda>v. aj_userId v = uid"
      and q = "\<lambda>r. tr_userId (fst r) = uid" and E = E and db = db and db' = db' and now = now]
  have a: "getAccessToken E now i db' = Inr (Some t) \<Longrightarrow> at_userId t \<noteq> uid" for i t
    by (rule f(1)) (auto simp: redis mysql cache.get_removeUser [OF c] mysql.get_removeUser [OF m] dest: parse_fields fromMySQL_fields)
  have b: "getAccessToken E now i db = Inr (Some t) \<Longrightarrow> at_userId t \<noteq> uid \<Longrightarrow> getAccessToken E now i db' = Inr (Some t)" for i t
    by (rule f(2)) (auto simp: redis mysql cache.get_removeUser [OF c] mysql.get_removeUser [OF m] dest: parse_fields fromMySQL_fields)
  have "listed_tokens now (db_redis db') uid = []"
    using cache.removeUser_none [OF c, of uid] scripts_tokens(5,6)
    by (simp add: listed_tokens_def getAccessTokens_script_def db' removeUser_def Let_def)
  moreover have "rows_by_uid (db_mysql db') uid = []"
    using mysql.removeUser_none [OF m] by (simp add: mysql)
  ultimately have "\<exists>db''. getAccessTokensByUid E now uid db' = Inr ([], db'')"
    by (simp add: getAccessTokensByUid_def getAccessTokensByUid_mysql_def)
  moreover have "getRefreshTokensByUid E now uid db' = Inr ([], db')"
    by (simp add: getRefreshTokensByUid_def getRefreshTokensByUid_mysql_def db' removeUser_def removeUser_mysql_def
        hgetall_def FxaRedis_removeRefreshTokensForUser_def redis_get_def unlink_def filter_empty_conv)
  moreover have "\<forall>c \<in> set (my_codes (db_mysql db')). cr_userId c \<noteq> uid" by (simp add: mysql removeUser_mysql_def)
  ultimately show ?thesis using a b by blast
qed

theorem removeUser_revokes_witness:
  "user_of example_env 0 ''ha1'' example_db = Some ''u1'' \<and>
   user_of example_env 0 ''ha1'' (removeUser 0 ''u1'' example_db) \<noteq> Some ''u1'' \<and>
   user_of example_env 0 ''ha1'' (removeUser 0 ''u2'' example_db) = Some ''u1''"
proof -
  have u: "user_of example_env 0 ''ha1'' example_db = Some ''u1''" by code_simp
  then obtain t where t: "getAccessToken example_env 0 ''ha1'' example_db = Inr (Some t)" "at_userId t = ''u1''"
    unfolding user_of_Some by blast
  note r = removeUser_revokes [OF example_db_reached example_env_ok refl]
  have "user_of example_env 0 ''ha1'' (removeUser 0 ''u1'' example_db) \<noteq> Some ''u1''"
    unfolding user_of_Some using r [THEN conjunct1] by blast
  moreover have "at_userId t \<noteq> ''u2''" using t(2) by simp
  then have "getAccessToken example_env 0 ''ha1'' (removeUser 0 ''u2'' example_db) = Inr (Some t)"
    using r [THEN conjunct2, THEN conjunct1] t(1) by blast
  ultimately show ?thesis using u t(2) unfolding user_of_Some by blast
qed

text \<open>
  Once a user has disconnected a client, no code, access token or refresh token of that client
  for the user is left; every other access token is still found.
\<close>

theorem deleteClientAuthorization_revokes:
  assumes "db_reached E now db" and "env_ok E" and db': "db' = deleteClientAuthorization now clientId uid db"
  shows "(\<forall>i t. getAccessToken E now i db' = Inr (Some t) \<longrightarrow> \<not> (at_userId t = uid \<and> at_clientId t = clientId)) \<and>
    (\<forall>i t. getAccessToken E now i db = Inr (Some t) \<longrightarrow> \<not> (at_userId t = uid \<and> at_clientId t = clientId) \<longrightarrow>
       getAccessToken E now i db' = Inr (Some t)) \<and>
    (\<forall>r \<in> set (my_refreshTokens (db_mysql db')). \<not> (rr_userId r = uid \<and> rr_clientId r = clientId)) \<and>
    (\<forall>c \<in> set (my_codes (db_mysql db')). \<not> (cr_userId c = uid \<and> cr_clientId c = clientId))"
proof -
  have ok: "db_ok E now db" using db_reached_ok assms by blast
  note c = db_okD(1) [OF ok] and m = db_okD(2) [OF ok]
  have redis: "db_redis db' = removeAccessTokensForUserAndClient_script now uid clientId (db_redis db)"
    and mysql: "db_mysql db' = deleteClientAuthorization_mysql clientId uid (db_mysql db)"
    by (simp_all add: db' deleteClientAuthorization_def)
  note f = getAccessToken_filtered [where P = "\<lambda>t. at_userId t = uid \<and> at_clientId t = clientId"
      and p = "\<lambda>v. aj_userId v = uid \<and> aj_clientId v = clientId"
      and q = "\<lambda>r. tr_userId (fst r) = uid \<and> tr_clientId (fst r) = clientId" and E = E and db = db and db' = db' and now = now]
  have a: "getAccessToken E now i db' = Inr (Some t) \<Longrightarrow> \<not> (at_userId t = uid \<and> at_clientId t = clientId)" for i t
    by (rule f(1)) (auto simp: redis mysql cache.get_removeClient [OF c] mysql.get_removeClient [OF m] dest: parse_fields fromMySQL_fields)
  have b: "getAccessToken E now i db = Inr (Some t) \<Longrightarrow> \<not> (at_userId t = uid \<and> at_clientId t = clientId) \<Longrightarrow>
      getAccessToken E now i db' = Inr (Some t)" for i t
    by (rule f(2)) (auto simp: redis mysql cache.get_removeClient [OF c] mysql.get_removeClient [OF m] dest: parse_fields fromMySQL_fields)
  have "\<forall>r \<in> set (my_refreshTokens (db_mysql db')). \<not> (rr_userId r = uid \<and> rr_clientId r = clientId)"
    and "\<forall>c \<in> set (my_codes (db_mysql db')). \<not> (cr_userId c = uid \<and> cr_clientId c = clientId)"
    by (auto simp: mysql deleteClientAuthorization_mysql_def)
  then show ?thesis using a b by blast
qed

theorem deleteClientAuthorization_revokes_witness:
  "user_of example_env 0 ''ha1'' (deleteClientAuthorization 0 ''c1'' ''u1'' example_db) \<noteq> Some ''u1'' \<and>
   user_of example_env 0 ''ha1'' (deleteClientAuthorization 0 ''c2'' ''u1'' example_db) = Some ''u1''"
proof -
  have "map_option at_clientId (case getAccessToken example_env 0 ''ha1'' example_db of Inr t \<Rightarrow> t | _ \<Rightarrow> None) = Some ''c1''"
    by code_simp
  moreover have "user_of example_env 0 ''ha1'' example_db = Some ''u1''" by code_simp
  ultimately obtain t where t: "getAccessToken example_env 0 ''ha1'' example_db = Inr (Some t)" "at_userId t = ''u1''"
      "at_clientId t = ''c1''"
    unfolding user_of_Some by (elim exE conjE) simp
  note d = deleteClientAuthorization_revokes [OF example_db_reached example_env_ok refl]
  have "at_clientId t \<noteq> ''c2''" using t(3) by simp
  then have "getAccessToken example_env 0 ''ha1'' (deleteClientAuthorization 0 ''c2'' ''u1'' example_db) = Inr (Some t)"
    using d [THEN conjunct2, THEN conjunct1] t(1) by blast
  then have "user_of example_env 0 ''ha1'' (deleteClientAuthorization 0 ''c2'' ''u1'' example_db) = Some ''u1''"
    using t(2) unfolding user_of_Some by blast
  moreover have "user_of example_env 0 ''ha1'' (deleteClientAuthorization 0 ''c1'' ''u1'' example_db) = None" by code_simp
  ultimately show ?thesis by simp
qed

text \<open>
  After a change of the password (\<open>removePublicAndCanGrantTokens\<close>) no access token of a client
  that is public or may grant is left for the user, and no refresh token of such a client; every
  other access token is still found.
\<close>

theorem removePublic_revokes:
  assumes "db_reached E now db" and "env_ok E" and db': "db' = removePublicAndCanGrantTokens now uid db"
  shows "(\<forall>i t. getAccessToken E now i db' = Inr (Some t) \<longrightarrow> \<not> (at_userId t = uid \<and> (at_canGrant t \<or> at_publicClient t))) \<and>
    (\<forall>i t. getAccessToken E now i db = Inr (Some t) \<longrightarrow> \<not> (at_userId t = uid \<and> (at_canGrant t \<or> at_publicClient t)) \<longrightarrow>
       getAccessToken E now i db' = Inr (Some t)) \<and>
    (\<forall>r \<in> set (my_refreshTokens (db_mysql db')). rr_userId r = uid \<longrightarrow>
       (case getClient (rr_clientId r) (db_mysql db) of Some c \<Rightarrow> \<not> oc_publicClient c \<and> \<not> oc_canGrant c | None \<Rightarrow> True))"
proof -
  have ok: "db_ok E now db" using db_reached_ok assms by blast
  note c = db_okD(1) [OF ok] and m = db_okD(2) [OF ok]
  have redis: "db_redis db' = removeAccessTokensForPublicClients_script now uid (db_redis db)"
    and mysql: "db_mysql db' = removePublicAndCanGrantTokens_mysql uid (db_mysql db)"
    by (simp_all add: db' removePublicAndCanGrantTokens_def)
  note f = getAccessToken_filtered [where P = "\<lambda>t. at_userId t = uid \<and> (at_canGrant t \<or> at_publicClient t)"
      and p = "\<lambda>v. aj_userId v = uid \<and> (aj_canGrant v \<or> aj_publicClient v)"
      and q = "\<lambda>r. tr_userId (fst r) = uid \<and>
        (case r of (t, c) \<Rightarrow> case c of Some c \<Rightarrow> oc_publicClient c \<or> oc_canGrant c | None \<Rightarrow> False)"
      and E = E and db = db and db' = db' and now = now]
  note q = fromMySQL_fields [where hp = "hostParser E"]
  have a: "getAccessToken E now i db' = Inr (Some t) \<Longrightarrow> \<not> (at_userId t = uid \<and> (at_canGrant t \<or> at_publicClient t))" for i t
    by (rule f(1)) (auto simp: redis mysql cache.get_removePublic [OF c] mysql.get_removePublic [OF m]
        dest: parse_fields q split: option.splits)
  have b: "getAccessToken E now i db = Inr (Some t) \<Longrightarrow> \<not> (at_userId t = uid \<and> (at_canGrant t \<or> at_publicClient t)) \<Longrightarrow>
      getAccessToken E now i db' = Inr (Some t)" for i t
    by (rule f(2)) (auto simp: redis mysql cache.get_removePublic [OF c] mysql.get_removePublic [OF m]
        dest: parse_fields q split: option.splits)
  have "\<forall>r \<in> set (my_refreshTokens (db_mysql db')). rr_userId r = uid \<longrightarrow>
       (case getClient (rr_clientId r) (db_mysql db) of Some c \<Rightarrow> \<not> oc_publicClient c \<and> \<not> oc_canGrant c | None \<Rightarrow> True)"
    by (auto simp: mysql removePublicAndCanGrantTokens_mysql_def client_exposed_def split: option.splits)
  then show ?thesis using a b by blast
qed

theorem removePublic_revokes_witness:
  "user_of example_env 0 ''ha1'' (removePublicAndCanGrantTokens 0 ''u1'' example_db) \<noteq> Some ''u1'' \<and>
   user_of example_env 0 ''ha1'' (removePublicAndCanGrantTokens 0 ''u2'' example_db) = Some ''u1''"
proof -
  have "user_of example_env 0 ''ha1'' example_db = Some ''u1''" by code_simp
  then obtain t where t: "getAccessToken example_env 0 ''ha1'' example_db = Inr (Some t)" "at_userId t = ''u1''"
    unfolding user_of_Some by blast
  have "at_userId t \<noteq> ''u2''" using t(2) by simp
  then have "getAccessToken example_env 0 ''ha1'' (removePublicAndCanGrantTokens 0 ''u2'' example_db) = Inr (Some t)"
    using removePublic_revokes [OF example_db_reached example_env_ok refl, THEN conjunct2, THEN conjunct1] t(1) by blast
  then have "user_of example_env 0 ''ha1'' (removePublicAndCanGrantTokens 0 ''u2'' example_db) = Some ''u1''"
    using t(2) unfolding user_of_Some by blast
  moreover have "user_of example_env 0 ''ha1'' (removePublicAndCanGrantTokens 0 ''u1'' example_db) = None" by code_simp
  ultimately show ?thesis by simp
qed

section \<open>Storing\<close>

lemma new_token_fields:
  "at_tokenId (new_token E now random g) = sha256 E random" "at_userId (new_token E now random g) = g_userId g"
  "at_clientId (new_token E now random g) = g_clientId g" "at_scope (new_token E now random g) = g_scope g"
  "at_type (new_token E now random g) = ''bearer''"
  by (simp_all add: new_token_def AccessToken_generate_def)

lemma new_token_ttl: "0 < expiration_accessToken E \<Longrightarrow> 0 \<le> g_ttl g \<Longrightarrow> 1 \<le> AccessToken_ttl now (new_token E now random g)"
  by (simp add: new_token_def AccessToken_generate_def AccessToken_ttl_def)

lemma find_joined_append:
  assumes "tr_token r \<notin> tr_token ` set (my_tokens m)"
  shows "\<exists>c. find_joined (m\<lparr> my_tokens := my_tokens m @ [r] \<rparr>) (tr_token r) = Some (r, c)"
proof -
  have "filter (\<lambda>t. tr_token t = tr_token r) (my_tokens m) = []" using assms by (auto simp: filter_empty_conv image_iff)
  then show ?thesis by (simp add: find_joined_row firstRow_def)
qed

lemma stored_token:
  assumes "db_reached E now db" and E: "env_ok E" and scope: "ok_set (hostParser E) (g_scope g)"
    and fresh: "fresh_id (sha256 E random) (db_redis db)"
    and ttl: "0 \<le> g_ttl g" "g_ttl g \<le> expiration_accessToken E div 1000"
    and g: "generateAccessToken E now random g db = Inr (t, db')"
  shows "\<exists>t'. getAccessToken E now (sha256 E random) db' = Inr (Some t') \<and> at_userId t' = g_userId g \<and>
    at_clientId t' = g_clientId g \<and> scopes_of (at_scope t') = scopes_of (g_scope g) \<and>
    (g_clientId g \<in> set (POCKET_IDS E) \<or> now \<le> at_expiresAt t')"
proof -
  let ?i = "sha256 E random"
  have t: "t = new_token E now random g" using generateAccessToken_Inr [OF g] by blast
  have ok: "db_ok E now db" using db_reached_ok assms(1,2) by blast
  obtain S' where S': "fromString (hostParser E) (toString (g_scope g)) = Inr S'" "scopes_of S' = scopes_of (g_scope g)"
    using print_parse [OF scope] by blast
  show ?thesis
  proof (cases "g_clientId g \<in> set (POCKET_IDS E)")
    case True
    then obtain m where m: "generateAccessToken_mysql now t (db_mysql db) = Inr m" "db' = db\<lparr> db_mysql := m \<rparr>"
      using generateAccessToken_Inr [OF g] by blast
    obtain r where r: "m = (db_mysql db)\<lparr> my_tokens := my_tokens (db_mysql db) @ [r] \<rparr>" "tr_token r = ?i"
        "tr_token r \<notin> tr_token ` set (my_tokens (db_mysql db))" "tr_userId r = g_userId g" "tr_clientId r = g_clientId g"
        "tr_scope r = toString (g_scope g)"
      using m(1) by (auto simp: generateAccessToken_mysql_def insert_row_def t new_token_fields split: sum.splits if_splits)
    obtain c where c: "find_joined m ?i = Some (r, c)" using find_joined_append [OF r(3)] r(1,2) by auto
    have none: "redis_get now (tc_tokens (db_redis db')) ?i = None" using fresh m(2) by (simp add: fresh_id_def redis_get_def)
    obtain t' where "AccessToken_fromMySQL (hostParser E) (r, c) = Inr t'" and S: "at_scope t' = S'" using S' r(6) by simp
    then show ?thesis
      using c none r(4,5) m(2) S'(2) True fromMySQL_fields [of "hostParser E" r c t'] unfolding getAccessToken_cases by auto
  next
    case False
    then obtain r where r: "FxaRedis_setAccessToken (spop_choice E) (accessTokens_recordLimit E) (expiration_accessToken E)
        now t (db_redis db) = Some r" "db' = db\<lparr> db_redis := r \<rparr>"
      using generateAccessToken_Inr [OF g] by blast
    have life: "1 \<le> AccessToken_ttl now t" "AccessToken_ttl now t \<le> expiration_accessToken E"
      using E ttl new_token_ttl generate_ttl by (simp_all add: t env_ok_def new_token_def)
    then have s: "setAccessToken_script (spop_choice E) now (at_userId t) ?i (AccessToken_toJSON t)
        (accessTokens_recordLimit E) (AccessToken_ttl now t) (expiration_accessToken E) (db_redis db) = Some r"
      using r(1) by (simp add: FxaRedis_setAccessToken_def t new_token_fields)
    have "redis_get now (tc_tokens r) ?i = Some (AccessToken_toJSON t)"
      using setAccessToken_script_ok(2) [OF db_okD(1) [OF ok] fresh _ _ _ life(2) _ s] E life(1)
      by (auto simp: env_ok_def AccessToken_toJSON_def t new_token_fields)
    moreover have "AccessToken_parse (hostParser E) (AccessToken_toJSON t) = Inr (t\<lparr>at_scope := S', at_token := None\<rparr>)"
      using parse_toJSON S'(1) by (simp add: t new_token_fields)
    ultimately have "getAccessToken E now ?i db' = Inr (Some (t\<lparr>at_scope := S', at_token := None\<rparr>))"
      unfolding getAccessToken_cases using r(2) by simp
    moreover have "now \<le> at_expiresAt t" using life(1) by (simp add: AccessToken_ttl_def)
    ultimately show ?thesis using S'(2) by (simp add: t new_token_fields)
  qed
qed

text \<open>
  C14: a generated access token is stored and found under its id, with the user, the client and the
  scopes of the grant, whatever the configuration of JWT access tokens says: the code that skips
  the storage of short-lived JWTs never applies.
\<close>

theorem generated_token_stored:
  assumes "db_reached E now db" and E: "env_ok E" and scope: "ok_set (hostParser E) (g_scope g)"
    and fresh: "fresh_id (sha256 E random) (db_redis db)"
    and ttl: "0 \<le> g_ttl g" "g_ttl g \<le> expiration_accessToken E div 1000"
    and g: "generateAccessToken E now random g db = Inr (t, db')"
  shows "\<exists>t'. getAccessToken E now (sha256 E random) db' = Inr (Some t') \<and> at_userId t' = g_userId g \<and>
    at_clientId t' = g_clientId g \<and> scopes_of (at_scope t') = scopes_of (g_scope g)"
  using stored_token [OF assms] by blast

theorem generated_token_stored_witness:
  "jwtAccessTokens_enabled example_env \<and> g_clientId example_grant \<in> set (jwtAccessTokens_enabledClientIds example_env) \<and>
   g_ttl example_grant * 1000 \<le> SHORT_ACCESS_TOKEN_TTL_IN_MS \<and>
   (\<exists>t'. getAccessToken example_env 0 ''ha1'' example_db = Inr (Some t') \<and> at_userId t' = ''u1'' \<and> at_clientId t' = ''c1'')"
proof -
  obtain t where g: "generateAccessToken example_env 0 ''a1'' example_grant empty_db = Inr (t, example_db)"
    using example_generate by blast
  have s: "ok_set (hostParser example_env) (g_scope example_grant)" by (simp add: example_grant_def)
  have f: "fresh_id (sha256 example_env ''a1'') (db_redis empty_db)"
    by (simp add: fresh_id_def empty_db_def cache_empty_def)
  have l: "0 \<le> g_ttl example_grant" "g_ttl example_grant \<le> expiration_accessToken example_env div 1000" by code_simp+
  have "jwtAccessTokens_enabled example_env \<and> g_clientId example_grant \<in> set (jwtAccessTokens_enabledClientIds example_env) \<and>
      g_ttl example_grant * 1000 \<le> SHORT_ACCESS_TOKEN_TTL_IN_MS" by code_simp
  moreover have "sha256 example_env ''a1'' = ''ha1''" "g_userId example_grant = ''u1''" "g_clientId example_grant = ''c1''"
    by (simp_all add: example_env_def example_grant_def)
  ultimately show ?thesis
    using generated_token_stored [OF db_reached.start example_env_ok s f l g] by (simp only:) blast
qed

end
