(* ===== verification/OAuth_Client.thy ===== *)
theory OAuth_Client
  imports OAuth_DB_Guarantees
begin

text \<open>
  Authentication of OAuth clients: \<open>lib/oauth/client.js\<close> of the auth server, with the patterns of
  \<open>lib/oauth/validators.js\<close>. Credentials are in the request body or in a Basic header, not in both.
\<close>

section \<open>Patterns\<close>

definition hex_digit :: "char \<Rightarrow> bool" where
  "hex_digit c \<longleftrightarrow> (let n = (of_char c :: nat) in 48 \<le> n \<and> n \<le> 57 \<or> 97 \<le> n \<and> n \<le> 102)"

definition HEX_STRING :: "string \<Rightarrow> bool" where
  "HEX_STRING s \<longleftrightarrow> s \<noteq> [] \<and> even (length s) \<and> list_all hex_digit s"

definition valid_clientId :: "oauth_env \<Rightarrow> string \<Rightarrow> bool" where
  "valid_clientId E s \<longleftrightarrow> length s = unique_id E * 2 \<and> HEX_STRING s"

definition valid_clientSecret :: "oauth_env \<Rightarrow> string \<Rightarrow> bool" where
  "valid_clientSecret E s \<longleftrightarrow> length s = unique_clientSecret E * 2 \<and> HEX_STRING s"

text \<open>White space of JavaScript among the characters below 256.\<close>

definition js_space :: "char \<Rightarrow> bool" where
  "js_space c \<longleftrightarrow> (let n = (of_char c :: nat) in 9 \<le> n \<and> n \<le> 13 \<or> n = 32 \<or> n = 160)"

text \<open>The value of a character in base 64.\<close>

definition base64_value :: "char \<Rightarrow> nat option" where
  "base64_value c =
     (let n = (of_char c :: nat)
      in if 65 \<le> n \<and> n \<le> 90 then Some (n - 65)
         else if 97 \<le> n \<and> n \<le> 122 then Some (n - 71)
         else if 48 \<le> n \<and> n \<le> 57 then Some (n + 4)
         else if n = 43 then Some 62 else if n = 47 then Some 63 else None)"

text \<open>\<open>Buffer.from(s, 'base64').toString()\<close>; bytes beyond ASCII stay bytes, no credential has one.\<close>

fun base64_bytes :: "nat list \<Rightarrow> nat list" where
  "base64_bytes (a # b # c # d # r) =
     (a * 4 + b div 16) # (b mod 16 * 16 + c div 4) # (c mod 4 * 64 + d) # base64_bytes r"
| "base64_bytes [a, b, c] = [a * 4 + b div 16, b mod 16 * 16 + c div 4]"
| "base64_bytes [a, b] = [a * 4 + b div 16]"
| "base64_bytes _ = []"

definition base64_decode :: "string \<Rightarrow> string" where
  "base64_decode s = map char_of (base64_bytes (List.map_filter base64_value s))"

text \<open>\<open>BASIC_AUTH_HEADER.exec\<close>: the group after \<open>Basic\<close> and white space.\<close>

definition BASIC_AUTH_HEADER :: "string \<Rightarrow> string option" where
  "BASIC_AUTH_HEADER h =
     (let rest = drop 5 h; value = dropWhile js_space rest
      in if toLowerCase (take 5 h) = ''basic'' \<and> rest \<noteq> value \<and> value \<noteq> [] \<and>
            list_all (\<lambda>c. base64_value c \<noteq> None) value
         then Some value else None)"

section \<open>Credentials\<close>

record client_params =
  p_client_id :: "string option"
  p_client_secret :: "string option"

record credentials =
  cr_client_id :: "string option"
  cr_client_secret :: "string option"

text \<open>An empty string counts as missing.\<close>

definition given :: "string option \<Rightarrow> bool" where
  "given x \<longleftrightarrow> x \<noteq> None \<and> x \<noteq> Some []"

definition getClientCredentials ::
    "oauth_env \<Rightarrow> string option \<Rightarrow> client_params \<Rightarrow> oauth_error + credentials" where
  "getClientCredentials E authorization params =
     (let creds = \<lparr> cr_client_id = p_client_id params,
                    cr_client_secret = (if given (p_client_secret params) then p_client_secret params else None) \<rparr>
      in if \<not> given authorization then Inr creds
         else
           case BASIC_AUTH_HEADER (the authorization) of
             None \<Rightarrow> Inl InvalidRequestParameter
           | Some b64 \<Rightarrow>
               if given (cr_client_id creds) \<or> given (cr_client_secret creds) then Inl InvalidRequestParameter
               else
                 (case split_on (CHR '':'') (base64_decode b64) of
                    [clientId, clientSecret] \<Rightarrow>
                      if valid_clientId E clientId \<and> valid_clientSecret E clientSecret
                      then Inr \<lparr> cr_client_id = Some clientId, cr_client_secret = Some clientSecret \<rparr>
                      else Inl InvalidRequestParameter
                  | _ \<Rightarrow> Inl InvalidRequestParameter))"

text \<open>\<open>crypto.timingSafeEqual\<close> throws if the lengths differ.\<close>

definition timingSafeEqual :: "string \<Rightarrow> string \<Rightarrow> oauth_error + bool" where
  "timingSafeEqual a b = (if length a \<noteq> length b then Inl CryptoFailure else Inr (a = b))"

text \<open>The validation of the payload ensures that there is an id if there is no header.\<close>

definition getClientById :: "string option \<Rightarrow> mysql_store \<Rightarrow> oauth_error + oauth_client" where
  "getClientById clientId m =
     (case clientId of
        None \<Rightarrow> Inl InvalidRequestParameter
      | Some i \<Rightarrow> (case getClient i m of None \<Rightarrow> Inl (UnknownClient i) | Some c \<Rightarrow> Inr c))"

definition authenticateClient ::
    "oauth_env \<Rightarrow> string option \<Rightarrow> client_params \<Rightarrow> mysql_store \<Rightarrow> oauth_error + oauth_client" where
  "authenticateClient E authorization params m =
     (case getClientCredentials E authorization params of
        Inl e \<Rightarrow> Inl e
      | Inr creds \<Rightarrow>
          (case getClientById (cr_client_id creds) m of
             Inl e \<Rightarrow> Inl e
           | Inr client \<Rightarrow>
               if oc_publicClient client then
                 if given (cr_client_secret creds) then Inl InvalidRequestParameter else Inr client
               else if \<not> given (cr_client_secret creds) then Inl InvalidRequestParameter
               else
                 let submitted = sha256 E (the (cr_client_secret creds))
                 in case timingSafeEqual submitted (oc_hashedSecret client) of
                      Inl e \<Rightarrow> Inl e
                    | Inr True \<Rightarrow> Inr client
                    | Inr False \<Rightarrow>
                        (case oc_hashedSecretPrevious client of
                           None \<Rightarrow> Inl (IncorrectSecret (oc_id client))
                         | Some storedPrevious \<Rightarrow>
                             (case timingSafeEqual submitted storedPrevious of
                                Inl e \<Rightarrow> Inl e
                              | Inr True \<Rightarrow> Inr client
                              | Inr False \<Rightarrow> Inl (IncorrectSecret (oc_id client))))))"

section \<open>Correctness\<close>

text \<open>Hashes have one length, and so do the secrets stored with a client.\<close>

definition hashes_ok :: "oauth_env \<Rightarrow> mysql_store \<Rightarrow> bool" where
  "hashes_ok E m \<longleftrightarrow>
     (\<exists>n. (\<forall>s. length (sha256 E s) = n) \<and>
       (\<forall>c \<in> set (my_clients m). length (oc_hashedSecret c) = n \<and>
          (\<forall>h. oc_hashedSecretPrevious c = Some h \<longrightarrow> length h = n)))"

lemma getClient_mem: "getClient i m = Some c \<Longrightarrow> c \<in> set (my_clients m) \<and> oc_id c = i"
  by (auto simp: getClient_def firstRow_def filter_eq_Cons_iff split: list.splits)

lemma authenticate_found:
  assumes "hashes_ok E m" and "getClientCredentials E a p = Inr creds" and "getClientById (cr_client_id creds) m = Inr c"
  shows "authenticateClient E a p m =
    (if oc_publicClient c then if given (cr_client_secret creds) then Inl InvalidRequestParameter else Inr c
     else if \<not> given (cr_client_secret creds) then Inl InvalidRequestParameter
     else if sha256 E (the (cr_client_secret creds)) = oc_hashedSecret c \<or>
             Some (sha256 E (the (cr_client_secret creds))) = oc_hashedSecretPrevious c then Inr c
     else Inl (IncorrectSecret (oc_id c)))"
proof -
  obtain i where "getClient i m = Some c"
    using assms(3) by (auto simp: getClientById_def split: option.splits)
  then have c: "c \<in> set (my_clients m)" using getClient_mem by blast
  obtain n where n: "\<And>s. length (sha256 E s) = n" "length (oc_hashedSecret c) = n"
      "\<And>h. oc_hashedSecretPrevious c = Some h \<Longrightarrow> length h = n"
    using assms(1) c unfolding hashes_ok_def by blast
  define x where "x = sha256 E (the (cr_client_secret creds))"
  have x: "length x = n" by (simp add: x_def n(1))
  show ?thesis
  proof (cases "oc_hashedSecretPrevious c")
    case None
    then show ?thesis
      by (simp add: authenticateClient_def assms(2,3) Let_def timingSafeEqual_def n(2) x x_def [symmetric] split: bool.split)
  next
    case (Some h)
    then show ?thesis using n(3) [OF Some]
      by (simp add: authenticateClient_def assms(2,3) Let_def timingSafeEqual_def n(2) x x_def [symmetric] split: bool.split)
  qed
qed

text \<open>
  C15: authentication succeeds exactly for a registered client whose credentials are well-formed
  and fit: a public client sends no secret, any other one a secret whose hash is the stored one or
  the one before.
\<close>

theorem authenticateClient_iff:
  assumes "hashes_ok E m"
  shows "authenticateClient E a p m = Inr c \<longleftrightarrow>
    (\<exists>creds i. getClientCredentials E a p = Inr creds \<and> cr_client_id creds = Some i \<and> getClient i m = Some c \<and>
      (if oc_publicClient c then \<not> given (cr_client_secret creds)
       else given (cr_client_secret creds) \<and>
         sha256 E (the (cr_client_secret creds)) \<in> insert (oc_hashedSecret c) (set_option (oc_hashedSecretPrevious c))))"
    (is "?l \<longleftrightarrow> ?r")
proof
  assume l: ?l
  obtain creds where creds: "getClientCredentials E a p = Inr creds"
    using l by (auto simp: authenticateClient_def split: sum.splits)
  then obtain d where d: "getClientById (cr_client_id creds) m = Inr d"
    using l by (auto simp: authenticateClient_def split: sum.splits)
  then obtain i where i: "cr_client_id creds = Some i" "getClient i m = Some d"
    by (auto simp: getClientById_def split: option.splits)
  show ?r using l authenticate_found [OF assms creds d] creds i
    by (auto split: if_splits intro!: exI [of _ creds] exI [of _ i])
next
  assume ?r
  then obtain creds i where r: "getClientCredentials E a p = Inr creds" "cr_client_id creds = Some i" "getClient i m = Some c"
      "if oc_publicClient c then \<not> given (cr_client_secret creds)
       else given (cr_client_secret creds) \<and>
         sha256 E (the (cr_client_secret creds)) \<in> insert (oc_hashedSecret c) (set_option (oc_hashedSecretPrevious c))"
    by blast
  have "getClientById (cr_client_id creds) m = Inr c" using r(2,3) by (simp add: getClientById_def)
  from authenticate_found [OF assms r(1) this] r(4) show ?l by (auto split: if_splits)
qed

definition example_client :: oauth_client where
  "example_client =
     \<lparr> oc_id = ''c1'', oc_name = ''RP'', oc_imageUri = [], oc_hashedSecret = ''0000'',
       oc_hashedSecretPrevious = Some ''1111'', oc_redirectUri = ''https://rp/cb'', oc_trusted = False,
       oc_allowedScopes = None, oc_canGrant = False, oc_publicClient = False \<rparr>"

definition example_clients :: mysql_store where
  "example_clients = (db_mysql empty_db)\<lparr> my_clients := [example_client] \<rparr>"

theorem authenticateClient_iff_witness:
  "let E = example_env\<lparr> sha256 := (\<lambda>s. if s = ''old'' then ''1111'' else ''2222'') \<rparr>;
       try = (\<lambda>s. authenticateClient E None \<lparr> p_client_id = Some ''c1'', p_client_secret = s \<rparr> example_clients)
   in try (Some ''old'') = Inr example_client \<and> try (Some ''bad'') \<noteq> Inr example_client \<and> try None \<noteq> Inr example_client"
proof -
  define E where "E = example_env\<lparr> sha256 := (\<lambda>s. if s = ''old'' then ''1111'' else ''2222'') \<rparr>"
  have h: "hashes_ok E example_clients"
    by (auto simp: hashes_ok_def E_def example_clients_def example_client_def)
  have c: "getClient ''c1'' example_clients = Some example_client" by code_simp
  note i = authenticateClient_iff [OF h, where a = None and c = example_client]
  have "sha256 E ''old'' = ''1111''" "sha256 E ''bad'' = ''2222''" by (simp_all add: E_def)
  then show ?thesis unfolding Let_def E_def [symmetric] i
    using c by (simp add: getClientCredentials_def given_def) (simp add: example_client_def)
qed

end
