(* ===== verification/Base64.thy ===== *)
theory Base64
  imports OAuth_Client
begin

text \<open>
  The encodings of digests: hexadecimal, base 64 and its variant for URLs
  (\<open>base64URLEncode\<close> in \<open>lib/oauth/util.js\<close> of the auth server). Encoding loses nothing.
\<close>

section \<open>Encoders\<close>

text \<open>\<open>Buffer.from(s, 'hex')\<close> stops at the first pair that is not hexadecimal.\<close>

fun hex_bytes :: "string \<Rightarrow> nat list" where
  "hex_bytes (a # b # r) =
     (case (hex_value a, hex_value b) of (Some x, Some y) \<Rightarrow> (16 * x + y) # hex_bytes r | _ \<Rightarrow> [])"
| "hex_bytes _ = []"

definition base64_char :: "nat \<Rightarrow> char" where
  "base64_char n =
     char_of (if n < 26 then n + 65 else if n < 52 then n + 71 else if n < 62 then n - 4
              else if n = 62 then 43 else 47)"

text \<open>\<open>buf.toString('base64')\<close>\<close>

fun base64_encode :: "nat list \<Rightarrow> string" where
  "base64_encode (a # b # c # r) =
     [base64_char (a div 4), base64_char (a mod 4 * 16 + b div 16),
      base64_char (b mod 16 * 4 + c div 64), base64_char (c mod 64)] @ base64_encode r"
| "base64_encode [a, b] =
     [base64_char (a div 4), base64_char (a mod 4 * 16 + b div 16), base64_char (b mod 16 * 4), CHR ''='']"
| "base64_encode [a] = [base64_char (a div 4), base64_char (a mod 4 * 16), CHR ''='', CHR ''='']"
| "base64_encode [] = []"

definition base64URLEncode :: "nat list \<Rightarrow> string" where
  "base64URLEncode b =
     filter (\<lambda>c. c \<noteq> CHR ''='')
       (map (\<lambda>c. if c = CHR ''/'' then CHR ''_'' else c)
         (map (\<lambda>c. if c = CHR ''+'' then CHR ''-'' else c) (base64_encode b)))"

section \<open>Decoding\<close>

lemma base64_value_char:
  assumes "n < 64"
  shows "base64_value (base64_char n) = Some n"
proof -
  consider "n < 26" | "26 \<le> n" "n < 52" | "52 \<le> n" "n < 62" | "n = 62" | "n = 63" using assms by linarith
  then show ?thesis by cases (auto simp: base64_char_def base64_value_def Let_def)
qed

lemma base64_value_pad: "base64_value (CHR ''='') = None"
  by code_simp

lemmas base64_values = base64_value_char base64_value_pad map_filter_simps

lemma byte_split:
  fixes a b c :: nat
  assumes "a < 256" "b < 256" "c < 256"
  shows "a div 4 < 64" "a mod 4 * 16 + b div 16 < 64" "b mod 16 * 4 + c div 64 < 64" "c mod 64 < 64"
    "a mod 4 * 16 < 64" "b mod 16 * 4 < 64"
    "a div 4 * 4 + (a mod 4 * 16 + b div 16) div 16 = a"
    "(a mod 4 * 16 + b div 16) mod 16 * 16 + (b mod 16 * 4 + c div 64) div 4 = b"
    "(b mod 16 * 4 + c div 64) mod 4 * 64 + c mod 64 = c"
    "a div 4 * 4 + a mod 4 * 16 div 16 = a"
    "(a mod 4 * 16 + b div 16) mod 16 * 16 + b mod 16 * 4 div 4 = b"
proof -
  have less: "a div 4 < 64" "b div 16 < 16" "c div 64 < 4" using assms by simp_all
  have s1: "(a mod 4 * 16 + b div 16) div 16 = a mod 4" "(a mod 4 * 16 + b div 16) mod 16 = b div 16"
    using less by simp_all
  have s2: "(b mod 16 * 4 + c div 64) div 4 = b mod 16" "(b mod 16 * 4 + c div 64) mod 4 = c div 64"
    using less by simp_all
  have m: "a mod 4 < 4" "b mod 16 < 16" "c mod 64 < 64" by simp_all
  show "a div 4 < 64" "c mod 64 < 64" by (fact less m)+
  show "a mod 4 * 16 + b div 16 < 64" "b mod 16 * 4 + c div 64 < 64" "a mod 4 * 16 < 64" "b mod 16 * 4 < 64"
    using less m by linarith+
  show "a div 4 * 4 + (a mod 4 * 16 + b div 16) div 16 = a"
    "(a mod 4 * 16 + b div 16) mod 16 * 16 + (b mod 16 * 4 + c div 64) div 4 = b"
    "(b mod 16 * 4 + c div 64) mod 4 * 64 + c mod 64 = c"
    unfolding s1 s2 by (rule div_mult_mod_eq)+
  show "a div 4 * 4 + a mod 4 * 16 div 16 = a" using div_mult_mod_eq [of a 4] by simp
  show "(a mod 4 * 16 + b div 16) mod 16 * 16 + b mod 16 * 4 div 4 = b"
    unfolding s1 using div_mult_mod_eq [of b 16] by simp
qed

lemma base64_roundtrip:
  "list_all (\<lambda>b. b < 256) bs \<Longrightarrow> base64_bytes (List.map_filter base64_value (base64_encode bs)) = bs"
proof (induction bs rule: base64_encode.induct)
  case (1 a b c r)
  then show ?case using byte_split [of a b c] by (simp add: base64_values)
next
  case (2 a b)
  then show ?case using byte_split [of a b 0] by (simp add: base64_values)
next
  case (3 a)
  then show ?case using byte_split [of a 0 0] by (simp add: base64_values)
qed (simp add: base64_values)

text \<open>The value of a character of the variant for URLs.\<close>

definition base64url_value :: "char \<Rightarrow> nat option" where
  "base64url_value c =
     base64_value (if c = CHR ''-'' then CHR ''+'' else if c = CHR ''_'' then CHR ''/'' else c)"

definition url_char :: "char \<Rightarrow> char" where
  "url_char c = (let d = (if c = CHR ''+'' then CHR ''-'' else c) in if d = CHR ''/'' then CHR ''_'' else d)"

lemma base64_signs:
  "base64_value (CHR ''+'') = Some 62" "base64_value (CHR ''/'') = Some 63"
  "base64_value (CHR ''-'') = None" "base64_value (CHR ''_'') = None"
  by code_simp+

lemma url_char_value:
  assumes "n < 64"
  shows "url_char (base64_char n) \<noteq> CHR ''='' \<and> base64url_value (url_char (base64_char n)) = Some n"
proof -
  let ?c = "base64_char n"
  have c: "base64_value ?c = Some n" by (rule base64_value_char [OF assms])
  then have "?c \<noteq> CHR ''=''" "?c \<noteq> CHR ''-''" "?c \<noteq> CHR ''_''"
    using base64_value_pad base64_signs(3,4) by auto
  with c show ?thesis using base64_signs(1,2) by (auto simp: url_char_def base64url_value_def Let_def)
qed

lemma url_char_pad: "url_char (CHR ''='') = CHR ''=''"
  by code_simp

lemma base64URLEncode_chars: "base64URLEncode b = filter (\<lambda>c. c \<noteq> CHR ''='') (map url_char (base64_encode b))"
  by (simp add: base64URLEncode_def url_char_def [abs_def] comp_def Let_def)

lemma base64url_values:
  "list_all (\<lambda>b. b < 256) bs \<Longrightarrow>
   List.map_filter base64url_value (base64URLEncode bs) = List.map_filter base64_value (base64_encode bs)"
  unfolding base64URLEncode_chars
proof (induction bs rule: base64_encode.induct)
  case (1 a b c r)
  then show ?case using byte_split [of a b c] by (simp add: base64_values url_char_value)
next
  case (2 a b)
  then show ?case using byte_split [of a b 0] by (simp add: base64_values url_char_value url_char_pad)
next
  case (3 a)
  then show ?case using byte_split [of a 0 0] by (simp add: base64_values url_char_value url_char_pad)
qed simp

lemma base64URLEncode_inj:
  assumes "list_all (\<lambda>b. b < 256) bs" "list_all (\<lambda>b. b < 256) cs" "base64URLEncode bs = base64URLEncode cs"
  shows "bs = cs"
  using base64_roundtrip [OF assms(1)] base64_roundtrip [OF assms(2)] base64url_values [OF assms(1)]
    base64url_values [OF assms(2)] assms(3) by simp

lemma hex_value_less: "hex_value c = Some v \<Longrightarrow> v < 16"
  by (auto simp: hex_value_def Let_def split: if_splits)

lemma hex_bytes_less: "list_all (\<lambda>b. b < 256) (hex_bytes s)"
proof (induction s rule: hex_bytes.induct)
  case (1 a b r)
  then show ?case using hex_value_less [of a] hex_value_less [of b] by (fastforce split: option.split)
qed simp_all

end
