(* ===== verification/OAuth_Grant.thy ===== *)
theory OAuth_Grant
  imports Base64
begin

text \<open>
  Grants: \<open>lib/oauth/grant.js\<close> of the auth server, with \<open>jwt_sub.js\<close>, \<open>jwt_access_token.js\<close> and
  \<open>util.js\<close> beside it. A request with verified identity claims is checked against the client's
  configuration; a grant turns into an access token, and into a refresh token and an id token if it
  asks for them.

  The library that signs JSON web tokens, HKDF, the verifier of assertions, the capability service
  and the parser of redirect URLs are functions in the record \<open>services\<close>. The random bytes of new tokens are arguments.
\<close>

section \<open>Steps that may throw\<close>

definition and_then :: "'e + 'a \<Rightarrow> ('a \<Rightarrow> 'e + 'b) \<Rightarrow> 'e + 'b" where
  "and_then r f = (case r of Inl e \<Rightarrow> Inl e | Inr x \<Rightarrow> f x)"

definition require :: "bool \<Rightarrow> 'e \<Rightarrow> 'e + unit" where
  "require b e = (if b then Inr () else Inl e)"

lemma and_then_simps [simp]: "and_then (Inl e) f = Inl e" "and_then (Inr x) f = f x"
  by (simp_all add: and_then_def)

lemma and_then_Inr: "and_then r f = Inr y \<longleftrightarrow> (\<exists>x. r = Inr x \<and> f x = Inr y)"
  by (simp add: and_then_def split: sum.split)

lemma and_then_const: "(\<exists>y. and_then r (\<lambda>_. f) = Inr y) \<longleftrightarrow> (\<exists>x. r = Inr x) \<and> (\<exists>y. f = Inr y)"
  by (auto simp: and_then_Inr)

lemma require_Inr [simp]: "require b e = Inr u \<longleftrightarrow> b"
  by (simp add: require_def)

lemma scope_result_simps [simp]: "scope_result (Inr x) = Inr x" "scope_result r = Inr y \<longleftrightarrow> r = Inr y"
  by (simp_all add: scope_result_def split: sum.split)

section \<open>Claims and requests\<close>

text \<open>A missing number is 0, a missing truth value false.\<close>

record claims =
  c_uid :: string
  c_generation :: int
  c_verifiedEmail :: string
  c_lastAuthAt :: int
  c_iat :: int
  c_tokenVerified :: bool
  c_sessionTokenId :: "string option"
  c_amr :: "string list option"
  c_aal :: int
  c_profileChangedAt :: int
  c_keysChangedAt :: int

record requested =
  rq_scope :: "scope_set option"
  rq_acr_values :: "string option"
  rq_access_type :: "string option"
  rq_keys_jwe :: "string option"

datatype audience = Single string | Several "string list"

text \<open>The claims of a signed access token, and those of an id token.\<close>

record access_claims =
  ac_aud :: audience
  ac_client_id :: string
  ac_exp :: int
  ac_iat :: int
  ac_jti :: "string option"
  ac_scope :: string
  ac_sub :: string
  ac_subscriptions :: "string option"
  ac_generation :: int
  ac_profileChangedAt :: int

record id_claims =
  ic_sub :: string
  ic_aud :: audience
  ic_iat :: int
  ic_exp :: int
  ic_at_hash :: string
  ic_amr :: "string list option"
  ic_aal :: int
  ic_acr :: "string option"
  ic_auth_time :: "int option"

record services =
  sign_access :: "access_claims \<Rightarrow> string"
  verify_access :: "int \<Rightarrow> string \<Rightarrow> access_claims option"
  sign_id :: "id_claims \<Rightarrow> string"
  verify_assertion :: "string \<Rightarrow> claims option"
  subscriptions :: "string \<Rightarrow> string \<Rightarrow> string option \<Rightarrow> string list"
  sv_hkdf :: "string \<Rightarrow> string \<Rightarrow> string \<Rightarrow> nat \<Rightarrow> string"
  openid_ttl :: int
  syncTokenserverUrl :: string
  ppid_enabled :: bool
  ppid_enabledClientIds :: "string list"
  ppid_rotatingClientIds :: "string list"
  ppid_rotationPeriodMS :: int
  ppid_salt :: string
  localRedirects :: bool
  url_hostname :: "string \<Rightarrow> string option"
  url_with_params :: "string \<Rightarrow> (string \<times> string) list \<Rightarrow> string"
  disableNewConnectionsForClients :: "string list"

section \<open>The hash of an access token\<close>

definition generateTokenHash :: "oauth_env \<Rightarrow> string \<Rightarrow> string" where
  "generateTokenHash E accessToken =
     (let hash = hex_bytes (sha256 E accessToken)
      in base64URLEncode (take (length hash div 2) hash))"

section \<open>Checking a request\<close>

definition trim :: "string \<Rightarrow> string" where
  "trim s = rev (dropWhile js_space (rev (dropWhile js_space s)))"

text \<open>\<open>trim().split(/\s+/g)\<close>\<close>

definition acrTokens :: "string \<Rightarrow> string list" where
  "acrTokens s =
     (let t = trim s
      in if t = [] then [[]]
         else filter (\<lambda>w. w \<noteq> [])
                (split_on (CHR '' '') (map (\<lambda>c. if js_space c then CHR '' '' else c) t)))"

definition ACR_VALUE_AAL2 :: string where
  "ACR_VALUE_AAL2 = ''AAL2''"

definition UNTRUSTED_CLIENT_ALLOWED_SCOPES :: "(string \<Rightarrow> string option) \<Rightarrow> scope_set" where
  "UNTRUSTED_CLIENT_ALLOWED_SCOPES hp =
     (case fromArray hp [''openid'', ''profile:uid'', ''profile:email'', ''profile:display_name''] of
        Inr S \<Rightarrow> S | Inl _ \<Rightarrow> empty_set)"

definition SCOPE_OPENID :: "(string \<Rightarrow> string option) \<Rightarrow> scope_set" where
  "SCOPE_OPENID hp = (case fromArray hp [''openid''] of Inr S \<Rightarrow> S | Inl _ \<Rightarrow> empty_set)"

definition OAUTH_SCOPE_SESSION_TOKEN :: string where
  "OAUTH_SCOPE_SESSION_TOKEN = ''https://identity.mozilla.com/tokens/session''"

definition OAUTH_SCOPE_OLD_SYNC :: string where
  "OAUTH_SCOPE_OLD_SYNC = ''https://identity.mozilla.com/apps/oldsync''"

definition requested_scope :: "requested \<Rightarrow> scope_set" where
  "requested_scope requestedGrant = (case rq_scope requestedGrant of Some S \<Rightarrow> S | None \<Rightarrow> empty_set)"

text \<open>The body of the loop over the scopes, with \<open>requiresVerifiedToken\<close>, \<open>scopeConfig\<close> and \<open>customScopes\<close>.\<close>

fun check_scope ::
    "oauth_env \<Rightarrow> mysql_store \<Rightarrow> string \<Rightarrow> bool \<times> (string \<times> scope_row option) list \<times> scope_set \<Rightarrow>
     oauth_error + bool \<times> (string \<times> scope_row option) list \<times> scope_set" where
  "check_scope E m scope (requiresVerifiedToken, scopeConfig, customScopes) =
     (case getScope scope m of
        None \<Rightarrow> Inr (requiresVerifiedToken, scopeConfig @ [(scope, None)], customScopes)
      | Some s \<Rightarrow>
          and_then (scope_result (ScopeSet_add (hostParser E) (StringArg scope) customScopes)) (\<lambda>custom.
          Inr (requiresVerifiedToken \<or> sr_hasScopedKeys s, scopeConfig @ [(scope, Some s)], custom)))"

definition none_invalid :: "oauth_env \<Rightarrow> scope_set \<Rightarrow> scope_set \<Rightarrow> oauth_error + unit" where
  "none_invalid E scope allowed =
     and_then (scope_result (ScopeSet_difference (hostParser E) (ScopeSetArg allowed) scope)) (\<lambda>invalidScopes.
     require (isEmpty invalidScopes) (InvalidScopes (getScopeValues invalidScopes)))"

definition allowedScopes :: "oauth_client \<Rightarrow> string" where
  "allowedScopes client = (case oc_allowedScopes client of Some s \<Rightarrow> s | None \<Rightarrow> [])"

definition grant_of ::
    "claims \<Rightarrow> oauth_client \<Rightarrow> requested \<Rightarrow> (string \<times> scope_row option) list \<Rightarrow> grant" where
  "grant_of verifiedClaims client requestedGrant scopeConfig =
     \<lparr> g_clientId = oc_id client, g_name = oc_name client, g_canGrant = oc_canGrant client,
       g_publicClient = oc_publicClient client, g_userId = c_uid verifiedClaims,
       g_email = Some (c_verifiedEmail verifiedClaims), g_scope = requested_scope requestedGrant, g_scopeConfig = scopeConfig,
       g_sessionTokenId = c_sessionTokenId verifiedClaims,
       g_offline = (rq_access_type requestedGrant = Some ''offline''),
       g_authAt = c_lastAuthAt verifiedClaims, g_amr = c_amr verifiedClaims, g_aal = c_aal verifiedClaims,
       g_profileChangedAt = c_profileChangedAt verifiedClaims, g_keysJwe = rq_keys_jwe requestedGrant,
       g_generation = c_generation verifiedClaims, g_ppidSeed = 0, g_resource = None, g_ttl = 0 \<rparr>"

definition validateRequestedGrant ::
    "oauth_env \<Rightarrow> claims \<Rightarrow> oauth_client \<Rightarrow> requested \<Rightarrow> mysql_store \<Rightarrow> oauth_error + grant" where
  "validateRequestedGrant E verifiedClaims client requestedGrant m =
     (let scope = requested_scope requestedGrant; acr = rq_acr_values requestedGrant
      in and_then
           (require (\<not> (given acr \<and> ACR_VALUE_AAL2 \<in> set (acrTokens (the acr)) \<and> \<not> 2 \<le> c_aal verifiedClaims))
              (MismatchAcr (c_aal verifiedClaims))) (\<lambda>_.
         and_then
           (if oc_trusted client then Inr ()
            else none_invalid E scope (UNTRUSTED_CLIENT_ALLOWED_SCOPES (hostParser E))) (\<lambda>_.
         and_then (fold_sum (check_scope E m) (getScopeValues scope) (False, [], empty_set))
           (\<lambda>(requiresVerifiedToken, scopeConfig, customScopes).
         and_then
           (if isEmpty customScopes then Inr ()
            else and_then (scope_result (fromString (hostParser E) (allowedScopes client)))
                   (none_invalid E customScopes)) (\<lambda>_.
         and_then (require (\<not> (requiresVerifiedToken \<and> \<not> c_tokenVerified verifiedClaims)) InvalidAssertion) (\<lambda>_.
         Inr (grant_of verifiedClaims client requestedGrant scopeConfig)))))))"

section \<open>Generating tokens\<close>

text \<open>The input of HKDF for a pairwise pseudonymous identifier.\<close>

definition ppid_input :: "string \<Rightarrow> string \<Rightarrow> int \<Rightarrow> int \<Rightarrow> string" where
  "ppid_input clientIdHex userIdHex clientSeed timeBasedContext =
     clientIdHex @ ''.'' @ userIdHex @ ''.'' @ show_int clientSeed @ ''.'' @ show_int timeBasedContext"

definition generateSub :: "services \<Rightarrow> int \<Rightarrow> string \<Rightarrow> string \<Rightarrow> int \<Rightarrow> oauth_error + string" where
  "generateSub V now userId clientId clientSeed =
     (if \<not> (0 \<le> clientSeed \<and> clientSeed \<le> 1024) then Inl CryptoFailure
      else
        let clientIdHex = toLowerCase clientId; userIdHex = toLowerCase userId
        in if ppid_enabled V \<and> clientIdHex \<in> set (ppid_enabledClientIds V) then
             let timeBasedContext =
                   (if clientIdHex \<in> set (ppid_rotatingClientIds V) then now div ppid_rotationPeriodMS V else 0)
             in Inr (sv_hkdf V (ppid_input clientIdHex userIdHex clientSeed timeBasedContext) ''oidc ppid sub''
                       (ppid_salt V) (length userId div 2))
           else Inr userIdHex)"

definition generateJWTAccessToken ::
    "oauth_env \<Rightarrow> services \<Rightarrow> int \<Rightarrow> access_token \<Rightarrow> grant \<Rightarrow> string list option \<Rightarrow> oauth_error + string" where
  "generateJWTAccessToken E V now accessToken grant fxa_subscriptions =
     and_then
       (case g_resource grant of
          Some resource \<Rightarrow> Inr (Several [g_clientId grant, resource])
        | None \<Rightarrow>
            and_then (scope_result (ScopeSet_contains (hostParser E) (StringArg OAUTH_SCOPE_OLD_SYNC) (g_scope grant)))
              (\<lambda>sync. Inr (Single (if sync then syncTokenserverUrl V else g_clientId grant)))) (\<lambda>audience.
     and_then (generateSub V now (g_userId grant) (g_clientId grant) (g_ppidSeed grant)) (\<lambda>sub.
     Inr (sign_access V
       \<lparr> ac_aud = audience, ac_client_id = g_clientId grant, ac_exp = at_expiresAt accessToken div 1000,
         ac_iat = now div 1000, ac_jti = at_token accessToken, ac_scope = toString (g_scope grant), ac_sub = sub,
         ac_subscriptions = map_option (join_with (CHR '' '')) fxa_subscriptions,
         ac_generation = g_generation grant, ac_profileChangedAt = g_profileChangedAt grant \<rparr>)))"

text \<open>
  The token with its signed form, if the client is to have one. An operation that changes the
  database and may throw gives the database in both cases.
\<close>

definition grant_generateAccessToken ::
    "oauth_env \<Rightarrow> services \<Rightarrow> int \<Rightarrow> string \<Rightarrow> grant \<Rightarrow> oauth_db \<Rightarrow>
     (oauth_error + access_token \<times> string option) \<times> oauth_db" where
  "grant_generateAccessToken E V now random grant db =
     (case generateAccessToken E now random grant db of
        Inl e \<Rightarrow> (Inl e, db)
      | Inr (accessToken, db') \<Rightarrow>
          (if \<not> jwtAccessTokens_enabled E \<or> toLowerCase (g_clientId grant) \<notin> set (jwtAccessTokens_enabledClientIds E)
           then Inr (accessToken, None)
           else
             and_then (scope_result
                 (ScopeSet_contains (hostParser E) (StringArg ''profile:subscriptions'') (g_scope grant))) (\<lambda>subscribed.
             and_then (generateJWTAccessToken E V now accessToken grant
                 (if subscribed then Some (subscriptions V (g_clientId grant) (g_userId grant) (g_email grant))
                  else None)) (\<lambda>jwt_token.
             Inr (accessToken, Some jwt_token))), db'))"

definition generateIdToken ::
    "oauth_env \<Rightarrow> services \<Rightarrow> int \<Rightarrow> grant \<Rightarrow> string \<Rightarrow> oauth_error + string" where
  "generateIdToken E V now grant accessToken =
     and_then (generateSub V now (g_userId grant) (g_clientId grant) (g_ppidSeed grant)) (\<lambda>sub.
     Inr (sign_id V
       \<lparr> ic_sub = sub,
         ic_aud = (case g_resource grant of
                     Some resource \<Rightarrow> Several [g_clientId grant, resource] | None \<Rightarrow> Single (g_clientId grant)),
         ic_iat = now div 1000, ic_exp = now div 1000 + openid_ttl V div 1000,
         ic_at_hash = generateTokenHash E accessToken, ic_amr = g_amr grant, ic_aal = g_aal grant,
         ic_acr = (if g_aal grant \<noteq> 0 then Some (''AAL'' @ show_int (g_aal grant)) else None),
         ic_auth_time = (if g_authAt grant \<noteq> 0 then Some (g_authAt grant div 1000) else None) \<rparr>))"

record tokens =
  tk_access_token :: string
  tk_token_type :: string
  tk_scope :: string
  tk_expires_in :: int
  tk_auth_at :: int
  tk_keys_jwe :: "string option"
  tk_refresh_token :: "string option"
  tk_id_token :: "string option"
  tk_session_token_id :: "string option"

definition generateTokens ::
    "oauth_env \<Rightarrow> services \<Rightarrow> int \<Rightarrow> string \<Rightarrow> string \<Rightarrow> grant \<Rightarrow> oauth_db \<Rightarrow> (oauth_error + tokens) \<times> oauth_db" where
  "generateTokens E V now random1 random2 grant db =
     (case grant_generateAccessToken E V now random1 grant db of
        (Inl e, db1) \<Rightarrow> (Inl e, db1)
      | (Inr (access, jwt_token), db1) \<Rightarrow>
          let access_token = (case jwt_token of Some j \<Rightarrow> j | None \<Rightarrow> random1);
              result = \<lparr> tk_access_token = access_token, tk_token_type = at_type access,
                         tk_scope = toString (at_scope access),
                         tk_expires_in =
                           (if g_ttl grant \<noteq> 0 then g_ttl grant else (at_expiresAt access - now) div 1000),
                         tk_auth_at = g_authAt grant, tk_keys_jwe = g_keysJwe grant, tk_refresh_token = None,
                         tk_id_token = None, tk_session_token_id = None \<rparr>
          in case (if g_offline grant then
                     (case generateRefreshToken (sha256 E) now random2 grant (db_mysql db1) of
                        Inl e \<Rightarrow> Inl (MysqlFailure e)
                      | Inr (refresh, m) \<Rightarrow> Inr (Some refresh, db1\<lparr> db_mysql := m \<rparr>))
                   else Inr (None, db1)) of
               Inl e \<Rightarrow> (Inl e, db1)
             | Inr (refresh, db2) \<Rightarrow>
                 (and_then (scope_result (ScopeSet_contains (hostParser E)
                     (ScopeSetArg (SCOPE_OPENID (hostParser E))) (g_scope grant))) (\<lambda>openid.
                  and_then (if openid then and_then (generateIdToken E V now grant access_token) (\<lambda>t. Inr (Some t))
                            else Inr None) (\<lambda>id_token.
                  and_then (scope_result (ScopeSet_contains (hostParser E)
                     (StringArg OAUTH_SCOPE_SESSION_TOKEN) (g_scope grant))) (\<lambda>session.
                  Inr (result\<lparr> tk_refresh_token := refresh, tk_id_token := id_token,
                               tk_session_token_id := (if session then g_sessionTokenId grant else None) \<rparr>)))), db2))"

end
