(* ===== verification/OAuth_Grant_Laws.thy ===== *)
theory OAuth_Grant_Laws
  imports OAuth_Grant
begin

text \<open>
  What the checks of a requested grant and the generation of tokens promise.
\<close>

section \<open>The checks of a requested grant\<close>

lemma add_to_empty:
  assumes "addScope s X empty_set = Inr S" and "\<not> hasSomeScope empty_set X"
  shows "scopesToImplicants S = [(s, X)]"
  using assms by (auto simp: addScope_def iterImpliedScopes_def empty_set_def split: sum.splits if_splits)

lemma add_string:
  assumes X: "getImplicantValues hp s = Inr X" "set X \<inter> set object_prototype_keys = {}"
  shows "ScopeSet_add hp (StringArg s) R = build (getImplicantValues hp) [s] R"
proof -
  have free: "\<not> hasSomeScope empty_set (new_set X)" using X(2) by (auto simp: hasSomeScope_iff)
  have "valid_scope hp s" using X(1) by (simp add: valid_scope_Inr)
  then obtain S where "new_ScopeSet hp [s] = Inr S" using new_ScopeSet_ok [of "[s]" hp] by auto
  moreover from this have "addScope s (new_set X) empty_set = Inr S"
    using X(1) by (simp add: new_ScopeSet_def split: sum.splits)
  then have "scopesToImplicants S = [(s, new_set X)]" using add_to_empty free by blast
  then have "object_entries (scopesToImplicants S) = [(s, new_set X)]" by (simp add: object_entries_def)
  ultimately show ?thesis using X(1) by (simp add: ScopeSet_add_def add_scopes_def build_def split: sum.split)
qed

text \<open>The scopes of a request that the server has a configuration for.\<close>

definition custom :: "mysql_store \<Rightarrow> string \<Rightarrow> bool" where
  "custom m s \<longleftrightarrow> getScope s m \<noteq> None"

definition keyed :: "mysql_store \<Rightarrow> string \<Rightarrow> bool" where
  "keyed m s \<longleftrightarrow> (case getScope s m of Some r \<Rightarrow> sr_hasScopedKeys r | None \<Rightarrow> False)"

lemma check_scopes:
  assumes "\<forall>s \<in> set ss. \<exists>X. getImplicantValues (hostParser E) s = Inr X \<and> set X \<inter> set object_prototype_keys = {}"
    and "build (getImplicantValues (hostParser E)) (filter (custom m) ss) R = Inr R'"
  shows "fold_sum (check_scope E m) ss (v, cfg, R) =
    Inr (v \<or> list_ex (keyed m) ss, cfg @ map (\<lambda>s. (s, getScope s m)) ss, R')"
  using assms
proof (induction ss arbitrary: v cfg R)
  case Nil
  then show ?case by (simp add: build_def)
next
  case (Cons s ss)
  obtain X where X: "getImplicantValues (hostParser E) s = Inr X" "set X \<inter> set object_prototype_keys = {}"
    using Cons.prems(1) by auto
  show ?case
  proof (cases "getScope s m")
    case None
    with Cons show ?thesis by (simp add: custom_def keyed_def)
  next
    case (Some r)
    then have s: "custom m s" by (simp add: custom_def)
    obtain R1 where R1: "build (getImplicantValues (hostParser E)) [s] R = Inr R1"
        "build (getImplicantValues (hostParser E)) (filter (custom m) ss) R1 = Inr R'"
      using Cons.prems(2) X(1) s by (auto simp: build_def split: sum.splits)
    with Cons Some add_string [OF X, of R] show ?thesis by (simp add: keyed_def)
  qed
qed

lemma isEmpty_scopes: "isEmpty S \<longleftrightarrow> scopes_of S = {}"
  by (simp add: isEmpty_def scopes_of_def)

lemma set_getScopeValues: "set (getScopeValues S) = scopes_of S"
  by (simp add: getScopeValues_def scopes_of_def)

lemma none_invalid_iff:
  assumes "ok_set (hostParser E) S"
  shows "none_invalid E S A = Inr u \<longleftrightarrow> (\<forall>s \<in> scopes_of S. allows (getImplicantValues (hostParser E)) A s)"
proof -
  obtain D where "ScopeSet_difference (hostParser E) (ScopeSetArg A) S = Inr D"
      "scopes_of D = {s \<in> scopes_of S. \<not> allows (getImplicantValues (hostParser E)) A s}"
    using difference_scopes [OF assms, of A] by blast
  then show ?thesis by (auto simp: none_invalid_def and_then_Inr isEmpty_scopes)
qed

lemma custom_scopes:
  assumes ok: "ok_set (hostParser E) S"
  shows "\<exists>C. fold_sum (check_scope E m) (getScopeValues S) (False, [], empty_set) =
      Inr (\<exists>s \<in> scopes_of S. keyed m s, map (\<lambda>s. (s, getScope s m)) (getScopeValues S), C) \<and>
    ok_set (hostParser E) C \<and> scopes_of C = {s \<in> scopes_of S. custom m s}"
proof -
  let ?imp = "getImplicantValues (hostParser E)" and ?ss = "filter (custom m) (getScopeValues S)"
  have each: "\<exists>X. ?imp s = Inr X \<and> set X \<inter> set object_prototype_keys = {}" if s: "s \<in> scopes_of S" for s
  proof -
    obtain X where X: "map_of (scopesToImplicants S) s = Some X" using s unfolding scopes_of_dom by blast
    obtain Y where "?imp s = Inr Y" "set Y = set X" using scope_set_okD(5) [OF ok X] by blast
    with scope_set_okD(4) [OF ok X] show ?thesis by blast
  qed
  have anti: "t = s" if st: "s \<in> scopes_of S" "t \<in> scopes_of S" "implies ?imp t s" for s t
  proof -
    obtain X where X: "map_of (scopesToImplicants S) s = Some X" using st(1) unfolding scopes_of_dom by blast
    obtain Y where "?imp s = Inr Y" "set Y = set X" using scope_set_okD(5) [OF ok X] by blast
    with st(3) have "t \<in> set X" by (simp add: implies_def)
    with scope_set_okD(7) [OF ok X] st(2) show ?thesis by blast
  qed
  have "distinct ?ss"
    using distinct_object_entries [OF scope_set_okD(1) [OF ok]] by (simp add: getScopeValues_def)
  moreover have "\<forall>s \<in> set ?ss. \<exists>X. ?imp s = Inr X \<and> set X \<inter> set object_prototype_keys = {}"
    using each by (simp add: set_getScopeValues)
  moreover have "\<forall>s \<in> set ?ss \<union> scopes_of empty_set. \<forall>t \<in> set ?ss \<union> scopes_of empty_set. implies ?imp t s \<longrightarrow> t = s"
    using anti by (simp add: set_getScopeValues)
  moreover have "set ?ss \<inter> scopes_of empty_set = {}" by simp
  ultimately obtain C where C: "build ?imp ?ss empty_set = Inr C" "ok_set (hostParser E) C"
      "scopes_of C = set ?ss \<union> scopes_of empty_set"
    using scopes.build_antichain [OF empty_set_ok] by blast
  have each': "\<forall>s \<in> set (getScopeValues S). \<exists>X. ?imp s = Inr X \<and> set X \<inter> set object_prototype_keys = {}"
    using each unfolding set_getScopeValues by blast
  have "list_ex (keyed m) (getScopeValues S) \<longleftrightarrow> (\<exists>s \<in> scopes_of S. keyed m s)"
    by (simp add: list_ex_iff set_getScopeValues)
  then have "fold_sum (check_scope E m) (getScopeValues S) (False, [], empty_set) =
      Inr (\<exists>s \<in> scopes_of S. keyed m s, map (\<lambda>s. (s, getScope s m)) (getScopeValues S), C)"
    using check_scopes [OF each' C(1), where v = False and cfg = "[]"] by simp
  moreover have "scopes_of C = {s \<in> scopes_of S. custom m s}" by (simp add: C(3) set_getScopeValues)
  ultimately show ?thesis using C(2) by blast
qed

text \<open>What the claims, the client and the configured scopes permit.\<close>

definition permitted :: "oauth_env \<Rightarrow> claims \<Rightarrow> oauth_client \<Rightarrow> requested \<Rightarrow> mysql_store \<Rightarrow> bool" where
  "permitted E claims client req m \<longleftrightarrow>
     (let imp = getImplicantValues (hostParser E); S = scopes_of (requested_scope req)
      in (given (rq_acr_values req) \<and> ''AAL2'' \<in> set (acrTokens (the (rq_acr_values req))) \<longrightarrow> 2 \<le> c_aal claims) \<and>
         (\<not> oc_trusted client \<longrightarrow>
            (\<forall>s \<in> S. allows imp (UNTRUSTED_CLIENT_ALLOWED_SCOPES (hostParser E)) s)) \<and>
         (\<forall>s \<in> S. custom m s \<longrightarrow>
            (\<exists>A. fromString (hostParser E) (allowedScopes client) = Inr A \<and> allows imp A s)) \<and>
         ((\<exists>s \<in> S. keyed m s) \<longrightarrow> c_tokenVerified claims))"

lemma validateRequestedGrant_Inr:
  assumes "validateRequestedGrant E claims client req m = Inr g"
  shows "g_clientId g = oc_id client" "g_userId g = c_uid claims" "g_scope g = requested_scope req"
    "g_publicClient g = oc_publicClient client" "g_canGrant g = oc_canGrant client"
    "g_sessionTokenId g = c_sessionTokenId claims" "g_authAt g = c_lastAuthAt claims" "g_aal g = c_aal claims"
    "g_offline g = (rq_access_type req = Some ''offline'')" "g_ppidSeed g = 0" "g_ttl g = 0"
  using assms by (auto simp: validateRequestedGrant_def Let_def and_then_Inr grant_of_def)

lemma validateRequestedGrant_permitted:
  assumes ok: "ok_set (hostParser E) (requested_scope req)"
  shows "(\<exists>g. validateRequestedGrant E claims client req m = Inr g) \<longleftrightarrow> permitted E claims client req m"
proof -
  let ?S = "requested_scope req"
  obtain C where C: "fold_sum (check_scope E m) (getScopeValues ?S) (False, [], empty_set) =
      Inr (\<exists>s \<in> scopes_of ?S. keyed m s, map (\<lambda>s. (s, getScope s m)) (getScopeValues ?S), C)"
      "ok_set (hostParser E) C" "scopes_of C = {s \<in> scopes_of ?S. custom m s}"
    using custom_scopes [OF ok] by blast
  have empty: "isEmpty C \<longleftrightarrow> (\<forall>s \<in> scopes_of ?S. \<not> custom m s)" using C(3) by (auto simp: isEmpty_scopes)
  define q where "q = (if isEmpty C then Inr ()
    else and_then (scope_result (fromString (hostParser E) (allowedScopes client))) (none_invalid E C))"
  have allowed: "(\<exists>u. q = Inr u) \<longleftrightarrow>
      (\<forall>s \<in> scopes_of ?S. custom m s \<longrightarrow>
        (\<exists>A. fromString (hostParser E) (allowedScopes client) = Inr A \<and> allows (getImplicantValues (hostParser E)) A s))"
  proof (cases "fromString (hostParser E) (allowedScopes client)")
    case (Inl e)
    then show ?thesis by (simp add: q_def empty scope_result_def)
  next
    case (Inr A)
    then show ?thesis by (simp add: q_def empty none_invalid_iff [OF C(2)] C(3)) blast
  qed
  have "validateRequestedGrant E claims client req m =
    and_then (require (\<not> (given (rq_acr_values req) \<and> ''AAL2'' \<in> set (acrTokens (the (rq_acr_values req))) \<and>
        \<not> 2 \<le> c_aal claims)) (MismatchAcr (c_aal claims))) (\<lambda>_.
    and_then (if oc_trusted client then Inr () else none_invalid E ?S (UNTRUSTED_CLIENT_ALLOWED_SCOPES (hostParser E)))
      (\<lambda>_. and_then q (\<lambda>_. and_then (require (\<not> ((\<exists>s \<in> scopes_of ?S. keyed m s) \<and> \<not> c_tokenVerified claims))
      InvalidAssertion) (\<lambda>_. Inr (grant_of claims client req (map (\<lambda>s. (s, getScope s m)) (getScopeValues ?S)))))))"
    unfolding validateRequestedGrant_def Let_def C(1) ACR_VALUE_AAL2_def q_def grant_of_def and_then_simps prod.case ..
  then show ?thesis
    by (simp only: and_then_const allowed) (auto simp: permitted_def Let_def none_invalid_iff [OF ok])
qed

lemma validated_grant:
  assumes "ok_set (hostParser E) (requested_scope req)"
  shows "validateRequestedGrant E claims client req m = Inr g \<longleftrightarrow>
    permitted E claims client req m \<and>
    g = grant_of claims client req (map (\<lambda>s. (s, getScope s m)) (getScopeValues (requested_scope req)))"
proof -
  have "g = grant_of claims client req (map (\<lambda>s. (s, getScope s m)) (getScopeValues (requested_scope req)))"
    if "validateRequestedGrant E claims client req m = Inr g" for g
    using that custom_scopes [OF assms, of m] by (auto simp: validateRequestedGrant_def Let_def and_then_Inr)
  with validateRequestedGrant_permitted [OF assms, of claims client m] show ?thesis by blast
qed

text \<open>
  C9: a request with a well-formed set of scopes is granted exactly if it is permitted: the claims reach
  AAL2 if the request asks for it, a client that is not trusted stays within the scopes open to
  everyone, every configured scope is among those allowed for the client, and a scope with keys
  needs a verified session. The grant has the requested scopes, for the user of the claims and the client.
\<close>

theorem validateRequestedGrant_iff:
  assumes "ok_set (hostParser E) (requested_scope req)"
  shows "validateRequestedGrant E claims client req m = Inr g \<longleftrightarrow>
    permitted E claims client req m \<and>
    g = grant_of claims client req (map (\<lambda>s. (s, getScope s m)) (getScopeValues (requested_scope req)))"
  by (rule validated_grant [OF assms])

definition example_claims :: claims where
  "example_claims =
     \<lparr> c_uid = ''u1'', c_generation = 1, c_verifiedEmail = ''a@b.c'', c_lastAuthAt = 1000, c_iat = 1,
       c_tokenVerified = False, c_sessionTokenId = None, c_amr = None, c_aal = 1, c_profileChangedAt = 0,
       c_keysChangedAt = 0 \<rparr>"

theorem validateRequestedGrant_iff_witness:
  "\<exists>S T. fromArray (\<lambda>_. None) [''profile:email''] = Inr S \<and> fromArray (\<lambda>_. None) [''basket''] = Inr T \<and>
     (\<exists>g. validateRequestedGrant example_env example_claims example_client
        \<lparr> rq_scope = Some S, rq_acr_values = Some ''AAL1'', rq_access_type = None, rq_keys_jwe = None \<rparr> example_clients = Inr g) \<and>
     \<not> (\<exists>g. validateRequestedGrant example_env example_claims example_client
        \<lparr> rq_scope = Some T, rq_acr_values = None, rq_access_type = None, rq_keys_jwe = None \<rparr> example_clients = Inr g)"
proof -
  let ?hp = "\<lambda>_ :: string. None :: string option"
  let ?req = "\<lambda>S acr. \<lparr> rq_scope = Some S, rq_acr_values = acr, rq_access_type = None, rq_keys_jwe = None \<rparr>"
  have hp: "hostParser example_env = ?hp" by (simp add: example_env_def)
  have v: "valid_scope ?hp ''profile:email''" "valid_scope ?hp ''basket''" by code_simp+
  obtain S where S: "fromArray ?hp [''profile:email''] = Inr S" "ok_set ?hp S" "scopes_of S \<subseteq> {''profile:email''}"
    using new_ScopeSet_ok [of "[''profile:email'']" ?hp] v by (auto simp: fromArray_def)
  have "\<exists>T. fromArray ?hp [''basket''] = Inr T \<and> ok_set ?hp T"
    using new_ScopeSet_ok [of "[''basket'']" ?hp] v by (auto simp: fromArray_def)
  then obtain T where T: "fromArray ?hp [''basket''] = Inr T" "ok_set ?hp T" by blast
  have "(case fromArray ?hp [''basket''] of Inr T \<Rightarrow> getScopeValues T | Inl _ \<Rightarrow> []) = [''basket'']" by code_simp
  then have "scopes_of T = {''basket''}" using T(1) set_getScopeValues [of T] by simp
  moreover have "\<not> allows (getImplicantValues ?hp) (UNTRUSTED_CLIENT_ALLOWED_SCOPES ?hp) ''basket''"
    "allows (getImplicantValues ?hp) (UNTRUSTED_CLIENT_ALLOWED_SCOPES ?hp) ''profile:email''"
    "\<not> oc_trusted example_client" "''AAL2'' \<notin> set (acrTokens ''AAL1'')" by code_simp+
  moreover have "\<not> custom example_clients s \<and> \<not> keyed example_clients s" for s
    by (simp add: custom_def keyed_def getScope_def firstRow_def example_clients_def empty_db_def)
  ultimately have "permitted example_env example_claims example_client (?req S (Some ''AAL1'')) example_clients"
    "\<not> permitted example_env example_claims example_client (?req T None) example_clients"
    using S(3) by (auto simp: permitted_def requested_scope_def hp)
  with validateRequestedGrant_iff [of example_env "?req S (Some ''AAL1'')" example_claims example_client example_clients]
    validateRequestedGrant_iff [of example_env "?req T None" example_claims example_client example_clients] S T
  show ?thesis by (auto simp: requested_scope_def hp)
qed

end
