(* ===== verification/OAuth_Identity.thy ===== *)
theory OAuth_Identity
  imports OAuth_Grant
begin

text \<open>
  Who a signed token speaks about: the pairwise identifiers of \<open>lib/oauth/jwt_sub.js\<close>, and the
  hash of the access token in an id token.
\<close>

section \<open>Identifiers\<close>

lemma digits_value_snoc: "digits_value (s @ [c]) = 10 * digits_value s + (of_char c - 48)"
  by (simp add: digits_value_def)

lemma digits_value_show: "digits_value (show_nat n) = n"
proof (induction n rule: show_nat.induct)
  case (1 n)
  show ?case
  proof (cases "n < 10")
    case True
    then show ?thesis by (subst show_nat.simps) (simp add: digits_value_def)
  next
    case False
    with 1 show ?thesis by (subst show_nat.simps) (simp add: digits_value_snoc)
  qed
qed

lemma show_nat_digits: "list_all is_digit (show_nat n)"
proof (induction n rule: show_nat.induct)
  case (1 n)
  have d: "is_digit (char_of (48 + k))" if "k < 10" for k :: nat
  proof -
    have "list_all (\<lambda>k. is_digit (char_of (48 + k))) [0 :: nat..<10]" by code_simp
    with that show ?thesis by (simp add: list_all_iff)
  qed
  show ?case
  proof (cases "n < 10")
    case True
    then show ?thesis using d by (subst show_nat.simps) simp
  next
    case False
    then show ?thesis using d [of "n mod 10"] 1 by (subst show_nat.simps) simp
  qed
qed

lemma show_int_inj:
  assumes "0 \<le> i" "0 \<le> j" "show_int i = show_int j"
  shows "i = j"
proof -
  have "show_nat (nat i) = show_nat (nat j)" using assms by (simp add: show_int_def)
  then have "digits_value (show_nat (nat i)) = digits_value (show_nat (nat j))" by (rule arg_cong)
  then have "nat i = nat j" unfolding digits_value_show .
  with assms(1,2) show ?thesis by simp
qed

lemma show_int_no_dot:
  assumes "0 \<le> i"
  shows "CHR ''.'' \<notin> set (show_int i)"
proof
  assume "CHR ''.'' \<in> set (show_int i)"
  then have "CHR ''.'' \<in> set (show_nat (nat i))" using assms by (simp add: show_int_def)
  then have "is_digit (CHR ''.'')" using show_nat_digits [of "nat i"] unfolding list_all_iff by blast
  moreover have "\<not> is_digit (CHR ''.'')" by code_simp
  ultimately show False by simp
qed

lemma ppid_input_inj:
  assumes "CHR ''.'' \<notin> set c" "CHR ''.'' \<notin> set u" "CHR ''.'' \<notin> set c'" "CHR ''.'' \<notin> set u'"
    and "0 \<le> seed" "0 \<le> t" "0 \<le> seed'" "0 \<le> t'" and eq: "ppid_input c u seed t = ppid_input c' u' seed' t'"
  shows "c = c' \<and> u = u' \<and> seed = seed' \<and> t = t'"
proof -
  have "split_on (CHR ''.'') (ppid_input c u seed t) = [c, u, show_int seed, show_int t]"
    "split_on (CHR ''.'') (ppid_input c' u' seed' t') = [c', u', show_int seed', show_int t']"
    using assms(1-8) show_int_no_dot by (simp_all add: ppid_input_def)
  with eq have e: "[c, u, show_int seed, show_int t] = [c', u', show_int seed', show_int t']" by simp
  then have "show_int seed = show_int seed'" "show_int t = show_int t'" by simp_all
  then have "seed = seed'" "t = t'" using assms(5-8) show_int_inj by blast+
  with e show ?thesis by simp
qed

text \<open>A hexadecimal id has no dot, in either case.\<close>

lemma hex_no_dot: "list_all hex_digit s \<Longrightarrow> toLowerCase s = s \<and> CHR ''.'' \<notin> set s"
proof -
  assume s: "list_all hex_digit s"
  then have "lower_char c = c" if "c \<in> set s" for c
    using that by (auto simp: list_all_iff hex_digit_def lower_char_def Let_def)
  moreover have "\<not> hex_digit (CHR ''.'')" by code_simp
  ultimately show ?thesis using s by (auto simp: toLowerCase_def list_all_iff map_idI)
qed

text \<open>
  For a client with pairwise identifiers, two users or two seeds never get the same subject, and
  for two such clients not even one user does, if HKDF has no collision.
\<close>

theorem generateSub_pairwise:
  assumes "\<And>x y i s n. sv_hkdf V x i s n = sv_hkdf V y i s n \<Longrightarrow> x = y"
    and "ppid_enabled V" and "{c, c'} \<subseteq> set (ppid_enabledClientIds V)"
    and "list_all (list_all hex_digit) [c, c', u, u']" and "length u = length u'"
    and "0 \<le> now" and "0 \<le> now'" and "0 < ppid_rotationPeriodMS V"
    and "generateSub V now u c seed = Inr sub" and "generateSub V now' u' c' seed' = Inr sub"
  shows "(c, u, seed) = (c', u', seed')"
proof -
  define t where "t = (\<lambda>c now. if c \<in> set (ppid_rotatingClientIds V) then now div ppid_rotationPeriodMS V else 0)"
  have t: "0 \<le> t c now" "0 \<le> t c' now'"
    using assms(6-8) by (simp_all add: t_def pos_imp_zdiv_nonneg_iff)
  have hex: "toLowerCase c = c \<and> CHR ''.'' \<notin> set c" "toLowerCase c' = c' \<and> CHR ''.'' \<notin> set c'"
    "toLowerCase u = u \<and> CHR ''.'' \<notin> set u" "toLowerCase u' = u' \<and> CHR ''.'' \<notin> set u'"
    using assms(4) hex_no_dot by simp_all
  have seed: "0 \<le> seed" "0 \<le> seed'" using assms(9,10) by (auto simp: generateSub_def split: if_splits)
  have "sv_hkdf V (ppid_input c u seed (t c now)) ''oidc ppid sub'' (ppid_salt V) (length u div 2) =
      sv_hkdf V (ppid_input c' u' seed' (t c' now')) ''oidc ppid sub'' (ppid_salt V) (length u div 2)"
    using assms(2,3,5,9,10) hex by (simp add: generateSub_def t_def Let_def split: if_splits)
  from assms(1) [OF this] ppid_input_inj [of c u c' u' seed "t c now" seed' "t c' now'"] hex seed t
  show ?thesis by simp
qed

definition example_services :: services where
  "example_services =
     \<lparr> sign_access = (\<lambda>c. ''eyJ.'' @ (case ac_jti c of Some j \<Rightarrow> j | None \<Rightarrow> []) @ ''.s''),
       verify_access = (\<lambda>_ _. None), sign_id = (\<lambda>c. ic_at_hash c), verify_assertion = (\<lambda>_. None),
       subscriptions = (\<lambda>_ _ _. []), sv_hkdf = (\<lambda>x _ _ _. x), openid_ttl = 300000,
       syncTokenserverUrl = ''https://sync'', ppid_enabled = True, ppid_enabledClientIds = [''c1'', ''c2''],
       ppid_rotatingClientIds = [''c2''], ppid_rotationPeriodMS = 1000, ppid_salt = [], localRedirects = False,
       url_hostname = (\<lambda>_. None), url_with_params = (\<lambda>u _. u),
       disableNewConnectionsForClients = [] \<rparr>"

theorem generateSub_pairwise_witness:
  "generateSub example_services 5000 ''a1'' ''c1'' 0 \<noteq> generateSub example_services 5000 ''a1'' ''c2'' 0"
proof
  let ?V = example_services
  assume eq: "generateSub ?V 5000 ''a1'' ''c1'' 0 = generateSub ?V 5000 ''a1'' ''c2'' 0"
  have "\<not> isl (generateSub ?V 5000 ''a1'' ''c1'' 0)" by code_simp
  then obtain x where x: "generateSub ?V 5000 ''a1'' ''c1'' 0 = Inr x" by (cases "generateSub ?V 5000 ''a1'' ''c1'' 0") simp_all
  have "list_all (list_all hex_digit) [''c1'', ''c2'', ''a1'', ''a1'']" by code_simp
  from generateSub_pairwise [OF _ _ _ this _ _ _ _ x x [unfolded eq]] show False by (simp add: example_services_def)
qed

section \<open>The hash of an access token in an id token\<close>

text \<open>
  C17: if the hash is that of the bytes which its argument decodes to as hexadecimal, as the hash of an
  access token is, every JSON web token has the same hash: the id token does not tell which
  access token it came with.
\<close>

theorem id_token_ignores_jwt:
  assumes "\<And>s t. hex_bytes s = hex_bytes t \<Longrightarrow> sha256 E s = sha256 E t"
    and "take 2 jwt = ''ey''" and "take 2 jwt' = ''ey''"
  shows "generateIdToken E V now grant jwt = generateIdToken E V now grant jwt'"
proof -
  have none: "hex_value (CHR ''y'') = None" by code_simp
  have "hex_bytes s = []" if "take 2 s = ''ey''" for s
  proof -
    from that obtain r where "s = ''ey'' @ r" by (metis append_take_drop_id)
    with none show ?thesis by (simp split: option.split)
  qed
  then have "sha256 E jwt = sha256 E jwt'" using assms by simp
  then show ?thesis by (simp add: generateIdToken_def generateTokenHash_def)
qed

theorem id_token_ignores_jwt_witness:
  "let E = example_env\<lparr> sha256 := (\<lambda>s. if hex_bytes s = [] then ''0000'' else ''ffff'') \<rparr>
   in generateIdToken E example_services 0 example_grant ''eyJ.a.b'' = generateIdToken E example_services 0 example_grant ''eyJ.c.d'' \<and>
      generateIdToken E example_services 0 example_grant ''eyJ.a.b'' \<noteq> generateIdToken E example_services 0 example_grant ''00''"
proof -
  define E where "E = example_env\<lparr> sha256 := (\<lambda>s. if hex_bytes s = [] then ''0000'' else ''ffff'') \<rparr>"
  have "generateIdToken E example_services 0 example_grant ''eyJ.a.b'' = generateIdToken E example_services 0 example_grant ''eyJ.c.d''"
    by (rule id_token_ignores_jwt) (simp_all add: E_def)
  moreover have "generateIdToken E example_services 0 example_grant ''eyJ.a.b'' \<noteq> generateIdToken E example_services 0 example_grant ''00''"
    unfolding E_def by code_simp
  ultimately show ?thesis unfolding Let_def E_def [symmetric] by blast
qed

end
