(* ===== verification/OAuth_Token.thy ===== *)
theory OAuth_Token
  imports OAuth_Grant_Laws OAuth_Identity
begin

text \<open>
  The token endpoint of the OAuth server, \<open>lib/routes/oauth/token.js\<close> of the auth server: an
  authorization code, a refresh token or an identity assertion is exchanged for tokens.
\<close>

section \<open>Requests\<close>

text \<open>The payload after its validation. A missing \<open>ttl\<close> is 0.\<close>

record token_params =
  tp_credentials :: client_params
  tp_grant_type :: string
  tp_ttl :: int
  tp_scope :: "scope_set option"
  tp_access_type :: "string option"
  tp_code :: string
  tp_code_verifier :: "string option"
  tp_refresh_token :: string
  tp_assertion :: string
  tp_ppid_seed :: int
  tp_resource :: "string option"

definition GRANT_AUTHORIZATION_CODE :: string where
  "GRANT_AUTHORIZATION_CODE = ''authorization_code''"

definition GRANT_REFRESH_TOKEN :: string where
  "GRANT_REFRESH_TOKEN = ''refresh_token''"

definition GRANT_FXA_ASSERTION :: string where
  "GRANT_FXA_ASSERTION = ''fxa-credentials''"

definition MAX_TTL_S :: "oauth_env \<Rightarrow> int" where
  "MAX_TTL_S E = expiration_accessToken E div 1000"

definition SCOPES_TO_EXCLUDE_FROM_REFRESH_TOKEN_GRANTS :: "(string \<Rightarrow> string option) \<Rightarrow> scope_set" where
  "SCOPES_TO_EXCLUDE_FROM_REFRESH_TOKEN_GRANTS hp =
     (case fromArray hp [''openid'', ''https://identity.mozilla.com/tokens/session''] of
        Inr S \<Rightarrow> S | Inl _ \<Rightarrow> empty_set)"

section \<open>Authorization codes\<close>

definition pkceHash :: "oauth_env \<Rightarrow> string \<Rightarrow> string" where
  "pkceHash E input = base64URLEncode (hex_bytes (sha256_text E input))"

text \<open>What the code stands for. Its row has no email, generation or resource.\<close>

definition code_grant :: "code_obj \<Rightarrow> grant" where
  "code_grant c =
     \<lparr> g_clientId = cr_clientId (co_row c), g_name = [], g_canGrant = False, g_publicClient = False,
       g_userId = cr_userId (co_row c), g_email = None, g_scope = co_scope c, g_scopeConfig = [],
       g_sessionTokenId = cr_sessionTokenId (co_row c), g_offline = cr_offline (co_row c),
       g_authAt = cr_authAt (co_row c), g_amr = co_amr c,
       g_aal = (case cr_aal (co_row c) of Some a \<Rightarrow> a | None \<Rightarrow> 0),
       g_profileChangedAt = cr_profileChangedAt (co_row c), g_keysJwe = cr_keysJwe (co_row c), g_generation = 0,
       g_ppidSeed = 0, g_resource = None, g_ttl = 0 \<rparr>"

text \<open>The checks of a code that was found; \<open>pkceHashValue\<close> is \<open>undefined\<close> without a verifier.\<close>

definition check_code ::
    "oauth_env \<Rightarrow> int \<Rightarrow> oauth_client \<Rightarrow> token_params \<Rightarrow> string option \<Rightarrow> code_obj \<Rightarrow> oauth_error + unit" where
  "check_code E now client params pkceHashValue codeObj =
     (let row = co_row codeObj; expiresAt = cr_createdAt row + expiration_code E
      in and_then (timingSafeEqual (cr_clientId row) (oc_id client)) (\<lambda>same.
         and_then (require same (MismatchCode (tp_code params) (oc_id client))) (\<lambda>_.
         and_then (require (\<not> now > expiresAt) (ExpiredCode (tp_code params) expiresAt)) (\<lambda>_.
         and_then
           (if given (cr_codeChallenge row) then
              and_then (require (cr_codeChallengeMethod row = Some ''S256'') (MismatchCodeChallenge pkceHashValue)) (\<lambda>_.
              and_then (require (given pkceHashValue) MissingPkceParameters) (\<lambda>_.
              and_then (timingSafeEqual (the (cr_codeChallenge row)) (the pkceHashValue)) (\<lambda>same.
              require same (MismatchCodeChallenge pkceHashValue))))
            else Inr ()) (\<lambda>_.
         require (\<not> (given (tp_code_verifier params) \<and> \<not> given (cr_codeChallenge row)))
           (MismatchCodeChallenge pkceHashValue))))))"

definition validateAuthorizationCodeGrant ::
    "oauth_env \<Rightarrow> int \<Rightarrow> oauth_client \<Rightarrow> token_params \<Rightarrow> oauth_db \<Rightarrow> oauth_error + grant \<times> oauth_db" where
  "validateAuthorizationCodeGrant E now client params db =
     and_then
       (if given (tp_code_verifier params) then
          and_then (require (oc_publicClient client) (NotPublicClient (oc_id client))) (\<lambda>_.
          Inr (Some (pkceHash E (the (tp_code_verifier params)))))
        else Inr None) (\<lambda>pkceHashValue.
     and_then (scope_result (getCode (hostParser E) (sha256 E) (tp_code params) (db_mysql db))) (\<lambda>found.
     (case found of
        None \<Rightarrow> Inl (UnknownCode (tp_code params))
      | Some codeObj \<Rightarrow>
          and_then (check_code E now client params pkceHashValue codeObj) (\<lambda>_.
          Inr (code_grant codeObj,
               db\<lparr> db_mysql := removeCode (sha256 E) (tp_code params) (db_mysql db) \<rparr>)))))"

section \<open>Refresh tokens\<close>

definition refresh_grant :: "refresh_token \<Rightarrow> scope_set \<Rightarrow> grant" where
  "refresh_grant t scope =
     \<lparr> g_clientId = rt_clientId t, g_name = [], g_canGrant = False, g_publicClient = False,
       g_userId = rt_userId t, g_email = None, g_scope = scope, g_scopeConfig = [],
       g_sessionTokenId = None, g_offline = False, g_authAt = 0, g_amr = None, g_aal = 0,
       g_profileChangedAt = rt_profileChangedAt t, g_keysJwe = None, g_generation = 0, g_ppidSeed = 0,
       g_resource = None, g_ttl = 0 \<rparr>"

text \<open>The scope of the new token: what the refresh token has, or what the request limits or extends it to.\<close>

definition refresh_scope ::
    "oauth_env \<Rightarrow> oauth_client \<Rightarrow> scope_set option \<Rightarrow> scope_set \<Rightarrow> oauth_error + scope_set" where
  "refresh_scope E client requested scope =
     (let hp = hostParser E
      in and_then
           (case requested of
              None \<Rightarrow> Inr scope
            | Some R \<Rightarrow>
                and_then (scope_result (ScopeSet_contains hp (ScopeSetArg R) scope)) (\<lambda>contained.
                if contained then Inr R
                else
                  and_then (scope_result (fromArray hp
                      (if allowedScopes client \<noteq> [] then split_on (CHR '' '') (allowedScopes client) else []))) (\<lambda>A.
                  and_then (scope_result (ScopeSet_union hp (ScopeSetArg scope) A)) (\<lambda>allowed.
                  and_then (if oc_trusted client then scope_result (ScopeSet_contains hp (ScopeSetArg R) allowed)
                            else Inr False) (\<lambda>ok.
                  if ok then Inr R
                  else
                    and_then (scope_result (ScopeSet_difference hp (ScopeSetArg scope) R)) (\<lambda>D.
                    Inl (InvalidScopes (getScopeValues D)))))))) (\<lambda>scope'.
         scope_result (ScopeSet_difference hp (ScopeSetArg (SCOPES_TO_EXCLUDE_FROM_REFRESH_TOKEN_GRANTS hp)) scope')))"

text \<open>A refresh token has no \<open>offline\<close> property, so the last check of the function passes.\<close>

definition validateRefreshTokenGrant ::
    "oauth_env \<Rightarrow> int \<Rightarrow> oauth_client \<Rightarrow> token_params \<Rightarrow> oauth_db \<Rightarrow> (oauth_error + grant) \<times> oauth_db" where
  "validateRefreshTokenGrant E now client params db =
     (case getRefreshToken E now (sha256 E (tp_refresh_token params)) db of
        Inl e \<Rightarrow> (Inl e, db)
      | Inr (None, db') \<Rightarrow> (Inl InvalidToken, db')
      | Inr (Some tokObj, db') \<Rightarrow>
          (and_then (timingSafeEqual (rt_clientId tokObj) (oc_id client)) (\<lambda>same.
           and_then (require same InvalidToken) (\<lambda>_.
           and_then (refresh_scope E client (tp_scope params) (rt_scope tokObj)) (\<lambda>scope.
           Inr (refresh_grant tokObj scope)))), db'))"

section \<open>Assertions\<close>

definition params_request :: "token_params \<Rightarrow> requested" where
  "params_request params =
     \<lparr> rq_scope = tp_scope params, rq_acr_values = None, rq_access_type = tp_access_type params,
       rq_keys_jwe = None \<rparr>"

definition validateAssertionGrant ::
    "oauth_env \<Rightarrow> services \<Rightarrow> oauth_client \<Rightarrow> token_params \<Rightarrow> mysql_store \<Rightarrow> oauth_error + grant" where
  "validateAssertionGrant E V client params m =
     and_then (require (oc_canGrant client) InvalidGrantType) (\<lambda>_.
     and_then (require (oc_publicClient client) (NotPublicClient (oc_id client))) (\<lambda>_.
     (case verify_assertion V (tp_assertion params) of
        None \<Rightarrow> Inl InvalidAssertion
      | Some claims \<Rightarrow> validateRequestedGrant E claims client (params_request params) m)))"

section \<open>The handler\<close>

text \<open>\<open>Math.min(undefined, MAX_TTL_S)\<close> is \<open>NaN\<close>, which counts as missing.\<close>

definition complete_grant :: "oauth_env \<Rightarrow> oauth_client \<Rightarrow> token_params \<Rightarrow> grant \<Rightarrow> grant" where
  "complete_grant E client params requestedGrant =
     requestedGrant\<lparr> g_name := oc_name client, g_canGrant := oc_canGrant client,
       g_publicClient := oc_publicClient client, g_ppidSeed := tp_ppid_seed params,
       g_resource := tp_resource params,
       g_ttl := (if tp_ttl params = 0 then 0 else min (tp_ttl params) (MAX_TTL_S E)) \<rparr>"

text \<open>The validation of the payload lets no other type of grant through.\<close>

definition validateGrantParameters ::
    "oauth_env \<Rightarrow> services \<Rightarrow> int \<Rightarrow> oauth_client \<Rightarrow> token_params \<Rightarrow> oauth_db \<Rightarrow>
     (oauth_error + grant) \<times> oauth_db" where
  "validateGrantParameters E V now client params db =
     (case
        (if tp_grant_type params = GRANT_AUTHORIZATION_CODE then
           (case validateAuthorizationCodeGrant E now client params db of
              Inl e \<Rightarrow> (Inl e, db) | Inr (g, db') \<Rightarrow> (Inr g, db'))
         else if tp_grant_type params = GRANT_REFRESH_TOKEN then validateRefreshTokenGrant E now client params db
         else if tp_grant_type params = GRANT_FXA_ASSERTION then
           (validateAssertionGrant E V client params (db_mysql db), db)
         else (Inl InvalidGrantType, db)) of
        (Inl e, db') \<Rightarrow> (Inl e, db')
      | (Inr g, db') \<Rightarrow> (Inr (complete_grant E client params g), db'))"

definition tokenHandler ::
    "oauth_env \<Rightarrow> services \<Rightarrow> int \<Rightarrow> string \<Rightarrow> string \<Rightarrow> string option \<Rightarrow> token_params \<Rightarrow> oauth_db \<Rightarrow>
     (oauth_error + tokens) \<times> oauth_db" where
  "tokenHandler E V now random1 random2 authorization params db =
     (case authenticateClient E authorization (tp_credentials params) (db_mysql db) of
        Inl e \<Rightarrow> (Inl e, db)
      | Inr client \<Rightarrow>
          if oc_id client \<in> set (disabledClients E) \<and> tp_grant_type params \<noteq> GRANT_AUTHORIZATION_CODE
          then (Inl (DisabledClient (oc_id client)), db)
          else
            (case validateGrantParameters E V now client params db of
               (Inl e, db1) \<Rightarrow> (Inl e, db1)
             | (Inr grant, db1) \<Rightarrow> generateTokens E V now random1 random2 grant db1))"

end
