(* ===== verification/OAuth_Endpoints.thy ===== *)
theory OAuth_Endpoints
  imports OAuth_Token
begin

text \<open>
  The other endpoints of the OAuth server, \<open>authorization.js\<close>, \<open>verify.js\<close>, \<open>destroy.js\<close>,
  \<open>introspect.js\<close> and \<open>key_data.js\<close> in \<open>lib/routes/oauth\<close> of the auth server, with
  \<open>lib/oauth/token.js\<close>. Payloads have passed their schema.
\<close>

section \<open>Authorization\<close>

record authorization_payload =
  az_client_id :: string
  az_assertion :: string
  az_redirect_uri :: "string option"
  az_response_type :: string
  az_state :: string
  az_code_challenge_method :: "string option"
  az_code_challenge :: "string option"
  az_ttl :: int
  az_resource :: "string option"
  az_requested :: requested

record authorization_code =
  an_code :: string
  an_state :: string
  an_redirect :: string

datatype authorization_result = CodeResult authorization_code | TokenResult tokens

definition checkDisabledClientId :: "services \<Rightarrow> string \<Rightarrow> oauth_error + unit" where
  "checkDisabledClientId V clientId =
     require (clientId \<notin> set (disableNewConnectionsForClients V)) (DisabledClient clientId)"

definition isLocalHost :: "services \<Rightarrow> string \<Rightarrow> oauth_error + bool" where
  "isLocalHost V url =
     (case url_hostname V url of
        None \<Rightarrow> Inl InvalidRequestParameter
      | Some host \<Rightarrow> Inr (host = ''localhost'' \<or> host = ''localhost''))"

text \<open>The \<open>redirect_uri\<close> that is used from now on.\<close>

definition validateClientDetails ::
    "services \<Rightarrow> oauth_client \<Rightarrow> authorization_payload \<Rightarrow> oauth_error + string" where
  "validateClientDetails V client payload =
     (let redirect_uri = (if given (az_redirect_uri payload) then the (az_redirect_uri payload) else oc_redirectUri client)
      in if redirect_uri \<noteq> oc_redirectUri client then
           and_then (if localRedirects V then isLocalHost V redirect_uri else Inr False) (\<lambda>local.
           and_then (require local (IncorrectRedirect redirect_uri)) (\<lambda>_.
           Inr redirect_uri))
         else Inr redirect_uri)"

definition generateAuthorizationCode ::
    "oauth_env \<Rightarrow> services \<Rightarrow> int \<Rightarrow> string \<Rightarrow> oauth_client \<Rightarrow> authorization_payload \<Rightarrow> string \<Rightarrow> grant \<Rightarrow> oauth_db \<Rightarrow>
     oauth_error + authorization_code \<times> oauth_db" where
  "generateAuthorizationCode E V now random client payload redirect_uri grant db =
     and_then
       (if oc_publicClient client
        then require (given (az_code_challenge_method payload) \<and> given (az_code_challenge payload)) MissingPkceParameters
        else require (\<not> (given (az_code_challenge_method payload) \<or> given (az_code_challenge payload)))
               (NotPublicClient (az_client_id payload))) (\<lambda>_.
     (case generateCode (sha256 E) now random (az_code_challenge_method payload) (az_code_challenge payload) grant
             (db_mysql db) of
        Inl e \<Rightarrow> Inl (MysqlFailure e)
      | Inr (code, m) \<Rightarrow>
          Inr (\<lparr> an_code = code, an_state = az_state payload,
                 an_redirect = url_with_params V redirect_uri [(''code'', code), (''state'', az_state payload)] \<rparr>,
               db\<lparr> db_mysql := m \<rparr>)))"

definition generateImplicitGrant ::
    "oauth_env \<Rightarrow> services \<Rightarrow> int \<Rightarrow> string \<Rightarrow> string \<Rightarrow> oauth_client \<Rightarrow> authorization_payload \<Rightarrow> grant \<Rightarrow> oauth_db \<Rightarrow>
     (oauth_error + tokens) \<times> oauth_db" where
  "generateImplicitGrant E V now random1 random2 client payload grant db =
     (if \<not> oc_canGrant client then (Inl InvalidResponseType, db)
      else generateTokens E V now random1 random2
             (grant\<lparr> g_resource := az_resource payload,
                     g_ttl := (if az_ttl payload = 0 then 0 else min (az_ttl payload) (MAX_TTL_S E)) \<rparr>) db)"

definition authorizationHandler ::
    "oauth_env \<Rightarrow> services \<Rightarrow> int \<Rightarrow> string \<Rightarrow> string \<Rightarrow> authorization_payload \<Rightarrow> oauth_db \<Rightarrow>
     (oauth_error + authorization_result) \<times> oauth_db" where
  "authorizationHandler E V now random1 random2 payload db =
     (case
        and_then (case verify_assertion V (az_assertion payload) of None \<Rightarrow> Inl InvalidAssertion | Some c \<Rightarrow> Inr c) (\<lambda>claims.
        and_then (case getClient (az_client_id payload) (db_mysql db) of
                    None \<Rightarrow> Inl (UnknownClient (az_client_id payload)) | Some c \<Rightarrow> Inr c) (\<lambda>client.
        and_then (validateClientDetails V client payload) (\<lambda>redirect_uri.
        and_then (validateRequestedGrant E claims client (az_requested payload) (db_mysql db)) (\<lambda>grant.
        Inr (client, redirect_uri, grant))))) of
        Inl e \<Rightarrow> (Inl e, db)
      | Inr (client, redirect_uri, grant) \<Rightarrow>
          if az_response_type payload = ''code'' then
            (case generateAuthorizationCode E V now random1 client payload redirect_uri grant db of
               Inl e \<Rightarrow> (Inl e, db)
             | Inr (code, db') \<Rightarrow> (Inr (CodeResult code), db'))
          else if az_response_type payload = ''token'' then
            (case generateImplicitGrant E V now random1 random2 client payload grant db of
               (Inl e, db') \<Rightarrow> (Inl e, db')
             | (Inr tokens, db') \<Rightarrow> (Inr (TokenResult tokens), db'))
          else (Inl InvalidResponseType, db))"

section \<open>Verification\<close>

definition jwt_char :: "char \<Rightarrow> bool" where
  "jwt_char c \<longleftrightarrow> word_char c \<or> c = CHR ''-''"

text \<open>\<open>validators.jwt\<close>: three parts in base 64 for URLs.\<close>

definition valid_jwt :: "string \<Rightarrow> bool" where
  "valid_jwt s \<longleftrightarrow> length s \<le> 1024 \<and>
     (let parts = split_on (CHR ''.'') s
      in length parts = 3 \<and> list_all (\<lambda>p. p \<noteq> [] \<and> list_all jwt_char p) parts)"

definition JWTAccessToken_verify :: "services \<Rightarrow> int \<Rightarrow> string \<Rightarrow> oauth_error + access_claims" where
  "JWTAccessToken_verify V now accessToken =
     (case verify_access V now accessToken of None \<Rightarrow> Inl InvalidToken | Some payload \<Rightarrow> Inr payload)"

definition JWTAccessToken_tokenId :: "services \<Rightarrow> int \<Rightarrow> string \<Rightarrow> oauth_error + string" where
  "JWTAccessToken_tokenId V now accessToken =
     and_then (JWTAccessToken_verify V now accessToken) (\<lambda>payload.
     if given (ac_jti payload) then Inr (the (ac_jti payload)) else Inl InvalidToken)"

definition getTokenId :: "oauth_env \<Rightarrow> services \<Rightarrow> int \<Rightarrow> string \<Rightarrow> oauth_error + string" where
  "getTokenId E V now accessToken =
     and_then (if valid_jwt accessToken then JWTAccessToken_tokenId V now accessToken else Inr accessToken)
       (\<lambda>unhashedAccessTokenId. Inr (sha256 E unhashedAccessTokenId))"

record token_info =
  ti_user :: string
  ti_client_id :: string
  ti_scope :: scope_set
  ti_generation :: int
  ti_profile_changed_at :: int

definition token_expired :: "oauth_env \<Rightarrow> int \<Rightarrow> access_token \<Rightarrow> bool" where
  "token_expired E now token \<longleftrightarrow>
     at_expiresAt token < now \<and> accessTokenExpiryEpoch E \<le> at_expiresAt token"

definition verify_stored :: "oauth_env \<Rightarrow> services \<Rightarrow> int \<Rightarrow> string \<Rightarrow> oauth_db \<Rightarrow> oauth_error + token_info" where
  "verify_stored E V now accessToken db =
     and_then (getTokenId E V now accessToken) (\<lambda>tokenId.
     and_then (getAccessToken E now tokenId db) (\<lambda>found.
     (case found of
        None \<Rightarrow> Inl InvalidToken
      | Some token \<Rightarrow>
          and_then (require (\<not> (token_expired E now token \<and> at_clientId token \<notin> set (POCKET_IDS E)))
              (ExpiredToken (at_expiresAt token))) (\<lambda>_.
          Inr \<lparr> ti_user = at_userId token, ti_client_id = at_clientId token, ti_scope = at_scope token,
                ti_generation = 0, ti_profile_changed_at = at_profileChangedAt token \<rparr>))))"

definition verify :: "oauth_env \<Rightarrow> services \<Rightarrow> int \<Rightarrow> string \<Rightarrow> oauth_db \<Rightarrow> oauth_error + token_info" where
  "verify E V now accessToken db =
     (if valid_jwt accessToken then
        and_then (JWTAccessToken_verify V now accessToken) (\<lambda>t.
        if (ac_exp t - ac_iat t) * 1000 \<le> SHORT_ACCESS_TOKEN_TTL_IN_MS then
          and_then (scope_result (fromString (hostParser E) (ac_scope t))) (\<lambda>scope.
          Inr \<lparr> ti_user = ac_sub t, ti_client_id = ac_client_id t, ti_scope = scope,
                ti_generation = ac_generation t, ti_profile_changed_at = ac_profileChangedAt t \<rparr>)
        else verify_stored E V now accessToken db)
      else verify_stored E V now accessToken db)"

section \<open>Revocation\<close>

text \<open>The token of the request: an access token, a refresh token or the id of one.\<close>

datatype destroyed = AccessTokenArg string | RefreshTokenArg string | RefreshTokenIdArg string

definition destroy_access ::
    "oauth_env \<Rightarrow> services \<Rightarrow> int \<Rightarrow> oauth_client option \<Rightarrow> string \<Rightarrow> oauth_db \<Rightarrow> (oauth_error + unit) \<times> oauth_db" where
  "destroy_access E V now client accessToken db =
     (case
        and_then (getTokenId E V now accessToken) (\<lambda>tokenId.
        and_then (getAccessToken E now tokenId db) (\<lambda>found.
        (case found of
           None \<Rightarrow> Inl InvalidToken
         | Some token \<Rightarrow>
             and_then (case client of None \<Rightarrow> Inr True | Some c \<Rightarrow> timingSafeEqual (at_clientId token) (oc_id c)) (\<lambda>own.
             and_then (require own InvalidToken) (\<lambda>_. Inr token))))) of
        Inl e \<Rightarrow> (Inl e, db)
      | Inr token \<Rightarrow> (Inr (), removeAccessToken now token db))"

definition destroy_refresh ::
    "oauth_env \<Rightarrow> int \<Rightarrow> oauth_client option \<Rightarrow> string \<Rightarrow> oauth_db \<Rightarrow> (oauth_error + unit) \<times> oauth_db" where
  "destroy_refresh E now client tokenId db =
     (case getRefreshToken E now tokenId db of
        Inl e \<Rightarrow> (Inl e, db)
      | Inr (None, db') \<Rightarrow> (Inl InvalidToken, db')
      | Inr (Some token, db') \<Rightarrow>
          (case and_then (case client of None \<Rightarrow> Inr True | Some c \<Rightarrow> timingSafeEqual (rt_clientId token) (oc_id c))
                  (\<lambda>own. require own InvalidToken) of
             Inl e \<Rightarrow> (Inl e, db')
           | Inr _ \<Rightarrow> (Inr (), removeRefreshToken now token db')))"

definition destroyHandler ::
    "oauth_env \<Rightarrow> services \<Rightarrow> int \<Rightarrow> string option \<Rightarrow> client_params \<Rightarrow> destroyed \<Rightarrow> oauth_db \<Rightarrow>
     (oauth_error + unit) \<times> oauth_db" where
  "destroyHandler E V now authorization params arg db =
     (case (if given authorization \<or> given (p_client_id params)
            then and_then (authenticateClient E authorization params (db_mysql db)) (\<lambda>c. Inr (Some c))
            else Inr None) of
        Inl e \<Rightarrow> (Inl e, db)
      | Inr client \<Rightarrow>
          (case arg of
             AccessTokenArg t \<Rightarrow> destroy_access E V now client t db
           | RefreshTokenIdArg i \<Rightarrow> destroy_refresh E now client i db
           | RefreshTokenArg t \<Rightarrow> destroy_refresh E now client (sha256 E t) db))"

text \<open>
  \<open>/oauth/destroy\<close> tries both types of token, in the order of the hint; \<open>isAccess\<close> and \<open>isRefresh\<close>
  tell whether the token has the form of the type. An unknown client gets an error of its own.
\<close>

fun destroy_types ::
    "oauth_env \<Rightarrow> services \<Rightarrow> int \<Rightarrow> string option \<Rightarrow> client_params \<Rightarrow> (bool \<times> destroyed) list \<Rightarrow> oauth_db \<Rightarrow>
     (oauth_error + unit) \<times> oauth_db" where
  "destroy_types E V now authorization params [] db = (Inr (), db)"
| "destroy_types E V now authorization params ((valid, arg) # types) db =
     (if \<not> valid then destroy_types E V now authorization params types db
      else
        (case destroyHandler E V now authorization params arg db of
           (Inl InvalidToken, db') \<Rightarrow> destroy_types E V now authorization params types db'
         | (r, db') \<Rightarrow> (r, db')))"

definition oauthDestroy ::
    "oauth_env \<Rightarrow> services \<Rightarrow> int \<Rightarrow> string option \<Rightarrow> client_params \<Rightarrow> bool \<Rightarrow> bool \<Rightarrow> string option \<Rightarrow> string \<Rightarrow> oauth_db \<Rightarrow>
     (oauth_error + unit) \<times> oauth_db" where
  "oauthDestroy E V now authorization params isAccess isRefresh token_type_hint token db =
     (let access = (isAccess, AccessTokenArg token); refresh = (isRefresh, RefreshTokenArg token)
      in destroy_types E V now authorization params
           (if token_type_hint = Some ''refresh_token'' then [refresh, access] else [access, refresh]) db)"

section \<open>Introspection\<close>

record introspection =
  in_active :: bool
  in_scope :: "string option"
  in_client_id :: "string option"
  in_token_type :: "string option"
  in_iat :: "int option"
  in_sub :: "string option"
  in_jti :: "string option"
  in_exp :: "int option"
  in_lastUsedAt :: "int option"

definition inactive :: introspection where
  "inactive = \<lparr> in_active = False, in_scope = None, in_client_id = None, in_token_type = None, in_iat = None,
                in_sub = None, in_jti = None, in_exp = None, in_lastUsedAt = None \<rparr>"

definition access_response :: "int \<Rightarrow> string \<Rightarrow> access_token \<Rightarrow> introspection" where
  "access_response now tokenId token =
     \<lparr> in_active = at_expiresAt token > now, in_scope = Some (toString (at_scope token)),
       in_client_id = Some (at_clientId token), in_token_type = Some ''access_token'',
       in_iat = Some (at_createdAt token), in_sub = Some (at_userId token), in_jti = Some tokenId,
       in_exp = Some (at_expiresAt token), in_lastUsedAt = None \<rparr>"

definition refresh_response :: "string \<Rightarrow> refresh_token \<Rightarrow> introspection" where
  "refresh_response tokenId token =
     \<lparr> in_active = True, in_scope = Some (toString (rt_scope token)), in_client_id = Some (rt_clientId token),
       in_token_type = Some ''refresh_token'', in_iat = Some (rt_createdAt token), in_sub = Some (rt_userId token),
       in_jti = Some tokenId, in_exp = None, in_lastUsedAt = Some (rt_lastUsedAt token) \<rparr>"

definition introspect_refresh ::
    "oauth_env \<Rightarrow> int \<Rightarrow> string \<Rightarrow> oauth_db \<Rightarrow> (oauth_error + introspection) \<times> oauth_db" where
  "introspect_refresh E now tokenId db =
     (case getRefreshToken E now tokenId db of
        Inl e \<Rightarrow> (Inl e, db)
      | Inr (None, db') \<Rightarrow> (Inr inactive, db')
      | Inr (Some token, db') \<Rightarrow>
          (case getClient (rt_clientId token) (db_mysql db') of
             Some client \<Rightarrow>
               if oc_publicClient client then (Inr (refresh_response tokenId token), db')
               else (Inl (NotPublicClient []), db')
           | None \<Rightarrow> (Inl (NotPublicClient []), db')))"

definition introspectEndpoint ::
    "oauth_env \<Rightarrow> services \<Rightarrow> int \<Rightarrow> string option \<Rightarrow> string \<Rightarrow> oauth_db \<Rightarrow> (oauth_error + introspection) \<times> oauth_db" where
  "introspectEndpoint E V now tokenTypeHint token db =
     (case getTokenId E V now token of
        Inl _ \<Rightarrow> (Inr inactive, db)
      | Inr tokenId \<Rightarrow>
          if tokenTypeHint = Some ''refresh_token'' then introspect_refresh E now tokenId db
          else
            (case getAccessToken E now tokenId db of
               Inl e \<Rightarrow> (Inl e, db)
             | Inr (Some t) \<Rightarrow> (Inr (access_response now tokenId t), db)
             | Inr None \<Rightarrow>
                 if tokenTypeHint = None then introspect_refresh E now tokenId db else (Inr inactive, db)))"

section \<open>Data for scoped keys\<close>

record key_data =
  kd_identifier :: string
  kd_keyRotationSecret :: string
  kd_keyRotationTimestamp :: int

definition DEFAULT_KEY_ROTATION_SECRET :: string where
  "DEFAULT_KEY_ROTATION_SECRET = replicate 64 (CHR ''0'')"

definition key_bearing :: "grant \<Rightarrow> scope_row list" where
  "key_bearing g =
     List.map_filter (\<lambda>scope. case map_of (g_scopeConfig g) scope of
        Some (Some s) \<Rightarrow> if sr_hasScopedKeys s then Some s else None | _ \<Rightarrow> None) (getScopeValues (g_scope g))"

definition key_of_scope ::
    "int \<Rightarrow> int \<Rightarrow> scope_row \<Rightarrow> (string \<times> key_data) list \<Rightarrow> oauth_error + (string \<times> key_data) list" where
  "key_of_scope iat keysChangedAt keyScope response =
     (let keyRotationTimestamp = max keysChangedAt 0
      in and_then (require (\<not> iat < keyRotationTimestamp div 1000) (StaleAuthAt iat)) (\<lambda>_.
         Inr (AList.update (sr_scope keyScope)
           \<lparr> kd_identifier = sr_scope keyScope, kd_keyRotationSecret = DEFAULT_KEY_ROTATION_SECRET,
             kd_keyRotationTimestamp = keyRotationTimestamp \<rparr> response)))"

definition keyDataHandler ::
    "oauth_env \<Rightarrow> services \<Rightarrow> string \<Rightarrow> string \<Rightarrow> scope_set \<Rightarrow> mysql_store \<Rightarrow> oauth_error + (string \<times> key_data) list" where
  "keyDataHandler E V assertion client_id scope m =
     and_then (case verify_assertion V assertion of None \<Rightarrow> Inl InvalidAssertion | Some c \<Rightarrow> Inr c) (\<lambda>claims.
     and_then (case getClient client_id m of None \<Rightarrow> Inl (UnknownClient client_id) | Some c \<Rightarrow> Inr c) (\<lambda>client.
     and_then (validateRequestedGrant E claims client
         \<lparr> rq_scope = Some scope, rq_acr_values = None, rq_access_type = None, rq_keys_jwe = None \<rparr> m) (\<lambda>requestedGrant.
     let iat = (if c_iat claims \<noteq> 0 then c_iat claims else c_lastAuthAt claims);
         keysChangedAt = (if c_keysChangedAt claims \<noteq> 0 then c_keysChangedAt claims else c_generation claims)
     in fold_sum (key_of_scope iat keysChangedAt) (key_bearing requestedGrant) [])))"

end
