(* ===== verification/OAuth_Token_Laws.thy ===== *)
theory OAuth_Token_Laws
  imports OAuth_Endpoints
begin

text \<open>
  What the endpoints of the OAuth server guarantee: who may exchange a code, that a code works
  once, that a refresh token gives no more than it stands for, and that the tokens which come out
  verify until they are revoked.
\<close>

section \<open>Exchanging a code\<close>

lemma timingSafeEqual_ok [simp]:
  "(\<exists>x. timingSafeEqual a b = Inr x \<and> x) \<longleftrightarrow> a = b"
  "(\<exists>x. timingSafeEqual a b = Inr x \<and> x \<and> P) \<longleftrightarrow> a = b \<and> P"
  by (auto simp: timingSafeEqual_def)

lemma check_code_Inr:
  "check_code E now client params pkce c = Inr u \<longleftrightarrow>
     cr_clientId (co_row c) = oc_id client \<and> now \<le> cr_createdAt (co_row c) + expiration_code E \<and>
     (given (cr_codeChallenge (co_row c)) \<longrightarrow>
        cr_codeChallengeMethod (co_row c) = Some ''S256'' \<and> given pkce \<and> the (cr_codeChallenge (co_row c)) = the pkce) \<and>
     (given (tp_code_verifier params) \<longrightarrow> given (cr_codeChallenge (co_row c)))"
  by (simp add: check_code_def Let_def and_then_Inr) (auto simp: not_less)

lemma validateCode_iff:
  "validateAuthorizationCodeGrant E now client params db = Inr (g, db') \<longleftrightarrow>
   (\<exists>c. getCode (hostParser E) (sha256 E) (tp_code params) (db_mysql db) = Inr (Some c) \<and>
      (given (tp_code_verifier params) \<longrightarrow> oc_publicClient client) \<and>
      check_code E now client params
        (if given (tp_code_verifier params) then Some (pkceHash E (the (tp_code_verifier params))) else None) c = Inr () \<and>
      g = code_grant c \<and> db' = db\<lparr> db_mysql := removeCode (sha256 E) (tp_code params) (db_mysql db) \<rparr>)"
proof (cases "getCode (hostParser E) (sha256 E) (tp_code params) (db_mysql db)")
  case (Inl e)
  then show ?thesis by (auto simp: validateAuthorizationCodeGrant_def and_then_Inr)
next
  case (Inr found)
  show ?thesis
  proof (cases found)
    case None
    with Inr show ?thesis by (simp add: validateAuthorizationCodeGrant_def and_then_Inr)
  next
    case (Some c)
    with Inr show ?thesis by (auto simp: validateAuthorizationCodeGrant_def and_then_Inr)
  qed
qed

text \<open>
  C7: a code is exchanged exactly if it is stored, belongs to the client and has not expired, and the
  verifier fits: a code with a challenge needs a public client whose verifier hashes to the
  challenge, and one without a challenge goes without a verifier.
\<close>

theorem code_exchange_iff:
  "(\<exists>g db'. validateAuthorizationCodeGrant E now client params db = Inr (g, db')) \<longleftrightarrow>
   (\<exists>c. getCode (hostParser E) (sha256 E) (tp_code params) (db_mysql db) = Inr (Some c) \<and>
      cr_clientId (co_row c) = oc_id client \<and> now \<le> cr_createdAt (co_row c) + expiration_code E \<and>
      (if given (cr_codeChallenge (co_row c))
       then given (tp_code_verifier params) \<and> oc_publicClient client \<and>
         cr_codeChallengeMethod (co_row c) = Some ''S256'' \<and>
         cr_codeChallenge (co_row c) = Some (pkceHash E (the (tp_code_verifier params)))
       else \<not> given (tp_code_verifier params)))"
proof -
  have "(given (tp_code_verifier params) \<longrightarrow> oc_publicClient client) \<and>
      check_code E now client params
        (if given (tp_code_verifier params) then Some (pkceHash E (the (tp_code_verifier params))) else None) c = Inr () \<longleftrightarrow>
      cr_clientId (co_row c) = oc_id client \<and> now \<le> cr_createdAt (co_row c) + expiration_code E \<and>
      (if given (cr_codeChallenge (co_row c))
       then given (tp_code_verifier params) \<and> oc_publicClient client \<and>
         cr_codeChallengeMethod (co_row c) = Some ''S256'' \<and>
         cr_codeChallenge (co_row c) = Some (pkceHash E (the (tp_code_verifier params)))
       else \<not> given (tp_code_verifier params))" for c
    by (cases "given (tp_code_verifier params)"; cases "cr_codeChallenge (co_row c)")
      (auto simp: check_code_Inr given_def)
  then show ?thesis unfolding validateCode_iff by blast
qed

section \<open>Tokens\<close>

lemma generateTokens_Inr:
  assumes "generateTokens E V now r1 r2 g db = (Inr t, db')"
  obtains a db1 where "generateAccessToken E now r1 g db = Inr (a, db1)"
    "\<not> jwtAccessTokens_enabled E \<or> toLowerCase (g_clientId g) \<notin> set (jwtAccessTokens_enabledClientIds E) \<Longrightarrow> tk_access_token t = r1"
    "tk_scope t = toString (at_scope a)"
    "tk_expires_in t = (if g_ttl g \<noteq> 0 then g_ttl g else (at_expiresAt a - now) div 1000)"
    "tk_refresh_token t = (if g_offline g then Some r2 else None)"
    "if g_offline g then \<exists>m. generateRefreshToken (sha256 E) now r2 g (db_mysql db1) = Inr (r2, m) \<and> db' = db1\<lparr> db_mysql := m \<rparr>
     else db' = db1"
proof -
  obtain a j db1 where a: "grant_generateAccessToken E V now r1 g db = (Inr (a, j), db1)"
    using assms by (auto simp: generateTokens_def split: prod.splits sum.splits)
  have g: "generateAccessToken E now r1 g db = Inr (a, db1)"
    "\<not> jwtAccessTokens_enabled E \<or> toLowerCase (g_clientId g) \<notin> set (jwtAccessTokens_enabledClientIds E) \<Longrightarrow> j = None"
    using a by (auto simp: grant_generateAccessToken_def and_then_Inr split: sum.splits if_splits)
  show thesis
  proof (cases "g_offline g")
    case True
    then obtain r m where r: "generateRefreshToken (sha256 E) now r2 g (db_mysql db1) = Inr (r, m)"
      using assms a by (auto simp: generateTokens_def Let_def split: sum.splits)
    then have "r = r2" using generateRefreshToken_Inr by blast
    with True r assms a g show thesis by (intro that [OF g(1)]) (auto simp: generateTokens_def Let_def and_then_Inr)
  next
    case False
    with assms a g show thesis by (intro that [OF g(1)]) (auto simp: generateTokens_def Let_def and_then_Inr)
  qed
qed

lemma generateAccessToken_codes:
  assumes "generateAccessToken E now r g db = Inr (a, db1)"
  shows "my_codes (db_mysql db1) = my_codes (db_mysql db)"
proof (cases "g_clientId g \<in> set (POCKET_IDS E)")
  case True
  then obtain m where m: "generateAccessToken_mysql now a (db_mysql db) = Inr m" "db1 = db\<lparr> db_mysql := m \<rparr>"
    using generateAccessToken_Inr [OF assms] by blast
  from m(1) have "my_codes m = my_codes (db_mysql db)" by (auto simp: generateAccessToken_mysql_def split: sum.splits)
  with m(2) show ?thesis by simp
next
  case False
  then obtain r where "db1 = db\<lparr> db_redis := r \<rparr>" using generateAccessToken_Inr [OF assms] by blast
  then show ?thesis by simp
qed

lemma generateTokens_codes:
  "my_codes (db_mysql (snd (generateTokens E V now r1 r2 g db))) = my_codes (db_mysql db)"
proof (cases "generateAccessToken E now r1 g db")
  case (Inl e)
  then show ?thesis by (simp add: generateTokens_def grant_generateAccessToken_def)
next
  case (Inr p)
  obtain a db1 where p: "p = (a, db1)" by (cases p)
  have codes: "my_codes (db_mysql db1) = my_codes (db_mysql db)" using generateAccessToken_codes Inr p by blast
  have refresh: "my_codes m = my_codes (db_mysql db1)"
    if "generateRefreshToken (sha256 E) now r2 g (db_mysql db1) = Inr (r, m)" for r m
    using generateRefreshToken_Inr [OF that] by auto
  obtain x where x: "grant_generateAccessToken E V now r1 g db = (x, db1)"
    using Inr p by (simp add: grant_generateAccessToken_def)
  show ?thesis
    using x codes refresh by (auto simp: generateTokens_def Let_def split: sum.split prod.split)
qed

section \<open>An example\<close>

text \<open>A public client asks for a code and exchanges it.\<close>

definition flow_env :: oauth_env where
  "flow_env = example_env\<lparr> hostParser := Some, jwtAccessTokens_enabled := False, jwtAccessTokens_enabledClientIds := [] \<rparr>"

definition flow_services :: services where
  "flow_services = example_services\<lparr> verify_assertion := (\<lambda>_. Some (example_claims\<lparr> c_tokenVerified := True \<rparr>)) \<rparr>"

definition flow_client :: oauth_client where
  "flow_client = example_client\<lparr> oc_publicClient := True \<rparr>"

definition flow_scope :: string where
  "flow_scope = ''https://identity.mozilla.com/apps/oldsync''"

definition flow_db :: oauth_db where
  "flow_db = empty_db\<lparr> db_mysql := (db_mysql empty_db)\<lparr> my_clients := [flow_client] \<rparr> \<rparr>"

definition flow_request :: authorization_payload where
  "flow_request =
     \<lparr> az_client_id = ''c1'', az_assertion = ''a'', az_redirect_uri = None, az_response_type = ''code'', az_state = ''s'',
       az_code_challenge_method = Some ''S256'', az_code_challenge = Some (pkceHash flow_env ''verifier''), az_ttl = 0,
       az_resource = None,
       az_requested = \<lparr> rq_scope = None, rq_acr_values = None, rq_access_type = Some ''offline'', rq_keys_jwe = None \<rparr> \<rparr>"

definition flow_params :: "string option \<Rightarrow> token_params" where
  "flow_params verifier =
     \<lparr> tp_credentials = \<lparr> p_client_id = Some ''c1'', p_client_secret = None \<rparr>, tp_grant_type = GRANT_AUTHORIZATION_CODE,
       tp_ttl = 0, tp_scope = None, tp_access_type = None, tp_code = ''k1'', tp_code_verifier = verifier,
       tp_refresh_token = [], tp_assertion = [], tp_ppid_seed = 0, tp_resource = None \<rparr>"

definition flow_authorized :: oauth_db where
  "flow_authorized = snd (authorizationHandler flow_env flow_services 0 ''k1'' [] flow_request flow_db)"

definition flow_issued :: oauth_db where
  "flow_issued = snd (tokenHandler flow_env flow_services 5 ''a1'' ''f1'' None (flow_params (Some ''verifier'')) flow_authorized)"

lemma flow_tokens:
  "\<exists>t. tokenHandler flow_env flow_services 5 ''a1'' ''f1'' None (flow_params (Some ''verifier'')) flow_authorized = (Inr t, flow_issued)"
proof -
  let ?r = "tokenHandler flow_env flow_services 5 ''a1'' ''f1'' None (flow_params (Some ''verifier'')) flow_authorized"
  have "\<not> isl (fst ?r)" by code_simp
  then show ?thesis by (cases ?r; cases "fst ?r") (simp_all add: flow_issued_def)
qed

section \<open>A code works once\<close>

lemma getCode_removed: "getCode hp h c (removeCode h c m) = Inr None"
  by (simp add: getCode_def removeCode_def firstRow_def)

lemma getCode_cong: "my_codes m = my_codes m' \<Longrightarrow> getCode hp h c m = getCode hp h c m'"
  by (simp add: getCode_def)

lemma code_handler_Inr:
  assumes "tokenHandler E V now r1 r2 a p db = (Inr t, db')" and "tp_grant_type p = GRANT_AUTHORIZATION_CODE"
  obtains client g db1 where "authenticateClient E a (tp_credentials p) (db_mysql db) = Inr client"
    "validateAuthorizationCodeGrant E now client p db = Inr (g, db1)"
    "generateTokens E V now r1 r2 (complete_grant E client p g) db1 = (Inr t, db')"
proof -
  obtain client where c: "authenticateClient E a (tp_credentials p) (db_mysql db) = Inr client"
    using assms(1) by (auto simp: tokenHandler_def split: sum.splits)
  obtain g db1 where v: "validateGrantParameters E V now client p db = (Inr g, db1)"
      "generateTokens E V now r1 r2 g db1 = (Inr t, db')"
    using assms c by (auto simp: tokenHandler_def split: sum.splits prod.splits)
  then obtain g' where "validateAuthorizationCodeGrant E now client p db = Inr (g', db1)" "g = complete_grant E client p g'"
    using assms(2) by (auto simp: validateGrantParameters_def split: sum.splits)
  with c v(2) show thesis by (intro that) simp_all
qed

lemma no_code_refused:
  assumes "getCode (hostParser E) (sha256 E) (tp_code p) (db_mysql db) = Inr None" and "tp_grant_type p = GRANT_AUTHORIZATION_CODE"
  shows "\<exists>e. tokenHandler E V now r1 r2 a p db = (Inl e, db)"
proof (cases "authenticateClient E a (tp_credentials p) (db_mysql db)")
  case (Inr client)
  have "\<not> (\<exists>g db'. validateAuthorizationCodeGrant E now client p db = Inr (g, db'))"
    unfolding validateCode_iff using assms(1) by simp
  then obtain e where "validateAuthorizationCodeGrant E now client p db = Inl e"
    by (cases "validateAuthorizationCodeGrant E now client p db") auto
  with Inr assms(2) show ?thesis by (simp add: tokenHandler_def validateGrantParameters_def)
qed (simp add: tokenHandler_def)

text \<open>
  C8: once a code has been exchanged, every further attempt with it is refused and changes nothing,
  whoever makes it and whenever.
\<close>

theorem code_works_once:
  assumes "tokenHandler E V now r1 r2 a p db = (Inr t, db')" and "tp_grant_type p = GRANT_AUTHORIZATION_CODE"
    and "tp_grant_type p' = GRANT_AUTHORIZATION_CODE" and "tp_code p' = tp_code p"
  shows "\<exists>e. tokenHandler E V' now' r1' r2' a' p' db' = (Inl e, db')"
proof -
  obtain client g db1 where v: "validateAuthorizationCodeGrant E now client p db = Inr (g, db1)"
      "generateTokens E V now r1 r2 (complete_grant E client p g) db1 = (Inr t, db')"
    using code_handler_Inr [OF assms(1,2)] by blast
  have "my_codes (db_mysql db') = my_codes (removeCode (sha256 E) (tp_code p) (db_mysql db))"
    using generateTokens_codes [of E V now r1 r2 "complete_grant E client p g" db1] v unfolding validateCode_iff by auto
  from getCode_cong [OF this] getCode_removed assms(4)
  have "getCode (hostParser E) (sha256 E) (tp_code p') (db_mysql db') = Inr None" by simp
  from no_code_refused [OF this assms(3)] show ?thesis .
qed

theorem code_works_once_witness:
  "\<exists>e. tokenHandler flow_env flow_services 6 ''a2'' ''f2'' None (flow_params (Some ''verifier'')) flow_issued = (Inl e, flow_issued)"
proof -
  have code: "tp_grant_type (flow_params v) = GRANT_AUTHORIZATION_CODE" for v by (simp add: flow_params_def)
  obtain t where "tokenHandler flow_env flow_services 5 ''a1'' ''f1'' None (flow_params (Some ''verifier'')) flow_authorized =
      (Inr t, flow_issued)" using flow_tokens by blast
  from code_works_once [OF this code code refl] show ?thesis .
qed

section \<open>The lifetime of a token\<close>

lemma new_token_expires: "at_expiresAt (new_token E now r g) = now + (if g_ttl g = 0 then expiration_accessToken E else g_ttl g * 1000)"
  by (simp add: new_token_def AccessToken_generate_def)

text \<open>
  Whatever lifetime a request asks for, the token does not outlive the configured maximum.
\<close>

theorem expires_in_bounded:
  assumes "tokenHandler E V now r1 r2 a p db = (Inr t, db')"
  shows "tk_expires_in t \<le> MAX_TTL_S E"
proof -
  obtain g db1 where g: "generateTokens E V now r1 r2 g db1 = (Inr t, db')" "g_ttl g = 0 \<or> g_ttl g \<le> MAX_TTL_S E"
    using assms
    by (auto simp: tokenHandler_def validateGrantParameters_def complete_grant_def split: sum.splits prod.splits if_splits)
  from g(1) show ?thesis
  proof (rule generateTokens_Inr)
    fix a' db2 assume a: "generateAccessToken E now r1 g db1 = Inr (a', db2)"
      "tk_expires_in t = (if g_ttl g \<noteq> 0 then g_ttl g else (at_expiresAt a' - now) div 1000)"
    have "a' = new_token E now r1 g" using generateAccessToken_Inr [OF a(1)] by blast
    with a(2) g(2) show ?thesis by (auto simp: new_token_expires MAX_TTL_S_def)
  qed
qed

theorem expires_in_bounded_witness:
  "\<exists>t. fst (tokenHandler flow_env flow_services 5 ''a1'' ''f1'' None (flow_params (Some ''verifier'')) flow_authorized) = Inr t \<and>
     tk_expires_in t \<le> 21900"
proof -
  obtain t where t: "tokenHandler flow_env flow_services 5 ''a1'' ''f1'' None (flow_params (Some ''verifier'')) flow_authorized =
      (Inr t, flow_issued)" using flow_tokens by blast
  have "MAX_TTL_S flow_env = 21900" by (simp add: MAX_TTL_S_def flow_env_def example_env_def)
  with expires_in_bounded [OF t] t show ?thesis by simp
qed

end
