(* ===== verification/OAuth_Flow.thy ===== *)
theory OAuth_Flow
  imports OAuth_Token_Laws
begin

text \<open>
  The endpoints of the OAuth server together: a code that the authorization endpoint gives out is
  exchanged at the token endpoint, the tokens verify, and a destroyed token does not.
\<close>

section \<open>From authorization to a grant\<close>

lemma fromString_ok_set: "fromString hp x = Inr S \<Longrightarrow> ok_set hp S"
  unfolding fromString_def using new_ScopeSet_valid new_ScopeSet_ok by fastforce

lemma firstRow_append_fresh:
  assumes "key r \<notin> key ` set rows"
  shows "firstRow (filter (\<lambda>x. key x = key r) (rows @ [r])) = Some r"
proof -
  have "filter (\<lambda>x. key x = key r) rows = []" using assms by (auto simp: filter_empty_conv image_iff)
  then show ?thesis by (simp add: firstRow_def)
qed

text \<open>What the authorization endpoint did when it answers with a code.\<close>

lemma authorization_code_Inr:
  assumes "authorizationHandler E V now r1 r2 z db = (Inr (CodeResult c), db')"
  obtains claims client g m where "verify_assertion V (az_assertion z) = Some claims"
    "getClient (az_client_id z) (db_mysql db) = Some client"
    "validateRequestedGrant E claims client (az_requested z) (db_mysql db) = Inr g"
    "if oc_publicClient client then given (az_code_challenge_method z) \<and> given (az_code_challenge z)
     else \<not> given (az_code_challenge_method z) \<and> \<not> given (az_code_challenge z)"
    "generateCode (sha256 E) now r1 (az_code_challenge_method z) (az_code_challenge z) g (db_mysql db) = Inr (an_code c, m)"
    "db' = db\<lparr> db_mysql := m \<rparr>"
proof -
  obtain claims where v: "verify_assertion V (az_assertion z) = Some claims"
    using assms by (cases "verify_assertion V (az_assertion z)") (simp_all add: authorizationHandler_def)
  obtain client where cl: "getClient (az_client_id z) (db_mysql db) = Some client"
    using assms v by (cases "getClient (az_client_id z) (db_mysql db)") (simp_all add: authorizationHandler_def)
  obtain u where u: "validateClientDetails V client z = Inr u"
    using assms v cl by (cases "validateClientDetails V client z") (simp_all add: authorizationHandler_def)
  obtain g where g: "validateRequestedGrant E claims client (az_requested z) (db_mysql db) = Inr g"
    using assms v cl u
    by (cases "validateRequestedGrant E claims client (az_requested z) (db_mysql db)") (simp_all add: authorizationHandler_def)
  have code: "generateAuthorizationCode E V now r1 client z u g db = Inr (c, db')"
    using assms v cl u g by (simp add: authorizationHandler_def split: if_splits sum.splits prod.splits)
  then obtain m where "generateCode (sha256 E) now r1 (az_code_challenge_method z) (az_code_challenge z) g (db_mysql db) =
      Inr (an_code c, m)" "db' = db\<lparr> db_mysql := m \<rparr>"
    by (auto simp: generateAuthorizationCode_def and_then_Inr split: sum.splits prod.splits)
  moreover have "if oc_publicClient client then given (az_code_challenge_method z) \<and> given (az_code_challenge z)
      else \<not> given (az_code_challenge_method z) \<and> \<not> given (az_code_challenge z)"
    using code by (auto simp: generateAuthorizationCode_def and_then_Inr split: if_splits)
  ultimately show thesis by (intro that [OF v cl g])
qed

lemma generated_code_found:
  assumes "generateCode (sha256 E) now r1 cm cc g m = Inr (code, m')" and "ok_set (hostParser E) (g_scope g)"
  obtains c where "getCode (hostParser E) (sha256 E) code m' = Inr (Some c)" "cr_clientId (co_row c) = g_clientId g"
    "cr_userId (co_row c) = g_userId g" "cr_createdAt (co_row c) = second now" "cr_codeChallengeMethod (co_row c) = cm"
    "cr_codeChallenge (co_row c) = cc" "scopes_of (co_scope c) = scopes_of (g_scope g)"
proof -
  obtain row where row: "code = r1" "m' = m\<lparr> my_codes := my_codes m @ [row] \<rparr>" "cr_code row = sha256 E r1"
      "sha256 E r1 \<notin> cr_code ` set (my_codes m)" "cr_clientId row = g_clientId g" "cr_userId row = g_userId g"
      "cr_codeChallenge row = cc" "cr_codeChallengeMethod row = cm" "cr_scope row = toString (g_scope g)"
      "cr_createdAt row = second now"
    using generateCode_Inr [OF assms(1)] by blast
  obtain S where S: "fromString (hostParser E) (toString (g_scope g)) = Inr S" "scopes_of S = scopes_of (g_scope g)"
    using print_parse [OF assms(2)] by blast
  have "firstRow (filter (\<lambda>x. cr_code x = sha256 E code) (my_codes m')) = Some row"
    using firstRow_append_fresh [of cr_code row "my_codes m"] row by simp
  with S row show thesis
    by (intro that [of "\<lparr> co_row = row, co_scope = S, co_amr = map_option (split_on (CHR '','')) (cr_amr row) \<rparr>"])
      (simp_all add: getCode_def)
qed

text \<open>
  C6: a code that the authorization endpoint has just given out is exchanged by the same client, until
  it expires, exactly as the request for it demands: a public client presents the verifier whose
  hash it announced, any other client presents none. The grant is for the user of the assertion, with the
  scopes that were asked for.
\<close>

theorem pkce_flow:
  assumes "authorizationHandler E V now r1 r2 z db = (Inr (CodeResult c), db')"
    and "ok_set (hostParser E) (requested_scope (az_requested z))"
    and "getClient (az_client_id z) (db_mysql db) = Some client"
    and "tp_code p = an_code c" and "now' \<le> second now + expiration_code E"
  shows "(\<exists>g d. validateAuthorizationCodeGrant E now' client p db' = Inr (g, d)) =
      (if oc_publicClient client
       then given (tp_code_verifier p) \<and> az_code_challenge_method z = Some ''S256'' \<and>
         az_code_challenge z = Some (pkceHash E (the (tp_code_verifier p)))
       else \<not> given (tp_code_verifier p)) \<and>
    (\<forall>g d. validateAuthorizationCodeGrant E now' client p db' = Inr (g, d) \<longrightarrow>
      map_option c_uid (verify_assertion V (az_assertion z)) = Some (g_userId g) \<and> g_clientId g = oc_id client \<and>
      scopes_of (g_scope g) = scopes_of (requested_scope (az_requested z)))"
proof -
  obtain claims g m where a: "verify_assertion V (az_assertion z) = Some claims"
      "validateRequestedGrant E claims client (az_requested z) (db_mysql db) = Inr g"
      "if oc_publicClient client then given (az_code_challenge_method z) \<and> given (az_code_challenge z)
       else \<not> given (az_code_challenge_method z) \<and> \<not> given (az_code_challenge z)"
      "generateCode (sha256 E) now r1 (az_code_challenge_method z) (az_code_challenge z) g (db_mysql db) = Inr (an_code c, m)"
      "db' = db\<lparr> db_mysql := m \<rparr>"
    using authorization_code_Inr [OF assms(1)] assms(3) by (metis option.inject)
  note g = validateRequestedGrant_Inr [OF a(2)]
  obtain o' where o: "getCode (hostParser E) (sha256 E) (an_code c) m = Inr (Some o')" "cr_clientId (co_row o') = g_clientId g"
      "cr_userId (co_row o') = g_userId g" "cr_createdAt (co_row o') = second now"
      "cr_codeChallengeMethod (co_row o') = az_code_challenge_method z" "cr_codeChallenge (co_row o') = az_code_challenge z"
      "scopes_of (co_scope o') = scopes_of (g_scope g)"
    using generated_code_found [OF a(4)] assms(2) g(3) by metis
  have v: "validateAuthorizationCodeGrant E now' client p db' = Inr (h, d) \<longleftrightarrow>
      (given (tp_code_verifier p) \<longrightarrow> oc_publicClient client) \<and>
      check_code E now' client p (if given (tp_code_verifier p) then Some (pkceHash E (the (tp_code_verifier p))) else None) o' = Inr () \<and>
      h = code_grant o' \<and> d = db'\<lparr> db_mysql := removeCode (sha256 E) (tp_code p) (db_mysql db') \<rparr>" for h d
    unfolding validateCode_iff using o(1) a(5) assms(4) by auto
  have "\<forall>h d. validateAuthorizationCodeGrant E now' client p db' = Inr (h, d) \<longrightarrow>
      map_option c_uid (verify_assertion V (az_assertion z)) = Some (g_userId h) \<and> g_clientId h = oc_id client \<and>
      scopes_of (g_scope h) = scopes_of (requested_scope (az_requested z))"
    unfolding v using a(1) g(1,2,3) o(2,3,7) by (simp add: code_grant_def)
  moreover have "(\<exists>h d. validateAuthorizationCodeGrant E now' client p db' = Inr (h, d)) \<longleftrightarrow>
      (if oc_publicClient client
       then given (tp_code_verifier p) \<and> az_code_challenge_method z = Some ''S256'' \<and>
         az_code_challenge z = Some (pkceHash E (the (tp_code_verifier p)))
       else \<not> given (tp_code_verifier p))"
    unfolding v check_code_Inr o(2,4,5,6) g(1) using a(3) assms(5)
    by (cases "az_code_challenge z"; cases "oc_publicClient client"; cases "given (tp_code_verifier p)")
      (auto simp: given_def)
  ultimately show ?thesis by blast
qed

theorem pkce_flow_witness:
  "(\<exists>g d. validateAuthorizationCodeGrant flow_env 5 flow_client (flow_params (Some ''verifier'')) flow_authorized = Inr (g, d)) \<and>
   \<not> (\<exists>g d. validateAuthorizationCodeGrant flow_env 5 flow_client (flow_params (Some ''other'')) flow_authorized = Inr (g, d)) \<and>
   \<not> (\<exists>g d. validateAuthorizationCodeGrant flow_env 5 flow_client (flow_params None) flow_authorized = Inr (g, d))"
proof -
  let ?r = "authorizationHandler flow_env flow_services 0 ''k1'' [] flow_request flow_db"
  have "(case fst ?r of Inr (CodeResult c) \<Rightarrow> an_code c | _ \<Rightarrow> []) = ''k1''" by code_simp
  then obtain c where c: "?r = (Inr (CodeResult c), flow_authorized)" "an_code c = ''k1''"
    by (cases ?r) (auto simp: flow_authorized_def split: sum.splits authorization_result.splits)
  have ok: "ok_set (hostParser flow_env) (requested_scope (az_requested flow_request))"
    by (simp add: flow_request_def requested_scope_def)
  have client: "getClient (az_client_id flow_request) (db_mysql flow_db) = Some flow_client" by code_simp
  have code: "tp_code (flow_params v) = an_code c" for v by (simp add: flow_params_def c(2))
  have time: "5 \<le> second 0 + expiration_code flow_env" by code_simp
  note f = pkce_flow [OF c(1) ok client code time, THEN conjunct1]
  have "oc_publicClient flow_client" "az_code_challenge_method flow_request = Some ''S256''"
    "az_code_challenge flow_request = Some (pkceHash flow_env ''verifier'')"
    by (simp_all add: flow_client_def flow_request_def)
  moreover have "pkceHash flow_env ''verifier'' \<noteq> pkceHash flow_env ''other''" by code_simp
  ultimately show ?thesis unfolding f by (simp add: flow_params_def given_def)
qed

section \<open>From a grant to a verified token\<close>

lemma getAccessToken_cong:
  assumes "db_redis db = db_redis db'" "my_tokens (db_mysql db) = my_tokens (db_mysql db')"
    "my_clients (db_mysql db) = my_clients (db_mysql db')"
  shows "getAccessToken E now i db = getAccessToken E now i db'"
  using assms by (simp add: getAccessToken_def getAccessToken_mysql_def find_joined_def joined_def getClient_def
      cong: option.case_cong)

lemma no_dot_no_jwt: "CHR ''.'' \<notin> set s \<Longrightarrow> \<not> valid_jwt s"
  by (simp add: valid_jwt_def)

lemma verify_opaque:
  assumes "\<not> valid_jwt token" and "getAccessToken E now (sha256 E token) db = Inr (Some t)"
    and "at_clientId t \<in> set (POCKET_IDS E) \<or> now \<le> at_expiresAt t"
  shows "verify E V now token db =
    Inr \<lparr> ti_user = at_userId t, ti_client_id = at_clientId t, ti_scope = at_scope t, ti_generation = 0,
          ti_profile_changed_at = at_profileChangedAt t \<rparr>"
  using assms by (auto simp: verify_def verify_stored_def getTokenId_def require_def token_expired_def)

text \<open>
  C11: for a client without JWT access tokens, the access token that a grant has just given, with a lifetime
  up to the maximum and a new random id, verifies for the user, the client and the scopes of the grant.
\<close>

theorem issued_token_verifies:
  assumes "db_reached E now db" and "env_ok E" and "ok_set (hostParser E) (g_scope g)"
    and "fresh_id (sha256 E r1) (db_redis db)" and "0 \<le> g_ttl g" and "g_ttl g \<le> MAX_TTL_S E"
    and "toLowerCase (g_clientId g) \<notin> set (jwtAccessTokens_enabledClientIds E)" and "CHR ''.'' \<notin> set r1"
    and "generateTokens E V now r1 r2 g db = (Inr t, db')"
  shows "\<exists>info. verify E V now (tk_access_token t) db' = Inr info \<and> ti_user info = g_userId g \<and>
    ti_client_id info = g_clientId g \<and> scopes_of (ti_scope info) = scopes_of (g_scope g)"
  using assms(9)
proof (rule generateTokens_Inr)
  fix a db1
  assume a: "generateAccessToken E now r1 g db = Inr (a, db1)"
    and id: "\<not> jwtAccessTokens_enabled E \<or> toLowerCase (g_clientId g) \<notin> set (jwtAccessTokens_enabledClientIds E) \<Longrightarrow>
      tk_access_token t = r1"
    and r: "if g_offline g then \<exists>m. generateRefreshToken (sha256 E) now r2 g (db_mysql db1) = Inr (r2, m) \<and> db' = db1\<lparr> db_mysql := m \<rparr>
      else db' = db1"
  have "g_ttl g \<le> expiration_accessToken E div 1000" using assms(6) by (simp add: MAX_TTL_S_def)
  from stored_token [OF assms(1,2,3,4,5) this a] obtain t' where
    t': "getAccessToken E now (sha256 E r1) db1 = Inr (Some t')" "at_userId t' = g_userId g" "at_clientId t' = g_clientId g"
      "scopes_of (at_scope t') = scopes_of (g_scope g)" "g_clientId g \<in> set (POCKET_IDS E) \<or> now \<le> at_expiresAt t'"
    by blast
  have "db_redis db' = db_redis db1 \<and> my_tokens (db_mysql db') = my_tokens (db_mysql db1) \<and>
      my_clients (db_mysql db') = my_clients (db_mysql db1)"
  proof (cases "g_offline g")
    case True
    then obtain m where m: "generateRefreshToken (sha256 E) now r2 g (db_mysql db1) = Inr (r2, m)" "db' = db1\<lparr> db_mysql := m \<rparr>"
      using r by auto
    from generateRefreshToken_Inr [OF m(1)] m(2) show ?thesis by auto
  qed (use r in simp)
  then have "getAccessToken E now (sha256 E r1) db' = Inr (Some t')" using getAccessToken_cong t'(1) by metis
  moreover have "tk_access_token t = r1" using id assms(7) by blast
  ultimately show ?thesis
    using verify_opaque [OF no_dot_no_jwt [OF assms(8)], of E now db' t' V] t'(2-5) by simp
qed

theorem issued_token_verifies_witness:
  "\<exists>t db' info. generateTokens flow_env flow_services 0 ''a1'' ''f1'' example_grant empty_db = (Inr t, db') \<and>
     verify flow_env flow_services 0 (tk_access_token t) db' = Inr info \<and> ti_user info = ''u1''"
proof -
  let ?r = "generateTokens flow_env flow_services 0 ''a1'' ''f1'' example_grant empty_db"
  have "\<not> isl (fst ?r)" by code_simp
  then obtain t db' where t: "?r = (Inr t, db')" by (cases ?r; cases "fst ?r") simp_all
  have E: "env_ok flow_env" by (simp add: env_ok_def flow_env_def example_env_def spop_ok_take)
  have s: "ok_set (hostParser flow_env) (g_scope example_grant)" by (simp add: example_grant_def)
  have f: "fresh_id (sha256 flow_env ''a1'') (db_redis empty_db)"
    by (simp add: fresh_id_def empty_db_def cache_empty_def)
  have l: "0 \<le> g_ttl example_grant" "g_ttl example_grant \<le> MAX_TTL_S flow_env" by code_simp+
  have j: "toLowerCase (g_clientId example_grant) \<notin> set (jwtAccessTokens_enabledClientIds flow_env)"
    by (simp add: flow_env_def)
  have d: "CHR ''.'' \<notin> set ''a1''" by simp
  have u: "g_userId example_grant = ''u1''" by (simp add: example_grant_def)
  from issued_token_verifies [OF db_reached.start E s f l j d t] t u show ?thesis by auto
qed

section \<open>Revocation\<close>

lemma getAccessToken_id:
  assumes "db_ok E now db" and "getAccessToken E now i db = Inr (Some t)"
  shows "at_tokenId t = i"
proof -
  consider v where "redis_get now (tc_tokens (db_redis db)) i = Some v" "AccessToken_parse (hostParser E) v = Inr t"
    | r where "find_joined (db_mysql db) i = Some r" "AccessToken_fromMySQL (hostParser E) r = Inr t"
    using assms(2) unfolding getAccessToken_cases by blast
  then show ?thesis
  proof cases
    case 1
    then show ?thesis using get_tokenId [OF db_okD(1) [OF assms(1)]] parse_fields by metis
  next
    case 2
    obtain x c where "r = (x, c)" by (cases r)
    moreover from this 2(1) have "tr_token x = i" using mysql.get_id [OF db_okD(2) [OF assms(1)]] by fastforce
    ultimately show ?thesis using 2(2) fromMySQL_fields by blast
  qed
qed

lemma removeAccessToken_find:
  assumes ok: "db_ok E now db" and i: "at_tokenId t = i"
    and one: "redis_get now (tc_tokens (db_redis db)) i = None \<or> find_joined (db_mysql db) i = None"
    and later: "now \<le> now'"
  shows "getAccessToken E now' i (removeAccessToken now t db) = Inr None"
    and "j \<noteq> i \<Longrightarrow> getAccessToken E now' j (removeAccessToken now t db) = getAccessToken E now' j db"
proof -
  let ?db = "removeAccessToken now t db"
  have redis: "db_redis ?db = (db_redis db)\<lparr> tc_tokens := unlink [i] (tc_tokens (db_redis db)) \<rparr>"
    by (simp add: removeAccessToken_def FxaRedis_removeAccessToken_def removeAccessToken_script_def i)
  have mysql: "find_joined (db_mysql ?db) j = (if j = i then None else find_joined (db_mysql db) j)" for j
  proof (cases "redis_get now (tc_tokens (db_redis db)) i = None")
    case True
    then show ?thesis using mysql.get_remove [OF db_okD(2) [OF ok]]
      by (simp add: removeAccessToken_def FxaRedis_removeAccessToken_def removeAccessToken_script_def i)
  next
    case False
    with one show ?thesis
      by (auto simp: removeAccessToken_def FxaRedis_removeAccessToken_def removeAccessToken_script_def i)
  qed
  show "getAccessToken E now' i ?db = Inr None"
    by (simp add: getAccessToken_def RedisShared_getAccessToken_def getAccessToken_script_def getAccessToken_mysql_def
        scope_result_def redis mysql)
  show "j \<noteq> i \<Longrightarrow> getAccessToken E now' j ?db = getAccessToken E now' j db"
    by (simp add: getAccessToken_def RedisShared_getAccessToken_def getAccessToken_script_def getAccessToken_mysql_def
        scope_result_def redis mysql cong: option.case_cong)
qed

text \<open>
  C12: an opaque access token that was destroyed is refused from then on, unless both stores have a token with
  its id; every token with another id is found as before. (A JWT with a short lifetime is verified
  without the stores, so its destruction has no effect on it.)
\<close>

theorem destroyed_token_refused:
  assumes "db_reached E now db" and "env_ok E" and "\<not> valid_jwt token"
    and "redis_get now (tc_tokens (db_redis db)) (sha256 E token) = None \<or> find_joined (db_mysql db) (sha256 E token) = None"
    and "destroyHandler E V now a p (AccessTokenArg token) db = (Inr (), db')" and "now \<le> now'"
  shows "verify E V now' token db' = Inl InvalidToken \<and>
    (\<forall>j. j \<noteq> sha256 E token \<longrightarrow> getAccessToken E now' j db' = getAccessToken E now' j db)"
proof -
  have ok: "db_ok E now db" using db_reached_ok assms(1,2) by blast
  obtain client where "destroy_access E V now client token db = (Inr (), db')"
    using assms(5) by (auto simp: destroyHandler_def split: sum.splits)
  then obtain t where t: "getAccessToken E now (sha256 E token) db = Inr (Some t)" "db' = removeAccessToken now t db"
    using assms(3) by (auto simp: destroy_access_def getTokenId_def and_then_Inr split: sum.splits option.splits)
  note f = removeAccessToken_find [OF ok getAccessToken_id [OF ok t(1)] assms(4,6)]
  have "verify E V now' token db' = Inl InvalidToken"
    using assms(3) f(1) t(2) by (simp add: verify_def verify_stored_def getTokenId_def)
  with f(2) t(2) show ?thesis by blast
qed

theorem destroyed_token_refused_witness:
  "\<exists>db'. destroyHandler example_env flow_services 0 None \<lparr> p_client_id = None, p_client_secret = None \<rparr> (AccessTokenArg ''a1'')
       example_db = (Inr (), db') \<and> verify example_env flow_services 7 ''a1'' db' = Inl InvalidToken"
proof -
  let ?r = "destroyHandler example_env flow_services 0 None \<lparr> p_client_id = None, p_client_secret = None \<rparr> (AccessTokenArg ''a1'') example_db"
  have "\<not> isl (fst ?r)" by code_simp
  then obtain db' where r: "?r = (Inr (), db')" by (cases ?r; cases "fst ?r") simp_all
  have j: "\<not> valid_jwt ''a1''" by (rule no_dot_no_jwt) simp
  have "find_joined (db_mysql example_db) (sha256 example_env ''a1'') = None" by code_simp
  from destroyed_token_refused [OF example_db_reached example_env_ok j disjI2 [OF this] r, of 7] r show ?thesis by auto
qed

end
