(* ===== verification/OAuth_Refresh.thy ===== *)
theory OAuth_Refresh
  imports OAuth_Flow
begin

text \<open>
  Refresh tokens and scoped keys: a refresh token gives no more than was granted, and the data for
  scoped keys goes to fresh and verified sessions only.
\<close>

section \<open>Refresh tokens\<close>

lemma getRefreshToken_scope:
  assumes "getRefreshToken E now i db = Inr (Some t, db')"
  shows "ok_set (hostParser E) (rt_scope t)"
proof -
  obtain x where x: "getRefreshToken_mysql (hostParser E) i (db_mysql db) = Inr (Some x)" "rt_scope t = rt_scope x"
    using assms by (auto simp: getRefreshToken_def Let_def split: sum.splits option.splits)
  then obtain row where "parse_refresh (hostParser E) row = Inr x"
    by (auto simp: getRefreshToken_mysql_def split: sum.splits option.splits)
  then have "fromString (hostParser E) (rr_scope row) = Inr (rt_scope x)"
    by (auto simp: parse_refresh_def split: sum.splits)
  then show ?thesis unfolding x(2) by (rule fromString_ok_set)
qed

text \<open>The scopes that a refresh token may be used for.\<close>

definition refreshable :: "oauth_env \<Rightarrow> oauth_client \<Rightarrow> scope_set \<Rightarrow> string \<Rightarrow> bool" where
  "refreshable E client scope s \<longleftrightarrow>
     (let imp = getImplicantValues (hostParser E)
      in s \<in> scopes_of scope \<or> allows imp scope s \<or>
         oc_trusted client \<and> allowedScopes client \<noteq> [] \<and>
           (\<exists>A. fromArray (hostParser E) (split_on (CHR '' '') (allowedScopes client)) = Inr A \<and> allows imp A s))"

lemma requested_refreshable:
  assumes R: "ok_set hp R" "\<forall>s \<in> scopes_of R. plain_scope hp s" and S: "ok_set hp S"
    and A: "fromArray hp as = Inr A" and U: "ScopeSet_union hp (ScopeSetArg S) A = Inr U"
    and c: "ScopeSet_contains hp (ScopeSetArg R) U = Inr True" and s: "s \<in> scopes_of R"
  shows "allows (getImplicantValues hp) S s \<or> allows (getImplicantValues hp) A s"
proof -
  have "ok_set hp A"
    using A new_ScopeSet_valid new_ScopeSet_ok unfolding fromArray_def by fastforce
  then have "capabilities hp U = capabilities hp A \<union> capabilities hp S" using union_ok [OF _ S] U by fastforce
  moreover have "allows (getImplicantValues hp) U s" using c s contains_allows [OF R(1)] by simp
  ultimately show ?thesis using R(2) s unfolding capabilities_def by blast
qed

lemma refresh_scope_Inr:
  assumes r: "refresh_scope E client req scope = Inr S'" and ok: "ok_set (hostParser E) scope"
    and R: "\<And>R. req = Some R \<Longrightarrow> ok_set (hostParser E) R \<and> (\<forall>s \<in> scopes_of R. plain_scope (hostParser E) s)"
    and s: "s \<in> scopes_of S'"
  shows "refreshable E client scope s \<and>
    \<not> allows (getImplicantValues (hostParser E)) (SCOPES_TO_EXCLUDE_FROM_REFRESH_TOKEN_GRANTS (hostParser E)) s"
proof -
  let ?hp = "hostParser E" and ?X = "SCOPES_TO_EXCLUDE_FROM_REFRESH_TOKEN_GRANTS (hostParser E)"
  obtain T where T: "ScopeSet_difference ?hp (ScopeSetArg ?X) T = Inr S'"
      "req = None \<and> T = scope \<or> req = Some T \<and>
        (ScopeSet_contains ?hp (ScopeSetArg T) scope = Inr True \<or>
         (\<exists>A U. fromArray ?hp (if allowedScopes client \<noteq> [] then split_on (CHR '' '') (allowedScopes client) else []) = Inr A \<and>
            ScopeSet_union ?hp (ScopeSetArg scope) A = Inr U \<and> oc_trusted client \<and>
            ScopeSet_contains ?hp (ScopeSetArg T) U = Inr True))"
    using r unfolding refresh_scope_def Let_def
    by (auto simp: and_then_Inr split: option.splits if_splits)
  have okT: "ok_set ?hp T" using T(2) ok R by blast
  obtain D where "ScopeSet_difference ?hp (ScopeSetArg ?X) T = Inr D"
      "scopes_of D = {s \<in> scopes_of T. \<not> allows (getImplicantValues ?hp) ?X s}"
    using difference_scopes [OF okT, of ?X] by blast
  with T(1) s have st: "s \<in> scopes_of T" "\<not> allows (getImplicantValues ?hp) ?X s" by auto
  have "refreshable E client scope s"
    using T(2)
  proof (elim disjE conjE exE)
    assume "T = scope"
    with st show ?thesis by (simp add: refreshable_def)
  next
    assume "ScopeSet_contains ?hp (ScopeSetArg T) scope = Inr True"
    with contains_allows [OF okT] st show ?thesis by (simp add: refreshable_def)
  next
    fix A U
    assume a: "req = Some T" "oc_trusted client" "ScopeSet_union ?hp (ScopeSetArg scope) A = Inr U"
      "fromArray ?hp (if allowedScopes client \<noteq> [] then split_on (CHR '' '') (allowedScopes client) else []) = Inr A"
      "ScopeSet_contains ?hp (ScopeSetArg T) U = Inr True"
    from requested_refreshable [OF _ _ ok a(4,3,5) st(1)] R [OF a(1)]
    have either: "allows (getImplicantValues ?hp) scope s \<or> allows (getImplicantValues ?hp) A s" by blast
    show ?thesis
    proof (cases "allowedScopes client = []")
      case True
      then have "A = empty_set" using a(4) by (simp add: fromArray_def new_ScopeSet_def)
      moreover have "plain_scope ?hp s" using R [OF a(1)] st(1) by blast
      ultimately have "\<not> allows (getImplicantValues ?hp) A s" using scopes.allows_plain by simp
      with either show ?thesis by (simp add: refreshable_def)
    next
      case False
      with either a(2,4) show ?thesis by (auto simp: refreshable_def)
    qed
  qed
  with st(2) show ?thesis by blast
qed

text \<open>
  C10: a grant from a refresh token is for the token's user and its client, asks for no further refresh
  token, and has no scope beyond those of the token, or for a trusted client those allowed to it; the
  scopes for a single exchange (openid, session tokens) are left out.
\<close>

theorem refresh_never_escalates:
  assumes "validateRefreshTokenGrant E now client p db = (Inr g, db')"
    and "\<And>R. tp_scope p = Some R \<Longrightarrow> ok_set (hostParser E) R \<and> (\<forall>s \<in> scopes_of R. plain_scope (hostParser E) s)"
  shows "\<exists>t. getRefreshToken E now (sha256 E (tp_refresh_token p)) db = Inr (Some t, db') \<and>
    rt_clientId t = oc_id client \<and> g_clientId g = oc_id client \<and> g_userId g = rt_userId t \<and> \<not> g_offline g \<and>
    (\<forall>s \<in> scopes_of (g_scope g). refreshable E client (rt_scope t) s \<and>
       \<not> allows (getImplicantValues (hostParser E)) (SCOPES_TO_EXCLUDE_FROM_REFRESH_TOKEN_GRANTS (hostParser E)) s)"
proof -
  obtain t where t: "getRefreshToken E now (sha256 E (tp_refresh_token p)) db = Inr (Some t, db')"
    using assms(1) by (auto simp: validateRefreshTokenGrant_def split: sum.splits option.splits prod.splits)
  then obtain S where S: "rt_clientId t = oc_id client" "refresh_scope E client (tp_scope p) (rt_scope t) = Inr S"
      "g = refresh_grant t S"
    using assms(1) by (auto simp: validateRefreshTokenGrant_def and_then_Inr)
  have "\<forall>s \<in> scopes_of (g_scope g). refreshable E client (rt_scope t) s \<and>
      \<not> allows (getImplicantValues (hostParser E)) (SCOPES_TO_EXCLUDE_FROM_REFRESH_TOKEN_GRANTS (hostParser E)) s"
    using refresh_scope_Inr [OF S(2) getRefreshToken_scope [OF t]] assms(2) by (simp add: S(3) refresh_grant_def)
  with t S show ?thesis by (simp add: refresh_grant_def)
qed

definition refresh_params :: token_params where
  "refresh_params = (flow_params None)\<lparr> tp_grant_type := GRANT_REFRESH_TOKEN, tp_refresh_token := ''f1'' \<rparr>"

theorem refresh_never_escalates_witness:
  "\<exists>g db' t. validateRefreshTokenGrant flow_env 7 flow_client refresh_params flow_issued = (Inr g, db') \<and>
     getRefreshToken flow_env 7 ''hf1'' flow_issued = Inr (Some t, db') \<and> g_userId g = rt_userId t \<and> \<not> g_offline g"
proof -
  let ?r = "validateRefreshTokenGrant flow_env 7 flow_client refresh_params flow_issued"
  have "\<not> isl (fst ?r)" by code_simp
  then obtain g db' where r: "?r = (Inr g, db')" by (cases ?r; cases "fst ?r") simp_all
  have "sha256 flow_env (tp_refresh_token refresh_params) = ''hf1''" "tp_scope refresh_params = None"
    by (simp_all add: refresh_params_def flow_env_def example_env_def flow_params_def)
  with refresh_never_escalates [OF r] r show ?thesis by auto
qed

section \<open>Scoped keys\<close>

definition rotation_key :: "int \<Rightarrow> scope_row \<Rightarrow> key_data" where
  "rotation_key changed r =
     \<lparr> kd_identifier = sr_scope r, kd_keyRotationSecret = DEFAULT_KEY_ROTATION_SECRET,
       kd_keyRotationTimestamp = max changed 0 \<rparr>"

lemma key_step:
  "key_of_scope iat changed r acc =
     (if max changed 0 div 1000 \<le> iat then Inr (AList.update (sr_scope r) (rotation_key changed r) acc)
      else Inl (StaleAuthAt iat))"
  by (simp add: key_of_scope_def rotation_key_def Let_def require_def)

lemma key_rows_all:
  "fold_sum (key_of_scope iat changed) rows acc =
     (if rows = [] \<or> max changed 0 div 1000 \<le> iat
      then Inr (fold (\<lambda>r. AList.update (sr_scope r) (rotation_key changed r)) rows acc)
      else Inl (StaleAuthAt iat))"
  by (induction rows arbitrary: acc) (auto simp: key_step)

lemma set_update_subset: "set (AList.update a k es) \<subseteq> insert (a, k) (set es)"
  by (induction es) auto

lemma fold_keys:
  "fst ` set (fold (\<lambda>r. AList.update (sr_scope r) (rotation_key changed r)) rows acc) = fst ` set acc \<union> sr_scope ` set rows"
  by (induction rows arbitrary: acc) (simp_all add: AList.dom_update)

lemma fold_times:
  "\<forall>e \<in> set acc. kd_keyRotationTimestamp (snd e) = max changed 0 \<Longrightarrow>
   e \<in> set (fold (\<lambda>r. AList.update (sr_scope r) (rotation_key changed r)) rows acc) \<Longrightarrow>
   kd_keyRotationTimestamp (snd e) = max changed 0"
proof (induction rows arbitrary: acc)
  case (Cons r rows)
  have "\<forall>e \<in> set (AList.update (sr_scope r) (rotation_key changed r) acc). kd_keyRotationTimestamp (snd e) = max changed 0"
  proof
    fix e assume "e \<in> set (AList.update (sr_scope r) (rotation_key changed r) acc)"
    then have "e = (sr_scope r, rotation_key changed r) \<or> e \<in> set acc" using set_update_subset by fastforce
    then show "kd_keyRotationTimestamp (snd e) = max changed 0"
      using Cons.prems(1) by (auto simp: rotation_key_def)
  qed
  from Cons.IH [OF this] Cons.prems(2) show ?case by simp
qed simp

lemma getScope_key: "getScope s m = Some r \<Longrightarrow> sr_scope r = s"
  by (auto simp: getScope_def firstRow_def filter_eq_Cons_iff split: if_splits list.splits)

lemma key_bearing_scopes:
  assumes "g_scopeConfig g = map (\<lambda>s. (s, getScope s m)) (getScopeValues (g_scope g))"
  shows "sr_scope ` set (key_bearing g) = {s \<in> scopes_of (g_scope g). keyed m s}"
proof -
  have config: "map_of (g_scopeConfig g) s = Some (getScope s m)" if "s \<in> scopes_of (g_scope g)" for s
    using that by (simp add: assms map_of_map_restrict set_getScopeValues)
  have rows: "r \<in> set (key_bearing g) \<longleftrightarrow>
      (\<exists>s \<in> scopes_of (g_scope g). getScope s m = Some r \<and> sr_hasScopedKeys r)" for r
  proof -
    have "(case map_of (g_scopeConfig g) s of Some (Some s) \<Rightarrow> if sr_hasScopedKeys s then Some s else None | _ \<Rightarrow> None) = Some r \<longleftrightarrow>
        getScope s m = Some r \<and> sr_hasScopedKeys r" if "s \<in> scopes_of (g_scope g)" for s
      using config [OF that] by (auto split: option.split)
    then show ?thesis unfolding key_bearing_def set_map_filter set_getScopeValues by blast
  qed
  show ?thesis
  proof (intro set_eqI iffI)
    fix s assume "s \<in> sr_scope ` set (key_bearing g)"
    then obtain r s' where r: "s = sr_scope r" "s' \<in> scopes_of (g_scope g)" "getScope s' m = Some r" "sr_hasScopedKeys r"
      using rows by blast
    then have "s' = s" using getScope_key by blast
    with r show "s \<in> {s \<in> scopes_of (g_scope g). keyed m s}" by (simp add: keyed_def)
  next
    fix s assume "s \<in> {s \<in> scopes_of (g_scope g). keyed m s}"
    then have s: "s \<in> scopes_of (g_scope g)" "keyed m s" by simp_all
    then obtain r where r: "getScope s m = Some r" "sr_hasScopedKeys r" by (auto simp: keyed_def split: option.splits)
    then have "r \<in> set (key_bearing g)" unfolding rows using s(1) by blast
    with getScope_key [OF r(1)] show "s \<in> sr_scope ` set (key_bearing g)" by blast
  qed
qed

text \<open>
  C16: the data for scoped keys is exactly that of the requested scopes which have keys. If there is one,
  the session is verified and the assertion is not older than the last change of the keys.
\<close>

theorem key_data_fresh:
  assumes "ok_set (hostParser E) scope" and "keyDataHandler E V assertion client_id scope m = Inr r"
  shows "fst ` set r = {s \<in> scopes_of scope. keyed m s} \<and>
    (\<exists>claims. verify_assertion V assertion = Some claims \<and>
      (let iat = (if c_iat claims \<noteq> 0 then c_iat claims else c_lastAuthAt claims);
           changed = (if c_keysChangedAt claims \<noteq> 0 then c_keysChangedAt claims else c_generation claims)
       in (r \<noteq> [] \<longrightarrow> c_tokenVerified claims \<and> max changed 0 div 1000 \<le> iat) \<and>
          (\<forall>k \<in> snd ` set r. kd_keyRotationTimestamp k = max changed 0)))"
proof -
  let ?req = "\<lparr> rq_scope = Some scope, rq_acr_values = None, rq_access_type = None, rq_keys_jwe = None \<rparr>"
  have rs: "requested_scope ?req = scope" by (simp add: requested_scope_def)
  obtain claims client g where g: "verify_assertion V assertion = Some claims"
      "validateRequestedGrant E claims client ?req m = Inr g"
      "fold_sum (key_of_scope (if c_iat claims \<noteq> 0 then c_iat claims else c_lastAuthAt claims)
        (if c_keysChangedAt claims \<noteq> 0 then c_keysChangedAt claims else c_generation claims)) (key_bearing g) [] = Inr r"
    using assms(2) by (auto simp: keyDataHandler_def and_then_Inr Let_def split: option.splits)
  have v: "permitted E claims client ?req m"
    "g = grant_of claims client ?req (map (\<lambda>s. (s, getScope s m)) (getScopeValues scope))"
    using validated_grant [of E ?req claims client m g] assms(1) g(2) unfolding rs by blast+
  have scope: "g_scope g = scope" "g_scopeConfig g = map (\<lambda>s. (s, getScope s m)) (getScopeValues (g_scope g))"
    by (simp_all add: v(2) grant_of_def rs)
  let ?iat = "if c_iat claims \<noteq> 0 then c_iat claims else c_lastAuthAt claims"
  let ?changed = "if c_keysChangedAt claims \<noteq> 0 then c_keysChangedAt claims else c_generation claims"
  have r: "r = fold (\<lambda>x. AList.update (sr_scope x) (rotation_key ?changed x)) (key_bearing g) []"
    and fresh: "key_bearing g = [] \<or> max ?changed 0 div 1000 \<le> ?iat"
    using g(3) unfolding key_rows_all by (simp_all split: if_splits)
  have keys: "fst ` set r = {s \<in> scopes_of scope. keyed m s}"
    unfolding r fold_keys key_bearing_scopes [OF scope(2)] scope(1) by simp
  have times: "kd_keyRotationTimestamp k = max ?changed 0" if "k \<in> snd ` set r" for k
    using that fold_times [of "[]" ?changed] unfolding r by auto
  have "c_tokenVerified claims" if "r \<noteq> []"
  proof -
    from that have "fst ` set r \<noteq> {}" by simp
    then obtain s where "s \<in> scopes_of scope" "keyed m s" unfolding keys by blast
    with v(1) show ?thesis unfolding permitted_def Let_def rs by blast
  qed
  moreover have "max ?changed 0 div 1000 \<le> ?iat" if "r \<noteq> []" using that fresh r by (cases "key_bearing g") simp_all
  ultimately show ?thesis using keys g(1) times unfolding Let_def by blast
qed

definition key_store :: mysql_store where
  "key_store = (db_mysql flow_db)\<lparr> my_scopes := [\<lparr> sr_scope = flow_scope, sr_hasScopedKeys = True \<rparr>],
     my_clients := [flow_client\<lparr> oc_trusted := True, oc_allowedScopes := Some flow_scope \<rparr>] \<rparr>"

theorem key_data_fresh_witness:
  "\<exists>S r. fromArray Some [flow_scope] = Inr S \<and> keyDataHandler flow_env flow_services ''a'' ''c1'' S key_store = Inr r \<and>
     fst ` set r = {flow_scope}"
proof -
  let ?F = "fromArray Some [flow_scope]"
  have v: "valid_scope Some flow_scope" by code_simp
  then obtain S where S: "?F = Inr S" "ok_set Some S" using new_ScopeSet_ok [of "[flow_scope]" Some] by (auto simp: fromArray_def)
  have "(case ?F of Inr S \<Rightarrow> getScopeValues S | Inl _ \<Rightarrow> []) = [flow_scope]" by code_simp
  then have sc: "scopes_of S = {flow_scope}" using S(1) set_getScopeValues [of S] by simp
  have "\<not> isl (case ?F of Inr S \<Rightarrow> keyDataHandler flow_env flow_services ''a'' ''c1'' S key_store | Inl e \<Rightarrow> Inl CryptoFailure)"
    by code_simp
  then obtain r where r: "keyDataHandler flow_env flow_services ''a'' ''c1'' S key_store = Inr r"
    using S(1) by (cases "keyDataHandler flow_env flow_services ''a'' ''c1'' S key_store") simp_all
  have "keyed key_store flow_scope" by code_simp
  moreover have "ok_set (hostParser flow_env) S" using S(2) by (simp add: flow_env_def)
  from key_data_fresh [OF this r, THEN conjunct1] have "fst ` set r = {s \<in> scopes_of S. keyed key_store s}" .
  ultimately have "fst ` set r = {flow_scope}" using sc by auto
  with S(1) r show ?thesis by blast
qed

end
