(* ===== verification/Auth_Crypto.thy ===== *)
theory Auth_Crypto
  imports OAuth_Grant "HOL-Library.Word"
begin

text \<open>
  The cryptographic helpers of the auth server: \<open>lib/crypto/butil.js\<close>, \<open>lib/crypto/hkdf.js\<close>,
  \<open>lib/crypto/scrypt.js\<close>, \<open>lib/crypto/password.js\<close> and \<open>lib/tokens/bundle.js\<close>. A Buffer is a list of
  bytes; a hexadecimal string is a string, and the conversions between the two are those of Node. The
  primitives of Node and of the \<open>hkdf\<close> package are the fields of \<open>crypto\<close>. A bundle opens to its payload
  and nothing but a bundle opens; wrapping a key with a password is undone by unwrapping it.
\<close>

unbundle bit_operations_syntax

section \<open>Buffers\<close>

type_synonym buffer = "8 word list"

definition hex_char :: "nat \<Rightarrow> char" where
  "hex_char n = char_of (if n < 10 then n + 48 else n + 87)"

text \<open>\<open>buf.toString('hex')\<close> and \<open>Buffer.from(s, 'hex')\<close>.\<close>

definition toString_hex :: "buffer \<Rightarrow> string" where
  "toString_hex b = concat (map (\<lambda>x. [hex_char (unat x div 16), hex_char (unat x mod 16)]) b)"

definition from_hex :: "string \<Rightarrow> buffer" where
  "from_hex s = map of_nat (hex_bytes s)"

text \<open>\<open>Buffer.from(s)\<close> of a text of ASCII characters.\<close>

definition from_ascii :: "string \<Rightarrow> buffer" where
  "from_ascii s = map of_char s"

text \<open>The errors of \<open>lib/error.js\<close> that the model raises, and the plain ones of the helpers.\<close>

datatype auth_error =
    XorLength
  | UnknownHashVersion
  | TooManyPendingHashes
  | InvalidSignature
  | InvalidToken
  | InvalidJwt
  | UnverifiedAccount
  | UnverifiedSession
  | UnknownAuthAccount
  | AccountExists
  | EmailExists
  | CannotDeletePrimaryEmail
  | InvalidPrimaryEmailChange
  | InvalidVerificationCode int int
  | InvalidTokenVerification
  | CannotResetPasswordWithSecondaryEmail
  | CustomsBlocked
  | RecoveryKeyNotFound
  | RecoveryKeyInvalid
  | RecoveryKeyExists
  | RecoveryCodeNotFound
  | TotpTokenNotFound
  | TotpTokenAlreadyExists
  | InvalidUnblockCode
  | InvalidSigninCode
  | InvalidOrExpiredOtpCode
  | CannotCreatePassword
  | MissingRequestParameter string
  | UnknownDevice
  | DeviceSessionConflict "string option"
  | DuplicateRow
  | NotFoundRow
  | NullColumn
  | JsTypeError
  | Unauthorized
  | IncorrectPassword
  | MustResetAccount
  | UnknownVerificationMethod
  | CustomsFailure
  | DisabledClientId
  | CannotLoginWithEmail
  | CannotLoginWithSecondaryEmail
  | TotpRequired
  | SecondaryEmailUnknown
  | VerifiedSecondaryEmailAlreadyExists
  | VerifiedPrimaryEmailAlreadyExists
  | UnverifiedPrimaryEmailNewlyCreated
  | UnverifiedPrimaryEmailHasActiveSubscription
  | MaxSecondaryEmailsReached
  | YourPrimaryEmailExists
  | AlreadyOwnsEmail
  | CannotChangeEmailToUnownedEmail
  | CannotChangeEmailToUnverifiedEmail
  | CannotResendEmailCodeToUnownedEmail
  | InvalidCode

fun mismatch_loop :: "buffer \<Rightarrow> buffer \<Rightarrow> 8 word \<Rightarrow> 8 word" where
  "mismatch_loop (x # xs) (y # ys) mismatch = mismatch_loop xs ys (mismatch OR (x XOR y))"
| "mismatch_loop _ _ mismatch = mismatch"

definition buffersAreEqual :: "buffer \<Rightarrow> buffer \<Rightarrow> bool" where
  "buffersAreEqual buffer1 buffer2 =
     (if length buffer1 \<noteq> length buffer2 then False else mismatch_loop buffer1 buffer2 0 = 0)"

definition xorBuffers :: "buffer \<Rightarrow> buffer \<Rightarrow> auth_error + buffer" where
  "xorBuffers buffer1 buffer2 =
     (if length buffer1 \<noteq> length buffer2 then Inl XorLength else Inr (map2 (XOR) buffer1 buffer2))"

section \<open>Key derivation\<close>

text \<open>Key material is given as a text or as a Buffer; the salt of every derivation is \<open>null\<close>.\<close>

datatype material = Text string | Bytes buffer

record crypto =
  cr_hkdf :: "material \<Rightarrow> buffer \<Rightarrow> nat \<Rightarrow> buffer"
  cr_hmac :: "buffer \<Rightarrow> buffer \<Rightarrow> buffer"
  cr_sha256 :: "buffer \<Rightarrow> buffer"
  cr_scrypt :: "buffer \<Rightarrow> buffer \<Rightarrow> nat \<Rightarrow> nat \<Rightarrow> nat \<Rightarrow> nat \<Rightarrow> nat \<Rightarrow> buffer"

text \<open>A derivation returns as many bytes as asked for, a digest of SHA-256 has 32.\<close>

definition crypto_ok :: "crypto \<Rightarrow> bool" where
  "crypto_ok C \<longleftrightarrow> (\<forall>km info len. length (cr_hkdf C km info len) = len) \<and>
     (\<forall>k d. length (cr_hmac C k d) = 32) \<and> (\<forall>d. length (cr_sha256 C d) = 32)"

definition KW :: "string \<Rightarrow> buffer" where
  "KW name = from_ascii (''identity.mozilla.com/picl/v1/'' @ name)"

definition hkdf :: "crypto \<Rightarrow> material \<Rightarrow> string \<Rightarrow> nat \<Rightarrow> buffer" where
  "hkdf C km info len = cr_hkdf C km (KW info) len"

record bundle_keys =
  hmacKey :: buffer
  xorKey :: buffer

definition deriveBundleKeys :: "crypto \<Rightarrow> buffer \<Rightarrow> string \<Rightarrow> nat \<Rightarrow> bundle_keys" where
  "deriveBundleKeys C key keyInfo payloadSize =
     (let keyMaterial = hkdf C (Bytes key) keyInfo (32 + payloadSize)
      in \<lparr> hmacKey = take 32 keyMaterial, xorKey = drop 32 keyMaterial \<rparr>)"

text \<open>The key is a hexadecimal string; the payload that \<open>bundle\<close> gets is a Buffer.\<close>

definition Bundle_bundle :: "crypto \<Rightarrow> string \<Rightarrow> string \<Rightarrow> buffer \<Rightarrow> auth_error + string" where
  "Bundle_bundle C key keyInfo payload =
     (let keys = deriveBundleKeys C (from_hex key) keyInfo (length payload)
      in and_then (xorBuffers payload (xorKey keys)) (\<lambda>ciphertext.
         Inr (toString_hex (ciphertext @ cr_hmac C (hmacKey keys) ciphertext))))"

definition Bundle_unbundle :: "crypto \<Rightarrow> string \<Rightarrow> string \<Rightarrow> string \<Rightarrow> auth_error + string" where
  "Bundle_unbundle C key keyInfo hexPayload =
     (let payload = from_hex hexPayload;
          ciphertext = take (length payload - 32) payload;
          expectedHmac = drop (length payload - 32) payload;
          keys = deriveBundleKeys C (from_hex key) keyInfo (length ciphertext);
          mac = cr_hmac C (hmacKey keys) ciphertext
      in and_then (require (buffersAreEqual mac expectedHmac) InvalidSignature) (\<lambda>_.
         and_then (xorBuffers ciphertext (xorKey keys)) (\<lambda>plain. Inr (toString_hex plain))))"

section \<open>Scrypt\<close>

record scrypt_state =
  numPending :: int
  numPendingHWM :: int
  maxPending :: int

definition new_scrypt :: "int \<Rightarrow> scrypt_state" where
  "new_scrypt m = \<lparr> numPending = 0, numPendingHWM = 0, maxPending = m \<rparr>"

text \<open>\<open>hash\<close> up to the point where it waits for Node, and its \<open>finally\<close> block.\<close>

definition scrypt_begin :: "scrypt_state \<Rightarrow> auth_error + scrypt_state" where
  "scrypt_begin s =
     (if maxPending s > 0 \<and> numPending s > maxPending s then Inl TooManyPendingHashes
      else let s = s\<lparr> numPending := numPending s + 1 \<rparr>
           in Inr (if numPending s > numPendingHWM s then s\<lparr> numPendingHWM := numPending s \<rparr> else s))"

definition scrypt_end :: "scrypt_state \<Rightarrow> scrypt_state" where
  "scrypt_end s = s\<lparr> numPending := numPending s - 1 \<rparr>"

definition maxmem :: "nat \<Rightarrow> nat \<Rightarrow> nat" where
  "maxmem N r =
     (if N > 16384 \<or> r > 8 then 256 * (if N = 0 then 16384 else N) * (if r = 0 then 8 else r)
      else 256 * 16384 * 8)"

definition scrypt_hash ::
  "crypto \<Rightarrow> scrypt_state \<Rightarrow> buffer \<Rightarrow> buffer \<Rightarrow> nat \<Rightarrow> nat \<Rightarrow> nat \<Rightarrow> nat \<Rightarrow> auth_error + string" where
  "scrypt_hash C s input salt N r p len =
     and_then (scrypt_begin s) (\<lambda>_. Inr (toString_hex (cr_scrypt C input salt len N r p (maxmem N r))))"

text \<open>\<open>Password.stat\<close> reads the high-water mark and resets it.\<close>

definition Password_stat :: "scrypt_state \<Rightarrow> (int \<times> int \<times> int) \<times> scrypt_state" where
  "Password_stat s =
     ((maxPending s, numPending s, numPendingHWM s), s\<lparr> numPendingHWM := numPending s \<rparr>)"

section \<open>Passwords\<close>

record password =
  pw_version :: nat
  pw_stretched :: material

definition hashVersions :: "crypto \<Rightarrow> scrypt_state \<Rightarrow> nat \<Rightarrow> buffer \<Rightarrow> buffer \<Rightarrow> auth_error + material" where
  "hashVersions C s version authPW authSalt =
     (if version = 0 then and_then (xorBuffers authPW authSalt) (\<lambda>b. Inr (Bytes b))
      else if version = 1 then and_then (scrypt_hash C s authPW authSalt 65536 8 1 32) (\<lambda>h. Inr (Text h))
      else Inl UnknownHashVersion)"

definition new_Password ::
  "crypto \<Rightarrow> scrypt_state \<Rightarrow> string \<Rightarrow> string \<Rightarrow> nat option \<Rightarrow> auth_error + password" where
  "new_Password C s authPW authSalt version =
     (let version = (case version of Some v \<Rightarrow> v | None \<Rightarrow> 1)
      in and_then (hashVersions C s version (from_hex authPW) (from_hex authSalt)) (\<lambda>stretched.
         Inr \<lparr> pw_version = version, pw_stretched = stretched \<rparr>))"

definition verifyHash :: "crypto \<Rightarrow> password \<Rightarrow> string" where
  "verifyHash C p = toString_hex (hkdf C (pw_stretched p) ''verifyHash'' 32)"

definition Password_matches :: "crypto \<Rightarrow> password \<Rightarrow> string \<Rightarrow> bool" where
  "Password_matches C p hash = buffersAreEqual (from_hex (verifyHash C p)) (from_hex hash)"

text \<open>\<open>wrap\<close> is the same function.\<close>

definition unwrap :: "crypto \<Rightarrow> password \<Rightarrow> string \<Rightarrow> auth_error + string" where
  "unwrap C p wrapped =
     and_then (xorBuffers (hkdf C (pw_stretched p) ''wrapwrapKey'' 32) (from_hex wrapped))
       (\<lambda>b. Inr (toString_hex b))"

section \<open>Buffers: laws\<close>

lemma hex_value_char: "n < 16 \<Longrightarrow> hex_value (hex_char n) = Some n"
  by (auto simp: hex_char_def hex_value_def Let_def)

lemma from_hex_toString [simp]: "from_hex (toString_hex b) = b"
proof (induction b)
  case (Cons x b)
  have "unat x < 256" using unsigned_less [of x] by simp
  then have "unat x div 16 < 16" "unat x mod 16 < 16" by auto
  with Cons show ?case by (simp add: from_hex_def toString_hex_def hex_value_char)
qed (simp add: from_hex_def toString_hex_def)

lemma toString_hex_inj [simp]: "toString_hex a = toString_hex b \<longleftrightarrow> a = b"
  using from_hex_toString by metis

lemma length_toString_hex [simp]: "length (toString_hex b) = 2 * length b"
  by (induction b) (simp_all add: toString_hex_def)

lemma toString_hex_append: "toString_hex (a @ b) = toString_hex a @ toString_hex b"
  by (simp add: toString_hex_def)

lemma or_0_iff: "(a::8 word) OR b = 0 \<longleftrightarrow> a = 0 \<and> b = 0"
  by (metis bit.conj_disj_distrib bit.disj_conj_distrib or.left_neutral or_eq_0_iff)

lemma xor_0_iff: "(a::8 word) XOR b = 0 \<longleftrightarrow> a = b"
  by (metis xor.left_neutral xor.assoc xor_self_eq)

lemma mismatch_loop_0:
  "length a = length b \<Longrightarrow> mismatch_loop a b m = 0 \<longleftrightarrow> m = 0 \<and> a = b"
  by (induction a b m rule: mismatch_loop.induct) (auto simp: or_0_iff xor_0_iff)

lemma buffersAreEqual_iff [simp]: "buffersAreEqual a b \<longleftrightarrow> a = b"
  by (auto simp: buffersAreEqual_def mismatch_loop_0)

lemma xor_cancel: "length a = length k \<Longrightarrow> map2 (XOR) (map2 (XOR) a k) k = (a::buffer)"
  by (induction a k rule: list_induct2) (simp_all add: xor.assoc)

section \<open>Bundles\<close>

lemma derived_lengths:
  assumes "crypto_ok C"
  shows "length (xorKey (deriveBundleKeys C key info n)) = n" "length (cr_hmac C k d) = 32"
  using assms by (simp_all add: deriveBundleKeys_def hkdf_def crypto_ok_def Let_def)

lemma xorBuffers_Inr: "xorBuffers a b = Inr c \<longleftrightarrow> length a = length b \<and> c = map2 (XOR) a b"
  by (auto simp: xorBuffers_def)

lemma bundle_Inr:
  assumes "crypto_ok C"
  shows "Bundle_bundle C key info b =
    (let keys = deriveBundleKeys C (from_hex key) info (length b); c = map2 (XOR) b (xorKey keys)
     in Inr (toString_hex (c @ cr_hmac C (hmacKey keys) c)))"
  using assms by (simp add: Bundle_bundle_def xorBuffers_def derived_lengths Let_def)

lemma unbundle_Inr:
  assumes "crypto_ok C"
  shows "Bundle_unbundle C key info p = Inr x \<longleftrightarrow>
    (\<exists>c. let keys = deriveBundleKeys C (from_hex key) info (length c)
         in from_hex p = c @ cr_hmac C (hmacKey keys) c \<and> x = toString_hex (map2 (XOR) c (xorKey keys)))"
    (is "?l \<longleftrightarrow> (\<exists>c. ?r c)")
proof
  assume ?l
  define c where "c = take (length (from_hex p) - 32) (from_hex p)"
  from \<open>?l\<close> have "?r c"
    by (auto simp: Bundle_unbundle_def Let_def and_then_Inr require_Inr xorBuffers_Inr c_def
        append_take_drop_id)
  then show "\<exists>c. ?r c" ..
next
  assume "\<exists>c. ?r c"
  then obtain c where "?r c" ..
  then show ?l
    using assms by (auto simp: Bundle_unbundle_def Let_def and_then_Inr require_Inr xorBuffers_Inr derived_lengths)
qed

text \<open>C39: a bundle with a key opens to its payload, and nothing else opens: what \<open>unbundle\<close> accepts are the
  bytes of a bundle of the plaintext it returns. Every altered ciphertext or digest is refused.\<close>

theorem unbundle_iff:
  assumes "crypto_ok C"
  shows "Bundle_unbundle C key info p = Inr x \<longleftrightarrow>
    (\<exists>b t. Bundle_bundle C key info b = Inr t \<and> from_hex p = from_hex t \<and> x = toString_hex b)"
proof
  assume "Bundle_unbundle C key info p = Inr x"
  then obtain c where c: "let keys = deriveBundleKeys C (from_hex key) info (length c)
      in from_hex p = c @ cr_hmac C (hmacKey keys) c \<and> x = toString_hex (map2 (XOR) c (xorKey keys))"
    using unbundle_Inr [OF assms] by blast
  define k where "k = xorKey (deriveBundleKeys C (from_hex key) info (length c))"
  have "length k = length c" using assms by (simp add: k_def derived_lengths)
  with c show "\<exists>b t. Bundle_bundle C key info b = Inr t \<and> from_hex p = from_hex t \<and> x = toString_hex b"
    by (intro exI [of _ "map2 (XOR) c k"]) (simp add: bundle_Inr [OF assms] Let_def k_def [symmetric] xor_cancel)
next
  assume "\<exists>b t. Bundle_bundle C key info b = Inr t \<and> from_hex p = from_hex t \<and> x = toString_hex b"
  then obtain b t where b: "Bundle_bundle C key info b = Inr t" "from_hex p = from_hex t" "x = toString_hex b"
    by blast
  define k where "k = xorKey (deriveBundleKeys C (from_hex key) info (length b))"
  have "length k = length b" using assms by (simp add: k_def derived_lengths)
  with b show "Bundle_unbundle C key info p = Inr x"
    by (subst unbundle_Inr [OF assms], intro exI [of _ "map2 (XOR) b k"])
       (auto simp: bundle_Inr [OF assms] Let_def k_def [symmetric] xor_cancel)
qed

text \<open>Primitives with the documented lengths.\<close>

definition example_crypto :: crypto where
  "example_crypto = \<lparr> cr_hkdf = (\<lambda>km info len. replicate len 7), cr_hmac = (\<lambda>k d. replicate 32 (of_nat (length d))),
     cr_sha256 = (\<lambda>d. replicate 32 (sum_list d)),
     cr_scrypt = (\<lambda>input salt len N r p m. replicate len 3) \<rparr>"

lemma example_crypto_ok: "crypto_ok example_crypto"
  by (simp add: crypto_ok_def example_crypto_def)

theorem unbundle_iff_witness:
  "(\<exists>t. Bundle_bundle example_crypto ''ab'' ''account/keys'' [1, 2, 3] = Inr t \<and>
     Bundle_unbundle example_crypto ''ab'' ''account/keys'' t = Inr (toString_hex [1, 2, 3]))"
proof -
  obtain t where t: "Bundle_bundle example_crypto ''ab'' ''account/keys'' [1, 2, 3] = Inr t"
    by (simp add: bundle_Inr [OF example_crypto_ok] Let_def)
  then have "Bundle_unbundle example_crypto ''ab'' ''account/keys'' t = Inr (toString_hex [1, 2, 3])"
    using unbundle_iff [OF example_crypto_ok] by blast
  with t show ?thesis by blast
qed

section \<open>Passwords: laws\<close>

lemma matches_iff:
  "Password_matches C p (toString_hex h) \<longleftrightarrow> verifyHash C p = toString_hex h"
  by (simp add: Password_matches_def verifyHash_def)

lemma map2_xor_commute: "map2 (XOR) a b = map2 (XOR) b (a::buffer)"
  by (induction a b rule: list_induct2') (simp_all add: xor.commute)

lemma unwrap_wrap:
  assumes "crypto_ok C" "length k = 32"
  shows "\<exists>w. length w = 32 \<and> unwrap C p (toString_hex k) = Inr (toString_hex w) \<and>
    unwrap C p (toString_hex w) = Inr (toString_hex k)"
proof -
  define m where "m = hkdf C (pw_stretched p) ''wrapwrapKey'' 32"
  have m: "length m = 32" using assms(1) by (simp add: m_def hkdf_def crypto_ok_def)
  have "map2 (XOR) m (map2 (XOR) m k) = k"
    using xor_cancel [of k m] m assms(2) by (simp add: map2_xor_commute)
  with m assms(2) show ?thesis
    by (intro exI [of _ "map2 (XOR) m k"]) (simp add: unwrap_def m_def [symmetric] xorBuffers_def)
qed

section \<open>Pending hashes\<close>

inductive scrypt_reached :: "int \<Rightarrow> scrypt_state \<Rightarrow> bool" for m where
  scrypt_start: "scrypt_reached m (new_scrypt m)"
| scrypt_hash_begins: "scrypt_reached m s \<Longrightarrow> scrypt_begin s = Inr s' \<Longrightarrow> scrypt_reached m s'"
| scrypt_hash_ends: "scrypt_reached m s \<Longrightarrow> numPending s > 0 \<Longrightarrow> scrypt_reached m (scrypt_end s)"
| scrypt_read: "scrypt_reached m s \<Longrightarrow> scrypt_reached m (snd (Password_stat s))"

lemma scrypt_reached_bounds:
  "scrypt_reached m s \<Longrightarrow> 0 < m \<Longrightarrow>
    maxPending s = m \<and> 0 \<le> numPending s \<and> numPending s \<le> numPendingHWM s \<and> numPendingHWM s \<le> m + 1"
  by (induction rule: scrypt_reached.induct)
    (auto simp: new_scrypt_def scrypt_begin_def scrypt_end_def Password_stat_def Let_def split: if_splits)

lemma scrypt_reached_all:
  "0 < m \<Longrightarrow> int n \<le> m + 1 \<Longrightarrow> \<exists>s. scrypt_reached m s \<and> numPending s = int n"
proof (induction n)
  case 0
  have "numPending (new_scrypt m) = int 0" by (simp add: new_scrypt_def)
  then show ?case using scrypt_start by blast
next
  case (Suc n)
  then obtain s where s: "scrypt_reached m s" "numPending s = int n" by auto
  then have "maxPending s = m" using scrypt_reached_bounds Suc.prems(1) by blast
  with s Suc.prems obtain s' where "scrypt_begin s = Inr s'" "numPending s' = int n + 1"
    by (auto simp: scrypt_begin_def Let_def)
  then show ?case using scrypt_hash_begins [OF s(1)] by auto
qed

text \<open>With a positive limit, the numbers of hashes in progress that can be reached are those up to the
  limit plus one: the test of \<open>hash\<close> lets a hash begin while as many as the limit are in progress.\<close>

theorem scrypt_pending_range:
  assumes "0 < m"
  shows "(\<exists>s. scrypt_reached m s \<and> numPending s = k) \<longleftrightarrow> 0 \<le> k \<and> k \<le> m + 1"
proof
  assume "\<exists>s. scrypt_reached m s \<and> numPending s = k"
  then show "0 \<le> k \<and> k \<le> m + 1" using scrypt_reached_bounds [OF _ assms] by fastforce
next
  assume "0 \<le> k \<and> k \<le> m + 1"
  then show "\<exists>s. scrypt_reached m s \<and> numPending s = k"
    using scrypt_reached_all [of m "nat k"] assms by simp
qed

theorem scrypt_pending_range_witness: "\<exists>s. scrypt_reached 100 s \<and> numPending s = 101"
  using scrypt_pending_range [of 100 101] by simp

end
