(* ===== verification/Auth_Tokens.thy ===== *)
theory Auth_Tokens
  imports Auth_Crypto
begin

text \<open>
  The tokens of the auth server: \<open>lib/tokens/token.js\<close>, \<open>session_token.js\<close>, \<open>key_fetch_token.js\<close>,
  \<open>password_forgot_token.js\<close>, \<open>account_reset_token.js\<close> and \<open>password_change_token.js\<close>, with the
  authentication methods of \<open>lib/authMethods.js\<close>. A token is a record; a property that a kind of token adds
  is a field of an extension of it. A property that may be absent is an option, the details a token is
  made from are a record of options. Random bytes are arguments.
\<close>

section \<open>Tokens\<close>

record auth_config =
  cfg_accountResetToken :: int
  cfg_passwordForgotToken :: int
  cfg_passwordChangeToken :: int
  cfg_sessionTokenWithoutDevice :: int
  cfg_verifierVersion :: nat

record token_keys =
  k_data :: "string option"
  k_id :: string
  k_authKey :: string
  k_bundleKey :: "string option"

text \<open>A missing lifetime is infinite.\<close>

record token =
  tk_data :: "string option"
  tk_id :: string
  tk_authKey :: string
  tk_bundleKey :: "string option"
  tk_uid :: "string option"
  tk_lifetime :: "int option"
  tk_createdAt :: int

definition new_Token :: "token_keys \<Rightarrow> string option \<Rightarrow> int option \<Rightarrow> int option \<Rightarrow> token" where
  "new_Token keys uid lifetime createdAt =
     \<lparr> tk_data = k_data keys, tk_id = k_id keys, tk_authKey = k_authKey keys, tk_bundleKey = k_bundleKey keys,
       tk_uid = truthy_string uid, tk_lifetime = truthy_int lifetime, tk_createdAt = js_or0 createdAt \<rparr>"

definition deriveTokenKeys :: "crypto \<Rightarrow> string \<Rightarrow> buffer \<Rightarrow> token_keys" where
  "deriveTokenKeys C tokenTypeID data =
     (let keyMaterial = hkdf C (Bytes data) tokenTypeID (3 * 32)
      in \<lparr> k_data = Some (toString_hex data), k_id = toString_hex (take 32 keyMaterial),
           k_authKey = toString_hex (take 32 (drop 32 keyMaterial)),
           k_bundleKey = Some (toString_hex (take 32 (drop 64 keyMaterial))) \<rparr>)"

text \<open>The time to live in seconds; nothing is infinity.\<close>

definition token_ttl :: "int \<Rightarrow> ('a) token_scheme \<Rightarrow> int option" where
  "token_ttl asOf t =
     (case tk_lifetime t of None \<Rightarrow> None
      | Some lifetime \<Rightarrow> Some (max (ceil_seconds (lifetime - (asOf - tk_createdAt t))) 0))"

definition expired :: "int \<Rightarrow> ('a) token_scheme \<Rightarrow> bool" where
  "expired asOf t \<longleftrightarrow> token_ttl asOf t = Some 0"

section \<open>Authentication methods\<close>

definition METHOD_TO_AMR :: "(string \<times> string) list" where
  "METHOD_TO_AMR = [(''email'', ''email''), (''email-captcha'', ''email''), (''email-2fa'', ''email''),
     (''totp-2fa'', ''otp''), (''recovery-code'', ''otp'')]"

definition AMR_TO_TYPE :: "(string \<times> string) list" where
  "AMR_TO_TYPE = [(''pwd'', ''know''), (''email'', ''know''), (''otp'', ''have'')]"

definition verificationMethodToAMR :: "string \<Rightarrow> auth_error + string" where
  "verificationMethodToAMR m =
     (case map_of METHOD_TO_AMR m of None \<Rightarrow> Inl UnknownVerificationMethod | Some amr \<Rightarrow> Inr amr)"

definition maximumAssuranceLevel :: "string list \<Rightarrow> int" where
  "maximumAssuranceLevel amrValues = int (length (remdups (map (map_of AMR_TO_TYPE) amrValues)))"

record totp_row =
  to_uid :: string
  to_sharedSecret :: string
  to_epoch :: int
  to_createdAt :: int
  to_verified :: bool
  to_enabled :: bool

text \<open>The argument is what \<open>db.totpToken\<close> finds.\<close>

definition availableAuthenticationMethods :: "totp_row option \<Rightarrow> string list" where
  "availableAuthenticationMethods res =
     [''pwd'', ''email''] @
     (case res of Some r \<Rightarrow> if to_verified r \<and> to_enabled r then [''otp''] else [] | None \<Rightarrow> [])"

section \<open>Session tokens\<close>

record ua_info =
  uaBrowser :: "string option"
  uaBrowserVersion :: "string option"
  uaOS :: "string option"
  uaOSVersion :: "string option"
  uaDeviceType :: "string option"
  uaFormFactor :: "string option"

record device_info =
  di_deviceId :: "string option"
  di_deviceName :: "string option"
  di_deviceType :: "string option"
  di_deviceCreatedAt :: "int option"
  di_callbackURL :: "string option"
  di_callbackPublicKey :: "string option"
  di_callbackAuthKey :: "string option"
  di_callbackIsExpired :: "bool option"

record session_details =
  sd_uid :: "string option"
  sd_lifetime :: "int option"
  sd_createdAt :: "int option"
  sd_ua :: ua_info
  sd_lastAccessTime :: "int option"
  sd_device :: device_info
  sd_email :: "string option"
  sd_emailCode :: "string option"
  sd_emailVerified :: bool
  sd_verifierSetAt :: "int option"
  sd_profileChangedAt :: "int option"
  sd_keysChangedAt :: "int option"
  sd_authAt :: "int option"
  sd_locale :: "string option"
  sd_mustVerify :: bool
  sd_tokenVerificationId :: "string option"
  sd_verificationMethod :: "int option"
  sd_verifiedAt :: "int option"
  sd_metricsOptOutAt :: "int option"

record session_token = token +
  st_ua :: ua_info
  st_lastAccessTime :: "int option"
  st_device :: device_info
  st_email :: "string option"
  st_emailCode :: "string option"
  st_emailVerified :: bool
  st_verifierSetAt :: "int option"
  st_profileChangedAt :: "int option"
  st_keysChangedAt :: "int option"
  st_authAt :: int
  st_locale :: "string option"
  st_mustVerify :: bool
  st_tokenVerificationId :: "string option"
  st_tokenVerified :: bool
  st_verificationMethod :: "int option"
  st_verificationMethodValue :: "string option"
  st_verifiedAt :: "int option"
  st_metricsOptOutAt :: "int option"

definition VERIFICATION_METHODS :: "(int \<times> string) list" where
  "VERIFICATION_METHODS = [(0, ''email''), (1, ''email-2fa''), (2, ''totp-2fa''), (3, ''recovery-code'')]"

definition new_SessionToken :: "auth_config \<Rightarrow> token_keys \<Rightarrow> session_details \<Rightarrow> session_token" where
  "new_SessionToken cfg keys d =
     (let base = new_Token keys (sd_uid d) (sd_lifetime d) (sd_createdAt d);
          verificationId = truthy_string (sd_tokenVerificationId d);
          verificationMethod = truthy_int (sd_verificationMethod d)
      in \<lparr> tk_data = tk_data base, tk_id = tk_id base, tk_authKey = tk_authKey base,
           tk_bundleKey = tk_bundleKey base, tk_uid = tk_uid base,
           tk_lifetime =
             (if cfg_sessionTokenWithoutDevice cfg \<noteq> 0 \<and> truthy_string (di_deviceId (sd_device d)) = None
              then Some (cfg_sessionTokenWithoutDevice cfg) else tk_lifetime base),
           tk_createdAt = tk_createdAt base,
           st_ua = sd_ua d, st_lastAccessTime = truthy_int (sd_lastAccessTime d), st_device = sd_device d,
           st_email = truthy_string (sd_email d), st_emailCode = truthy_string (sd_emailCode d),
           st_emailVerified = sd_emailVerified d, st_verifierSetAt = sd_verifierSetAt d,
           st_profileChangedAt = sd_profileChangedAt d, st_keysChangedAt = sd_keysChangedAt d,
           st_authAt = js_or0 (sd_authAt d), st_locale = truthy_string (sd_locale d),
           st_mustVerify = sd_mustVerify d, st_tokenVerificationId = verificationId,
           st_tokenVerified = (verificationId = None), st_verificationMethod = verificationMethod,
           st_verificationMethodValue =
             (case verificationMethod of Some m \<Rightarrow> map_of VERIFICATION_METHODS m | None \<Rightarrow> None),
           st_verifiedAt = truthy_int (sd_verifiedAt d), st_metricsOptOutAt = truthy_int (sd_metricsOptOutAt d) \<rparr>)"

text \<open>\<open>SessionToken.create\<close>: whatever the details say, the token is created now.\<close>

definition SessionToken_create ::
  "crypto \<Rightarrow> auth_config \<Rightarrow> int \<Rightarrow> buffer \<Rightarrow> session_details \<Rightarrow> session_token" where
  "SessionToken_create C cfg now bytes d =
     new_SessionToken cfg (deriveTokenKeys C ''sessionToken'' bytes) (d\<lparr> sd_createdAt := Some now \<rparr>)"

definition SessionToken_fromHex ::
  "crypto \<Rightarrow> auth_config \<Rightarrow> string \<Rightarrow> session_details \<Rightarrow> session_token" where
  "SessionToken_fromHex C cfg hexData d =
     new_SessionToken cfg (deriveTokenKeys C ''sessionToken'' (from_hex hexData)) d"

definition lastAuthAt :: "session_token \<Rightarrow> int" where
  "lastAuthAt t = (if st_authAt t \<noteq> 0 then st_authAt t else tk_createdAt t) div 1000"

definition session_state :: "session_token \<Rightarrow> string" where
  "session_state t = (if st_tokenVerified t then ''verified'' else ''unverified'')"

text \<open>
  The details that a duplicate is made from: the properties of the token, with a verification id of its
  own of the same length.
\<close>

definition copyTokenState :: "(nat \<Rightarrow> string) \<Rightarrow> session_token \<Rightarrow> session_details" where
  "copyTokenState random_hex t =
     \<lparr> sd_uid = tk_uid t, sd_lifetime = tk_lifetime t, sd_createdAt = Some (tk_createdAt t),
       sd_ua = st_ua t, sd_lastAccessTime = st_lastAccessTime t, sd_device = st_device t,
       sd_email = st_email t, sd_emailCode = st_emailCode t, sd_emailVerified = st_emailVerified t,
       sd_verifierSetAt = st_verifierSetAt t, sd_profileChangedAt = st_profileChangedAt t,
       sd_keysChangedAt = st_keysChangedAt t, sd_authAt = Some (st_authAt t), sd_locale = st_locale t,
       sd_mustVerify = st_mustVerify t,
       sd_tokenVerificationId = map_option (\<lambda>v. random_hex (length v div 2)) (st_tokenVerificationId t),
       sd_verificationMethod = st_verificationMethod t, sd_verifiedAt = st_verifiedAt t,
       sd_metricsOptOutAt = st_metricsOptOutAt t \<rparr>"

definition authenticationMethods :: "session_token \<Rightarrow> auth_error + string list" where
  "authenticationMethods t =
     (case st_verificationMethodValue t of
        Some m \<Rightarrow> and_then (verificationMethodToAMR m) (\<lambda>amr. Inr [''pwd'', amr])
      | None \<Rightarrow> Inr (if st_tokenVerified t then [''pwd'', ''email''] else [''pwd'']))"

definition authenticatorAssuranceLevel :: "session_token \<Rightarrow> auth_error + int" where
  "authenticatorAssuranceLevel t = and_then (authenticationMethods t) (\<lambda>a. Inr (maximumAssuranceLevel a))"

section \<open>Key-fetch tokens\<close>

record key_fetch_token = token +
  kf_keyBundle :: "string option"
  kf_emailVerified :: bool
  kf_tokenVerificationId :: "string option"
  kf_tokenVerified :: bool

definition new_KeyFetchToken ::
  "token_keys \<Rightarrow> string option \<Rightarrow> int option \<Rightarrow> string option \<Rightarrow> bool \<Rightarrow> string option \<Rightarrow> key_fetch_token" where
  "new_KeyFetchToken keys uid createdAt keyBundle emailVerified verificationId =
     (let base = new_Token keys uid None createdAt; verificationId = truthy_string verificationId
      in \<lparr> tk_data = tk_data base, tk_id = tk_id base, tk_authKey = tk_authKey base,
           tk_bundleKey = tk_bundleKey base, tk_uid = tk_uid base, tk_lifetime = tk_lifetime base,
           tk_createdAt = tk_createdAt base, kf_keyBundle = keyBundle, kf_emailVerified = emailVerified,
           kf_tokenVerificationId = verificationId, kf_tokenVerified = (verificationId = None) \<rparr>)"

text \<open>A token made from its id has no bundle key; bundling is for those made from their seed.\<close>

definition bundleKeys :: "crypto \<Rightarrow> string \<Rightarrow> string \<Rightarrow> string \<Rightarrow> auth_error + string" where
  "bundleKeys C bundleKey kA wrapKb = Bundle_bundle C bundleKey ''account/keys'' (from_hex kA @ from_hex wrapKb)"

definition unbundleKeys :: "crypto \<Rightarrow> string \<Rightarrow> string \<Rightarrow> auth_error + string \<times> string" where
  "unbundleKeys C bundleKey b =
     and_then (Bundle_unbundle C bundleKey ''account/keys'' b) (\<lambda>plaintext.
       Inr (take 64 plaintext, take 64 (drop 64 plaintext)))"

definition KeyFetchToken_create ::
  "crypto \<Rightarrow> int \<Rightarrow> buffer \<Rightarrow> string \<Rightarrow> string \<Rightarrow> string \<Rightarrow> bool \<Rightarrow> string option \<Rightarrow>
     auth_error + key_fetch_token" where
  "KeyFetchToken_create C now bytes uid kA wrapKb emailVerified verificationId =
     (let keys = deriveTokenKeys C ''keyFetchToken'' bytes;
          t = new_KeyFetchToken keys (Some uid) (Some now) None emailVerified verificationId
      in and_then (bundleKeys C (the (tk_bundleKey t)) kA wrapKb) (\<lambda>b.
         Inr (t\<lparr> kf_keyBundle := Some b \<rparr>)))"

section \<open>Tokens of the password flows\<close>

record forgot_token = token +
  fo_email :: "string option"
  fo_passCode :: "string option"
  fo_tries :: "int option"

definition new_PasswordForgotToken ::
  "auth_config \<Rightarrow> token_keys \<Rightarrow> string option \<Rightarrow> int option \<Rightarrow> string option \<Rightarrow> string option \<Rightarrow> int option \<Rightarrow>
     forgot_token" where
  "new_PasswordForgotToken cfg keys uid createdAt email passCode tries =
     (let base = new_Token keys uid (Some (cfg_passwordForgotToken cfg)) createdAt
      in \<lparr> tk_data = tk_data base, tk_id = tk_id base, tk_authKey = tk_authKey base,
           tk_bundleKey = tk_bundleKey base, tk_uid = tk_uid base, tk_lifetime = tk_lifetime base,
           tk_createdAt = tk_createdAt base, fo_email = truthy_string email,
           fo_passCode = truthy_string passCode, fo_tries = truthy_int tries \<rparr>)"

definition PasswordForgotToken_create ::
  "crypto \<Rightarrow> auth_config \<Rightarrow> int \<Rightarrow> buffer \<Rightarrow> string \<Rightarrow> string \<Rightarrow> string option \<Rightarrow> forgot_token" where
  "PasswordForgotToken_create C cfg now bytes passCode uid email =
     new_PasswordForgotToken cfg (deriveTokenKeys C ''passwordForgotToken'' bytes) (Some uid) (Some now) email
       (Some passCode) (Some 3)"

text \<open>\<open>tries--\<close> reads \<open>null\<close> as 0.\<close>

definition failAttempt :: "forgot_token \<Rightarrow> bool \<times> forgot_token" where
  "failAttempt t = (let tries = js_or0 (fo_tries t) - 1 in (tries < 1, t\<lparr> fo_tries := Some tries \<rparr>))"

definition AccountResetToken_create :: "crypto \<Rightarrow> auth_config \<Rightarrow> int \<Rightarrow> buffer \<Rightarrow> string \<Rightarrow> token" where
  "AccountResetToken_create C cfg now bytes uid =
     new_Token (deriveTokenKeys C ''accountResetToken'' bytes) (Some uid) (Some (cfg_accountResetToken cfg))
       (Some now)"

definition PasswordChangeToken_create :: "crypto \<Rightarrow> auth_config \<Rightarrow> int \<Rightarrow> buffer \<Rightarrow> string \<Rightarrow> token" where
  "PasswordChangeToken_create C cfg now bytes uid =
     new_Token (deriveTokenKeys C ''passwordChangeToken'' bytes) (Some uid) (Some (cfg_passwordChangeToken cfg))
       (Some now)"

end
