(* ===== verification/Auth_Store.thy ===== *)
theory Auth_Store
  imports Auth_Tokens
begin

text \<open>
  The tables of the auth server and the operations on accounts and tokens: the models under
  \<open>fxa-shared/db/models/auth\<close> and the stored procedures they call, in the version that
  \<open>base-auth.ts\<close> names, from \<open>db-migrations/databases/fxa/patches\<close>. A table is a list of rows in the order of
  their insertion. Binary columns are hexadecimal strings. A procedure runs in a transaction: when it
  fails, the tables are as before. The clock of the database is that of the server. The name of a device
  command stands for its interned number. The cache of last-access times in Redis is left out.
\<close>

section \<open>Rows\<close>

record account_row =
  ac_uid :: string
  ac_normalizedEmail :: string
  ac_email :: string
  ac_emailCode :: string
  ac_emailVerified :: bool
  ac_kA :: string
  ac_wrapWrapKb :: string
  ac_authSalt :: string
  ac_verifierVersion :: nat
  ac_verifyHash :: string
  ac_verifierSetAt :: int
  ac_createdAt :: int
  ac_locale :: string
  ac_lockedAt :: "int option"
  ac_disabledAt :: "int option"
  ac_profileChangedAt :: "int option"
  ac_keysChangedAt :: "int option"
  ac_metricsOptOutAt :: "int option"

record email_row =
  em_normalizedEmail :: string
  em_email :: string
  em_uid :: string
  em_emailCode :: string
  em_isVerified :: bool
  em_isPrimary :: bool
  em_verifiedAt :: "int option"
  em_createdAt :: int

record session_row =
  se_tokenId :: string
  se_tokenData :: string
  se_uid :: string
  se_createdAt :: int
  se_ua :: ua_info
  se_lastAccessTime :: int
  se_authAt :: "int option"
  se_verificationMethod :: "int option"
  se_verifiedAt :: "int option"
  se_mustVerify :: "bool option"

record unverified_row =
  un_tokenId :: string
  un_tokenVerificationId :: string
  un_uid :: string
  un_mustVerify :: bool

record key_fetch_row =
  kr_tokenId :: string
  kr_authKey :: string
  kr_uid :: string
  kr_keyBundle :: string
  kr_createdAt :: int

record forgot_row =
  fr_tokenId :: string
  fr_tokenData :: string
  fr_uid :: string
  fr_passCode :: string
  fr_createdAt :: int
  fr_tries :: int

text \<open>A row of \<open>accountResetTokens\<close> or of \<open>passwordChangeTokens\<close>.\<close>

record flow_row =
  fl_tokenId :: string
  fl_tokenData :: string
  fl_uid :: string
  fl_createdAt :: int

record device_row =
  de_uid :: string
  de_id :: string
  de_sessionTokenId :: "string option"
  de_refreshTokenId :: "string option"
  de_nameUtf8 :: "string option"
  de_type :: "string option"
  de_createdAt :: "int option"
  de_callbackURL :: "string option"
  de_callbackPublicKey :: "string option"
  de_callbackAuthKey :: "string option"
  de_callbackIsExpired :: bool

record command_row =
  co_uid :: string
  co_deviceId :: string
  co_commandName :: string
  co_commandData :: string

record recovery_key_row =
  rk_uid :: string
  rk_recoveryKeyIdHash :: string
  rk_recoveryData :: string
  rk_createdAt :: int
  rk_verifiedAt :: "int option"
  rk_enabled :: bool

record recovery_code_row =
  rc_uid :: string
  rc_codeHash :: buffer
  rc_salt :: buffer

record unblock_row =
  ub_uid :: string
  ub_unblockCodeHash :: buffer
  ub_createdAt :: int

record signin_row =
  si_hash :: buffer
  si_uid :: string
  si_createdAt :: int
  si_flowId :: "string option"

record event_row =
  ev_uid :: string
  ev_tokenVerificationId :: "string option"
  ev_verified :: bool
  ev_name :: string
  ev_ipAddrHmac :: buffer
  ev_createdAt :: int

record linked_row =
  la_uid :: string
  la_id :: string
  la_providerId :: nat

record sent_row =
  sn_uid :: string
  sn_emailType :: string
  sn_sentAt :: int

record auth_db =
  accounts :: "account_row list"
  emails :: "email_row list"
  sessionTokens :: "session_row list"
  unverifiedTokens :: "unverified_row list"
  keyFetchTokens :: "key_fetch_row list"
  passwordForgotTokens :: "forgot_row list"
  passwordChangeTokens :: "flow_row list"
  accountResetTokens :: "flow_row list"
  devices :: "device_row list"
  deviceCommands :: "command_row list"
  recoveryKeys :: "recovery_key_row list"
  recoveryCodes :: "recovery_code_row list"
  unblockCodes :: "unblock_row list"
  signinCodes :: "signin_row list"
  totp :: "totp_row list"
  securityEvents :: "event_row list"
  linkedAccounts :: "linked_row list"
  sentEmails :: "sent_row list"

text \<open>An \<open>INSERT\<close> that violates a unique key fails; a \<open>REPLACE\<close> deletes the rows that are in its way.\<close>

definition unique_row :: "('r \<Rightarrow> 'r \<Rightarrow> bool) \<Rightarrow> 'r \<Rightarrow> 'r list \<Rightarrow> auth_error + 'r list" where
  "unique_row clash r rows = (if list_ex (clash r) rows then Inl DuplicateRow else Inr (rows @ [r]))"

definition replace_row :: "('r \<Rightarrow> 'r \<Rightarrow> bool) \<Rightarrow> 'r \<Rightarrow> 'r list \<Rightarrow> 'r list" where
  "replace_row clash r rows = filter (\<lambda>x. \<not> clash r x) rows @ [r]"

definition update_rows :: "('r \<Rightarrow> bool) \<Rightarrow> ('r \<Rightarrow> 'r) \<Rightarrow> 'r list \<Rightarrow> 'r list" where
  "update_rows P f rows = map (\<lambda>r. if P r then f r else r) rows"

definition coalesce :: "'a option \<Rightarrow> 'a option \<Rightarrow> 'a option" where
  "coalesce a b = (case a of Some x \<Rightarrow> Some x | None \<Rightarrow> b)"

text \<open>The error that a caller sees instead of the one of the database.\<close>

definition instead :: "auth_error \<Rightarrow> auth_error \<Rightarrow> auth_error + 'a \<Rightarrow> auth_error + 'a" where
  "instead e e' r = (case r of Inl x \<Rightarrow> Inl (if x = e then e' else x) | Inr y \<Rightarrow> Inr y)"

text \<open>A step of a handler: its result or its error, and the state that it leaves behind in either case.\<close>

definition then_st :: "(auth_error + 'a) \<times> 's \<Rightarrow> ('a \<Rightarrow> 's \<Rightarrow> (auth_error + 'b) \<times> 's) \<Rightarrow> (auth_error + 'b) \<times> 's" where
  "then_st r f = (case r of (Inl e, s) \<Rightarrow> (Inl e, s) | (Inr x, s) \<Rightarrow> f x s)"

text \<open>A procedure as a step: when it fails, nothing has changed.\<close>

definition attempt :: "auth_error + 'a \<times> 's \<Rightarrow> 's \<Rightarrow> (auth_error + 'a) \<times> 's" where
  "attempt r s = (case r of Inl e \<Rightarrow> (Inl e, s) | Inr (x, s') \<Rightarrow> (Inr x, s'))"

section \<open>Accounts\<close>

text \<open>
  \<open>DB.createAccount\<close>, with the account as the caller describes it. A missing time of the verifier is now,
  0 means that there is no password.
\<close>

definition createAccount_9 :: "account_row \<Rightarrow> auth_db \<Rightarrow> auth_error + auth_db" where
  "createAccount_9 a db =
     (if list_ex (\<lambda>e. em_normalizedEmail e = ac_normalizedEmail a) (emails db) then Inl DuplicateRow
      else
        let lower = toLowerCase (ac_normalizedEmail a);
            row = a\<lparr> ac_normalizedEmail := lower, ac_lockedAt := None, ac_disabledAt := None,
                     ac_profileChangedAt := None, ac_keysChangedAt := None, ac_metricsOptOutAt := None \<rparr>;
            email = \<lparr> em_normalizedEmail = lower, em_email = ac_email a, em_uid = ac_uid a,
                      em_emailCode = ac_emailCode a, em_isVerified = ac_emailVerified a, em_isPrimary = True,
                      em_verifiedAt = None, em_createdAt = ac_createdAt a \<rparr>
        in and_then (unique_row (\<lambda>x y. ac_uid x = ac_uid y \<or> ac_normalizedEmail x = ac_normalizedEmail y)
                       row (accounts db)) (\<lambda>as.
           and_then (unique_row (\<lambda>x y. em_normalizedEmail x = em_normalizedEmail y) email (emails db)) (\<lambda>es.
           Inr (db\<lparr> accounts := as, emails := es \<rparr>))))"

definition createAccount :: "int \<Rightarrow> int option \<Rightarrow> account_row \<Rightarrow> auth_db \<Rightarrow> auth_error + auth_db" where
  "createAccount now setAt a db =
     instead DuplicateRow AccountExists
       (createAccount_9 (a\<lparr> ac_verifierSetAt := (case setAt of Some t \<Rightarrow> t | None \<Rightarrow> now),
          ac_createdAt := now, ac_normalizedEmail := toLowerCase (ac_email a) \<rparr>) db)"

text \<open>\<open>DELETE FROM t WHERE uid = u\<close>, and the devices of a user with their commands.\<close>

definition others :: "('r \<Rightarrow> string) \<Rightarrow> string \<Rightarrow> 'r list \<Rightarrow> 'r list" where
  "others key u rows = filter (\<lambda>r. key r \<noteq> u) rows"

definition delete_devices :: "(device_row \<Rightarrow> bool) \<Rightarrow> auth_db \<Rightarrow> auth_db" where
  "delete_devices P db =
     db\<lparr> deviceCommands := filter (\<lambda>c. \<not> list_ex (\<lambda>d. P d \<and> co_uid c = de_uid d \<and> co_deviceId c = de_id d)
           (devices db)) (deviceCommands db),
         devices := filter (\<lambda>d. \<not> P d) (devices db) \<rparr>"

definition deleteAccount :: "string \<Rightarrow> auth_db \<Rightarrow> auth_db" where
  "deleteAccount uid db =
     (let db = db\<lparr> sessionTokens := others se_uid uid (sessionTokens db),
           keyFetchTokens := others kr_uid uid (keyFetchTokens db),
           accountResetTokens := others fl_uid uid (accountResetTokens db),
           passwordChangeTokens := others fl_uid uid (passwordChangeTokens db),
           passwordForgotTokens := others fr_uid uid (passwordForgotTokens db),
           accounts := others ac_uid uid (accounts db) \<rparr>;
          db = delete_devices (\<lambda>d. de_uid d = uid) db
      in db\<lparr> unverifiedTokens := others un_uid uid (unverifiedTokens db),
           unblockCodes := others ub_uid uid (unblockCodes db),
           emails := others em_uid uid (emails db),
           signinCodes := others si_uid uid (signinCodes db),
           totp := others to_uid uid (totp db),
           recoveryKeys := others rk_uid uid (recoveryKeys db),
           recoveryCodes := others rc_uid uid (recoveryCodes db),
           securityEvents := others ev_uid uid (securityEvents db),
           sentEmails := others sn_uid uid (sentEmails db),
           linkedAccounts := others la_uid uid (linkedAccounts db) \<rparr>)"

record reset_data =
  rd_verifyHash :: string
  rd_authSalt :: string
  rd_wrapWrapKb :: string
  rd_verifierVersion :: nat
  rd_keysHaveChanged :: bool

definition resetAccount :: "int \<Rightarrow> string \<Rightarrow> reset_data \<Rightarrow> auth_db \<Rightarrow> auth_db" where
  "resetAccount now uid data db =
     (let db = db\<lparr> sessionTokens := others se_uid uid (sessionTokens db),
           keyFetchTokens := others kr_uid uid (keyFetchTokens db),
           accountResetTokens := others fl_uid uid (accountResetTokens db),
           passwordChangeTokens := others fl_uid uid (passwordChangeTokens db),
           passwordForgotTokens := others fr_uid uid (passwordForgotTokens db),
           recoveryKeys := others rk_uid uid (recoveryKeys db) \<rparr>;
          db = delete_devices (\<lambda>d. de_uid d = uid) db
      in db\<lparr> unverifiedTokens := others un_uid uid (unverifiedTokens db),
           accounts := update_rows (\<lambda>a. ac_uid a = uid)
             (\<lambda>a. a\<lparr> ac_verifyHash := rd_verifyHash data, ac_authSalt := rd_authSalt data,
                ac_wrapWrapKb := rd_wrapWrapKb data, ac_verifierVersion := rd_verifierVersion data,
                ac_profileChangedAt := Some now,
                ac_keysChangedAt := (if rd_keysHaveChanged data then Some now
                  else coalesce (ac_keysChangedAt a) (Some (ac_verifierSetAt a))),
                ac_verifierSetAt := now, ac_lockedAt := None \<rparr>) (accounts db) \<rparr>)"

definition resetAccountTokens :: "string \<Rightarrow> auth_db \<Rightarrow> auth_db" where
  "resetAccountTokens uid db =
     db\<lparr> accountResetTokens := others fl_uid uid (accountResetTokens db),
         passwordChangeTokens := others fl_uid uid (passwordChangeTokens db),
         passwordForgotTokens := others fr_uid uid (passwordForgotTokens db) \<rparr>"

definition checkPassword :: "string \<Rightarrow> string \<Rightarrow> auth_db \<Rightarrow> bool" where
  "checkPassword uid hash db \<longleftrightarrow> list_ex (\<lambda>a. ac_uid a = uid \<and> ac_verifyHash a = hash) (accounts db)"

definition createPassword :: "int \<Rightarrow> string \<Rightarrow> string \<Rightarrow> string \<Rightarrow> string \<Rightarrow> nat \<Rightarrow> auth_db \<Rightarrow> auth_db" where
  "createPassword now uid authSalt hash wrapWrapKb version db =
     db\<lparr> accounts := update_rows (\<lambda>a. ac_uid a = uid)
           (\<lambda>a. a\<lparr> ac_authSalt := authSalt, ac_verifyHash := hash, ac_wrapWrapKb := wrapWrapKb,
              ac_verifierSetAt := now, ac_keysChangedAt := Some now, ac_profileChangedAt := Some now,
              ac_verifierVersion := version \<rparr>) (accounts db) \<rparr>"

text \<open>An account as \<open>findByUid\<close> and \<open>findByPrimaryEmail\<close> return it: its row and its primary email.\<close>

definition primaryEmail :: "string \<Rightarrow> auth_db \<Rightarrow> email_row option" where
  "primaryEmail uid db = find (\<lambda>e. em_uid e = uid \<and> em_isPrimary e) (emails db)"

definition find_account :: "string \<Rightarrow> auth_db \<Rightarrow> account_row option" where
  "find_account uid db = find (\<lambda>a. ac_uid a = uid) (accounts db)"

definition account :: "string \<Rightarrow> auth_db \<Rightarrow> auth_error + account_row \<times> email_row option" where
  "account uid db =
     (case find_account uid db of None \<Rightarrow> Inl UnknownAuthAccount
      | Some a \<Rightarrow> Inr (a, primaryEmail uid db))"

definition accountRecord_9 :: "string \<Rightarrow> auth_db \<Rightarrow> account_row option" where
  "accountRecord_9 email db =
     (case find (\<lambda>e. em_normalizedEmail e = toLowerCase email) (emails db) of None \<Rightarrow> None
      | Some e \<Rightarrow> (case find_account (em_uid e) db of None \<Rightarrow> None
                  | Some a \<Rightarrow> if primaryEmail (ac_uid a) db = None then None else Some a))"

definition accountRecord :: "string \<Rightarrow> auth_db \<Rightarrow> auth_error + account_row \<times> email_row option" where
  "accountRecord email db =
     (case accountRecord_9 email db of
        Some a \<Rightarrow> Inr (a, primaryEmail (ac_uid a) db)
      | None \<Rightarrow>
          (case find (\<lambda>a. ac_normalizedEmail a = toLowerCase email) (accounts db) of
             None \<Rightarrow> Inl UnknownAuthAccount
           | Some a \<Rightarrow> Inr (a, primaryEmail (ac_uid a) db)))"

end
