(* ===== verification/Auth_Sessions.thy ===== *)
theory Auth_Sessions
  imports Auth_Store
begin

text \<open>
  The stored tokens of a user: session tokens (\<open>session-token.ts\<close>), the marks of those that are not
  verified (\<open>base-token.ts\<close>), key-fetch tokens and the tokens of the password flows, with the methods of
  \<open>lib/db/index.js\<close> that create and find them and the authentication of a request by its token
  (\<open>makeCredentialFn\<close> in \<open>lib/server.js\<close>).
\<close>

section \<open>Session tokens\<close>

text \<open>\<open>RawSessionToken.create\<close>: the columns come from a handful of the properties of the token.\<close>

definition createSessionToken_9 ::
  "string \<Rightarrow> string \<Rightarrow> string \<Rightarrow> int \<Rightarrow> ua_info \<Rightarrow> string option \<Rightarrow> bool \<Rightarrow> auth_db \<Rightarrow> auth_error + auth_db" where
  "createSessionToken_9 tokenId tokenData uid createdAt ua tokenVerificationId mustVerify db =
     (let row = \<lparr> se_tokenId = tokenId, se_tokenData = tokenData, se_uid = uid, se_createdAt = createdAt,
            se_ua = ua, se_lastAccessTime = createdAt, se_authAt = None, se_verificationMethod = None,
            se_verifiedAt = None, se_mustVerify = Some mustVerify \<rparr>
      in and_then (unique_row (\<lambda>x y. se_tokenId x = se_tokenId y) row (sessionTokens db)) (\<lambda>ss.
         and_then (case tokenVerificationId of None \<Rightarrow> Inr (unverifiedTokens db)
                   | Some v \<Rightarrow> unique_row (\<lambda>x y. un_tokenId x = un_tokenId y)
                       \<lparr> un_tokenId = tokenId, un_tokenVerificationId = v, un_uid = uid,
                         un_mustVerify = mustVerify \<rparr> (unverifiedTokens db)) (\<lambda>us.
         Inr (db\<lparr> sessionTokens := ss, unverifiedTokens := us \<rparr>))))"

text \<open>\<open>DB.createSessionToken\<close>; the column of the user may not be null.\<close>

definition createSessionToken ::
  "crypto \<Rightarrow> auth_config \<Rightarrow> int \<Rightarrow> buffer \<Rightarrow> session_details \<Rightarrow> auth_db \<Rightarrow> auth_error + session_token \<times> auth_db" where
  "createSessionToken C cfg now bytes d db =
     (let t = SessionToken_create C cfg now bytes d
      in case tk_uid t of None \<Rightarrow> Inl NullColumn
         | Some uid \<Rightarrow>
             and_then (createSessionToken_9 (tk_id t) (the (tk_data t)) uid (tk_createdAt t) (st_ua t)
                         (st_tokenVerificationId t) (st_mustVerify t) db) (\<lambda>db.
             Inr (t, db)))"

definition merge_ua :: "ua_info \<Rightarrow> ua_info \<Rightarrow> ua_info" where
  "merge_ua a b =
     \<lparr> uaBrowser = coalesce (uaBrowser a) (uaBrowser b), uaBrowserVersion = coalesce (uaBrowserVersion a) (uaBrowserVersion b),
       uaOS = coalesce (uaOS a) (uaOS b), uaOSVersion = coalesce (uaOSVersion a) (uaOSVersion b),
       uaDeviceType = coalesce (uaDeviceType a) (uaDeviceType b), uaFormFactor = coalesce (uaFormFactor a) (uaFormFactor b) \<rparr>"

definition updateSessionToken :: "int \<Rightarrow> session_token \<Rightarrow> auth_db \<Rightarrow> auth_db" where
  "updateSessionToken now t db =
     (let lastAccess = (case st_lastAccessTime t of Some l \<Rightarrow> l | None \<Rightarrow> now);
          update = (\<lambda>s. s\<lparr> se_ua := merge_ua (st_ua t) (se_ua s), se_lastAccessTime := lastAccess,
                           se_authAt := Some (st_authAt t) \<rparr>);
          db = db\<lparr> sessionTokens := update_rows (\<lambda>s. se_tokenId s = tk_id t) update (sessionTokens db) \<rparr>
      in if st_mustVerify t
         then db\<lparr> unverifiedTokens := update_rows (\<lambda>u. un_tokenId u = tk_id t) (\<lambda>u. u\<lparr> un_mustVerify := True \<rparr>)
                    (unverifiedTokens db),
                  sessionTokens := update_rows (\<lambda>s. se_tokenId s = tk_id t) (\<lambda>s. s\<lparr> se_mustVerify := Some True \<rparr>)
                    (sessionTokens db) \<rparr>
         else db)"

text \<open>\<open>verifyToken_3\<close> and \<open>BaseToken.verifyToken\<close>, which fails when no mark was deleted.\<close>

definition verifyToken_3 :: "string \<Rightarrow> string \<Rightarrow> auth_db \<Rightarrow> auth_db" where
  "verifyToken_3 tokenVerificationId uid db =
     db\<lparr> securityEvents := update_rows (\<lambda>e. ev_tokenVerificationId e = Some tokenVerificationId \<and> ev_uid e = uid)
           (\<lambda>e. e\<lparr> ev_verified := True \<rparr>) (securityEvents db),
         unverifiedTokens := filter (\<lambda>u. \<not> (un_tokenVerificationId u = tokenVerificationId \<and> un_uid u = uid))
           (unverifiedTokens db) \<rparr>"

definition verifyTokens :: "string \<Rightarrow> string \<Rightarrow> auth_db \<Rightarrow> auth_error + auth_db" where
  "verifyTokens tokenVerificationId uid db =
     (if list_ex (\<lambda>u. un_tokenVerificationId u = tokenVerificationId \<and> un_uid u = uid) (unverifiedTokens db)
      then Inr (verifyToken_3 tokenVerificationId uid db)
      else Inl InvalidTokenVerification)"

definition VERIFICATION_METHOD :: "(string \<times> int) list" where
  "VERIFICATION_METHOD = [(''email'', 0), (''email-2fa'', 1), (''totp-2fa'', 2), (''recovery-code'', 3)]"

text \<open>\<open>SessionToken.verify\<close>, a transaction of both procedures.\<close>

definition verifyTokensWithMethod :: "int \<Rightarrow> string \<Rightarrow> int option \<Rightarrow> auth_db \<Rightarrow> auth_error + auth_db" where
  "verifyTokensWithMethod now tokenId verificationMethod db =
     (case find (\<lambda>s. se_tokenId s = tokenId) (sessionTokens db) of None \<Rightarrow> Inl NotFoundRow
      | Some s \<Rightarrow>
          let db = db\<lparr> sessionTokens := update_rows (\<lambda>s. se_tokenId s = tokenId)
                (\<lambda>s. s\<lparr> se_verificationMethod := verificationMethod, se_verifiedAt := Some now \<rparr>) (sessionTokens db) \<rparr>
          in case find (\<lambda>u. un_tokenId u = tokenId) (unverifiedTokens db) of None \<Rightarrow> Inr db
             | Some u \<Rightarrow> Inr (verifyToken_3 (un_tokenVerificationId u) (se_uid s) db))"

text \<open>The delete joins from the session: without it nothing is deleted.\<close>

definition deleteSessionToken :: "string \<Rightarrow> auth_db \<Rightarrow> auth_db" where
  "deleteSessionToken tokenId db =
     (case find (\<lambda>s. se_tokenId s = tokenId) (sessionTokens db) of None \<Rightarrow> db
      | Some s \<Rightarrow>
          let db = delete_devices (\<lambda>d. de_uid d = se_uid s \<and> de_sessionTokenId d = Some tokenId) db
          in db\<lparr> sessionTokens := filter (\<lambda>s. se_tokenId s \<noteq> tokenId) (sessionTokens db),
                 unverifiedTokens := filter (\<lambda>u. un_tokenId u \<noteq> tokenId) (unverifiedTokens db) \<rparr>)"

text \<open>
  \<open>sessionWithDevice_19\<close>: the details of a stored session. The procedure returns the push columns of the
  device under names that start with \<open>deviceCallback\<close>; a session token reads \<open>callbackURL\<close> and the like, which
  are not there.
\<close>

definition no_device :: device_info where
  "no_device = \<lparr> di_deviceId = None, di_deviceName = None, di_deviceType = None, di_deviceCreatedAt = None,
     di_callbackURL = None, di_callbackPublicKey = None, di_callbackAuthKey = None, di_callbackIsExpired = None \<rparr>"

definition session_with_device :: "session_row \<Rightarrow> auth_db \<Rightarrow> session_details" where
  "session_with_device t db =
     (let a = find_account (se_uid t) db;
          e = primaryEmail (se_uid t) db;
          d = find (\<lambda>d. de_sessionTokenId d = Some (se_tokenId t) \<and> de_uid d = se_uid t) (devices db);
          ut = find (\<lambda>u. un_tokenId u = se_tokenId t) (unverifiedTokens db)
      in \<lparr> sd_uid = Some (se_uid t), sd_lifetime = None, sd_createdAt = Some (se_createdAt t), sd_ua = se_ua t,
           sd_lastAccessTime = Some (se_lastAccessTime t),
           sd_device = (case d of None \<Rightarrow> no_device
             | Some d \<Rightarrow> no_device\<lparr> di_deviceId := Some (de_id d), di_deviceName := de_nameUtf8 d,
                 di_deviceType := de_type d, di_deviceCreatedAt := de_createdAt d \<rparr>),
           sd_email = map_option em_email e, sd_emailCode = map_option em_emailCode e,
           sd_emailVerified = (case e of Some e \<Rightarrow> em_isVerified e | None \<Rightarrow> False),
           sd_verifierSetAt = map_option ac_verifierSetAt a,
           sd_profileChangedAt = map_option (\<lambda>a. case ac_profileChangedAt a of Some p \<Rightarrow> p | None \<Rightarrow> ac_verifierSetAt a) a,
           sd_keysChangedAt = map_option (\<lambda>a. case ac_keysChangedAt a of Some p \<Rightarrow> p | None \<Rightarrow> ac_verifierSetAt a) a,
           sd_authAt = coalesce (se_authAt t) (Some (se_createdAt t)),
           sd_locale = map_option ac_locale a,
           sd_mustVerify = (coalesce (se_mustVerify t) (map_option un_mustVerify ut) = Some True),
           sd_tokenVerificationId = map_option un_tokenVerificationId ut,
           sd_verificationMethod = se_verificationMethod t, sd_verifiedAt = se_verifiedAt t,
           sd_metricsOptOutAt = (case a of Some a \<Rightarrow> ac_metricsOptOutAt a | None \<Rightarrow> None) \<rparr>)"

definition notExpired :: "int \<Rightarrow> session_details \<Rightarrow> bool" where
  "notExpired now d \<longleftrightarrow>
     truthy_string (di_deviceId (sd_device d)) \<noteq> None \<or> js_or0 (sd_createdAt d) > now - 2419200000"

definition SessionToken_findByTokenId :: "int \<Rightarrow> string \<Rightarrow> auth_db \<Rightarrow> (string \<times> session_details) option" where
  "SessionToken_findByTokenId now tokenId db =
     (case find (\<lambda>s. se_tokenId s = tokenId) (sessionTokens db) of None \<Rightarrow> None
      | Some s \<Rightarrow> let d = session_with_device s db
                  in if notExpired now d then Some (se_tokenData s, d) else None)"

definition sessionToken :: "crypto \<Rightarrow> auth_config \<Rightarrow> int \<Rightarrow> string \<Rightarrow> auth_db \<Rightarrow> auth_error + session_token" where
  "sessionToken C cfg now tokenId db =
     (case SessionToken_findByTokenId now tokenId db of None \<Rightarrow> Inl InvalidToken
      | Some (tokenData, d) \<Rightarrow> Inr (SessionToken_fromHex C cfg tokenData d))"

section \<open>Key-fetch tokens\<close>

definition createKeyFetchToken_2 ::
  "key_fetch_row \<Rightarrow> string option \<Rightarrow> auth_db \<Rightarrow> auth_error + auth_db" where
  "createKeyFetchToken_2 row tokenVerificationId db =
     and_then (unique_row (\<lambda>x y. kr_tokenId x = kr_tokenId y) row (keyFetchTokens db)) (\<lambda>ks.
     and_then (case tokenVerificationId of None \<Rightarrow> Inr (unverifiedTokens db)
               | Some v \<Rightarrow> unique_row (\<lambda>x y. un_tokenId x = un_tokenId y)
                   \<lparr> un_tokenId = kr_tokenId row, un_tokenVerificationId = v, un_uid = kr_uid row,
                     un_mustVerify = True \<rparr> (unverifiedTokens db)) (\<lambda>us.
     Inr (db\<lparr> keyFetchTokens := ks, unverifiedTokens := us \<rparr>)))"

definition createKeyFetchToken ::
  "crypto \<Rightarrow> int \<Rightarrow> buffer \<Rightarrow> string \<Rightarrow> string \<Rightarrow> string \<Rightarrow> bool \<Rightarrow> string option \<Rightarrow> auth_db \<Rightarrow>
     auth_error + key_fetch_token \<times> auth_db" where
  "createKeyFetchToken C now bytes uid kA wrapKb emailVerified tokenVerificationId db =
     and_then (KeyFetchToken_create C now bytes uid kA wrapKb emailVerified tokenVerificationId) (\<lambda>t.
     and_then (createKeyFetchToken_2
         \<lparr> kr_tokenId = tk_id t, kr_authKey = tk_authKey t, kr_uid = uid, kr_keyBundle = the (kf_keyBundle t),
           kr_createdAt = tk_createdAt t \<rparr> (kf_tokenVerificationId t) db) (\<lambda>db.
     Inr (t, db)))"

definition keyFetchTokenWithVerificationStatus :: "string \<Rightarrow> auth_db \<Rightarrow> auth_error + key_fetch_token" where
  "keyFetchTokenWithVerificationStatus tokenId db =
     (case find (\<lambda>k. kr_tokenId k = tokenId) (keyFetchTokens db) of None \<Rightarrow> Inl InvalidToken
      | Some k \<Rightarrow>
          (case primaryEmail (kr_uid k) db of None \<Rightarrow> Inl InvalidToken
           | Some e \<Rightarrow>
               Inr (new_KeyFetchToken
                 \<lparr> k_data = None, k_id = tokenId, k_authKey = kr_authKey k, k_bundleKey = None \<rparr>
                 (Some (kr_uid k)) (Some (kr_createdAt k)) (Some (kr_keyBundle k)) (em_isVerified e)
                 (map_option un_tokenVerificationId (find (\<lambda>u. un_tokenId u = tokenId) (unverifiedTokens db))))))"

definition deleteKeyFetchToken :: "string \<Rightarrow> auth_db \<Rightarrow> auth_db" where
  "deleteKeyFetchToken tokenId db =
     db\<lparr> keyFetchTokens := filter (\<lambda>k. kr_tokenId k \<noteq> tokenId) (keyFetchTokens db),
         unverifiedTokens := filter (\<lambda>u. un_tokenId u \<noteq> tokenId) (unverifiedTokens db) \<rparr>"

section \<open>Tokens of the password flows\<close>

definition createPasswordForgotToken ::
  "crypto \<Rightarrow> auth_config \<Rightarrow> int \<Rightarrow> buffer \<Rightarrow> string \<Rightarrow> string \<Rightarrow> string option \<Rightarrow> auth_db \<Rightarrow> forgot_token \<times> auth_db" where
  "createPasswordForgotToken C cfg now bytes passCode uid email db =
     (let t = PasswordForgotToken_create C cfg now bytes passCode uid email;
          row = \<lparr> fr_tokenId = tk_id t, fr_tokenData = the (tk_data t), fr_uid = uid,
                  fr_passCode = passCode, fr_createdAt = tk_createdAt t, fr_tries = js_or0 (fo_tries t) \<rparr>
      in (t, db\<lparr> passwordForgotTokens :=
            replace_row (\<lambda>x y. fr_tokenId x = fr_tokenId y \<or> fr_uid x = fr_uid y) row (passwordForgotTokens db) \<rparr>))"

definition passwordForgotToken ::
  "crypto \<Rightarrow> auth_config \<Rightarrow> string \<Rightarrow> auth_db \<Rightarrow> auth_error + forgot_token" where
  "passwordForgotToken C cfg tokenId db =
     (case find (\<lambda>t. fr_tokenId t = tokenId) (passwordForgotTokens db) of None \<Rightarrow> Inl InvalidToken
      | Some t \<Rightarrow>
          (case (find_account (fr_uid t) db, primaryEmail (fr_uid t) db) of
             (Some a, Some e) \<Rightarrow>
               Inr (new_PasswordForgotToken cfg (deriveTokenKeys C ''passwordForgotToken'' (from_hex (fr_tokenData t)))
                 (Some (fr_uid t)) (Some (fr_createdAt t)) (Some (em_email e)) (Some (fr_passCode t)) (Some (fr_tries t)))
           | _ \<Rightarrow> Inl InvalidToken))"

definition updatePasswordForgotToken :: "forgot_token \<Rightarrow> auth_db \<Rightarrow> auth_db" where
  "updatePasswordForgotToken t db =
     db\<lparr> passwordForgotTokens := update_rows (\<lambda>r. fr_tokenId r = tk_id t)
           (\<lambda>r. r\<lparr> fr_tries := js_or0 (fo_tries t) \<rparr>) (passwordForgotTokens db) \<rparr>"

definition deletePasswordForgotToken :: "string \<Rightarrow> auth_db \<Rightarrow> auth_db" where
  "deletePasswordForgotToken tokenId db =
     db\<lparr> passwordForgotTokens := filter (\<lambda>r. fr_tokenId r \<noteq> tokenId) (passwordForgotTokens db) \<rparr>"

text \<open>\<open>forgotPasswordVerified_8\<close>: the token of the code becomes one to reset the account.\<close>

definition forgotPasswordVerified ::
  "crypto \<Rightarrow> auth_config \<Rightarrow> int \<Rightarrow> buffer \<Rightarrow> string \<Rightarrow> string \<Rightarrow> auth_db \<Rightarrow> token \<times> auth_db" where
  "forgotPasswordVerified C cfg now bytes tokenId uid db =
     (let t = AccountResetToken_create C cfg now bytes uid;
          row = \<lparr> fl_tokenId = tk_id t, fl_tokenData = the (tk_data t), fl_uid = uid, fl_createdAt = tk_createdAt t \<rparr>
      in (t, db\<lparr> accountResetTokens :=
               replace_row (\<lambda>x y. fl_tokenId x = fl_tokenId y \<or> fl_uid x = fl_uid y) row (accountResetTokens db),
             passwordForgotTokens := filter (\<lambda>r. fr_tokenId r \<noteq> tokenId) (passwordForgotTokens db),
             accounts := update_rows (\<lambda>a. ac_uid a = uid) (\<lambda>a. a\<lparr> ac_emailVerified := True \<rparr>) (accounts db),
             emails := update_rows (\<lambda>e. em_isPrimary e \<and> em_uid e = uid)
               (\<lambda>e. e\<lparr> em_isVerified := True, em_verifiedAt := Some now \<rparr>) (emails db) \<rparr>))"

definition accountResetToken :: "crypto \<Rightarrow> auth_config \<Rightarrow> string \<Rightarrow> auth_db \<Rightarrow> auth_error + token" where
  "accountResetToken C cfg tokenId db =
     (case find (\<lambda>t. fl_tokenId t = tokenId) (accountResetTokens db) of None \<Rightarrow> Inl InvalidToken
      | Some t \<Rightarrow> if find_account (fl_uid t) db = None then Inl InvalidToken
                  else Inr (new_Token (deriveTokenKeys C ''accountResetToken'' (from_hex (fl_tokenData t)))
                         (Some (fl_uid t)) (Some (cfg_accountResetToken cfg)) (Some (fl_createdAt t))))"

definition createPasswordChangeToken ::
  "crypto \<Rightarrow> auth_config \<Rightarrow> int \<Rightarrow> buffer \<Rightarrow> string \<Rightarrow> auth_db \<Rightarrow> token \<times> auth_db" where
  "createPasswordChangeToken C cfg now bytes uid db =
     (let t = PasswordChangeToken_create C cfg now bytes uid;
          row = \<lparr> fl_tokenId = tk_id t, fl_tokenData = the (tk_data t), fl_uid = uid, fl_createdAt = tk_createdAt t \<rparr>
      in (t, db\<lparr> passwordChangeTokens :=
           replace_row (\<lambda>x y. fl_tokenId x = fl_tokenId y \<or> fl_uid x = fl_uid y) row (passwordChangeTokens db) \<rparr>))"

text \<open>\<open>passwordChangeToken_3\<close> joins the account and any email of the user.\<close>

definition passwordChangeToken :: "crypto \<Rightarrow> auth_config \<Rightarrow> string \<Rightarrow> auth_db \<Rightarrow> auth_error + token" where
  "passwordChangeToken C cfg tokenId db =
     (case find (\<lambda>t. fl_tokenId t = tokenId) (passwordChangeTokens db) of None \<Rightarrow> Inl InvalidToken
      | Some t \<Rightarrow>
          if find_account (fl_uid t) db = None \<or> \<not> list_ex (\<lambda>e. em_uid e = fl_uid t) (emails db) then Inl InvalidToken
          else Inr (new_Token (deriveTokenKeys C ''passwordChangeToken'' (from_hex (fl_tokenData t)))
                 (Some (fl_uid t)) (Some (cfg_passwordChangeToken cfg)) (Some (fl_createdAt t))))"

definition deletePasswordChangeToken :: "string \<Rightarrow> auth_db \<Rightarrow> auth_db" where
  "deletePasswordChangeToken tokenId db =
     db\<lparr> passwordChangeTokens := filter (\<lambda>t. fl_tokenId t \<noteq> tokenId) (passwordChangeTokens db) \<rparr>"

section \<open>Credentials\<close>

text \<open>
  \<open>makeCredentialFn\<close>: the token of a request, by its id. A token that cannot be found is an error; an
  expired session is one as well, any other expired token gives no credentials.
\<close>

definition hex_string :: "string \<Rightarrow> bool" where
  "hex_string s \<longleftrightarrow> s \<noteq> [] \<and> even (length s) \<and> list_all (\<lambda>c. hex_value c \<noteq> None) s"

definition token_credentials ::
  "bool \<Rightarrow> int \<Rightarrow> (string \<Rightarrow> auth_error + 'a token_scheme) \<Rightarrow> string \<Rightarrow> auth_error + 'a token_scheme option" where
  "token_credentials is_session now dbGetFn tokenId =
     (if \<not> hex_string tokenId then Inr None
      else and_then (dbGetFn tokenId) (\<lambda>token.
        if \<not> expired now token then Inr (Some token)
        else if is_session then Inl InvalidToken else Inr None))"

end
