(* ===== verification/Auth_Codes.thy ===== *)
theory Auth_Codes
  imports Auth_Sessions
begin

text \<open>
  The other credentials of an account, in the models under \<open>fxa-shared/db/models/auth\<close>, their stored
  procedures and \<open>lib/db/index.js\<close>: its email addresses, TOTP token, recovery key, recovery codes, the
  codes that unblock a login and those that sign in another device, and the security events.
\<close>

section \<open>Email addresses\<close>

definition touch_profile :: "int \<Rightarrow> string \<Rightarrow> auth_db \<Rightarrow> auth_db" where
  "touch_profile now uid db =
     db\<lparr> accounts := update_rows (\<lambda>a. ac_uid a = uid) (\<lambda>a. a\<lparr> ac_profileChangedAt := Some now \<rparr>) (accounts db) \<rparr>"

definition createEmail ::
  "int \<Rightarrow> string \<Rightarrow> string \<Rightarrow> string \<Rightarrow> string \<Rightarrow> bool \<Rightarrow> int option \<Rightarrow> auth_db \<Rightarrow> auth_error + auth_db" where
  "createEmail now uid normalizedEmail email emailCode isVerified verifiedAt db =
     instead DuplicateRow EmailExists
       (and_then (unique_row (\<lambda>x y. em_normalizedEmail x = em_normalizedEmail y)
          \<lparr> em_normalizedEmail = toLowerCase normalizedEmail, em_email = email, em_uid = uid,
            em_emailCode = emailCode, em_isVerified = isVerified, em_isPrimary = False,
            em_verifiedAt = verifiedAt, em_createdAt = now \<rparr> (emails db)) (\<lambda>es.
        Inr (db\<lparr> emails := es \<rparr>)))"

definition verifyEmail :: "int \<Rightarrow> string \<Rightarrow> string \<Rightarrow> auth_db \<Rightarrow> auth_db" where
  "verifyEmail now uid emailCode db =
     touch_profile now uid
       (db\<lparr> accounts := update_rows (\<lambda>a. ac_uid a = uid \<and> ac_emailCode a = emailCode)
              (\<lambda>a. a\<lparr> ac_emailVerified := True \<rparr>) (accounts db),
            emails := update_rows (\<lambda>e. em_uid e = uid \<and> em_emailCode e = emailCode)
              (\<lambda>e. e\<lparr> em_isVerified := True, em_verifiedAt := Some now \<rparr>) (emails db) \<rparr>)"

definition deleteEmail :: "int \<Rightarrow> string \<Rightarrow> string \<Rightarrow> auth_db \<Rightarrow> auth_error + auth_db" where
  "deleteEmail now uid email db =
     (if length (filter (\<lambda>e. em_normalizedEmail e = email \<and> em_uid e = uid \<and> em_isPrimary e) (emails db)) = 1
      then Inl CannotDeletePrimaryEmail
      else Inr (touch_profile now uid
        (db\<lparr> emails := filter (\<lambda>e. \<not> (em_normalizedEmail e = email \<and> em_uid e = uid \<and> \<not> em_isPrimary e))
               (emails db) \<rparr>)))"

text \<open>
  \<open>setPrimaryEmail_6\<close>: \<open>@foundEmail\<close> is a variable of the connection, and a \<open>SELECT ... INTO\<close> that finds no
  row leaves it as it is. The argument is its value before the call; the result has the value after it.
\<close>

definition setPrimaryEmail ::
  "int \<Rightarrow> string option \<Rightarrow> string \<Rightarrow> string \<Rightarrow> auth_db \<Rightarrow> string option \<times> (auth_error + auth_db)" where
  "setPrimaryEmail now foundEmail uid email db =
     (let foundEmail =
            (case find (\<lambda>e. em_uid e = uid \<and> em_normalizedEmail e = email \<and> em_isVerified e) (emails db) of
               Some e \<Rightarrow> Some (em_normalizedEmail e) | None \<Rightarrow> foundEmail)
      in (foundEmail,
          if foundEmail = None then Inl InvalidPrimaryEmailChange
          else Inr (touch_profile now uid
            (db\<lparr> emails :=
               update_rows (\<lambda>e. em_uid e = uid \<and> \<not> em_isPrimary e \<and> em_normalizedEmail e = email)
                 (\<lambda>e. e\<lparr> em_isPrimary := True \<rparr>)
                 (update_rows (\<lambda>e. em_uid e = uid \<and> em_isPrimary e) (\<lambda>e. e\<lparr> em_isPrimary := False \<rparr>)
                   (emails db)) \<rparr>))))"

section \<open>TOTP tokens\<close>

definition createTotpToken :: "int \<Rightarrow> string \<Rightarrow> string \<Rightarrow> int \<Rightarrow> auth_db \<Rightarrow> auth_error + auth_db" where
  "createTotpToken now uid sharedSecret epoch db =
     instead DuplicateRow TotpTokenAlreadyExists
       (and_then (unique_row (\<lambda>x y. to_uid x = to_uid y)
          \<lparr> to_uid = uid, to_sharedSecret = sharedSecret, to_epoch = epoch, to_createdAt = now,
            to_verified = False, to_enabled = True \<rparr> (totp db)) (\<lambda>ts.
        Inr (db\<lparr> totp := ts \<rparr>)))"

definition totpToken :: "string \<Rightarrow> auth_db \<Rightarrow> auth_error + totp_row" where
  "totpToken uid db =
     (case find (\<lambda>t. to_uid t = uid) (totp db) of None \<Rightarrow> Inl TotpTokenNotFound | Some t \<Rightarrow> Inr t)"

text \<open>
  \<open>updateTotpToken_4\<close>: the number of rows that the caller tests is that of the last statement, the update
  of the account.
\<close>

definition updateTotpToken :: "int \<Rightarrow> string \<Rightarrow> bool \<Rightarrow> bool \<Rightarrow> auth_db \<Rightarrow> auth_error + auth_db" where
  "updateTotpToken now uid verified enabled db =
     (if find_account uid db = None then Inl TotpTokenNotFound
      else Inr (touch_profile now uid
        (db\<lparr> totp := update_rows (\<lambda>t. to_uid t = uid) (\<lambda>t. t\<lparr> to_verified := verified, to_enabled := enabled \<rparr>)
               (totp db) \<rparr>)))"

definition deleteTotpToken :: "int \<Rightarrow> string \<Rightarrow> auth_db \<Rightarrow> auth_db" where
  "deleteTotpToken now uid db = touch_profile now uid (db\<lparr> totp := others to_uid uid (totp db) \<rparr>)"

definition hasTotpToken :: "string \<Rightarrow> auth_db \<Rightarrow> bool" where
  "hasTotpToken uid db =
     (case totpToken uid db of Inl _ \<Rightarrow> False | Inr t \<Rightarrow> to_verified t \<and> to_enabled t)"

section \<open>Recovery keys\<close>

definition recovery_hash :: "crypto \<Rightarrow> string \<Rightarrow> string" where
  "recovery_hash C recoveryKeyId = toString_hex (cr_sha256 C (from_hex recoveryKeyId))"

definition createRecoveryKey ::
  "crypto \<Rightarrow> int \<Rightarrow> string \<Rightarrow> string \<Rightarrow> string \<Rightarrow> bool \<Rightarrow> auth_db \<Rightarrow> auth_error + auth_db" where
  "createRecoveryKey C now uid recoveryKeyId recoveryData enabled db =
     (if find_account uid db = None then Inl NotFoundRow
      else instead DuplicateRow RecoveryKeyExists
        (and_then (unique_row (\<lambda>x y. rk_uid x = rk_uid y)
           \<lparr> rk_uid = uid, rk_recoveryKeyIdHash = recovery_hash C recoveryKeyId, rk_recoveryData = recoveryData,
             rk_createdAt = now, rk_verifiedAt = None, rk_enabled = enabled \<rparr> (recoveryKeys db)) (\<lambda>ks.
         Inr (touch_profile now uid (db\<lparr> recoveryKeys := ks \<rparr>)))))"

definition getRecoveryKey :: "crypto \<Rightarrow> string \<Rightarrow> string \<Rightarrow> auth_db \<Rightarrow> auth_error + recovery_key_row" where
  "getRecoveryKey C uid recoveryKeyId db =
     (case find (\<lambda>k. rk_uid k = uid) (recoveryKeys db) of None \<Rightarrow> Inl RecoveryKeyNotFound
      | Some k \<Rightarrow>
          if from_hex (recovery_hash C recoveryKeyId) = from_hex (rk_recoveryKeyIdHash k) then Inr k
          else Inl RecoveryKeyInvalid)"

definition updateRecoveryKey :: "crypto \<Rightarrow> int \<Rightarrow> string \<Rightarrow> string \<Rightarrow> bool \<Rightarrow> auth_db \<Rightarrow> auth_error + auth_db" where
  "updateRecoveryKey C now uid recoveryKeyId enabled db =
     (let P = (\<lambda>k. rk_uid k = uid \<and> rk_recoveryKeyIdHash k = recovery_hash C recoveryKeyId)
      in if \<not> list_ex P (recoveryKeys db) then Inl NotFoundRow
         else Inr (touch_profile now uid
           (db\<lparr> recoveryKeys := update_rows P (\<lambda>k. k\<lparr> rk_verifiedAt := None, rk_enabled := enabled \<rparr>)
                  (recoveryKeys db) \<rparr>)))"

definition deleteRecoveryKey :: "string \<Rightarrow> auth_db \<Rightarrow> auth_db" where
  "deleteRecoveryKey uid db = db\<lparr> recoveryKeys := others rk_uid uid (recoveryKeys db) \<rparr>"

section \<open>Recovery codes\<close>

text \<open>The hash of a code; the number of pending hashes is below its limit here.\<close>

definition code_hash :: "crypto \<Rightarrow> string \<Rightarrow> buffer \<Rightarrow> buffer" where
  "code_hash C code salt = cr_scrypt C (from_ascii code) salt 32 65536 8 1 (maxmem 65536 8)"

text \<open>
  \<open>Account.replaceRecoveryCodes\<close>. \<open>deleteRecoveryCodes_1\<close> starts and commits a transaction of its own, which
  ends the one around it: the deletion and every row inserted so far stay when an insertion fails.
\<close>

fun create_codes :: "string \<Rightarrow> (buffer \<times> buffer) list \<Rightarrow> recovery_code_row list \<Rightarrow>
    (auth_error + unit) \<times> recovery_code_row list" where
  "create_codes uid [] rows = (Inr (), rows)"
| "create_codes uid ((hash, salt) # hashes) rows =
     (case unique_row (\<lambda>x y. rc_uid x = rc_uid y \<and> rc_codeHash x = rc_codeHash y)
             \<lparr> rc_uid = uid, rc_codeHash = hash, rc_salt = salt \<rparr> rows of
        Inl e \<Rightarrow> (Inl e, rows) | Inr rows \<Rightarrow> create_codes uid hashes rows)"

definition replaceRecoveryCodes ::
  "string \<Rightarrow> (buffer \<times> buffer) list \<Rightarrow> auth_db \<Rightarrow> (auth_error + unit) \<times> auth_db" where
  "replaceRecoveryCodes uid hashes db =
     (if find_account uid db = None then (Inl NotFoundRow, db)
      else let (result, rows) = create_codes uid hashes (others rc_uid uid (recoveryCodes db))
           in (result, db\<lparr> recoveryCodes := rows \<rparr>))"

text \<open>\<open>DB.updateRecoveryCodes\<close>, each code with the random salt it gets.\<close>

definition updateRecoveryCodes ::
  "crypto \<Rightarrow> string \<Rightarrow> (string \<times> buffer) list \<Rightarrow> auth_db \<Rightarrow> (auth_error + unit) \<times> auth_db" where
  "updateRecoveryCodes C uid codes db =
     replaceRecoveryCodes uid (map (\<lambda>(code, salt). (code_hash C code salt, salt)) codes) db"

text \<open>\<open>Account.consumeRecoveryCode\<close>: the first row that the code matches is deleted, the rest is counted.\<close>

definition consumeRecoveryCode :: "crypto \<Rightarrow> string \<Rightarrow> string \<Rightarrow> auth_db \<Rightarrow> auth_error + nat \<times> auth_db" where
  "consumeRecoveryCode C uid code db =
     (case find (\<lambda>r. rc_uid r = uid \<and> rc_codeHash r = code_hash C (toLowerCase code) (rc_salt r)) (recoveryCodes db) of
        None \<Rightarrow> Inl RecoveryCodeNotFound
      | Some r \<Rightarrow>
          let rows = filter (\<lambda>x. \<not> (rc_uid x = uid \<and> rc_codeHash x = rc_codeHash r)) (recoveryCodes db)
          in Inr (length (filter (\<lambda>x. rc_uid x = uid) rows), db\<lparr> recoveryCodes := rows \<rparr>))"

section \<open>Codes that unblock a login\<close>

definition unblock_hash :: "crypto \<Rightarrow> string \<Rightarrow> string \<Rightarrow> buffer" where
  "unblock_hash C uid code = cr_sha256 C (from_hex uid @ from_ascii code)"

definition createUnblockCode :: "crypto \<Rightarrow> int \<Rightarrow> string \<Rightarrow> string \<Rightarrow> auth_db \<Rightarrow> auth_error + auth_db" where
  "createUnblockCode C now uid code db =
     and_then (unique_row (\<lambda>x y. ub_uid x = ub_uid y \<and> ub_unblockCodeHash x = ub_unblockCodeHash y)
       \<lparr> ub_uid = uid, ub_unblockCodeHash = unblock_hash C uid code, ub_createdAt = now \<rparr> (unblockCodes db)) (\<lambda>us.
     Inr (db\<lparr> unblockCodes := us \<rparr>))"

text \<open>\<open>DB.createUnblockCode\<close> tries the codes it generates, one after the other, until one is new.\<close>

fun retryUnblockCode :: "crypto \<Rightarrow> int \<Rightarrow> string \<Rightarrow> string list \<Rightarrow> auth_db \<Rightarrow> (string \<times> auth_db) option" where
  "retryUnblockCode C now uid [] db = None"
| "retryUnblockCode C now uid (code # codes) db =
     (case createUnblockCode C now uid code db of
        Inr db' \<Rightarrow> Some (code, db') | Inl _ \<Rightarrow> retryUnblockCode C now uid codes db)"

text \<open>\<open>consumeUnblockCode_4\<close> deletes every code of the user when it finds the one.\<close>

definition consumeUnblockCode :: "crypto \<Rightarrow> string \<Rightarrow> string \<Rightarrow> auth_db \<Rightarrow> (auth_error + int) \<times> auth_db" where
  "consumeUnblockCode C uid code db =
     (let createdAt = (case find (\<lambda>u. ub_uid u = uid \<and> ub_unblockCodeHash u = unblock_hash C uid code)
                         (unblockCodes db) of Some u \<Rightarrow> ub_createdAt u | None \<Rightarrow> 0);
          db = (if createdAt > 0 then db\<lparr> unblockCodes := others ub_uid uid (unblockCodes db) \<rparr> else db)
      in (if createdAt = 0 then Inl InvalidUnblockCode else Inr createdAt, db))"

section \<open>Codes that sign in another device\<close>

definition createSigninCode :: "crypto \<Rightarrow> int \<Rightarrow> string \<Rightarrow> string \<Rightarrow> string option \<Rightarrow> auth_db \<Rightarrow> auth_error + auth_db" where
  "createSigninCode C now uid code flowId db =
     and_then (unique_row (\<lambda>x y. si_hash x = si_hash y)
       \<lparr> si_hash = cr_sha256 C (from_ascii code), si_uid = uid, si_createdAt = now,
         si_flowId = truthy_string flowId \<rparr> (signinCodes db)) (\<lambda>ss.
     Inr (db\<lparr> signinCodes := ss \<rparr>))"

definition consumeSigninCode ::
  "crypto \<Rightarrow> int \<Rightarrow> string \<Rightarrow> auth_db \<Rightarrow> (auth_error + string option \<times> string) \<times> auth_db" where
  "consumeSigninCode C now code db =
     (let newerThan = now - 172800000;
          P = (\<lambda>s. si_hash s = cr_sha256 C (from_ascii code) \<and> si_createdAt s > newerThan);
          found = (case find P (signinCodes db) of None \<Rightarrow> Inl InvalidSigninCode
                   | Some s \<Rightarrow> (case primaryEmail (si_uid s) db of None \<Rightarrow> Inl InvalidSigninCode
                               | Some e \<Rightarrow> Inr (si_flowId s, em_email e)))
      in (found, db\<lparr> signinCodes := filter (\<lambda>s. \<not> P s) (signinCodes db) \<rparr>))"

section \<open>Security events\<close>

definition securityEvent :: "int \<Rightarrow> string \<Rightarrow> string \<Rightarrow> buffer \<Rightarrow> string option \<Rightarrow> auth_db \<Rightarrow> auth_db" where
  "securityEvent now uid name ipAddrHmac tokenId db =
     (let v = (case tokenId of None \<Rightarrow> None
               | Some i \<Rightarrow> map_option un_tokenVerificationId
                   (find (\<lambda>u. un_uid u = uid \<and> un_tokenId u = i) (unverifiedTokens db)))
      in db\<lparr> securityEvents := securityEvents db @
           [\<lparr> ev_uid = uid, ev_tokenVerificationId = v, ev_verified = (v = None), ev_name = name,
              ev_ipAddrHmac = ipAddrHmac, ev_createdAt = now \<rparr>] \<rparr>)"

end
