(* ===== verification/Auth_Routes.thy ===== *)
theory Auth_Routes
  imports Auth_Codes OAuth_DB
begin

text \<open>
  Routes of the auth server that work on the tokens of a user: \<open>lib/routes/session.js\<close>, the flow of a
  forgotten password in \<open>lib/routes/password.js\<close>, the keys, the reset and the deletion of an account in
  \<open>lib/routes/account.ts\<close>, and the assertion that a session gives to the OAuth server
  (\<open>makeAssertionJWT\<close> in \<open>lib/oauth/util.js\<close>, \<open>lib/serverJWT.js\<close>, \<open>lib/oauth/assertion.js\<close>). The verdict of the
  customs server is an argument, random bytes are arguments, mail, push messages and metrics are left out.
\<close>

section \<open>Sessions\<close>

text \<open>\<open>POST /session/destroy\<close>, of the session itself or of another one of the same user.\<close>

definition session_destroy ::
  "crypto \<Rightarrow> auth_config \<Rightarrow> int \<Rightarrow> session_token \<Rightarrow> string option \<Rightarrow> auth_db \<Rightarrow> auth_error + auth_db" where
  "session_destroy C cfg now t customSessionToken db =
     (case truthy_string customSessionToken of
        None \<Rightarrow> Inr (deleteSessionToken (tk_id t) db)
      | Some i \<Rightarrow> and_then (sessionToken C cfg now i db) (\<lambda>tokenData.
          if tk_uid t = tk_uid tokenData then Inr (deleteSessionToken i db) else Inl InvalidToken))"

definition session_duplicate ::
  "crypto \<Rightarrow> auth_config \<Rightarrow> int \<Rightarrow> buffer \<Rightarrow> (nat \<Rightarrow> string) \<Rightarrow> ua_info \<Rightarrow> session_token \<Rightarrow> auth_db \<Rightarrow>
     auth_error + session_token \<times> auth_db" where
  "session_duplicate C cfg now bytes random_hex ua t db =
     createSessionToken C cfg now bytes ((copyTokenState random_hex t)\<lparr> sd_ua := ua \<rparr>) db"

text \<open>
  \<open>POST /session/verify_code\<close>: \<open>valid\<close> is what \<open>otplib\<close> says of the code and the secret. The verification of
  the account is the call of \<open>db.verifyEmail\<close> in \<open>lib/routes/utils/signup.js\<close>.
\<close>

definition session_verify_code ::
  "bool \<Rightarrow> (string \<Rightarrow> string \<Rightarrow> bool) \<Rightarrow> int \<Rightarrow> session_token \<Rightarrow> string \<Rightarrow> auth_db \<Rightarrow> auth_error + auth_db" where
  "session_verify_code customs_ok valid now t code db =
     and_then (require customs_ok CustomsBlocked) (\<lambda>_.
     and_then (case tk_uid t of None \<Rightarrow> Inl UnknownAuthAccount | Some u \<Rightarrow> account u db) (\<lambda>(a, e).
     (case e of None \<Rightarrow> Inl JsTypeError
      | Some e \<Rightarrow>
          and_then (require (valid code (em_emailCode e)) InvalidOrExpiredOtpCode) (\<lambda>_.
          and_then (verifyTokensWithMethod now (tk_id t) (map_of VERIFICATION_METHOD ''email-2fa'') db) (\<lambda>db.
          Inr (if \<not> em_isVerified e then verifyEmail now (ac_uid a) (em_emailCode e) db else db))))))"

section \<open>A forgotten password\<close>

text \<open>\<open>POST /password/forgot/send_code\<close>: the token, its time to live, the length of the code and the tries.\<close>

definition forgot_send_code ::
  "crypto \<Rightarrow> auth_config \<Rightarrow> bool \<Rightarrow> int \<Rightarrow> buffer \<Rightarrow> string \<Rightarrow> string \<Rightarrow> auth_db \<Rightarrow>
     auth_error + forgot_token \<times> auth_db" where
  "forgot_send_code C cfg customs_ok now bytes passCode email db =
     and_then (require customs_ok CustomsBlocked) (\<lambda>_.
     and_then (accountRecord email db) (\<lambda>(a, e).
     (case e of None \<Rightarrow> Inl JsTypeError
      | Some e \<Rightarrow>
          if toLowerCase (em_normalizedEmail e) \<noteq> toLowerCase email then Inl CannotResetPasswordWithSecondaryEmail
          else Inr (createPasswordForgotToken C cfg now bytes passCode (ac_uid a) (Some (ac_email a)) db))))"

definition failVerifyAttempt :: "forgot_token \<Rightarrow> auth_db \<Rightarrow> forgot_token \<times> auth_db" where
  "failVerifyAttempt t db =
     (case failAttempt t of (over, t') \<Rightarrow>
        (t', if over then deletePasswordForgotToken (tk_id t') db else updatePasswordForgotToken t' db))"

text \<open>\<open>POST /password/forgot/verify_code\<close>; a failed attempt is recorded before the error.\<close>

definition forgot_verify_code ::
  "crypto \<Rightarrow> auth_config \<Rightarrow> bool \<Rightarrow> int \<Rightarrow> buffer \<Rightarrow> forgot_token \<Rightarrow> string \<Rightarrow> auth_db \<Rightarrow>
     (auth_error + token) \<times> auth_db" where
  "forgot_verify_code C cfg customs_ok now bytes t code db =
     (if \<not> customs_ok then (Inl CustomsBlocked, db)
      else case (fo_passCode t, tk_uid t) of
        (Some passCode, Some uid) \<Rightarrow>
          let ttl = token_ttl now t
          in if buffersAreEqual (from_hex passCode) (from_hex code) \<and> (case ttl of None \<Rightarrow> True | Some n \<Rightarrow> n > 0)
             then let (r, db) = forgotPasswordVerified C cfg now bytes (tk_id t) uid db in (Inr r, db)
             else let (t', db) = failVerifyAttempt t db
                  in (Inl (InvalidVerificationCode (js_or0 (fo_tries t')) (js_or0 ttl)), db)
      | _ \<Rightarrow> (Inl JsTypeError, db))"

text \<open>The whole request: the token is authenticated first.\<close>

definition forgot_request ::
  "crypto \<Rightarrow> auth_config \<Rightarrow> bool \<Rightarrow> int \<Rightarrow> buffer \<Rightarrow> string \<Rightarrow> string \<Rightarrow> auth_db \<Rightarrow> (auth_error + token) \<times> auth_db" where
  "forgot_request C cfg customs_ok now bytes tokenId code db =
     (case token_credentials False now (\<lambda>i. passwordForgotToken C cfg i db) tokenId of
        Inl e \<Rightarrow> (Inl e, db)
      | Inr None \<Rightarrow> (Inl Unauthorized, db)
      | Inr (Some t) \<Rightarrow> forgot_verify_code C cfg customs_ok now bytes t code db)"

section \<open>Keys\<close>

definition account_keys :: "key_fetch_token \<Rightarrow> auth_db \<Rightarrow> auth_error + string option \<times> auth_db" where
  "account_keys t db =
     (if \<not> (kf_tokenVerified t \<and> kf_emailVerified t) then Inl UnverifiedAccount
      else Inr (kf_keyBundle t, deleteKeyFetchToken (tk_id t) db))"

section \<open>The reset of an account\<close>

record reset_request =
  ra_authPW :: string
  ra_wrapKb :: "string option"
  ra_recoveryKeyId :: "string option"
  ra_sessionToken :: bool
  ra_keys :: bool
  ra_ua :: ua_info
  ra_ipAddrHmac :: buffer

record reset_random =
  rn_authSalt :: string
  rn_wrapWrapKb :: string
  rn_session :: buffer
  rn_tokenVerificationId :: string
  rn_keyFetch :: buffer

text \<open>
  \<open>resetAccountData\<close>: the keys \<open>(data, wrapKb)\<close> of the new password first, then the tables. With a recovery
  key the old key is wrapped again, without one there is a new one.
\<close>

definition reset_keys ::
  "crypto \<Rightarrow> auth_config \<Rightarrow> scrypt_state \<Rightarrow> reset_random \<Rightarrow> reset_request \<Rightarrow> auth_error + reset_data \<times> string" where
  "reset_keys C cfg s rnd q =
     and_then (new_Password C s (ra_authPW q) (rn_authSalt rnd) (Some (cfg_verifierVersion cfg))) (\<lambda>password.
     and_then
       (if truthy_string (ra_recoveryKeyId q) \<noteq> None
        then case ra_wrapKb q of None \<Rightarrow> Inl JsTypeError
             | Some wrapKb \<Rightarrow> and_then (unwrap C password wrapKb) (\<lambda>w. Inr (w, wrapKb, False))
        else and_then (unwrap C password (rn_wrapWrapKb rnd)) (\<lambda>k. Inr (rn_wrapWrapKb rnd, k, True)))
       (\<lambda>(wrapWrapKb, wrapKb, changed).
     Inr (\<lparr> rd_verifyHash = verifyHash C password, rd_authSalt = rn_authSalt rnd, rd_wrapWrapKb = wrapWrapKb,
            rd_verifierVersion = pw_version password, rd_keysHaveChanged = changed \<rparr>, wrapKb)))"

type_synonym stores = "auth_db \<times> oauth_db"

definition reset_account_data ::
  "int \<Rightarrow> string \<Rightarrow> reset_data \<Rightarrow> stores \<Rightarrow> (auth_error + account_row \<times> email_row option) \<times> stores" where
  "reset_account_data now uid data s =
     (let db = resetAccountTokens uid (resetAccount now uid data (fst s))
      in case account uid db of Inl e \<Rightarrow> (Inl e, (db, snd s))
         | Inr a \<Rightarrow> (Inr a, (db, removePublicAndCanGrantTokens now uid (snd s))))"

definition no_details :: session_details where
  "no_details = \<lparr> sd_uid = None, sd_lifetime = None, sd_createdAt = None,
     sd_ua = \<lparr> uaBrowser = None, uaBrowserVersion = None, uaOS = None, uaOSVersion = None, uaDeviceType = None,
               uaFormFactor = None \<rparr>,
     sd_lastAccessTime = None, sd_device = no_device, sd_email = None, sd_emailCode = None,
     sd_emailVerified = False, sd_verifierSetAt = None, sd_profileChangedAt = None, sd_keysChangedAt = None,
     sd_authAt = None, sd_locale = None, sd_mustVerify = False, sd_tokenVerificationId = None,
     sd_verificationMethod = None, sd_verifiedAt = None, sd_metricsOptOutAt = None \<rparr>"

definition reset_session_details ::
  "reset_request \<Rightarrow> string option \<Rightarrow> account_row \<Rightarrow> email_row \<Rightarrow> session_details" where
  "reset_session_details q tokenVerificationId a e =
     no_details\<lparr> sd_uid := Some (ac_uid a), sd_email := Some (em_email e), sd_emailCode := Some (em_emailCode e),
       sd_emailVerified := em_isVerified e, sd_verifierSetAt := Some (ac_verifierSetAt a),
       sd_mustVerify := (truthy_string tokenVerificationId \<noteq> None),
       sd_tokenVerificationId := tokenVerificationId, sd_ua := ra_ua q \<rparr>"

text \<open>
  \<open>createSessionToken\<close>, \<open>createKeyFetchToken\<close> and the security event, on the tables of the auth server. The
  session is verified unless the user has a TOTP token.
\<close>

definition reset_tokens ::
  "crypto \<Rightarrow> auth_config \<Rightarrow> int \<Rightarrow> reset_random \<Rightarrow> reset_request \<Rightarrow> bool \<Rightarrow> string \<Rightarrow> account_row \<Rightarrow> email_row \<Rightarrow>
     auth_db \<Rightarrow> (auth_error + session_token option \<times> key_fetch_token option) \<times> auth_db" where
  "reset_tokens C cfg now rnd q hasTotp wrapKb a e db =
     (let tokenVerificationId =
            (if ra_sessionToken q \<and> hasTotp then Some (rn_tokenVerificationId rnd) else None)
      in then_st
        (if ra_sessionToken q
         then attempt (and_then (createSessionToken C cfg now (rn_session rnd)
                (reset_session_details q tokenVerificationId a e) db) (\<lambda>(t, db). Inr (Some t, db))) db
         else (Inr None, db)) (\<lambda>session db.
      then_st
        (if ra_keys q
         then if \<not> ra_sessionToken q then (Inl (MissingRequestParameter ''sessionToken''), db)
              else attempt (and_then (createKeyFetchToken C now (rn_keyFetch rnd) (ac_uid a) (ac_kA a) wrapKb
                     (em_isVerified e) tokenVerificationId db) (\<lambda>(k, db). Inr (Some k, db))) db
         else (Inr None, db)) (\<lambda>keyFetch db.
      (Inr (session, keyFetch),
       securityEvent now (ac_uid a) ''account.reset'' (ra_ipAddrHmac q) (map_option tk_id session) db))))"

text \<open>\<open>reset\<close>, with the token that authenticates the request.\<close>

definition account_reset ::
  "crypto \<Rightarrow> auth_config \<Rightarrow> scrypt_state \<Rightarrow> int \<Rightarrow> reset_random \<Rightarrow> token \<Rightarrow> reset_request \<Rightarrow> stores \<Rightarrow>
     (auth_error + session_token option \<times> key_fetch_token option) \<times> stores" where
  "account_reset C cfg sc now rnd t q s =
     (case tk_uid t of None \<Rightarrow> (Inl UnknownAuthAccount, s)
      | Some uid \<Rightarrow>
          then_st (case truthy_string (ra_recoveryKeyId q) of None \<Rightarrow> Inr ()
                   | Some i \<Rightarrow> and_then (getRecoveryKey C uid i (fst s)) (\<lambda>_. Inr ()), s) (\<lambda>_ s.
          let hasTotp = hasTotpToken uid (fst s)
          in then_st (reset_keys C cfg sc rnd q, s) (\<lambda>(data, wrapKb) s.
             then_st (reset_account_data now uid data s) (\<lambda>(a, e) s.
             let db = (if truthy_string (ra_recoveryKeyId q) \<noteq> None then deleteRecoveryKey uid (fst s) else fst s)
             in case e of
                  None \<Rightarrow> if ra_sessionToken q then (Inl JsTypeError, (db, snd s))
                          else if ra_keys q then (Inl (MissingRequestParameter ''sessionToken''), (db, snd s))
                          else (Inr (None, None),
                                (securityEvent now uid ''account.reset'' (ra_ipAddrHmac q) None db, snd s))
                | Some e \<Rightarrow>
                    let (r, db) = reset_tokens C cfg now rnd q hasTotp wrapKb a e db in (r, (db, snd s))))))"

section \<open>The deletion of an account\<close>

text \<open>\<open>checkPassword\<close> of \<open>lib/routes/utils/signin.js\<close>; a salt of ones marks an account that must be reset.\<close>

definition ONES :: buffer where
  "ONES = replicate 32 255"

definition signin_checkPassword :: "crypto \<Rightarrow> account_row \<Rightarrow> password \<Rightarrow> auth_db \<Rightarrow> auth_error + bool" where
  "signin_checkPassword C a password db =
     and_then (require (\<not> buffersAreEqual (from_hex (ac_authSalt a)) ONES) MustResetAccount) (\<lambda>_.
     Inr (checkPassword (ac_uid a) (verifyHash C password) db))"

text \<open>\<open>destroy\<close>; what a payment provider keeps of the user is out of the model.\<close>

definition account_destroy ::
  "crypto \<Rightarrow> scrypt_state \<Rightarrow> bool \<Rightarrow> int \<Rightarrow> session_token option \<Rightarrow> string \<Rightarrow> string \<Rightarrow> stores \<Rightarrow> auth_error + stores" where
  "account_destroy C sc customs_ok now session email authPW s =
     and_then (require customs_ok CustomsBlocked) (\<lambda>_.
     and_then (accountRecord email (fst s)) (\<lambda>(a, _).
     and_then
       (if hasTotpToken (ac_uid a) (fst s)
        then case session of None \<Rightarrow> Inl UnverifiedSession
             | Some t \<Rightarrow> and_then (require (st_tokenVerificationId t = None) UnverifiedSession) (\<lambda>_.
                 and_then (authenticatorAssuranceLevel t) (\<lambda>aal. require (aal > 1) UnverifiedSession))
        else Inr ()) (\<lambda>_.
     and_then (new_Password C sc authPW (ac_authSalt a) (Some (ac_verifierVersion a))) (\<lambda>password.
     and_then (signin_checkPassword C a password (fst s)) (\<lambda>match.
     and_then (require match IncorrectPassword) (\<lambda>_.
     Inr (deleteAccount (ac_uid a) (fst s), removeUser now (ac_uid a) (snd s))))))))"

section \<open>Assertions\<close>

record 'k jwt_service =
  jwt_sign :: "claims \<Rightarrow> string \<Rightarrow> string \<Rightarrow> 'k \<Rightarrow> int \<Rightarrow> int \<Rightarrow> string"
  jwt_verify :: "int \<Rightarrow> string \<Rightarrow> 'k \<Rightarrow> string \<Rightarrow> string \<Rightarrow> string + claims"

text \<open>
  \<open>makeAssertionJWT\<close>: the claims that are signed. The columns of an account and of its primary email are
  not null; a number that a session lacks is 0.
\<close>

definition assertion_claims :: "int \<Rightarrow> session_token \<Rightarrow> auth_error + claims" where
  "assertion_claims now t =
     and_then (require (st_emailVerified t) UnverifiedAccount) (\<lambda>_.
     and_then (require (\<not> (st_mustVerify t \<and> \<not> st_tokenVerified t)) UnverifiedSession) (\<lambda>_.
     and_then (authenticationMethods t) (\<lambda>amr.
     and_then (authenticatorAssuranceLevel t) (\<lambda>aal.
     Inr \<lparr> c_uid = (case tk_uid t of Some u \<Rightarrow> u | None \<Rightarrow> []), c_generation = js_or0 (st_verifierSetAt t),
           c_verifiedEmail = (case st_email t of Some e \<Rightarrow> e | None \<Rightarrow> []), c_lastAuthAt = lastAuthAt t,
           c_iat = now div 1000, c_tokenVerified = st_tokenVerified t, c_sessionTokenId = Some (tk_id t),
           c_amr = Some amr, c_aal = aal, c_profileChangedAt = js_or0 (st_profileChangedAt t),
           c_keysChangedAt = js_or0 (st_keysChangedAt t) \<rparr>))))"

text \<open>\<open>verifyJWT\<close>: any error but an invalid signature ends the search for the key.\<close>

fun verifyJWT :: "'k jwt_service \<Rightarrow> int \<Rightarrow> string \<Rightarrow> string \<Rightarrow> string \<Rightarrow> 'k list \<Rightarrow> string + claims" where
  "verifyJWT J now jwt audience issuer [] = Inl ''Invalid jwt''"
| "verifyJWT J now jwt audience issuer (key # keys) =
     (case jwt_verify J now jwt key audience issuer of
        Inr claims \<Rightarrow> Inr claims
      | Inl message \<Rightarrow> if message \<noteq> ''invalid signature'' then Inl message
                       else verifyJWT J now jwt audience issuer keys)"

text \<open>\<open>CLAIMS_SCHEMA\<close>.\<close>

definition claims_valid :: "claims \<Rightarrow> bool" where
  "claims_valid c \<longleftrightarrow>
     length (c_uid c) = 32 \<and> list_all (\<lambda>x. x \<in> set ''0123456789abcdef'') (c_uid c) \<and>
     0 \<le> c_generation c \<and> length (c_verifiedEmail c) \<le> 255 \<and> c_verifiedEmail c \<noteq> [] \<and> 0 \<le> c_lastAuthAt c \<and>
     0 \<le> c_iat c \<and>
     (case c_sessionTokenId c of None \<Rightarrow> True
      | Some i \<Rightarrow> length i = 64 \<and> list_all (\<lambda>x. hex_value x \<noteq> None) i) \<and>
     (case c_amr c of None \<Rightarrow> True
      | Some amr \<Rightarrow> list_all (\<lambda>a. a \<noteq> [] \<and> list_all (\<lambda>x. x \<in> set ''0123456789abcdefghijklmnopqrstuvwxyzABCDEFGHIJKLMNOPQRSTUVWXYZ'') a) amr) \<and>
     0 \<le> c_aal c \<and> c_aal c \<le> 3 \<and> 0 \<le> c_profileChangedAt c \<and> 0 \<le> c_keysChangedAt c"

text \<open>
  \<open>verifyAssertion\<close>: a tilde marks the older kind of assertion, which an external service verifies. Every
  failure is the same error.
\<close>

definition verifyAssertion ::
  "'k jwt_service \<Rightarrow> (string \<Rightarrow> claims option) \<Rightarrow> int \<Rightarrow> string \<Rightarrow> string \<Rightarrow> 'k list \<Rightarrow> string \<Rightarrow> claims option" where
  "verifyAssertion J verifyBrowserID now audience issuer keys assertion =
     (case (if CHR ''~'' \<in> set assertion then verifyBrowserID assertion
            else case verifyJWT J now assertion audience issuer keys of Inl _ \<Rightarrow> None | Inr c \<Rightarrow> Some c) of
        None \<Rightarrow> None
      | Some c \<Rightarrow> if claims_valid c then Some c else None)"

end
