(* ===== verification/Auth_Devices.thy ===== *)
theory Auth_Devices
  imports Auth_Codes
begin

text \<open>
  The devices of a user: \<open>device.ts\<close> with its stored procedures, the methods of \<open>lib/db/index.js\<close> that register
  them and \<open>isSpuriousUpdate\<close> of \<open>lib/devices.js\<close>, which lets a request pass without a write when it changes
  nothing. The commands of a device are a list of names and data.
\<close>

section \<open>Rows\<close>

definition device_clash :: "device_row \<Rightarrow> device_row \<Rightarrow> bool" where
  "device_clash x y \<longleftrightarrow> de_uid x = de_uid y \<and>
     (de_id x = de_id y \<or>
      (de_sessionTokenId x \<noteq> None \<and> de_sessionTokenId x = de_sessionTokenId y) \<or>
      (de_refreshTokenId x \<noteq> None \<and> de_refreshTokenId x = de_refreshTokenId y))"

definition upsertAvailableCommand :: "string \<Rightarrow> string \<Rightarrow> string \<times> string \<Rightarrow> command_row list \<Rightarrow> command_row list" where
  "upsertAvailableCommand uid deviceId c rows =
     (let P = (\<lambda>r. co_uid r = uid \<and> co_deviceId r = deviceId \<and> co_commandName r = fst c)
      in if list_ex P rows then update_rows P (\<lambda>r. r\<lparr> co_commandData := snd c \<rparr>) rows
         else rows @ [\<lparr> co_uid = uid, co_deviceId = deviceId, co_commandName = fst c, co_commandData = snd c \<rparr>])"

text \<open>\<open>Device.create\<close>, a transaction.\<close>

definition Device_create :: "device_row \<Rightarrow> (string \<times> string) list option \<Rightarrow> auth_db \<Rightarrow> auth_error + auth_db" where
  "Device_create d availableCommands db =
     and_then (unique_row device_clash (d\<lparr> de_callbackIsExpired := False \<rparr>) (devices db)) (\<lambda>ds.
     Inr (db\<lparr> devices := ds,
              deviceCommands := (case availableCommands of None \<Rightarrow> deviceCommands db
                | Some cs \<Rightarrow> fold (upsertAvailableCommand (de_uid d) (de_id d)) cs (deviceCommands db)) \<rparr>))"

record device_update =
  du_id :: string
  du_sessionTokenId :: "string option"
  du_refreshTokenId :: "string option"
  du_name :: "string option"
  du_type :: "string option"
  du_pushCallback :: "string option"
  du_pushPublicKey :: "string option"
  du_pushAuthKey :: "string option"
  du_callbackIsExpired :: bool
  du_availableCommands :: "(string \<times> string) list option"

definition update_device :: "device_update \<Rightarrow> device_row \<Rightarrow> device_row" where
  "update_device u d =
     d\<lparr> de_sessionTokenId := coalesce (truthy_string (du_sessionTokenId u)) (de_sessionTokenId d),
        de_refreshTokenId := coalesce (truthy_string (du_refreshTokenId u)) (de_refreshTokenId d),
        de_nameUtf8 := coalesce (du_name u) (de_nameUtf8 d), de_type := coalesce (du_type u) (de_type d),
        de_callbackURL := coalesce (du_pushCallback u) (de_callbackURL d),
        de_callbackPublicKey := coalesce (du_pushPublicKey u) (de_callbackPublicKey d),
        de_callbackAuthKey := coalesce (du_pushAuthKey u) (de_callbackAuthKey d),
        de_callbackIsExpired := du_callbackIsExpired u \<rparr>"

text \<open>\<open>Device.update\<close>, a transaction; the commands are replaced when there are new ones.\<close>

definition Device_update :: "string \<Rightarrow> device_update \<Rightarrow> auth_db \<Rightarrow> auth_error + auth_db" where
  "Device_update uid u db =
     (case find (\<lambda>d. de_uid d = uid \<and> de_id d = du_id u) (devices db) of None \<Rightarrow> Inl NotFoundRow
      | Some d \<Rightarrow>
          let d' = update_device u d
          in if list_ex (\<lambda>x. de_id x \<noteq> de_id d \<and> device_clash d' x) (devices db) then Inl DuplicateRow
             else Inr (db\<lparr>
               devices := update_rows (\<lambda>x. de_uid x = uid \<and> de_id x = du_id u) (update_device u) (devices db),
               deviceCommands := (case du_availableCommands u of None \<Rightarrow> deviceCommands db
                 | Some cs \<Rightarrow> fold (upsertAvailableCommand uid (du_id u)) cs
                     (filter (\<lambda>c. \<not> (co_uid c = uid \<and> co_deviceId c = du_id u)) (deviceCommands db))) \<rparr>))"

text \<open>\<open>deleteDevice_4\<close> deletes the session of the device as well; the result are the ids it had.\<close>

definition deleteDevice :: "string \<Rightarrow> string \<Rightarrow> auth_db \<Rightarrow> auth_error + (string option \<times> string option) \<times> auth_db" where
  "deleteDevice uid deviceId db =
     (case find (\<lambda>d. de_uid d = uid \<and> de_id d = deviceId) (devices db) of None \<Rightarrow> Inl UnknownDevice
      | Some d \<Rightarrow>
          let gone = (\<lambda>i. de_sessionTokenId d = Some i \<and> list_ex (\<lambda>s. se_tokenId s = i) (sessionTokens db));
              db' = delete_devices (\<lambda>x. de_uid x = uid \<and> de_id x = deviceId) db
          in Inr ((de_sessionTokenId d, de_refreshTokenId d),
               db'\<lparr> sessionTokens := filter (\<lambda>s. \<not> gone (se_tokenId s)) (sessionTokens db'),
                    unverifiedTokens := filter (\<lambda>v. \<not> gone (un_tokenId v)) (unverifiedTokens db') \<rparr>))"

section \<open>Registering a device\<close>

text \<open>\<open>accountDevices_17\<close>: devices without a session or a refresh token are not listed.\<close>

definition accountDevices :: "string \<Rightarrow> auth_db \<Rightarrow> device_row list" where
  "accountDevices uid db =
     map (\<lambda>d. case de_sessionTokenId d of None \<Rightarrow> d
          | Some i \<Rightarrow> if list_ex (\<lambda>s. se_tokenId s = i) (sessionTokens db) then d
                      else d\<lparr> de_sessionTokenId := None \<rparr>)
       (filter (\<lambda>d. de_uid d = uid \<and>
            (de_refreshTokenId d \<noteq> None \<or>
             (case de_sessionTokenId d of None \<Rightarrow> False
              | Some i \<Rightarrow> list_ex (\<lambda>s. se_tokenId s = i) (sessionTokens db)))) (devices db))"

text \<open>The device of the user that has the session or the refresh token already: the last of the list.\<close>

definition conflictingDevice :: "string option \<Rightarrow> string option \<Rightarrow> device_row list \<Rightarrow> string option" where
  "conflictingDevice sessionTokenId refreshTokenId ds =
     fold (\<lambda>d c. if (truthy_string sessionTokenId \<noteq> None \<and> de_sessionTokenId d = sessionTokenId) \<or>
                    (truthy_string refreshTokenId \<noteq> None \<and> de_refreshTokenId d = refreshTokenId)
                 then Some (de_id d) else c) ds None"

text \<open>\<open>DB.createDevice\<close> generates another id when a listed device has the one it tried.\<close>

fun createDevice ::
  "int \<Rightarrow> string list \<Rightarrow> device_row \<Rightarrow> (string \<times> string) list option \<Rightarrow> auth_db \<Rightarrow>
     (auth_error + device_row \<times> auth_db) option" where
  "createDevice now [] d cs db = None"
| "createDevice now (i # ids) d cs db =
     (let d = d\<lparr> de_id := i, de_createdAt := Some now \<rparr>
      in case Device_create d cs db of
           Inr db' \<Rightarrow> Some (Inr (d\<lparr> de_callbackIsExpired := False \<rparr>, db'))
         | Inl e \<Rightarrow>
             if e = DuplicateRow
             then if list_ex (\<lambda>x. de_id x = i) (accountDevices (de_uid d) db) then createDevice now ids d cs db
                  else Some (Inl (DeviceSessionConflict
                    (conflictingDevice (de_sessionTokenId d) (de_refreshTokenId d) (accountDevices (de_uid d) db))))
             else Some (Inl e))"

definition updateDevice :: "string \<Rightarrow> device_update \<Rightarrow> auth_db \<Rightarrow> auth_error + auth_db" where
  "updateDevice uid u db =
     (case Device_update uid u db of
        Inr db' \<Rightarrow> Inr db'
      | Inl e \<Rightarrow>
          Inl (if e = NotFoundRow then UnknownDevice
               else if e = DuplicateRow
               then DeviceSessionConflict (map_option de_id
                 (find (\<lambda>d. de_sessionTokenId d = du_sessionTokenId u) (accountDevices uid db)))
               else e))"

section \<open>Spurious updates\<close>

text \<open>The properties of the credentials that \<open>isSpuriousUpdate\<close> reads.\<close>

record device_view =
  dv_deviceId :: "string option"
  dv_deviceName :: "string option"
  dv_deviceType :: "string option"
  dv_deviceCallbackURL :: "string option"
  dv_deviceCallbackPublicKey :: "string option"
  dv_deviceAvailableCommands :: "(string \<times> string) list option"

text \<open>A session token has \<open>callbackURL\<close> and \<open>callbackPublicKey\<close>, and no commands at all.\<close>

definition session_view :: "session_token \<Rightarrow> device_view" where
  "session_view t =
     \<lparr> dv_deviceId = di_deviceId (st_device t), dv_deviceName = di_deviceName (st_device t),
       dv_deviceType = di_deviceType (st_device t), dv_deviceCallbackURL = None,
       dv_deviceCallbackPublicKey = None, dv_deviceAvailableCommands = None \<rparr>"

text \<open>
  The credentials of a refresh token, \<open>routes/auth-schemes/refresh-token.js\<close>: they read \<open>callbackURL\<close> and
  \<open>callbackPublicKey\<close> of a device that \<open>db.devices\<close> lists, where \<open>mergeDeviceAndSessionToken\<close> has named them
  \<open>pushCallback\<close> and \<open>pushPublicKey\<close>.
\<close>

definition refresh_view :: "device_row \<Rightarrow> (string \<times> string) list \<Rightarrow> device_view" where
  "refresh_view d availableCommands =
     \<lparr> dv_deviceId = Some (de_id d), dv_deviceName = de_nameUtf8 d, dv_deviceType = de_type d,
       dv_deviceCallbackURL = None, dv_deviceCallbackPublicKey = None,
       dv_deviceAvailableCommands = Some availableCommands \<rparr>"

definition isLike :: "(string \<times> string) list \<Rightarrow> (string \<times> string) list \<Rightarrow> bool" where
  "isLike object archetype = list_all (\<lambda>(key, value). map_of object key = Some value) archetype"

definition isSpuriousUpdate :: "device_update \<Rightarrow> device_view \<Rightarrow> bool" where
  "isSpuriousUpdate payload token =
     (if truthy_string (dv_deviceId token) = None \<or> Some (du_id payload) \<noteq> dv_deviceId token then False
      else if truthy_string (du_name payload) \<noteq> None \<and> du_name payload \<noteq> dv_deviceName token then False
      else if truthy_string (du_type payload) \<noteq> None \<and> du_type payload \<noteq> dv_deviceType token then False
      else if truthy_string (du_pushCallback payload) \<noteq> None \<and> du_pushCallback payload \<noteq> dv_deviceCallbackURL token
      then False
      else if truthy_string (du_pushPublicKey payload) \<noteq> None \<and>
              du_pushPublicKey payload \<noteq> dv_deviceCallbackPublicKey token then False
      else case du_availableCommands payload of None \<Rightarrow> True
           | Some cs \<Rightarrow>
               (case dv_deviceAvailableCommands token of None \<Rightarrow> False
                | Some ts \<Rightarrow> isLike ts cs \<and> isLike cs ts))"

end
