(* ===== verification/Auth_Laws.thy ===== *)
theory Auth_Laws
  imports Auth_Routes Auth_Devices
begin

text \<open>
  The tables of the auth server stay well-formed: every key of a table is unique, a user has at most one
  primary email, every email is in lower case and belongs to an account, and the mark of an unverified
  token belongs to the user of the token. This is an invariant of every operation, for every sequence of them.
\<close>

section \<open>Rows\<close>

named_theorems rows

lemma row_inserted: "unique_row clash r xs = Inr ys \<longleftrightarrow> (\<forall>x \<in> set xs. \<not> clash r x) \<and> ys = xs @ [r]"
  by (auto simp: unique_row_def list_ex_iff)

lemma instead_Inr: "instead e e' r = Inr x \<longleftrightarrow> r = Inr x"
  by (cases r) (simp_all add: instead_def)

lemma set_others [rows]: "set (others key u xs) = {x \<in> set xs. key x \<noteq> u}"
  by (auto simp: others_def)

lemma map_update_rows [rows]:
  "(\<And>r. P r \<Longrightarrow> key (f r) = key r) \<Longrightarrow> map key (update_rows P f xs) = map key xs"
  by (induction xs) (simp_all add: update_rows_def)

lemma set_update_rows: "set (update_rows P f xs) = (\<lambda>r. if P r then f r else r) ` set xs"
  by (simp add: update_rows_def)

lemma image_update_rows:
  "(\<And>r. P r \<Longrightarrow> key (f r) = key r) \<Longrightarrow> key ` set (update_rows P f xs) = key ` set xs"
  by (metis map_update_rows set_map)

lemma distinct_filtered: "distinct (map key xs) \<Longrightarrow> distinct (map key (filter P xs))"
  by (rule distinct_map_filter)

lemma distinct_sub_filter:
  "distinct (map key (filter P xs)) \<Longrightarrow> distinct (map key (filter (\<lambda>x. Q x \<and> P x) xs))"
  using distinct_map_filter [of key "filter P xs" Q] by (simp add: conj_commute)

lemma distinct_others [rows]: "distinct (map key xs) \<Longrightarrow> distinct (map key (others k u xs))"
  by (simp add: others_def distinct_map_filter)

lemma distinct_add:
  "(\<forall>x \<in> set xs. \<not> clash r x) \<Longrightarrow> (\<And>x. key r = key x \<Longrightarrow> clash r x) \<Longrightarrow> distinct (map key xs) \<Longrightarrow>
    distinct (map key (xs @ [r]))"
  by auto

lemma distinct_replace:
  "(\<And>x. key r = key x \<Longrightarrow> clash r x) \<Longrightarrow> distinct (map key xs) \<Longrightarrow> distinct (map key (replace_row clash r xs))"
  by (auto simp: replace_row_def distinct_map_filter)

lemma find_distinct:
  "distinct (map key xs) \<Longrightarrow> x \<in> set xs \<Longrightarrow> key x = k \<Longrightarrow> find (\<lambda>x. key x = k) xs = Some x"
  by (induction xs) auto

lemma find_None: "find P xs = None \<longleftrightarrow> (\<forall>x \<in> set xs. \<not> P x)"
  by (auto simp: find_None_iff)

lemma find_SomeD: "find P xs = Some x \<Longrightarrow> x \<in> set xs \<and> P x"
  by (auto simp: find_Some_iff)

lemma delete_devices_simps [simp]:
  "accounts (delete_devices P db) = accounts db" "emails (delete_devices P db) = emails db"
  "sessionTokens (delete_devices P db) = sessionTokens db"
  "unverifiedTokens (delete_devices P db) = unverifiedTokens db"
  "keyFetchTokens (delete_devices P db) = keyFetchTokens db"
  "passwordForgotTokens (delete_devices P db) = passwordForgotTokens db"
  "passwordChangeTokens (delete_devices P db) = passwordChangeTokens db"
  "accountResetTokens (delete_devices P db) = accountResetTokens db"
  "devices (delete_devices P db) = filter (\<lambda>d. \<not> P d) (devices db)"
  "recoveryKeys (delete_devices P db) = recoveryKeys db" "recoveryCodes (delete_devices P db) = recoveryCodes db"
  "unblockCodes (delete_devices P db) = unblockCodes db" "signinCodes (delete_devices P db) = signinCodes db"
  "totp (delete_devices P db) = totp db" "securityEvents (delete_devices P db) = securityEvents db"
  "linkedAccounts (delete_devices P db) = linkedAccounts db" "sentEmails (delete_devices P db) = sentEmails db"
  by (simp_all add: delete_devices_def)

section \<open>Well-formed tables\<close>

definition keys_ok :: "auth_db \<Rightarrow> bool" where
  "keys_ok db \<longleftrightarrow>
     distinct (map ac_uid (accounts db)) \<and> distinct (map em_normalizedEmail (emails db)) \<and>
     distinct (map se_tokenId (sessionTokens db)) \<and> distinct (map un_tokenId (unverifiedTokens db)) \<and>
     distinct (map kr_tokenId (keyFetchTokens db)) \<and> distinct (map fr_tokenId (passwordForgotTokens db)) \<and>
     distinct (map fr_uid (passwordForgotTokens db)) \<and> distinct (map fl_tokenId (accountResetTokens db)) \<and>
     distinct (map fl_uid (accountResetTokens db)) \<and> distinct (map fl_tokenId (passwordChangeTokens db)) \<and>
     distinct (map fl_uid (passwordChangeTokens db)) \<and>
     distinct (map (\<lambda>d. (de_uid d, de_id d)) (devices db)) \<and>
     distinct (map to_uid (totp db)) \<and> distinct (map rk_uid (recoveryKeys db))"

definition emails_ok :: "auth_db \<Rightarrow> bool" where
  "emails_ok db \<longleftrightarrow> distinct (map em_uid (filter em_isPrimary (emails db))) \<and>
     em_uid ` set (emails db) \<subseteq> ac_uid ` set (accounts db) \<and>
     (\<forall>n \<in> em_normalizedEmail ` set (emails db). toLowerCase n = n)"

definition marks_ok :: "auth_db \<Rightarrow> bool" where
  "marks_ok db \<longleftrightarrow>
     (\<forall>u \<in> set (unverifiedTokens db).
        (\<forall>s \<in> set (sessionTokens db). un_tokenId u = se_tokenId s \<longrightarrow> un_uid u = se_uid s) \<and>
        (\<forall>k \<in> set (keyFetchTokens db). un_tokenId u = kr_tokenId k \<longrightarrow> un_uid u = kr_uid k))"

definition auth_ok :: "auth_db \<Rightarrow> bool" where
  "auth_ok db \<longleftrightarrow> keys_ok db \<and> emails_ok db \<and> marks_ok db"

lemmas auth_ok_defs = auth_ok_def keys_ok_def emails_ok_def marks_ok_def

definition no_tables :: auth_db where
  "no_tables = \<lparr> accounts = [], emails = [], sessionTokens = [], unverifiedTokens = [], keyFetchTokens = [],
     passwordForgotTokens = [], passwordChangeTokens = [], accountResetTokens = [], devices = [],
     deviceCommands = [], recoveryKeys = [], recoveryCodes = [], unblockCodes = [], signinCodes = [], totp = [],
     securityEvents = [], linkedAccounts = [], sentEmails = [] \<rparr>"

lemma ok_empty: "auth_ok no_tables"
  by (simp add: auth_ok_defs no_tables_def)

section \<open>Accounts\<close>

lemma createAccount_9_Inr:
  "createAccount_9 a db = Inr db' \<longleftrightarrow>
    (\<forall>e \<in> set (emails db). em_normalizedEmail e \<noteq> ac_normalizedEmail a \<and>
       em_normalizedEmail e \<noteq> toLowerCase (ac_normalizedEmail a)) \<and>
    (\<forall>x \<in> set (accounts db). ac_uid x \<noteq> ac_uid a \<and> ac_normalizedEmail x \<noteq> toLowerCase (ac_normalizedEmail a)) \<and>
    db' = db\<lparr> accounts := accounts db @ [a\<lparr> ac_normalizedEmail := toLowerCase (ac_normalizedEmail a),
        ac_lockedAt := None, ac_disabledAt := None, ac_profileChangedAt := None, ac_keysChangedAt := None,
        ac_metricsOptOutAt := None \<rparr>],
      emails := emails db @ [\<lparr> em_normalizedEmail = toLowerCase (ac_normalizedEmail a), em_email = ac_email a,
        em_uid = ac_uid a, em_emailCode = ac_emailCode a, em_isVerified = ac_emailVerified a,
        em_isPrimary = True, em_verifiedAt = None, em_createdAt = ac_createdAt a \<rparr>] \<rparr>"
  by (auto simp: createAccount_9_def Let_def and_then_Inr row_inserted list_ex_iff)

lemma ok_createAccount:
  assumes "auth_ok db" "createAccount now setAt a db = Inr db'"
  shows "auth_ok db'"
  using assms
  by (auto simp: createAccount_def instead_Inr createAccount_9_Inr auth_ok_defs)

lemma ok_deleteAccount: "auth_ok db \<Longrightarrow> auth_ok (deleteAccount u db)"
  by (auto simp: deleteAccount_def Let_def auth_ok_defs rows distinct_map_filter distinct_sub_filter others_def)

lemma ok_resetAccount: "auth_ok db \<Longrightarrow> auth_ok (resetAccount now u d db)"
  by (auto simp: resetAccount_def Let_def auth_ok_defs rows distinct_map_filter image_update_rows)

lemma ok_resetAccountTokens: "auth_ok db \<Longrightarrow> auth_ok (resetAccountTokens u db)"
  by (auto simp: resetAccountTokens_def auth_ok_defs rows)

lemma ok_createPassword: "auth_ok db \<Longrightarrow> auth_ok (createPassword now u s h w v db)"
  by (auto simp: createPassword_def auth_ok_defs rows image_update_rows)

section \<open>Tokens\<close>

text \<open>The id of a new token is random: no mark and no token has it.\<close>

definition fresh_token :: "string \<Rightarrow> auth_db \<Rightarrow> bool" where
  "fresh_token i db \<longleftrightarrow> i \<notin> un_tokenId ` set (unverifiedTokens db) \<and> i \<notin> se_tokenId ` set (sessionTokens db) \<and>
     i \<notin> kr_tokenId ` set (keyFetchTokens db)"

lemma fresh_tokenD:
  assumes "fresh_token i db"
  shows "\<forall>m \<in> set (unverifiedTokens db). un_tokenId m \<noteq> i" "\<forall>s \<in> set (sessionTokens db). se_tokenId s \<noteq> i"
    "\<forall>k \<in> set (keyFetchTokens db). kr_tokenId k \<noteq> i"
  using assms by (auto simp: fresh_token_def image_iff)

lemma ok_add_session:
  assumes "auth_ok db" "fresh_token (se_tokenId s) db"
    "\<And>m. m \<in> set ms \<Longrightarrow> un_tokenId m = se_tokenId s \<and> un_uid m = se_uid s" "length ms \<le> 1"
  shows "auth_ok (db\<lparr> sessionTokens := sessionTokens db @ [s], unverifiedTokens := unverifiedTokens db @ ms \<rparr>)"
    (is "auth_ok ?db")
proof -
  note f = fresh_tokenD [OF assms(2)]
  have k: "keys_ok db" "emails_ok db" "marks_ok db" using assms(1) by (simp_all add: auth_ok_def)
  have "ms = [] \<or> (\<exists>m. ms = [m])" using assms(4) by (cases ms) auto
  then have "distinct (map un_tokenId (unverifiedTokens db @ ms))"
    using k(1) assms(2,3) by (elim disjE exE) (simp_all add: keys_ok_def fresh_token_def)
  then have "keys_ok ?db" using k(1) assms(2) by (simp add: keys_ok_def fresh_token_def)
  moreover have "emails_ok ?db" using k(2) by (simp add: emails_ok_def)
  moreover have "marks_ok ?db" using k(3) assms(3) f by (auto simp: marks_ok_def)
  ultimately show ?thesis by (simp add: auth_ok_def)
qed

lemma ok_add_key_fetch:
  assumes "auth_ok db" "fresh_token (kr_tokenId k) db"
    "\<And>m. m \<in> set ms \<Longrightarrow> un_tokenId m = kr_tokenId k \<and> un_uid m = kr_uid k" "length ms \<le> 1"
  shows "auth_ok (db\<lparr> keyFetchTokens := keyFetchTokens db @ [k], unverifiedTokens := unverifiedTokens db @ ms \<rparr>)"
    (is "auth_ok ?db")
proof -
  note f = fresh_tokenD [OF assms(2)]
  have k: "keys_ok db" "emails_ok db" "marks_ok db" using assms(1) by (simp_all add: auth_ok_def)
  have "ms = [] \<or> (\<exists>m. ms = [m])" using assms(4) by (cases ms) auto
  then have "distinct (map un_tokenId (unverifiedTokens db @ ms))"
    using k(1) assms(2,3) by (elim disjE exE) (simp_all add: keys_ok_def fresh_token_def)
  then have "keys_ok ?db" using k(1) assms(2) by (simp add: keys_ok_def fresh_token_def)
  moreover have "emails_ok ?db" using k(2) by (simp add: emails_ok_def)
  moreover have "marks_ok ?db" using k(3) assms(3) f by (auto simp: marks_ok_def)
  ultimately show ?thesis by (simp add: auth_ok_def)
qed

lemma createSessionToken_9_Inr:
  "createSessionToken_9 i d u c ua v m db = Inr db' \<longleftrightarrow>
    i \<notin> se_tokenId ` set (sessionTokens db) \<and> (v \<noteq> None \<longrightarrow> i \<notin> un_tokenId ` set (unverifiedTokens db)) \<and>
    db' = db\<lparr> sessionTokens := sessionTokens db @ [\<lparr> se_tokenId = i, se_tokenData = d, se_uid = u,
        se_createdAt = c, se_ua = ua, se_lastAccessTime = c, se_authAt = None, se_verificationMethod = None,
        se_verifiedAt = None, se_mustVerify = Some m \<rparr>],
      unverifiedTokens := unverifiedTokens db @ (case v of None \<Rightarrow> []
        | Some v \<Rightarrow> [\<lparr> un_tokenId = i, un_tokenVerificationId = v, un_uid = u, un_mustVerify = m \<rparr>]) \<rparr>"
  by (cases v) (auto simp: createSessionToken_9_def Let_def and_then_Inr row_inserted)

lemma createSessionToken_Inr:
  "createSessionToken C cfg now bytes d db = Inr (t, db') \<longleftrightarrow>
    t = SessionToken_create C cfg now bytes d \<and>
    (\<exists>u. tk_uid t = Some u \<and> createSessionToken_9 (tk_id t) (the (tk_data t)) u (tk_createdAt t) (st_ua t)
       (st_tokenVerificationId t) (st_mustVerify t) db = Inr db')"
  by (auto simp: createSessionToken_def Let_def and_then_Inr split: option.splits)

lemma ok_createSessionToken:
  assumes "auth_ok db" "createSessionToken C cfg now bytes d db = Inr (t, db')" "fresh_token (tk_id t) db"
  shows "auth_ok db'"
proof -
  obtain u where "createSessionToken_9 (tk_id t) (the (tk_data t)) u (tk_createdAt t) (st_ua t)
      (st_tokenVerificationId t) (st_mustVerify t) db = Inr db'"
    using assms(2) by (auto simp: createSessionToken_Inr)
  then show ?thesis
    using assms(1,3) by (auto simp: createSessionToken_9_Inr split: option.splits 
        intro!: ok_add_session ok_add_session [where ms = "[]", simplified])
qed

lemma ok_updateSessionToken: "auth_ok db \<Longrightarrow> auth_ok (updateSessionToken now t db)"
  by (auto simp: updateSessionToken_def Let_def auth_ok_defs rows set_update_rows split: if_splits)

lemma ok_verifyToken_3: "auth_ok db \<Longrightarrow> auth_ok (verifyToken_3 v u db)"
  by (auto simp: verifyToken_3_def auth_ok_defs distinct_map_filter)

lemma ok_verifyTokens: "auth_ok db \<Longrightarrow> verifyTokens v u db = Inr db' \<Longrightarrow> auth_ok db'"
  by (auto simp: verifyTokens_def ok_verifyToken_3 split: if_splits)

lemma ok_session_rows:
  assumes "auth_ok db" "\<And>r. P r \<Longrightarrow> se_tokenId (f r) = se_tokenId r \<and> se_uid (f r) = se_uid r"
  shows "auth_ok (db\<lparr> sessionTokens := update_rows P f (sessionTokens db) \<rparr>)"
  using assms by (auto simp: auth_ok_defs rows set_update_rows)

lemma verifyTokensWithMethod_Inr:
  "verifyTokensWithMethod now i m db = Inr db' \<longleftrightarrow>
    (\<exists>s. find (\<lambda>s. se_tokenId s = i) (sessionTokens db) = Some s \<and>
      db' = (let db1 = db\<lparr> sessionTokens := update_rows (\<lambda>s. se_tokenId s = i)
               (\<lambda>s. s\<lparr> se_verificationMethod := m, se_verifiedAt := Some now \<rparr>) (sessionTokens db) \<rparr>
             in case find (\<lambda>u. un_tokenId u = i) (unverifiedTokens db) of None \<Rightarrow> db1
                | Some u \<Rightarrow> verifyToken_3 (un_tokenVerificationId u) (se_uid s) db1))"
  by (auto simp: verifyTokensWithMethod_def Let_def split: option.splits)

lemma ok_verifyTokensWithMethod:
  assumes "auth_ok db" "verifyTokensWithMethod now i m db = Inr db'"
  shows "auth_ok db'"
  using assms ok_session_rows [OF assms(1), of "\<lambda>s. se_tokenId s = i"
      "\<lambda>s. s\<lparr> se_verificationMethod := m, se_verifiedAt := Some now \<rparr>"]
  by (auto simp: verifyTokensWithMethod_Inr Let_def ok_verifyToken_3 split: option.splits)

lemma ok_deleteSessionToken: "auth_ok db \<Longrightarrow> auth_ok (deleteSessionToken i db)"
  by (auto simp: deleteSessionToken_def Let_def auth_ok_defs distinct_map_filter split: option.splits)

lemma createKeyFetchToken_2_Inr:
  "createKeyFetchToken_2 r v db = Inr db' \<longleftrightarrow>
    kr_tokenId r \<notin> kr_tokenId ` set (keyFetchTokens db) \<and>
    (v \<noteq> None \<longrightarrow> kr_tokenId r \<notin> un_tokenId ` set (unverifiedTokens db)) \<and>
    db' = db\<lparr> keyFetchTokens := keyFetchTokens db @ [r],
      unverifiedTokens := unverifiedTokens db @ (case v of None \<Rightarrow> []
        | Some v \<Rightarrow> [\<lparr> un_tokenId = kr_tokenId r, un_tokenVerificationId = v, un_uid = kr_uid r,
            un_mustVerify = True \<rparr>]) \<rparr>"
  by (cases v) (auto simp: createKeyFetchToken_2_def and_then_Inr row_inserted)

lemma createKeyFetchToken_Inr:
  "createKeyFetchToken C now bytes u kA wrapKb ev v db = Inr (t, db') \<longleftrightarrow>
    KeyFetchToken_create C now bytes u kA wrapKb ev v = Inr t \<and>
    createKeyFetchToken_2 \<lparr> kr_tokenId = tk_id t, kr_authKey = tk_authKey t, kr_uid = u,
      kr_keyBundle = the (kf_keyBundle t), kr_createdAt = tk_createdAt t \<rparr> (kf_tokenVerificationId t) db = Inr db'"
  by (auto simp: createKeyFetchToken_def and_then_Inr)

lemma ok_createKeyFetchToken:
  assumes "auth_ok db" "createKeyFetchToken C now bytes u kA wrapKb ev v db = Inr (t, db')"
    "fresh_token (tk_id t) db"
  shows "auth_ok db'"
  using assms
  by (auto simp: createKeyFetchToken_Inr createKeyFetchToken_2_Inr split: option.splits 
      intro!: ok_add_key_fetch ok_add_key_fetch [where ms = "[]", simplified])

lemma ok_deleteKeyFetchToken: "auth_ok db \<Longrightarrow> auth_ok (deleteKeyFetchToken i db)"
  by (auto simp: deleteKeyFetchToken_def auth_ok_defs distinct_map_filter)

lemma ok_createPasswordForgotToken:
  "auth_ok db \<Longrightarrow> auth_ok (snd (createPasswordForgotToken C cfg now bytes p u e db))"
  by (auto simp: createPasswordForgotToken_def Let_def auth_ok_defs intro!: distinct_replace)

lemma ok_updatePasswordForgotToken: "auth_ok db \<Longrightarrow> auth_ok (updatePasswordForgotToken t db)"
  by (auto simp: updatePasswordForgotToken_def auth_ok_defs rows)

lemma ok_deletePasswordForgotToken: "auth_ok db \<Longrightarrow> auth_ok (deletePasswordForgotToken i db)"
  by (auto simp: deletePasswordForgotToken_def auth_ok_defs distinct_map_filter)

lemma filter_update_rows:
  "(\<And>r. P r \<Longrightarrow> Q (f r) = Q r) \<Longrightarrow> filter Q (update_rows P f xs) = update_rows P f (filter Q xs)"
  by (induction xs) (simp_all add: update_rows_def)

lemma ok_forgotPasswordVerified:
  "auth_ok db \<Longrightarrow> auth_ok (snd (forgotPasswordVerified C cfg now bytes i u db))"
  by (auto simp: forgotPasswordVerified_def Let_def auth_ok_defs distinct_map_filter rows
      image_update_rows filter_update_rows intro!: distinct_replace)

lemma ok_createPasswordChangeToken: "auth_ok db \<Longrightarrow> auth_ok (snd (createPasswordChangeToken C cfg now bytes u db))"
  by (auto simp: createPasswordChangeToken_def Let_def auth_ok_defs intro!: distinct_replace)

lemma ok_deletePasswordChangeToken: "auth_ok db \<Longrightarrow> auth_ok (deletePasswordChangeToken i db)"
  by (auto simp: deletePasswordChangeToken_def auth_ok_defs distinct_map_filter)

section \<open>Other credentials\<close>

lemma ok_touch_profile: "auth_ok db \<Longrightarrow> auth_ok (touch_profile now u db)"
  by (auto simp: touch_profile_def auth_ok_defs rows image_update_rows)

lemma ok_createEmail:
  assumes "auth_ok db" "createEmail now u n e c v va db = Inr db'" "find_account u db \<noteq> None"
  shows "auth_ok db'"
proof -
  have "u \<in> ac_uid ` set (accounts db)"
    using assms(3) by (auto simp: find_account_def dest!: find_SomeD)
  then show ?thesis
    using assms(1,2) by (simp add: createEmail_def instead_Inr and_then_Inr row_inserted auth_ok_defs) fastforce
qed

lemma ok_verifyEmail: "auth_ok db \<Longrightarrow> auth_ok (verifyEmail now u c db)"
  unfolding verifyEmail_def
  by (rule ok_touch_profile) (auto simp: auth_ok_defs rows image_update_rows filter_update_rows)

lemma ok_filter_emails: "auth_ok db \<Longrightarrow> auth_ok (db\<lparr> emails := filter P (emails db) \<rparr>)"
  by (auto simp: auth_ok_defs distinct_map_filter distinct_sub_filter)

lemma ok_deleteEmail: "auth_ok db \<Longrightarrow> deleteEmail now u e db = Inr db' \<Longrightarrow> auth_ok db'"
  unfolding deleteEmail_def by (simp split: if_splits) (blast intro: ok_touch_profile ok_filter_emails)

text \<open>What \<open>setPrimaryEmail\<close> writes when it writes: of the emails of the user the named one, if there is
  one, is primary.\<close>

definition with_primary :: "string \<Rightarrow> string \<Rightarrow> email_row \<Rightarrow> email_row" where
  "with_primary u n e = (if em_uid e = u then e\<lparr> em_isPrimary := (em_normalizedEmail e = n) \<rparr> else e)"

lemma setPrimaryEmail_rows:
  "update_rows (\<lambda>e. em_uid e = u \<and> \<not> em_isPrimary e \<and> em_normalizedEmail e = n) (\<lambda>e. e\<lparr> em_isPrimary := True \<rparr>)
     (update_rows (\<lambda>e. em_uid e = u \<and> em_isPrimary e) (\<lambda>e. e\<lparr> em_isPrimary := False \<rparr>) es) =
   map (with_primary u n) es"
  by (induction es) (auto simp: update_rows_def with_primary_def)

lemma with_primary_simps [simp]:
  "em_uid (with_primary u n e) = em_uid e" "em_normalizedEmail (with_primary u n e) = em_normalizedEmail e"
  "em_isPrimary (with_primary u n e) = (if em_uid e = u then em_normalizedEmail e = n else em_isPrimary e)"
  by (simp_all add: with_primary_def)

lemma distinct_with_primary:
  assumes "distinct (map em_normalizedEmail es)" "distinct (map em_uid (filter em_isPrimary es))"
  shows "distinct (map em_uid (filter em_isPrimary (map (with_primary u n) es)))"
  using assms
proof (induction es)
  case (Cons e es)
  have "em_uid e \<notin> em_uid ` {x \<in> set (map (with_primary u n) es). em_isPrimary x}"
    if "em_isPrimary (with_primary u n e)"
  proof
    assume "em_uid e \<in> em_uid ` {x \<in> set (map (with_primary u n) es). em_isPrimary x}"
    then obtain y where "y \<in> set es" "em_uid y = em_uid e" "em_isPrimary (with_primary u n y)" by auto
    with that Cons.prems show False by (auto simp: image_iff split: if_splits)
  qed
  with Cons show ?case by (auto split: if_splits)
qed simp

lemma ok_with_primary:
  assumes "auth_ok db"
  shows "auth_ok (db\<lparr> emails := map (with_primary u n) (emails db) \<rparr>)" (is "auth_ok ?db")
proof -
  have k: "keys_ok db" "emails_ok db" "marks_ok db" using assms by (simp_all add: auth_ok_def)
  have "keys_ok ?db" using k(1) by (simp add: keys_ok_def comp_def)
  moreover have "emails_ok ?db"
    using k(1,2) distinct_with_primary unfolding emails_ok_def keys_ok_def by (auto simp: image_image)
  moreover have "marks_ok ?db" using k(3) by (simp add: marks_ok_def)
  ultimately show ?thesis by (simp add: auth_ok_def)
qed

lemma setPrimaryEmail_Inr:
  "snd (setPrimaryEmail now found u n db) = Inr db' \<longleftrightarrow>
    (found \<noteq> None \<or> (\<exists>e \<in> set (emails db). em_uid e = u \<and> em_normalizedEmail e = n \<and> em_isVerified e)) \<and>
    db' = touch_profile now u (db\<lparr> emails := map (with_primary u n) (emails db) \<rparr>)"
proof (cases "find (\<lambda>e. em_uid e = u \<and> em_normalizedEmail e = n \<and> em_isVerified e) (emails db)")
  case None
  then have "\<not> (\<exists>e \<in> set (emails db). em_uid e = u \<and> em_normalizedEmail e = n \<and> em_isVerified e)"
    by (auto simp: find_None)
  with None show ?thesis by (auto simp: setPrimaryEmail_def Let_def setPrimaryEmail_rows)
next
  case (Some e)
  with find_SomeD [OF Some] show ?thesis by (auto simp: setPrimaryEmail_def Let_def setPrimaryEmail_rows)
qed

lemma ok_setPrimaryEmail: "auth_ok db \<Longrightarrow> snd (setPrimaryEmail now found u n db) = Inr db' \<Longrightarrow> auth_ok db'"
  by (simp add: setPrimaryEmail_Inr ok_touch_profile ok_with_primary)

lemma ok_tables:
  "auth_ok db \<Longrightarrow> distinct (map to_uid ts) \<Longrightarrow> auth_ok (db\<lparr> totp := ts \<rparr>)"
  "auth_ok db \<Longrightarrow> distinct (map rk_uid ks) \<Longrightarrow> auth_ok (db\<lparr> recoveryKeys := ks \<rparr>)"
  "auth_ok db \<Longrightarrow> auth_ok (db\<lparr> recoveryCodes := cs \<rparr>)"
  "auth_ok db \<Longrightarrow> auth_ok (db\<lparr> unblockCodes := us \<rparr>)"
  "auth_ok db \<Longrightarrow> auth_ok (db\<lparr> signinCodes := ss \<rparr>)"
  "auth_ok db \<Longrightarrow> auth_ok (db\<lparr> securityEvents := es \<rparr>)"
  by (simp_all add: auth_ok_defs)

lemma ok_keys: "auth_ok db \<Longrightarrow> distinct (map to_uid (totp db)) \<and> distinct (map rk_uid (recoveryKeys db))"
  by (simp add: auth_ok_defs)

lemma ok_createTotpToken: "auth_ok db \<Longrightarrow> createTotpToken now u sec ep db = Inr db' \<Longrightarrow> auth_ok db'"
  using ok_keys by (auto simp: createTotpToken_def instead_Inr and_then_Inr row_inserted intro!: ok_tables(1))

lemma ok_updateTotpToken: "auth_ok db \<Longrightarrow> updateTotpToken now u v en db = Inr db' \<Longrightarrow> auth_ok db'"
  using ok_keys by (auto simp: updateTotpToken_def rows split: if_splits intro!: ok_touch_profile ok_tables(1))

lemma ok_deleteTotpToken: "auth_ok db \<Longrightarrow> auth_ok (deleteTotpToken now u db)"
  using ok_keys by (auto simp: deleteTotpToken_def rows intro!: ok_touch_profile ok_tables(1))

lemma ok_createRecoveryKey: "auth_ok db \<Longrightarrow> createRecoveryKey C now u i d en db = Inr db' \<Longrightarrow> auth_ok db'"
  using ok_keys by (auto simp: createRecoveryKey_def instead_Inr and_then_Inr row_inserted split: if_splits
      intro!: ok_touch_profile ok_tables(2))

lemma ok_updateRecoveryKey: "auth_ok db \<Longrightarrow> updateRecoveryKey C now u i en db = Inr db' \<Longrightarrow> auth_ok db'"
  using ok_keys by (auto simp: updateRecoveryKey_def Let_def rows split: if_splits
      intro!: ok_touch_profile ok_tables(2))

lemma ok_deleteRecoveryKey: "auth_ok db \<Longrightarrow> auth_ok (deleteRecoveryKey u db)"
  using ok_keys by (auto simp: deleteRecoveryKey_def rows intro!: ok_tables(2))

lemma ok_replaceRecoveryCodes: "auth_ok db \<Longrightarrow> replaceRecoveryCodes u hs db = (r, db') \<Longrightarrow> auth_ok db'"
  by (auto simp: replaceRecoveryCodes_def split: if_splits prod.splits intro!: ok_tables)

lemma ok_consumeRecoveryCode: "auth_ok db \<Longrightarrow> consumeRecoveryCode C u c db = Inr (n, db') \<Longrightarrow> auth_ok db'"
  by (auto simp: consumeRecoveryCode_def Let_def split: option.splits intro!: ok_tables)

lemma ok_createUnblockCode: "auth_ok db \<Longrightarrow> createUnblockCode C now u c db = Inr db' \<Longrightarrow> auth_ok db'"
  by (auto simp: createUnblockCode_def and_then_Inr intro!: ok_tables)

lemma ok_consumeUnblockCode: "auth_ok db \<Longrightarrow> auth_ok (snd (consumeUnblockCode C u c db))"
  by (simp add: consumeUnblockCode_def Let_def ok_tables)

lemma ok_createSigninCode: "auth_ok db \<Longrightarrow> createSigninCode C now u c f db = Inr db' \<Longrightarrow> auth_ok db'"
  by (auto simp: createSigninCode_def and_then_Inr intro!: ok_tables)

lemma ok_consumeSigninCode: "auth_ok db \<Longrightarrow> auth_ok (snd (consumeSigninCode C now c db))"
  by (simp add: consumeSigninCode_def Let_def ok_tables)

lemma ok_securityEvent: "auth_ok db \<Longrightarrow> auth_ok (securityEvent now u n h i db)"
  by (simp add: securityEvent_def Let_def ok_tables)

section \<open>Devices\<close>

lemma ok_devices_table:
  "auth_ok db \<Longrightarrow> distinct (map (\<lambda>d. (de_uid d, de_id d)) ds) \<Longrightarrow>
    auth_ok (db\<lparr> devices := ds, deviceCommands := cs \<rparr>) \<and> auth_ok (db\<lparr> devices := ds \<rparr>)"
  by (simp add: auth_ok_defs)

lemma device_keys: "auth_ok db \<Longrightarrow> distinct (map (\<lambda>d. (de_uid d, de_id d)) (devices db))"
  by (simp add: auth_ok_defs)

lemma ok_Device_create:
  assumes "auth_ok db" "Device_create d cs db = Inr db'"
  shows "auth_ok db'"
proof -
  have "\<forall>x \<in> set (devices db). \<not> device_clash (d\<lparr> de_callbackIsExpired := False \<rparr>) x"
    using assms(2) by (auto simp: Device_create_def and_then_Inr row_inserted)
  then have "distinct (map (\<lambda>d. (de_uid d, de_id d)) (devices db @ [d\<lparr> de_callbackIsExpired := False \<rparr>]))"
    by (rule distinct_add) (auto simp: device_clash_def device_keys [OF assms(1)])
  then show ?thesis
    using assms by (auto simp: Device_create_def and_then_Inr row_inserted intro!: ok_devices_table [THEN conjunct1] ok_devices_table [THEN conjunct2])
qed

lemma update_device_key [simp]: "de_uid (update_device u d) = de_uid d" "de_id (update_device u d) = de_id d"
  by (simp_all add: update_device_def)

lemma ok_Device_update: "auth_ok db \<Longrightarrow> Device_update u d db = Inr db' \<Longrightarrow> auth_ok db'"
  using device_keys [of db]
  by (auto simp: Device_update_def Let_def map_update_rows split: option.splits if_splits intro!: ok_devices_table [THEN conjunct1] ok_devices_table [THEN conjunct2])

lemma ok_filter_tokens:
  "auth_ok db \<Longrightarrow> auth_ok (db\<lparr> sessionTokens := filter P (sessionTokens db),
     unverifiedTokens := filter Q (unverifiedTokens db) \<rparr>)"
  by (auto simp: auth_ok_defs distinct_map_filter)

lemma ok_delete_devices: "auth_ok db \<Longrightarrow> auth_ok (delete_devices P db)"
  by (auto simp: auth_ok_defs distinct_map_filter)

lemma ok_deleteDevice: "auth_ok db \<Longrightarrow> deleteDevice u i db = Inr (r, db') \<Longrightarrow> auth_ok db'"
  using ok_filter_tokens [OF ok_delete_devices]
  by (auto simp: deleteDevice_def Let_def split: option.splits)

section \<open>Every sequence of operations\<close>

inductive auth_reached :: "crypto \<Rightarrow> auth_config \<Rightarrow> auth_db \<Rightarrow> bool" for C cfg where
  no_rows: "auth_reached C cfg no_tables"
| new_account: "auth_reached C cfg db \<Longrightarrow> createAccount now setAt a db = Inr db' \<Longrightarrow> auth_reached C cfg db'"
| account_deleted: "auth_reached C cfg db \<Longrightarrow> auth_reached C cfg (deleteAccount u db)"
| account_was_reset: "auth_reached C cfg db \<Longrightarrow> auth_reached C cfg (resetAccount now u d db)"
| tokens_reset: "auth_reached C cfg db \<Longrightarrow> auth_reached C cfg (resetAccountTokens u db)"
| password_created: "auth_reached C cfg db \<Longrightarrow> auth_reached C cfg (createPassword now u salt h w v db)"
| new_session: "auth_reached C cfg db \<Longrightarrow> createSessionToken C cfg now bytes d db = Inr (t, db') \<Longrightarrow>
    fresh_token (tk_id t) db \<Longrightarrow> auth_reached C cfg db'"
| session_updated: "auth_reached C cfg db \<Longrightarrow> auth_reached C cfg (updateSessionToken now t db)"
| tokens_verified: "auth_reached C cfg db \<Longrightarrow> verifyTokens v u db = Inr db' \<Longrightarrow> auth_reached C cfg db'"
| method_verified: "auth_reached C cfg db \<Longrightarrow> verifyTokensWithMethod now i m db = Inr db' \<Longrightarrow> auth_reached C cfg db'"
| session_deleted: "auth_reached C cfg db \<Longrightarrow> auth_reached C cfg (deleteSessionToken i db)"
| new_key_fetch: "auth_reached C cfg db \<Longrightarrow> createKeyFetchToken C now bytes u kA wrapKb ev v db = Inr (k, db') \<Longrightarrow>
    fresh_token (tk_id k) db \<Longrightarrow> auth_reached C cfg db'"
| key_fetch_deleted: "auth_reached C cfg db \<Longrightarrow> auth_reached C cfg (deleteKeyFetchToken i db)"
| new_forgot: "auth_reached C cfg db \<Longrightarrow> auth_reached C cfg (snd (createPasswordForgotToken C cfg now bytes p u e db))"
| forgot_updated: "auth_reached C cfg db \<Longrightarrow> auth_reached C cfg (updatePasswordForgotToken f db)"
| forgot_deleted: "auth_reached C cfg db \<Longrightarrow> auth_reached C cfg (deletePasswordForgotToken i db)"
| forgot_verified: "auth_reached C cfg db \<Longrightarrow> auth_reached C cfg (snd (forgotPasswordVerified C cfg now bytes i u db))"
| new_change: "auth_reached C cfg db \<Longrightarrow> auth_reached C cfg (snd (createPasswordChangeToken C cfg now bytes u db))"
| change_deleted: "auth_reached C cfg db \<Longrightarrow> auth_reached C cfg (deletePasswordChangeToken i db)"
| new_email: "auth_reached C cfg db \<Longrightarrow> createEmail now u n e c v va db = Inr db' \<Longrightarrow> find_account u db \<noteq> None \<Longrightarrow>
    auth_reached C cfg db'"
| email_verified: "auth_reached C cfg db \<Longrightarrow> auth_reached C cfg (verifyEmail now u c db)"
| email_deleted: "auth_reached C cfg db \<Longrightarrow> deleteEmail now u e db = Inr db' \<Longrightarrow> auth_reached C cfg db'"
| primary_set: "auth_reached C cfg db \<Longrightarrow> snd (setPrimaryEmail now found u n db) = Inr db' \<Longrightarrow> auth_reached C cfg db'"
| totp_created: "auth_reached C cfg db \<Longrightarrow> createTotpToken now u sec ep db = Inr db' \<Longrightarrow> auth_reached C cfg db'"
| totp_updated: "auth_reached C cfg db \<Longrightarrow> updateTotpToken now u v en db = Inr db' \<Longrightarrow> auth_reached C cfg db'"
| totp_deleted: "auth_reached C cfg db \<Longrightarrow> auth_reached C cfg (deleteTotpToken now u db)"
| recovery_key_created: "auth_reached C cfg db \<Longrightarrow> createRecoveryKey C now u i d en db = Inr db' \<Longrightarrow> auth_reached C cfg db'"
| recovery_key_updated: "auth_reached C cfg db \<Longrightarrow> updateRecoveryKey C now u i en db = Inr db' \<Longrightarrow> auth_reached C cfg db'"
| recovery_key_deleted: "auth_reached C cfg db \<Longrightarrow> auth_reached C cfg (deleteRecoveryKey u db)"
| codes_replaced: "auth_reached C cfg db \<Longrightarrow> replaceRecoveryCodes u hs db = (r, db') \<Longrightarrow> auth_reached C cfg db'"
| code_consumed: "auth_reached C cfg db \<Longrightarrow> consumeRecoveryCode C u c db = Inr (n, db') \<Longrightarrow> auth_reached C cfg db'"
| unblock_created: "auth_reached C cfg db \<Longrightarrow> createUnblockCode C now u c db = Inr db' \<Longrightarrow> auth_reached C cfg db'"
| unblock_consumed: "auth_reached C cfg db \<Longrightarrow> auth_reached C cfg (snd (consumeUnblockCode C u c db))"
| signin_created: "auth_reached C cfg db \<Longrightarrow> createSigninCode C now u c f db = Inr db' \<Longrightarrow> auth_reached C cfg db'"
| signin_consumed: "auth_reached C cfg db \<Longrightarrow> auth_reached C cfg (snd (consumeSigninCode C now c db))"
| event_recorded: "auth_reached C cfg db \<Longrightarrow> auth_reached C cfg (securityEvent now u n h i db)"
| device_created: "auth_reached C cfg db \<Longrightarrow> Device_create d cs db = Inr db' \<Longrightarrow> auth_reached C cfg db'"
| device_updated: "auth_reached C cfg db \<Longrightarrow> Device_update u du db = Inr db' \<Longrightarrow> auth_reached C cfg db'"
| device_deleted: "auth_reached C cfg db \<Longrightarrow> deleteDevice u i db = Inr (r, db') \<Longrightarrow> auth_reached C cfg db'"

lemmas ok_steps = ok_empty ok_createAccount ok_deleteAccount ok_resetAccount ok_resetAccountTokens ok_createPassword
  ok_createSessionToken ok_updateSessionToken ok_verifyTokens ok_verifyTokensWithMethod ok_deleteSessionToken
  ok_createKeyFetchToken ok_deleteKeyFetchToken ok_createPasswordForgotToken ok_updatePasswordForgotToken
  ok_deletePasswordForgotToken ok_forgotPasswordVerified ok_createPasswordChangeToken ok_deletePasswordChangeToken ok_createEmail ok_verifyEmail ok_deleteEmail
  ok_setPrimaryEmail ok_createTotpToken ok_updateTotpToken ok_deleteTotpToken ok_createRecoveryKey
  ok_updateRecoveryKey ok_deleteRecoveryKey ok_replaceRecoveryCodes ok_consumeRecoveryCode ok_createUnblockCode
  ok_consumeUnblockCode ok_createSigninCode ok_consumeSigninCode ok_securityEvent ok_Device_create
  ok_Device_update ok_deleteDevice

lemma auth_reached_invariant: "auth_reached C cfg db \<Longrightarrow> auth_ok db"
  by (induction rule: auth_reached.induct) (blast intro: ok_steps)+

end
