(* ===== verification/Session_Guarantees.thy ===== *)
theory Session_Guarantees
  imports Auth_Laws OAuth_Grant_Laws
begin

text \<open>
  What a session stands for: how it was verified, what a duplicate of it remembers, what the OAuth server
  learns from its assertion, and which address of the user is primary.
\<close>

section \<open>Reading a session\<close>

lemma sessionToken_Inr:
  "sessionToken C cfg now i db = Inr t \<longleftrightarrow>
    (\<exists>s. find (\<lambda>s. se_tokenId s = i) (sessionTokens db) = Some s \<and> notExpired now (session_with_device s db) \<and>
      t = SessionToken_fromHex C cfg (se_tokenData s) (session_with_device s db))"
  by (auto simp: sessionToken_def SessionToken_findByTokenId_def Let_def split: option.splits)

lemma session_fields [simp]:
  "st_tokenVerified (new_SessionToken cfg k d) \<longleftrightarrow> truthy_string (sd_tokenVerificationId d) = None"
  "st_tokenVerificationId (new_SessionToken cfg k d) = truthy_string (sd_tokenVerificationId d)"
  "st_verificationMethod (new_SessionToken cfg k d) = truthy_int (sd_verificationMethod d)"
  "st_verificationMethodValue (new_SessionToken cfg k d) =
     (case truthy_int (sd_verificationMethod d) of Some m \<Rightarrow> map_of VERIFICATION_METHODS m | None \<Rightarrow> None)"
  "st_authAt (new_SessionToken cfg k d) = js_or0 (sd_authAt d)"
  "tk_createdAt (new_SessionToken cfg k d) = js_or0 (sd_createdAt d)"
  "tk_id (new_SessionToken cfg k d) = k_id k" "tk_data (new_SessionToken cfg k d) = k_data k"
  "tk_uid (new_SessionToken cfg k d) = truthy_string (sd_uid d)"
  "st_mustVerify (new_SessionToken cfg k d) = sd_mustVerify d"
  "st_emailVerified (new_SessionToken cfg k d) = sd_emailVerified d"
  "st_ua (new_SessionToken cfg k d) = sd_ua d" "st_device (new_SessionToken cfg k d) = sd_device d"
  by (simp_all add: new_SessionToken_def new_Token_def Let_def)

lemma with_device_fields [simp]:
  "sd_verificationMethod (session_with_device s db) = se_verificationMethod s"
  "sd_tokenVerificationId (session_with_device s db) =
     map_option un_tokenVerificationId (find (\<lambda>u. un_tokenId u = se_tokenId s) (unverifiedTokens db))"
  "sd_authAt (session_with_device s db) = coalesce (se_authAt s) (Some (se_createdAt s))"
  "sd_createdAt (session_with_device s db) = Some (se_createdAt s)"
  "sd_uid (session_with_device s db) = Some (se_uid s)"
  by (simp_all add: session_with_device_def Let_def)

lemma methods_of_value:
  "st_verificationMethodValue t = Some m \<Longrightarrow> map_of METHOD_TO_AMR m = Some a \<Longrightarrow>
    authenticationMethods t = Inr [''pwd'', a]"
  by (simp add: authenticationMethods_def verificationMethodToAMR_def)

lemma methods_without_value:
  "st_verificationMethodValue t = None \<Longrightarrow>
    authenticationMethods t = Inr (if st_tokenVerified t then [''pwd'', ''email''] else [''pwd''])"
  by (simp add: authenticationMethods_def)

lemma level_of_methods:
  "authenticationMethods t = Inr [''pwd'', ''otp''] \<Longrightarrow> authenticatorAssuranceLevel t = Inr 2"
  "authenticationMethods t = Inr [''pwd'', ''email''] \<Longrightarrow> authenticatorAssuranceLevel t = Inr 1"
  "authenticationMethods t = Inr [''pwd''] \<Longrightarrow> authenticatorAssuranceLevel t = Inr 1"
  by (simp_all add: authenticatorAssuranceLevel_def maximumAssuranceLevel_def AMR_TO_TYPE_def)

lemma VERIFICATION_METHODS_cases:
  "map_of VERIFICATION_METHODS n = (if n = 0 then Some ''email'' else if n = 1 then Some ''email-2fa''
    else if n = 2 then Some ''totp-2fa'' else if n = 3 then Some ''recovery-code'' else None)"
  by (simp add: VERIFICATION_METHODS_def)

lemma VERIFICATION_METHOD_Some:
  "map_of VERIFICATION_METHOD m = Some n \<longleftrightarrow>
    m = ''email'' \<and> n = 0 \<or> m = ''email-2fa'' \<and> n = 1 \<or> m = ''totp-2fa'' \<and> n = 2 \<or> m = ''recovery-code'' \<and> n = 3"
  by (auto simp: VERIFICATION_METHOD_def split: if_splits)

text \<open>The level of a session, from the number that its row stores.\<close>

lemma session_level:
  "authenticationMethods (new_SessionToken cfg k d) =
     Inr (case sd_verificationMethod d of
            Some n \<Rightarrow> if n = 2 \<or> n = 3 then [''pwd'', ''otp''] else if n = 1 then [''pwd'', ''email'']
              else if truthy_string (sd_tokenVerificationId d) = None then [''pwd'', ''email''] else [''pwd'']
          | None \<Rightarrow> if truthy_string (sd_tokenVerificationId d) = None then [''pwd'', ''email''] else [''pwd''])"
  by (cases "sd_verificationMethod d")
    (auto simp: authenticationMethods_def truthy_int_def VERIFICATION_METHODS_cases verificationMethodToAMR_def
      METHOD_TO_AMR_def)

section \<open>Verified sessions\<close>

lemma update_find:
  "find (\<lambda>s. se_tokenId s = i) (update_rows (\<lambda>s. se_tokenId s = i) f xs) =
     map_option f (find (\<lambda>s. se_tokenId s = i) xs)" if "\<And>s. se_tokenId (f s) = se_tokenId s"
  using that by (induction xs) (auto simp: update_rows_def)

lemma marks_gone:
  assumes "auth_ok db" "find (\<lambda>s. se_tokenId s = i) (sessionTokens db) = Some s"
    "find (\<lambda>u. un_tokenId u = i) (unverifiedTokens db) = Some u"
  shows "find (\<lambda>u. un_tokenId u = i) (filter (\<lambda>x. \<not> (un_tokenVerificationId x = un_tokenVerificationId u \<and>
    un_uid x = se_uid s)) (unverifiedTokens db)) = None"
proof -
  have s: "s \<in> set (sessionTokens db)" "se_tokenId s = i" and u: "u \<in> set (unverifiedTokens db)" "un_tokenId u = i"
    using assms(2,3) by (auto dest: find_SomeD)
  have d: "distinct (map un_tokenId (unverifiedTokens db))" using assms(1) by (simp add: auth_ok_def keys_ok_def)
  have "un_uid u = se_uid s" using assms(1) s u by (auto simp: auth_ok_def marks_ok_def)
  moreover have "x = u" if "x \<in> set (unverifiedTokens db)" "un_tokenId x = i" for x
    using d that u by (metis distinct_map inj_on_def)
  ultimately show ?thesis by (auto simp: find_None)
qed

lemma verified_row:
  assumes "auth_ok db" "verifyTokensWithMethod v i n db = Inr db'"
  shows "\<exists>s. find (\<lambda>s. se_tokenId s = i) (sessionTokens db') = Some s \<and> se_verificationMethod s = n \<and>
    se_tokenId s = i \<and> find (\<lambda>u. un_tokenId u = i) (unverifiedTokens db') = None"
proof -
  let ?f = "\<lambda>s. s\<lparr> se_verificationMethod := n, se_verifiedAt := Some v \<rparr>"
  obtain s where s: "find (\<lambda>s. se_tokenId s = i) (sessionTokens db) = Some s"
    using assms(2) by (auto simp: verifyTokensWithMethod_Inr)
  have f: "find (\<lambda>s. se_tokenId s = i) (sessionTokens db') = Some (?f s)"
    using assms(2) s by (auto simp: verifyTokensWithMethod_Inr Let_def update_find verifyToken_3_def split: option.splits)
  have "find (\<lambda>u. un_tokenId u = i) (unverifiedTokens db') = None"
    using assms(2) s marks_gone [OF assms(1) s]
    by (auto simp: verifyTokensWithMethod_Inr Let_def verifyToken_3_def split: option.splits)
  moreover have "se_tokenId s = i" using find_SomeD [OF s] by blast
  ultimately show ?thesis using f by simp
qed

text \<open>
  C29: a session that was verified with a method reads back as verified, and its authentication methods and
  its assurance level are those of the method: level 2 for a TOTP code and for a recovery code, level 1 for
  the methods that go through the mailbox.
\<close>

theorem verified_session_level:
  assumes "auth_reached C cfg db" and "map_of VERIFICATION_METHOD m = Some n"
    and "verifyTokensWithMethod v i (Some n) db = Inr db'" and "sessionToken C cfg now i db' = Inr t"
  shows "st_tokenVerified t \<and>
    authenticationMethods t = Inr [''pwd'', if m \<in> {''totp-2fa'', ''recovery-code''} then ''otp'' else ''email''] \<and>
    authenticatorAssuranceLevel t = Inr (if m \<in> {''totp-2fa'', ''recovery-code''} then 2 else 1)"
proof -
  obtain s where s: "find (\<lambda>s. se_tokenId s = i) (sessionTokens db') = Some s" "se_verificationMethod s = Some n"
    "find (\<lambda>u. un_tokenId u = se_tokenId s) (unverifiedTokens db') = None"
    using verified_row [OF auth_reached_invariant [OF assms(1)] assms(3)] by auto
  then have t: "t = new_SessionToken cfg (deriveTokenKeys C ''sessionToken'' (from_hex (se_tokenData s)))
      (session_with_device s db')"
    using assms(4) by (auto simp: sessionToken_Inr SessionToken_fromHex_def)
  have a: "authenticationMethods t =
      Inr [''pwd'', if m \<in> {''totp-2fa'', ''recovery-code''} then ''otp'' else ''email'']"
    using assms(2) s(2,3) by (auto simp: t session_level VERIFICATION_METHOD_Some)
  moreover have "st_tokenVerified t" using s(3) by (simp add: t)
  ultimately show ?thesis using level_of_methods(1,2) by (auto split: if_splits)
qed

text \<open>A user with a session that is not verified yet.\<close>

definition sample_crypto :: crypto where
  "sample_crypto = \<lparr>
     cr_hkdf = (\<lambda>km info len. take len ((case km of Bytes b \<Rightarrow> b | Text s \<Rightarrow> from_ascii s) @ replicate len 7)),
     cr_hmac = (\<lambda>k d. take 32 (d @ replicate 32 1)), cr_sha256 = (\<lambda>d. take 32 (d @ replicate 32 2)),
     cr_scrypt = (\<lambda>input salt len N r p m. take len (input @ salt @ replicate len 3)) \<rparr>"

lemma sample_crypto_ok: "crypto_ok sample_crypto"
  by (auto simp: crypto_ok_def sample_crypto_def min_def)

definition sample_config :: auth_config where
  "sample_config = \<lparr> cfg_accountResetToken = 900000, cfg_passwordForgotToken = 3600000,
     cfg_passwordChangeToken = 900000, cfg_sessionTokenWithoutDevice = 2419200000, cfg_verifierVersion = 1 \<rparr>"

definition sample_account :: account_row where
  "sample_account = \<lparr> ac_uid = ''a1'', ac_normalizedEmail = [], ac_email = ''a@x'', ac_emailCode = ''c0'',
     ac_emailVerified = True, ac_kA = ''01'', ac_wrapWrapKb = ''02'', ac_authSalt = ''03'', ac_verifierVersion = 1,
     ac_verifyHash = ''04'', ac_verifierSetAt = 0, ac_createdAt = 0, ac_locale = ''en'', ac_lockedAt = None, ac_disabledAt = None,
     ac_profileChangedAt = None, ac_keysChangedAt = None, ac_metricsOptOutAt = None \<rparr>"

definition sample_accounts :: auth_db where
  "sample_accounts = projr (createAccount 1000 None sample_account no_tables)"

definition sample_details :: session_details where
  "sample_details = no_details\<lparr> sd_uid := Some ''a1'', sd_emailVerified := True, sd_mustVerify := True,
     sd_tokenVerificationId := Some ''beef'' \<rparr>"

definition sample_db :: auth_db where
  "sample_db = snd (projr (createSessionToken sample_crypto sample_config 5000 [1, 2] sample_details sample_accounts))"

definition sample_id :: string where
  "sample_id = tk_id (SessionToken_create sample_crypto sample_config 5000 [1, 2] sample_details)"

lemma sample_account_created: "createAccount 1000 None sample_account no_tables = Inr sample_accounts"
  by (simp add: sample_accounts_def createAccount_def createAccount_9_def unique_row_def instead_def no_tables_def Let_def)

lemma sample_accounts_rows:
  "sessionTokens sample_accounts = []" "unverifiedTokens sample_accounts = []" "keyFetchTokens sample_accounts = []"
  "devices sample_accounts = []"
  by (simp_all add: sample_accounts_def createAccount_def createAccount_9_def unique_row_def instead_def no_tables_def Let_def)

lemma sample_token:
  "tk_uid (SessionToken_create C cfg now bytes sample_details) = Some ''a1''"
  "st_tokenVerificationId (SessionToken_create C cfg now bytes sample_details) = Some ''beef''"
  "tk_createdAt (SessionToken_create C cfg now bytes sample_details) = now"
  by (simp_all add: SessionToken_create_def sample_details_def)

lemma sample_session_created:
  "createSessionToken sample_crypto sample_config 5000 [1, 2] sample_details sample_accounts =
     Inr (SessionToken_create sample_crypto sample_config 5000 [1, 2] sample_details, sample_db)"
proof -
  have "\<exists>db. createSessionToken sample_crypto sample_config 5000 [1, 2] sample_details sample_accounts =
     Inr (SessionToken_create sample_crypto sample_config 5000 [1, 2] sample_details, db)"
    by (simp add: createSessionToken_Inr createSessionToken_9_Inr sample_token sample_accounts_rows)
  then show ?thesis by (auto simp: sample_db_def)
qed

definition sample_token_row :: session_row where
  "sample_token_row = (let t = SessionToken_create sample_crypto sample_config 5000 [1, 2] sample_details
     in \<lparr> se_tokenId = sample_id, se_tokenData = the (tk_data t), se_uid = ''a1'', se_createdAt = 5000,
          se_ua = st_ua t, se_lastAccessTime = 5000, se_authAt = None, se_verificationMethod = None,
          se_verifiedAt = None, se_mustVerify = Some (st_mustVerify t) \<rparr>)"

lemma sample_db_eq:
  "sample_db = sample_accounts\<lparr> sessionTokens := [sample_token_row],
     unverifiedTokens := [\<lparr> un_tokenId = sample_id, un_tokenVerificationId = ''beef'', un_uid = ''a1'',
       un_mustVerify = st_mustVerify (SessionToken_create sample_crypto sample_config 5000 [1, 2] sample_details) \<rparr>] \<rparr>"
  using sample_session_created
  by (simp add: createSessionToken_Inr createSessionToken_9_Inr sample_token sample_accounts_rows sample_id_def
      sample_token_row_def Let_def)

lemma sample_row:
  "se_tokenId sample_token_row = sample_id" "se_uid sample_token_row = ''a1''" "se_createdAt sample_token_row = 5000"
  "se_authAt sample_token_row = None"
  by (simp_all add: sample_token_row_def Let_def)

lemmas sample_rows = sample_db_eq sample_row

lemma sample_reached: "auth_reached sample_crypto sample_config sample_db"
proof -
  have "auth_reached sample_crypto sample_config sample_accounts"
    by (rule new_account [OF no_rows sample_account_created])
  moreover have "fresh_token (tk_id (SessionToken_create sample_crypto sample_config 5000 [1, 2] sample_details))
      sample_accounts"
    by (simp add: fresh_token_def sample_accounts_rows)
  ultimately show ?thesis using sample_session_created by (blast intro: new_session)
qed

theorem verified_session_level_witness:
  "\<exists>db' t. verifyTokensWithMethod 6000 sample_id (Some 2) sample_db = Inr db' \<and>
     sessionToken sample_crypto sample_config 7000 sample_id db' = Inr t \<and> authenticatorAssuranceLevel t = Inr 2"
proof -
  have "\<exists>db. verifyTokensWithMethod 6000 sample_id (Some 2) sample_db = Inr db \<and>
      (\<exists>s. sessionTokens db = [s] \<and> se_tokenId s = sample_id \<and> se_createdAt s = 5000)"
    by (simp add: sample_rows verifyTokensWithMethod_def Let_def update_rows_def verifyToken_3_def)
  then obtain db where v: "verifyTokensWithMethod 6000 sample_id (Some 2) sample_db = Inr db"
    "\<exists>s. sessionTokens db = [s] \<and> se_tokenId s = sample_id \<and> se_createdAt s = 5000" by blast
  then obtain t where t: "sessionToken sample_crypto sample_config 7000 sample_id db = Inr t"
    by (auto simp: sessionToken_Inr notExpired_def)
  have m: "map_of VERIFICATION_METHOD ''totp-2fa'' = Some 2" by (simp add: VERIFICATION_METHOD_def)
  show ?thesis using verified_session_level [OF sample_reached m v(1) t] v(1) t by auto
qed



section \<open>The primary address\<close>

lemma find_with_primary:
  "find (\<lambda>e. em_uid e = u \<and> em_isPrimary e) (map (with_primary u n) es) =
     map_option (with_primary u n) (find (\<lambda>e. em_uid e = u \<and> em_normalizedEmail e = n) es)"
  by (induction es) auto

lemma find_other_primary:
  "w \<noteq> u \<Longrightarrow> find (\<lambda>e. em_uid e = w \<and> em_isPrimary e) (map (with_primary u n) es) =
     find (\<lambda>e. em_uid e = w \<and> em_isPrimary e) es"
  by (induction es) (auto simp: with_primary_def)

lemma primaryEmail_set:
  assumes "snd (setPrimaryEmail now found u n db) = Inr db'"
  shows "primaryEmail u db' = map_option (with_primary u n)
      (find (\<lambda>e. em_uid e = u \<and> em_normalizedEmail e = n) (emails db))"
    "w \<noteq> u \<Longrightarrow> primaryEmail w db' = primaryEmail w db"
  using assms by (auto simp: setPrimaryEmail_Inr primaryEmail_def touch_profile_def find_with_primary find_other_primary)

text \<open>
  C37: on a connection whose variable is unset, the primary address of a user can be set to the verified
  addresses of the user and to no other, it is the primary one afterwards, and no other user is affected. On
  a connection where an earlier call has left a value in the variable every address is accepted: one that
  the user has not verified becomes primary, and one that the user does not have leaves the user without
  a primary address.
\<close>

theorem set_primary_email:
  shows "((\<exists>db'. snd (setPrimaryEmail now None u n db) = Inr db') \<longleftrightarrow>
      (\<exists>e \<in> set (emails db). em_uid e = u \<and> em_normalizedEmail e = n \<and> em_isVerified e)) \<and>
    (\<forall>found db'. snd (setPrimaryEmail now found u n db) = Inr db' \<longrightarrow>
      map_option em_normalizedEmail (primaryEmail u db') =
        (if \<exists>e \<in> set (emails db). em_uid e = u \<and> em_normalizedEmail e = n then Some n else None) \<and>
      (\<forall>w. w \<noteq> u \<longrightarrow> primaryEmail w db' = primaryEmail w db)) \<and>
    (\<exists>db'. snd (setPrimaryEmail now (Some x) u n db) = Inr db')"
proof (intro conjI allI impI)
  fix found db'
  assume s: "snd (setPrimaryEmail now found u n db) = Inr db'"
  show "map_option em_normalizedEmail (primaryEmail u db') =
      (if \<exists>e \<in> set (emails db). em_uid e = u \<and> em_normalizedEmail e = n then Some n else None)"
    by (cases "find (\<lambda>e. em_uid e = u \<and> em_normalizedEmail e = n) (emails db)")
      (auto simp: primaryEmail_set(1) [OF s] find_None dest: find_SomeD)
  show "primaryEmail w db' = primaryEmail w db" if "w \<noteq> u" for w
    using primaryEmail_set(2) [OF s that] .
qed (auto simp: setPrimaryEmail_Inr)

theorem set_primary_email_witness:
  "\<exists>db'. snd (setPrimaryEmail 9000 (Some ''b@x'') ''a1'' ''c@x'' sample_accounts) = Inr db' \<and> primaryEmail ''a1'' db' = None"
proof -
  obtain db' where d: "snd (setPrimaryEmail 9000 (Some ''b@x'') ''a1'' ''c@x'' sample_accounts) = Inr db'"
    using set_primary_email by blast
  have "\<forall>e \<in> set (emails sample_accounts). em_normalizedEmail e = toLowerCase (ac_email sample_account)"
    by (simp add: sample_accounts_def createAccount_def createAccount_9_def unique_row_def instead_def no_tables_def
        Let_def toLowerCase_idem)
  moreover have "toLowerCase (ac_email sample_account) \<noteq> ''c@x''"
    by (simp add: sample_account_def toLowerCase_def lower_char_def)
  ultimately have "\<not> (\<exists>e \<in> set (emails sample_accounts). em_uid e = ''a1'' \<and> em_normalizedEmail e = ''c@x'')" by auto
  with d have "map_option em_normalizedEmail (primaryEmail ''a1'' db') = None"
    using set_primary_email [of 9000 "''a1''" "''c@x''" sample_accounts] by (auto split: if_splits)
  with d show ?thesis by auto
qed

section \<open>Duplicated sessions\<close>

lemma created_row:
  assumes "auth_ok db" "createSessionToken C cfg now bytes d db = Inr (t, db')" "fresh_token (tk_id t) db"
  obtains s u where "find (\<lambda>s. se_tokenId s = tk_id t) (sessionTokens db') = Some s" "se_tokenId s = tk_id t"
    "se_createdAt s = now" "se_authAt s = None" "se_verificationMethod s = None" "tk_uid t = Some u" "se_uid s = u"
    "se_tokenData s = toString_hex bytes" "t = SessionToken_create C cfg now bytes d"
    "map_option un_tokenVerificationId (find (\<lambda>u. un_tokenId u = tk_id t) (unverifiedTokens db')) = st_tokenVerificationId t"
proof -
  note f = fresh_tokenD [OF assms(3)]
  have n: "find (\<lambda>s. se_tokenId s = tk_id t) (sessionTokens db) = None"
    "find (\<lambda>u. un_tokenId u = tk_id t) (unverifiedTokens db) = None"
    using f by (auto simp: find_None)
  have t: "t = SessionToken_create C cfg now bytes d" using assms(2) by (simp add: createSessionToken_Inr)
  then have k: "tk_data t = Some (toString_hex bytes)" "tk_createdAt t = now"
    by (simp_all add: SessionToken_create_def deriveTokenKeys_def Let_def)
  obtain u where u: "tk_uid t = Some u" "createSessionToken_9 (tk_id t) (the (tk_data t)) u (tk_createdAt t) (st_ua t)
      (st_tokenVerificationId t) (st_mustVerify t) db = Inr db'"
    using assms(2) by (auto simp: createSessionToken_Inr)
  define s where "s = \<lparr> se_tokenId = tk_id t, se_tokenData = the (tk_data t), se_uid = u,
      se_createdAt = tk_createdAt t, se_ua = st_ua t, se_lastAccessTime = tk_createdAt t, se_authAt = None,
      se_verificationMethod = None, se_verifiedAt = None, se_mustVerify = Some (st_mustVerify t) \<rparr>"
  have s: "sessionTokens db' = sessionTokens db @ [s]"
    using u(2) by (simp add: createSessionToken_9_Inr s_def)
  have v: "map_option un_tokenVerificationId (find (\<lambda>u. un_tokenId u = tk_id t) (unverifiedTokens db')) =
      st_tokenVerificationId t"
    using u(2) n(2) by (cases "st_tokenVerificationId t") (simp_all add: createSessionToken_9_Inr find_append)
  show thesis
    by (rule that [of s u]) (simp_all add: s find_append n k u(1) v, simp_all add: s_def k t [symmetric])
qed

text \<open>
  C38: the duplicate of a verified session answers with the time of the authentication and the methods of the
  original, and forgets both when it is read again: the time is then that of the duplication, and the
  assurance level is 1, whatever second factor the original was verified with.
\<close>

theorem duplicate_forgets_authentication:
  assumes "auth_reached C cfg db" and "sessionToken C cfg now i db = Inr t" and "st_authAt t \<noteq> 0"
    and "st_tokenVerified t"
    and "session_duplicate C cfg now bytes rh ua t db = Inr (t2, db2)" and "fresh_token (tk_id t2) db"
    and "sessionToken C cfg later (tk_id t2) db2 = Inr t3"
  shows "lastAuthAt t2 = lastAuthAt t \<and> authenticationMethods t2 = authenticationMethods t \<and>
    lastAuthAt t3 = now div 1000 \<and> authenticatorAssuranceLevel t3 = Inr 1"
proof -
  obtain s where t: "t = new_SessionToken cfg (deriveTokenKeys C ''sessionToken'' (from_hex (se_tokenData s)))
      (session_with_device s db)"
    using assms(2) by (auto simp: sessionToken_Inr SessionToken_fromHex_def)
  obtain s2 where s2: "find (\<lambda>s. se_tokenId s = tk_id t2) (sessionTokens db2) = Some s2" "se_tokenId s2 = tk_id t2"
    "se_createdAt s2 = now" "se_authAt s2 = None" "se_verificationMethod s2 = None"
    "t2 = SessionToken_create C cfg now bytes ((copyTokenState rh t)\<lparr> sd_ua := ua \<rparr>)"
    "map_option un_tokenVerificationId (find (\<lambda>u. un_tokenId u = tk_id t2) (unverifiedTokens db2)) = st_tokenVerificationId t2"
    using assms(5) created_row [OF auth_reached_invariant [OF assms(1)] _ assms(6)] unfolding session_duplicate_def
    by blast
  have id: "st_tokenVerificationId t = None" using assms(4) by (simp add: t)
  have c: "sd_authAt (copyTokenState rh t) = Some (st_authAt t)" "sd_tokenVerificationId (copyTokenState rh t) = None"
    "sd_verificationMethod (copyTokenState rh t) = st_verificationMethod t"
    by (simp_all add: copyTokenState_def id)
  have "st_tokenVerificationId t2 = None" by (simp add: s2(6) SessionToken_create_def c)
  then have "sd_tokenVerificationId (session_with_device s2 db2) = None" using s2(2,7) by simp
  moreover have t3: "t3 = new_SessionToken cfg (deriveTokenKeys C ''sessionToken'' (from_hex (se_tokenData s2)))
      (session_with_device s2 db2)"
    using assms(7) s2(1) by (auto simp: sessionToken_Inr SessionToken_fromHex_def)
  ultimately have "authenticationMethods t3 = Inr [''pwd'', ''email'']" using s2(5) by (simp add: session_level)
  moreover have "lastAuthAt t3 = now div 1000" using s2(3,4) by (simp add: lastAuthAt_def t3 coalesce_def)
  moreover have "lastAuthAt t2 = lastAuthAt t" using assms(3) by (simp add: lastAuthAt_def s2(6) SessionToken_create_def c)
  moreover have "authenticationMethods t2 = authenticationMethods t"
  proof -
    define m where "m = se_verificationMethod s"
    let ?l = "\<lambda>m. Inr (case m of Some n \<Rightarrow> if n = 2 \<or> n = 3 then [''pwd'', ''otp''] else [''pwd'', ''email'']
      | None \<Rightarrow> [''pwd'', ''email'']) :: auth_error + string list"
    have "truthy_string (sd_tokenVerificationId (session_with_device s db)) = None"
      using assms(4) by (simp add: t)
    then have "authenticationMethods t = ?l m" by (auto simp: t session_level m_def split: option.splits)
    moreover have "st_verificationMethod t = truthy_int m" by (simp add: t m_def)
    then have "authenticationMethods t2 = ?l (truthy_int m)"
      by (simp add: s2(6) SessionToken_create_def session_level c split: option.splits)
    moreover have "?l (truthy_int m) = ?l m" by (auto simp: truthy_int_def split: option.splits)
    ultimately show ?thesis by simp
  qed
  ultimately show ?thesis using level_of_methods(2) by simp
qed

definition sample_verified :: auth_db where
  "sample_verified = projr (verifyTokensWithMethod 6000 sample_id (Some 2) sample_db)"

lemma sample_verified_step: "verifyTokensWithMethod 6000 sample_id (Some 2) sample_db = Inr sample_verified"
  by (simp add: sample_verified_def sample_rows verifyTokensWithMethod_def Let_def update_rows_def verifyToken_3_def)

lemma sample_verified_rows:
  "sessionTokens sample_verified = [sample_token_row\<lparr> se_verificationMethod := Some 2, se_verifiedAt := Some 6000 \<rparr>]"
  "unverifiedTokens sample_verified = []" "keyFetchTokens sample_verified = []"
  by (simp_all add: sample_verified_def sample_rows verifyTokensWithMethod_def Let_def update_rows_def verifyToken_3_def
      sample_accounts_rows)

lemma sample_ids: "k_id (deriveTokenKeys sample_crypto ''sessionToken'' b) = toString_hex (take 32 (b @ replicate 96 7))"
  by (simp add: deriveTokenKeys_def hkdf_def sample_crypto_def Let_def del: take_append)

lemma sample_id_other: "k_id (deriveTokenKeys sample_crypto ''sessionToken'' [9]) \<noteq> sample_id"
  by (simp add: sample_id_def SessionToken_create_def sample_ids)

theorem duplicate_forgets_authentication_witness:
  "\<exists>t t2 db2 t3. sessionToken sample_crypto sample_config 7000 sample_id sample_verified = Inr t \<and>
     authenticatorAssuranceLevel t = Inr 2 \<and> lastAuthAt t = 5 \<and>
     session_duplicate sample_crypto sample_config 7000 [9] (\<lambda>n. ''00'') (st_ua t) t sample_verified = Inr (t2, db2) \<and>
     sessionToken sample_crypto sample_config 8000 (tk_id t2) db2 = Inr t3 \<and>
     authenticatorAssuranceLevel t3 = Inr 1 \<and> lastAuthAt t3 = 7"
proof -
  let ?C = sample_crypto and ?g = sample_config
  have r: "auth_reached ?C ?g sample_verified" by (rule method_verified [OF sample_reached sample_verified_step])
  obtain t where t: "sessionToken ?C ?g 7000 sample_id sample_verified = Inr t"
    "authenticatorAssuranceLevel t = Inr 2" "st_tokenVerified t" "st_authAt t = 5000" "tk_uid t = Some ''a1''"
    using level_of_methods(1)
    by (auto simp: sessionToken_Inr sample_verified_rows sample_row notExpired_def SessionToken_fromHex_def session_level
        coalesce_def)
  define d where "d = (copyTokenState (\<lambda>n. ''00'') t)\<lparr> sd_ua := st_ua t \<rparr>"
  define t2 where "t2 = SessionToken_create ?C ?g 7000 [9] d"
  have i: "tk_id t2 \<noteq> sample_id" using sample_id_other by (simp add: t2_def SessionToken_create_def)
  have u: "tk_uid t2 = Some ''a1''" using t(5) by (simp add: t2_def SessionToken_create_def d_def copyTokenState_def)
  obtain db2 where d2: "session_duplicate ?C ?g 7000 [9] (\<lambda>n. ''00'') (st_ua t) t sample_verified = Inr (t2, db2)"
    using i u by (auto simp: session_duplicate_def createSessionToken_Inr createSessionToken_9_Inr d_def [symmetric]
        t2_def [symmetric] sample_verified_rows sample_row)
  have f: "fresh_token (tk_id t2) sample_verified"
    using i by (auto simp: fresh_token_def sample_verified_rows sample_row)
  obtain s where "find (\<lambda>s. se_tokenId s = tk_id t2) (sessionTokens db2) = Some s" "se_createdAt s = 7000"
    using created_row [OF auth_reached_invariant [OF r] d2 [unfolded session_duplicate_def] f] by blast
  then obtain t3 where t3: "sessionToken ?C ?g 8000 (tk_id t2) db2 = Inr t3"
    by (auto simp: sessionToken_Inr notExpired_def)
  have "st_authAt t \<noteq> 0" using t(4) by simp
  from duplicate_forgets_authentication [OF r t(1) this t(3) d2 f t3]
  have "lastAuthAt t3 = 7" "authenticatorAssuranceLevel t3 = Inr 1" by simp_all
  moreover have "lastAuthAt t = 5" using t(4) by (simp add: lastAuthAt_def)
  ultimately show ?thesis using t(1,2) d2 t3 by blast
qed

end
