(* ===== verification/Auth_Signin.thy ===== *)
theory Auth_Signin
  imports Auth_Routes Customs_Client
begin

text \<open>
  Signing up and signing in: \<open>lib/routes/utils/signin.js\<close>, \<open>accountCreate\<close> and \<open>login\<close> of
  \<open>lib/routes/account.ts\<close>, \<open>deleteAccountIfUnverified\<close> of \<open>lib/routes/utils/account.ts\<close> and
  \<open>POST /session/reauth\<close> of \<open>lib/routes/session.js\<close>. What the customs server makes of a request is the outcome
  of the client in \<open>Customs_Client\<close>. Regular expressions of the configuration are predicates, the answer of
  the payment provider is an argument, random values are arguments. Mail is taken to be sent.
\<close>

section \<open>Configuration and requests\<close>

record signin_config =
  sc_codeLifetime :: int
  sc_forcedUnblock :: "string \<Rightarrow> bool"
  sc_forceGlobally :: bool
  sc_forcedEmailAddresses :: "string \<Rightarrow> bool"
  sc_allowedRecency :: int
  sc_skipForNewAccounts :: "int option"
  sc_skipConfirmation :: "string list"
  sc_forcedPasswordChange :: "string \<Rightarrow> bool"
  sc_disabledClients :: "string list"

text \<open>\<open>sq_ipHmac\<close> is the keyed hash of the address of the client, which depends on the user as well.\<close>

record signin_request =
  sq_email :: string
  sq_authPW :: string
  sq_originalLoginEmail :: "string option"
  sq_unblockCode :: "string option"
  sq_verificationMethod :: "string option"
  sq_service :: "string option"
  sq_keys :: bool
  sq_ua :: ua_info
  sq_ipHmac :: "string \<Rightarrow> buffer"

definition upper_char :: "char \<Rightarrow> char" where
  "upper_char c = (if 97 \<le> (of_char c :: nat) \<and> of_char c \<le> (122 :: nat) then char_of (of_char c - 32 :: nat) else c)"

definition toUpperCase :: "string \<Rightarrow> string" where
  "toUpperCase s = map upper_char s"

definition emailsMatch :: "string \<Rightarrow> string \<Rightarrow> bool" where
  "emailsMatch a b \<longleftrightarrow> toLowerCase a = toLowerCase b"

section \<open>Loading the account\<close>

text \<open>
  The error of the customs check as the handler sees it: none, one that an unblock code may bypass or not,
  or a failure of the service.
\<close>

definition customs_refusal :: "signin_config \<Rightarrow> string \<Rightarrow> customs_outcome \<Rightarrow> auth_error + bool option" where
  "customs_refusal cf email out =
     (if sc_forcedUnblock cf email then Inr (Some True)
      else case out of
        Passed _ \<Rightarrow> Inr None
      | Refused _ e \<Rightarrow> Inr (Some (ae_verificationMethod e = Some ''email-captcha''))
      | Failed _ \<Rightarrow> Inl CustomsFailure)"

definition isSuspiciousRequest :: "signin_config \<Rightarrow> string \<Rightarrow> customs_outcome \<Rightarrow> bool" where
  "isSuspiciousRequest cf email out \<longleftrightarrow>
     \<not> sc_forcedUnblock cf email \<and> (case out of Passed b \<Rightarrow> b | Refused b _ \<Rightarrow> b | Failed _ \<Rightarrow> False)"

definition checkCustomsAndLoadAccount ::
  "crypto \<Rightarrow> signin_config \<Rightarrow> int \<Rightarrow> signin_request \<Rightarrow> customs_outcome \<Rightarrow> auth_db \<Rightarrow>
     (auth_error + (account_row \<times> email_row option) \<times> bool) \<times> auth_db" where
  "checkCustomsAndLoadAccount C cf now q out db =
     (case customs_refusal cf (sq_email q) out of
        Inl e \<Rightarrow> (Inl e, db)
      | Inr None \<Rightarrow>
          (and_then (accountRecord (case truthy_string (sq_originalLoginEmail q) of
              Some original \<Rightarrow> original | None \<Rightarrow> sq_email q) db) (\<lambda>r. Inr (r, False)), db)
      | Inr (Some canUnblock) \<Rightarrow>
          (case truthy_string (sq_unblockCode q) of
             None \<Rightarrow> (Inl CustomsBlocked, db)
           | Some code \<Rightarrow>
               if \<not> canUnblock then (Inl CustomsBlocked, db)
               else case accountRecord (sq_email q) db of
                 Inl _ \<Rightarrow> (Inl CustomsBlocked, db)
               | Inr (a, e) \<Rightarrow>
                   then_st (consumeUnblockCode C (ac_uid a) (toUpperCase code) db) (\<lambda>createdAt db.
                     if now - createdAt > sc_codeLifetime cf then (Inl InvalidUnblockCode, db)
                     else (Inr ((a, e), True), db))))"

definition checkEmailAddress :: "email_row option \<Rightarrow> string \<Rightarrow> string option \<Rightarrow> auth_error + unit" where
  "checkEmailAddress e email originalLoginEmail =
     (case e of None \<Rightarrow> Inl JsTypeError
      | Some e \<Rightarrow>
          require (emailsMatch (case truthy_string originalLoginEmail of Some original \<Rightarrow> original | None \<Rightarrow> email)
            (em_normalizedEmail e)) CannotLoginWithSecondaryEmail)"

text \<open>The address and the password, as \<open>login\<close> and \<open>reauth\<close> check them.\<close>

definition checkEmailAndPassword ::
  "crypto \<Rightarrow> scrypt_state \<Rightarrow> signin_request \<Rightarrow> account_row \<Rightarrow> email_row option \<Rightarrow> auth_db \<Rightarrow> auth_error + password" where
  "checkEmailAndPassword C sc q a e db =
     and_then (checkEmailAddress e (sq_email q) (sq_originalLoginEmail q)) (\<lambda>_.
     and_then (new_Password C sc (sq_authPW q) (ac_authSalt a) (Some (ac_verifierVersion a))) (\<lambda>password.
     and_then (signin_checkPassword C a password db) (\<lambda>match.
     and_then (require match IncorrectPassword) (\<lambda>_. Inr password))))"

text \<open>A user with a TOTP token must verify it; a user without one cannot ask for it.\<close>

definition checkTotpToken :: "string \<Rightarrow> string option \<Rightarrow> auth_db \<Rightarrow> auth_error + string option" where
  "checkTotpToken uid verificationMethod db =
     (if hasTotpToken uid db then Inr (Some ''totp-2fa'')
      else if verificationMethod = Some ''totp-2fa'' then Inl TotpRequired
      else Inr verificationMethod)"

section \<open>The session of a login\<close>

text \<open>
  \<open>SecurityEvent.findByUidAndIP\<close> returns the last twenty events. The result of \<open>checkSecurityHistory\<close> is how
  long ago the last verified one of them was.
\<close>

definition findByUidAndIP :: "string \<Rightarrow> buffer \<Rightarrow> auth_db \<Rightarrow> event_row list" where
  "findByUidAndIP uid ipAddrHmac db =
     take 20 (rev (sort_key ev_createdAt (filter (\<lambda>e. ev_uid e = uid \<and> ev_ipAddrHmac e = ipAddrHmac)
       (securityEvents db))))"

definition checkSecurityHistory :: "int \<Rightarrow> event_row list \<Rightarrow> int option" where
  "checkSecurityHistory now evs =
     (let verified = filter ev_verified evs
      in if verified = [] then None else Some (now - foldr (\<lambda>e latest. max (ev_createdAt e) latest) verified 0))"

definition forceTokenVerification :: "signin_config \<Rightarrow> bool \<Rightarrow> email_row \<Rightarrow> string option" where
  "forceTokenVerification cf suspicious e =
     (if suspicious then Some ''suspect'' else if sc_forceGlobally cf then Some ''global''
      else if sc_forcedEmailAddresses cf (em_email e) then Some ''email'' else None)"

definition skipTokenVerification ::
  "signin_config \<Rightarrow> int \<Rightarrow> int option \<Rightarrow> account_row \<Rightarrow> email_row \<Rightarrow> bool" where
  "skipTokenVerification cf now recency a e \<longleftrightarrow>
     (case recency of Some r \<Rightarrow> r < sc_allowedRecency cf | None \<Rightarrow> False) \<or>
     (case sc_skipForNewAccounts cf of Some maxAge \<Rightarrow> now - ac_createdAt a \<le> maxAge | None \<Rightarrow> False) \<or>
     toLowerCase (em_normalizedEmail e) \<in> set (sc_skipConfirmation cf)"

definition forcePasswordChange :: "signin_config \<Rightarrow> account_row \<Rightarrow> email_row \<Rightarrow> bool" where
  "forcePasswordChange cf a e \<longleftrightarrow> sc_forcedPasswordChange cf (em_email e) \<or> js_or0 (ac_lockedAt a) > 0"

text \<open>What \<open>createSessionToken\<close> decides before it creates the session.\<close>

record session_plan =
  pl_needsVerificationId :: bool
  pl_mustVerifySession :: bool
  pl_passwordChangeRequired :: bool
  pl_verificationMethod :: "string option"

definition plan_session ::
  "signin_config \<Rightarrow> int \<Rightarrow> bool \<Rightarrow> bool \<Rightarrow> bool \<Rightarrow> int option \<Rightarrow> string option \<Rightarrow> account_row \<Rightarrow> email_row \<Rightarrow> session_plan" where
  "plan_session cf now suspicious didSigninUnblock wantsKeys recency verificationMethod a e =
     (let forced = forceTokenVerification cf suspicious e;
          needs = \<not> (forced = None \<and> skipTokenVerification cf now recency a e) \<and> \<not> didSigninUnblock;
          must = needs \<and> (forced = Some ''suspect'' \<or> forced = Some ''global'' \<or> wantsKeys);
          totp = (verificationMethod = Some ''totp-2fa'');
          change = forcePasswordChange cf a e
      in \<lparr> pl_needsVerificationId = needs \<or> totp \<or> change, pl_mustVerifySession = must \<or> totp \<or> change,
           pl_passwordChangeRequired = change,
           pl_verificationMethod = (if change \<and> truthy_string verificationMethod = None then Some ''email-otp''
             else verificationMethod) \<rparr>)"

definition signin_details ::
  "ua_info \<Rightarrow> string \<Rightarrow> string \<Rightarrow> string \<Rightarrow> bool \<Rightarrow> int \<Rightarrow> bool \<Rightarrow> string option \<Rightarrow> session_details" where
  "signin_details ua uid email emailCode emailVerified verifierSetAt mustVerify tokenVerificationId =
     no_details\<lparr> sd_uid := Some uid, sd_email := Some email, sd_emailCode := Some emailCode,
       sd_emailVerified := emailVerified, sd_verifierSetAt := Some verifierSetAt, sd_mustVerify := mustVerify,
       sd_tokenVerificationId := tokenVerificationId, sd_ua := ua \<rparr>"

text \<open>\<open>createKeyFetchToken\<close> of the signin utilities.\<close>

definition signin_createKeyFetchToken ::
  "crypto \<Rightarrow> int \<Rightarrow> buffer \<Rightarrow> account_row \<Rightarrow> email_row \<Rightarrow> password \<Rightarrow> string option \<Rightarrow> auth_db \<Rightarrow>
     auth_error + key_fetch_token \<times> auth_db" where
  "signin_createKeyFetchToken C now bytes a e password tokenVerificationId db =
     and_then (unwrap C password (ac_wrapWrapKb a)) (\<lambda>wrapKb.
     createKeyFetchToken C now bytes (ac_uid a) (ac_kA a) wrapKb (em_isVerified e) tokenVerificationId db)"

record verification_status =
  vs_verified :: bool
  vs_verificationMethod :: "string option"
  vs_verificationReason :: "string option"

definition getSessionVerificationStatus :: "session_token \<Rightarrow> string option \<Rightarrow> verification_status" where
  "getSessionVerificationStatus t verificationMethod =
     (if \<not> st_emailVerified t
      then \<lparr> vs_verified = False,
             vs_verificationMethod = (if verificationMethod = Some ''email-otp'' then verificationMethod else Some ''email''),
             vs_verificationReason = Some ''signup'' \<rparr>
      else if st_mustVerify t \<and> \<not> st_tokenVerified t
      then \<lparr> vs_verified = False,
             vs_verificationMethod = (if truthy_string verificationMethod = None then Some ''email'' else verificationMethod),
             vs_verificationReason = Some ''login'' \<rparr>
      else \<lparr> vs_verified = True, vs_verificationMethod = None, vs_verificationReason = None \<rparr>)"

record login_result =
  lr_session :: session_token
  lr_keyFetch :: "key_fetch_token option"
  lr_status :: verification_status

section \<open>Login\<close>

definition wants_service :: "signin_config \<Rightarrow> signin_request \<Rightarrow> bool" where
  "wants_service cf q \<longleftrightarrow> (case sq_service q of Some s \<Rightarrow> s \<notin> set (sc_disabledClients cf) | None \<Rightarrow> True)"

text \<open>The tokens of a login: the session, the security event and, if asked for, the key-fetch token.\<close>

definition login_tokens ::
  "crypto \<Rightarrow> auth_config \<Rightarrow> int \<Rightarrow> reset_random \<Rightarrow> signin_request \<Rightarrow> session_plan \<Rightarrow> password \<Rightarrow> account_row \<Rightarrow> email_row \<Rightarrow>
     auth_db \<Rightarrow> (auth_error + login_result) \<times> auth_db" where
  "login_tokens C cfg now rnd q plan password a e db =
     (let tokenVerificationId = (if pl_needsVerificationId plan then Some (rn_tokenVerificationId rnd) else None)
      in then_st (attempt (createSessionToken C cfg now (rn_session rnd)
             (signin_details (sq_ua q) (ac_uid a) (em_email e) (em_emailCode e) (em_isVerified e)
               (ac_verifierSetAt a) (pl_mustVerifySession plan) tokenVerificationId) db) db) (\<lambda>t db.
         let db = securityEvent now (ac_uid a) ''account.login'' (sq_ipHmac q (ac_uid a)) (Some (tk_id t)) db
         in then_st (if sq_keys q
              then attempt (and_then (signin_createKeyFetchToken C now (rn_keyFetch rnd) a e password
                     (st_tokenVerificationId t) db) (\<lambda>(k, db). Inr (Some k, db))) db
              else (Inr None, db)) (\<lambda>k db.
         (Inr \<lparr> lr_session = t, lr_keyFetch = k,
                lr_status =
                  (if pl_passwordChangeRequired plan
                   then \<lparr> vs_verified = False, vs_verificationMethod = pl_verificationMethod plan,
                          vs_verificationReason = Some ''change_password'' \<rparr>
                   else getSessionVerificationStatus t (pl_verificationMethod plan)) \<rparr>, db))))"

definition login ::
  "crypto \<Rightarrow> auth_config \<Rightarrow> signin_config \<Rightarrow> scrypt_state \<Rightarrow> int \<Rightarrow> reset_random \<Rightarrow> signin_request \<Rightarrow> customs_outcome \<Rightarrow>
     auth_db \<Rightarrow> (auth_error + login_result) \<times> auth_db" where
  "login C cfg cf sc now rnd q out db =
     (if \<not> wants_service cf q then (Inl DisabledClientId, db)
      else then_st (checkCustomsAndLoadAccount C cf now q out db) (\<lambda>((a, e), didSigninUnblock) db.
        then_st (and_then (require (truthy_int (ac_disabledAt a) = None) CannotLoginWithEmail) (\<lambda>_.
                 and_then (checkEmailAndPassword C sc q a e db) (\<lambda>password.
                 and_then (checkTotpToken (ac_uid a) (sq_verificationMethod q) db) (\<lambda>method.
                 Inr (password, method)))), db) (\<lambda>(password, method) db.
        (case e of None \<Rightarrow> (Inl JsTypeError, db)
         | Some e \<Rightarrow>
             let recency = checkSecurityHistory now (findByUidAndIP (ac_uid a) (sq_ipHmac q (ac_uid a)) db)
             in login_tokens C cfg now rnd q
                  (plan_session cf now (isSuspiciousRequest cf (sq_email q) out) didSigninUnblock (sq_keys q) recency
                    method a e) password a e db))))"

section \<open>Authenticating again\<close>

text \<open>
  \<open>POST /session/reauth\<close> with the session that authenticates the request. The account is the one of the
  address in the payload.
\<close>

definition reauth_token :: "int \<Rightarrow> signin_request \<Rightarrow> string option \<Rightarrow> session_token \<Rightarrow> session_token" where
  "reauth_token now q verificationMethod t =
     t\<lparr> st_authAt := now, st_lastAccessTime := Some now, st_ua := sq_ua q,
        st_mustVerify := st_mustVerify t \<or> sq_keys q \<or> truthy_string verificationMethod \<noteq> None \<rparr>"

definition session_reauth ::
  "crypto \<Rightarrow> signin_config \<Rightarrow> scrypt_state \<Rightarrow> int \<Rightarrow> reset_random \<Rightarrow> signin_request \<Rightarrow> customs_outcome \<Rightarrow> session_token \<Rightarrow>
     auth_db \<Rightarrow> (auth_error + login_result) \<times> auth_db" where
  "session_reauth C cf sc now rnd q out t db =
     (if \<not> wants_service cf q then (Inl DisabledClientId, db)
      else then_st (checkCustomsAndLoadAccount C cf now q out db) (\<lambda>((a, e), _) db.
        then_st (and_then (checkEmailAndPassword C sc q a e db) (\<lambda>password.
                 and_then (checkTotpToken (ac_uid a) (sq_verificationMethod q) db) (\<lambda>method.
                 Inr (password, method))), db) (\<lambda>(password, method) db.
        (case e of None \<Rightarrow> (Inl JsTypeError, db)
         | Some e \<Rightarrow>
             let t = reauth_token now q method t;
                 db = updateSessionToken now t db;
                 db = securityEvent now (ac_uid a) ''account.login'' (sq_ipHmac q (ac_uid a)) (Some (tk_id t)) db
             in then_st (if sq_keys q
                  then attempt (and_then (signin_createKeyFetchToken C now (rn_keyFetch rnd) a e password
                         (st_tokenVerificationId t) db) (\<lambda>(k, db). Inr (Some k, db))) db
                  else (Inr None, db)) (\<lambda>k db.
                (Inr \<lparr> lr_session = t, lr_keyFetch = k, lr_status = getSessionVerificationStatus t method \<rparr>, db))))))"

section \<open>Signing up\<close>

definition getSecondaryEmail :: "string \<Rightarrow> auth_db \<Rightarrow> auth_error + email_row" where
  "getSecondaryEmail email db =
     (case find (\<lambda>e. em_normalizedEmail e = toLowerCase email) (emails db) of
        None \<Rightarrow> Inl SecondaryEmailUnknown | Some e \<Rightarrow> Inr e)"

definition deleteAccountIfUnverified :: "(string \<Rightarrow> bool) \<Rightarrow> int \<Rightarrow> string \<Rightarrow> auth_db \<Rightarrow> auth_error + auth_db" where
  "deleteAccountIfUnverified hasActiveSubscription now email db =
     (case getSecondaryEmail email db of
        Inl _ \<Rightarrow> Inr db
      | Inr r \<Rightarrow>
          if em_isPrimary r
          then if em_isVerified r \<or> hasActiveSubscription (em_uid r) then Inl AccountExists
               else Inr (deleteAccount (em_uid r) db)
          else if em_isVerified r then Inl VerifiedSecondaryEmailAlreadyExists
          else deleteEmail now (em_uid r) (em_email r) db)"

record signup_random =
  su_uid :: string
  su_emailCode :: string
  su_kA :: string

definition new_account_row ::
  "int \<Rightarrow> signup_random \<Rightarrow> reset_random \<Rightarrow> string \<Rightarrow> bool \<Rightarrow> string \<Rightarrow> password \<Rightarrow> string \<Rightarrow> account_row" where
  "new_account_row now su rnd email preVerified hash password locale =
     \<lparr> ac_uid = su_uid su, ac_normalizedEmail = toLowerCase email, ac_email = email, ac_emailCode = su_emailCode su,
       ac_emailVerified = preVerified, ac_kA = su_kA su, ac_wrapWrapKb = rn_wrapWrapKb rnd,
       ac_authSalt = rn_authSalt rnd, ac_verifierVersion = pw_version password, ac_verifyHash = hash,
       ac_verifierSetAt = now, ac_createdAt = now, ac_locale = locale, ac_lockedAt = None, ac_disabledAt = None,
       ac_profileChangedAt = None, ac_keysChangedAt = None, ac_metricsOptOutAt = None \<rparr>"

text \<open>\<open>accountCreate\<close>; the id of the account and its keys are random.\<close>

definition accountCreate ::
  "crypto \<Rightarrow> auth_config \<Rightarrow> signin_config \<Rightarrow> scrypt_state \<Rightarrow> bool \<Rightarrow> (string \<Rightarrow> bool) \<Rightarrow> int \<Rightarrow> signup_random \<Rightarrow> reset_random \<Rightarrow>
     signin_request \<Rightarrow> bool \<Rightarrow> string \<Rightarrow> auth_db \<Rightarrow> (auth_error + session_token \<times> key_fetch_token option) \<times> auth_db" where
  "accountCreate C cfg cf sc customs_ok hasActiveSubscription now su rnd q preVerified locale db =
     (if \<not> wants_service cf q then (Inl DisabledClientId, db)
      else if \<not> customs_ok then (Inl CustomsBlocked, db)
      else then_st (attempt (and_then (deleteAccountIfUnverified hasActiveSubscription now (sq_email q) db)
             (\<lambda>db. Inr ((), db))) db) (\<lambda>_ db.
        let tokenVerificationId = (if preVerified then None else Some (su_emailCode su))
        in then_st (new_Password C sc (sq_authPW q) (rn_authSalt rnd) (Some (cfg_verifierVersion cfg)), db) (\<lambda>password db.
        let a = new_account_row now su rnd (sq_email q) preVerified (verifyHash C password) password locale
        in then_st (attempt (and_then (createAccount now (Some now) a db) (\<lambda>db. Inr ((), db))) db) (\<lambda>_ db.
        then_st (attempt (createSessionToken C cfg now (rn_session rnd)
            (signin_details (sq_ua q) (ac_uid a) (ac_email a) (ac_emailCode a) (ac_emailVerified a)
              (ac_verifierSetAt a) (sq_keys q) tokenVerificationId) db) db) (\<lambda>t db.
        then_st (if sq_keys q
             then attempt (and_then (unwrap C password (ac_wrapWrapKb a)) (\<lambda>wrapKb.
               and_then (createKeyFetchToken C now (rn_keyFetch rnd) (ac_uid a) (ac_kA a) wrapKb (ac_emailVerified a)
                 tokenVerificationId db) (\<lambda>(k, db). Inr (Some k, db)))) db
             else (Inr None, db)) (\<lambda>k db.
        (Inr (t, k),
         securityEvent now (ac_uid a) ''account.create'' (sq_ipHmac q (ac_uid a)) (Some (tk_id t)) db)))))))"

end
