(* ===== verification/Auth_Factors.thy ===== *)
theory Auth_Factors
  imports Auth_Signin
begin

text \<open>
  The second factor and what replaces it: \<open>lib/routes/totp.js\<close>, \<open>lib/routes/recovery-codes.js\<close> and
  \<open>lib/routes/recovery-key.js\<close>. A TOTP code is generated and checked by the package \<open>otplib\<close>, which is a
  parameter, at the time of the request.
\<close>

record otp_service =
  otp_generate :: "string \<Rightarrow> string"
  otp_check :: "string \<Rightarrow> string \<Rightarrow> bool"

text \<open>The code that is generated for a secret checks, at the same time.\<close>

definition otp_ok :: "otp_service \<Rightarrow> bool" where
  "otp_ok G \<longleftrightarrow> (\<forall>secret. otp_check G (otp_generate G secret) secret)"

section \<open>TOTP\<close>

text \<open>
  \<open>POST /totp/create\<close> with the recovery codes and their salts, which are random. An error of the database
  other than an existing token is swallowed.
\<close>

definition replace_totp :: "int \<Rightarrow> string \<Rightarrow> string \<Rightarrow> auth_db \<Rightarrow> (auth_error + unit) \<times> auth_db" where
  "replace_totp now uid secret db =
     (case createTotpToken now uid secret 0 db of
        Inr db \<Rightarrow> (Inr (), db)
      | Inl e \<Rightarrow>
          if e = TotpTokenAlreadyExists
          then if hasTotpToken uid db then (Inl e, db)
               else let db = deleteTotpToken now uid db
                    in attempt (and_then (createTotpToken now uid secret 0 db) (\<lambda>db. Inr ((), db))) db
          else (Inr (), db))"

definition totp_create ::
  "crypto \<Rightarrow> bool \<Rightarrow> int \<Rightarrow> string \<Rightarrow> (string \<times> buffer) list \<Rightarrow> session_token \<Rightarrow> auth_db \<Rightarrow>
     (auth_error + string \<times> string list) \<times> auth_db" where
  "totp_create C customs_ok now secret codes t db =
     (case tk_uid t of None \<Rightarrow> (Inl UnknownAuthAccount, db)
      | Some uid \<Rightarrow>
          then_st (and_then (require customs_ok CustomsBlocked) (\<lambda>_.
                   require (st_tokenVerificationId t = None) UnverifiedSession), db) (\<lambda>_ db.
          then_st (replace_totp now uid secret db) (\<lambda>_ db.
          then_st (updateRecoveryCodes C uid codes db) (\<lambda>_ db.
          (Inr (secret, map fst codes), db)))))"

text \<open>\<open>POST /totp/destroy\<close>: any verified session will do; it is downgraded to the mailbox.\<close>

definition totp_destroy :: "bool \<Rightarrow> int \<Rightarrow> session_token \<Rightarrow> auth_db \<Rightarrow> (auth_error + unit) \<times> auth_db" where
  "totp_destroy customs_ok now t db =
     (case tk_uid t of None \<Rightarrow> (Inl UnknownAuthAccount, db)
      | Some uid \<Rightarrow>
          then_st (and_then (require customs_ok CustomsBlocked) (\<lambda>_. require (st_tokenVerified t) UnverifiedSession), db)
            (\<lambda>_ db.
          let db = deleteTotpToken now uid db
          in attempt (and_then (verifyTokensWithMethod now (tk_id t) (map_of VERIFICATION_METHOD ''email-2fa'') db)
               (\<lambda>db. Inr ((), db))) db))"

text \<open>\<open>POST /session/verify/totp\<close>; the first code that fits enables the token.\<close>

definition totp_verify ::
  "otp_service \<Rightarrow> bool \<Rightarrow> int \<Rightarrow> session_token \<Rightarrow> string \<Rightarrow> auth_db \<Rightarrow> (auth_error + bool) \<times> auth_db" where
  "totp_verify G customs_ok now t code db =
     (case tk_uid t of None \<Rightarrow> (Inl UnknownAuthAccount, db)
      | Some uid \<Rightarrow>
          then_st (and_then (require customs_ok CustomsBlocked) (\<lambda>_. totpToken uid db), db) (\<lambda>totp db.
          if \<not> otp_check G code (to_sharedSecret totp) then (and_then (account uid db) (\<lambda>_. Inr False), db)
          else
            then_st (if to_verified totp then (Inr (), db)
                     else attempt (and_then (updateTotpToken now uid True True db) (\<lambda>db. Inr ((), db))) db) (\<lambda>_ db.
            then_st (authenticatorAssuranceLevel t, db) (\<lambda>aal db.
            then_st (if aal \<le> 1
                     then attempt (and_then (verifyTokensWithMethod now (tk_id t)
                            (map_of VERIFICATION_METHOD ''totp-2fa'') db) (\<lambda>db. Inr ((), db))) db
                     else (Inr (), db)) (\<lambda>_ db.
            (and_then (account uid db) (\<lambda>_. Inr True), db))))))"

section \<open>Recovery codes\<close>

text \<open>\<open>GET\<close> and \<open>PUT /recoveryCodes\<close>: the codes are generated, or those of the payload.\<close>

definition put_recovery_codes ::
  "crypto \<Rightarrow> (string \<times> buffer) list \<Rightarrow> session_token \<Rightarrow> auth_db \<Rightarrow> (auth_error + unit) \<times> auth_db" where
  "put_recovery_codes C codes t db =
     (case tk_uid t of None \<Rightarrow> (Inl UnknownAuthAccount, db)
      | Some uid \<Rightarrow>
          then_st (and_then (authenticatorAssuranceLevel t) (\<lambda>aal. require (aal > 1) UnverifiedSession), db)
            (\<lambda>_ db. updateRecoveryCodes C uid codes db))"

text \<open>\<open>POST /session/verify/recoveryCode\<close>, with the number of the codes that are left.\<close>

definition verify_recovery_code ::
  "crypto \<Rightarrow> bool \<Rightarrow> int \<Rightarrow> session_token \<Rightarrow> string \<Rightarrow> auth_db \<Rightarrow> (auth_error + nat) \<times> auth_db" where
  "verify_recovery_code C customs_ok now t code db =
     (case tk_uid t of None \<Rightarrow> (Inl UnknownAuthAccount, db)
      | Some uid \<Rightarrow>
          then_st (require customs_ok CustomsBlocked, db) (\<lambda>_ db.
          then_st (attempt (consumeRecoveryCode C uid code db) db) (\<lambda>remaining db.
          then_st (if st_tokenVerificationId t \<noteq> None
                   then attempt (and_then (verifyTokensWithMethod now (tk_id t)
                          (map_of VERIFICATION_METHOD ''recovery-code'') db) (\<lambda>db. Inr ((), db))) db
                   else (Inr (), db)) (\<lambda>_ db.
          (and_then (account uid db) (\<lambda>_. Inr remaining), db)))))"

section \<open>Recovery keys\<close>

definition recoveryKeyExists :: "string \<Rightarrow> auth_db \<Rightarrow> bool" where
  "recoveryKeyExists uid db \<longleftrightarrow> length (filter (\<lambda>k. rk_uid k = uid \<and> rk_enabled k) (recoveryKeys db)) = 1"

text \<open>\<open>POST /recoveryKey\<close>: a key that was never enabled is replaced.\<close>

definition create_recovery_key ::
  "crypto \<Rightarrow> int \<Rightarrow> session_token \<Rightarrow> string \<Rightarrow> string \<Rightarrow> bool \<Rightarrow> auth_db \<Rightarrow> (auth_error + unit) \<times> auth_db" where
  "create_recovery_key C now t recoveryKeyId recoveryData enabled db =
     (case tk_uid t of None \<Rightarrow> (Inl UnknownAuthAccount, db)
      | Some uid \<Rightarrow>
          then_st (require (st_tokenVerificationId t = None) UnverifiedSession, db) (\<lambda>_ db.
          (case createRecoveryKey C now uid recoveryKeyId recoveryData enabled db of
             Inr db \<Rightarrow> (Inr (), db)
           | Inl e \<Rightarrow>
               if e \<noteq> RecoveryKeyExists \<or> recoveryKeyExists uid db then (Inl e, db)
               else let db = deleteRecoveryKey uid db
                    in attempt (and_then (createRecoveryKey C now uid recoveryKeyId recoveryData enabled db)
                         (\<lambda>db. Inr ((), db))) db)))"

text \<open>\<open>POST /recoveryKey/verify\<close> enables a key, \<open>GET /recoveryKey/{recoveryKeyId}\<close> returns what it protects.\<close>

definition verify_recovery_key ::
  "crypto \<Rightarrow> bool \<Rightarrow> int \<Rightarrow> session_token \<Rightarrow> string \<Rightarrow> auth_db \<Rightarrow> auth_error + auth_db" where
  "verify_recovery_key C customs_ok now t recoveryKeyId db =
     (case tk_uid t of None \<Rightarrow> Inl UnknownAuthAccount
      | Some uid \<Rightarrow>
          and_then (require (st_tokenVerificationId t = None) UnverifiedSession) (\<lambda>_.
          and_then (require customs_ok CustomsBlocked) (\<lambda>_.
          and_then (getRecoveryKey C uid recoveryKeyId db) (\<lambda>k.
          if rk_enabled k then Inr db else updateRecoveryKey C now uid recoveryKeyId True db))))"

definition get_recovery_key ::
  "crypto \<Rightarrow> bool \<Rightarrow> token \<Rightarrow> string \<Rightarrow> auth_db \<Rightarrow> auth_error + string" where
  "get_recovery_key C customs_ok t recoveryKeyId db =
     (case tk_uid t of None \<Rightarrow> Inl UnknownAuthAccount
      | Some uid \<Rightarrow>
          and_then (require customs_ok CustomsBlocked) (\<lambda>_.
          and_then (getRecoveryKey C uid recoveryKeyId db) (\<lambda>k. Inr (rk_recoveryData k))))"

definition delete_recovery_key :: "session_token \<Rightarrow> auth_db \<Rightarrow> auth_error + auth_db" where
  "delete_recovery_key t db =
     (case tk_uid t of None \<Rightarrow> Inl UnknownAuthAccount
      | Some uid \<Rightarrow>
          and_then (require (st_tokenVerificationId t = None) UnverifiedSession) (\<lambda>_.
          Inr (deleteRecoveryKey uid db)))"

end
