(* ===== verification/Auth_Emails.thy ===== *)
theory Auth_Emails
  imports Auth_Factors
begin

text \<open>
  The routes of \<open>lib/routes/emails.js\<close> and \<open>POST /session/resend_code\<close> of \<open>lib/routes/session.js\<close>: links and
  codes that prove access to a mailbox, and the secondary addresses of an account. A mail is the list of
  its addresses with the code in it; only mails with a code are part of the result of a handler. The
  payment and support services that hear of a new primary address are left out.
\<close>

type_synonym code_mail = "string list \<times> string"

definition account_emails :: "string \<Rightarrow> auth_db \<Rightarrow> email_row list" where
  "account_emails uid db = filter (\<lambda>e. em_uid e = uid) (emails db)"

text \<open>
  The addresses of a mail, \<open>splitEmails\<close> in \<open>lib/senders/index.js\<close>: the primary one among those given, or else
  the one of the account, and the verified ones among the others.
\<close>

definition mail_recipients :: "email_row list \<Rightarrow> string \<Rightarrow> string list" where
  "mail_recipients es account_email =
     (case find em_isPrimary (rev es) of
        Some e \<Rightarrow> if em_email e = [] then account_email else em_email e | None \<Rightarrow> account_email)
     # map em_email (filter (\<lambda>e. \<not> em_isPrimary e \<and> em_isVerified e) es)"

section \<open>Codes for the primary address\<close>

text \<open>\<open>POST /session/resend_code\<close>: a user with a TOTP token gets no code.\<close>

definition session_resend_code :: "otp_service \<Rightarrow> session_token \<Rightarrow> auth_db \<Rightarrow> auth_error + code_mail option" where
  "session_resend_code G t db =
     (case tk_uid t of None \<Rightarrow> Inl UnknownAuthAccount
      | Some uid \<Rightarrow>
          if hasTotpToken uid db then Inr None
          else and_then (account uid db) (\<lambda>(a, e).
            (case e of None \<Rightarrow> Inl JsTypeError
             | Some e \<Rightarrow> Inr (Some (mail_recipients (if em_isVerified e then account_emails uid db else []) (ac_email a),
                 otp_generate G (em_emailCode e))))))"

text \<open>
  \<open>POST /recovery_email/resend_code\<close>, with the address of the payload. The code is that of the address, of the
  session, or of the account, in this order.
\<close>

definition email_resend_code ::
  "bool \<Rightarrow> session_token \<Rightarrow> string option \<Rightarrow> auth_db \<Rightarrow> auth_error + code_mail option" where
  "email_resend_code customs_ok t email db =
     (case tk_uid t of None \<Rightarrow> Inl UnknownAuthAccount
      | Some uid \<Rightarrow>
          if st_emailVerified t \<and> st_tokenVerified t \<and> truthy_string email = None then Inr None
          else and_then (require customs_ok CustomsBlocked) (\<lambda>_.
            let mine = (case st_email t of Some m \<Rightarrow> m | None \<Rightarrow> [])
            in (case truthy_string email of
               Some email \<Rightarrow>
                 (case find (\<lambda>e. emailsMatch (em_normalizedEmail e) email) (account_emails uid db) of
                    None \<Rightarrow> Inl CannotResendEmailCodeToUnownedEmail
                  | Some e \<Rightarrow> Inr (if em_isVerified e then None else Some (mail_recipients [e] mine, em_emailCode e)))
             | None \<Rightarrow>
                 (case st_tokenVerificationId t of
                    Some code \<Rightarrow>
                      Inr (if hasTotpToken uid db then None
                           else Some (mail_recipients (account_emails uid db) mine, code))
                  | None \<Rightarrow> Inr (Some (mail_recipients [] mine, case st_emailCode t of Some c \<Rightarrow> c | None \<Rightarrow> []))))))"

text \<open>
  \<open>POST /recovery_email/verify_code\<close>, without authentication: the code is that of a session or that of the
  account. Either verifies an account that is not yet verified.
\<close>

definition email_verify_code :: "bool \<Rightarrow> int \<Rightarrow> string \<Rightarrow> string \<Rightarrow> auth_db \<Rightarrow> auth_error + auth_db" where
  "email_verify_code customs_ok now uid code db =
     and_then (account uid db) (\<lambda>(a, e).
     and_then (require customs_ok CustomsBlocked) (\<lambda>_.
     let isAccountVerification = buffersAreEqual (from_hex code) (from_hex (ac_emailCode a))
     in and_then (case verifyTokens code (ac_uid a) db of
            Inr db \<Rightarrow> Inr db
          | Inl err \<Rightarrow> if isAccountVerification then Inr db else Inl err) (\<lambda>db.
        if ac_emailVerified a then Inr db
        else case e of None \<Rightarrow> Inl JsTypeError | Some e \<Rightarrow> Inr (verifyEmail now (ac_uid a) (em_emailCode e) db))))"

section \<open>Secondary addresses\<close>

definition MAX_SECONDARY_EMAILS :: nat where
  "MAX_SECONDARY_EMAILS = 3"

text \<open>
  \<open>deleteAccountIfUnverified\<close> of \<open>POST /recovery_email\<close>: an account that never verified the address gives it up
  after a while, another user who added it without verification gives it up at once.
\<close>

definition release_email ::
  "(string \<Rightarrow> bool) \<Rightarrow> int \<Rightarrow> int \<Rightarrow> string \<Rightarrow> string \<Rightarrow> auth_db \<Rightarrow> auth_error + auth_db" where
  "release_email hasActiveSubscription minUnverifiedAccountTime now uid email db =
     (case getSecondaryEmail email db of
        Inl _ \<Rightarrow> Inr db
      | Inr r \<Rightarrow>
          if em_isPrimary r
          then if em_isVerified r then Inl VerifiedPrimaryEmailAlreadyExists
               else let exceeds = now - em_createdAt r \<ge> minUnverifiedAccountTime
                    in if exceeds \<and> \<not> hasActiveSubscription (em_uid r) then Inr (deleteAccount (em_uid r) db)
                       else if \<not> exceeds then Inl UnverifiedPrimaryEmailNewlyCreated
                       else Inl UnverifiedPrimaryEmailHasActiveSubscription
          else if \<not> em_isVerified r \<and> \<not> buffersAreEqual (from_hex (em_uid r)) (from_hex uid)
          then deleteEmail now (em_uid r) (em_email r) db
          else Inr db)"

definition email_create ::
  "otp_service \<Rightarrow> bool \<Rightarrow> (string \<Rightarrow> bool) \<Rightarrow> int \<Rightarrow> int \<Rightarrow> string \<Rightarrow> session_token \<Rightarrow> string \<Rightarrow> auth_db \<Rightarrow>
     (auth_error + code_mail) \<times> auth_db" where
  "email_create G customs_ok hasActiveSubscription minUnverifiedAccountTime now hex t email db =
     (case tk_uid t of None \<Rightarrow> (Inl UnknownAuthAccount, db)
      | Some uid \<Rightarrow>
          then_st (and_then (require customs_ok CustomsBlocked) (\<lambda>_.
                   and_then (account uid db) (\<lambda>_.
                   and_then (require (length (filter (\<lambda>e. \<not> em_isPrimary e) (account_emails uid db)) < MAX_SECONDARY_EMAILS)
                     MaxSecondaryEmailsReached) (\<lambda>_.
                   and_then (case st_email t of None \<Rightarrow> Inl JsTypeError
                             | Some mine \<Rightarrow> require (\<not> emailsMatch mine email) YourPrimaryEmailExists) (\<lambda>_.
                   and_then (require (email \<notin> em_email ` set (account_emails uid db)) AlreadyOwnsEmail) (\<lambda>_.
                   and_then (require (st_emailVerified t) UnverifiedAccount) (\<lambda>_.
                   require (st_tokenVerificationId t = None) UnverifiedSession)))))), db) (\<lambda>_ db.
          then_st (attempt (and_then (release_email hasActiveSubscription minUnverifiedAccountTime now uid email db)
                     (\<lambda>db. Inr ((), db))) db) (\<lambda>_ db.
          then_st (attempt (and_then (createEmail now uid (toLowerCase email) email hex False None db)
                     (\<lambda>db. Inr ((), db))) db) (\<lambda>_ db.
          (Inr ([email], otp_generate G hex), db)))))"

definition email_destroy :: "bool \<Rightarrow> int \<Rightarrow> session_token \<Rightarrow> string \<Rightarrow> auth_db \<Rightarrow> auth_error + auth_db" where
  "email_destroy customs_ok now t email db =
     (case tk_uid t of None \<Rightarrow> Inl UnknownAuthAccount
      | Some uid \<Rightarrow>
          and_then (require customs_ok CustomsBlocked) (\<lambda>_.
          and_then (account uid db) (\<lambda>_.
          and_then (require (st_tokenVerificationId t = None) UnverifiedSession) (\<lambda>_.
          and_then (deleteEmail now uid (toLowerCase email) db) (\<lambda>db.
          Inr (resetAccountTokens uid db))))))"

text \<open>\<open>POST /recovery_email/set_primary\<close>, on a connection with the given value of its variable.\<close>

definition email_set_primary ::
  "bool \<Rightarrow> int \<Rightarrow> string option \<Rightarrow> session_token \<Rightarrow> string \<Rightarrow> auth_db \<Rightarrow> auth_error + auth_db" where
  "email_set_primary customs_ok now foundEmail t newEmail db =
     (case tk_uid t of None \<Rightarrow> Inl UnknownAuthAccount
      | Some uid \<Rightarrow>
          and_then (require customs_ok CustomsBlocked) (\<lambda>_.
          and_then (require (st_tokenVerificationId t = None) UnverifiedSession) (\<lambda>_.
          and_then (require (case st_verifierSetAt t of Some v \<Rightarrow> v > 0 | None \<Rightarrow> True) UnverifiedAccount) (\<lambda>_.
          and_then (getSecondaryEmail newEmail db) (\<lambda>r.
          and_then (require (em_uid r = uid) CannotChangeEmailToUnownedEmail) (\<lambda>_.
          and_then (require (em_isVerified r) CannotChangeEmailToUnverifiedEmail) (\<lambda>_.
          if em_isPrimary r then Inr db
          else snd (setPrimaryEmail now foundEmail uid (em_normalizedEmail r) db))))))))"

text \<open>
  \<open>POST /recovery_email/secondary/resend_code\<close> and \<open>verify_code\<close>: the address is looked up among all the
  addresses of the user.
\<close>

definition secondary_resend_code ::
  "otp_service \<Rightarrow> bool \<Rightarrow> session_token \<Rightarrow> string \<Rightarrow> auth_db \<Rightarrow> auth_error + code_mail" where
  "secondary_resend_code G customs_ok t email db =
     (case tk_uid t of None \<Rightarrow> Inl UnknownAuthAccount
      | Some uid \<Rightarrow>
          and_then (require customs_ok CustomsBlocked) (\<lambda>_.
          and_then (account uid db) (\<lambda>_.
          (case find (\<lambda>e. emailsMatch (em_normalizedEmail e) email) (account_emails uid db) of
             None \<Rightarrow> Inl CannotResendEmailCodeToUnownedEmail
           | Some e \<Rightarrow> Inr ([em_email e], otp_generate G (em_emailCode e))))))"

definition secondary_verify_code ::
  "otp_service \<Rightarrow> bool \<Rightarrow> int \<Rightarrow> session_token \<Rightarrow> string \<Rightarrow> string \<Rightarrow> auth_db \<Rightarrow> auth_error + auth_db" where
  "secondary_verify_code G customs_ok now t email code db =
     (case tk_uid t of None \<Rightarrow> Inl UnknownAuthAccount
      | Some uid \<Rightarrow>
          and_then (require customs_ok CustomsBlocked) (\<lambda>_.
          and_then (account uid db) (\<lambda>(a, _).
          (case find (\<lambda>e. emailsMatch (em_normalizedEmail e) email) (account_emails uid db) of
             None \<Rightarrow> Inl InvalidCode
           | Some e \<Rightarrow>
               and_then (require (otp_check G code (em_emailCode e)) InvalidCode) (\<lambda>_.
               Inr (if em_isVerified e then db else verifyEmail now (ac_uid a) (em_emailCode e) db))))))"

end
