(* ===== verification/Auth_Password.thy ===== *)
theory Auth_Password
  imports Auth_Signin
begin

text \<open>
  The routes of \<open>lib/routes/password.js\<close> that change a password the user knows or that create a first one.
\<close>

section \<open>Changing a password\<close>

text \<open>\<open>POST /password/change/start\<close>: the old password gives the keys and a token for the change.\<close>

definition change_start ::
  "crypto \<Rightarrow> auth_config \<Rightarrow> scrypt_state \<Rightarrow> bool \<Rightarrow> int \<Rightarrow> buffer \<Rightarrow> buffer \<Rightarrow> string \<Rightarrow> string \<Rightarrow> auth_db \<Rightarrow>
     auth_error + (key_fetch_token \<times> token) \<times> auth_db" where
  "change_start C cfg sc customs_ok now bytes bytes' email oldAuthPW db =
     and_then (require customs_ok CustomsBlocked) (\<lambda>_.
     and_then (accountRecord email db) (\<lambda>(a, _).
     and_then (new_Password C sc oldAuthPW (ac_authSalt a) (Some (ac_verifierVersion a))) (\<lambda>password.
     and_then (signin_checkPassword C a password db) (\<lambda>match.
     and_then (require match IncorrectPassword) (\<lambda>_.
     and_then (unwrap C password (ac_wrapWrapKb a)) (\<lambda>wrapKb.
     and_then (createKeyFetchToken C now bytes (ac_uid a) (ac_kA a) wrapKb (ac_emailVerified a) None db) (\<lambda>(k, db).
     let (t, db) = createPasswordChangeToken C cfg now bytes' (ac_uid a) db in Inr ((k, t), db))))))))"

record change_request =
  cg_authPW :: string
  cg_wrapKb :: string
  cg_sessionToken :: "string option"
  cg_keys :: bool
  cg_ua :: ua_info

text \<open>
  \<open>checkTotpToken\<close> and \<open>getSessionVerificationStatus\<close> of \<open>POST /password/change/finish\<close>: the session that the
  payload names, if it names one.
\<close>

definition change_session ::
  "crypto \<Rightarrow> auth_config \<Rightarrow> int \<Rightarrow> string \<Rightarrow> string option \<Rightarrow> auth_db \<Rightarrow> auth_error + session_token option" where
  "change_session C cfg now uid sessionTokenId db =
     (let hasTotp = hasTotpToken uid db
      in case truthy_string sessionTokenId of
           None \<Rightarrow> if hasTotp then Inl UnverifiedSession else Inr None
         | Some i \<Rightarrow>
             and_then (sessionToken C cfg now i db) (\<lambda>t.
             if hasTotp
             then and_then (authenticatorAssuranceLevel t) (\<lambda>aal.
                  and_then (require (aal > 1) UnverifiedSession) (\<lambda>_. Inr (Some t)))
             else Inr (Some t)))"

text \<open>
  \<open>changePassword\<close>: the token is deleted before the hash is awaited; only a version that does not exist fails
  earlier.
\<close>

definition changePassword ::
  "crypto \<Rightarrow> auth_config \<Rightarrow> scrypt_state \<Rightarrow> int \<Rightarrow> string \<Rightarrow> string \<Rightarrow> string \<Rightarrow> change_request \<Rightarrow> auth_db \<Rightarrow>
     (auth_error + unit) \<times> auth_db" where
  "changePassword C cfg sc now tokenId uid authSalt q db =
     (let deleted = deletePasswordChangeToken tokenId db
      in case new_Password C sc (cg_authPW q) authSalt (Some (cfg_verifierVersion cfg)) of
           Inl e \<Rightarrow> (Inl e, if e = UnknownHashVersion then db else deleted)
         | Inr password \<Rightarrow>
             then_st (unwrap C password (cg_wrapKb q), deleted) (\<lambda>wrapWrapKb db.
             (Inr (), resetAccount now uid
                \<lparr> rd_verifyHash = verifyHash C password, rd_authSalt = authSalt, rd_wrapWrapKb = wrapWrapKb,
                  rd_verifierVersion = pw_version password, rd_keysHaveChanged = False \<rparr> db)))"

text \<open>\<open>createSessionToken\<close>, \<open>verifySessionToken\<close> and \<open>createKeyFetchToken\<close> on the tables of the auth server.\<close>

definition change_tokens ::
  "crypto \<Rightarrow> auth_config \<Rightarrow> int \<Rightarrow> reset_random \<Rightarrow> change_request \<Rightarrow> session_token option \<Rightarrow> account_row \<Rightarrow> auth_db \<Rightarrow>
     (auth_error + session_token \<times> key_fetch_token option) \<times> auth_db" where
  "change_tokens C cfg now rnd q previous a db =
     (let verifiedStatus = (case previous of Some p \<Rightarrow> st_tokenVerified p | None \<Rightarrow> False);
          maybeToken = (if verifiedStatus then None else Some (rn_tokenVerificationId rnd))
      in then_st (attempt (createSessionToken C cfg now (rn_session rnd)
             (signin_details (cg_ua q) (ac_uid a) (ac_email a) (ac_emailCode a) (ac_emailVerified a)
               (ac_verifierSetAt a) (cg_keys q) maybeToken) db) db) (\<lambda>t db.
         then_st (attempt (case previous of
               Some p \<Rightarrow> (case st_verificationMethodValue p of
                   Some m \<Rightarrow> and_then (verifyTokensWithMethod now (tk_id t) (map_of VERIFICATION_METHOD m) db)
                     (\<lambda>db. Inr ((), db))
                 | None \<Rightarrow> Inr ((), db))
             | None \<Rightarrow> Inr ((), db)) db) (\<lambda>_ db.
         then_st (if cg_keys q
              then attempt (and_then (createKeyFetchToken C now (rn_keyFetch rnd) (ac_uid a) (ac_kA a) (cg_wrapKb q)
                     (ac_emailVerified a) None db) (\<lambda>(k, db). Inr (Some k, db))) db
              else (Inr None, db)) (\<lambda>k db. (Inr (t, k), db)))))"

text \<open>\<open>POST /password/change/finish\<close>, with the token that authenticates the request.\<close>

definition change_finish ::
  "crypto \<Rightarrow> auth_config \<Rightarrow> scrypt_state \<Rightarrow> int \<Rightarrow> reset_random \<Rightarrow> token \<Rightarrow> change_request \<Rightarrow> stores \<Rightarrow>
     (auth_error + session_token \<times> key_fetch_token option) \<times> stores" where
  "change_finish C cfg sc now rnd t q s =
     (case tk_uid t of None \<Rightarrow> (Inl UnknownAuthAccount, s)
      | Some uid \<Rightarrow>
          then_st (change_session C cfg now uid (cg_sessionToken q) (fst s), s) (\<lambda>previous s.
          then_st (case changePassword C cfg sc now (tk_id t) uid (rn_authSalt rnd) q (fst s) of
                     (r, db) \<Rightarrow> (r, (db, snd s))) (\<lambda>_ s.
          then_st (account uid (fst s), s) (\<lambda>(a, _) s.
          (case change_tokens C cfg now rnd q previous a (fst s) of
             (r, db) \<Rightarrow> (r, (db, removePublicAndCanGrantTokens now uid (snd s))))))))"

section \<open>Creating a password\<close>

text \<open>\<open>POST /password/create\<close>, for an account that has none.\<close>

definition password_create ::
  "crypto \<Rightarrow> auth_config \<Rightarrow> scrypt_state \<Rightarrow> int \<Rightarrow> reset_random \<Rightarrow> session_token \<Rightarrow> string \<Rightarrow> auth_db \<Rightarrow> auth_error + auth_db" where
  "password_create C cfg sc now rnd t authPW db =
     (case tk_uid t of None \<Rightarrow> Inl UnknownAuthAccount
      | Some uid \<Rightarrow>
          and_then (account uid db) (\<lambda>(a, _).
          and_then (require (\<not> ac_verifierSetAt a > 0) CannotCreatePassword) (\<lambda>_.
          and_then
            (if hasTotpToken uid db
             then and_then (require (st_tokenVerificationId t = None) UnverifiedSession) (\<lambda>_.
                  and_then (authenticatorAssuranceLevel t) (\<lambda>aal. require (aal > 1) UnverifiedSession))
             else Inr ()) (\<lambda>_.
          and_then (new_Password C sc authPW (rn_authSalt rnd) (Some (cfg_verifierVersion cfg))) (\<lambda>password.
          Inr (createPassword now uid (rn_authSalt rnd) (verifyHash C password) (rn_wrapWrapKb rnd)
                 (cfg_verifierVersion cfg) db))))))"

end
