(* ===== verification/Auth_Flow_Laws.thy ===== *)
theory Auth_Flow_Laws
  imports Session_Guarantees Auth_Password Auth_Emails
begin

text \<open>
  What the properties of the flows share: the steps of a handler, passwords that are stretched again, the
  keys that a client gets out of a key-fetch token, and what each step leaves alone.
\<close>

section \<open>Steps\<close>

named_theorems flow

lemma then_st_Inr [flow]: "then_st r f = (Inr y, s') \<longleftrightarrow> (\<exists>x s. r = (Inr x, s) \<and> f x s = (Inr y, s'))"
  by (auto simp: then_st_def split: prod.splits sum.splits)

lemma then_st_simps [simp]: "then_st (Inr x, s) f = f x s" "then_st (Inl e, s) f = (Inl e, s)"
  by (simp_all add: then_st_def)

lemma attempt_Inr [flow]: "attempt r s = (Inr x, s') \<longleftrightarrow> r = Inr (x, s')"
  by (auto simp: attempt_def split: sum.splits)

lemma attempt_simps [simp]: "attempt (Inr (x, s')) s = (Inr x, s')" "attempt (Inl e) s = (Inl e, s)"
  by (simp_all add: attempt_def)

lemma case_pair_Inr [flow]: "(case p of (r, db) \<Rightarrow> (r, (db, ts))) = (Inr y, s') \<longleftrightarrow> (\<exists>db. p = (Inr y, db) \<and> s' = (db, ts))"
  by (cases p) auto

lemmas [flow] = and_then_Inr require_Inr

section \<open>Passwords\<close>

lemma new_Password_version: "new_Password C s pw salt (Some v) = Inr p \<Longrightarrow> pw_version p = v"
  by (auto simp: new_Password_def and_then_Inr)

text \<open>The same password, salt and version stretch to the same key.\<close>

lemma new_Password_again:
  "new_Password C s pw salt (Some v) = Inr p \<Longrightarrow> scrypt_begin s' = Inr s'' \<Longrightarrow> new_Password C s' pw salt (Some v) = Inr p"
  by (auto simp: new_Password_def hashVersions_def scrypt_hash_def and_then_Inr split: if_splits)

lemma unwrap_Inr:
  "crypto_ok C \<Longrightarrow> unwrap C p w = Inr x \<longleftrightarrow>
    length (from_hex w) = 32 \<and> x = toString_hex (map2 (XOR) (hkdf C (pw_stretched p) ''wrapwrapKey'' 32) (from_hex w))"
  by (auto simp: unwrap_def and_then_Inr xorBuffers_Inr hkdf_def crypto_ok_def)

lemma unwrap_twice:
  assumes "crypto_ok C" "unwrap C p w = Inr x"
  shows "unwrap C p x = Inr (toString_hex (from_hex w))" "length (from_hex w) = 32" "length (from_hex x) = 32"
proof -
  let ?k = "hkdf C (pw_stretched p) ''wrapwrapKey'' 32"
  have k: "length ?k = 32" using assms(1) by (simp add: hkdf_def crypto_ok_def)
  have w: "length (from_hex w) = 32" "from_hex x = map2 (XOR) ?k (from_hex w)"
    using assms by (auto simp: unwrap_Inr)
  have "map2 (XOR) ?k (map2 (XOR) ?k (from_hex w)) = from_hex w"
    using xor_cancel [of "from_hex w" ?k] k w(1) by (simp add: map2_xor_commute)
  then show "unwrap C p x = Inr (toString_hex (from_hex w))" using assms(1) k w by (simp add: unwrap_Inr)
  show "length (from_hex w) = 32" "length (from_hex x) = 32" using k w by simp_all
qed

section \<open>The keys of a client\<close>

text \<open>A client derives the key of the bundle from the seed of its token and opens what the server sends.\<close>

definition client_keys :: "crypto \<Rightarrow> key_fetch_token \<Rightarrow> auth_error + string \<times> string" where
  "client_keys C k = unbundleKeys C (the (tk_bundleKey k)) (the (kf_keyBundle k))"

lemma unbundle_bundled:
  assumes "crypto_ok C" "Bundle_bundle C key info b = Inr t"
  shows "Bundle_unbundle C key info t = Inr (toString_hex b)"
proof -
  let ?keys = "deriveBundleKeys C (from_hex key) info (length b)"
  let ?c = "map2 (XOR) b (xorKey ?keys)"
  have l: "length b = length (xorKey ?keys)" using derived_lengths(1) [OF assms(1)] by simp
  then have "length ?c = length b" by simp
  moreover have "from_hex t = ?c @ cr_hmac C (hmacKey ?keys) ?c" using assms by (auto simp: bundle_Inr Let_def)
  ultimately show ?thesis
    unfolding unbundle_Inr [OF assms(1)] using xor_cancel [OF l] by (intro exI [of _ ?c]) (simp add: Let_def)
qed

lemma KeyFetchToken_create_Inr:
  "KeyFetchToken_create C now bytes u kA wrapKb ev v = Inr k \<longleftrightarrow>
    (\<exists>b. bundleKeys C (the (k_bundleKey (deriveTokenKeys C ''keyFetchToken'' bytes))) kA wrapKb = Inr b \<and>
      k = (new_KeyFetchToken (deriveTokenKeys C ''keyFetchToken'' bytes) (Some u) (Some now) None ev v)\<lparr> kf_keyBundle := Some b \<rparr>)"
  by (auto simp: KeyFetchToken_create_def Let_def and_then_Inr new_KeyFetchToken_def new_Token_def)

lemma client_keys_created:
  assumes "crypto_ok C" "KeyFetchToken_create C now bytes u kA wrapKb ev v = Inr k"
    "length (from_hex kA) = 32" "length (from_hex wrapKb) = 32"
  shows "client_keys C k = Inr (toString_hex (from_hex kA), toString_hex (from_hex wrapKb))"
proof -
  obtain b where b: "bundleKeys C (the (k_bundleKey (deriveTokenKeys C ''keyFetchToken'' bytes))) kA wrapKb = Inr b"
    "k = (new_KeyFetchToken (deriveTokenKeys C ''keyFetchToken'' bytes) (Some u) (Some now) None ev v)\<lparr> kf_keyBundle := Some b \<rparr>"
    using assms(2) by (auto simp: KeyFetchToken_create_Inr)
  then have k: "tk_bundleKey k = k_bundleKey (deriveTokenKeys C ''keyFetchToken'' bytes)" "kf_keyBundle k = Some b"
    by (simp_all add: new_KeyFetchToken_def new_Token_def Let_def)
  have "Bundle_unbundle C (the (tk_bundleKey k)) ''account/keys'' b = Inr (toString_hex (from_hex kA @ from_hex wrapKb))"
    using unbundle_bundled [OF assms(1)] b(1) k(1) by (simp add: bundleKeys_def)
  then show ?thesis
    using assms(3,4) by (simp add: client_keys_def unbundleKeys_def k(2) toString_hex_append)
qed

lemma bundleKeys_total: "crypto_ok C \<Longrightarrow> \<exists>b. bundleKeys C key kA wrapKb = Inr b"
  by (simp add: bundleKeys_def bundle_Inr Let_def)

text \<open>A key-fetch token is created unless its id is taken.\<close>

lemma createKeyFetchToken_total:
  assumes "crypto_ok C" "i = k_id (deriveTokenKeys C ''keyFetchToken'' bytes)"
    "i \<notin> kr_tokenId ` set (keyFetchTokens db)" "truthy_string v \<noteq> None \<longrightarrow> i \<notin> un_tokenId ` set (unverifiedTokens db)"
  shows "\<exists>k db'. createKeyFetchToken C now bytes u kA wrapKb ev v db = Inr (k, db')"
proof -
  obtain b where b: "bundleKeys C (the (k_bundleKey (deriveTokenKeys C ''keyFetchToken'' bytes))) kA wrapKb = Inr b"
    using bundleKeys_total [OF assms(1)] by blast
  define k where "k = (new_KeyFetchToken (deriveTokenKeys C ''keyFetchToken'' bytes) (Some u) (Some now) None ev v)
    \<lparr> kf_keyBundle := Some b \<rparr>"
  have "KeyFetchToken_create C now bytes u kA wrapKb ev v = Inr k" using b by (simp add: KeyFetchToken_create_Inr k_def)
  moreover have "tk_id k = i" "kf_tokenVerificationId k = truthy_string v"
    by (simp_all add: k_def new_KeyFetchToken_def new_Token_def Let_def assms(2))
  ultimately show ?thesis using assms(3,4) by (auto simp: createKeyFetchToken_Inr createKeyFetchToken_2_Inr)
qed

section \<open>What a step leaves alone\<close>

lemma kept_createSessionToken:
  assumes "createSessionToken C cfg now bytes d db = Inr (t, db')"
  shows "accounts db' = accounts db" "emails db' = emails db" "totp db' = totp db" "devices db' = devices db"
    "keyFetchTokens db' = keyFetchTokens db" "recoveryKeys db' = recoveryKeys db"
    "passwordForgotTokens db' = passwordForgotTokens db" "passwordChangeTokens db' = passwordChangeTokens db"
    "accountResetTokens db' = accountResetTokens db"
  using assms by (auto simp: createSessionToken_Inr createSessionToken_9_Inr)

lemma kept_createKeyFetchToken:
  assumes "createKeyFetchToken C now bytes u kA wrapKb ev v db = Inr (k, db')"
  shows "accounts db' = accounts db" "emails db' = emails db" "totp db' = totp db" "devices db' = devices db"
    "sessionTokens db' = sessionTokens db" "recoveryKeys db' = recoveryKeys db"
    "passwordForgotTokens db' = passwordForgotTokens db" "passwordChangeTokens db' = passwordChangeTokens db"
    "accountResetTokens db' = accountResetTokens db"
  using assms by (auto simp: createKeyFetchToken_Inr createKeyFetchToken_2_Inr)

lemma kept_verifyToken_3 [simp]:
  "accounts (verifyToken_3 v u db) = accounts db" "emails (verifyToken_3 v u db) = emails db"
  "totp (verifyToken_3 v u db) = totp db" "devices (verifyToken_3 v u db) = devices db"
  "sessionTokens (verifyToken_3 v u db) = sessionTokens db" "keyFetchTokens (verifyToken_3 v u db) = keyFetchTokens db"
  "recoveryKeys (verifyToken_3 v u db) = recoveryKeys db"
  "passwordChangeTokens (verifyToken_3 v u db) = passwordChangeTokens db"
  by (simp_all add: verifyToken_3_def)

lemma kept_verifyTokensWithMethod:
  assumes "verifyTokensWithMethod now i m db = Inr db'"
  shows "accounts db' = accounts db" "emails db' = emails db" "totp db' = totp db" "devices db' = devices db"
    "keyFetchTokens db' = keyFetchTokens db" "recoveryKeys db' = recoveryKeys db"
    "passwordChangeTokens db' = passwordChangeTokens db"
  using assms by (auto simp: verifyTokensWithMethod_Inr Let_def split: option.splits)

lemma kept_securityEvent [simp]:
  "accounts (securityEvent now u n h i db) = accounts db" "emails (securityEvent now u n h i db) = emails db"
  "totp (securityEvent now u n h i db) = totp db" "devices (securityEvent now u n h i db) = devices db"
  "sessionTokens (securityEvent now u n h i db) = sessionTokens db"
  "unverifiedTokens (securityEvent now u n h i db) = unverifiedTokens db"
  "keyFetchTokens (securityEvent now u n h i db) = keyFetchTokens db"
  "recoveryKeys (securityEvent now u n h i db) = recoveryKeys db"
  "passwordForgotTokens (securityEvent now u n h i db) = passwordForgotTokens db"
  "passwordChangeTokens (securityEvent now u n h i db) = passwordChangeTokens db"
  "accountResetTokens (securityEvent now u n h i db) = accountResetTokens db"
  by (simp_all add: securityEvent_def Let_def)

lemma find_map: "find P (map f xs) = map_option f (find (\<lambda>x. P (f x)) xs)"
  by (induction xs) auto

text \<open>The account of an address is found again when rows of accounts change but not their keys.\<close>

lemma accountRecord_map:
  assumes "accounts db' = map f (accounts db)" "emails db' = emails db"
    "\<And>a. ac_uid (f a) = ac_uid a" "\<And>a. ac_normalizedEmail (f a) = ac_normalizedEmail a"
    "accountRecord email db = Inr (a, e)"
  shows "accountRecord email db' = Inr (f a, e)"
proof -
  have p: "primaryEmail u db' = primaryEmail u db" for u using assms(2) by (simp add: primaryEmail_def)
  have a: "find_account u db' = map_option f (find_account u db)" for u
    using assms(1,3) by (simp add: find_account_def find_map)
  have "accountRecord_9 email db' = map_option f (accountRecord_9 email db)"
    using assms(3) by (auto simp: accountRecord_9_def assms(2) a p split: option.splits)
  then show ?thesis
    using assms(3,5) by (auto simp: accountRecord_def assms(1,4) p find_map split: option.splits)
qed

lemma accountRecord_same:
  "accounts db' = accounts db \<Longrightarrow> emails db' = emails db \<Longrightarrow> accountRecord email db' = accountRecord email db"
  by (simp add: accountRecord_def accountRecord_9_def find_account_def primaryEmail_def cong: option.case_cong)

lemma accountRecord_found:
  "accountRecord email db = Inr (a, e) \<Longrightarrow> a \<in> set (accounts db) \<and> e = primaryEmail (ac_uid a) db"
  by (auto simp: accountRecord_def accountRecord_9_def find_account_def split: option.splits if_splits dest: find_SomeD)

lemma find_snoc: "find P (xs @ [x]) = (case find P xs of None \<Rightarrow> if P x then Some x else None | Some y \<Rightarrow> Some y)"
  by (induction xs) auto

section \<open>New rows\<close>

lemma createSessionToken_total:
  assumes "sd_uid d = Some u" "u \<noteq> []" "fresh_token (k_id (deriveTokenKeys C ''sessionToken'' bytes)) db"
  shows "\<exists>db'. createSessionToken C cfg now bytes d db = Inr (SessionToken_create C cfg now bytes d, db')"
proof -
  have "tk_uid (SessionToken_create C cfg now bytes d) = Some u"
    using assms(1,2) by (simp add: SessionToken_create_def)
  moreover have "tk_id (SessionToken_create C cfg now bytes d) = k_id (deriveTokenKeys C ''sessionToken'' bytes)"
    by (simp add: SessionToken_create_def)
  ultimately show ?thesis
    using assms(3) by (simp add: createSessionToken_Inr createSessionToken_9_Inr fresh_token_def)
qed

lemma created_token [simp]:
  "tk_id (SessionToken_create C cfg now bytes d) = k_id (deriveTokenKeys C ''sessionToken'' bytes)"
  "tk_uid (SessionToken_create C cfg now bytes d) = truthy_string (sd_uid d)"
  "st_tokenVerificationId (SessionToken_create C cfg now bytes d) = truthy_string (sd_tokenVerificationId d)"
  "st_tokenVerified (SessionToken_create C cfg now bytes d) \<longleftrightarrow> truthy_string (sd_tokenVerificationId d) = None"
  "st_mustVerify (SessionToken_create C cfg now bytes d) = sd_mustVerify d"
  "st_emailVerified (SessionToken_create C cfg now bytes d) = sd_emailVerified d"
  by (simp_all add: SessionToken_create_def)

lemma details_fields [simp]:
  "sd_uid (signin_details ua u e c ev va m v) = Some u"
  "sd_tokenVerificationId (signin_details ua u e c ev va m v) = v"
  "sd_mustVerify (signin_details ua u e c ev va m v) = m"
  "sd_emailVerified (signin_details ua u e c ev va m v) = ev"
  by (simp_all add: signin_details_def)

text \<open>What reads back of a key-fetch token that was just created.\<close>

lemma created_key_row:
  assumes "createKeyFetchToken C now bytes u kA wrapKb ev v db = Inr (k, db')" "fresh_token (tk_id k) db"
  shows "find (\<lambda>r. kr_tokenId r = tk_id k) (keyFetchTokens db') =
      Some \<lparr> kr_tokenId = tk_id k, kr_authKey = tk_authKey k, kr_uid = u, kr_keyBundle = the (kf_keyBundle k),
        kr_createdAt = tk_createdAt k \<rparr>"
    "map_option un_tokenVerificationId (find (\<lambda>m. un_tokenId m = tk_id k) (unverifiedTokens db')) =
      kf_tokenVerificationId k"
proof -
  have n: "find (\<lambda>r. kr_tokenId r = tk_id k) (keyFetchTokens db) = None"
    "find (\<lambda>m. un_tokenId m = tk_id k) (unverifiedTokens db) = None"
    using fresh_tokenD [OF assms(2)] by (auto simp: find_None)
  show "find (\<lambda>r. kr_tokenId r = tk_id k) (keyFetchTokens db') =
      Some \<lparr> kr_tokenId = tk_id k, kr_authKey = tk_authKey k, kr_uid = u, kr_keyBundle = the (kf_keyBundle k),
        kr_createdAt = tk_createdAt k \<rparr>"
    using assms(1) n(1) by (simp add: createKeyFetchToken_Inr createKeyFetchToken_2_Inr find_snoc)
  show "map_option un_tokenVerificationId (find (\<lambda>m. un_tokenId m = tk_id k) (unverifiedTokens db')) =
      kf_tokenVerificationId k"
    using assms(1) n(2) by (cases "kf_tokenVerificationId k")
      (simp_all add: createKeyFetchToken_Inr createKeyFetchToken_2_Inr find_snoc)
qed

lemma key_fields [simp]:
  "kf_tokenVerified (new_KeyFetchToken ks u c b ev v) \<longleftrightarrow> truthy_string v = None"
  "kf_tokenVerificationId (new_KeyFetchToken ks u c b ev v) = truthy_string v"
  "kf_emailVerified (new_KeyFetchToken ks u c b ev v) = ev" "kf_keyBundle (new_KeyFetchToken ks u c b ev v) = b"
  "tk_id (new_KeyFetchToken ks u c b ev v) = k_id ks" "tk_bundleKey (new_KeyFetchToken ks u c b ev v) = k_bundleKey ks"
  by (simp_all add: new_KeyFetchToken_def new_Token_def Let_def)

lemma created_key_fields:
  assumes "KeyFetchToken_create C now bytes u kA wrapKb ev v = Inr k"
  shows "tk_id k = k_id (deriveTokenKeys C ''keyFetchToken'' bytes)" "kf_tokenVerificationId k = truthy_string v"
    "\<exists>b. kf_keyBundle k = Some b"
  using assms by (auto simp: KeyFetchToken_create_Inr)

section \<open>Sessions that read back\<close>

lemma sessionToken_same:
  assumes "sessionTokens db' = sessionTokens db" "accounts db' = accounts db" "emails db' = emails db"
    "devices db' = devices db" "unverifiedTokens db' = unverifiedTokens db"
  shows "sessionToken C cfg now i db' = sessionToken C cfg now i db"
proof -
  have "session_with_device s db' = session_with_device s db" for s
    using assms by (simp add: session_with_device_def find_account_def primaryEmail_def)
  then show ?thesis
    using assms(1) by (cases "find (\<lambda>s. se_tokenId s = i) (sessionTokens db)")
      (simp_all add: sessionToken_def SessionToken_findByTokenId_def)
qed

lemma read_token:
  assumes "sessionToken C cfg now i db = Inr t"
  obtains s ks where "find (\<lambda>s. se_tokenId s = i) (sessionTokens db) = Some s" "se_tokenId s = i"
    "t = new_SessionToken cfg ks (session_with_device s db)"
  using assms by (auto simp: sessionToken_Inr SessionToken_fromHex_def dest: find_SomeD)

text \<open>The level of a token that was read is 2 when it was verified with one of two methods.\<close>

lemma level_2:
  assumes "sessionToken C cfg now i db = Inr t" "authenticatorAssuranceLevel t = Inr 2"
  shows "\<exists>m n. st_verificationMethodValue t = Some m \<and> map_of VERIFICATION_METHOD m = Some n \<and> (n = 2 \<or> n = 3)"
proof -
  obtain s ks where t: "t = new_SessionToken cfg ks (session_with_device s db)" using read_token [OF assms(1)] by metis
  have m: "authenticationMethods t =
      (if se_verificationMethod s = Some 2 \<or> se_verificationMethod s = Some 3 then Inr [''pwd'', ''otp'']
       else if se_verificationMethod s = Some 1 \<or> st_tokenVerified t then Inr [''pwd'', ''email''] else Inr [''pwd''])"
    by (cases "se_verificationMethod s") (simp_all add: t session_level)
  have "se_verificationMethod s = Some 2 \<or> se_verificationMethod s = Some 3"
  proof (rule ccontr)
    assume "\<not> ?thesis"
    then have "authenticationMethods t = Inr [''pwd'', ''email''] \<or> authenticationMethods t = Inr [''pwd'']"
      unfolding m by simp
    then have "authenticatorAssuranceLevel t = Inr 1" using level_of_methods(2,3) by blast
    with assms(2) show False by simp
  qed
  moreover have "st_verificationMethodValue t = Some ''totp-2fa''" if "se_verificationMethod s = Some 2"
    using that by (simp add: t truthy_int_def VERIFICATION_METHODS_cases)
  moreover have "st_verificationMethodValue t = Some ''recovery-code''" if "se_verificationMethod s = Some 3"
    using that by (simp add: t truthy_int_def VERIFICATION_METHODS_cases)
  moreover have "map_of VERIFICATION_METHOD ''totp-2fa'' = Some 2" "map_of VERIFICATION_METHOD ''recovery-code'' = Some 3"
    by (simp_all add: VERIFICATION_METHOD_def)
  ultimately show ?thesis by blast
qed

lemma verified_reads_back:
  assumes "auth_ok db" "verifyTokensWithMethod v i (Some n) db = Inr db'" "n = 2 \<or> n = 3"
    "find (\<lambda>s. se_tokenId s = i) (sessionTokens db) = Some s0"
    "sessionTokens db2 = sessionTokens db'" "unverifiedTokens db2 = unverifiedTokens db'"
    "sessionToken C cfg now i db2 = Inr t"
  shows "tk_uid t = truthy_string (Some (se_uid s0)) \<and> st_tokenVerified t \<and> authenticatorAssuranceLevel t = Inr 2"
proof -
  let ?s = "s0\<lparr> se_verificationMethod := Some n, se_verifiedAt := Some v \<rparr>"
  have f: "find (\<lambda>s. se_tokenId s = i) (sessionTokens db') = Some ?s"
    using assms(2,4) by (auto simp: verifyTokensWithMethod_Inr Let_def update_find split: option.splits)
  have m: "find (\<lambda>u. un_tokenId u = i) (unverifiedTokens db') = None"
    using verified_row [OF assms(1,2)] by blast
  have i: "se_tokenId s0 = i" using find_SomeD [OF assms(4)] by blast
  obtain s ks where s: "find (\<lambda>s. se_tokenId s = i) (sessionTokens db2) = Some s"
    "t = new_SessionToken cfg ks (session_with_device s db2)"
    using read_token [OF assms(7)] by metis
  then have t: "t = new_SessionToken cfg ks (session_with_device ?s db2)" using f assms(5) by simp
  have "authenticationMethods t = Inr [''pwd'', ''otp'']" unfolding t session_level using assms(3) by auto
  then show ?thesis using m i assms(6) level_of_methods(1) unfolding t by simp
qed

section \<open>The reset of an account\<close>

definition reset_row :: "int \<Rightarrow> reset_data \<Rightarrow> account_row \<Rightarrow> account_row" where
  "reset_row now data a = a\<lparr> ac_verifyHash := rd_verifyHash data, ac_authSalt := rd_authSalt data,
     ac_wrapWrapKb := rd_wrapWrapKb data, ac_verifierVersion := rd_verifierVersion data,
     ac_profileChangedAt := Some now,
     ac_keysChangedAt := (if rd_keysHaveChanged data then Some now
       else coalesce (ac_keysChangedAt a) (Some (ac_verifierSetAt a))),
     ac_verifierSetAt := now, ac_lockedAt := None \<rparr>"

lemma reset_row_fields [simp]:
  "ac_uid (reset_row now d a) = ac_uid a" "ac_normalizedEmail (reset_row now d a) = ac_normalizedEmail a"
  "ac_kA (reset_row now d a) = ac_kA a" "ac_verifyHash (reset_row now d a) = rd_verifyHash d"
  "ac_authSalt (reset_row now d a) = rd_authSalt d" "ac_wrapWrapKb (reset_row now d a) = rd_wrapWrapKb d"
  "ac_verifierVersion (reset_row now d a) = rd_verifierVersion d"
  by (simp_all add: reset_row_def)

lemma resetAccount_rows [simp]:
  "accounts (resetAccount now u d db) = update_rows (\<lambda>a. ac_uid a = u) (reset_row now d) (accounts db)"
  "emails (resetAccount now u d db) = emails db" "totp (resetAccount now u d db) = totp db"
  "sessionTokens (resetAccount now u d db) = others se_uid u (sessionTokens db)"
  "keyFetchTokens (resetAccount now u d db) = others kr_uid u (keyFetchTokens db)"
  "accountResetTokens (resetAccount now u d db) = others fl_uid u (accountResetTokens db)"
  "passwordChangeTokens (resetAccount now u d db) = others fl_uid u (passwordChangeTokens db)"
  "passwordForgotTokens (resetAccount now u d db) = others fr_uid u (passwordForgotTokens db)"
  "recoveryKeys (resetAccount now u d db) = others rk_uid u (recoveryKeys db)"
  "unverifiedTokens (resetAccount now u d db) = others un_uid u (unverifiedTokens db)"
  "devices (resetAccount now u d db) = filter (\<lambda>d. de_uid d \<noteq> u) (devices db)"
  by (simp_all add: resetAccount_def Let_def reset_row_def [abs_def])

lemma changePassword_Inr:
  "changePassword C cfg sc now i u salt q db = (Inr (), db') \<longleftrightarrow>
    (\<exists>p w. new_Password C sc (cg_authPW q) salt (Some (cfg_verifierVersion cfg)) = Inr p \<and>
      unwrap C p (cg_wrapKb q) = Inr w \<and>
      db' = resetAccount now u \<lparr> rd_verifyHash = verifyHash C p, rd_authSalt = salt, rd_wrapWrapKb = w,
        rd_verifierVersion = pw_version p, rd_keysHaveChanged = False \<rparr> (deletePasswordChangeToken i db))"
  by (auto simp: changePassword_def then_st_def Let_def split: sum.splits)

lemma kept_change_tokens:
  assumes "change_tokens C cfg now rnd q previous a db = (Inr r, db')"
  shows "accounts db' = accounts db \<and> emails db' = emails db \<and> totp db' = totp db \<and>
    passwordChangeTokens db' = passwordChangeTokens db"
proof -
  obtain t db1 db2 k where s: "createSessionToken C cfg now (rn_session rnd)
        (signin_details (cg_ua q) (ac_uid a) (ac_email a) (ac_emailCode a) (ac_emailVerified a) (ac_verifierSetAt a) (cg_keys q)
          (if case previous of Some p \<Rightarrow> st_tokenVerified p | None \<Rightarrow> False then None else Some (rn_tokenVerificationId rnd))) db
        = Inr (t, db1)"
    and v: "db2 = db1 \<or> (\<exists>m. verifyTokensWithMethod now (tk_id t) m db1 = Inr db2)"
    and k: "db' = db2 \<or> (\<exists>ev. createKeyFetchToken C now (rn_keyFetch rnd) (ac_uid a) (ac_kA a) (cg_wrapKb q) ev None db2 = Inr (k, db'))"
    using assms unfolding change_tokens_def Let_def
    by (auto simp: flow split: if_splits option.splits)
  show ?thesis
    using v k kept_createSessionToken [OF s] kept_verifyTokensWithMethod kept_createKeyFetchToken by metis
qed

end
