(* ===== verification/Auth_Samples.thy ===== *)
theory Auth_Samples
  imports Auth_Flow_Laws
begin

text \<open>
  A database of two users with the same password, a second factor each and one session of the second user,
  for the examples of the properties of the routes.
\<close>

definition idle :: scrypt_state where
  "idle = new_scrypt 100"

lemma idle_begins: "\<exists>s. scrypt_begin idle = Inr s"
  by (simp add: idle_def scrypt_begin_def new_scrypt_def)

definition sample_salt :: string where
  "sample_salt = toString_hex (replicate 32 9)"

definition sample_password :: password where
  "sample_password = \<lparr> pw_version = 1, pw_stretched = Text (toString_hex (take 32 (from_hex ''aa'' @ replicate 32 9))) \<rparr>"

lemma sample_password_new: "new_Password sample_crypto idle ''aa'' sample_salt (Some 1) = Inr sample_password"
  using idle_begins
  by (auto simp: new_Password_def hashVersions_def scrypt_hash_def sample_password_def sample_salt_def sample_crypto_def)

definition user_row :: "string \<Rightarrow> string \<Rightarrow> account_row" where
  "user_row u mail = \<lparr> ac_uid = u, ac_normalizedEmail = mail, ac_email = mail, ac_emailCode = ''c0'',
     ac_emailVerified = True, ac_kA = toString_hex (replicate 32 5), ac_wrapWrapKb = toString_hex (replicate 32 6),
     ac_authSalt = sample_salt, ac_verifierVersion = 1, ac_verifyHash = verifyHash sample_crypto sample_password,
     ac_verifierSetAt = 1000, ac_createdAt = 1000, ac_locale = ''en'', ac_lockedAt = None, ac_disabledAt = None,
     ac_profileChangedAt = None, ac_keysChangedAt = None, ac_metricsOptOutAt = None \<rparr>"

definition mail_row :: "string \<Rightarrow> string \<Rightarrow> bool \<Rightarrow> email_row" where
  "mail_row u mail primary = \<lparr> em_normalizedEmail = mail, em_email = mail, em_uid = u, em_emailCode = ''c0'' @ mail,
     em_isVerified = primary, em_isPrimary = primary, em_verifiedAt = None, em_createdAt = 1000 \<rparr>"

definition session_id :: string where
  "session_id = k_id (deriveTokenKeys sample_crypto ''sessionToken'' [1])"

definition totp_of :: "string \<Rightarrow> totp_row" where
  "totp_of u = \<lparr> to_uid = u, to_sharedSecret = ''s'' @ u, to_epoch = 0, to_createdAt = 2000, to_verified = True,
     to_enabled = True \<rparr>"

text \<open>The session of the second user, verified with the given method.\<close>

definition other_session :: "int option \<Rightarrow> session_row" where
  "other_session m = \<lparr> se_tokenId = session_id, se_tokenData = toString_hex [1], se_uid = ''b2'', se_createdAt = 5000,
     se_ua = sd_ua no_details, se_lastAccessTime = 5000, se_authAt = None, se_verificationMethod = m,
     se_verifiedAt = None, se_mustVerify = Some True \<rparr>"

definition two_users :: auth_db where
  "two_users = no_tables\<lparr> accounts := [user_row ''a1'' ''a@x'', user_row ''b2'' ''b@x''],
     emails := [mail_row ''a1'' ''a@x'' True, mail_row ''b2'' ''b@x'' True, mail_row ''b2'' ''c@x'' False],
     totp := [totp_of ''a1'', totp_of ''b2''], sessionTokens := [other_session (Some 2)] \<rparr>"

text \<open>The same with a session that waits for its second factor.\<close>

definition two_users_waiting :: auth_db where
  "two_users_waiting = two_users\<lparr> sessionTokens := [other_session None],
     unverifiedTokens := [\<lparr> un_tokenId = session_id, un_tokenVerificationId = ''beef'', un_uid = ''b2'',
       un_mustVerify = True \<rparr>] \<rparr>"

lemma lower_samples:
  "toLowerCase ''a@x'' = ''a@x''" "toLowerCase ''b@x'' = ''b@x''" "toLowerCase ''c@x'' = ''c@x''"
  by (simp_all add: toLowerCase_def lower_char_def)

lemma two_users_ok: "auth_ok two_users" "auth_ok two_users_waiting"
  by (simp_all add: auth_ok_defs two_users_def two_users_waiting_def no_tables_def user_row_def mail_row_def
      other_session_def totp_of_def lower_samples)

lemma two_users_record:
  "accountRecord ''a@x'' two_users = Inr (user_row ''a1'' ''a@x'', Some (mail_row ''a1'' ''a@x'' True))"
  "accountRecord ''b@x'' two_users = Inr (user_row ''b2'' ''b@x'', Some (mail_row ''b2'' ''b@x'' True))"
  by (simp_all add: accountRecord_def accountRecord_9_def find_account_def primaryEmail_def two_users_def no_tables_def
      user_row_def mail_row_def lower_samples)

lemma two_users_totp: "hasTotpToken ''a1'' two_users" "hasTotpToken ''b2'' two_users_waiting"
  by (simp_all add: hasTotpToken_def totpToken_def two_users_def two_users_waiting_def totp_of_def no_tables_def)

definition session_of :: "auth_db \<Rightarrow> session_token" where
  "session_of db = projr (sessionToken sample_crypto sample_config 6000 session_id db)"

lemma two_users_session:
  "sessionToken sample_crypto sample_config 6000 session_id two_users = Inr (session_of two_users)"
  "tk_uid (session_of two_users) = Some ''b2''" "tk_id (session_of two_users) = session_id"
  "st_tokenVerified (session_of two_users)" "st_tokenVerificationId (session_of two_users) = None"
  "authenticatorAssuranceLevel (session_of two_users) = Inr 2"
  "st_verificationMethodValue (session_of two_users) = Some ''totp-2fa''"
proof -
  have f: "sessionToken sample_crypto sample_config 6000 session_id two_users =
      Inr (new_SessionToken sample_config (deriveTokenKeys sample_crypto ''sessionToken'' [1])
        (session_with_device (other_session (Some 2)) two_users))"
    by (simp add: sessionToken_Inr two_users_def other_session_def notExpired_def SessionToken_fromHex_def)
  then show "sessionToken sample_crypto sample_config 6000 session_id two_users = Inr (session_of two_users)"
    by (simp add: session_of_def)
  have s: "session_of two_users = new_SessionToken sample_config (deriveTokenKeys sample_crypto ''sessionToken'' [1])
      (session_with_device (other_session (Some 2)) two_users)"
    using f by (simp add: session_of_def)
  show "tk_uid (session_of two_users) = Some ''b2''" "tk_id (session_of two_users) = session_id"
    "st_tokenVerified (session_of two_users)" "st_tokenVerificationId (session_of two_users) = None"
    "st_verificationMethodValue (session_of two_users) = Some ''totp-2fa''"
    unfolding s by (simp_all add: other_session_def session_id_def two_users_def no_tables_def truthy_int_def
        VERIFICATION_METHODS_cases)
  have "authenticationMethods (session_of two_users) = Inr [''pwd'', ''otp'']"
    unfolding s by (simp add: session_level other_session_def)
  then show "authenticatorAssuranceLevel (session_of two_users) = Inr 2" by (rule level_of_methods)
qed

lemma waiting_session:
  "sessionToken sample_crypto sample_config 6000 session_id two_users_waiting = Inr (session_of two_users_waiting)"
  "tk_uid (session_of two_users_waiting) = Some ''b2''" "tk_id (session_of two_users_waiting) = session_id"
  "\<not> st_tokenVerified (session_of two_users_waiting)" "st_email (session_of two_users_waiting) = Some ''b@x''"
proof -
  have f: "sessionToken sample_crypto sample_config 6000 session_id two_users_waiting =
      Inr (new_SessionToken sample_config (deriveTokenKeys sample_crypto ''sessionToken'' [1])
        (session_with_device (other_session None) two_users_waiting))"
    by (simp add: sessionToken_Inr two_users_waiting_def other_session_def notExpired_def SessionToken_fromHex_def)
  then show "sessionToken sample_crypto sample_config 6000 session_id two_users_waiting = Inr (session_of two_users_waiting)"
    by (simp add: session_of_def)
  have s: "session_of two_users_waiting = new_SessionToken sample_config (deriveTokenKeys sample_crypto ''sessionToken'' [1])
      (session_with_device (other_session None) two_users_waiting)"
    using f by (simp add: session_of_def)
  show "tk_uid (session_of two_users_waiting) = Some ''b2''" "tk_id (session_of two_users_waiting) = session_id"
    "\<not> st_tokenVerified (session_of two_users_waiting)"
    unfolding s by (simp_all add: other_session_def session_id_def two_users_waiting_def)
  show "st_email (session_of two_users_waiting) = Some ''b@x''"
    unfolding s by (simp add: new_SessionToken_def Let_def session_with_device_def primaryEmail_def two_users_waiting_def two_users_def
        mail_row_def other_session_def)
qed

text \<open>The seeds of the tokens of an example have as first bytes numbers that no other token has.\<close>

lemma sample_token_ids:
  "k_id (deriveTokenKeys sample_crypto kind b) = toString_hex (take 32 (b @ replicate 96 7))"
  by (simp add: deriveTokenKeys_def hkdf_def sample_crypto_def Let_def del: take_append)

lemma two_users_fresh: "x \<noteq> 1 \<Longrightarrow> fresh_token (k_id (deriveTokenKeys sample_crypto kind [x])) two_users"
  by (simp add: fresh_token_def two_users_def no_tables_def other_session_def session_id_def sample_token_ids)

lemma sample_unwrap:
  "\<exists>w. length (from_hex w) = 32 \<and> unwrap sample_crypto p (ac_wrapWrapKb (user_row u mail)) = Inr w"
  using unwrap_wrap [OF sample_crypto_ok, of "replicate 32 6" p] by (auto simp: user_row_def)

end
