(* ===== verification/Password_Guarantees.thy ===== *)
theory Password_Guarantees
  imports Auth_Samples OAuth_DB_Guarantees
begin

text \<open>
  The password of an account and the keys that it protects: what a change of the password keeps, what a
  reset takes away, and what is left of an account that is deleted.
\<close>

section \<open>A change of the password\<close>

lemma case_token_Inr:
  "(case x of (t, db) \<Rightarrow> Inr ((k, t), db)) = (Inr ((k', t'), db') :: auth_error + _) \<longleftrightarrow> k = k' \<and> x = (t', db')"
  by (cases x) auto

lemma change_start_Inr:
  "change_start C cfg sc ok now b b' email pw db = Inr ((k, t), db') \<longleftrightarrow> ok \<and>
    (\<exists>a e p wrapKb db1. accountRecord email db = Inr (a, e) \<and>
      new_Password C sc pw (ac_authSalt a) (Some (ac_verifierVersion a)) = Inr p \<and>
      from_hex (ac_authSalt a) \<noteq> ONES \<and> checkPassword (ac_uid a) (verifyHash C p) db \<and>
      unwrap C p (ac_wrapWrapKb a) = Inr wrapKb \<and>
      createKeyFetchToken C now b (ac_uid a) (ac_kA a) wrapKb (ac_emailVerified a) None db = Inr (k, db1) \<and>
      createPasswordChangeToken C cfg now b' (ac_uid a) db1 = (t, db'))"
  by (auto simp: change_start_def signin_checkPassword_def flow Let_def case_token_Inr)

lemma change_finish_Inr:
  assumes "change_finish C cfg sc now rnd t q s = (Inr r, s')"
  obtains u p w a previous e db where "tk_uid t = Some u"
    "change_session C cfg now u (cg_sessionToken q) (fst s) = Inr previous"
    "new_Password C sc (cg_authPW q) (rn_authSalt rnd) (Some (cfg_verifierVersion cfg)) = Inr p"
    "unwrap C p (cg_wrapKb q) = Inr w"
    "db = resetAccount now u \<lparr> rd_verifyHash = verifyHash C p, rd_authSalt = rn_authSalt rnd, rd_wrapWrapKb = w,
        rd_verifierVersion = pw_version p, rd_keysHaveChanged = False \<rparr> (deletePasswordChangeToken (tk_id t) (fst s))"
    "account u db = Inr (a, e)" "change_tokens C cfg now rnd q previous a db = (Inr r, fst s')"
    "snd s' = removePublicAndCanGrantTokens now u (snd s)"
proof -
  obtain u where u: "tk_uid t = Some u" using assms by (auto simp: change_finish_def split: option.splits)
  with assms obtain previous db a e where *: "change_session C cfg now u (cg_sessionToken q) (fst s) = Inr previous"
    "changePassword C cfg sc now (tk_id t) u (rn_authSalt rnd) q (fst s) = (Inr (), db)" "account u db = Inr (a, e)"
    "change_tokens C cfg now rnd q previous a db = (Inr r, fst s')" "snd s' = removePublicAndCanGrantTokens now u (snd s)"
    by (auto simp: change_finish_def flow)
  then show thesis using that [OF u *(1) _ _ _ *(3,4,5)] by (auto simp: changePassword_Inr)
qed

lemma change_start_keys:
  assumes "crypto_ok C" "\<forall>a \<in> set (accounts db). length (from_hex (ac_kA a)) = 32"
    "change_start C cfg sc ok now b b' email pw db = Inr ((k, t), db1)"
  obtains a e x where "accountRecord email db = Inr (a, e)" "length (from_hex (ac_kA a)) = 32"
    "client_keys C k = Inr (toString_hex (from_hex (ac_kA a)), x)" "toString_hex (from_hex x) = x"
    "tk_uid t = truthy_string (Some (ac_uid a))" "accounts db1 = accounts db" "emails db1 = emails db"
proof -
  obtain a e p x db0 where st: "accountRecord email db = Inr (a, e)" "unwrap C p (ac_wrapWrapKb a) = Inr x"
    "createKeyFetchToken C now b (ac_uid a) (ac_kA a) x (ac_emailVerified a) None db = Inr (k, db0)"
    "createPasswordChangeToken C cfg now b' (ac_uid a) db0 = (t, db1)"
    using assms(3) by (auto simp: change_start_Inr)
  have x: "length (from_hex x) = 32" "toString_hex (from_hex x) = x"
    using unwrap_twice(3) [OF assms(1) st(2)] st(2) by (auto simp: unwrap_Inr [OF assms(1)])
  have kA: "length (from_hex (ac_kA a)) = 32" using accountRecord_found [OF st(1)] assms(2) by blast
  have "client_keys C k = Inr (toString_hex (from_hex (ac_kA a)), x)"
    using client_keys_created [OF assms(1) _ kA x(1)] st(3) x(2) by (auto simp: createKeyFetchToken_Inr)
  moreover have "accounts db1 = accounts db" "emails db1 = emails db" "tk_uid t = truthy_string (Some (ac_uid a))"
    using st(4) kept_createKeyFetchToken [OF st(3)]
    by (auto simp: createPasswordChangeToken_def PasswordChangeToken_create_def new_Token_def Let_def)
  ultimately show thesis using that st(1) kA x(2) by blast
qed

lemma change_start_total:
  assumes "crypto_ok C" "accountRecord email db = Inr (a, e)"
    "new_Password C sc pw (ac_authSalt a) (Some (ac_verifierVersion a)) = Inr p" "from_hex (ac_authSalt a) \<noteq> ONES"
    "ac_verifyHash a = verifyHash C p" "unwrap C p (ac_wrapWrapKb a) = Inr x" "length (from_hex (ac_kA a)) = 32"
    "k_id (deriveTokenKeys C ''keyFetchToken'' b) \<notin> kr_tokenId ` set (keyFetchTokens db)"
  shows "\<exists>k t db'. change_start C cfg sc True now b b' email pw db = Inr ((k, t), db') \<and>
    client_keys C k = Inr (toString_hex (from_hex (ac_kA a)), toString_hex (from_hex x))"
proof -
  have "checkPassword (ac_uid a) (verifyHash C p) db"
    using accountRecord_found [OF assms(2)] assms(5) by (auto simp: checkPassword_def list_ex_iff)
  moreover obtain k db1 where
    k: "createKeyFetchToken C now b (ac_uid a) (ac_kA a) x (ac_emailVerified a) None db = Inr (k, db1)"
    using createKeyFetchToken_total [OF assms(1) refl assms(8), of None] by simp metis
  moreover obtain t db2 where "createPasswordChangeToken C cfg now b' (ac_uid a) db1 = (t, db2)" by fastforce
  ultimately have "change_start C cfg sc True now b b' email pw db = Inr ((k, t), db2)"
    using assms by (subst change_start_Inr) blast
  moreover have "client_keys C k = Inr (toString_hex (from_hex (ac_kA a)), toString_hex (from_hex x))"
    using client_keys_created [OF assms(1) _ assms(7) unwrap_twice(3) [OF assms(1,6)]] k by (auto simp: createKeyFetchToken_Inr)
  ultimately show ?thesis by blast
qed

text \<open>
  C26: a change of the password keeps the keys of the user: a client that opens the keys with the old password
  and sends the wrapped one with the new password gets the same keys with the new password, and the token
  of the change is spent.
\<close>

theorem password_change_keeps_keys:
  assumes "crypto_ok C" and "\<forall>a \<in> set (accounts db). length (from_hex (ac_kA a)) = 32"
    and "change_start C cfg sc True now b b' email pw db = Inr ((k, t), db1)"
    and "client_keys C k = Inr (kA, wrapKb)"
    and "change_finish C cfg sc1 now1 rnd t q (db1, ts) = (Inr r, (db2, ts'))" and "cg_wrapKb q = wrapKb"
    and "from_hex (rn_authSalt rnd) \<noteq> ONES" and "scrypt_begin sc2 = Inr sc3"
    and "k_id (deriveTokenKeys C ''keyFetchToken'' b2) \<notin> kr_tokenId ` set (keyFetchTokens db2)"
  shows "passwordChangeToken C cfg (tk_id t) db2 = Inl InvalidToken \<and>
    (\<exists>k' t' db3. change_start C cfg sc2 True now2 b2 b2' email (cg_authPW q) db2 = Inr ((k', t'), db3) \<and>
      client_keys C k' = Inr (kA, wrapKb))"
proof -
  obtain a e x where st: "accountRecord email db = Inr (a, e)" "length (from_hex (ac_kA a)) = 32"
    "client_keys C k = Inr (toString_hex (from_hex (ac_kA a)), x)" "toString_hex (from_hex x) = x"
    "tk_uid t = truthy_string (Some (ac_uid a))" "accounts db1 = accounts db" "emails db1 = emails db"
    by (rule change_start_keys [OF assms(1-3)])
  obtain u p w a' previous e' db' where fi0: "tk_uid t = Some u"
    "change_session C cfg now1 u (cg_sessionToken q) (fst (db1, ts)) = Inr previous"
    "new_Password C sc1 (cg_authPW q) (rn_authSalt rnd) (Some (cfg_verifierVersion cfg)) = Inr p"
    "unwrap C p (cg_wrapKb q) = Inr w"
    "db' = resetAccount now1 u \<lparr> rd_verifyHash = verifyHash C p, rd_authSalt = rn_authSalt rnd, rd_wrapWrapKb = w,
        rd_verifierVersion = pw_version p, rd_keysHaveChanged = False \<rparr> (deletePasswordChangeToken (tk_id t) (fst (db1, ts)))"
    "account u db' = Inr (a', e')" "change_tokens C cfg now1 rnd q previous a' db' = (Inr r, fst (db2, ts'))"
    "snd (db2, ts') = removePublicAndCanGrantTokens now1 u (snd (db1, ts))"
    by (rule change_finish_Inr [OF assms(5)])
  note fi = fi0(1,3,4) fi0(5,7) [unfolded fst_conv] and kept = kept_change_tokens [OF fi0(7) [unfolded fst_conv]]
  define d where "d = \<lparr> rd_verifyHash = verifyHash C p, rd_authSalt = rn_authSalt rnd, rd_wrapWrapKb = w,
        rd_verifierVersion = pw_version p, rd_keysHaveChanged = False \<rparr>"
  let ?a = "reset_row now1 d a"
  have u: "u = ac_uid a" using fi(1) st(5) by (simp add: truthy_string_eq)
  have acc: "accounts db2 = map (\<lambda>a. if ac_uid a = u then reset_row now1 d a else a) (accounts db)" "emails db2 = emails db"
    using kept fi(4) st(6,7) by (auto simp: deletePasswordChangeToken_def d_def update_rows_def)
  have rec: "accountRecord email db2 = Inr (?a, e)" using accountRecord_map [OF acc(1,2) _ _ st(1)] u by auto
  have np: "new_Password C sc2 (cg_authPW q) (ac_authSalt ?a) (Some (ac_verifierVersion ?a)) = Inr p"
    using new_Password_again [OF fi(2) assms(8)] by (simp add: d_def new_Password_version [OF fi(2)])
  have un: "unwrap C p (ac_wrapWrapKb ?a) = Inr x"
    using unwrap_twice(1) [OF assms(1) fi(3)] assms(4,6) st(3,4) by (simp add: d_def)
  have "\<exists>k' t' db3. change_start C cfg sc2 True now2 b2 b2' email (cg_authPW q) db2 = Inr ((k', t'), db3) \<and>
      client_keys C k' = Inr (toString_hex (from_hex (ac_kA ?a)), toString_hex (from_hex x))"
    by (rule change_start_total [OF assms(1) rec np _ _ un _ assms(9)]) (simp_all add: d_def assms(7) st(2))
  moreover have "passwordChangeToken C cfg (tk_id t) db2 = Inl InvalidToken"
    using kept fi(4) by (auto simp: passwordChangeToken_def deletePasswordChangeToken_def others_def find_None
        split: option.splits dest: find_SomeD)
  ultimately show ?thesis using assms(4) st(3,4) by simp
qed

text \<open>The change goes through with a session that is good enough.\<close>

lemma fresh_after_reset:
  "fresh_token i db \<Longrightarrow> fresh_token i (resetAccount now u d (deletePasswordChangeToken j db))"
  by (auto simp: fresh_token_def deletePasswordChangeToken_def others_def)

lemma change_tokens_total:
  assumes "\<not> cg_keys q" "ac_uid a \<noteq> []" "fresh_token (k_id (deriveTokenKeys C ''sessionToken'' (rn_session rnd))) db"
    "auth_ok db"
  shows "\<exists>t db1 s. change_tokens C cfg now rnd q previous a db =
      (case previous of Some p \<Rightarrow>
         (case st_verificationMethodValue p of
            Some m \<Rightarrow> (Inr (t, None), projr (verifyTokensWithMethod now (tk_id t) (map_of VERIFICATION_METHOD m) db1))
          | None \<Rightarrow> (Inr (t, None), db1))
       | None \<Rightarrow> (Inr (t, None), db1)) \<and>
    find (\<lambda>s. se_tokenId s = tk_id t) (sessionTokens db1) = Some s \<and> se_uid s = ac_uid a \<and> auth_ok db1 \<and>
    keyFetchTokens db1 = keyFetchTokens db"
proof -
  define v where "v = (if case previous of Some p \<Rightarrow> st_tokenVerified p | None \<Rightarrow> False then None else Some (rn_tokenVerificationId rnd))"
  define d where "d = signin_details (cg_ua q) (ac_uid a) (ac_email a) (ac_emailCode a) (ac_emailVerified a)
    (ac_verifierSetAt a) (cg_keys q) v"
  define t where "t = SessionToken_create C cfg now (rn_session rnd) d"
  obtain db1 where c: "createSessionToken C cfg now (rn_session rnd) d db = Inr (t, db1)"
    using createSessionToken_total [OF _ assms(2,3), of d cfg now] by (auto simp: d_def t_def)
  have f: "fresh_token (tk_id t) db" using assms(3) by (simp add: t_def)
  obtain s u where s: "find (\<lambda>s. se_tokenId s = tk_id t) (sessionTokens db1) = Some s" "tk_uid t = Some u" "se_uid s = u"
    by (rule created_row [OF assms(4) c f])
  have u: "u = ac_uid a" using s(2) assms(2) by (simp add: t_def d_def)
  define F where "F m = projr (verifyTokensWithMethod now (tk_id t) m db1)" for m
  have "verifyTokensWithMethod now (tk_id t) m db1 = Inr (F m)" for m
    using s(1) by (auto simp: F_def verifyTokensWithMethod_def Let_def split: option.splits)
  then have "change_tokens C cfg now rnd q previous a db =
      (case previous of Some p \<Rightarrow>
         (case st_verificationMethodValue p of
            Some m \<Rightarrow> (Inr (t, None), projr (verifyTokensWithMethod now (tk_id t) (map_of VERIFICATION_METHOD m) db1))
          | None \<Rightarrow> (Inr (t, None), db1))
       | None \<Rightarrow> (Inr (t, None), db1))"
    using c assms(1) unfolding change_tokens_def v_def [symmetric] d_def [symmetric] Let_def
    by (auto split: option.splits)
  then show ?thesis using s u ok_createSessionToken [OF assms(4) c f] kept_createSessionToken(5) [OF c] by blast
qed

lemma change_finish_total:
  assumes "crypto_ok C" "auth_ok db" "tk_uid t = Some u" "u \<noteq> []" "find_account u db = Some a"
    "change_session C cfg now u (cg_sessionToken q) db = Inr previous" "\<not> cg_keys q"
    "new_Password C sc (cg_authPW q) (rn_authSalt rnd) (Some (cfg_verifierVersion cfg)) = Inr p"
    "length (from_hex (cg_wrapKb q)) = 32" "fresh_token (k_id (deriveTokenKeys C ''sessionToken'' (rn_session rnd))) db"
  obtains t' db1 db2 s where "change_finish C cfg sc now rnd t q (db, ts) =
      (Inr (t', None), (db2, removePublicAndCanGrantTokens now u ts))"
    "db2 = (case previous of Some p \<Rightarrow>
         (case st_verificationMethodValue p of
            Some m \<Rightarrow> projr (verifyTokensWithMethod now (tk_id t') (map_of VERIFICATION_METHOD m) db1)
          | None \<Rightarrow> db1)
       | None \<Rightarrow> db1)"
    "find (\<lambda>s. se_tokenId s = tk_id t') (sessionTokens db1) = Some s" "se_uid s = u" "auth_ok db1"
    "keyFetchTokens db2 = others kr_uid u (keyFetchTokens db)"
proof -
  obtain w where w: "unwrap C p (cg_wrapKb q) = Inr w" using assms(1,9) by (simp add: unwrap_Inr)
  define d where "d = \<lparr> rd_verifyHash = verifyHash C p, rd_authSalt = rn_authSalt rnd, rd_wrapWrapKb = w,
        rd_verifierVersion = pw_version p, rd_keysHaveChanged = False \<rparr>"
  define db' where "db' = resetAccount now u d (deletePasswordChangeToken (tk_id t) db)"
  have cp: "changePassword C cfg sc now (tk_id t) u (rn_authSalt rnd) q db = (Inr (), db')"
    using assms(8) w by (auto simp: changePassword_Inr d_def db'_def)
  have ok: "auth_ok db'" using assms(2) by (simp add: db'_def ok_resetAccount ok_deletePasswordChangeToken)
  have u: "ac_uid a = u" using assms(5) by (auto simp: find_account_def dest: find_SomeD)
  have "find_account u db' = Some (reset_row now d a)"
    using assms(5) u by (simp add: find_account_def db'_def deletePasswordChangeToken_def update_rows_def find_map)
      (metis (mono_tags, lifting) option.simps(9) u)
  then have acc: "account u db' = Inr (reset_row now d a, primaryEmail u db')" by (simp add: account_def)
  have f: "fresh_token (k_id (deriveTokenKeys C ''sessionToken'' (rn_session rnd))) db'"
    using assms(10) by (simp add: db'_def fresh_after_reset)
  obtain t' db1 s where ct: "change_tokens C cfg now rnd q previous (reset_row now d a) db' =
      (case previous of Some p \<Rightarrow>
         (case st_verificationMethodValue p of
            Some m \<Rightarrow> (Inr (t', None), projr (verifyTokensWithMethod now (tk_id t') (map_of VERIFICATION_METHOD m) db1))
          | None \<Rightarrow> (Inr (t', None), db1))
       | None \<Rightarrow> (Inr (t', None), db1))"
    "find (\<lambda>s. se_tokenId s = tk_id t') (sessionTokens db1) = Some s" "se_uid s = u" "auth_ok db1" "keyFetchTokens db1 = keyFetchTokens db'"
    using change_tokens_total [OF assms(7) _ f ok, of "reset_row now d a" cfg now previous] u assms(4) by auto
  define db2 where "db2 = (case previous of Some p \<Rightarrow>
         (case st_verificationMethodValue p of
            Some m \<Rightarrow> projr (verifyTokensWithMethod now (tk_id t') (map_of VERIFICATION_METHOD m) db1)
          | None \<Rightarrow> db1)
       | None \<Rightarrow> db1)"
  have "change_finish C cfg sc now rnd t q (db, ts) = (Inr (t', None), (db2, removePublicAndCanGrantTokens now u ts))"
    using assms(3,6) cp acc ct(1) by (auto simp: change_finish_def db2_def split: option.splits)
  moreover have "keyFetchTokens (projr (verifyTokensWithMethod now (tk_id t') m db1)) = keyFetchTokens db1" for m
    using ct(2) by (auto simp: verifyTokensWithMethod_def Let_def split: option.splits)
  then have "keyFetchTokens db2 = others kr_uid u (keyFetchTokens db)"
    using ct(5) by (auto simp: db2_def db'_def deletePasswordChangeToken_def split: option.splits)
  ultimately show thesis using that db2_def ct(2-4) by blast
qed


definition new_random :: reset_random where
  "new_random = \<lparr> rn_authSalt = sample_salt, rn_wrapWrapKb = toString_hex (replicate 32 8), rn_session = [3],
     rn_tokenVerificationId = ''beef'', rn_keyFetch = [4] \<rparr>"

definition new_password :: "string \<Rightarrow> change_request" where
  "new_password wrapKb = \<lparr> cg_authPW = ''bb'', cg_wrapKb = wrapKb, cg_sessionToken = Some session_id, cg_keys = False,
     cg_ua = sd_ua no_details \<rparr>"

lemma salt_not_ones: "from_hex sample_salt \<noteq> ONES"
  by (simp add: sample_salt_def ONES_def)

lemma new_password_stretched:
  "\<exists>p. new_Password sample_crypto idle (cg_authPW (new_password w)) (rn_authSalt new_random)
    (Some (cfg_verifierVersion sample_config)) = Inr p"
  using idle_begins by (auto simp: new_Password_def hashVersions_def scrypt_hash_def sample_config_def)

lemma sample_session_request:
  "cg_sessionToken (new_password w) = Some session_id" "\<not> cg_keys (new_password w)" "cg_wrapKb (new_password w) = w"
  "session_id \<noteq> []"
  by (simp_all add: new_password_def session_id_def sample_token_ids toString_hex_def)


text \<open>The second user changes the password with the own session.\<close>

lemma change_start_tables:
  assumes "change_start C cfg sc ok now b b' email pw db = Inr ((k, t), db1)" "auth_ok db"
    "fresh_token (k_id (deriveTokenKeys C ''keyFetchToken'' b)) db"
  obtains a e where "accountRecord email db = Inr (a, e)" "auth_ok db1" "sessionTokens db1 = sessionTokens db"
    "accounts db1 = accounts db" "emails db1 = emails db" "devices db1 = devices db" "totp db1 = totp db"
    "unverifiedTokens db1 = unverifiedTokens db" "tk_uid t = truthy_string (Some (ac_uid a))"
    "\<exists>r. keyFetchTokens db1 = keyFetchTokens db @ [r] \<and> kr_uid r = ac_uid a \<and>
       kr_tokenId r = k_id (deriveTokenKeys C ''keyFetchToken'' b)"
proof -
  obtain a e x db0 where st: "accountRecord email db = Inr (a, e)"
    "createKeyFetchToken C now b (ac_uid a) (ac_kA a) x (ac_emailVerified a) None db = Inr (k, db0)"
    "createPasswordChangeToken C cfg now b' (ac_uid a) db0 = (t, db1)"
    using assms(1) by (auto simp: change_start_Inr)
  have kc: "KeyFetchToken_create C now b (ac_uid a) (ac_kA a) x (ac_emailVerified a) None = Inr k"
    using st(2) by (simp add: createKeyFetchToken_Inr)
  note kf = created_key_fields [OF kc]
  have "auth_ok db0" using ok_createKeyFetchToken [OF assms(2) st(2)] assms(3) kf(1) by simp
  then have "auth_ok db1" using ok_createPasswordChangeToken [of db0] st(3) by (metis snd_conv)
  moreover have "unverifiedTokens db0 = unverifiedTokens db" "\<exists>r. keyFetchTokens db0 = keyFetchTokens db @ [r] \<and>
      kr_uid r = ac_uid a \<and> kr_tokenId r = k_id (deriveTokenKeys C ''keyFetchToken'' b)"
    using st(2) kf by (simp_all add: createKeyFetchToken_Inr createKeyFetchToken_2_Inr)
  moreover have "sessionTokens db1 = sessionTokens db0" "accounts db1 = accounts db0" "emails db1 = emails db0"
    "devices db1 = devices db0" "totp db1 = totp db0" "unverifiedTokens db1 = unverifiedTokens db0"
    "keyFetchTokens db1 = keyFetchTokens db0" "tk_uid t = truthy_string (Some (ac_uid a))"
    using st(3) by (auto simp: createPasswordChangeToken_def PasswordChangeToken_create_def new_Token_def Let_def)
  ultimately show thesis using that [OF st(1)] kept_createKeyFetchToken [OF st(2)] by simp
qed

lemma sample_change_start:
  "\<exists>k t db1 w. change_start sample_crypto sample_config idle True 5500 [2] [2] ''b@x'' ''aa'' two_users = Inr ((k, t), db1) \<and>
    client_keys sample_crypto k = Inr (toString_hex (replicate 32 5), w) \<and> length (from_hex w) = 32"
proof -
  let ?a = "user_row ''b2'' ''b@x''"
  obtain w where w: "length (from_hex w) = 32" "unwrap sample_crypto sample_password (ac_wrapWrapKb ?a) = Inr w"
    using sample_unwrap by blast
  have i: "k_id (deriveTokenKeys sample_crypto ''keyFetchToken'' [2]) \<notin> kr_tokenId ` set (keyFetchTokens two_users)"
    by (simp add: two_users_def no_tables_def)
  obtain k t db1 where "change_start sample_crypto sample_config idle True 5500 [2] [2] ''b@x'' ''aa'' two_users = Inr ((k, t), db1)"
    "client_keys sample_crypto k = Inr (toString_hex (replicate 32 5), toString_hex (from_hex w))"
    using change_start_total [OF sample_crypto_ok two_users_record(2) _ _ _ w(2) _ i, of idle "''aa''" sample_config 5500 "[2]"]
      sample_password_new salt_not_ones by (auto simp: user_row_def)
  with w(1) show ?thesis by fastforce
qed

theorem password_change_keeps_keys_witness:
  "\<exists>k t db1 w r db2 ts k' t' db3.
     change_start sample_crypto sample_config idle True 5500 [2] [2] ''b@x'' ''aa'' two_users = Inr ((k, t), db1) \<and>
     client_keys sample_crypto k = Inr (toString_hex (replicate 32 5), w) \<and>
     change_finish sample_crypto sample_config idle 6000 new_random t (new_password w) (db1, empty_db) = (Inr r, (db2, ts)) \<and>
     change_start sample_crypto sample_config idle True 7000 [5] [5] ''b@x'' ''bb'' db2 = Inr ((k', t'), db3) \<and>
     client_keys sample_crypto k' = Inr (toString_hex (replicate 32 5), w)"
proof -
  let ?C = sample_crypto and ?g = sample_config
  obtain k t db1 w where st: "change_start ?C ?g idle True 5500 [2] [2] ''b@x'' ''aa'' two_users = Inr ((k, t), db1)"
    "client_keys ?C k = Inr (toString_hex (replicate 32 5), w)" "length (from_hex w) = 32"
    using sample_change_start by blast
  obtain p where p: "new_Password ?C idle (cg_authPW (new_password w)) (rn_authSalt new_random)
      (Some (cfg_verifierVersion ?g)) = Inr p"
    using new_password_stretched by blast
  obtain a e where "accountRecord ''b@x'' two_users = Inr (a, e)" and db1: "auth_ok db1"
    "sessionTokens db1 = sessionTokens two_users" "accounts db1 = accounts two_users" "emails db1 = emails two_users"
    "devices db1 = devices two_users" "totp db1 = totp two_users"
    "unverifiedTokens db1 = unverifiedTokens two_users" "tk_uid t = truthy_string (Some (ac_uid a))"
    "\<exists>r. keyFetchTokens db1 = keyFetchTokens two_users @ [r] \<and> kr_uid r = ac_uid a \<and>
       kr_tokenId r = k_id (deriveTokenKeys ?C ''keyFetchToken'' [2])"
    by (rule change_start_tables [OF st(1) two_users_ok(1) two_users_fresh]) simp
  then have a: "a = user_row ''b2'' ''b@x''" "ac_uid a = ''b2''" using two_users_record(2) by (auto simp: user_row_def)
  have s: "sessionToken ?C ?g 6000 session_id db1 = Inr (session_of two_users)"
    using sessionToken_same [OF db1(2-5,7)] two_users_session(1) by simp
  have cs: "change_session ?C ?g 6000 ''b2'' (cg_sessionToken (new_password w)) db1 = Inr (Some (session_of two_users))"
    using s sample_session_request(1,4) two_users_session(6) by (simp add: change_session_def require_def)
  have fa: "find_account ''b2'' db1 = Some a"
    by (simp add: find_account_def db1(3) two_users_def no_tables_def a(1) user_row_def)
  obtain r where r: "keyFetchTokens db1 = [r]" "kr_uid r = ''b2''" "kr_tokenId r = k_id (deriveTokenKeys ?C ''keyFetchToken'' [2])"
    using db1(9) a(2) by (auto simp: two_users_def no_tables_def)
  have fr: "fresh_token (k_id (deriveTokenKeys ?C ''sessionToken'' (rn_session new_random))) db1"
    using r by (simp add: fresh_token_def db1(2,7) two_users_def no_tables_def other_session_def session_id_def
        sample_token_ids new_random_def)
  have u: "tk_uid t = Some ''b2''" using db1(8) a(2) by simp
  obtain t' db2 where fi: "change_finish ?C ?g idle 6000 new_random t (new_password w) (db1, empty_db) =
      (Inr (t', None), (db2, removePublicAndCanGrantTokens 6000 ''b2'' empty_db))"
    and k2: "keyFetchTokens db2 = others kr_uid ''b2'' (keyFetchTokens db1)"
    using change_finish_total [OF sample_crypto_ok db1(1) u _ fa cs sample_session_request(2) p, of empty_db] fr
      sample_session_request(3) st(3) by (metis list.distinct(1))
  have k: "\<forall>a \<in> set (accounts two_users). length (from_hex (ac_kA a)) = 32"
    by (simp add: two_users_def no_tables_def user_row_def)
  obtain sc where sc: "scrypt_begin idle = Inr sc" using idle_begins by blast
  have i: "k_id (deriveTokenKeys ?C ''keyFetchToken'' [5]) \<notin> kr_tokenId ` set (keyFetchTokens db2)"
    using r by (simp add: k2 others_def)
  have n: "from_hex (rn_authSalt new_random) \<noteq> ONES" using salt_not_ones by (simp add: new_random_def)
  obtain k' t2 db3 where "change_start ?C ?g idle True 7000 [5] [5] ''b@x'' (cg_authPW (new_password w)) db2 = Inr ((k', t2), db3)"
    "client_keys ?C k' = Inr (toString_hex (replicate 32 5), w)"
    using password_change_keeps_keys [OF sample_crypto_ok k st(1,2) fi sample_session_request(3) n sc i, of 7000 "[5]"] by blast
  moreover have "cg_authPW (new_password w) = ''bb''" by (simp add: new_password_def)
  ultimately show ?thesis using st(1,2) fi by auto
qed

section \<open>The reset of an account\<close>

lemma added_session:
  assumes "createSessionToken C cfg now bytes d db = Inr (t, db')"
  shows "\<exists>s. sessionTokens db' = sessionTokens db @ [s] \<and> se_tokenId s = tk_id t \<and> Some (se_uid s) = tk_uid t"
  using assms by (auto simp: createSessionToken_Inr createSessionToken_9_Inr)

lemma added_key:
  assumes "createKeyFetchToken C now bytes u kA wrapKb ev v db = Inr (k, db')"
  shows "\<exists>r. keyFetchTokens db' = keyFetchTokens db @ [r] \<and> kr_tokenId r = tk_id k \<and> kr_uid r = u"
  using assms by (auto simp: createKeyFetchToken_Inr createKeyFetchToken_2_Inr)

lemma reset_tokens_rows:
  assumes "reset_tokens C cfg now rnd q hasTotp wrapKb a e db = (Inr (session, k), db')"
  obtains ss ks where "sessionTokens db' = sessionTokens db @ ss" "keyFetchTokens db' = keyFetchTokens db @ ks"
    "\<forall>s \<in> set ss. se_uid s = ac_uid a \<and> map_option tk_id session = Some (se_tokenId s)"
    "\<forall>r \<in> set ks. kr_uid r = ac_uid a \<and> map_option tk_id k = Some (kr_tokenId r)"
    "devices db' = devices db" "passwordForgotTokens db' = passwordForgotTokens db"
    "passwordChangeTokens db' = passwordChangeTokens db" "accountResetTokens db' = accountResetTokens db"
    "recoveryKeys db' = recoveryKeys db"
proof -
  define v where "v = (if ra_sessionToken q \<and> hasTotp then Some (rn_tokenVerificationId rnd) else None)"
  obtain db1 db2 where s: "session = None \<and> db1 = db \<or> (\<exists>t. session = Some t \<and>
        createSessionToken C cfg now (rn_session rnd) (reset_session_details q v a e) db = Inr (t, db1))"
    and k: "k = None \<and> db2 = db1 \<or> (\<exists>x. k = Some x \<and>
        createKeyFetchToken C now (rn_keyFetch rnd) (ac_uid a) (ac_kA a) wrapKb (em_isVerified e) v db1 = Inr (x, db2))"
    and d: "db' = securityEvent now (ac_uid a) ''account.reset'' (ra_ipAddrHmac q) (map_option tk_id session) db2"
    using assms unfolding reset_tokens_def Let_def v_def [symmetric]
    by (auto simp: flow split: if_splits)
  have "\<exists>ss. sessionTokens db1 = sessionTokens db @ ss \<and>
      (\<forall>s \<in> set ss. se_uid s = ac_uid a \<and> map_option tk_id session = Some (se_tokenId s))"
    using s
  proof
    assume "\<exists>t. session = Some t \<and> createSessionToken C cfg now (rn_session rnd) (reset_session_details q v a e) db = Inr (t, db1)"
    then obtain t where t: "session = Some t"
      "createSessionToken C cfg now (rn_session rnd) (reset_session_details q v a e) db = Inr (t, db1)" by blast
    have "tk_uid t = truthy_string (Some (ac_uid a))"
      using t(2) by (simp add: createSessionToken_Inr reset_session_details_def)
    with added_session [OF t(2)] t(1) show ?thesis by (auto simp: truthy_string_eq dest: sym)
  qed simp
  moreover have "\<exists>ks. keyFetchTokens db2 = keyFetchTokens db1 @ ks \<and>
      (\<forall>r \<in> set ks. kr_uid r = ac_uid a \<and> map_option tk_id k = Some (kr_tokenId r))"
    using k
  proof
    assume "\<exists>x. k = Some x \<and>
        createKeyFetchToken C now (rn_keyFetch rnd) (ac_uid a) (ac_kA a) wrapKb (em_isVerified e) v db1 = Inr (x, db2)"
    then obtain x where x: "k = Some x"
      "createKeyFetchToken C now (rn_keyFetch rnd) (ac_uid a) (ac_kA a) wrapKb (em_isVerified e) v db1 = Inr (x, db2)" by blast
    with added_key [OF x(2)] show ?thesis by auto
  qed simp
  moreover have "keyFetchTokens db1 = keyFetchTokens db \<and> devices db1 = devices db \<and>
      passwordForgotTokens db1 = passwordForgotTokens db \<and> passwordChangeTokens db1 = passwordChangeTokens db \<and>
      accountResetTokens db1 = accountResetTokens db \<and> recoveryKeys db1 = recoveryKeys db"
    using s kept_createSessionToken by metis
  moreover have "sessionTokens db2 = sessionTokens db1 \<and> devices db2 = devices db1 \<and>
      passwordForgotTokens db2 = passwordForgotTokens db1 \<and> passwordChangeTokens db2 = passwordChangeTokens db1 \<and>
      accountResetTokens db2 = accountResetTokens db1 \<and> recoveryKeys db2 = recoveryKeys db1"
    using k kept_createKeyFetchToken by metis
  ultimately show thesis using that by (auto simp: d)
qed

text \<open>The tables between the reset and the new tokens.\<close>

lemma account_reset_Inr:
  assumes "account_reset C cfg sc now rnd t q (db, ts) = (Inr (session, k), s')"
  obtains u data hasTotp wrapKb db1 a where "tk_uid t = Some u" "ac_uid a = u"
    "db1 = resetAccountTokens u (resetAccount now u data db)
      \<or> db1 = deleteRecoveryKey u (resetAccountTokens u (resetAccount now u data db))"
    "snd s' = removePublicAndCanGrantTokens now u ts"
    "session = None \<and> k = None \<and> fst s' = securityEvent now u ''account.reset'' (ra_ipAddrHmac q) None db1
      \<or> (\<exists>e. reset_tokens C cfg now rnd q hasTotp wrapKb a e db1 = (Inr (session, k), fst s'))"
proof -
  obtain u where u: "tk_uid t = Some u" using assms by (auto simp: account_reset_def split: option.splits)
  obtain data wrapKb a e s where s: "reset_keys C cfg sc rnd q = Inr (data, wrapKb)"
    "reset_account_data now u data (db, ts) = (Inr (a, e), s)"
    "(let db1 = (if truthy_string (ra_recoveryKeyId q) \<noteq> None then deleteRecoveryKey u (fst s) else fst s)
      in case e of
           None \<Rightarrow> if ra_sessionToken q then (Inl JsTypeError, (db1, snd s))
                   else if ra_keys q then (Inl (MissingRequestParameter ''sessionToken''), (db1, snd s))
                   else (Inr (None, None), (securityEvent now u ''account.reset'' (ra_ipAddrHmac q) None db1, snd s))
         | Some e \<Rightarrow> let (r, db2) = reset_tokens C cfg now rnd q (hasTotpToken u (fst (db, ts))) wrapKb a e db1
                    in (r, (db2, snd s))) = (Inr (session, k), s')"
    using assms u unfolding account_reset_def by (auto simp: flow)
  have a: "ac_uid a = u" "s = (resetAccountTokens u (resetAccount now u data db), removePublicAndCanGrantTokens now u ts)"
    using s(2) by (auto simp: reset_account_data_def Let_def account_def find_account_def split: sum.splits option.splits
        dest!: find_SomeD)
  define db1 where "db1 = (if truthy_string (ra_recoveryKeyId q) \<noteq> None then deleteRecoveryKey u (fst s) else fst s)"
  have "snd s' = removePublicAndCanGrantTokens now u ts" "session = None \<and> k = None \<and>
      fst s' = securityEvent now u ''account.reset'' (ra_ipAddrHmac q) None db1
      \<or> (\<exists>e. reset_tokens C cfg now rnd q (hasTotpToken u (fst (db, ts))) wrapKb a e db1 = (Inr (session, k), fst s'))"
    using s(3) a(2) unfolding db1_def [symmetric] Let_def by (auto simp: flow split: option.splits if_splits)
  moreover have "db1 = resetAccountTokens u (resetAccount now u data db)
      \<or> db1 = deleteRecoveryKey u (resetAccountTokens u (resetAccount now u data db))"
    by (simp add: db1_def a(2))
  ultimately show thesis using that u a(1) by blast
qed

text \<open>
  C24: after the reset of an account nothing that was given out before is left of the user: the only session and
  the only key-fetch token are those of the answer, there is no device, no token of a password flow and no
  recovery key, and no access token of a client that is public or may grant. The sessions of the other
  users are as before.
\<close>

theorem account_reset_revokes:
  assumes "account_reset C cfg sc now rnd t q (db, ts) = (Inr (session, k), (db', ts'))" and "tk_uid t = Some u"
    and "db_reached E now ts" and "env_ok E"
  shows "(\<forall>s \<in> set (sessionTokens db'). se_uid s = u \<longrightarrow> map_option tk_id session = Some (se_tokenId s)) \<and>
    (\<forall>r \<in> set (keyFetchTokens db'). kr_uid r = u \<longrightarrow> map_option tk_id k = Some (kr_tokenId r)) \<and>
    (\<forall>d \<in> set (devices db'). de_uid d \<noteq> u) \<and> (\<forall>r \<in> set (passwordForgotTokens db'). fr_uid r \<noteq> u) \<and>
    (\<forall>r \<in> set (passwordChangeTokens db') \<union> set (accountResetTokens db'). fl_uid r \<noteq> u) \<and>
    (\<forall>r \<in> set (recoveryKeys db'). rk_uid r \<noteq> u) \<and>
    others se_uid u (sessionTokens db') = others se_uid u (sessionTokens db) \<and>
    (\<forall>i x. getAccessToken E now i ts' = Inr (Some x) \<longrightarrow> \<not> (at_userId x = u \<and> (at_canGrant x \<or> at_publicClient x)))"
proof -
  obtain u' data hasTotp wrapKb db1 a where r: "tk_uid t = Some u'" "ac_uid a = u'"
    "db1 = resetAccountTokens u' (resetAccount now u' data db)
      \<or> db1 = deleteRecoveryKey u' (resetAccountTokens u' (resetAccount now u' data db))"
    "snd (db', ts') = removePublicAndCanGrantTokens now u' ts"
    "session = None \<and> k = None \<and> fst (db', ts') = securityEvent now u' ''account.reset'' (ra_ipAddrHmac q) None db1
      \<or> (\<exists>e. reset_tokens C cfg now rnd q hasTotp wrapKb a e db1 = (Inr (session, k), fst (db', ts')))"
    by (rule account_reset_Inr [OF assms(1)])
  have u: "u' = u" using r(1) assms(2) by simp
  have db1: "sessionTokens db1 = others se_uid u (sessionTokens db)" "\<forall>r \<in> set (keyFetchTokens db1). kr_uid r \<noteq> u"
    "\<forall>d \<in> set (devices db1). de_uid d \<noteq> u" "\<forall>r \<in> set (passwordForgotTokens db1). fr_uid r \<noteq> u"
    "\<forall>r \<in> set (passwordChangeTokens db1) \<union> set (accountResetTokens db1). fl_uid r \<noteq> u"
    "\<forall>r \<in> set (recoveryKeys db1). rk_uid r \<noteq> u"
    using r(3) by (auto simp: u resetAccountTokens_def deleteRecoveryKey_def others_def)
  have ts: "\<not> (at_userId x = u \<and> (at_canGrant x \<or> at_publicClient x))" if "getAccessToken E now i ts' = Inr (Some x)" for i x
    using removePublic_revokes [OF assms(3,4) refl] that r(4) u by auto
  obtain ss ks where new: "sessionTokens db' = sessionTokens db1 @ ss" "keyFetchTokens db' = keyFetchTokens db1 @ ks"
    "\<forall>s \<in> set ss. se_uid s = u \<and> map_option tk_id session = Some (se_tokenId s)"
    "\<forall>r \<in> set ks. kr_uid r = u \<and> map_option tk_id k = Some (kr_tokenId r)"
    and same: "devices db' = devices db1" "passwordForgotTokens db' = passwordForgotTokens db1"
    "passwordChangeTokens db' = passwordChangeTokens db1" "accountResetTokens db' = accountResetTokens db1"
    "recoveryKeys db' = recoveryKeys db1"
  proof (cases "session = None \<and> k = None \<and> db' = securityEvent now u ''account.reset'' (ra_ipAddrHmac q) None db1")
    case True
    then show ?thesis by (intro that [of "[]" "[]"]) simp_all
  next
    case False
    then obtain e where "reset_tokens C cfg now rnd q hasTotp wrapKb a e db1 = (Inr (session, k), db')"
      using r(5) u by auto
    then show ?thesis using that r(2) u by (elim reset_tokens_rows) blast
  qed
  have "others se_uid u ss = []" using new(3) by (auto simp: others_def filter_empty_conv)
  then have "others se_uid u (sessionTokens db') = others se_uid u (sessionTokens db)"
    using new(1) db1(1) by (simp add: others_def)
  moreover have "\<forall>s \<in> set (sessionTokens db'). se_uid s = u \<longrightarrow> map_option tk_id session = Some (se_tokenId s)"
    using new(1,3) db1(1) by (auto simp: others_def)
  moreover have "\<forall>r \<in> set (keyFetchTokens db'). kr_uid r = u \<longrightarrow> map_option tk_id k = Some (kr_tokenId r)"
    using new(2,4) db1(2) by auto
  ultimately show ?thesis using db1(3-6) ts unfolding same by blast
qed

definition plain_reset :: reset_request where
  "plain_reset = \<lparr> ra_authPW = ''bb'', ra_wrapKb = None, ra_recoveryKeyId = None, ra_sessionToken = False, ra_keys = False,
     ra_ua = sd_ua no_details, ra_ipAddrHmac = [] \<rparr>"

lemma plain_reset_keys: "\<exists>r. reset_keys sample_crypto sample_config idle new_random plain_reset = Inr r"
proof -
  obtain p where p: "new_Password sample_crypto idle (ra_authPW plain_reset) (rn_authSalt new_random)
      (Some (cfg_verifierVersion sample_config)) = Inr p"
    using new_password_stretched by (auto simp: plain_reset_def new_password_def)
  obtain w where "unwrap sample_crypto p (rn_wrapWrapKb new_random) = Inr w"
    using unwrap_wrap [OF sample_crypto_ok, of "replicate 32 8" p] by (auto simp: new_random_def)
  with p show ?thesis by (simp add: reset_keys_def plain_reset_def)
qed

theorem account_reset_revokes_witness:
  "\<exists>db' ts'. account_reset sample_crypto sample_config idle 0 new_random
      (AccountResetToken_create sample_crypto sample_config 0 [6] ''b2'') plain_reset (two_users, example_db) =
      (Inr (None, None), (db', ts')) \<and>
    map se_uid (sessionTokens two_users) = [''b2''] \<and> (\<forall>s \<in> set (sessionTokens db'). se_uid s \<noteq> ''b2'')"
proof -
  let ?t = "AccountResetToken_create sample_crypto sample_config 0 [6] ''b2''"
  have u: "tk_uid ?t = Some ''b2''" by (simp add: AccountResetToken_create_def new_Token_def)
  obtain data wrapKb where k: "reset_keys sample_crypto sample_config idle new_random plain_reset = Inr (data, wrapKb)"
    using plain_reset_keys by force
  have "find_account ''b2'' (resetAccountTokens ''b2'' (resetAccount 0 ''b2'' data two_users)) \<noteq> None"
    by (simp add: find_account_def resetAccountTokens_def two_users_def no_tables_def user_row_def update_rows_def)
  then obtain a e s where "reset_account_data 0 ''b2'' data (two_users, example_db) = (Inr (a, e), s)"
    by (auto simp: reset_account_data_def account_def Let_def)
  with u k obtain db' ts' where r: "account_reset sample_crypto sample_config idle 0 new_random ?t plain_reset (two_users, example_db) =
      (Inr (None, None), (db', ts'))"
    by (cases e) (auto simp: account_reset_def plain_reset_def reset_tokens_def Let_def)
  moreover have "\<forall>s \<in> set (sessionTokens db'). se_uid s \<noteq> ''b2''"
    using account_reset_revokes [OF r u example_db_reached example_env_ok] by auto
  moreover have "map se_uid (sessionTokens two_users) = [''b2'']" by (simp add: two_users_def other_session_def)
  ultimately show ?thesis by (intro exI conjI)
qed

section \<open>The deletion of an account\<close>

lemma find_others: "\<forall>x \<in> set xs. P x \<longrightarrow> key x \<noteq> u \<Longrightarrow> find P (others key u xs) = find P xs"
  by (induction xs) (auto simp: others_def)

lemma find_others_Some: "find P xs = Some x \<Longrightarrow> key x \<noteq> u \<Longrightarrow> find P (others key u xs) = Some x"
  by (induction xs) (auto simp: others_def split: if_splits)

lemma deleteAccount_tables [simp]:
  "accounts (deleteAccount u db) = others ac_uid u (accounts db)" "emails (deleteAccount u db) = others em_uid u (emails db)"
  "sessionTokens (deleteAccount u db) = others se_uid u (sessionTokens db)"
  "unverifiedTokens (deleteAccount u db) = others un_uid u (unverifiedTokens db)"
  "keyFetchTokens (deleteAccount u db) = others kr_uid u (keyFetchTokens db)"
  "devices (deleteAccount u db) = others de_uid u (devices db)" "totp (deleteAccount u db) = others to_uid u (totp db)"
  "recoveryKeys (deleteAccount u db) = others rk_uid u (recoveryKeys db)"
  "recoveryCodes (deleteAccount u db) = others rc_uid u (recoveryCodes db)"
  by (simp_all add: deleteAccount_def Let_def others_def [of de_uid])

lemma deleteAccount_gone:
  "u \<notin> ac_uid ` set (accounts (deleteAccount u db))" "u \<notin> em_uid ` set (emails (deleteAccount u db))"
  "u \<notin> se_uid ` set (sessionTokens (deleteAccount u db))" "u \<notin> un_uid ` set (unverifiedTokens (deleteAccount u db))"
  "u \<notin> kr_uid ` set (keyFetchTokens (deleteAccount u db))" "u \<notin> fr_uid ` set (passwordForgotTokens (deleteAccount u db))"
  "u \<notin> fl_uid ` set (passwordChangeTokens (deleteAccount u db))" "u \<notin> fl_uid ` set (accountResetTokens (deleteAccount u db))"
  "u \<notin> de_uid ` set (devices (deleteAccount u db))"
  "\<forall>c \<in> set (deviceCommands (deleteAccount u db)). \<forall>d \<in> set (devices db). de_uid d = u \<longrightarrow>
     \<not> (co_uid c = u \<and> co_deviceId c = de_id d)"
  "u \<notin> rk_uid ` set (recoveryKeys (deleteAccount u db))" "u \<notin> rc_uid ` set (recoveryCodes (deleteAccount u db))"
  "u \<notin> ub_uid ` set (unblockCodes (deleteAccount u db))" "u \<notin> si_uid ` set (signinCodes (deleteAccount u db))"
  "u \<notin> to_uid ` set (totp (deleteAccount u db))" "u \<notin> ev_uid ` set (securityEvents (deleteAccount u db))"
  "u \<notin> la_uid ` set (linkedAccounts (deleteAccount u db))" "u \<notin> sn_uid ` set (sentEmails (deleteAccount u db))"
  by (auto simp: deleteAccount_def delete_devices_def Let_def list_ex_iff others_def)

lemma session_kept:
  assumes "auth_ok db" "sessionToken C cfg now i db = Inr t" "tk_uid t \<noteq> Some u" "tk_uid t \<noteq> None"
  shows "sessionToken C cfg now i (deleteAccount u db) = Inr t"
proof -
  obtain s where s: "find (\<lambda>s. se_tokenId s = i) (sessionTokens db) = Some s" "notExpired now (session_with_device s db)"
    "t = SessionToken_fromHex C cfg (se_tokenData s) (session_with_device s db)"
    using assms(2) by (auto simp: sessionToken_Inr)
  have u: "se_uid s \<noteq> u" using assms(3,4) s(3) by (auto simp: SessionToken_fromHex_def truthy_string_eq)
  have m: "\<forall>m \<in> set (unverifiedTokens db). un_tokenId m = se_tokenId s \<longrightarrow> un_uid m = se_uid s"
    using assms(1) find_SomeD [OF s(1)] by (auto simp: auth_ok_def marks_ok_def)
  have "session_with_device s (deleteAccount u db) = session_with_device s db"
    unfolding session_with_device_def find_account_def primaryEmail_def using m u
    by (simp add: find_others)
  then show ?thesis using s find_others_Some [OF s(1), of se_uid u] u by (simp add: sessionToken_Inr)
qed

text \<open>
  C25: deleting an account removes the user from both stores: seventeen of the eighteen tables of the
  auth server have no row of the user, and the last one has no command of a device of the user. There is no
  access token, refresh token or code of the user in the OAuth server. The sessions and the access tokens of
  every other user read back as before.
\<close>

theorem account_destroy_removes:
  assumes "account_destroy C sc ok now session email pw (db, ts) = Inr (db', ts')" and "accountRecord email db = Inr (a, e)"
    and "u = ac_uid a" and "auth_ok db" and "db_reached E now ts" and "env_ok E"
  shows "u \<notin> ac_uid ` set (accounts db') \<and> u \<notin> em_uid ` set (emails db') \<and>
    u \<notin> se_uid ` set (sessionTokens db') \<and> u \<notin> un_uid ` set (unverifiedTokens db') \<and>
    u \<notin> kr_uid ` set (keyFetchTokens db') \<and> u \<notin> fr_uid ` set (passwordForgotTokens db') \<and>
    u \<notin> fl_uid ` set (passwordChangeTokens db') \<and> u \<notin> fl_uid ` set (accountResetTokens db') \<and>
    u \<notin> de_uid ` set (devices db') \<and>
    (\<forall>c \<in> set (deviceCommands db'). \<forall>d \<in> set (devices db). de_uid d = u \<longrightarrow> \<not> (co_uid c = u \<and> co_deviceId c = de_id d)) \<and>
    u \<notin> rk_uid ` set (recoveryKeys db') \<and> u \<notin> rc_uid ` set (recoveryCodes db') \<and>
    u \<notin> ub_uid ` set (unblockCodes db') \<and> u \<notin> si_uid ` set (signinCodes db') \<and> u \<notin> to_uid ` set (totp db') \<and>
    u \<notin> ev_uid ` set (securityEvents db') \<and> u \<notin> la_uid ` set (linkedAccounts db') \<and> u \<notin> sn_uid ` set (sentEmails db') \<and>
    (\<forall>i x. getAccessToken E now i ts' = Inr (Some x) \<longrightarrow> at_userId x \<noteq> u) \<and>
    getRefreshTokensByUid E now u ts' = Inr ([], ts') \<and> u \<notin> cr_userId ` set (my_codes (db_mysql ts')) \<and>
    (\<forall>cfg n i t. sessionToken C cfg n i db = Inr t \<and> tk_uid t \<noteq> Some u \<and> tk_uid t \<noteq> None \<longrightarrow>
       sessionToken C cfg n i db' = Inr t) \<and>
    (\<forall>i x. getAccessToken E now i ts = Inr (Some x) \<and> at_userId x \<noteq> u \<longrightarrow> getAccessToken E now i ts' = Inr (Some x))"
proof -
  have d: "db' = deleteAccount u db" "ts' = removeUser now u ts"
    using assms(1-3) by (auto simp: account_destroy_def flow)
  note r = removeUser_revokes [OF assms(5,6) d(2)]
  have t: "\<forall>i x. getAccessToken E now i ts' = Inr (Some x) \<longrightarrow> at_userId x \<noteq> u" "getRefreshTokensByUid E now u ts' = Inr ([], ts')"
    "u \<notin> cr_userId ` set (my_codes (db_mysql ts'))"
    "\<forall>i x. getAccessToken E now i ts = Inr (Some x) \<and> at_userId x \<noteq> u \<longrightarrow> getAccessToken E now i ts' = Inr (Some x)"
    using r by auto
  have s: "\<forall>cfg n i t. sessionToken C cfg n i db = Inr t \<and> tk_uid t \<noteq> Some u \<and> tk_uid t \<noteq> None \<longrightarrow>
       sessionToken C cfg n i db' = Inr t"
    unfolding d(1) using session_kept [OF assms(4)] by blast
  show ?thesis by (intro conjI t s deleteAccount_gone [of u db, folded d(1)])
qed

theorem account_destroy_removes_witness:
  "\<exists>db' ts'. account_destroy sample_crypto idle True 0 (Some (session_of two_users)) ''b@x'' ''aa'' (two_users, example_db) =
      Inr (db', ts') \<and>
    ''b2'' \<notin> ac_uid ` set (accounts db') \<and> ''b2'' \<notin> to_uid ` set (totp db') \<and> ''b2'' \<notin> se_uid ` set (sessionTokens db')"
proof -
  let ?a = "user_row ''b2'' ''b@x''"
  have "checkPassword ''b2'' (verifyHash sample_crypto sample_password) two_users"
    by (simp add: checkPassword_def two_users_def no_tables_def user_row_def)
  then obtain db' ts' where d: "account_destroy sample_crypto idle True 0 (Some (session_of two_users)) ''b@x'' ''aa''
      (two_users, example_db) = Inr (db', ts')"
    using two_users_record(2) two_users_session(5,6) sample_password_new salt_not_ones
    by (simp add: account_destroy_def signin_checkPassword_def require_def user_row_def)
  have "ac_uid ?a = ''b2''" by (simp add: user_row_def)
  then have "''b2'' \<notin> ac_uid ` set (accounts db') \<and> ''b2'' \<notin> to_uid ` set (totp db') \<and> ''b2'' \<notin> se_uid ` set (sessionTokens db')"
    using account_destroy_removes [OF d two_users_record(2) refl two_users_ok(1) example_db_reached example_env_ok] by metis
  with d show ?thesis by blast
qed

end
