(* ===== verification/Forgot_Guarantees.thy ===== *)
theory Forgot_Guarantees
  imports Auth_Samples
begin

text \<open>
  How many codes may be tried for a forgotten password.
\<close>

section \<open>Codes of a forgotten password\<close>

lemma hex_digits: "list_all (\<lambda>c. hex_value c \<noteq> None) (toString_hex b)"
proof (induction b)
  case (Cons x b)
  have "unat x < 256" using unsigned_less [of x] by simp
  then have "unat x div 16 < 16" "unat x mod 16 < 16" by auto
  with Cons show ?case by (simp add: toString_hex_def hex_value_char)
qed (simp add: toString_hex_def)

lemma hex_string_toString:
  assumes "b \<noteq> []"
  shows "hex_string (toString_hex b)"
proof -
  have "0 < length (toString_hex b)" using assms by simp
  then have "toString_hex b \<noteq> []" by force
  then show ?thesis unfolding hex_string_def using hex_digits by simp
qed

lemma token_id_hex:
  assumes "crypto_ok C"
  shows "hex_string (k_id (deriveTokenKeys C kind b))"
proof -
  have "length (take 32 (hkdf C (Bytes b) kind 96)) = 32" using assms by (simp add: hkdf_def crypto_ok_def)
  then have "take 32 (hkdf C (Bytes b) kind 96) \<noteq> []" by force
  then show ?thesis by (simp add: deriveTokenKeys_def Let_def hex_string_toString)
qed

text \<open>A stored code with the tries that are left, of a user with an account.\<close>

definition open_code :: "crypto \<Rightarrow> string \<Rightarrow> forgot_row \<Rightarrow> auth_db \<Rightarrow> bool" where
  "open_code C i r db \<longleftrightarrow> find (\<lambda>r. fr_tokenId r = i) (passwordForgotTokens db) = Some r \<and> 0 < fr_tries r \<and>
     k_id (deriveTokenKeys C ''passwordForgotToken'' (from_hex (fr_tokenData r))) = i \<and>
     fr_passCode r \<noteq> [] \<and> fr_uid r \<noteq> [] \<and> find_account (fr_uid r) db \<noteq> None \<and> primaryEmail (fr_uid r) db \<noteq> None"

lemma forgot_token_fields [simp]:
  "tk_id (new_PasswordForgotToken cfg ks u c e p n) = k_id ks" "tk_uid (new_PasswordForgotToken cfg ks u c e p n) = truthy_string u"
  "fo_passCode (new_PasswordForgotToken cfg ks u c e p n) = truthy_string p"
  "fo_tries (new_PasswordForgotToken cfg ks u c e p n) = truthy_int n"
  "tk_createdAt (new_PasswordForgotToken cfg ks u c e p n) = js_or0 c"
  "tk_lifetime (new_PasswordForgotToken cfg ks u c e p n) = truthy_int (Some (cfg_passwordForgotToken cfg))"
  by (simp_all add: new_PasswordForgotToken_def new_Token_def Let_def)

lemma open_code_token:
  assumes "crypto_ok C" "open_code C i r db" "0 < cfg_passwordForgotToken cfg" "n < fr_createdAt r + cfg_passwordForgotToken cfg"
  obtains t where "token_credentials False n (\<lambda>i. passwordForgotToken C cfg i db) i = Inr (Some t)" "tk_id t = i"
    "fo_passCode t = Some (fr_passCode r)" "tk_uid t = Some (fr_uid r)" "fo_tries t = Some (fr_tries r)"
    "\<exists>ttl. token_ttl n t = Some ttl \<and> 0 < ttl"
proof -
  obtain a e where ae: "find_account (fr_uid r) db = Some a" "primaryEmail (fr_uid r) db = Some e"
    using assms(2) by (auto simp: open_code_def)
  define t where "t = new_PasswordForgotToken cfg (deriveTokenKeys C ''passwordForgotToken'' (from_hex (fr_tokenData r)))
      (Some (fr_uid r)) (Some (fr_createdAt r)) (Some (em_email e)) (Some (fr_passCode r)) (Some (fr_tries r))"
  have f: "find (\<lambda>r. fr_tokenId r = i) (passwordForgotTokens db) = Some r" using assms(2) by (simp add: open_code_def)
  have p: "passwordForgotToken C cfg i db = Inr t" using f ae by (simp add: passwordForgotToken_def t_def)
  have hex: "hex_string i" using token_id_hex [OF assms(1)] assms(2) unfolding open_code_def by metis
  have l: "\<exists>ttl. token_ttl n t = Some ttl \<and> 0 < ttl"
    using assms(3,4) by (simp add: token_ttl_def t_def)
  then have "token_credentials False n (\<lambda>i. passwordForgotToken C cfg i db) i = Inr (Some t)"
    using p hex by (auto simp: token_credentials_def expired_def)
  moreover have "tk_id t = i" "fo_passCode t = Some (fr_passCode r)" "tk_uid t = Some (fr_uid r)" "fo_tries t = Some (fr_tries r)"
    using assms(2) by (simp_all add: t_def open_code_def)
  ultimately show thesis using that l by blast
qed

lemma forgot_wrong:
  assumes "crypto_ok C" "open_code C i r db" "0 < cfg_passwordForgotToken cfg" "n < fr_createdAt r + cfg_passwordForgotToken cfg"
    "from_hex code \<noteq> from_hex (fr_passCode r)" "db' = snd (forgot_request C cfg True n bytes i code db)"
  shows "if fr_tries r \<le> 1 then find (\<lambda>r. fr_tokenId r = i) (passwordForgotTokens db') = None
    else open_code C i (r\<lparr> fr_tries := fr_tries r - 1 \<rparr>) db'"
proof -
  obtain t where t: "token_credentials False n (\<lambda>i. passwordForgotToken C cfg i db) i = Inr (Some t)" "tk_id t = i"
    "fo_passCode t = Some (fr_passCode r)" "tk_uid t = Some (fr_uid r)" "fo_tries t = Some (fr_tries r)"
    "\<exists>ttl. token_ttl n t = Some ttl \<and> 0 < ttl"
    by (rule open_code_token [OF assms(1-4)])
  have db': "db' = (if fr_tries r \<le> 1 then deletePasswordForgotToken i db
      else db\<lparr> passwordForgotTokens := update_rows (\<lambda>r. fr_tokenId r = i) (\<lambda>x. x\<lparr> fr_tries := fr_tries r - 1 \<rparr>) (passwordForgotTokens db) \<rparr>)"
    using t assms(5,6) by (auto simp: forgot_request_def forgot_verify_code_def failVerifyAttempt_def failAttempt_def Let_def
        updatePasswordForgotToken_def)
  have f: "find (\<lambda>r. fr_tokenId r = i) (update_rows (\<lambda>r. fr_tokenId r = i) (\<lambda>x. x\<lparr> fr_tries := m \<rparr>) xs) =
      map_option (\<lambda>x. x\<lparr> fr_tries := m \<rparr>) (find (\<lambda>r. fr_tokenId r = i) xs)" for m xs
    by (induction xs) (auto simp: update_rows_def)
  show ?thesis
    using assms(2) by (auto simp: db' deletePasswordForgotToken_def find_None open_code_def f find_account_def primaryEmail_def)
qed

lemma forgot_right:
  assumes "crypto_ok C" "open_code C i r db" "0 < cfg_passwordForgotToken cfg" "n < fr_createdAt r + cfg_passwordForgotToken cfg"
  shows "\<exists>x. fst (forgot_request C cfg True n bytes i (fr_passCode r) db) = Inr x"
proof -
  obtain t where t: "token_credentials False n (\<lambda>i. passwordForgotToken C cfg i db) i = Inr (Some t)" "tk_id t = i"
    "fo_passCode t = Some (fr_passCode r)" "tk_uid t = Some (fr_uid r)" "fo_tries t = Some (fr_tries r)"
    "\<exists>ttl. token_ttl n t = Some ttl \<and> 0 < ttl"
    by (rule open_code_token [OF assms])
  then show ?thesis by (auto simp: forgot_request_def forgot_verify_code_def split: prod.splits)
qed

lemma forgot_gone:
  "find (\<lambda>r. fr_tokenId r = i) (passwordForgotTokens db) = None \<Longrightarrow>
    (\<exists>e. forgot_request C cfg ok n bytes i code db = (Inl e, db))"
  by (simp add: forgot_request_def token_credentials_def passwordForgotToken_def)

definition try_codes :: "crypto \<Rightarrow> auth_config \<Rightarrow> buffer \<Rightarrow> string \<Rightarrow> (int \<times> string) list \<Rightarrow> auth_db \<Rightarrow> auth_db" where
  "try_codes C cfg bytes i attempts db =
     fold (\<lambda>(n, code) db. snd (forgot_request C cfg True n bytes i code db)) attempts db"

lemma try_codes_gone:
  "find (\<lambda>r. fr_tokenId r = i) (passwordForgotTokens db) = None \<Longrightarrow> try_codes C cfg bytes i attempts db = db"
proof (induction attempts)
  case (Cons x attempts)
  then show ?case using forgot_gone [OF Cons.prems] by (cases x) (simp add: try_codes_def, metis snd_conv)
qed (simp add: try_codes_def)

lemma try_codes_left:
  assumes "crypto_ok C" "0 < cfg_passwordForgotToken cfg"
  shows "open_code C i r db \<Longrightarrow>
    \<forall>(n, code) \<in> set attempts. n < fr_createdAt r + cfg_passwordForgotToken cfg \<and> from_hex code \<noteq> from_hex (fr_passCode r) \<Longrightarrow>
    if int (length attempts) < fr_tries r
    then open_code C i (r\<lparr> fr_tries := fr_tries r - int (length attempts) \<rparr>) (try_codes C cfg bytes i attempts db)
    else find (\<lambda>r. fr_tokenId r = i) (passwordForgotTokens (try_codes C cfg bytes i attempts db)) = None"
proof (induction attempts arbitrary: r db)
  case Nil
  then show ?case by (simp add: try_codes_def open_code_def)
next
  case (Cons x attempts)
  obtain n code where x: "x = (n, code)" by fastforce
  define db1 where "db1 = snd (forgot_request C cfg True n bytes i code db)"
  have step: "try_codes C cfg bytes i (x # attempts) db = try_codes C cfg bytes i attempts db1"
    by (simp add: try_codes_def x db1_def)
  have w: "if fr_tries r \<le> 1 then find (\<lambda>r. fr_tokenId r = i) (passwordForgotTokens db1) = None
      else open_code C i (r\<lparr> fr_tries := fr_tries r - 1 \<rparr>) db1"
    using forgot_wrong [OF assms(1) Cons.prems(1) assms(2) _ _ db1_def] Cons.prems(2) x by auto
  show ?case
  proof (cases "fr_tries r \<le> 1")
    case True
    then show ?thesis using w try_codes_gone by (simp add: step)
  next
    case False
    then show ?thesis using w Cons.IH [of "r\<lparr> fr_tries := fr_tries r - 1 \<rparr>" db1] Cons.prems(2)
      by (auto simp: step algebra_simps)
  qed
qed

text \<open>
  C27: the code of a forgotten password is good for three tries: while it has not expired, it is accepted
  exactly if fewer than three wrong codes have been sent before.
\<close>

theorem three_wrong_codes:
  assumes "crypto_ok C" and "0 < cfg_passwordForgotToken cfg" and "passCode \<noteq> []"
    and "forgot_send_code C cfg True now bytes passCode email db = Inr (t, db1)" and "tk_uid t = Some u"
    and "\<forall>(n, code) \<in> set attempts. n < now + cfg_passwordForgotToken cfg \<and> from_hex code \<noteq> from_hex passCode"
    and "later < now + cfg_passwordForgotToken cfg"
  shows "(\<exists>r. fst (forgot_request C cfg True later b (tk_id t) passCode (try_codes C cfg b' (tk_id t) attempts db1)) = Inr r)
    \<longleftrightarrow> length attempts < 3"
proof -
  obtain a e where s: "accountRecord email db = Inr (a, Some e)"
    "createPasswordForgotToken C cfg now bytes passCode (ac_uid a) (Some (ac_email a)) db = (t, db1)"
    using assms(4) by (auto simp: forgot_send_code_def flow split: option.splits if_splits)
  define r where "r = \<lparr> fr_tokenId = tk_id t, fr_tokenData = toString_hex bytes, fr_uid = ac_uid a,
      fr_passCode = passCode, fr_createdAt = now, fr_tries = 3 \<rparr>"
  have t: "t = PasswordForgotToken_create C cfg now bytes passCode (ac_uid a) (Some (ac_email a))"
    using s(2) by (simp add: createPasswordForgotToken_def Let_def)
  have f: "passwordForgotTokens db1 =
      filter (\<lambda>x. \<not> (fr_tokenId r = fr_tokenId x \<or> fr_uid r = fr_uid x)) (passwordForgotTokens db) @ [r]"
    "accounts db1 = accounts db" "emails db1 = emails db"
    using s(2) by (auto simp: createPasswordForgotToken_def Let_def replace_row_def r_def PasswordForgotToken_create_def
        new_PasswordForgotToken_def new_Token_def deriveTokenKeys_def)
  have "a \<in> set (accounts db)" "primaryEmail (ac_uid a) db = Some e" using accountRecord_found [OF s(1)] by auto
  then have "find_account (ac_uid a) db1 \<noteq> None" "primaryEmail (ac_uid a) db1 \<noteq> None"
    using f(2,3) by (auto simp: find_account_def find_None primaryEmail_def)
  moreover have "ac_uid a \<noteq> []" using assms(5) by (auto simp: t PasswordForgotToken_create_def truthy_string_eq)
  moreover have "find (\<lambda>x. fr_tokenId x = tk_id t) (passwordForgotTokens db1) = Some r"
    by (auto simp: f(1) find_snoc r_def find_None split: option.splits dest!: find_SomeD)
  ultimately have "open_code C (tk_id t) r db1"
    using assms(3) by (simp add: open_code_def r_def t PasswordForgotToken_create_def)
  from try_codes_left [OF assms(1,2) this, of attempts b'] assms(6)
  have l: "if length attempts < 3
    then open_code C (tk_id t) (r\<lparr> fr_tries := 3 - int (length attempts) \<rparr>) (try_codes C cfg b' (tk_id t) attempts db1)
    else find (\<lambda>r. fr_tokenId r = tk_id t) (passwordForgotTokens (try_codes C cfg b' (tk_id t) attempts db1)) = None"
    by (simp add: r_def split: if_splits)
  show ?thesis
  proof (cases "length attempts < 3")
    case True
    then show ?thesis using l forgot_right [OF assms(1) _ assms(2), of "tk_id t" "r\<lparr> fr_tries := 3 - int (length attempts) \<rparr>"] assms(7)
      by (simp add: r_def)
  next
    case False
    then show ?thesis using l forgot_gone by (metis Inl_Inr_False fst_conv)
  qed
qed

definition wrong_codes :: "(int \<times> string) list" where
  "wrong_codes = [(5500, ''0b''), (5600, ''0c''), (5700, ''0d'')]"

theorem three_wrong_codes_witness:
  "\<exists>t db1. forgot_send_code sample_crypto sample_config True 5000 [7] ''0a'' ''b@x'' two_users = Inr (t, db1) \<and>
    (\<exists>r. fst (forgot_request sample_crypto sample_config True 6000 [8] (tk_id t) ''0a''
       (try_codes sample_crypto sample_config [8] (tk_id t) (take 2 wrong_codes) db1)) = Inr r) \<and>
    (\<nexists>r. fst (forgot_request sample_crypto sample_config True 6000 [8] (tk_id t) ''0a''
       (try_codes sample_crypto sample_config [8] (tk_id t) wrong_codes db1)) = Inr r)"
proof -
  let ?C = sample_crypto and ?g = sample_config
  obtain t db1 where c: "createPasswordForgotToken ?C ?g 5000 [7] ''0a'' ''b2'' (Some ''b@x'') two_users = (t, db1)" by fastforce
  then have s: "forgot_send_code ?C ?g True 5000 [7] ''0a'' ''b@x'' two_users = Inr (t, db1)"
    by (simp add: forgot_send_code_def two_users_record(2) require_def) (simp add: user_row_def mail_row_def lower_samples)
  have u: "tk_uid t = Some ''b2''"
    using c by (auto simp: createPasswordForgotToken_def PasswordForgotToken_create_def Let_def)
  have w: "\<forall>(n, code) \<in> set wrong_codes. n < 5000 + cfg_passwordForgotToken ?g \<and> from_hex code \<noteq> from_hex ''0a''"
    by (simp add: wrong_codes_def sample_config_def from_hex_def hex_value_def Let_def)
  then have w2: "\<forall>(n, code) \<in> set (take 2 wrong_codes). n < 5000 + cfg_passwordForgotToken ?g \<and> from_hex code \<noteq> from_hex ''0a''"
    by (meson in_set_takeD)
  have l: "0 < cfg_passwordForgotToken ?g" "6000 < 5000 + cfg_passwordForgotToken ?g" "length wrong_codes = 3"
    by (simp_all add: sample_config_def wrong_codes_def)
  show ?thesis
    using three_wrong_codes [OF sample_crypto_ok l(1) _ s u w l(2), of "[8]" "[8]"]
      three_wrong_codes [OF sample_crypto_ok l(1) _ s u w2 l(2), of "[8]" "[8]"] s l(3) by auto
qed

end
