(* ===== verification/Factor_Guarantees.thy ===== *)
theory Factor_Guarantees
  imports Auth_Samples
begin

text \<open>
  Codes that a user gets: those that unblock a login, the recovery codes, and the codes that are sent to a
  mailbox, with what they can be used for.
\<close>

section \<open>Codes that unblock a login\<close>

lemma createUnblockCode_Inr:
  "createUnblockCode C now u code db = Inr db' \<longleftrightarrow>
    (\<forall>x \<in> set (unblockCodes db). \<not> (ub_uid x = u \<and> ub_unblockCodeHash x = unblock_hash C u code)) \<and>
    db' = db\<lparr> unblockCodes := unblockCodes db @
      [\<lparr> ub_uid = u, ub_unblockCodeHash = unblock_hash C u code, ub_createdAt = now \<rparr>] \<rparr>"
  by (auto simp: createUnblockCode_def and_then_Inr row_inserted)

lemma retry_None:
  "retryUnblockCode C now u codes db = None \<Longrightarrow>
    unblock_hash C u ` set codes \<subseteq> ub_unblockCodeHash ` set (filter (\<lambda>x. ub_uid x = u) (unblockCodes db))"
proof (induction codes)
  case (Cons code codes)
  then obtain e where "createUnblockCode C now u code db = Inl e" "retryUnblockCode C now u codes db = None"
    by (auto split: sum.splits)
  then obtain x where "x \<in> set (unblockCodes db)" "ub_uid x = u" "ub_unblockCodeHash x = unblock_hash C u code"
    using createUnblockCode_Inr [of C now u code db] by (metis Inl_Inr_False)
  then have "unblock_hash C u code \<in> ub_unblockCodeHash ` set (filter (\<lambda>x. ub_uid x = u) (unblockCodes db))"
    by (intro image_eqI [of _ _ x]) simp_all
  with Cons.IH \<open>retryUnblockCode C now u codes db = None\<close> show ?case by auto
qed simp

lemma retry_Some:
  "retryUnblockCode C now u codes db = Some (code, db') \<Longrightarrow> code \<in> set codes \<and> createUnblockCode C now u code db = Inr db'"
  by (induction codes) (auto split: sum.splits)

text \<open>
  C32: the loop that generates a code to unblock a login ends: as soon as more codes with different hashes have
  come up than the user has stored, one of them has been stored, and it unblocks the login.
\<close>

theorem unblock_retry_ends:
  assumes "distinct (map (unblock_hash C u) codes)"
    and "length (filter (\<lambda>x. ub_uid x = u) (unblockCodes db)) < length codes" and "0 < now"
  shows "\<exists>code db'. retryUnblockCode C now u codes db = Some (code, db') \<and> code \<in> set codes \<and>
    fst (consumeUnblockCode C u code db') = Inr now"
proof -
  let ?own = "filter (\<lambda>x. ub_uid x = u) (unblockCodes db)"
  have "retryUnblockCode C now u codes db \<noteq> None"
  proof
    assume "retryUnblockCode C now u codes db = None"
    then have "card (unblock_hash C u ` set codes) \<le> card (ub_unblockCodeHash ` set ?own)"
      using retry_None by (intro card_mono) auto
    also have "\<dots> \<le> length ?own" using card_image_le [of "set ?own"] card_length [of ?own] le_trans by blast
    finally show False using assms(1,2) distinct_card [OF assms(1)] by simp
  qed
  then obtain code db' where r: "retryUnblockCode C now u codes db = Some (code, db')" by auto
  then have c: "code \<in> set codes" "createUnblockCode C now u code db = Inr db'" using retry_Some by blast+
  let ?P = "\<lambda>x. ub_uid x = u \<and> ub_unblockCodeHash x = unblock_hash C u code"
  have "find ?P (unblockCodes db) = None" using c(2) by (auto simp: createUnblockCode_Inr find_None)
  then have "find ?P (unblockCodes db') = Some \<lparr> ub_uid = u, ub_unblockCodeHash = unblock_hash C u code, ub_createdAt = now \<rparr>"
    using c(2) by (simp add: createUnblockCode_Inr find_snoc)
  then have "fst (consumeUnblockCode C u code db') = Inr now" using assms(3) by (simp add: consumeUnblockCode_def)
  with r c(1) show ?thesis by blast
qed

theorem unblock_retry_ends_witness:
  "\<exists>code db'. retryUnblockCode sample_crypto 5000 ''b2'' [''A'', ''B''] two_users = Some (code, db') \<and>
    fst (consumeUnblockCode sample_crypto ''b2'' code db') = Inr 5000"
proof -
  have "distinct (map (unblock_hash sample_crypto ''b2'') [''A'', ''B''])"
    by (simp add: unblock_hash_def sample_crypto_def from_hex_def hex_value_def from_ascii_def)
  moreover have "length (filter (\<lambda>x. ub_uid x = ''b2'') (unblockCodes two_users)) < length [''A'', ''B'']"
    by (simp add: two_users_def no_tables_def)
  ultimately show ?thesis using unblock_retry_ends [of sample_crypto "''b2''" "[''A'', ''B'']" two_users 5000] by auto
qed

section \<open>Recovery codes\<close>

definition code_row_of :: "string \<Rightarrow> buffer \<times> buffer \<Rightarrow> recovery_code_row" where
  "code_row_of u h = \<lparr> rc_uid = u, rc_codeHash = fst h, rc_salt = snd h \<rparr>"

lemma code_row_of_fields [simp]:
  "rc_uid (code_row_of u h) = u" "rc_codeHash (code_row_of u h) = fst h" "rc_salt (code_row_of u h) = snd h"
  by (simp_all add: code_row_of_def)

lemma create_codes_Inr:
  "create_codes u hs rows = (Inr (), rows') \<Longrightarrow>
    rows' = rows @ map (code_row_of u) hs \<and> distinct (map fst hs) \<and>
    (\<forall>x \<in> set rows. rc_uid x = u \<longrightarrow> rc_codeHash x \<notin> fst ` set hs)"
proof (induction u hs rows rule: create_codes.induct)
  case (2 u hash salt hashes rows)
  then have c: "create_codes u hashes (rows @ [code_row_of u (hash, salt)]) = (Inr (), rows')"
    "\<forall>x \<in> set rows. \<not> (rc_uid x = u \<and> rc_codeHash x = hash)"
    by (auto simp: row_inserted code_row_of_def split: sum.splits)
  have "unique_row (\<lambda>x y. rc_uid x = rc_uid y \<and> rc_codeHash x = rc_codeHash y)
      \<lparr> rc_uid = u, rc_codeHash = hash, rc_salt = salt \<rparr> rows = Inr (rows @ [code_row_of u (hash, salt)])"
    using c(2) by (auto simp: row_inserted code_row_of_def)
  then show ?case using 2(1) [OF _ c(1)] c(2) by (auto simp: image_iff)
qed auto

definition own_hash :: "crypto \<Rightarrow> string \<times> buffer \<Rightarrow> buffer" where
  "own_hash C x = code_hash C (fst x) (snd x)"

definition stored_code :: "crypto \<Rightarrow> string \<Rightarrow> string \<times> buffer \<Rightarrow> recovery_code_row" where
  "stored_code C u x = code_row_of u (own_hash C x, snd x)"

lemma stored_code_fields [simp]:
  "rc_uid (stored_code C u x) = u" "rc_codeHash (stored_code C u x) = own_hash C x" "rc_salt (stored_code C u x) = snd x"
  by (simp_all add: stored_code_def)

lemma updateRecoveryCodes_rows:
  assumes "updateRecoveryCodes C u codes db = (Inr (), db')"
  shows "recoveryCodes db' = others rc_uid u (recoveryCodes db) @ map (stored_code C u) codes"
    "distinct (map (own_hash C) codes)"
proof -
  let ?hs = "map (\<lambda>(code, salt). (code_hash C code salt, salt)) codes"
  obtain rows where r: "create_codes u ?hs (others rc_uid u (recoveryCodes db)) = (Inr (), rows)"
    "recoveryCodes db' = rows"
    using assms by (auto simp: updateRecoveryCodes_def replaceRecoveryCodes_def split: if_splits prod.splits)
  then show "recoveryCodes db' = others rc_uid u (recoveryCodes db) @ map (stored_code C u) codes"
    using create_codes_Inr [OF r(1)] by (simp add: comp_def case_prod_unfold stored_code_def [abs_def] own_hash_def [abs_def])
  show "distinct (map (own_hash C) codes)"
    using create_codes_Inr [OF r(1)] by (simp add: comp_def case_prod_unfold stored_code_def [abs_def] own_hash_def [abs_def])
qed

lemma length_filter_other:
  "distinct (map h xs) \<Longrightarrow> x \<in> set xs \<Longrightarrow> length (filter (\<lambda>y. h y \<noteq> h x) xs) = length xs - 1"
proof (induction xs)
  case (Cons y xs)
  show ?case
  proof (cases "y = x")
    case True
    then have "filter (\<lambda>y. h y \<noteq> h x) xs = xs" using Cons.prems(1) by (auto simp: filter_id_conv) (metis image_eqI)
    with True show ?thesis by simp
  next
    case False
    then have x: "x \<in> set xs" "h y \<noteq> h x" using Cons.prems by auto
    then have "0 < length xs" by (cases xs) auto
    with x Cons show ?thesis by simp
  qed
qed simp

text \<open>What the search for a code finds among the codes of the user.\<close>

lemma consumeRecoveryCode_own:
  assumes "recoveryCodes db = os @ map (stored_code C u) codes" "\<forall>x \<in> set os. rc_uid x \<noteq> u"
  shows "find (\<lambda>r. rc_uid r = u \<and> rc_codeHash r = code_hash C code (rc_salt r)) (recoveryCodes db) =
    map_option (stored_code C u) (find (\<lambda>x. own_hash C x = code_hash C code (snd x)) codes)"
proof -
  have "find (\<lambda>r. rc_uid r = u \<and> rc_codeHash r = code_hash C code (rc_salt r)) os = None"
    using assms(2) by (auto simp: find_None)
  then show ?thesis by (simp add: assms(1) find_append find_map)
qed

text \<open>Using a code removes it from the codes of the user.\<close>

lemma consumeRecoveryCode_left:
  assumes "recoveryCodes db = os @ map (stored_code C u) codes" "\<forall>x \<in> set os. rc_uid x \<noteq> u"
    and "distinct (map (own_hash C) codes)" "consumeRecoveryCode C u code db = Inr (n, db')"
  obtains x where "x \<in> set codes" "own_hash C x = code_hash C (toLowerCase code) (snd x)" "n = length codes - 1"
    "recoveryCodes db' = os @ map (stored_code C u) (filter (\<lambda>y. own_hash C y \<noteq> own_hash C x) codes)"
proof -
  let ?f = "stored_code C u"
  note own = consumeRecoveryCode_own [OF assms(1,2), of "toLowerCase code"]
  obtain x where x: "find (\<lambda>x. own_hash C x = code_hash C (toLowerCase code) (snd x)) codes = Some x"
    using assms(4) own by (cases "find (\<lambda>x. own_hash C x = code_hash C (toLowerCase code) (snd x)) codes")
      (simp_all add: consumeRecoveryCode_def)
  let ?left = "filter (\<lambda>y. own_hash C y \<noteq> own_hash C x) codes"
  have "filter (\<lambda>r. \<not> (rc_uid r = u \<and> rc_codeHash r = rc_codeHash (?f x))) os = os"
    using assms(2) by (simp add: filter_id_conv)
  then have "filter (\<lambda>r. \<not> (rc_uid r = u \<and> rc_codeHash r = rc_codeHash (?f x))) (recoveryCodes db) = os @ map ?f ?left"
    by (simp add: assms(1) filter_map comp_def)
  then have r: "recoveryCodes db' = os @ map ?f ?left" "n = length (filter (\<lambda>r. rc_uid r = u) (os @ map ?f ?left))"
    using assms(4) own x by (auto simp: consumeRecoveryCode_def Let_def)
  have "filter (\<lambda>r. rc_uid r = u) os = []" using assms(2) by (simp add: filter_empty_conv)
  then have "n = length ?left" using r(2) by (simp add: filter_map comp_def)
  then have "n = length codes - 1"
    using length_filter_other [OF assms(3), of x] find_SomeD [OF x] by metis
  then show thesis using that r(1) find_SomeD [OF x] by blast
qed

text \<open>
  C31: a set of recovery codes that was stored for a user accepts a code exactly if it is, in lower case, one of
  the set, each of them once, and says how many are left. A code of the set with an upper-case letter is
  therefore never accepted.
\<close>

theorem recovery_codes_work_once:
  assumes "updateRecoveryCodes C u codes db = (Inr (), db1)" and "distinct (map fst codes)"
    and "\<forall>(c, s) \<in> set codes. code_hash C c s = code_hash C (toLowerCase code) s \<longrightarrow> c = toLowerCase code"
  shows "((\<exists>n db2. consumeRecoveryCode C u code db1 = Inr (n, db2)) \<longleftrightarrow> toLowerCase code \<in> fst ` set codes) \<and>
    (\<forall>n db2. consumeRecoveryCode C u code db1 = Inr (n, db2) \<longrightarrow>
      n = length codes - 1 \<and> consumeRecoveryCode C u code db2 = Inl RecoveryCodeNotFound)"
proof -
  let ?l = "toLowerCase code"
  let ?os = "others rc_uid u (recoveryCodes db)" and ?Q = "\<lambda>x. own_hash C x = code_hash C (toLowerCase code) (snd x)"
  note rows = updateRecoveryCodes_rows [OF assms(1)]
  have os: "\<forall>x \<in> set ?os. rc_uid x \<noteq> u" by (simp add: others_def)
  note own = consumeRecoveryCode_own [OF rows(1) os, of ?l]
  have Q: "?Q x \<longleftrightarrow> fst x = ?l" if "x \<in> set codes" for x using assms(3) that by (cases x) (auto simp: own_hash_def)
  have ex: "(\<exists>n db2. consumeRecoveryCode C u code db1 = Inr (n, db2)) \<longleftrightarrow> ?l \<in> fst ` set codes"
  proof (cases "find ?Q codes")
    case None
    then have "?l \<notin> fst ` set codes" using Q by (fastforce simp: find_None)
    with None own show ?thesis by (simp add: consumeRecoveryCode_def)
  next
    case (Some x)
    then have "?l \<in> fst ` set codes" using find_SomeD [OF Some] Q by (metis image_eqI)
    with Some own show ?thesis by (simp add: consumeRecoveryCode_def Let_def)
  qed
  moreover have "n = length codes - 1 \<and> consumeRecoveryCode C u code db2 = Inl RecoveryCodeNotFound"
    if c: "consumeRecoveryCode C u code db1 = Inr (n, db2)" for n db2
  proof -
    obtain x where x: "x \<in> set codes" "?Q x" "n = length codes - 1"
      "recoveryCodes db2 = ?os @ map (stored_code C u) (filter (\<lambda>y. own_hash C y \<noteq> own_hash C x) codes)"
      by (rule consumeRecoveryCode_left [OF rows(1) os rows(2) c])
    have "y = x" if "y \<in> set codes" "?Q y" for y
      using that Q [OF that(1)] Q [OF x(1)] x(1,2) assms(2) by (metis distinct_map inj_on_def)
    then have "find ?Q (filter (\<lambda>y. own_hash C y \<noteq> own_hash C x) codes) = None" by (auto simp: find_None)
    then show ?thesis
      using consumeRecoveryCode_own [OF x(4) os, of ?l] x(3) by (simp add: consumeRecoveryCode_def)
  qed
  ultimately show ?thesis by blast
qed

theorem recovery_codes_work_once_witness:
  "\<exists>db1 db2. updateRecoveryCodes sample_crypto ''b2'' [(''ab'', [1]), (''cd'', [2])] two_users = (Inr (), db1) \<and>
    consumeRecoveryCode sample_crypto ''b2'' ''AB'' db1 = Inr (1, db2) \<and>
    consumeRecoveryCode sample_crypto ''b2'' ''AB'' db2 = Inl RecoveryCodeNotFound"
proof -
  let ?codes = "[(''ab'', [1 :: 8 word]), (''cd'', [2])]"
  have l: "toLowerCase ''AB'' = ''ab''" by code_simp
  have h: "code_hash sample_crypto ''cd'' [2] \<noteq> code_hash sample_crypto ''ab'' [1]"
    "code_hash sample_crypto ''cd'' [2] \<noteq> code_hash sample_crypto ''ab'' [2]"
    by (simp_all add: code_hash_def sample_crypto_def from_ascii_def)
  obtain db1 where u: "updateRecoveryCodes sample_crypto ''b2'' ?codes two_users = (Inr (), db1)"
    using h(1) by (auto simp: updateRecoveryCodes_def replaceRecoveryCodes_def find_account_def two_users_def no_tables_def
        user_row_def others_def unique_row_def)
  have c: "\<forall>(c, s) \<in> set ?codes. code_hash sample_crypto c s = code_hash sample_crypto (toLowerCase ''AB'') s \<longrightarrow>
      c = toLowerCase ''AB''"
    using h(2) by (simp add: l)
  have d: "distinct (map fst ?codes)" by simp
  note w = recovery_codes_work_once [OF u d c]
  obtain n db2 where "consumeRecoveryCode sample_crypto ''b2'' ''AB'' db1 = Inr (n, db2)" using w l by auto
  with w u show ?thesis by fastforce
qed

section \<open>Codes that go to a mailbox\<close>

lemma own_email_found:
  assumes "auth_ok db" "e \<in> set (emails db)"
  shows "find (\<lambda>x. emailsMatch (em_normalizedEmail x) (em_normalizedEmail e)) (account_emails (em_uid e) db) = Some e"
proof -
  have ok: "\<forall>n \<in> em_normalizedEmail ` set (emails db). toLowerCase n = n" "distinct (map em_normalizedEmail (emails db))"
    using assms(1) by (auto simp: auth_ok_defs)
  have "find (\<lambda>x. emailsMatch (em_normalizedEmail x) (em_normalizedEmail e)) (account_emails (em_uid e) db) =
      find (\<lambda>x. em_normalizedEmail x = em_normalizedEmail e) (account_emails (em_uid e) db)"
    using ok(1) assms(2) by (intro find_cong) (auto simp: emailsMatch_def account_emails_def)
  also have "\<dots> = Some e"
    using ok(2) assms(2) by (intro find_distinct) (auto simp: account_emails_def distinct_map_filter)
  finally show ?thesis .
qed

lemma account_Inr:
  "account u db = Inr (a, e) \<longleftrightarrow> find_account u db = Some a \<and> e = primaryEmail u db"
  by (auto simp: account_def split: option.splits)

lemma primaryEmailD: "primaryEmail u db = Some e \<Longrightarrow> e \<in> set (emails db) \<and> em_uid e = u \<and> em_isPrimary e"
  by (auto simp: primaryEmail_def dest: find_SomeD)

lemma stored_session:
  assumes "sessionToken C cfg now (tk_id t) db = Inr t"
  obtains s where "find (\<lambda>s. se_tokenId s = tk_id t) (sessionTokens db) = Some s" "se_tokenId s = tk_id t"
    "tk_id t = k_id (deriveTokenKeys C ''sessionToken'' (from_hex (se_tokenData s)))" "tk_uid t = truthy_string (Some (se_uid s))"
proof -
  obtain s where s: "find (\<lambda>s. se_tokenId s = tk_id t) (sessionTokens db) = Some s"
    "t = SessionToken_fromHex C cfg (se_tokenData s) (session_with_device s db)"
    using assms by (auto simp: sessionToken_Inr)
  have "tk_id t = k_id (deriveTokenKeys C ''sessionToken'' (from_hex (se_tokenData s)))"
    "tk_uid t = truthy_string (Some (se_uid s))"
    unfolding s(2) by (simp_all add: SessionToken_fromHex_def)
  then show thesis using that s(1) find_SomeD [OF s(1)] by blast
qed

lemma verify_total:
  "find (\<lambda>s. se_tokenId s = i) (sessionTokens db) = Some s \<Longrightarrow> \<exists>db'. verifyTokensWithMethod now i m db = Inr db'"
  by (simp add: verifyTokensWithMethod_def Let_def split: option.split)

lemma verified_by_mail:
  assumes "auth_ok db" "sessionToken C cfg now (tk_id t) db = Inr t" "verifyTokensWithMethod now (tk_id t) m db = Inr db1"
    "sessionToken C cfg later (tk_id t) db1 = Inr t1"
  shows "st_tokenVerified t1" "tk_id t1 = tk_id t" "tk_uid t1 = tk_uid t"
proof -
  obtain s where s: "find (\<lambda>s. se_tokenId s = tk_id t) (sessionTokens db) = Some s" "se_tokenId s = tk_id t"
    "tk_id t = k_id (deriveTokenKeys C ''sessionToken'' (from_hex (se_tokenData s)))" "tk_uid t = truthy_string (Some (se_uid s))"
    by (rule stored_session [OF assms(2)])
  let ?s = "s\<lparr> se_verificationMethod := m, se_verifiedAt := Some now \<rparr>"
  have f: "find (\<lambda>s. se_tokenId s = tk_id t) (sessionTokens db1) = Some ?s"
    using assms(3) s(1) by (auto simp: verifyTokensWithMethod_Inr Let_def update_find split: option.splits)
  then have t1: "t1 = new_SessionToken cfg (deriveTokenKeys C ''sessionToken'' (from_hex (se_tokenData s))) (session_with_device ?s db1)"
    using assms(4) by (auto simp: sessionToken_Inr SessionToken_fromHex_def)
  have "find (\<lambda>u. un_tokenId u = tk_id t) (unverifiedTokens db1) = None" using verified_row [OF assms(1,3)] by blast
  then show "st_tokenVerified t1" unfolding t1 using s(2) by simp
  show "tk_id t1 = tk_id t" "tk_uid t1 = tk_uid t" unfolding t1 using s(3,4) by simp_all
qed

lemma totp_destroyed:
  assumes "sessionToken C cfg now i db = Inr t0" "tk_id t = i" "st_tokenVerified t" "tk_uid t = Some u"
  shows "\<exists>db'. totp_destroy True later t db = (Inr (), db') \<and> \<not> hasTotpToken u db'"
proof -
  let ?db = "deleteTotpToken later u db"
  have "\<exists>s. find (\<lambda>s. se_tokenId s = i) (sessionTokens ?db) = Some s"
    using assms(1) by (auto simp: sessionToken_Inr deleteTotpToken_def touch_profile_def)
  then obtain db' where v: "verifyTokensWithMethod later i (map_of VERIFICATION_METHOD ''email-2fa'') ?db = Inr db'"
    using verify_total by blast
  have "totp db' = others to_uid u (totp db)"
    using kept_verifyTokensWithMethod(3) [OF v] by (simp add: deleteTotpToken_def touch_profile_def)
  then have "\<not> hasTotpToken u db'"
    by (auto simp: hasTotpToken_def totpToken_def others_def split: option.splits dest: find_SomeD)
  then show ?thesis using assms v by (auto simp: totp_destroy_def require_def)
qed

text \<open>
  C33: a password and the mailbox are enough to turn off the second factor: for a session that still waits for
  a TOTP code, the route for secondary addresses sends the code of the primary address, the session is
  verified with it, and a session that is verified in this way may delete the TOTP token.
\<close>

theorem totp_bypass_by_mail:
  assumes "auth_ok db" and "otp_ok G" and "sessionToken C cfg now (tk_id t) db = Inr t" and "\<not> st_tokenVerified t"
    and "tk_uid t = Some u" and "hasTotpToken u db" and "account u db = Inr (a, Some e)" and "em_isVerified e"
  shows "\<exists>code db1. secondary_resend_code G True t (em_normalizedEmail e) db = Inr ([em_email e], code) \<and>
    session_verify_code True (otp_check G) now t code db = Inr db1 \<and>
    (\<forall>later t1. sessionToken C cfg later (tk_id t) db1 = Inr t1 \<longrightarrow> st_tokenVerified t1 \<and>
      (\<exists>db2. totp_destroy True later t1 db1 = (Inr (), db2) \<and> \<not> hasTotpToken u db2))"
proof -
  have e: "e \<in> set (emails db)" "em_uid e = u" using assms(7) primaryEmailD by (auto simp: account_Inr)
  let ?code = "otp_generate G (em_emailCode e)" and ?m = "map_of VERIFICATION_METHOD ''email-2fa''"
  have r: "secondary_resend_code G True t (em_normalizedEmail e) db = Inr ([em_email e], ?code)"
    using own_email_found [OF assms(1) e(1)] e(2) assms(5,7) by (simp add: secondary_resend_code_def require_def)
  obtain s where "find (\<lambda>s. se_tokenId s = tk_id t) (sessionTokens db) = Some s"
    using assms(3) by (auto simp: sessionToken_Inr)
  then obtain db1 where v: "verifyTokensWithMethod now (tk_id t) ?m db = Inr db1"
    using verify_total by blast
  have "session_verify_code True (otp_check G) now t ?code db = Inr db1"
    using assms(2,5,7,8) v by (simp add: session_verify_code_def require_def otp_ok_def)
  moreover have "st_tokenVerified t1 \<and> (\<exists>db2. totp_destroy True later t1 db1 = (Inr (), db2) \<and> \<not> hasTotpToken u db2)"
    if l: "sessionToken C cfg later (tk_id t) db1 = Inr t1" for later t1
    using verified_by_mail [OF assms(1,3) v l] totp_destroyed [OF l] assms(5) by simp
  ultimately show ?thesis using r by blast
qed

definition sample_otp :: otp_service where
  "sample_otp = \<lparr> otp_generate = (\<lambda>secret. ''code'' @ secret), otp_check = (\<lambda>code secret. code = ''code'' @ secret) \<rparr>"

lemma sample_otp_ok: "otp_ok sample_otp"
  by (simp add: otp_ok_def sample_otp_def)

lemma waiting_account:
  "account ''b2'' two_users_waiting = Inr (user_row ''b2'' ''b@x'', Some (mail_row ''b2'' ''b@x'' True))"
  by (simp add: account_Inr find_account_def primaryEmail_def two_users_waiting_def two_users_def no_tables_def user_row_def mail_row_def)

theorem totp_bypass_by_mail_witness:
  "\<exists>code db1. secondary_resend_code sample_otp True (session_of two_users_waiting) ''b@x'' two_users_waiting = Inr ([''b@x''], code) \<and>
    session_verify_code True (otp_check sample_otp) 6000 (session_of two_users_waiting) code two_users_waiting = Inr db1"
proof -
  let ?t = "session_of two_users_waiting"
  have t: "sessionToken sample_crypto sample_config 6000 (tk_id ?t) two_users_waiting = Inr ?t"
    using waiting_session(1,3) by simp
  have e: "em_isVerified (mail_row ''b2'' ''b@x'' True)" by (simp add: mail_row_def)
  show ?thesis
    using totp_bypass_by_mail [OF two_users_ok(2) sample_otp_ok t waiting_session(4,2) two_users_totp(2) waiting_account e]
    by (auto simp: mail_row_def)
qed



end
