(* ===== verification/Signin_Guarantees.thy ===== *)
theory Signin_Guarantees
  imports Auth_Samples
begin

text \<open>
  What a password alone gives: the tokens of a login of a user with a second factor wait for it, while those
  of a session that authenticates again do not.
\<close>

section \<open>Tables\<close>

lemma kept_updateSessionToken [simp]:
  "accounts (updateSessionToken now t db) = accounts db" "emails (updateSessionToken now t db) = emails db"
  "keyFetchTokens (updateSessionToken now t db) = keyFetchTokens db"
  "un_tokenId ` set (unverifiedTokens (updateSessionToken now t db)) = un_tokenId ` set (unverifiedTokens db)"
  "se_tokenId ` set (sessionTokens (updateSessionToken now t db)) = se_tokenId ` set (sessionTokens db)"
  by (simp_all add: updateSessionToken_def Let_def image_update_rows)

lemma fresh_after_update: "fresh_token i db \<Longrightarrow> fresh_token i (updateSessionToken now t db)"
  by (simp add: fresh_token_def)

lemma fresh_after_event: "fresh_token i db \<Longrightarrow> fresh_token i (securityEvent now u n h j db)"
  by (simp add: fresh_token_def)

text \<open>A key-fetch token without a mark, of a user with a verified address, gives the keys.\<close>

lemma unmarked_keys:
  assumes "createKeyFetchToken C now bytes u kA wrapKb ev None db = Inr (k, db')" "fresh_token (tk_id k) db"
    "primaryEmail u db = Some e" "em_isVerified e"
  shows "\<exists>k' db2. keyFetchTokenWithVerificationStatus (tk_id k) db' = Inr k' \<and> account_keys k' db' = Inr (kf_keyBundle k, db2)"
proof -
  have kc: "KeyFetchToken_create C now bytes u kA wrapKb ev None = Inr k" using assms(1) by (simp add: createKeyFetchToken_Inr)
  note kf = created_key_fields [OF kc] and row = created_key_row [OF assms(1,2)]
  have "primaryEmail u db' = Some e"
    using kept_createKeyFetchToken(2) [OF assms(1)] assms(3) by (simp add: primaryEmail_def)
  with row kf(2,3) assms(4) show ?thesis by (auto simp: keyFetchTokenWithVerificationStatus_def account_keys_def)
qed

text \<open>One with a mark gives nothing.\<close>

lemma marked_keys:
  assumes "createKeyFetchToken C now bytes u kA wrapKb ev (Some v) db = Inr (k, db')" "fresh_token (tk_id k) db" "v \<noteq> []"
    "keyFetchTokenWithVerificationStatus (tk_id k) db' = Inr k'"
  shows "account_keys k' db'' = Inl UnverifiedAccount"
proof -
  have kc: "KeyFetchToken_create C now bytes u kA wrapKb ev (Some v) = Inr k" using assms(1) by (simp add: createKeyFetchToken_Inr)
  note kf = created_key_fields [OF kc] and row = created_key_row [OF assms(1,2)]
  have "map_option un_tokenVerificationId (find (\<lambda>m. un_tokenId m = tk_id k) (unverifiedTokens db')) = Some v"
    using row(2) kf(2) assms(3) by simp
  with assms(3,4) row(1) have "\<not> kf_tokenVerified k'"
    by (auto simp: keyFetchTokenWithVerificationStatus_def split: option.splits)
  then show ?thesis by (simp add: account_keys_def)
qed

section \<open>Authenticating again\<close>

text \<open>
  C34: \<open>POST /session/reauth\<close> does not ask whose session it is: with a verified session of somebody else and
  the password of a user, the keys of the user are given out at once, although the user has a TOTP token.
\<close>

theorem reauth_keys_of_another_user:
  assumes "crypto_ok C" and "wants_service cf q" and "customs_refusal cf (sq_email q) out = Inr None"
    and "truthy_string (sq_originalLoginEmail q) = None" and "sq_keys q"
    and "accountRecord (sq_email q) db = Inr (a, Some e)" and "em_isVerified e" and "length (from_hex (ac_kA a)) = 32"
    and "checkEmailAndPassword C sc q a (Some e) db = Inr password" and "unwrap C password (ac_wrapWrapKb a) = Inr w"
    and "hasTotpToken (ac_uid a) db" and "tk_uid t \<noteq> Some (ac_uid a)" and "st_tokenVerificationId t = None"
    and "fresh_token (k_id (deriveTokenKeys C ''keyFetchToken'' (rn_keyFetch rnd))) db"
  shows "\<exists>r k db' k' db2. session_reauth C cf sc now rnd q out t db = (Inr r, db') \<and> lr_keyFetch r = Some k \<and>
    keyFetchTokenWithVerificationStatus (tk_id k) db' = Inr k' \<and> account_keys k' db' = Inr (kf_keyBundle k, db2) \<and>
    client_keys C k = Inr (toString_hex (from_hex (ac_kA a)), toString_hex (from_hex w))"
proof -
  let ?u = "ac_uid a" and ?t = "reauth_token now q (Some ''totp-2fa'') t"
  define db1 where "db1 = securityEvent now ?u ''account.login'' (sq_ipHmac q ?u) (Some (tk_id ?t)) (updateSessionToken now ?t db)"
  have load: "checkCustomsAndLoadAccount C cf now q out db = (Inr ((a, Some e), False), db)"
    using assms(3,4,6) by (simp add: checkCustomsAndLoadAccount_def)
  have totp: "checkTotpToken ?u (sq_verificationMethod q) db = Inr (Some ''totp-2fa'')" using assms(11) by (simp add: checkTotpToken_def)
  have tv: "st_tokenVerificationId ?t = None" using assms(13) by (simp add: reauth_token_def)
  have f: "fresh_token (k_id (deriveTokenKeys C ''keyFetchToken'' (rn_keyFetch rnd))) db1"
    using assms(14) by (simp add: db1_def fresh_after_event fresh_after_update)
  obtain k db' where k: "createKeyFetchToken C now (rn_keyFetch rnd) ?u (ac_kA a) w (em_isVerified e) None db1 = Inr (k, db')"
    using createKeyFetchToken_total [OF assms(1) refl, of "rn_keyFetch rnd" db1 None] f by (auto simp: fresh_token_def) blast
  have kc: "KeyFetchToken_create C now (rn_keyFetch rnd) ?u (ac_kA a) w (em_isVerified e) None = Inr k"
    using k by (simp add: createKeyFetchToken_Inr)
  have sk: "signin_createKeyFetchToken C now (rn_keyFetch rnd) a e password None db1 = Inr (k, db')"
    using assms(10) k by (simp add: signin_createKeyFetchToken_def)
  obtain r where r: "session_reauth C cf sc now rnd q out t db = (Inr r, db')" "lr_keyFetch r = Some k"
    using assms(2,5,9) load totp tv sk by (simp add: session_reauth_def db1_def [symmetric] Let_def)
  have "primaryEmail ?u db1 = Some e" using accountRecord_found [OF assms(6)] by (simp add: db1_def primaryEmail_def)
  then obtain k' db2 where "keyFetchTokenWithVerificationStatus (tk_id k) db' = Inr k'" "account_keys k' db' = Inr (kf_keyBundle k, db2)"
    using unmarked_keys [OF k _ _ assms(7)] f created_key_fields(1) [OF kc] by auto
  moreover have "client_keys C k = Inr (toString_hex (from_hex (ac_kA a)), toString_hex (from_hex w))"
    by (rule client_keys_created [OF assms(1) kc assms(8) unwrap_twice(3) [OF assms(1,10)]])
  ultimately show ?thesis using r by blast
qed

definition open_config :: signin_config where
  "open_config = \<lparr> sc_codeLifetime = 3600000, sc_forcedUnblock = (\<lambda>_. False), sc_forceGlobally = False,
     sc_forcedEmailAddresses = (\<lambda>_. False), sc_allowedRecency = 0, sc_skipForNewAccounts = None, sc_skipConfirmation = [],
     sc_forcedPasswordChange = (\<lambda>_. False), sc_disabledClients = [] \<rparr>"

definition login_request :: signin_request where
  "login_request = \<lparr> sq_email = ''a@x'', sq_authPW = ''aa'', sq_originalLoginEmail = None, sq_unblockCode = None,
     sq_verificationMethod = None, sq_service = None, sq_keys = True, sq_ua = sd_ua no_details, sq_ipHmac = (\<lambda>_. []) \<rparr>"

definition login_random :: reset_random where
  "login_random = \<lparr> rn_authSalt = sample_salt, rn_wrapWrapKb = [], rn_session = [3], rn_tokenVerificationId = ''beef'',
     rn_keyFetch = [4] \<rparr>"

lemma login_request_checked:
  "wants_service open_config login_request" "customs_refusal open_config (sq_email login_request) (Passed False) = Inr None"
  "truthy_string (sq_originalLoginEmail login_request) = None" "sq_keys login_request"
  "checkEmailAndPassword sample_crypto idle login_request (user_row ''a1'' ''a@x'') (Some (mail_row ''a1'' ''a@x'' True)) two_users =
     Inr sample_password"
proof -
  have "checkPassword ''a1'' (verifyHash sample_crypto sample_password) two_users"
    by (simp add: checkPassword_def two_users_def no_tables_def user_row_def)
  moreover have "from_hex sample_salt \<noteq> ONES" by (simp add: sample_salt_def ONES_def)
  ultimately show "checkEmailAndPassword sample_crypto idle login_request (user_row ''a1'' ''a@x'') (Some (mail_row ''a1'' ''a@x'' True))
      two_users = Inr sample_password"
    using sample_password_new by (simp add: checkEmailAndPassword_def checkEmailAddress_def signin_checkPassword_def require_def
        emailsMatch_def login_request_def user_row_def mail_row_def)
qed (simp_all add: wants_service_def customs_refusal_def open_config_def login_request_def)

lemma login_record:
  "accountRecord (sq_email login_request) two_users = Inr (user_row ''a1'' ''a@x'', Some (mail_row ''a1'' ''a@x'' True))"
  using two_users_record(1) by (simp add: login_request_def)

theorem reauth_keys_of_another_user_witness:
  "tk_uid (session_of two_users) = Some ''b2'' \<and>
    (\<exists>r k db' k' keys db2. session_reauth sample_crypto open_config idle 6000 login_random login_request (Passed False)
       (session_of two_users) two_users = (Inr r, db') \<and> lr_keyFetch r = Some k \<and>
     keyFetchTokenWithVerificationStatus (tk_id k) db' = Inr k' \<and> account_keys k' db' = Inr (keys, db2))"
proof -
  let ?a = "user_row ''a1'' ''a@x''" and ?e = "mail_row ''a1'' ''a@x'' True"
  obtain w where w: "unwrap sample_crypto sample_password (ac_wrapWrapKb ?a) = Inr w" using sample_unwrap by blast
  have x: "em_isVerified ?e" "length (from_hex (ac_kA ?a)) = 32" "ac_uid ?a = ''a1''" by (simp_all add: mail_row_def user_row_def)
  have f: "fresh_token (k_id (deriveTokenKeys sample_crypto ''keyFetchToken'' (rn_keyFetch login_random))) two_users"
    using two_users_fresh [of 4] by (simp add: login_random_def)
  show ?thesis
    using reauth_keys_of_another_user [OF sample_crypto_ok login_request_checked(1-4) login_record x(1,2)
        login_request_checked(5) w _ _ two_users_session(5) f, of 6000] two_users_totp(1) two_users_session(2) x(3) by auto
qed

section \<open>Login\<close>

text \<open>Loading an account may spend its unblock codes and changes nothing else.\<close>

lemma consume_keeps:
  assumes "consumeUnblockCode C u code db = (r, db')"
  shows "\<exists>us. db' = db\<lparr> unblockCodes := us \<rparr>"
proof -
  have "db' = db \<or> db' = db\<lparr> unblockCodes := others ub_uid u (unblockCodes db) \<rparr>"
    using assms by (simp add: consumeUnblockCode_def Let_def split: if_splits)
  moreover have "db = db\<lparr> unblockCodes := unblockCodes db \<rparr>" by simp
  ultimately show ?thesis by metis
qed

lemma load_account:
  assumes "checkCustomsAndLoadAccount C cf now q out db = (Inr ((a, e), unblocked), db')"
  shows "\<exists>us. db' = db\<lparr> unblockCodes := us \<rparr>" "\<exists>email. accountRecord email db = Inr (a, e)"
proof -
  obtain x where x: "customs_refusal cf (sq_email q) out = Inr x"
    using assms by (cases "customs_refusal cf (sq_email q) out") (simp_all add: checkCustomsAndLoadAccount_def)
  have "(\<exists>us. db' = db\<lparr> unblockCodes := us \<rparr>) \<and> (\<exists>email. accountRecord email db = Inr (a, e))"
  proof (cases x)
    case None
    have "db = db\<lparr> unblockCodes := unblockCodes db \<rparr>" by simp
    moreover have "db' = db" "\<exists>email. accountRecord email db = Inr (a, e)"
      using assms x None by (auto simp: checkCustomsAndLoadAccount_def and_then_Inr)
    ultimately show ?thesis by metis
  next
    case (Some canUnblock)
    obtain code where c: "truthy_string (sq_unblockCode q) = Some code" canUnblock
      using assms x Some by (cases "truthy_string (sq_unblockCode q)") (simp_all add: checkCustomsAndLoadAccount_def split: if_splits)
    obtain a' e' where r: "accountRecord (sq_email q) db = Inr (a', e')"
      using assms x Some c by (cases "accountRecord (sq_email q) db") (auto simp: checkCustomsAndLoadAccount_def)
    obtain n db1 where "consumeUnblockCode C (ac_uid a') (toUpperCase code) db = (Inr n, db1)" "a' = a" "e' = e" "db' = db1"
      using assms x Some c r by (auto simp: checkCustomsAndLoadAccount_def flow split: if_splits)
    then show ?thesis using consume_keeps r by blast
  qed
  then show "\<exists>us. db' = db\<lparr> unblockCodes := us \<rparr>" "\<exists>email. accountRecord email db = Inr (a, e)" by blast+
qed

lemma login_Inr:
  assumes "login C cfg cf sc now rnd q out db = (Inr r, db')"
  obtains a e p meth recency unblocked db0 us where "db0 = db\<lparr> unblockCodes := us \<rparr>"
    "checkTotpToken (ac_uid a) (sq_verificationMethod q) db0 = Inr meth" "primaryEmail (ac_uid a) db = Some e"
    "login_tokens C cfg now rnd q (plan_session cf now (isSuspiciousRequest cf (sq_email q) out) unblocked (sq_keys q) recency
       meth a e) p a e db0 = (Inr r, db')"
proof -
  obtain a e unblocked db0 where l: "checkCustomsAndLoadAccount C cf now q out db = (Inr ((a, e), unblocked), db0)"
    using assms by (auto simp: login_def flow split: if_splits)
  then obtain p meth e' where *: "checkTotpToken (ac_uid a) (sq_verificationMethod q) db0 = Inr meth" "e = Some e'"
    "login_tokens C cfg now rnd q (plan_session cf now (isSuspiciousRequest cf (sq_email q) out) unblocked (sq_keys q)
       (checkSecurityHistory now (findByUidAndIP (ac_uid a) (sq_ipHmac q (ac_uid a)) db0)) meth a e') p a e' db0 = (Inr r, db')"
    using assms by (auto simp: login_def flow Let_def split: if_splits option.splits)
  obtain us where "db0 = db\<lparr> unblockCodes := us \<rparr>" using load_account(1) [OF l] by blast
  moreover have "primaryEmail (ac_uid a) db = Some e'" using load_account(2) [OF l] accountRecord_found *(2) by fastforce
  ultimately show thesis using that * by blast
qed

lemma login_tokens_Inr:
  assumes "login_tokens C cfg now rnd q plan p a e db = (Inr r, db')"
  obtains t db1 db2 where "createSessionToken C cfg now (rn_session rnd)
      (signin_details (sq_ua q) (ac_uid a) (em_email e) (em_emailCode e) (em_isVerified e) (ac_verifierSetAt a)
        (pl_mustVerifySession plan) (if pl_needsVerificationId plan then Some (rn_tokenVerificationId rnd) else None)) db = Inr (t, db1)" "lr_session r = t"
    "db2 = securityEvent now (ac_uid a) ''account.login'' (sq_ipHmac q (ac_uid a)) (Some (tk_id t)) db1"
    "lr_keyFetch r = None \<and> db' = db2 \<or> (\<exists>k w. lr_keyFetch r = Some k \<and>
      createKeyFetchToken C now (rn_keyFetch rnd) (ac_uid a) (ac_kA a) w (em_isVerified e) (st_tokenVerificationId t) db2 = Inr (k, db'))"
    "lr_status r = (if pl_passwordChangeRequired plan
       then \<lparr> vs_verified = False, vs_verificationMethod = pl_verificationMethod plan, vs_verificationReason = Some ''change_password'' \<rparr>
       else getSessionVerificationStatus t (pl_verificationMethod plan))"
proof -
  define v where "v = (if pl_needsVerificationId plan then Some (rn_tokenVerificationId rnd) else None)"
  define d where "d = signin_details (sq_ua q) (ac_uid a) (em_email e) (em_emailCode e) (em_isVerified e) (ac_verifierSetAt a)
        (pl_mustVerifySession plan) v"
  define ev where "ev t db = securityEvent now (ac_uid a) ''account.login'' (sq_ipHmac q (ac_uid a)) (Some (tk_id t)) db"
    for t :: session_token and db
  define st where "st t = (if pl_passwordChangeRequired plan
       then \<lparr> vs_verified = False, vs_verificationMethod = pl_verificationMethod plan, vs_verificationReason = Some ''change_password'' \<rparr>
       else getSessionVerificationStatus t (pl_verificationMethod plan))" for t
  obtain t db1 where c: "createSessionToken C cfg now (rn_session rnd) d db = Inr (t, db1)"
    and k: "then_st (if sq_keys q
        then attempt (and_then (signin_createKeyFetchToken C now (rn_keyFetch rnd) a e p (st_tokenVerificationId t) (ev t db1))
               (\<lambda>(k, db). Inr (Some k, db))) (ev t db1)
        else (Inr None, ev t db1)) (\<lambda>k db. (Inr \<lparr> lr_session = t, lr_keyFetch = k, lr_status = st t \<rparr>, db)) = (Inr r, db')"
    using assms unfolding login_tokens_def Let_def v_def [symmetric] d_def [symmetric] ev_def [symmetric] st_def [symmetric]
    by (simp add: then_st_Inr attempt_Inr) blast
  obtain x where x: "r = \<lparr> lr_session = t, lr_keyFetch = x, lr_status = st t \<rparr>" "if sq_keys q
        then attempt (and_then (signin_createKeyFetchToken C now (rn_keyFetch rnd) a e p (st_tokenVerificationId t) (ev t db1))
               (\<lambda>(k, db). Inr (Some k, db))) (ev t db1) = (Inr x, db')
        else x = None \<and> db' = ev t db1"
    using k by (cases "sq_keys q") (auto simp: then_st_Inr)
  have "lr_keyFetch r = None \<and> db' = ev t db1 \<or> (\<exists>k w. lr_keyFetch r = Some k \<and>
      createKeyFetchToken C now (rn_keyFetch rnd) (ac_uid a) (ac_kA a) w (em_isVerified e) (st_tokenVerificationId t) (ev t db1) = Inr (k, db'))"
    using x by (cases "sq_keys q") (auto simp: attempt_Inr and_then_Inr signin_createKeyFetchToken_def)
  then show thesis using that [of t db1 "ev t db1"] c x(1) by (simp add: d_def v_def ev_def st_def)
qed

lemma created_must_verify:
  assumes "createSessionToken C cfg now bytes d db = Inr (t, db')" "fresh_token (tk_id t) db"
  shows "\<exists>s. find (\<lambda>s. se_tokenId s = tk_id t) (sessionTokens db') = Some s \<and> se_tokenId s = tk_id t \<and>
    se_mustVerify s = Some (st_mustVerify t) \<and> se_verificationMethod s = None"
proof -
  have "find (\<lambda>s. se_tokenId s = tk_id t) (sessionTokens db) = None"
    using fresh_tokenD(2) [OF assms(2)] by (auto simp: find_None)
  then show ?thesis using assms(1) by (auto simp: createSessionToken_Inr createSessionToken_9_Inr find_snoc)
qed

text \<open>A session with a mark and the flag does not count, whatever else changes.\<close>

lemma marked_session:
  assumes "find (\<lambda>s. se_tokenId s = i) (sessionTokens db) = Some s" "se_tokenId s = i" "se_mustVerify s = Some True"
    "se_verificationMethod s = None"
    "map_option un_tokenVerificationId (find (\<lambda>m. un_tokenId m = i) (unverifiedTokens db)) = Some v" "v \<noteq> []"
    "sessionToken C cfg now i db = Inr t"
  shows "\<not> st_tokenVerified t \<and> authenticatorAssuranceLevel t = Inr 1 \<and> isl (assertion_claims now t)"
proof -
  obtain ks where t: "t = new_SessionToken cfg ks (session_with_device s db)"
    using read_token [OF assms(7)] assms(1) by (metis option.inject)
  have v: "truthy_string (sd_tokenVerificationId (session_with_device s db)) = Some v"
    unfolding with_device_fields(2) assms(2,5) using assms(6) by simp
  have m: "st_mustVerify t" using assms(3) by (simp add: t session_with_device_def coalesce_def Let_def)
  have "authenticationMethods t = Inr [''pwd'']" unfolding t session_level using assms(4) v by simp
  then have "authenticatorAssuranceLevel t = Inr 1" by (rule level_of_methods)
  moreover have n: "\<not> st_tokenVerified t" unfolding t using v by simp
  ultimately show ?thesis using m by (simp add: assertion_claims_def require_def)
qed

lemma totp_plan:
  "pl_needsVerificationId (plan_session cf now su un k rc (Some ''totp-2fa'') a e)"
  "pl_mustVerifySession (plan_session cf now su un k rc (Some ''totp-2fa'') a e)"
  by (simp_all add: plan_session_def Let_def)

text \<open>The session of a login of a user with a TOTP token: it has a mark and has to be verified.\<close>

lemma totp_login_session:
  assumes "login C cfg cf sc now rnd q out db = (Inr r, db')" "tk_uid (lr_session r) = Some u" "hasTotpToken u db"
    "rn_tokenVerificationId rnd \<noteq> []"
  obtains a :: account_row and e :: email_row and d us t db1 db2 where "createSessionToken C cfg now (rn_session rnd) d (db\<lparr> unblockCodes := us \<rparr>) = Inr (t, db1)"
    "lr_session r = t" "st_tokenVerificationId t = Some (rn_tokenVerificationId rnd)" "st_mustVerify t"
    "db2 = securityEvent now (ac_uid a) ''account.login'' (sq_ipHmac q (ac_uid a)) (Some (tk_id t)) db1"
    "lr_keyFetch r = None \<and> db' = db2 \<or> (\<exists>k w. lr_keyFetch r = Some k \<and> createKeyFetchToken C now (rn_keyFetch rnd)
      (ac_uid a) (ac_kA a) w (em_isVerified e) (Some (rn_tokenVerificationId rnd)) db2 = Inr (k, db'))"
    "\<not> vs_verified (lr_status r)"
proof -
  obtain a e p meth recency unblocked db0 us where l: "db0 = db\<lparr> unblockCodes := us \<rparr>"
    "checkTotpToken (ac_uid a) (sq_verificationMethod q) db0 = Inr meth" "primaryEmail (ac_uid a) db = Some e"
    "login_tokens C cfg now rnd q (plan_session cf now (isSuspiciousRequest cf (sq_email q) out) unblocked (sq_keys q) recency
       meth a e) p a e db0 = (Inr r, db')"
    by (rule login_Inr [OF assms(1)])
  define plan where "plan = plan_session cf now (isSuspiciousRequest cf (sq_email q) out) unblocked (sq_keys q) recency meth a e"
  obtain t db1 db2 where t: "createSessionToken C cfg now (rn_session rnd)
      (signin_details (sq_ua q) (ac_uid a) (em_email e) (em_emailCode e) (em_isVerified e) (ac_verifierSetAt a)
        (pl_mustVerifySession plan) (if pl_needsVerificationId plan then Some (rn_tokenVerificationId rnd) else None)) db0 = Inr (t, db1)"
    "lr_session r = t" "db2 = securityEvent now (ac_uid a) ''account.login'' (sq_ipHmac q (ac_uid a)) (Some (tk_id t)) db1"
    "lr_keyFetch r = None \<and> db' = db2 \<or> (\<exists>k w. lr_keyFetch r = Some k \<and>
      createKeyFetchToken C now (rn_keyFetch rnd) (ac_uid a) (ac_kA a) w (em_isVerified e) (st_tokenVerificationId t) db2 = Inr (k, db'))"
    "lr_status r = (if pl_passwordChangeRequired plan
       then \<lparr> vs_verified = False, vs_verificationMethod = pl_verificationMethod plan, vs_verificationReason = Some ''change_password'' \<rparr>
       else getSessionVerificationStatus t (pl_verificationMethod plan))"
    by (rule login_tokens_Inr [OF l(4) [folded plan_def]])
  have "tk_uid t = truthy_string (Some (ac_uid a))" using t(1) by (simp add: createSessionToken_Inr)
  then have "u = ac_uid a" using assms(2) t(2) by (simp add: truthy_string_eq)
  then have "meth = Some ''totp-2fa''"
    using l(1,2) assms(3) by (simp add: checkTotpToken_def hasTotpToken_def totpToken_def)
  then have plan: "pl_needsVerificationId plan" "pl_mustVerifySession plan" by (simp_all add: plan_def totp_plan)
  have f: "st_tokenVerificationId t = Some (rn_tokenVerificationId rnd)" "\<not> st_tokenVerified t" "st_mustVerify t"
    using t(1) plan assms(4) by (simp_all add: createSessionToken_Inr)
  have n: "\<not> vs_verified (lr_status r)" using f by (simp add: t(5) getSessionVerificationStatus_def)
  show thesis by (rule that [OF t(1) [unfolded l(1)] t(2) f(1,3) t(3) t(4) [unfolded f(1)] n])
qed

text \<open>
  C30: the login of a user with a TOTP token waits for the second factor, whatever the configuration, the
  history of the address and an unblock code say: the answer says so, the session reads back as unverified at
  level 1 and gets no assertion for the OAuth server, and the key-fetch token gives no keys.
\<close>

theorem totp_login_waits:
  assumes "auth_ok db" and "login C cfg cf sc now rnd q out db = (Inr r, db')"
    and "tk_uid (lr_session r) = Some u" and "hasTotpToken u db" and "rn_tokenVerificationId rnd \<noteq> []"
    and "fresh_token (tk_id (lr_session r)) db"
    and "\<forall>k. lr_keyFetch r = Some k \<longrightarrow> fresh_token (tk_id k) db \<and> tk_id k \<noteq> tk_id (lr_session r)"
  shows "\<not> vs_verified (lr_status r) \<and>
    (\<forall>later t. sessionToken C cfg later (tk_id (lr_session r)) db' = Inr t \<longrightarrow>
      \<not> st_tokenVerified t \<and> authenticatorAssuranceLevel t = Inr 1 \<and> isl (assertion_claims later t)) \<and>
    (\<forall>k k'. lr_keyFetch r = Some k \<and> keyFetchTokenWithVerificationStatus (tk_id k) db' = Inr k' \<longrightarrow>
      account_keys k' db' = Inl UnverifiedAccount)"
proof -
  let ?v = "rn_tokenVerificationId rnd"
  obtain a :: account_row and e :: email_row and d us t db1 db2 where t: "createSessionToken C cfg now (rn_session rnd) d (db\<lparr> unblockCodes := us \<rparr>) = Inr (t, db1)"
    "lr_session r = t" "st_tokenVerificationId t = Some ?v" "st_mustVerify t"
    "db2 = securityEvent now (ac_uid a) ''account.login'' (sq_ipHmac q (ac_uid a)) (Some (tk_id t)) db1"
    "lr_keyFetch r = None \<and> db' = db2 \<or> (\<exists>k w. lr_keyFetch r = Some k \<and> createKeyFetchToken C now (rn_keyFetch rnd)
      (ac_uid a) (ac_kA a) w (em_isVerified e) (Some ?v) db2 = Inr (k, db'))"
    "\<not> vs_verified (lr_status r)"
    by (rule totp_login_session [OF assms(2-5)])
  have f: "fresh_token (tk_id t) (db\<lparr> unblockCodes := us \<rparr>)" using assms(6) t(2) by (simp add: fresh_token_def)
  have ok: "auth_ok (db\<lparr> unblockCodes := us \<rparr>)" using assms(1) by (simp add: ok_tables)
  obtain s where s: "find (\<lambda>s. se_tokenId s = tk_id t) (sessionTokens db1) = Some s" "se_tokenId s = tk_id t"
    "se_mustVerify s = Some True" "se_verificationMethod s = None"
    using created_must_verify [OF t(1) f] t(4) by auto
  have m: "map_option un_tokenVerificationId (find (\<lambda>m. un_tokenId m = tk_id t) (unverifiedTokens db1)) = Some ?v"
    unfolding t(3) [symmetric] by (rule created_row [OF ok t(1) f])
  have "sessionTokens db' = sessionTokens db1" "\<exists>ms. unverifiedTokens db' = unverifiedTokens db1 @ ms"
    using t(5,6) by (auto simp: createKeyFetchToken_Inr createKeyFetchToken_2_Inr)
  then have s': "find (\<lambda>s. se_tokenId s = tk_id t) (sessionTokens db') = Some s"
    "map_option un_tokenVerificationId (find (\<lambda>m. un_tokenId m = tk_id t) (unverifiedTokens db')) = Some ?v"
    using s(1) m by (auto simp: find_append split: option.splits)
  have "account_keys k' db' = Inl UnverifiedAccount"
    if k: "lr_keyFetch r = Some k" "keyFetchTokenWithVerificationStatus (tk_id k) db' = Inr k'" for k k'
  proof -
    obtain w where c: "createKeyFetchToken C now (rn_keyFetch rnd) (ac_uid a) (ac_kA a) w (em_isVerified e) (Some ?v) db2 = Inr (k, db')"
      using t(6) k(1) by auto
    have "fresh_token (tk_id k) db2"
      using assms(7) k(1) t(1,2,5) by (auto simp: fresh_token_def createSessionToken_Inr createSessionToken_9_Inr split: option.splits)
    then show ?thesis using marked_keys [OF c _ assms(5) k(2)] by blast
  qed
  then show ?thesis using marked_session [OF s'(1) s(2-4) s'(2) assms(5)] t(2,7) by blast
qed

theorem totp_login_waits_witness:
  "\<exists>r db'. login sample_crypto sample_config open_config idle 6000 login_random login_request (Passed False) two_users = (Inr r, db') \<and>
    \<not> vs_verified (lr_status r)"
proof -
  let ?C = sample_crypto and ?a = "user_row ''a1'' ''a@x''" and ?e = "mail_row ''a1'' ''a@x'' True"
  have load: "checkCustomsAndLoadAccount ?C open_config 6000 login_request (Passed False) two_users = (Inr ((?a, Some ?e), False), two_users)"
    using login_request_checked(2,3) login_record by (simp add: checkCustomsAndLoadAccount_def)
  have x: "truthy_int (ac_disabledAt ?a) = None" "ac_uid ?a = ''a1''" by (simp_all add: user_row_def)
  have totp: "checkTotpToken ''a1'' (sq_verificationMethod login_request) two_users = Inr (Some ''totp-2fa'')"
    using two_users_totp(1) by (simp add: checkTotpToken_def)
  define plan where "plan = plan_session open_config 6000 (isSuspiciousRequest open_config (sq_email login_request) (Passed False)) False
    (sq_keys login_request) (checkSecurityHistory 6000 (findByUidAndIP ''a1'' (sq_ipHmac login_request ''a1'') two_users))
    (Some ''totp-2fa'') ?a ?e"
  have log: "login ?C sample_config open_config idle 6000 login_random login_request (Passed False) two_users =
      login_tokens ?C sample_config 6000 login_random login_request plan sample_password ?a ?e two_users"
    using login_request_checked(1,5) load x totp by (simp add: login_def require_def plan_def)
  define d where "d = signin_details (sq_ua login_request) ''a1'' (em_email ?e) (em_emailCode ?e) (em_isVerified ?e)
    (ac_verifierSetAt ?a) (pl_mustVerifySession plan) (Some (rn_tokenVerificationId login_random))"
  define t where "t = SessionToken_create ?C sample_config 6000 (rn_session login_random) d"
  have n: "pl_needsVerificationId plan" by (simp add: plan_def totp_plan)
  have f: "fresh_token (k_id (deriveTokenKeys ?C ''sessionToken'' (rn_session login_random))) two_users"
    using two_users_fresh [of 3] by (simp add: login_random_def)
  obtain db1 where c: "createSessionToken ?C sample_config 6000 (rn_session login_random) d two_users = Inr (t, db1)"
    using createSessionToken_total [OF _ _ f, of d "''a1''"] by (auto simp: d_def t_def)
  define db2 where "db2 = securityEvent 6000 ''a1'' ''account.login'' (sq_ipHmac login_request ''a1'') (Some (tk_id t)) db1"
  obtain w where w: "unwrap ?C sample_password (ac_wrapWrapKb ?a) = Inr w" using sample_unwrap by blast
  have tv: "st_tokenVerificationId t = Some ''beef''" "tk_id t = toString_hex (3 # replicate 31 7)" "tk_uid t = Some ''a1''"
    by (simp_all add: t_def d_def login_random_def sample_token_ids)
  let ?i = "k_id (deriveTokenKeys ?C ''keyFetchToken'' (rn_keyFetch login_random))"
  have i: "?i = toString_hex (4 # replicate 31 7)" by (simp add: sample_token_ids login_random_def)
  have u: "unverifiedTokens db2 = [\<lparr> un_tokenId = tk_id t, un_tokenVerificationId = ''beef'', un_uid = ''a1'', un_mustVerify = st_mustVerify t \<rparr>]"
    "keyFetchTokens db2 = []"
    using c tv(1,3) by (auto simp: db2_def createSessionToken_Inr createSessionToken_9_Inr two_users_def no_tables_def)
  obtain k db' where k: "createKeyFetchToken ?C 6000 (rn_keyFetch login_random) ''a1'' (ac_kA ?a) w (em_isVerified ?e)
      (st_tokenVerificationId t) db2 = Inr (k, db')"
    using createKeyFetchToken_total [OF sample_crypto_ok refl, of "rn_keyFetch login_random" db2 "st_tokenVerificationId t"] u i tv(2)
    by simp blast
  have sk: "signin_createKeyFetchToken ?C 6000 (rn_keyFetch login_random) ?a ?e sample_password (st_tokenVerificationId t) db2 = Inr (k, db')"
    using w k x(2) by (simp add: signin_createKeyFetchToken_def)
  obtain r where r: "login ?C sample_config open_config idle 6000 login_random login_request (Passed False) two_users = (Inr r, db')"
    "lr_session r = t" "lr_keyFetch r = Some k"
    using c sk n x(2) login_request_checked(4)
    by (simp add: log login_tokens_def Let_def d_def [symmetric] db2_def [symmetric])
  have ki: "tk_id k = ?i" using k created_key_fields(1) by (auto simp: createKeyFetchToken_Inr)
  have "fresh_token (tk_id k) two_users" using two_users_fresh [of 4] by (simp add: ki login_random_def)
  then have kf: "\<forall>k. lr_keyFetch r = Some k \<longrightarrow> fresh_token (tk_id k) two_users \<and> tk_id k \<noteq> tk_id (lr_session r)"
    using r(2,3) ki i tv(2) by simp
  have tf: "fresh_token (tk_id (lr_session r)) two_users" using f r(2) by (simp add: t_def)
  have "tk_uid (lr_session r) = Some ''a1''" "rn_tokenVerificationId login_random \<noteq> []"
    using r(2) tv(3) by (simp_all add: login_random_def)
  from totp_login_waits [OF two_users_ok(1) r(1) this(1) two_users_totp(1) this(2) tf kf] r(1) show ?thesis by blast
qed

end
