(* ===== verification/Spec2Isabelle.thy ===== *)
theory Spec2Isabelle
  imports Dataflow Customs_Client Bounces OAuth_Refresh Session_Guarantees Auth_Emails
    Password_Guarantees Forgot_Guarantees Factor_Guarantees Signin_Guarantees
begin

text \<open>
  A verification development of the server side of Firefox Accounts: the customs server
  (\<open>packages/fxa-customs-server\<close>), the auth server with its database and the OAuth server inside it
  (\<open>packages/fxa-auth-server\<close>, the stored procedures of \<open>packages/db-migrations\<close> and the models of
  \<open>packages/fxa-shared/db\<close>), and the scopes of \<open>packages/fxa-shared/oauth\<close>.

  \<^bold>\<open>The program.\<close> A user signs in at the auth server with a password, from which the client derives
  what it sends, and perhaps a second factor. The auth server keeps accounts, email addresses,
  sessions and short-lived tokens in MySQL; a session that is not verified waits for a code from the
  mailbox or from a TOTP device. A verified session gets an assertion, and with it the OAuth server
  gives out codes, access tokens and refresh tokens for clients, each with a set of scopes. Access
  tokens live in Redis and in MySQL. Before it performs a sensitive action the auth server asks the
  customs server whether to let it happen. The customs server keeps one record per IP address, per
  email address, per pair of both, per phone number, per account id and per configured rule, in
  memcached; each request fetches its records, updates them with the action, stores them, and answers
  with the largest time to wait. On top of this there are bans, allow lists, block lists, a reputation
  service, messages of a fraud pipeline and settings that are reloaded at run time.

  \<^bold>\<open>The model.\<close> Methods are functions from a state and a time to a new state and a result; the time
  that \<open>Date.now()\<close> returns is an argument, one sample per synchronous block, and random bytes are
  arguments. Handlers map the state of the world and a request to the new state and a reply. A thrown
  error or a rejected promise is a value of a sum or option type; a handler that fails after it has
  changed a table returns the error and the changed tables. Numbers are integers: all of them are
  timestamps, durations or counters. Code outside the repository is a parameter: memcached
  (\<open>memcached_ok\<close> is what its documentation promises about a stored value), the HTTP client of the
  reputation service, the package \<open>ip\<close>, regular expressions, parsers of JSON, dates and hosts, Joi
  schemas, the hash functions, HKDF and scrypt (the record \<open>crypto\<close>; \<open>crypto_ok\<close> fixes the lengths of
  their outputs), the signatures of JWTs, and otplib (\<open>otp_ok\<close>: a generated code is accepted).

  \<^bold>\<open>The customs server\<close> (paths below \<open>packages/fxa-customs-server/lib\<close> unless said otherwise):

  \<^item> \<open>JS_Prelude\<close>: JSON values, objects as dictionaries, strings, arithmetic of timestamps.
  \<^item> \<open>Sliding_Window\<close>: the trimming loop that most records share, its specification, and two
    contracts: \<open>cooldown\<close> (a record that can limit itself and says how long) and \<open>throttle\<close> (a
    record that counts requests in a window). The bound on the number of requests let through
    in any window is proved once, from \<open>throttle\<close>.
  \<^item> \<open>Actions\<close>: \<open>actions.js\<close>, \<open>block_reasons.js\<close>.
  \<^item> \<open>Limits\<close>, \<open>Settings\<close>: \<open>settings/*.js\<close> and the limits of \<open>config/config.js\<close>; the contract
    \<open>hot_settings\<close> of a settings class, met by all five classes.
  \<^item> \<open>Cache\<close>: the interface of memcached and a table that implements it.
  \<^item> \<open>Rule_Record\<close>, \<open>Sms_Record\<close>, \<open>Ip_Email_Record\<close>, \<open>Uid_Record\<close>, \<open>Email_Record\<close>, \<open>Ip_Record\<close>:
    \<open>record.js\<close>, \<open>sms_record.js\<close>, \<open>ip_email_record.js\<close>, \<open>uid_record.js\<close>, \<open>email_record.js\<close>,
    \<open>ip_record.js\<close>, every method of each. Parsing a marshalled record gives it back; the
    counters are bounded in every window; times to wait are sufficient; the verdicts of the IP
    record are those of a specification that trims nothing.
  \<^item> \<open>Reputation\<close>, \<open>Ip_Blocklist\<close>: \<open>reputationService.js\<close>, \<open>ip_blocklist.js\<close>,
    \<open>ip_blocklist_manager.js\<close>. A loaded list contains exactly what its rows cover.
  \<^item> \<open>Records_Store\<close>: \<open>records.js\<close>; the contract \<open>stored_record\<close> of a record class, met by all six.
  \<^item> \<open>User_Rules\<close>: \<open>user_defined_rules.js\<close>, \<open>utils.js\<close>; what becomes of one, two and three rules
    for an action.
  \<^item> \<open>Customs_Server\<close>: \<open>server.js\<close> and \<open>bans/handler.js\<close>, every handler; \<open>Default_Config\<close>: the rest
    of the default configuration and a server with it, which the concrete instances use.
  \<^item> \<open>Customs_Guarantees\<close>, \<open>Customs_Scenarios\<close>: email addresses, allow lists, errors and failed
    logins across requests.
  \<^item> \<open>Customs_Sequences\<close>: any sequence of requests, one after the other, keeps a ban until it ends;
    the contract \<open>bannable\<close> of a record class with bans, met by IP and email records.
  \<^item> \<open>Dataflow\<close>: \<open>dataflow.js\<close>.
  \<^item> \<open>Customs_Client\<close>: \<open>lib/customs.js\<close> and the service methods of \<open>lib/backendService.js\<close> of the
    auth server, composed with the handlers.

  \<^bold>\<open>The OAuth server\<close> (paths below \<open>packages/fxa-auth-server/lib\<close> unless said otherwise):

  \<^item> \<open>Scope_Url\<close>, \<open>Scope_Set\<close>: the parts of \<open>URL\<close> that are used, and \<open>scopes.js\<close> of the shared
    library. \<open>Scope_Laws\<close>, \<open>Scope_Order\<close>, \<open>Scope_Guarantees\<close>: a set stands for the scopes that it
    implies; union, containment and printing agree with this reading (contract \<open>implication\<close>).
  \<^item> \<open>Access_Token\<close>: \<open>oauth/db/accessToken.js\<close>, with the contract \<open>token_store\<close> of a store of tokens.
    \<open>Token_Cache\<close>: the Lua scripts on tokens here and in \<open>fxa-shared/db\<close>, and their callers;
    \<open>OAuth_Mysql\<close>: the statements on the tables. Both stores meet the contract.
  \<^item> \<open>Token_Cache_Laws\<close>, \<open>Token_Cache_Steps\<close>: every live token is listed for its user in every state
    that can be reached.
  \<^item> \<open>OAuth_DB\<close>, \<open>OAuth_DB_Laws\<close>, \<open>OAuth_DB_Guarantees\<close>: \<open>oauth/db/index.js\<close> over the two stores; what
    is revoked is gone from both.
  \<^item> \<open>OAuth_Client\<close>, \<open>Base64\<close>, \<open>OAuth_Grant\<close>, \<open>OAuth_Identity\<close>: authentication of clients, encodings,
    checks of a grant and generation of tokens, pairwise identifiers and claims of signed tokens.
  \<^item> \<open>OAuth_Token\<close>, \<open>OAuth_Endpoints\<close>: \<open>token.js\<close>, \<open>authorization.js\<close>, \<open>verify.js\<close>, \<open>destroy.js\<close>,
    \<open>introspect.js\<close> and \<open>key_data.js\<close> of \<open>routes/oauth\<close>. \<open>OAuth_Grant_Laws\<close>,
    \<open>OAuth_Token_Laws\<close>, \<open>OAuth_Flow\<close>, \<open>OAuth_Refresh\<close>: when a code is exchanged, that it works once,
    that the tokens verify until they are revoked, and that a refresh token never gives more than
    was granted.

  \<^bold>\<open>The auth server\<close> (paths below \<open>packages/fxa-auth-server/lib\<close> unless said otherwise):

  \<^item> \<open>Bounces\<close>: \<open>bounces.js\<close>, when a mail is refused.
  \<^item> \<open>Auth_Crypto\<close>: \<open>crypto\<close>; a bundle opens exactly with its keys. \<open>Auth_Tokens\<close>: \<open>tokens\<close>.
  \<^item> \<open>Auth_Store\<close>, \<open>Auth_Sessions\<close>, \<open>Auth_Codes\<close>, \<open>Auth_Devices\<close>: \<open>db/index.js\<close>, the models and the
    stored procedures on accounts, sessions, other credentials and devices.
  \<^item> \<open>Auth_Routes\<close>, \<open>Auth_Signin\<close>, \<open>Auth_Password\<close>, \<open>Auth_Factors\<close>, \<open>Auth_Emails\<close>: the handlers of
    \<open>routes/session.js\<close>, \<open>account.ts\<close>, \<open>password.js\<close>, \<open>totp.js\<close>, \<open>recovery-codes.js\<close>,
    \<open>recovery-key.js\<close> and \<open>emails.js\<close> that change state, and what they use of \<open>routes/utils\<close>.
  \<^item> \<open>Auth_Laws\<close>: the well-formedness \<open>auth_ok\<close> of the tables, kept by every operation;
    \<open>Auth_Flow_Laws\<close>: what follows when a handler succeeds (collection \<open>flow\<close>); \<open>Auth_Samples\<close>: the
    tables that the concrete instances use.
  \<^item> \<open>Session_Guarantees\<close>: assurance levels, primary addresses and duplicated sessions.
  \<^item> \<open>Signin_Guarantees\<close>: a login with TOTP waits for the second factor; reauthentication does not ask
    whose session it is.
  \<^item> \<open>Password_Guarantees\<close>, \<open>Forgot_Guarantees\<close>: what a reset, a change and a destruction revoke and
    keep, and how many codes of a forgotten password may be tried.
  \<^item> \<open>Factor_Guarantees\<close>: codes that unblock a login, recovery codes, and what codes from a mailbox can
    be used for.

  \<^bold>\<open>Termination.\<close> All definitions are total. Loops that are not structural, such as the trimming
  loops, are functions with a termination proof. The loop that generates codes until one is new runs
  over the list of codes that come up; \<open>Factor_Guarantees\<close> shows how long a list is enough.

  \<^bold>\<open>Not modelled.\<close> Logging, metrics, Sentry, Swagger, the HTTP framework, timers (\<open>setInterval\<close>
  polling is a sequence of \<open>refresh\<close> calls), requests that run interleaved with one another, and
  ill-typed JSON in the cache beyond a missing or wrongly typed property, which reads as absent. Of the
  auth server: the text of mails and reminders, push messages, payments, linked third-party accounts
  and accounts without a password, the cache of last access times of sessions in Redis, and requests
  that only read. Of the OAuth server: developer tables, registration of configured clients and the
  handlers for connected clients and public keys. The other packages (content, profile and GraphQL servers,
  event broker, front ends) are not modelled.
\<close>

end
